(* ===== verification/Prelude.thy ===== *)
theory Prelude
  imports Main "HOL-Library.AList" "HOL-Library.Char_ord" "HOL-Library.List_Lexorder"
    "HOL-Library.Multiset" "HOL-Library.Word"
begin

text \<open>
  Shared vocabulary of the development.

  \<^item> Go maps: \<^verbatim>\<open>map[string]T\<close> is an association list with distinct keys. Its list order
    stands for the order in which a \<^verbatim>\<open>range\<close> loop visits the entries, which Go leaves
    unspecified: every theorem is stated for all lists, hence for all orders.
  \<^item> Go integers: \<^verbatim>\<open>int64\<close> arithmetic that may overflow is written with \<open>wrap64\<close>, and
    \<open>go_div\<close> is Go's division, which truncates towards zero.
  \<^item> Interfaces: the locale \<open>kv_index\<close> of keyed registries with generation-guarded removal,
    and the locale \<open>step_invariant\<close> of step relations with an inductive invariant.
\<close>

named_theorems gomap \<open>lookup and key facts of Go maps\<close>
named_theorems frame \<open>what an operation leaves unchanged\<close>

section \<open>Go maps\<close>

type_synonym 'v gomap = "(string \<times> 'v) list"

abbreviation gm_get :: "'v gomap \<Rightarrow> string \<Rightarrow> 'v option" where
  "gm_get m k \<equiv> map_of m k"

abbreviation gm_set :: "string \<Rightarrow> 'v \<Rightarrow> 'v gomap \<Rightarrow> 'v gomap" where
  "gm_set k v m \<equiv> AList.update k v m"

abbreviation gm_del :: "string \<Rightarrow> 'v gomap \<Rightarrow> 'v gomap" where
  "gm_del k m \<equiv> AList.delete k m"

abbreviation gm_ok :: "'v gomap \<Rightarrow> bool" where
  "gm_ok m \<equiv> distinct (map fst m)"

lemma gm_get_set [simp, gomap]: "gm_get (gm_set k v m) k' = (if k' = k then Some v else gm_get m k')"
  by (simp add: update_conv')

lemma gm_get_del [simp, gomap]: "gm_get (gm_del k m) k' = (if k' = k then None else gm_get m k')"
  by (simp add: delete_conv')

lemma gm_ok_set [simp, gomap]: "gm_ok m \<Longrightarrow> gm_ok (gm_set k v m)"
  by (rule distinct_update)

lemma gm_ok_del [simp, gomap]: "gm_ok m \<Longrightarrow> gm_ok (gm_del k m)"
  by (rule distinct_delete)

lemma gm_set_nonempty [simp]: "gm_set k v m \<noteq> []"
  by (cases m) auto

lemma gm_get_None_iff: "gm_get m k = None \<longleftrightarrow> k \<notin> fst ` set m"
  by (rule map_of_eq_None_iff)

lemma gm_mem_iff: "gm_ok m \<Longrightarrow> (k, v) \<in> set m \<longleftrightarrow> gm_get m k = Some v"
  by simp

lemma length_gm_set: "length (gm_set k v m) = (if gm_get m k = None then Suc (length m) else length m)"
  by (induction m) auto

lemma gm_del_subset: "set (gm_del k m) \<subseteq> set m"
  by (auto simp: AList.delete_eq)

lemma length_gm_del_le: "length (gm_del k m) \<le> length m"
  by (rule length_delete_le)

lemma gm_del_id: "gm_get m k = None \<Longrightarrow> gm_del k m = m"
  by (induction m) (auto split: if_splits)

lemma gm_empty_iff: "m = [] \<longleftrightarrow> (\<forall>k. gm_get m k = None)"
  by (cases m) auto

section \<open>Go integers\<close>

definition wrap64 :: "int \<Rightarrow> int" where
  "wrap64 x = (x + 2 ^ 63) mod 2 ^ 64 - 2 ^ 63"

lemma wrap64_id: "- (2 ^ 63) \<le> x \<Longrightarrow> x < 2 ^ 63 \<Longrightarrow> wrap64 x = x"
  by (simp add: wrap64_def)

definition go_div :: "int \<Rightarrow> int \<Rightarrow> int" where
  "go_div a b = sgn a * sgn b * (\<bar>a\<bar> div \<bar>b\<bar>)"

lemma go_div_nonneg: "0 \<le> a \<Longrightarrow> 0 < b \<Longrightarrow> go_div a b = a div b"
  by (cases "a = 0") (auto simp: go_div_def)

section \<open>Errors of the store layer\<close>

text \<open>
  A store method fails with \<open>ErrNotFound\<close> (\<^verbatim>\<open>store.NewErrNotFound\<close>), with the validation error of the
  row (\<open>ErrInvalid\<close>, naming the offending message id), or with the error of the database itself.
\<close>

datatype store_error = ErrNotFound string string | ErrInvalid string | ErrSql string

fun IsErrNotFound :: "store_error \<Rightarrow> bool" where
  "IsErrNotFound (ErrNotFound _ _) = True"
| "IsErrNotFound _ = False"

section \<open>Keyed registries with generation-guarded removal\<close>

text \<open>
  The contract shared by the call registry and the channel index: a keyed mutable map to
  handles whose removal can be made conditional on the handle still being the registered one.
  The clients' lemmas say what this guard buys: a late teardown of an old generation cannot
  remove a newer one.
\<close>

locale kv_index =
  fixes ok :: "'m \<Rightarrow> bool"
    and look :: "'m \<Rightarrow> string \<Rightarrow> 'v option"
    and put :: "string \<Rightarrow> 'v \<Rightarrow> 'm \<Rightarrow> 'm"
    and del_if :: "string \<Rightarrow> 'v \<Rightarrow> 'm \<Rightarrow> bool \<times> 'm"
  assumes ok_put: "ok m \<Longrightarrow> ok (put k v m)"
    and ok_del_if: "ok m \<Longrightarrow> ok (snd (del_if k v m))"
    and look_put: "ok m \<Longrightarrow> look (put k v m) k' = (if k' = k then Some v else look m k')"
    and del_if_fst: "ok m \<Longrightarrow> fst (del_if k v m) \<longleftrightarrow> look m k = Some v"
    and look_del_if: "ok m \<Longrightarrow>
      look (snd (del_if k v m)) k' = (if k' = k \<and> look m k = Some v then None else look m k')"
begin

lemma late_delete_keeps_successor:
  assumes "ok m" and "old \<noteq> new"
  shows "fst (del_if k old (put k new m)) = False
    \<and> look (snd (del_if k old (put k new m))) = look (put k new m)"
  using assms by (auto simp: del_if_fst look_del_if look_put ok_put fun_eq_iff)

lemma delete_twice:
  assumes "ok m" and "fst (del_if k v m)"
  shows "fst (del_if k v (snd (del_if k v m))) = False"
  using assms by (simp add: del_if_fst look_del_if ok_del_if)

lemma put_then_del_if:
  assumes "ok m" and "look m k = None"
  shows "look (snd (del_if k v (put k v m))) = look m"
  using assms by (auto simp: look_del_if look_put ok_put fun_eq_iff)

end

section \<open>Step relations with an inductive invariant\<close>

locale step_invariant =
  fixes start :: "'s \<Rightarrow> bool"
    and step :: "'s \<Rightarrow> 's \<Rightarrow> bool"
    and inv :: "'s \<Rightarrow> bool"
  assumes inv_start: "start s \<Longrightarrow> inv s"
    and inv_step: "inv s \<Longrightarrow> step s t \<Longrightarrow> inv t"
begin

lemma inv_run: "step\<^sup>*\<^sup>* s t \<Longrightarrow> inv s \<Longrightarrow> inv t"
  by (induction rule: rtranclp_induct) (auto intro: inv_step)

lemma inv_reach: "start s \<Longrightarrow> step\<^sup>*\<^sup>* s t \<Longrightarrow> inv t"
  by (blast intro: inv_start inv_run)

end

end
