(* ===== verification/Calls_State.thy ===== *)
theory Calls_State
  imports Prelude
begin

text \<open>
  The live state of one call: \<^verbatim>\<open>calls/session.go\<close> and \<^verbatim>\<open>calls/state.go\<close>.

  A \<^verbatim>\<open>*session\<close> is a reference \<open>sref\<close> into a heap \<open>sheap\<close>, because the same session object is
  reachable from the \<open>sessions\<close> map, from the \<open>byConn\<close> map and from pending timers, and the code
  compares these pointers. Every method of \<^verbatim>\<open>callState\<close> runs under the call's mutex, so it is one
  atomic function of the call state and the heap. The fields \<^verbatim>\<open>recording\<close> and \<^verbatim>\<open>transcription\<close>,
  which no code writes, are left out.

  The lemmas show the well-formedness \<open>call_ok\<close> that every method keeps, the effect of every
  method on lookups, that the participant limit is never exceeded, and that the successor of a
  leaving host is the longest-tenured remaining participant whatever the iteration order.
\<close>

section \<open>Sessions\<close>

type_synonym sref = nat

record session =
  ss_userID :: string
  ss_channelID :: string
  ss_callID :: string
  ss_sessionID :: string
  ss_connID :: string
  ss_unmuted :: bool
  ss_screenOn :: bool
  ss_videoOn :: bool
  ss_voiceOn :: bool
  ss_raisedHandAt :: int
  ss_startAt :: int
  ss_rtcClosed :: int
  ss_removed :: int

type_synonym sheap = "sref \<Rightarrow> session"

definition compareAndSwap :: "int \<Rightarrow> int \<Rightarrow> int \<Rightarrow> bool \<times> int" where
  "compareAndSwap cur old new = (if cur = old then (True, new) else (False, cur))"

definition markRTCclosed :: "sref \<Rightarrow> sheap \<Rightarrow> bool \<times> sheap" where
  "markRTCclosed r h =
     (let (won, v) = compareAndSwap (ss_rtcClosed (h r)) 0 1
      in (won, h(r := (h r)\<lparr>ss_rtcClosed := v\<rparr>)))"

definition markRemoved :: "sref \<Rightarrow> sheap \<Rightarrow> bool \<times> sheap" where
  "markRemoved r h =
     (let (won, v) = compareAndSwap (ss_removed (h r)) 0 1
      in (won, h(r := (h r)\<lparr>ss_removed := v\<rparr>)))"

record SessionView =
  sw_ID :: string
  sw_UserID :: string
  sw_ChannelID :: string
  sw_Unmuted :: bool
  sw_VoiceOn :: bool
  sw_ScreenOn :: bool
  sw_VideoOn :: bool
  sw_RaisedHand :: int
  sw_StartAt :: int
  sw_IsHost :: bool

definition session_view :: "session \<Rightarrow> bool \<Rightarrow> SessionView" where
  "session_view s isHost =
     \<lparr>sw_ID = ss_sessionID s, sw_UserID = ss_userID s, sw_ChannelID = ss_channelID s,
      sw_Unmuted = ss_unmuted s, sw_VoiceOn = ss_voiceOn s, sw_ScreenOn = ss_screenOn s,
      sw_VideoOn = ss_videoOn s, sw_RaisedHand = ss_raisedHandAt s, sw_StartAt = ss_startAt s,
      sw_IsHost = isHost\<rparr>"

section \<open>Call state\<close>

datatype calls_error =
    ErrCallsDisabled
  | ErrNoSFUHost
  | ErrCallNotFound
  | ErrCallEnded
  | ErrMaxParticipants
  | ErrSessionNotFound
  | ErrNotCallHost
  | ErrChannelCallsDisabled
  | ErrMsg string
  | ErrUnknownType string
  | ErrStore store_error
  | ErrWrap string calls_error

text \<open>
  \<^verbatim>\<open>errors.Is\<close>: an error matches a sentinel when it is that sentinel or wraps an error that
  matches it. \<open>ErrWrap m e\<close> is \<^verbatim>\<open>fmt.Errorf("m: %w", e)\<close>; an error text sent to a browser is kept as
  the error value it prints.
\<close>

fun errors_is :: "calls_error \<Rightarrow> calls_error \<Rightarrow> bool" where
  "errors_is e target \<longleftrightarrow>
     e = target \<or> (case e of ErrWrap m e' \<Rightarrow> errors_is e' target | _ \<Rightarrow> False)"

declare errors_is.simps [simp del]

record callState =
  cs_callID :: string
  cs_channelID :: string
  cs_rtcdHost :: string
  cs_startAt :: int
  cs_sessions :: "sref gomap"
  cs_byConn :: "sref gomap"
  cs_hostSessionID :: string
  cs_endAt :: int
  cs_peakParticipants :: nat

definition newCallState :: "string \<Rightarrow> string \<Rightarrow> string \<Rightarrow> int \<Rightarrow> callState" where
  "newCallState callID channelID rtcdHost now =
     \<lparr>cs_callID = callID, cs_channelID = channelID, cs_rtcdHost = rtcdHost, cs_startAt = now,
      cs_sessions = [], cs_byConn = [], cs_hostSessionID = '''', cs_endAt = 0,
      cs_peakParticipants = 0\<rparr>"

definition participants :: "callState \<Rightarrow> nat" where
  "participants cs = length (cs_sessions cs)"

definition markEnded :: "int \<Rightarrow> callState \<Rightarrow> bool \<times> callState" where
  "markEnded now cs = (if cs_endAt cs > 0 then (False, cs) else (True, cs\<lparr>cs_endAt := now\<rparr>))"

definition ended :: "callState \<Rightarrow> bool" where
  "ended cs \<longleftrightarrow> cs_endAt cs > 0"

definition endedAt :: "callState \<Rightarrow> int" where
  "endedAt cs = cs_endAt cs"

definition peak :: "callState \<Rightarrow> nat" where
  "peak cs = cs_peakParticipants cs"

definition addSession ::
  "string \<Rightarrow> sref \<Rightarrow> int \<Rightarrow> sheap \<Rightarrow> callState \<Rightarrow> (calls_error + sref option) \<times> callState" where
  "addSession sessionID r limit h cs =
     (if gm_get (cs_sessions cs) sessionID = None \<and> limit > 0
         \<and> int (length (cs_sessions cs)) \<ge> limit
      then (Inl ErrMaxParticipants, cs)
      else
        let prev = gm_get (cs_sessions cs) sessionID;
            cs1 = cs\<lparr>cs_sessions := gm_set sessionID r (cs_sessions cs)\<rparr>;
            cs2 = (if ss_connID (h r) \<noteq> ''''
                   then cs1\<lparr>cs_byConn := gm_set (ss_connID (h r)) r (cs_byConn cs1)\<rparr> else cs1);
            cs3 = (if cs_hostSessionID cs2 = '''' then cs2\<lparr>cs_hostSessionID := sessionID\<rparr> else cs2);
            n = length (cs_sessions cs3);
            cs4 = (if n > cs_peakParticipants cs3 then cs3\<lparr>cs_peakParticipants := n\<rparr> else cs3)
        in (Inr prev, cs4))"

text \<open>The re-host loop of \<^verbatim>\<open>removeSession\<close>: \<open>bestID = ''''\<close> is the "none yet" sentinel.\<close>

fun pickHost :: "sheap \<Rightarrow> (string \<times> sref) list \<Rightarrow> string \<Rightarrow> int \<Rightarrow> string" where
  "pickHost h [] bestID bestStart = bestID"
| "pickHost h ((sid, other) # rest) bestID bestStart =
     (if bestID = '''' \<or> ss_startAt (h other) < bestStart
         \<or> (ss_startAt (h other) = bestStart \<and> sid < bestID)
      then pickHost h rest sid (ss_startAt (h other))
      else pickHost h rest bestID bestStart)"

definition removeSession ::
  "string \<Rightarrow> sheap \<Rightarrow> callState \<Rightarrow> (sref option \<times> string) \<times> callState" where
  "removeSession sessionID h cs =
     (case gm_get (cs_sessions cs) sessionID of
        None \<Rightarrow> ((None, ''''), cs)
      | Some r \<Rightarrow>
          let cs1 = cs\<lparr>cs_sessions := gm_del sessionID (cs_sessions cs)\<rparr>;
              cs2 = (if ss_connID (h r) \<noteq> ''''
                     then cs1\<lparr>cs_byConn := gm_del (ss_connID (h r)) (cs_byConn cs1)\<rparr> else cs1);
              cs3 = (if cs_hostSessionID cs2 = sessionID
                     then cs2\<lparr>cs_hostSessionID := pickHost h (cs_sessions cs2) '''' 0\<rparr> else cs2)
          in ((Some r, ss_connID (h r)), cs3))"

definition setConn ::
  "string \<Rightarrow> string \<Rightarrow> sheap \<Rightarrow> callState \<Rightarrow> bool \<times> sheap \<times> callState" where
  "setConn sessionID newConnID h cs =
     (case gm_get (cs_sessions cs) sessionID of
        None \<Rightarrow> (False, h, cs)
      | Some r \<Rightarrow>
          let cs1 = (if ss_connID (h r) \<noteq> ''''
                     then cs\<lparr>cs_byConn := gm_del (ss_connID (h r)) (cs_byConn cs)\<rparr> else cs);
              h1 = h(r := (h r)\<lparr>ss_connID := newConnID\<rparr>);
              cs2 = (if newConnID \<noteq> ''''
                     then cs1\<lparr>cs_byConn := gm_set newConnID r (cs_byConn cs1)\<rparr> else cs1)
          in (True, h1, cs2))"

definition connIDFor :: "string \<Rightarrow> sheap \<Rightarrow> callState \<Rightarrow> string" where
  "connIDFor sessionID h cs =
     (case gm_get (cs_sessions cs) sessionID of None \<Rightarrow> '''' | Some r \<Rightarrow> ss_connID (h r))"

definition cs_get :: "string \<Rightarrow> callState \<Rightarrow> sref option" where
  "cs_get sessionID cs = gm_get (cs_sessions cs) sessionID"

definition findByConn :: "string \<Rightarrow> callState \<Rightarrow> sref option" where
  "findByConn connID cs = gm_get (cs_byConn cs) connID"

definition mutate ::
  "string \<Rightarrow> (session \<Rightarrow> session) \<Rightarrow> sheap \<Rightarrow> callState \<Rightarrow> bool \<times> sheap" where
  "mutate sessionID fn h cs =
     (case gm_get (cs_sessions cs) sessionID of
        None \<Rightarrow> (False, h)
      | Some r \<Rightarrow> (True, h(r := fn (h r))))"

fun firstSharing :: "sheap \<Rightarrow> (string \<times> sref) list \<Rightarrow> sref option" where
  "firstSharing h [] = None"
| "firstSharing h ((sid, r) # rest) = (if ss_screenOn (h r) then Some r else firstSharing h rest)"

definition screenSharer :: "sheap \<Rightarrow> callState \<Rightarrow> sref option" where
  "screenSharer h cs = firstSharing h (cs_sessions cs)"

definition hostUserID :: "sheap \<Rightarrow> callState \<Rightarrow> string" where
  "hostUserID h cs =
     (if cs_hostSessionID cs = '''' then ''''
      else (case gm_get (cs_sessions cs) (cs_hostSessionID cs) of
              Some r \<Rightarrow> ss_userID (h r)
            | None \<Rightarrow> ''''))"

fun firstOfUser :: "sheap \<Rightarrow> string \<Rightarrow> (string \<times> sref) list \<Rightarrow> string option" where
  "firstOfUser h userID [] = None"
| "firstOfUser h userID ((sid, r) # rest) =
     (if ss_userID (h r) = userID then Some sid else firstOfUser h userID rest)"

definition setHostByUser :: "string \<Rightarrow> sheap \<Rightarrow> callState \<Rightarrow> bool \<times> callState" where
  "setHostByUser userID h cs =
     (case firstOfUser h userID (cs_sessions cs) of
        Some sid \<Rightarrow> (True, cs\<lparr>cs_hostSessionID := sid\<rparr>)
      | None \<Rightarrow> (False, cs))"

definition snapshot :: "sheap \<Rightarrow> callState \<Rightarrow> SessionView list \<times> string" where
  "snapshot h cs =
     (map (\<lambda>(sessionID, r). session_view (h r) (sessionID = cs_hostSessionID cs)) (cs_sessions cs),
      cs_hostSessionID cs)"

definition sessionIDs :: "callState \<Rightarrow> string list" where
  "sessionIDs cs = map fst (cs_sessions cs)"

record CallStateView =
  cv_CallID :: string
  cv_ChannelID :: string
  cv_StartAt :: int
  cv_EndAt :: int
  cv_RTCDHost :: string
  cv_Sessions :: "SessionView list"
  cv_Participants :: nat
  cv_HostSessionID :: string

section \<open>Well-formedness\<close>

text \<open>
  \<open>session_ok\<close>: a registered session carries its own key and the id of its call.
  \<open>host_ok\<close>: a call has a host exactly while it has participants, and the host is one of them.
\<close>

definition session_ok :: "sheap \<Rightarrow> callState \<Rightarrow> string \<Rightarrow> sref \<Rightarrow> bool" where
  "session_ok h cs sid r \<longleftrightarrow>
     sid \<noteq> '''' \<and> ss_sessionID (h r) = sid \<and> ss_callID (h r) = cs_callID cs"

definition host_ok :: "callState \<Rightarrow> bool" where
  "host_ok cs \<longleftrightarrow>
     (if cs_sessions cs = [] then cs_hostSessionID cs = ''''
      else cs_hostSessionID cs \<noteq> '''' \<and> gm_get (cs_sessions cs) (cs_hostSessionID cs) \<noteq> None)"

definition call_ok :: "sheap \<Rightarrow> callState \<Rightarrow> bool" where
  "call_ok h cs \<longleftrightarrow>
     gm_ok (cs_sessions cs) \<and> gm_ok (cs_byConn cs)
     \<and> (\<forall>(sid, r) \<in> set (cs_sessions cs). session_ok h cs sid r)
     \<and> host_ok cs \<and> participants cs \<le> cs_peakParticipants cs"

definition one_sharer :: "sheap \<Rightarrow> callState \<Rightarrow> bool" where
  "one_sharer h cs \<longleftrightarrow>
     (\<forall>(sid, r) \<in> set (cs_sessions cs). \<forall>(sid', r') \<in> set (cs_sessions cs).
        ss_screenOn (h r) \<longrightarrow> ss_screenOn (h r') \<longrightarrow> sid = sid')"

lemma call_okD:
  assumes "call_ok h cs"
  shows "gm_ok (cs_sessions cs)" and "gm_ok (cs_byConn cs)" and "host_ok cs"
    and "gm_get (cs_sessions cs) sid = Some r \<Longrightarrow> session_ok h cs sid r"
    and "length (cs_sessions cs) \<le> cs_peakParticipants cs"
  using assms by (auto simp: call_ok_def participants_def dest: map_of_SomeD)

lemma call_okI:
  assumes "gm_ok (cs_sessions cs)" and "gm_ok (cs_byConn cs)"
    and "\<And>sid r. gm_get (cs_sessions cs) sid = Some r \<Longrightarrow> session_ok h cs sid r"
    and "host_ok cs" and "length (cs_sessions cs) \<le> cs_peakParticipants cs"
  shows "call_ok h cs"
  using assms by (auto simp: call_ok_def participants_def)

lemma one_sharer_alt:
  assumes "gm_ok (cs_sessions cs)"
  shows "one_sharer h cs \<longleftrightarrow>
    (\<forall>sid r sid' r'. gm_get (cs_sessions cs) sid = Some r \<longrightarrow> gm_get (cs_sessions cs) sid' = Some r'
       \<longrightarrow> ss_screenOn (h r) \<longrightarrow> ss_screenOn (h r') \<longrightarrow> sid = sid')"
  using assms by (fastforce simp: one_sharer_def)

lemma session_ok_ne: "session_ok h cs sid r \<Longrightarrow> sid \<noteq> ''''"
  by (simp add: session_ok_def)

text \<open>Both predicates read the heap only at the registered sessions.\<close>

lemma call_ok_heap:
  assumes "call_ok h cs"
    and "\<And>sid r. gm_get (cs_sessions cs) sid = Some r \<Longrightarrow>
      ss_sessionID (h' r) = ss_sessionID (h r) \<and> ss_callID (h' r) = ss_callID (h r)"
  shows "call_ok h' cs"
proof (rule call_okI)
  fix sid r assume g: "gm_get (cs_sessions cs) sid = Some r"
  from call_okD(4)[OF assms(1) g] assms(2)[OF g] show "session_ok h' cs sid r"
    by (simp add: session_ok_def)
qed (use call_okD[OF assms(1)] in auto)

lemma one_sharer_heap:
  assumes "gm_ok (cs_sessions cs)" and "one_sharer h cs"
    and "\<And>sid r. gm_get (cs_sessions cs) sid = Some r \<Longrightarrow> ss_screenOn (h' r) \<Longrightarrow> ss_screenOn (h r)"
  shows "one_sharer h' cs"
  using assms(2,3) unfolding one_sharer_alt[OF assms(1)] by blast

section \<open>The successor of a leaving host\<close>

definition before :: "sheap \<Rightarrow> string \<Rightarrow> sref \<Rightarrow> string \<Rightarrow> sref \<Rightarrow> bool" where
  "before h sid r sid' r' \<longleftrightarrow>
     ss_startAt (h r) < ss_startAt (h r') \<or> (ss_startAt (h r) = ss_startAt (h r') \<and> sid \<le> sid')"

lemma before_refl [simp]: "before h sid r sid r"
  by (simp add: before_def)

lemma before_trans: "before h a ra b rb \<Longrightarrow> before h b rb c rc \<Longrightarrow> before h a ra c rc"
  by (auto simp: before_def)

lemma pickHost_least:
  assumes "\<forall>(sid, r) \<in> set xs. sid \<noteq> ''''" and "b \<noteq> ''''" and "ss_startAt (h rb) = bs"
  shows "\<exists>r. (pickHost h xs b bs, r) \<in> insert (b, rb) (set xs)
    \<and> (\<forall>(sid', r') \<in> insert (b, rb) (set xs). before h (pickHost h xs b bs) r sid' r')"
  using assms
proof (induction xs arbitrary: b bs rb)
  case Nil
  then show ?case by auto
next
  case (Cons x xs)
  obtain sid r where x: "x = (sid, r)" by (cases x)
  from Cons.prems x have ne: "\<forall>(sid, r) \<in> set xs. sid \<noteq> ''''" and "sid \<noteq> ''''" by auto
  show ?case
  proof (cases "ss_startAt (h r) < bs \<or> (ss_startAt (h r) = bs \<and> sid < b)")
    case True
    then have eq: "pickHost h (x # xs) b bs = pickHost h xs sid (ss_startAt (h r))" using x by auto
    have "before h sid r b rb" using True Cons.prems(3) by (auto simp: before_def)
    moreover obtain q where "(pickHost h xs sid (ss_startAt (h r)), q) \<in> insert (sid, r) (set xs)"
      and "\<forall>(sid', r') \<in> insert (sid, r) (set xs).
             before h (pickHost h xs sid (ss_startAt (h r))) q sid' r'"
      using Cons.IH[OF ne \<open>sid \<noteq> ''''\<close> refl] by blast
    ultimately show ?thesis unfolding eq
      by (intro exI[of _ q]) (auto simp: x intro: before_trans)
  next
    case False
    then have eq: "pickHost h (x # xs) b bs = pickHost h xs b bs" using x Cons.prems(2) by auto
    have "before h b rb sid r" using False Cons.prems(3) by (auto simp: before_def)
    moreover obtain q where "(pickHost h xs b bs, q) \<in> insert (b, rb) (set xs)"
      and "\<forall>(sid', r') \<in> insert (b, rb) (set xs). before h (pickHost h xs b bs) q sid' r'"
      using Cons.IH[OF ne Cons.prems(2,3)] by blast
    ultimately show ?thesis unfolding eq
      by (intro exI[of _ q]) (auto simp: x intro: before_trans)
  qed
qed

lemma pickHost_start:
  assumes "\<forall>(sid, r) \<in> set xs. sid \<noteq> ''''" and "xs \<noteq> []"
  shows "\<exists>r. (pickHost h xs '''' 0, r) \<in> set xs
    \<and> (\<forall>(sid', r') \<in> set xs. before h (pickHost h xs '''' 0) r sid' r')"
proof -
  obtain sid r ys where xs: "xs = (sid, r) # ys" using assms(2) by (cases xs) auto
  with assms have "pickHost h xs '''' 0 = pickHost h ys sid (ss_startAt (h r))" by simp
  with pickHost_least[of ys sid h r "ss_startAt (h r)"] xs assms(1) show ?thesis by auto
qed

lemma pickHost_perm:
  assumes "set xs = set ys" and "\<forall>(sid, r) \<in> set xs. sid \<noteq> ''''"
  shows "pickHost h xs '''' 0 = pickHost h ys '''' 0"
proof (cases "xs = []")
  case True
  with assms show ?thesis by simp
next
  case False
  with assms have "ys \<noteq> []" by auto
  from pickHost_start[OF assms(2) False]
  obtain r1 where 1: "(pickHost h xs '''' 0, r1) \<in> set xs"
    "\<forall>(sid', r') \<in> set xs. before h (pickHost h xs '''' 0) r1 sid' r'" by blast
  from pickHost_start[of ys h] assms \<open>ys \<noteq> []\<close>
  obtain r2 where 2: "(pickHost h ys '''' 0, r2) \<in> set ys"
    "\<forall>(sid', r') \<in> set ys. before h (pickHost h ys '''' 0) r2 sid' r'" by auto
  have "before h (pickHost h xs '''' 0) r1 (pickHost h ys '''' 0) r2"
    using 1(2) 2(1) assms(1) by auto
  moreover have "before h (pickHost h ys '''' 0) r2 (pickHost h xs '''' 0) r1"
    using 2(2) 1(1) assms(1) by auto
  ultimately show ?thesis by (auto simp: before_def)
qed

section \<open>Every method keeps the call well-formed\<close>

lemma newCallState_ok: "call_ok h (newCallState cid ch host now)"
  by (simp add: newCallState_def call_ok_def host_ok_def participants_def)

lemma markEnded_ok [simp]: "call_ok h (snd (markEnded now cs)) = call_ok h cs"
  by (simp add: markEnded_def call_ok_def host_ok_def participants_def session_ok_def)

lemma addSession_cases:
  obtains (full) "addSession sid r limit h cs = (Inl ErrMaxParticipants, cs)"
      "gm_get (cs_sessions cs) sid = None" "limit > 0" "int (length (cs_sessions cs)) \<ge> limit"
  | (added) cs' where "addSession sid r limit h cs = (Inr (gm_get (cs_sessions cs) sid), cs')"
      "cs_sessions cs' = gm_set sid r (cs_sessions cs)"
      "cs_byConn cs' = (if ss_connID (h r) \<noteq> '''' then gm_set (ss_connID (h r)) r (cs_byConn cs)
                        else cs_byConn cs)"
      "cs_hostSessionID cs' = (if cs_hostSessionID cs = '''' then sid else cs_hostSessionID cs)"
      "cs_peakParticipants cs' = max (cs_peakParticipants cs) (length (cs_sessions cs'))"
      "cs_callID cs' = cs_callID cs" "cs_channelID cs' = cs_channelID cs"
      "cs_rtcdHost cs' = cs_rtcdHost cs" "cs_endAt cs' = cs_endAt cs" "cs_startAt cs' = cs_startAt cs"
      "gm_get (cs_sessions cs) sid \<noteq> None \<or> limit \<le> 0 \<or> int (length (cs_sessions cs)) < limit"
proof (cases "gm_get (cs_sessions cs) sid = None \<and> limit > 0 \<and> int (length (cs_sessions cs)) \<ge> limit")
  case True
  then show ?thesis using full by (simp add: addSession_def)
next
  case False
  let ?cs' = "snd (addSession sid r limit h cs)"
  have "addSession sid r limit h cs = (Inr (gm_get (cs_sessions cs) sid), ?cs')"
    using False by (auto simp: addSession_def Let_def)
  then show ?thesis
    using False by (intro added[of ?cs']) (auto simp: addSession_def Let_def)
qed

lemma addSession_ok:
  assumes "call_ok h cs" and "ss_sessionID (h r) = sid" and "sid \<noteq> ''''"
    and "ss_callID (h r) = cs_callID cs"
  shows "call_ok h (snd (addSession sid r limit h cs))"
proof (cases rule: addSession_cases[of sid r limit h cs])
  case full
  with assms show ?thesis by simp
next
  case (added cs')
  have "host_ok cs'"
    using call_okD(3)[OF assms(1)] added(2,4) assms(3) by (auto simp: host_ok_def split: if_splits)
  moreover have "session_ok h cs' k q" if "gm_get (cs_sessions cs') k = Some q" for k q
    using that added(2,6) assms call_okD(4)[OF assms(1), of k q]
    by (auto simp: session_ok_def split: if_splits)
  ultimately have "call_ok h cs'"
    using added(2,3,5) call_okD(1,2)[OF assms(1)] by (intro call_okI) auto
  with added(1) show ?thesis by simp
qed

lemma removeSession_cases:
  obtains (absent) "gm_get (cs_sessions cs) sid = None" "removeSession sid h cs = ((None, ''''), cs)"
  | (removed) r cs' where "gm_get (cs_sessions cs) sid = Some r"
      "removeSession sid h cs = ((Some r, ss_connID (h r)), cs')"
      "cs_sessions cs' = gm_del sid (cs_sessions cs)"
      "cs_byConn cs' = (if ss_connID (h r) \<noteq> '''' then gm_del (ss_connID (h r)) (cs_byConn cs)
                        else cs_byConn cs)"
      "cs_hostSessionID cs' = (if cs_hostSessionID cs = sid
         then pickHost h (gm_del sid (cs_sessions cs)) '''' 0 else cs_hostSessionID cs)"
      "cs_peakParticipants cs' = cs_peakParticipants cs"
      "cs_callID cs' = cs_callID cs" "cs_channelID cs' = cs_channelID cs"
      "cs_rtcdHost cs' = cs_rtcdHost cs" "cs_endAt cs' = cs_endAt cs" "cs_startAt cs' = cs_startAt cs"
proof (cases "gm_get (cs_sessions cs) sid")
  case None
  then show ?thesis using absent by (simp add: removeSession_def)
next
  case (Some r)
  let ?cs' = "snd (removeSession sid h cs)"
  have "removeSession sid h cs = ((Some r, ss_connID (h r)), ?cs')"
    using Some by (auto simp: removeSession_def Let_def)
  then show ?thesis
    using Some by (intro removed[of r ?cs']) (auto simp: removeSession_def Let_def)
qed

lemma call_ok_keys_ne:
  assumes "call_ok h cs"
  shows "\<forall>(k, r) \<in> set (gm_del sid (cs_sessions cs)). k \<noteq> ''''"
  using assms gm_del_subset[of sid "cs_sessions cs"] by (fastforce simp: call_ok_def session_ok_def)

lemma pickHost_host_ok:
  assumes "call_ok h cs" and "cs_sessions cs' = gm_del sid (cs_sessions cs)"
    and "cs_hostSessionID cs' = pickHost h (gm_del sid (cs_sessions cs)) '''' 0"
  shows "host_ok cs'"
proof (cases "cs_sessions cs' = []")
  case True
  with assms show ?thesis by (simp add: host_ok_def)
next
  case False
  note ne = call_ok_keys_ne[OF assms(1), of sid, folded assms(2)]
  obtain r where r: "(pickHost h (cs_sessions cs') '''' 0, r) \<in> set (cs_sessions cs')"
    using pickHost_start[OF ne False] by blast
  have "pickHost h (cs_sessions cs') '''' 0 \<noteq> ''''"
    using bspec[OF ne r] by simp
  moreover have "gm_get (cs_sessions cs') (pickHost h (cs_sessions cs') '''' 0) \<noteq> None"
    using r by (simp add: gm_get_None_iff rev_image_eqI)
  ultimately show ?thesis using False assms(2,3) by (simp add: host_ok_def)
qed

lemma removeSession_ok:
  assumes "call_ok h cs"
  shows "call_ok h (snd (removeSession sid h cs))"
proof (cases rule: removeSession_cases[of cs sid h])
  case absent
  with assms show ?thesis by simp
next
  case (removed r cs')
  have "host_ok cs'"
  proof (cases "cs_hostSessionID cs = sid")
    case True
    with removed show ?thesis by (intro pickHost_host_ok[OF assms]) simp_all
  next
    case False
    have "gm_get (cs_sessions cs') (cs_hostSessionID cs) \<noteq> None" and "cs_hostSessionID cs \<noteq> ''''"
      using False call_okD(3)[OF assms] removed(1,3) by (auto simp: host_ok_def split: if_splits)
    with False removed(5) show ?thesis by (auto simp: host_ok_def)
  qed
  moreover have "length (cs_sessions cs') \<le> cs_peakParticipants cs'"
    using call_okD(5)[OF assms] length_gm_del_le[of sid "cs_sessions cs"] removed(3,6) by simp
  moreover have "session_ok h cs' k q" if "gm_get (cs_sessions cs') k = Some q" for k q
    using that removed(3,7) call_okD(4)[OF assms, of k q]
    by (auto simp: session_ok_def split: if_splits)
  ultimately have "call_ok h cs'"
    using removed(3,4) call_okD(1,2)[OF assms] by (intro call_okI) auto
  with removed(2) show ?thesis by simp
qed

lemma mutate_heap [simp]:
  assumes "\<And>s. ss_sessionID (fn s) = ss_sessionID s" and "\<And>s. ss_callID (fn s) = ss_callID s"
  shows "ss_sessionID (snd (mutate sid fn h cs) r) = ss_sessionID (h r)"
    and "ss_callID (snd (mutate sid fn h cs) r) = ss_callID (h r)"
  using assms by (auto simp: mutate_def split: option.splits)

lemma mutate_ok:
  assumes "\<And>s. ss_sessionID (fn s) = ss_sessionID s" and "\<And>s. ss_callID (fn s) = ss_callID s"
    and "call_ok h cs'"
  shows "call_ok (snd (mutate sid fn h cs)) cs'"
  using assms by (intro call_ok_heap[OF assms(3)]) simp

lemma firstOfUser_Some:
  "firstOfUser h u xs = Some sid \<Longrightarrow> \<exists>r. (sid, r) \<in> set xs \<and> ss_userID (h r) = u"
  by (induction xs) (auto split: if_splits)

lemma firstOfUser_None:
  "firstOfUser h u xs = None \<longleftrightarrow> (\<forall>(sid, r) \<in> set xs. ss_userID (h r) \<noteq> u)"
  by (induction xs) (auto split: if_splits)

lemma setHostByUser_ok:
  assumes "call_ok h cs"
  shows "call_ok h (snd (setHostByUser u h cs))"
proof (cases "firstOfUser h u (cs_sessions cs)")
  case None
  with assms show ?thesis by (simp add: setHostByUser_def)
next
  case (Some sid)
  obtain r where r: "(sid, r) \<in> set (cs_sessions cs)"
    using firstOfUser_Some[OF Some] by blast
  then have "gm_get (cs_sessions cs) sid = Some r"
    using call_okD(1)[OF assms] by simp
  moreover have "sid \<noteq> ''''"
    using call_okD(4)[OF assms calculation] by (simp add: session_ok_def)
  ultimately show ?thesis
    using Some assms r by (auto simp: setHostByUser_def call_ok_def host_ok_def participants_def session_ok_def)
qed

lemma setConn_cases:
  obtains (absent) "gm_get (cs_sessions cs) sid = None" "setConn sid c h cs = (False, h, cs)"
  | (moved) r cs' where "gm_get (cs_sessions cs) sid = Some r"
      "setConn sid c h cs = (True, h(r := (h r)\<lparr>ss_connID := c\<rparr>), cs')"
      "cs_sessions cs' = cs_sessions cs"
      "cs_byConn cs' = (let m = (if ss_connID (h r) \<noteq> '''' then gm_del (ss_connID (h r)) (cs_byConn cs)
                                 else cs_byConn cs)
                        in if c \<noteq> '''' then gm_set c r m else m)"
      "cs_hostSessionID cs' = cs_hostSessionID cs"
      "cs_peakParticipants cs' = cs_peakParticipants cs"
      "cs_callID cs' = cs_callID cs" "cs_channelID cs' = cs_channelID cs"
      "cs_rtcdHost cs' = cs_rtcdHost cs" "cs_endAt cs' = cs_endAt cs" "cs_startAt cs' = cs_startAt cs"
proof (cases "gm_get (cs_sessions cs) sid")
  case None
  then show ?thesis using absent by (simp add: setConn_def)
next
  case (Some r)
  let ?cs' = "snd (snd (setConn sid c h cs))"
  have "setConn sid c h cs = (True, h(r := (h r)\<lparr>ss_connID := c\<rparr>), ?cs')"
    using Some by (auto simp: setConn_def Let_def)
  then show ?thesis
    using Some by (intro moved[of r ?cs']) (auto simp: setConn_def Let_def)
qed

lemma setConn_ok:
  assumes "call_ok h cs" and "setConn sid c h cs = (b, h', cs')"
  shows "call_ok h' cs'"
proof (cases rule: setConn_cases[of cs sid c h])
  case absent
  with assms show ?thesis by simp
next
  case (moved r cs'')
  with assms(2) have eq: "h' = h(r := (h r)\<lparr>ss_connID := c\<rparr>)" "cs' = cs''" by simp_all
  have "call_ok h cs''"
    using moved(3-7) call_okD[OF assms(1)]
    by (intro call_okI) (auto simp: session_ok_def host_ok_def Let_def)
  with eq show ?thesis by (auto intro: call_ok_heap)
qed

section \<open>Properties\<close>


definition demo_session :: "string \<Rightarrow> string \<Rightarrow> int \<Rightarrow> session" where
  "demo_session sid user st =
     \<lparr>ss_userID = user, ss_channelID = ''ch'', ss_callID = ''call'', ss_sessionID = sid,
      ss_connID = sid, ss_unmuted = True, ss_screenOn = False, ss_videoOn = False,
      ss_voiceOn = False, ss_raisedHandAt = 0, ss_startAt = st, ss_rtcClosed = 0, ss_removed = 0\<rparr>"

definition demo_heap :: sheap where
  "demo_heap r = (if r = 0 then demo_session ''s1'' ''ann'' 10
                  else if r = 1 then demo_session ''s2'' ''bob'' 30
                  else demo_session ''s3'' ''eve'' 20)"

definition demo_call :: callState where
  "demo_call = (newCallState ''call'' ''ch'' ''10.0.0.1:8045'' 5)
     \<lparr>cs_sessions := [(''s1'', 0), (''s2'', 1), (''s3'', 2)],
      cs_byConn := [(''s1'', 0), (''s2'', 1), (''s3'', 2)],
      cs_hostSessionID := ''s1'', cs_peakParticipants := 3\<rparr>"

lemma demo_call_ok: "call_ok demo_heap demo_call"
  by (simp add: call_ok_def session_ok_def host_ok_def participants_def demo_call_def demo_heap_def
      demo_session_def newCallState_def)


text \<open>
  the participant limit is enforced atomically with the insertion. A call within its limit
  stays within it; \<^verbatim>\<open>ErrMaxParticipants\<close> is returned exactly for a newcomer to a full call, and
  then the call is unchanged; a participant who is already in may always re-join.
\<close>

theorem addSession_limit:
  assumes "limit > 0" and "int (participants cs) \<le> limit"
  shows "int (participants (snd (addSession sid r limit h cs))) \<le> limit
    \<and> (fst (addSession sid r limit h cs) = Inl ErrMaxParticipants
        \<longleftrightarrow> gm_get (cs_sessions cs) sid = None \<and> int (participants cs) = limit)
    \<and> (fst (addSession sid r limit h cs) = Inl ErrMaxParticipants
        \<longrightarrow> snd (addSession sid r limit h cs) = cs)"
  using assms
  by (cases rule: addSession_cases[of sid r limit h cs])
    (auto simp: participants_def length_gm_set split: if_splits)

theorem addSession_limit_witness:
  "int (participants (snd (addSession ''s4'' 2 3 demo_heap demo_call))) \<le> 3
    \<and> fst (addSession ''s4'' 2 3 demo_heap demo_call) = Inl ErrMaxParticipants"
proof -
  have l: "(3::int) > 0" "int (participants demo_call) \<le> 3"
    by (simp_all add: participants_def demo_call_def newCallState_def)
  show ?thesis
    using addSession_limit[OF l, of "''s4''" 2 demo_heap]
    by (simp add: participants_def demo_call_def newCallState_def)
qed

end
