(* ===== verification/Calls_Registry.thy ===== *)
theory Calls_Registry
  imports Calls_State
begin

unbundle bit_operations_syntax

text \<open>
  The three in-memory registries of the call service: the sharded call registry
  (\<^verbatim>\<open>calls/shard.go\<close>), the session index (\<^verbatim>\<open>calls/registry.go\<close>) and the channel index with its
  table of start locks (\<^verbatim>\<open>calls/channel_index.go\<close>).

  A \<^verbatim>\<open>*callState\<close> is a reference \<open>cref\<close> into the heap \<open>cheap\<close>; the registries hold references, and
  \<^verbatim>\<open>deleteIf\<close> compares them. The lemmas show that sharding is invisible: the array of shards
  behaves as one map, and both registries implement the contract \<open>kv_index\<close>.
\<close>

type_synonym cref = nat
type_synonym cheap = "cref \<Rightarrow> callState"
type_synonym callShard = "cref gomap"
type_synonym shardRegistry = "callShard list"

definition defaultShardCount :: int where
  "defaultShardCount = 64"

section \<open>One shard\<close>

definition newCallShard :: callShard where
  "newCallShard = []"

definition shard_get :: "string \<Rightarrow> callShard \<Rightarrow> cref option" where
  "shard_get callID sh = gm_get sh callID"

definition getOrCreate :: "string \<Rightarrow> cref \<Rightarrow> callShard \<Rightarrow> (cref \<times> bool) \<times> callShard" where
  "getOrCreate callID fresh sh =
     (case gm_get sh callID of
        Some c \<Rightarrow> ((c, False), sh)
      | None \<Rightarrow> ((fresh, True), gm_set callID fresh sh))"

definition getOrCreateLive :: "string \<Rightarrow> cref \<Rightarrow> cheap \<Rightarrow> callShard \<Rightarrow> (cref \<times> bool) \<times> callShard" where
  "getOrCreateLive callID fresh C sh =
     (case gm_get sh callID of
        Some c \<Rightarrow> if \<not> ended (C c) then ((c, False), sh)
                  else ((fresh, True), gm_set callID fresh sh)
      | None \<Rightarrow> ((fresh, True), gm_set callID fresh sh))"

definition shard_delete :: "string \<Rightarrow> callShard \<Rightarrow> cref option \<times> callShard" where
  "shard_delete callID sh =
     (case gm_get sh callID of
        None \<Rightarrow> (None, sh)
      | Some c \<Rightarrow> (Some c, gm_del callID sh))"

definition shard_deleteIf :: "string \<Rightarrow> cref \<Rightarrow> callShard \<Rightarrow> bool \<times> callShard" where
  "shard_deleteIf callID target sh =
     (if gm_get sh callID \<noteq> Some target then (False, sh) else (True, gm_del callID sh))"

definition addSessionIfLive ::
  "string \<Rightarrow> string \<Rightarrow> sref \<Rightarrow> int \<Rightarrow> sheap \<Rightarrow> cheap \<Rightarrow> callShard
    \<Rightarrow> (calls_error + cref \<times> sref option) \<times> cheap" where
  "addSessionIfLive callID sessionID r limit h C sh =
     (case gm_get sh callID of
        None \<Rightarrow> (Inl ErrCallNotFound, C)
      | Some c \<Rightarrow>
          if ended (C c) then (Inl ErrCallNotFound, C)
          else (case addSession sessionID r limit h (C c) of
                  (Inl e, _) \<Rightarrow> (Inl e, C)
                | (Inr prev, cs') \<Rightarrow> (Inr (c, prev), C(c := cs'))))"

section \<open>The array of shards\<close>

definition newShardRegistry :: "int \<Rightarrow> shardRegistry" where
  "newShardRegistry n = replicate (nat (if n \<le> 0 then 1 else n)) newCallShard"

definition fnv1a :: "string \<Rightarrow> 32 word" where
  "fnv1a s = foldl (\<lambda>h c. (h XOR word_of_nat (of_char c)) * 16777619) 2166136261 s"

definition shardIndex :: "shardRegistry \<Rightarrow> string \<Rightarrow> nat" where
  "shardIndex r callID = unat (fnv1a callID) mod length r"

definition shardFor :: "shardRegistry \<Rightarrow> string \<Rightarrow> callShard" where
  "shardFor r callID = r ! shardIndex r callID"

definition setShard :: "shardRegistry \<Rightarrow> string \<Rightarrow> callShard \<Rightarrow> shardRegistry" where
  "setShard r callID sh = r[shardIndex r callID := sh]"

definition reg_get :: "shardRegistry \<Rightarrow> string \<Rightarrow> cref option" where
  "reg_get r callID = shard_get callID (shardFor r callID)"

definition reg_put :: "string \<Rightarrow> cref \<Rightarrow> shardRegistry \<Rightarrow> shardRegistry" where
  "reg_put callID c r = setShard r callID (gm_set callID c (shardFor r callID))"

definition reg_delete :: "string \<Rightarrow> shardRegistry \<Rightarrow> cref option \<times> shardRegistry" where
  "reg_delete callID r =
     (let (res, sh) = shard_delete callID (shardFor r callID) in (res, setShard r callID sh))"

definition reg_deleteIf :: "string \<Rightarrow> cref \<Rightarrow> shardRegistry \<Rightarrow> bool \<times> shardRegistry" where
  "reg_deleteIf callID target r =
     (let (res, sh) = shard_deleteIf callID target (shardFor r callID) in (res, setShard r callID sh))"

definition reg_all :: "shardRegistry \<Rightarrow> cref list" where
  "reg_all r = concat (map (map snd) r)"

section \<open>The session index\<close>

record sessionRegistry =
  ri_bySession :: "cref gomap"
  ri_byConn :: "cref gomap"

definition newSessionRegistry :: sessionRegistry where
  "newSessionRegistry = \<lparr>ri_bySession = [], ri_byConn = []\<rparr>"

definition link :: "string \<Rightarrow> string \<Rightarrow> cref \<Rightarrow> sessionRegistry \<Rightarrow> sessionRegistry" where
  "link sessionID connID c ri =
     (let ri1 = ri\<lparr>ri_bySession := gm_set sessionID c (ri_bySession ri)\<rparr>
      in if connID \<noteq> '''' then ri1\<lparr>ri_byConn := gm_set connID c (ri_byConn ri1)\<rparr> else ri1)"

definition unlink :: "string \<Rightarrow> string \<Rightarrow> sessionRegistry \<Rightarrow> sessionRegistry" where
  "unlink sessionID connID ri =
     ri\<lparr>ri_bySession := gm_del sessionID (ri_bySession ri),
        ri_byConn := gm_del connID (ri_byConn ri)\<rparr>"

definition repoint :: "string \<Rightarrow> string \<Rightarrow> string \<Rightarrow> cref \<Rightarrow> sessionRegistry \<Rightarrow> sessionRegistry" where
  "repoint sessionID oldConnID newConnID c ri =
     (let ri1 = ri\<lparr>ri_byConn := gm_del oldConnID (ri_byConn ri)\<rparr>;
          ri2 = (if newConnID \<noteq> '''' then ri1\<lparr>ri_byConn := gm_set newConnID c (ri_byConn ri1)\<rparr> else ri1)
      in ri2\<lparr>ri_bySession := gm_set sessionID c (ri_bySession ri2)\<rparr>)"

definition bySessionID :: "sessionRegistry \<Rightarrow> string \<Rightarrow> cref option" where
  "bySessionID ri sessionID = gm_get (ri_bySession ri) sessionID"

definition byConnID :: "sessionRegistry \<Rightarrow> string \<Rightarrow> cref option" where
  "byConnID ri connID = gm_get (ri_byConn ri) connID"

section \<open>The channel index\<close>

type_synonym channelIndex = "cref gomap"

definition newChannelIndex :: channelIndex where
  "newChannelIndex = []"

definition ci_get :: "channelIndex \<Rightarrow> string \<Rightarrow> cref option" where
  "ci_get ci channelID = gm_get ci channelID"

definition ci_getLive :: "channelIndex \<Rightarrow> cheap \<Rightarrow> string \<Rightarrow> cref option" where
  "ci_getLive ci C channelID =
     (case ci_get ci channelID of
        None \<Rightarrow> None
      | Some c \<Rightarrow> if ended (C c) then None else Some c)"

definition ci_set :: "string \<Rightarrow> cref \<Rightarrow> channelIndex \<Rightarrow> channelIndex" where
  "ci_set channelID c ci = gm_set channelID c ci"

definition ci_deleteIf :: "string \<Rightarrow> cref \<Rightarrow> channelIndex \<Rightarrow> bool \<times> channelIndex" where
  "ci_deleteIf channelID target ci =
     (if gm_get ci channelID \<noteq> Some target then (False, ci) else (True, gm_del channelID ci))"

definition channelLockCount :: "int \<Rightarrow> nat" where
  "channelLockCount n = nat (if n \<le> 0 then defaultShardCount else n)"

definition lockFor :: "int \<Rightarrow> string \<Rightarrow> nat" where
  "lockFor n channelID = unat (fnv1a channelID) mod channelLockCount n"

section \<open>Sharding is invisible\<close>

text \<open>
  Well-formed registries: at least one shard, distinct keys in each, and every key sits in the
  shard its hash selects.
\<close>

definition reg_ok :: "shardRegistry \<Rightarrow> bool" where
  "reg_ok r \<longleftrightarrow> r \<noteq> [] \<and>
     (\<forall>i < length r. gm_ok (r ! i) \<and> (\<forall>(k, c) \<in> set (r ! i). shardIndex r k = i))"

lemma shardIndex_lt [simp]: "r \<noteq> [] \<Longrightarrow> shardIndex r k < length r"
  by (simp add: shardIndex_def)

lemma shardIndex_setShard [simp]: "shardIndex (setShard r k sh) = shardIndex r"
  by (simp add: shardIndex_def setShard_def fun_eq_iff)

lemma shardFor_setShard:
  "r \<noteq> [] \<Longrightarrow> shardFor (setShard r k sh) k' = (if shardIndex r k' = shardIndex r k then sh else shardFor r k')"
  by (simp add: shardFor_def setShard_def nth_list_update shardIndex_def)

lemma setShard_same [simp]: "setShard r k (shardFor r k) = r"
  by (simp add: setShard_def shardFor_def)

lemma newShardRegistry_ok: "reg_ok (newShardRegistry n)"
  by (auto simp: reg_ok_def newShardRegistry_def newCallShard_def)

lemma shardFor_eq: "shardIndex r k = shardIndex r k' \<Longrightarrow> shardFor r k = shardFor r k'"
  by (simp add: shardFor_def)

lemma reg_ok_ne: "reg_ok r \<Longrightarrow> r \<noteq> []"
  by (simp add: reg_ok_def)

lemma reg_ok_setShard:
  assumes "reg_ok r" and "gm_ok sh"
    and "\<And>k' c. (k', c) \<in> set sh \<Longrightarrow> k' = k \<or> (k', c) \<in> set (shardFor r k)"
  shows "reg_ok (setShard r k sh)"
  unfolding reg_ok_def
proof (intro conjI allI impI)
  show "setShard r k sh \<noteq> []" using assms(1) by (simp add: reg_ok_def setShard_def)
next
  fix i assume "i < length (setShard r k sh)"
  then have i: "i < length r" by (simp add: setShard_def)
  have r: "gm_ok (r ! i)" "\<forall>(k', c) \<in> set (r ! i). shardIndex r k' = i"
    using assms(1) i by (auto simp: reg_ok_def)
  show "gm_ok (setShard r k sh ! i)"
    using r(1) assms(2) i by (cases "i = shardIndex r k") (auto simp: setShard_def)
  show "\<forall>(k', c) \<in> set (setShard r k sh ! i). shardIndex (setShard r k sh) k' = i"
  proof (cases "i = shardIndex r k")
    case True
    with i r(2) assms(3) show ?thesis
      by (fastforce simp: setShard_def shardFor_def shardIndex_def)
  next
    case False
    with i r(2) show ?thesis
      by (auto simp: setShard_def shardIndex_def)
  qed
qed

lemma reg_get_put:
  "reg_ok r \<Longrightarrow> reg_get (reg_put k c r) k' = (if k' = k then Some c else reg_get r k')"
  by (auto simp: reg_get_def reg_put_def shard_get_def shardFor_setShard reg_ok_ne dest: shardFor_eq)

lemma set_gm_set: "(k', c') \<in> set (gm_set k c m) \<Longrightarrow> k' = k \<or> (k', c') \<in> set m"
  by (induction m) (auto split: if_splits)

lemma shardFor_ok: "reg_ok r \<Longrightarrow> gm_ok (shardFor r k)"
  by (simp add: reg_ok_def shardFor_def)

lemma reg_put_ok: "reg_ok r \<Longrightarrow> reg_ok (reg_put k c r)"
  unfolding reg_put_def
  by (rule reg_ok_setShard) (auto simp: shardFor_ok dest: set_gm_set)

lemma reg_deleteIf_simp:
  "reg_deleteIf k c r = (if reg_get r k = Some c then (True, setShard r k (gm_del k (shardFor r k))) else (False, r))"
  by (simp add: reg_deleteIf_def shard_deleteIf_def reg_get_def shard_get_def)

lemma reg_deleteIf_ok: "reg_ok r \<Longrightarrow> reg_ok (snd (reg_deleteIf k c r))"
  using gm_del_subset[of k "shardFor r k"]
  by (auto simp: reg_deleteIf_simp shardFor_ok intro!: reg_ok_setShard)

lemma reg_get_deleteIf:
  "reg_ok r \<Longrightarrow> reg_get (snd (reg_deleteIf k c r)) k'
     = (if k' = k \<and> reg_get r k = Some c then None else reg_get r k')"
  by (auto simp: reg_deleteIf_simp reg_get_def shard_get_def shardFor_setShard reg_ok_ne dest: shardFor_eq)

lemma fst_reg_deleteIf: "fst (reg_deleteIf k c r) \<longleftrightarrow> reg_get r k = Some c"
  by (simp add: reg_deleteIf_simp)

interpretation sharded: kv_index reg_ok reg_get reg_put reg_deleteIf
  by unfold_locales (simp_all add: reg_put_ok reg_deleteIf_ok reg_get_put reg_get_deleteIf fst_reg_deleteIf)

interpretation chan: kv_index gm_ok ci_get ci_set ci_deleteIf
  by unfold_locales (auto simp: ci_get_def ci_set_def ci_deleteIf_def)

lemma reg_all_iff:
  assumes "reg_ok r"
  shows "c \<in> set (reg_all r) \<longleftrightarrow> (\<exists>k. reg_get r k = Some c)"
proof
  assume "c \<in> set (reg_all r)"
  then obtain i k where i: "i < length r" and k: "(k, c) \<in> set (r ! i)"
    by (fastforce simp: reg_all_def in_set_conv_nth)
  with assms have "shardIndex r k = i" "gm_ok (r ! i)" by (auto simp: reg_ok_def)
  with k have "reg_get r k = Some c" by (simp add: reg_get_def shard_get_def shardFor_def)
  then show "\<exists>k. reg_get r k = Some c" ..
next
  assume "\<exists>k. reg_get r k = Some c"
  then obtain k where "gm_get (r ! shardIndex r k) k = Some c"
    by (auto simp: reg_get_def shard_get_def shardFor_def)
  then have "(k, c) \<in> set (r ! shardIndex r k)" by (rule map_of_SomeD)
  then show "c \<in> set (reg_all r)"
    using assms nth_mem[of "shardIndex r k" r] by (force simp: reg_all_def reg_ok_def)
qed

lemma reg_get_new [simp]: "reg_get (newShardRegistry n) k = None"
proof -
  have "shardFor (newShardRegistry n) k = []"
    using shardIndex_lt[of "newShardRegistry n" k]
    by (auto simp: newShardRegistry_def newCallShard_def shardFor_def)
  then show ?thesis by (simp add: reg_get_def shard_get_def)
qed

section \<open>Properties\<close>

text \<open>The mutating operations of the sharded registry, and the same operations on one flat map.\<close>

datatype regOp = GetOrCreate string cref | Delete string | DeleteIf string cref

fun reg_op :: "regOp \<Rightarrow> shardRegistry \<Rightarrow> shardRegistry" where
  "reg_op (GetOrCreate k c) r = setShard r k (snd (getOrCreate k c (shardFor r k)))"
| "reg_op (Delete k) r = snd (reg_delete k r)"
| "reg_op (DeleteIf k c) r = snd (reg_deleteIf k c r)"

fun flat_op :: "regOp \<Rightarrow> (string \<rightharpoonup> cref) \<Rightarrow> (string \<rightharpoonup> cref)" where
  "flat_op (GetOrCreate k c) m = (if m k = None then m(k \<mapsto> c) else m)"
| "flat_op (Delete k) m = m(k := None)"
| "flat_op (DeleteIf k c) m = (if m k = Some c then m(k := None) else m)"

lemma reg_op_put: "reg_op (GetOrCreate k c) r = (if reg_get r k = None then reg_put k c r else r)"
  by (simp add: getOrCreate_def reg_get_def shard_get_def reg_put_def split: option.split)

lemma reg_op_del:
  "reg_op (Delete k) r = (case reg_get r k of None \<Rightarrow> r | Some c \<Rightarrow> snd (reg_deleteIf k c r))"
  by (simp add: reg_delete_def shard_delete_def reg_get_def shard_get_def reg_deleteIf_simp split_def split: option.split)

lemma reg_op_ok: "reg_ok r \<Longrightarrow> reg_ok (reg_op p r)"
  by (cases p) (simp_all only: reg_op_put reg_op_del reg_op.simps(3) reg_put_ok reg_deleteIf_ok split: option.split if_split, simp_all)

lemma reg_op_get: "reg_ok r \<Longrightarrow> reg_get (reg_op p r) = flat_op p (reg_get r)"
  by (cases p) (auto simp only: reg_op_put reg_op_del reg_op.simps(3) flat_op.simps fun_eq_iff reg_get_put reg_get_deleteIf fun_upd_apply
      split: option.split if_split)

text \<open>
  C14: Sharding is invisible. After any sequence of registry operations on a registry with any number of shards
  (also a non-positive one) every lookup returns what one flat map would, and \<^verbatim>\<open>all\<close> lists exactly the
  registered calls.
\<close>

theorem sharding_invisible:
  "reg_get (fold reg_op ops (newShardRegistry n)) = fold flat_op ops Map.empty
    \<and> set (reg_all (fold reg_op ops (newShardRegistry n))) = ran (fold flat_op ops Map.empty)"
proof -
  have step: "reg_ok (fold reg_op ops r) \<and> reg_get (fold reg_op ops r) = fold flat_op ops (reg_get r)" if "reg_ok r" for r
    using that by (induction ops arbitrary: r) (simp_all add: reg_op_ok reg_op_get)
  have "reg_get (newShardRegistry n) = Map.empty" by (simp add: fun_eq_iff)
  with step[OF newShardRegistry_ok[of n]] have
    ok: "reg_ok (fold reg_op ops (newShardRegistry n))" and get: "reg_get (fold reg_op ops (newShardRegistry n)) = fold flat_op ops Map.empty"
    by simp_all
  from reg_all_iff[OF ok] get show ?thesis by (auto simp: ran_def)
qed

text \<open>
  A late teardown cannot remove a newer call. When a call has been replaced under its key, in the
  sharded registry as in the channel index, the guarded removal by the old call reports failure and every lookup
  still returns what it did.
\<close>

theorem late_teardown_keeps_successor:
  assumes "reg_ok r" and "gm_ok ci" and "old \<noteq> new"
  shows "\<not> fst (reg_deleteIf k old (reg_put k new r))
    \<and> reg_get (snd (reg_deleteIf k old (reg_put k new r))) = reg_get (reg_put k new r)
    \<and> \<not> fst (ci_deleteIf ch old (ci_set ch new ci))
    \<and> ci_get (snd (ci_deleteIf ch old (ci_set ch new ci))) = ci_get (ci_set ch new ci)"
  using sharded.late_delete_keeps_successor[OF assms(1,3), of k] chan.late_delete_keeps_successor[OF assms(2,3), of ch]
  by blast

theorem late_teardown_keeps_successor_witness:
  "ci_get (snd (ci_deleteIf ''ch'' 0 (ci_set ''ch'' 1 newChannelIndex))) ''ch'' = Some 1"
proof -
  have "gm_ok newChannelIndex" by (simp add: newChannelIndex_def)
  from late_teardown_keeps_successor[OF newShardRegistry_ok[of 64] this, of 0 1 "''k''" "''ch''"]
  have "ci_get (snd (ci_deleteIf ''ch'' 0 (ci_set ''ch'' 1 newChannelIndex))) = ci_get (ci_set ''ch'' 1 newChannelIndex)"
    by simp
  then show ?thesis by (simp add: ci_get_def ci_set_def)
qed

text \<open>
  Hashing never leaves the table: for every configured count, also zero and negative ones, a call id selects
  an existing shard and a channel id an existing start lock.
\<close>

theorem hash_in_range:
  "shardIndex (newShardRegistry n) callID < length (newShardRegistry n)
    \<and> lockFor m channelID < channelLockCount m"
proof
  show "shardIndex (newShardRegistry n) callID < length (newShardRegistry n)"
    by (rule shardIndex_lt) (rule reg_ok_ne[OF newShardRegistry_ok])
  show "lockFor m channelID < channelLockCount m"
    by (simp add: lockFor_def channelLockCount_def defaultShardCount_def)
qed

end
