(* ===== verification/Go_Strings.thy ===== *)
theory Go_Strings
  imports Prelude
begin

text \<open>
  The functions of Go's \<^verbatim>\<open>strings\<close> package that the modelled code calls, on byte strings (a Go
  string is a sequence of bytes, here a \<^typ>\<open>string\<close>). Separators are single bytes everywhere in
  the modelled code.
\<close>

fun str_cut :: "char \<Rightarrow> string \<Rightarrow> string \<times> string \<times> bool" where
  "str_cut sep [] = ([], [], False)"
| "str_cut sep (c # cs) =
     (if c = sep then ([], cs, True)
      else let (b, a, found) = str_cut sep cs in (c # b, a, found))"

definition str_lastCut :: "char \<Rightarrow> string \<Rightarrow> (string \<times> string) option" where
  "str_lastCut sep s =
     (let (a, b, found) = str_cut sep (rev s) in if found then Some (rev b, rev a) else None)"

fun str_split :: "char \<Rightarrow> string \<Rightarrow> string list" where
  "str_split sep [] = [[]]"
| "str_split sep (c # cs) =
     (if c = sep then [] # str_split sep cs
      else case str_split sep cs of
             [] \<Rightarrow> [[c]]
           | w # ws \<Rightarrow> (c # w) # ws)"

definition char_toLower :: "char \<Rightarrow> char" where
  "char_toLower c = (if CHR ''A'' \<le> c \<and> c \<le> CHR ''Z'' then char_of (of_char c + 32 :: nat) else c)"

definition str_lower :: "string \<Rightarrow> string" where
  "str_lower s = map char_toLower s"

definition isDigit :: "char \<Rightarrow> bool" where
  "isDigit c \<longleftrightarrow> CHR ''0'' \<le> c \<and> c \<le> CHR ''9''"

definition isAlpha :: "char \<Rightarrow> bool" where
  "isAlpha c \<longleftrightarrow> (CHR ''a'' \<le> c \<and> c \<le> CHR ''z'') \<or> (CHR ''A'' \<le> c \<and> c \<le> CHR ''Z'')"

definition isHex :: "char \<Rightarrow> bool" where
  "isHex c \<longleftrightarrow> isDigit c \<or> (CHR ''a'' \<le> c \<and> c \<le> CHR ''f'') \<or> (CHR ''A'' \<le> c \<and> c \<le> CHR ''F'')"

text \<open>
  \<^verbatim>\<open>strings.TrimSpace\<close> removes the UTF-8 encodings of the runes for which \<^verbatim>\<open>unicode.IsSpace\<close>
  holds, listed here byte by byte, from both ends.
\<close>

definition space_runes :: "string list" where
  "space_runes =
     map (map char_of)
       ([[9], [10], [11], [12], [13], [32], [194, 133], [194, 160], [225, 154, 128],
         [226, 128, 168], [226, 128, 169], [226, 128, 175], [226, 129, 159], [227, 128, 128]]
        @ map (\<lambda>k. [226, 128, 128 + k]) [0 ..< 11 :: nat])"

fun matchPrefix :: "string list \<Rightarrow> string \<Rightarrow> nat" where
  "matchPrefix [] s = 0"
| "matchPrefix (p # ps) s =
     (if p \<noteq> [] \<and> take (length p) s = p then length p else matchPrefix ps s)"

function trimLeft :: "string list \<Rightarrow> string \<Rightarrow> string" where
  "trimLeft ps s =
     (let n = matchPrefix ps s in if n = 0 \<or> s = [] then s else trimLeft ps (drop n s))"
  by pat_completeness auto
termination by (relation "measure (length \<circ> snd)") auto

declare trimLeft.simps [simp del]

definition trimRight :: "string list \<Rightarrow> string \<Rightarrow> string" where
  "trimRight ps s = rev (trimLeft (map rev ps) (rev s))"

definition trimSpace :: "string \<Rightarrow> string" where
  "trimSpace s = trimRight space_runes (trimLeft space_runes s)"

section \<open>Lemmas\<close>

lemma str_cut_None [simp]: "sep \<notin> set s \<Longrightarrow> str_cut sep s = (s, [], False)"
  by (induction s) auto

lemma str_cut_append [simp]:
  "sep \<notin> set a \<Longrightarrow> str_cut sep (a @ sep # b) = (a, b, True)"
  by (induction a) auto

lemma str_cut_found:
  "str_cut sep s = (a, b, True) \<Longrightarrow> s = a @ sep # b \<and> sep \<notin> set a"
  by (induction s arbitrary: a b) (auto split: if_splits prod.splits)

lemma str_cut_notfound:
  "str_cut sep s = (a, b, False) \<Longrightarrow> a = s \<and> b = [] \<and> sep \<notin> set s"
  by (induction s arbitrary: a b) (auto split: if_splits prod.splits)

lemma str_lastCut_append [simp]:
  "sep \<notin> set b \<Longrightarrow> str_lastCut sep (a @ sep # b) = Some (a, b)"
  by (simp add: str_lastCut_def)

lemma str_lastCut_None [simp]: "sep \<notin> set s \<Longrightarrow> str_lastCut sep s = None"
  by (simp add: str_lastCut_def)

lemma str_lastCut_Some:
  assumes "str_lastCut sep s = Some (a, b)"
  shows "s = a @ sep # b \<and> sep \<notin> set b"
proof -
  obtain x y f where cut: "str_cut sep (rev s) = (x, y, f)" by (cases "str_cut sep (rev s)")
  with assms have f: "f" "a = rev y" "b = rev x" by (auto simp: str_lastCut_def split: if_splits)
  with cut have "rev s = x @ sep # y" "sep \<notin> set x" using str_cut_found by auto
  from this(1) have "s = rev (x @ sep # y)" by (metis rev_rev_ident)
  with f \<open>sep \<notin> set x\<close> show ?thesis by simp
qed

lemma str_lastCut_None_iff: "str_lastCut sep s = None \<longleftrightarrow> sep \<notin> set s"
proof
  assume n: "str_lastCut sep s = None"
  obtain x y f where cut: "str_cut sep (rev s) = (x, y, f)" by (cases "str_cut sep (rev s)")
  with n have "\<not> f" by (auto simp: str_lastCut_def split: if_splits)
  with cut show "sep \<notin> set s" using str_cut_notfound[of sep "rev s" x y] by auto
qed simp

lemma str_split_ne [simp]: "str_split sep s \<noteq> []"
  by (induction s) (auto split: list.splits)

lemma str_split_none [simp]: "sep \<notin> set s \<Longrightarrow> str_split sep s = [s]"
  by (induction s) auto

lemma str_split_append [simp]: "sep \<notin> set a \<Longrightarrow> str_split sep (a @ sep # b) = a # str_split sep b"
  by (induction a) auto

lemma str_split_sep: "w \<in> set (str_split sep s) \<Longrightarrow> sep \<notin> set w"
  by (induction s arbitrary: w) (auto split: if_splits list.splits)

end
