(* ===== verification/Calls_Config.thy ===== *)
theory Calls_Config
  imports Calls_Registry Go_Strings
begin

text \<open>
  Configuration and wire protocol of the call service: \<^verbatim>\<open>CallsSettings\<close> with its defaults
  (\<^verbatim>\<open>public/model/config.go\<close>), the accessors of \<^verbatim>\<open>calls/config.go\<close>, the message types of
  \<^verbatim>\<open>calls/ws_protocol.go\<close> and the ICE server list of \<^verbatim>\<open>calls/ice_servers.go\<close>.

  A Go pointer field is an \<open>option\<close>. \<open>url_parse\<close> is the part of Go's \<^verbatim>\<open>url.Parse\<close> that the ICE code can
  observe: which strings are rejected, and the scheme, the opaque part and the query. A rest that
  starts with a slash has no opaque part, and the caller rejects it whether or not Go's parser does.
\<close>

section \<open>Settings\<close>

record CallsSettings =
  cf_Enable :: "bool option"
  cf_RTCDServiceURL :: "string option"
  cf_RTCDClientID :: "string option"
  cf_RTCDAuthKey :: "string option"
  cf_ICEServers :: "string option"
  cf_TURNStaticAuthSecret :: "string option"
  cf_ServerSideTURN :: "bool option"
  cf_ICEHostOverride :: "string option"
  cf_ICEHostPortOverride :: "int option"
  cf_EnableIPv6 :: "bool option"
  cf_MaxCallParticipants :: "int option"
  cf_AllowScreenSharing :: "bool option"
  cf_AllowRecording :: "bool option"
  cf_EnableRinging :: "bool option"
  cf_EnableVideo :: "bool option"
  cf_EnableReactions :: "bool option"
  cf_HostControlsAllowed :: "bool option"
  cf_GroupCallsAllowed :: "bool option"
  cf_BatchMinMembers :: "int option"
  cf_BatchIntervalMs :: "int option"
  cf_BatchMaxSize :: "int option"
  cf_StateShardCount :: "int option"

definition orDefault :: "'a \<Rightarrow> 'a option \<Rightarrow> 'a option" where
  "orDefault d x = (case x of None \<Rightarrow> Some d | Some v \<Rightarrow> Some v)"

definition SetDefaults :: "CallsSettings \<Rightarrow> CallsSettings" where
  "SetDefaults s =
     \<lparr>cf_Enable = orDefault False (cf_Enable s),
      cf_RTCDServiceURL = orDefault '''' (cf_RTCDServiceURL s),
      cf_RTCDClientID = orDefault '''' (cf_RTCDClientID s),
      cf_RTCDAuthKey = orDefault '''' (cf_RTCDAuthKey s),
      cf_ICEServers = orDefault '''' (cf_ICEServers s),
      cf_TURNStaticAuthSecret = orDefault '''' (cf_TURNStaticAuthSecret s),
      cf_ServerSideTURN = orDefault False (cf_ServerSideTURN s),
      cf_ICEHostOverride = orDefault '''' (cf_ICEHostOverride s),
      cf_ICEHostPortOverride = orDefault 0 (cf_ICEHostPortOverride s),
      cf_EnableIPv6 = orDefault False (cf_EnableIPv6 s),
      cf_MaxCallParticipants = orDefault 0 (cf_MaxCallParticipants s),
      cf_AllowScreenSharing = orDefault True (cf_AllowScreenSharing s),
      cf_AllowRecording = orDefault False (cf_AllowRecording s),
      cf_EnableRinging = orDefault True (cf_EnableRinging s),
      cf_EnableVideo = orDefault True (cf_EnableVideo s),
      cf_EnableReactions = orDefault True (cf_EnableReactions s),
      cf_HostControlsAllowed = orDefault True (cf_HostControlsAllowed s),
      cf_GroupCallsAllowed = orDefault True (cf_GroupCallsAllowed s),
      cf_BatchMinMembers = orDefault 100 (cf_BatchMinMembers s),
      cf_BatchIntervalMs = orDefault 1000 (cf_BatchIntervalMs s),
      cf_BatchMaxSize = orDefault 1000 (cf_BatchMaxSize s),
      cf_StateShardCount = orDefault 64 (cf_StateShardCount s)\<rparr>"

definition derefOr :: "'a \<Rightarrow> 'a option \<Rightarrow> 'a" where
  "derefOr d x = (case x of None \<Rightarrow> d | Some v \<Rightarrow> v)"

definition enabled :: "CallsSettings \<Rightarrow> bool" where
  "enabled c \<longleftrightarrow> cf_Enable c = Some True"

definition rtcdURL :: "CallsSettings \<Rightarrow> string" where
  "rtcdURL c = derefOr '''' (cf_RTCDServiceURL c)"

definition maxParticipants :: "CallsSettings \<Rightarrow> int" where
  "maxParticipants c = derefOr 0 (cf_MaxCallParticipants c)"

definition allowScreenSharing :: "CallsSettings \<Rightarrow> bool" where
  "allowScreenSharing c = derefOr True (cf_AllowScreenSharing c)"

definition allowRecording :: "CallsSettings \<Rightarrow> bool" where
  "allowRecording c \<longleftrightarrow> cf_AllowRecording c = Some True"

definition enableRinging :: "CallsSettings \<Rightarrow> bool" where
  "enableRinging c = derefOr True (cf_EnableRinging c)"

definition enableVideo :: "CallsSettings \<Rightarrow> bool" where
  "enableVideo c = derefOr True (cf_EnableVideo c)"

definition enableReactions :: "CallsSettings \<Rightarrow> bool" where
  "enableReactions c = derefOr True (cf_EnableReactions c)"

definition hostControlsAllowed :: "CallsSettings \<Rightarrow> bool" where
  "hostControlsAllowed c = derefOr True (cf_HostControlsAllowed c)"

definition groupCallsAllowed :: "CallsSettings \<Rightarrow> bool" where
  "groupCallsAllowed c = derefOr True (cf_GroupCallsAllowed c)"

definition shardCountFor :: "CallsSettings option \<Rightarrow> int" where
  "shardCountFor cs =
     (case cs of
        None \<Rightarrow> defaultShardCount
      | Some c \<Rightarrow>
          (case cf_StateShardCount c of
             None \<Rightarrow> defaultShardCount
           | Some n \<Rightarrow> if n \<le> 0 then defaultShardCount else n))"

section \<open>Message types\<close>

definition validMsgTypes :: "string list" where
  "validMsgTypes =
     [''join'', ''leave'', ''reconnect'', ''sdp'', ''ice'', ''mute'', ''unmute'', ''voice_on'', ''voice_off'',
      ''screen_on'', ''screen_off'', ''video_on'', ''video_off'', ''raise_hand'', ''unraise_hand'', ''react'',
      ''caption'', ''metric'', ''call_state'', ''ping'']"

definition isValidMsgType :: "string \<Rightarrow> bool" where
  "isValidMsgType t \<longleftrightarrow> t \<in> set validMsgTypes"

section \<open>ICE servers\<close>

record url =
  u_Scheme :: string
  u_Opaque :: string
  u_ForceQuery :: bool
  u_RawQuery :: string

text \<open>\<^verbatim>\<open>getScheme\<close>: \<open>None\<close> is its error, an empty scheme means "no scheme".\<close>

fun getScheme :: "nat \<Rightarrow> string \<Rightarrow> string \<Rightarrow> (string \<times> string) option" where
  "getScheme i raw [] = Some ('''', raw)"
| "getScheme i raw (c # cs) =
     (if isAlpha c then getScheme (Suc i) raw cs
      else if isDigit c \<or> c \<in> {CHR ''+'', CHR ''-'', CHR ''.''}
        then (if i = 0 then Some ('''', raw) else getScheme (Suc i) raw cs)
      else if c = CHR '':'' then (if i = 0 then None else Some (take i raw, drop (Suc i) raw))
      else Some ('''', raw))"

definition containsCTLByte :: "string \<Rightarrow> bool" where
  "containsCTLByte s \<longleftrightarrow> (\<exists>c \<in> set s. (of_char c :: nat) < 32 \<or> (of_char c :: nat) = 127)"

text \<open>The escapes of a fragment: every percent sign needs two hexadecimal digits.\<close>

fun validEscapes :: "string \<Rightarrow> bool" where
  "validEscapes [] = True"
| "validEscapes (c # cs) =
     (if c = CHR ''%'' then
        (case cs of a # b # rest \<Rightarrow> isHex a \<and> isHex b \<and> validEscapes rest | _ \<Rightarrow> False)
      else validEscapes cs)"

definition url_parse :: "string \<Rightarrow> url option" where
  "url_parse rawURL =
     (let (u, frag, _) = str_cut (CHR ''#'') rawURL in
      if containsCTLByte u then None
      else case getScheme 0 u u of
        None \<Rightarrow> None
      | Some (scheme, rest) \<Rightarrow>
          let force = (rest \<noteq> [] \<and> last rest = CHR ''?'' \<and> count_list rest (CHR ''?'') = 1);
              rest1 = (if force then butlast rest else fst (str_cut (CHR ''?'') rest));
              query = (if force then '''' else fst (snd (str_cut (CHR ''?'') rest)));
              opaque = (if scheme = '''' \<or> take 1 rest1 = ''/'' then '''' else rest1)
          in if \<not> validEscapes frag then None
             else Some \<lparr>u_Scheme = str_lower scheme, u_Opaque = opaque,
                        u_ForceQuery = force, u_RawQuery = query\<rparr>)"

record iceServer =
  ice_urls :: "string list"
  ice_username :: "string option"
  ice_credential :: "string option"

definition parseICEServer :: "string \<Rightarrow> iceServer option" where
  "parseICEServer entry =
     (case url_parse entry of
        None \<Rightarrow> None
      | Some u \<Rightarrow>
          if u_Scheme u \<notin> {''stun'', ''turn'', ''turns''} then None
          else if u_Opaque u = '''' then None
          else
            let (userinfo, rest) = (case str_lastCut (CHR ''@'') (u_Opaque u) of
                                      Some (a, b) \<Rightarrow> (a, b)
                                    | None \<Rightarrow> ('''', u_Opaque u))
            in if rest = '''' then None
               else
                 let final = u_Scheme u @ '':'' @ rest
                       @ (if u_ForceQuery u \<or> u_RawQuery u \<noteq> '''' then ''?'' @ u_RawQuery u else '''')
                 in if userinfo \<noteq> '''' then
                      let (user, pass, found) = str_cut (CHR '':'') userinfo
                      in if \<not> found \<or> user = '''' \<or> pass = '''' then None
                         else Some \<lparr>ice_urls = [final], ice_username = Some user,
                                    ice_credential = Some pass\<rparr>
                    else Some \<lparr>ice_urls = [final], ice_username = None, ice_credential = None\<rparr>)"

definition redactICEEntry :: "string \<Rightarrow> string" where
  "redactICEEntry entry =
     (let (scheme, rest, found) = str_cut (CHR '':'') entry
      in if \<not> found then entry
         else case str_lastCut (CHR ''@'') rest of
                Some (a, b) \<Rightarrow>
                  if snd (snd (str_cut (CHR '':'') a)) then scheme @ '':***:***@'' @ b
                  else scheme @ '':***@'' @ b
              | None \<Rightarrow> entry)"

definition iceServers :: "CallsSettings \<Rightarrow> iceServer list" where
  "iceServers cfg =
     (case cf_ICEServers cfg of
        None \<Rightarrow> []
      | Some l \<Rightarrow>
          if l = '''' then []
          else concat (map (\<lambda>e0. let entry = trimSpace e0 in
                              if entry = '''' then []
                              else case parseICEServer entry of None \<Rightarrow> [] | Some sv \<Rightarrow> [sv])
                        (str_split (CHR '','') l)))"

section \<open>Lemmas\<close>

lemma getScheme_run:
  assumes "list_all isAlpha p"
  shows "getScheme i raw (p @ q) = getScheme (i + length p) raw q"
  using assms by (induction p arbitrary: i) auto

lemma getScheme_alpha:
  assumes "list_all isAlpha scheme" and "scheme \<noteq> []"
  shows "getScheme 0 (scheme @ CHR '':'' # rest) (scheme @ CHR '':'' # rest) = Some (scheme, rest)"
  using assms by (simp add: getScheme_run isAlpha_def isDigit_def)

definition iceSafe :: "string \<Rightarrow> bool" where
  "iceSafe s \<longleftrightarrow> \<not> containsCTLByte s \<and> CHR ''?'' \<notin> set s \<and> CHR ''#'' \<notin> set s"

lemma containsCTLByte_append [simp]:
  "containsCTLByte (a @ b) \<longleftrightarrow> containsCTLByte a \<or> containsCTLByte b"
  "containsCTLByte (c # b) \<longleftrightarrow> ((of_char c :: nat) < 32 \<or> (of_char c :: nat) = 127) \<or> containsCTLByte b"
  by (auto simp: containsCTLByte_def)

lemma containsCTLByte_Nil [simp]: "\<not> containsCTLByte []"
  by (simp add: containsCTLByte_def)

lemma scheme_facts:
  assumes "scheme \<in> {''stun'', ''turn'', ''turns''}"
  shows "list_all isAlpha scheme" and "scheme \<noteq> []" and "str_lower scheme = scheme"
    and "\<not> containsCTLByte scheme" and "CHR ''#'' \<notin> set scheme" and "CHR '':'' \<notin> set scheme"
  using assms
  by (auto simp: isAlpha_def str_lower_def char_toLower_def containsCTLByte_def less_eq_char_def)

text \<open>What \<open>url_parse\<close> returns for an ICE URL with an optional query.\<close>

lemma url_parse_ice:
  assumes "scheme \<in> {''stun'', ''turn'', ''turns''}" and "iceSafe opaque" and "opaque \<noteq> []"
    and "hd opaque \<noteq> CHR ''/''" and "\<not> containsCTLByte q" and "CHR ''#'' \<notin> set q"
    and "qs = [] \<or> qs = CHR ''?'' # q"
  shows "\<exists>force rq. url_parse (scheme @ CHR '':'' # opaque @ qs)
      = Some \<lparr>u_Scheme = scheme, u_Opaque = opaque, u_ForceQuery = force, u_RawQuery = rq\<rparr>
    \<and> (if force \<or> rq \<noteq> [] then ''?'' @ rq else []) = qs"
proof -
  note sc = scheme_facts[OF assms(1)]
  let ?raw = "scheme @ CHR '':'' # opaque @ qs"
  have nohash: "CHR ''#'' \<notin> set ?raw" using assms sc(5) by (auto simp: iceSafe_def)
  have noctl: "\<not> containsCTLByte ?raw" using assms sc(4) by (auto simp: iceSafe_def)
  have noq: "CHR ''?'' \<notin> set opaque" using assms(2) by (simp add: iceSafe_def)
  have cnt: "count_list opaque (CHR ''?'') = 0" using noq by (simp add: count_notin)
  have slash: "take 1 opaque \<noteq> ''/''" using assms(3,4) by (cases opaque) auto
  have gs: "getScheme 0 ?raw ?raw = Some (scheme, opaque @ qs)"
    using getScheme_alpha[OF sc(1,2), of "opaque @ qs"] by simp
  have up: "url_parse ?raw =
      (let rest = opaque @ qs;
           force = (rest \<noteq> [] \<and> last rest = CHR ''?'' \<and> count_list rest (CHR ''?'') = 1);
           rest1 = (if force then butlast rest else fst (str_cut (CHR ''?'') rest));
           query = (if force then '''' else fst (snd (str_cut (CHR ''?'') rest)))
       in Some \<lparr>u_Scheme = scheme, u_Opaque = (if take 1 rest1 = ''/'' then '''' else rest1),
                u_ForceQuery = force, u_RawQuery = query\<rparr>)"
    using nohash noctl sc(2,3) by (simp add: url_parse_def gs Let_def)
  consider (none) "qs = []" | (force) "qs = ''?''" | (query) "q \<noteq> []" "qs = CHR ''?'' # q"
    using assms(7) by (cases q) auto
  then show ?thesis
  proof cases
    case none
    have "last opaque \<noteq> CHR ''?''" using noq assms(3) last_in_set by metis
    with none noq slash show ?thesis unfolding up by (auto simp: Let_def)
  next
    case force
    with noq cnt slash show ?thesis unfolding up by (auto simp: Let_def butlast_append)
  next
    case query
    have "\<not> (last q = CHR ''?'' \<and> count_list q (CHR ''?'') = 0)"
      using query(1) by (metis count_list_0_iff last_in_set)
    with query noq cnt slash show ?thesis unfolding up by (auto simp: Let_def)
  qed
qed

lemma orDefault_simps [simp]:
  "orDefault d (orDefault d x) = orDefault d x"
  "derefOr d (orDefault d x) = derefOr d x"
  "orDefault False b = Some True \<longleftrightarrow> b = Some True"
  "(case orDefault d x of None \<Rightarrow> p | Some v \<Rightarrow> f v) = (case x of None \<Rightarrow> f d | Some v \<Rightarrow> f v)"
  by (simp_all add: orDefault_def derefOr_def split: option.split)

section \<open>Properties\<close>

text \<open>
  an ICE URL that embeds credentials, \<^verbatim>\<open>scheme:user:pass@host[?query]\<close>, is delivered to
  browsers with the credentials moved out of the URL and the query kept: the URL sent is
  \<^verbatim>\<open>scheme:host[?query]\<close>, the user name and the password are exactly the embedded ones, and a
  password may contain colons and at-signs.
\<close>

theorem parseICEServer_splits_credentials:
  assumes "scheme \<in> {''stun'', ''turn'', ''turns''}"
    and "iceSafe user" and "user \<noteq> []" and "CHR '':'' \<notin> set user" and "hd user \<noteq> CHR ''/''"
    and "iceSafe pass" and "pass \<noteq> []"
    and "iceSafe host" and "host \<noteq> []" and "CHR ''@'' \<notin> set host"
    and "\<not> containsCTLByte q" and "CHR ''#'' \<notin> set q" and "qs = [] \<or> qs = CHR ''?'' # q"
  shows "parseICEServer (scheme @ '':'' @ user @ '':'' @ pass @ ''@'' @ host @ qs)
    = Some \<lparr>ice_urls = [scheme @ '':'' @ host @ qs], ice_username = Some user, ice_credential = Some pass\<rparr>"
proof -
  let ?opaque = "user @ CHR '':'' # pass @ CHR ''@'' # host"
  have "iceSafe ?opaque" using assms by (auto simp: iceSafe_def)
  then obtain force rq where u: "url_parse (scheme @ CHR '':'' # ?opaque @ qs)
      = Some \<lparr>u_Scheme = scheme, u_Opaque = ?opaque, u_ForceQuery = force, u_RawQuery = rq\<rparr>"
    and qs: "(if force \<or> rq \<noteq> [] then ''?'' @ rq else []) = qs"
    using url_parse_ice[OF assms(1), of ?opaque q qs] assms by auto
  have last: "str_lastCut (CHR ''@'') ?opaque = Some (user @ CHR '':'' # pass, host)"
    using str_lastCut_append[OF assms(10), of "user @ CHR '':'' # pass"] by simp
  have "parseICEServer (scheme @ CHR '':'' # ?opaque @ qs)
    = Some \<lparr>ice_urls = [scheme @ '':'' @ host @ (if force \<or> rq \<noteq> [] then ''?'' @ rq else [])],
            ice_username = Some user, ice_credential = Some pass\<rparr>"
    using assms u last by (simp add: parseICEServer_def)
  with qs show ?thesis by simp
qed

theorem parseICEServer_splits_credentials_witness:
  "parseICEServer (''turns'' @ '':'' @ ''bob'' @ '':'' @ ''p:w@1'' @ ''@'' @ ''turn.example.net:5349'' @ ''?transport=tcp'')
    = Some \<lparr>ice_urls = [''turns:turn.example.net:5349?transport=tcp''], ice_username = Some ''bob'',
            ice_credential = Some ''p:w@1''\<rparr>"
  using parseICEServer_splits_credentials[of "''turns''" "''bob''" "''p:w@1''" "''turn.example.net:5349''"
      "''transport=tcp''" "''?transport=tcp''"]
  by (simp add: iceSafe_def containsCTLByte_def)

text \<open>
  the text logged for a rejected ICE entry does not depend on the credentials: two entries
  with the same scheme and the same host, and any user name and password whatsoever, are logged as the
  same string.
\<close>

theorem redactICEEntry_hides_credentials:
  assumes "CHR '':'' \<notin> set scheme" and "CHR ''@'' \<notin> set host"
  shows "redactICEEntry (scheme @ '':'' @ user @ '':'' @ pass @ ''@'' @ host)
       = redactICEEntry (scheme @ '':'' @ user' @ '':'' @ pass' @ ''@'' @ host)"
proof -
  have cut: "snd (snd (str_cut (CHR '':'') (a @ CHR '':'' # b)))" for a b
    by (induction a) (auto split: prod.splits)
  have last: "str_lastCut (CHR ''@'') (u @ CHR '':'' # p @ CHR ''@'' # host) = Some (u @ CHR '':'' # p, host)" for u p
    using str_lastCut_append[OF assms(2), of "u @ CHR '':'' # p"] by simp
  have "redactICEEntry (scheme @ CHR '':'' # u @ CHR '':'' # p @ CHR ''@'' # host) = scheme @ '':***:***@'' @ host" for u p
    using assms(1) cut[of u p] by (simp add: redactICEEntry_def last)
  then show ?thesis by simp
qed

theorem redactICEEntry_hides_credentials_witness:
  "redactICEEntry (''turn'' @ '':'' @ ''bob'' @ '':'' @ ''secret'' @ ''@'' @ ''h'')
     = redactICEEntry (''turn'' @ '':'' @ ''eve'' @ '':'' @ ''hunter2'' @ ''@'' @ ''h'')"
  by (rule redactICEEntry_hides_credentials) simp_all

text \<open>
  the defaults written by \<^verbatim>\<open>SetDefaults\<close> and the fallbacks built into the accessors agree:
  filling in the defaults never changes what the call service reads from the settings, and it is
  idempotent.
\<close>

theorem SetDefaults_transparent:
  "(enabled (SetDefaults c), rtcdURL (SetDefaults c), maxParticipants (SetDefaults c),
    allowScreenSharing (SetDefaults c), allowRecording (SetDefaults c), enableRinging (SetDefaults c),
    enableVideo (SetDefaults c), enableReactions (SetDefaults c), hostControlsAllowed (SetDefaults c),
    groupCallsAllowed (SetDefaults c), shardCountFor (Some (SetDefaults c)), iceServers (SetDefaults c))
   = (enabled c, rtcdURL c, maxParticipants c, allowScreenSharing c, allowRecording c, enableRinging c,
      enableVideo c, enableReactions c, hostControlsAllowed c, groupCallsAllowed c,
      shardCountFor (Some c), iceServers c)
   \<and> SetDefaults (SetDefaults c) = SetDefaults c"
  by (simp add: SetDefaults_def enabled_def rtcdURL_def maxParticipants_def
      allowScreenSharing_def allowRecording_def enableRinging_def enableVideo_def enableReactions_def
      hostControlsAllowed_def groupCallsAllowed_def shardCountFor_def iceServers_def defaultShardCount_def
      cong: option.case_cong)

end
