(* ===== verification/Sql_Tables.thy ===== *)
theory Sql_Tables
  imports Prelude
begin

text \<open>
  SQL tables as lists of rows, the statements the stores use on them, and the contract \<open>keyed_table\<close>
  of a store with a primary key: what a read returns after a write.
\<close>

section \<open>SQL statements\<close>

text \<open>
  A single-row \<^verbatim>\<open>SELECT\<close>, an \<^verbatim>\<open>INSERT\<close> under a primary key, an \<^verbatim>\<open>UPDATE ... WHERE\<close> with its row count,
  a \<^verbatim>\<open>DELETE\<close>, and \<^verbatim>\<open>ORDER BY ... LIMIT ... OFFSET\<close> (rows with equal keys keep their table order).
\<close>

definition sql_one :: "('r \<Rightarrow> bool) \<Rightarrow> 'r list \<Rightarrow> 'r option" where
  "sql_one p t = find p t"

definition sql_insert :: "('r \<Rightarrow> string) \<Rightarrow> bool \<Rightarrow> 'r \<Rightarrow> 'r list \<Rightarrow> 'r list option" where
  "sql_insert key fail r t =
     (if fail \<or> key r \<in> set (map key t) then None else Some (t @ [r]))"

definition sql_update :: "('r \<Rightarrow> bool) \<Rightarrow> ('r \<Rightarrow> 'r) \<Rightarrow> 'r list \<Rightarrow> nat \<times> 'r list" where
  "sql_update p f t = (length (filter p t), map (\<lambda>r. if p r then f r else r) t)"

definition sql_delete :: "('r \<Rightarrow> bool) \<Rightarrow> 'r list \<Rightarrow> 'r list" where
  "sql_delete p t = filter (\<lambda>r. \<not> p r) t"

definition sql_page :: "int \<Rightarrow> int \<Rightarrow> 'r list \<Rightarrow> 'r list" where
  "sql_page page perPage rows =
     (if perPage > 0
      then take (nat perPage) (if page > 0 then drop (nat (page * perPage)) rows else rows)
      else rows)"

lemma map_key_update:
  "(\<And>r. key (f r) = key r) \<Longrightarrow> map key (map (\<lambda>r. if p r then f r else r) t) = map key t"
  by (simp add: comp_def if_distrib cong: if_cong)

lemma sql_update_nth:
  "i < length t \<Longrightarrow> snd (sql_update p f t) ! i = (if p (t ! i) then f (t ! i) else t ! i)"
  by (simp add: sql_update_def)

lemma sql_update_length [simp]: "length (snd (sql_update p f t)) = length t"
  by (simp add: sql_update_def)

lemma sql_update_done:
  assumes "\<And>r. p r \<Longrightarrow> \<not> p (f r)"
  shows "\<forall>r \<in> set (snd (sql_update p f t)). \<not> p r"
  using assms by (auto simp: sql_update_def)

lemma sql_update_none: "\<forall>r \<in> set t. \<not> p r \<Longrightarrow> sql_update p f t = (0, t)"
  by (auto simp: sql_update_def filter_empty_conv map_idI)

section \<open>The contract of a keyed table\<close>

text \<open>
  What the service relies on in every store: rows are unique under their key, an insert is seen by
  the next lookup and never overwrites, and a refused statement leaves the table alone. The locale
  is interpreted on the four stores with inserts under a primary key.
\<close>

locale keyed_table =
  fixes key :: "'r \<Rightarrow> string"
    and prep :: "int \<Rightarrow> 'r \<Rightarrow> 'r"
    and get :: "bool \<Rightarrow> string \<Rightarrow> 'r list \<Rightarrow> store_error + 'r"
    and save :: "int \<Rightarrow> bool \<Rightarrow> 'r \<Rightarrow> 'r list \<Rightarrow> (store_error + 'r) \<times> 'r list"
  assumes get_def: "get False k t = (case find (\<lambda>r. key r = k) t of
        None \<Rightarrow> get False k [] | Some r \<Rightarrow> Inr r)"
    and get_Nil: "\<exists>e. get False k [] = Inl e"
    and key_prep: "key (prep now r) = key r"
    and save_cases: "(\<exists>e. save now fail r t = (Inl e, t))
        \<or> (save now fail r t = (Inr (prep now r), t @ [prep now r]) \<and> \<not> fail \<and> key r \<notin> set (map key t))"
begin

lemma save_distinct:
  assumes "distinct (map key t)"
  shows "distinct (map key (snd (save now fail r t)))"
  using save_cases[of now fail r t] assms by (auto simp: key_prep)

lemma find_absent: "k \<notin> set (map key t) \<Longrightarrow> find (\<lambda>r. key r = k) (t @ u) = find (\<lambda>r. key r = k) u"
  by (induction t) auto

lemma find_append_other: "key x \<noteq> k \<Longrightarrow> find (\<lambda>r. key r = k) (t @ [x]) = find (\<lambda>r. key r = k) t"
  by (induction t) auto

lemma get_after_save:
  assumes "save now fail r t = (Inr r', t')"
  shows "get False (key r) t' = Inr r' \<and> r' = prep now r"
proof -
  have "r' = prep now r" "t' = t @ [prep now r]" "key r \<notin> set (map key t)"
    using save_cases[of now fail r t] assms by auto
  then show ?thesis
    by (subst get_def) (simp add: find_absent key_prep)
qed

lemma save_keeps_others:
  assumes "k \<noteq> key r"
  shows "get False k (snd (save now fail r t)) = get False k t"
proof -
  have "get False k (t @ [prep now r]) = get False k t"
    using assms by (simp add: get_def[of k "t @ [prep now r]"] get_def[of k t] find_append_other key_prep)
  then show ?thesis using save_cases[of now fail r t] by auto
qed

lemma save_duplicate:
  assumes "key r \<in> set (map key t)"
  shows "\<exists>e. save now fail r t = (Inl e, t)"
  using save_cases[of now fail r t] assms by auto

end

end
