(* ===== verification/Calls_Store.thy ===== *)
theory Calls_Store
  imports Sql_Tables
begin

text \<open>
  The persisted call records: the row types of \<^verbatim>\<open>public/model/calls.go\<close> with their hooks and
  validation, and the SQL stores of \<^verbatim>\<open>sqlstore/lms_store\<close> (calls, call sessions, call statistics,
  per-channel settings and call jobs).

  A table is the list of its rows. The argument \<open>fail\<close> says whether the database refuses the
  statement (connection loss, foreign key, statement timeout); then the table is unchanged and the
  method returns an error, whatever the statement. A duplicate primary key is refused by the model
  itself. Reads go to a replica; a replica that has not caught up is seen as a failing read.
\<close>

section \<open>Rows\<close>

record Call =
  ca_ID :: string
  ca_ChannelID :: string
  ca_OwnerID :: string
  ca_PostID :: string
  ca_StartAt :: int
  ca_EndAt :: int
  ca_CreateAt :: int
  ca_UpdateAt :: int

definition Call_IsValid :: "Call \<Rightarrow> store_error option" where
  "Call_IsValid c =
     (if ca_ID c = '''' then Some (ErrInvalid ''model.calls.id.app_error'')
      else if ca_ChannelID c = '''' then Some (ErrInvalid ''model.calls.channel_id.app_error'')
      else if ca_OwnerID c = '''' then Some (ErrInvalid ''model.calls.owner_id.app_error'')
      else if ca_CreateAt c = 0 then Some (ErrInvalid ''model.calls.create_at.app_error'')
      else None)"

definition Call_PreSave :: "int \<Rightarrow> Call \<Rightarrow> Call" where
  "Call_PreSave now c =
     (if ca_CreateAt c = 0 then c\<lparr>ca_CreateAt := now\<rparr> else c)\<lparr>ca_UpdateAt := now\<rparr>"

definition Call_PreUpdate :: "int \<Rightarrow> Call \<Rightarrow> Call" where
  "Call_PreUpdate now c = c\<lparr>ca_UpdateAt := now\<rparr>"

record CallSession =
  se_ID :: string
  se_CallID :: string
  se_UserID :: string
  se_ConnID :: string
  se_StartAt :: int
  se_EndAt :: int
  se_CreateAt :: int
  se_UpdateAt :: int

definition CallSession_IsValid :: "CallSession \<Rightarrow> store_error option" where
  "CallSession_IsValid s =
     (if se_ID s = '''' then Some (ErrInvalid ''model.call_session.id.app_error'')
      else if se_CallID s = '''' then Some (ErrInvalid ''model.call_session.call_id.app_error'')
      else if se_UserID s = '''' then Some (ErrInvalid ''model.call_session.user_id.app_error'')
      else if se_ConnID s = '''' then Some (ErrInvalid ''model.call_session.conn_id.app_error'')
      else if se_CreateAt s = 0 then Some (ErrInvalid ''model.call_session.create_at.app_error'')
      else None)"

definition CallSession_PreSave :: "int \<Rightarrow> CallSession \<Rightarrow> CallSession" where
  "CallSession_PreSave now s =
     (if se_CreateAt s = 0 then s\<lparr>se_CreateAt := now\<rparr> else s)\<lparr>se_UpdateAt := now\<rparr>"

definition CallSession_PreUpdate :: "int \<Rightarrow> CallSession \<Rightarrow> CallSession" where
  "CallSession_PreUpdate now s = s\<lparr>se_UpdateAt := now\<rparr>"

record CallJob =
  jb_ID :: string
  jb_CallID :: string
  jb_Type :: string
  jb_StartAt :: int
  jb_EndAt :: int
  jb_Props :: string
  jb_Err :: string
  jb_CreateAt :: int
  jb_UpdateAt :: int

definition CallJob_PreSave :: "int \<Rightarrow> CallJob \<Rightarrow> CallJob" where
  "CallJob_PreSave now j =
     (if jb_CreateAt j = 0 then j\<lparr>jb_CreateAt := now\<rparr> else j)\<lparr>jb_UpdateAt := now\<rparr>"

definition CallJob_PreUpdate :: "int \<Rightarrow> CallJob \<Rightarrow> CallJob" where
  "CallJob_PreUpdate now j = j\<lparr>jb_UpdateAt := now\<rparr>"

record CallStat =
  st_ID :: string
  st_CallID :: string
  st_ChannelID :: string
  st_Participants :: int
  st_PeakParticipants :: int
  st_DurationSeconds :: int
  st_CreateAt :: int

record CallsChannel =
  cc_ChannelID :: string
  cc_Enabled :: bool
  cc_MaxParticipants :: int
  cc_AllowScreenSharing :: bool
  cc_AllowRecording :: bool
  cc_CreateAt :: int
  cc_UpdateAt :: int

definition CallsChannel_PreSave :: "int \<Rightarrow> CallsChannel \<Rightarrow> CallsChannel" where
  "CallsChannel_PreSave now c =
     (if cc_CreateAt c = 0 then c\<lparr>cc_CreateAt := now\<rparr> else c)\<lparr>cc_UpdateAt := now\<rparr>"

definition CallsChannel_PreUpdate :: "int \<Rightarrow> CallsChannel \<Rightarrow> CallsChannel" where
  "CallsChannel_PreUpdate now c = c\<lparr>cc_UpdateAt := now\<rparr>"

section \<open>Calls\<close>

definition CallStore_Get :: "bool \<Rightarrow> string \<Rightarrow> Call list \<Rightarrow> store_error + Call" where
  "CallStore_Get fail callID t =
     (if fail then Inl (ErrSql ''failed to find call'')
      else case sql_one (\<lambda>r. ca_ID r = callID) t of
             None \<Rightarrow> Inl (ErrNotFound ''Call'' callID)
           | Some r \<Rightarrow> Inr r)"

definition CallStore_GetActiveByChannel :: "bool \<Rightarrow> string \<Rightarrow> Call list \<Rightarrow> store_error + Call" where
  "CallStore_GetActiveByChannel fail channelID t =
     (if fail then Inl (ErrSql ''failed to get active call by channel'')
      else case sort_key (\<lambda>r. - ca_StartAt r)
                  (filter (\<lambda>r. ca_ChannelID r = channelID \<and> ca_EndAt r = 0) t) of
             [] \<Rightarrow> Inl (ErrNotFound ''Call'' channelID)
           | r # _ \<Rightarrow> Inr r)"

record CallFilterOpts =
  fo_ChannelID :: string
  fo_OwnerID :: string
  fo_Active :: "bool option"
  fo_Page :: int
  fo_PerPage :: int

definition CallStore_Search :: "bool \<Rightarrow> CallFilterOpts \<Rightarrow> Call list \<Rightarrow> store_error + Call list" where
  "CallStore_Search fail opts t =
     (if fail then Inl (ErrSql ''failed to search calls'')
      else Inr (sql_page (fo_Page opts) (fo_PerPage opts)
        (sort_key (\<lambda>r. - ca_StartAt r)
          (filter (\<lambda>r. (fo_ChannelID opts \<noteq> '''' \<longrightarrow> ca_ChannelID r = fo_ChannelID opts)
             \<and> (fo_OwnerID opts \<noteq> '''' \<longrightarrow> ca_OwnerID r = fo_OwnerID opts)
             \<and> (case fo_Active opts of
                   None \<Rightarrow> True
                 | Some a \<Rightarrow> if a then ca_EndAt r = 0 else ca_EndAt r > 0)) t))))"

definition CallStore_Save :: "int \<Rightarrow> bool \<Rightarrow> Call \<Rightarrow> Call list \<Rightarrow> (store_error + Call) \<times> Call list" where
  "CallStore_Save now fail call0 t =
     (let call = Call_PreSave now call0 in
      case Call_IsValid call of
        Some e \<Rightarrow> (Inl e, t)
      | None \<Rightarrow>
          (case sql_insert ca_ID fail call t of
             None \<Rightarrow> (Inl (ErrSql ''failed to save call''), t)
           | Some t' \<Rightarrow> (Inr call, t')))"

definition CallStore_Update :: "int \<Rightarrow> bool \<Rightarrow> Call \<Rightarrow> Call list \<Rightarrow> (store_error + Call) \<times> Call list" where
  "CallStore_Update now fail call0 t =
     (let call = Call_PreUpdate now call0 in
      if fail then (Inl (ErrSql ''failed to update call''), t)
      else
        let (n, t') = sql_update (\<lambda>r. ca_ID r = ca_ID call)
              (\<lambda>r. r\<lparr>ca_ChannelID := ca_ChannelID call, ca_OwnerID := ca_OwnerID call,
                      ca_PostID := ca_PostID call, ca_StartAt := ca_StartAt call,
                      ca_EndAt := ca_EndAt call, ca_UpdateAt := ca_UpdateAt call\<rparr>) t
        in if n = 0 then (Inl (ErrNotFound ''Call'' (ca_ID call)), t') else (Inr call, t'))"

definition CallStore_Delete :: "bool \<Rightarrow> string \<Rightarrow> Call list \<Rightarrow> store_error option \<times> Call list" where
  "CallStore_Delete fail callID t =
     (if fail then (Some (ErrSql ''failed to delete call''), t)
      else (None, sql_delete (\<lambda>r. ca_ID r = callID) t))"

section \<open>Call sessions\<close>

definition CallSessionStore_Get :: "bool \<Rightarrow> string \<Rightarrow> CallSession list \<Rightarrow> store_error + CallSession" where
  "CallSessionStore_Get fail sessionID t =
     (if fail then Inl (ErrSql ''failed to find call session'')
      else case sql_one (\<lambda>r. se_ID r = sessionID) t of
             None \<Rightarrow> Inl (ErrNotFound ''CallSession'' sessionID)
           | Some r \<Rightarrow> Inr r)"

definition CallSessionStore_GetByCall :: "bool \<Rightarrow> string \<Rightarrow> CallSession list \<Rightarrow> store_error + CallSession list" where
  "CallSessionStore_GetByCall fail callID t =
     (if fail then Inl (ErrSql ''failed to get call sessions by call'')
      else Inr (sort_key se_StartAt (filter (\<lambda>r. se_CallID r = callID) t)))"

definition CallSessionStore_GetByCallAndUser ::
  "bool \<Rightarrow> string \<Rightarrow> string \<Rightarrow> CallSession list \<Rightarrow> store_error + CallSession" where
  "CallSessionStore_GetByCallAndUser fail callID userID t =
     (if fail then Inl (ErrSql ''failed to get call session by call and user'')
      else case sort_key (\<lambda>r. - se_StartAt r)
                  (filter (\<lambda>r. se_CallID r = callID \<and> se_UserID r = userID) t) of
             [] \<Rightarrow> Inl (ErrNotFound ''CallSession'' (callID @ '','' @ userID))
           | r # _ \<Rightarrow> Inr r)"

definition CallSessionStore_Save ::
  "int \<Rightarrow> bool \<Rightarrow> CallSession \<Rightarrow> CallSession list \<Rightarrow> (store_error + CallSession) \<times> CallSession list" where
  "CallSessionStore_Save now fail sess0 t =
     (let sess = CallSession_PreSave now sess0 in
      case CallSession_IsValid sess of
        Some e \<Rightarrow> (Inl e, t)
      | None \<Rightarrow>
          (case sql_insert se_ID fail sess t of
             None \<Rightarrow> (Inl (ErrSql ''failed to save call session''), t)
           | Some t' \<Rightarrow> (Inr sess, t')))"

definition CallSessionStore_Update ::
  "int \<Rightarrow> bool \<Rightarrow> CallSession \<Rightarrow> CallSession list \<Rightarrow> (store_error + CallSession) \<times> CallSession list" where
  "CallSessionStore_Update now fail sess0 t =
     (let sess = CallSession_PreUpdate now sess0 in
      if fail then (Inl (ErrSql ''failed to update call session''), t)
      else
        let (n, t') = sql_update (\<lambda>r. se_ID r = se_ID sess)
              (\<lambda>r. r\<lparr>se_StartAt := se_StartAt sess, se_EndAt := se_EndAt sess,
                      se_UpdateAt := se_UpdateAt sess\<rparr>) t
        in if n = 0 then (Inl (ErrNotFound ''CallSession'' (se_ID sess)), t') else (Inr sess, t'))"

definition CallSessionStore_EndSession ::
  "bool \<Rightarrow> string \<Rightarrow> string \<Rightarrow> int \<Rightarrow> CallSession list \<Rightarrow> (store_error + nat) \<times> CallSession list" where
  "CallSessionStore_EndSession fail callID connID endAt t =
     (if fail then (Inl (ErrSql ''failed to end call session''), t)
      else
        let (n, t') = sql_update (\<lambda>r. se_CallID r = callID \<and> se_ConnID r = connID \<and> se_EndAt r = 0)
              (\<lambda>r. r\<lparr>se_EndAt := endAt, se_UpdateAt := endAt\<rparr>) t
        in (Inr n, t'))"

definition CallSessionStore_EndOpenSessions ::
  "bool \<Rightarrow> string \<Rightarrow> int \<Rightarrow> CallSession list \<Rightarrow> (store_error + nat) \<times> CallSession list" where
  "CallSessionStore_EndOpenSessions fail callID endAt t =
     (if fail then (Inl (ErrSql ''failed to end open call sessions''), t)
      else
        let (n, t') = sql_update (\<lambda>r. se_CallID r = callID \<and> se_EndAt r = 0)
              (\<lambda>r. r\<lparr>se_EndAt := endAt, se_UpdateAt := endAt\<rparr>) t
        in (Inr n, t'))"

definition CallSessionStore_Delete ::
  "bool \<Rightarrow> string \<Rightarrow> CallSession list \<Rightarrow> store_error option \<times> CallSession list" where
  "CallSessionStore_Delete fail sessionID t =
     (if fail then (Some (ErrSql ''failed to delete call session''), t)
      else (None, sql_delete (\<lambda>r. se_ID r = sessionID) t))"

section \<open>Call statistics\<close>

definition CallStatStore_Get :: "bool \<Rightarrow> string \<Rightarrow> CallStat list \<Rightarrow> store_error + CallStat" where
  "CallStatStore_Get fail statID t =
     (if fail then Inl (ErrSql ''failed to find call stat'')
      else case sql_one (\<lambda>r. st_ID r = statID) t of
             None \<Rightarrow> Inl (ErrNotFound ''CallStat'' statID)
           | Some r \<Rightarrow> Inr r)"

definition CallStatStore_GetByCall :: "bool \<Rightarrow> string \<Rightarrow> CallStat list \<Rightarrow> store_error + CallStat" where
  "CallStatStore_GetByCall fail callID t =
     (if fail then Inl (ErrSql ''failed to get call stat by call'')
      else case sql_one (\<lambda>r. st_CallID r = callID) t of
             None \<Rightarrow> Inl (ErrNotFound ''CallStat'' callID)
           | Some r \<Rightarrow> Inr r)"

definition CallStatStore_GetByChannel ::
  "bool \<Rightarrow> string \<Rightarrow> int \<Rightarrow> int \<Rightarrow> CallStat list \<Rightarrow> store_error + CallStat list" where
  "CallStatStore_GetByChannel fail channelID page perPage t =
     (if fail then Inl (ErrSql ''failed to get call stats by channel'')
      else Inr (sql_page page perPage
        (sort_key (\<lambda>r. - st_CreateAt r) (filter (\<lambda>r. st_ChannelID r = channelID) t))))"

definition CallStatStore_Save ::
  "int \<Rightarrow> bool \<Rightarrow> CallStat \<Rightarrow> CallStat list \<Rightarrow> (store_error + CallStat) \<times> CallStat list" where
  "CallStatStore_Save now fail stat0 t =
     (let stat = (if st_CreateAt stat0 = 0 then stat0\<lparr>st_CreateAt := now\<rparr> else stat0) in
      case sql_insert st_ID fail stat t of
        None \<Rightarrow> (Inl (ErrSql ''failed to save call stat''), t)
      | Some t' \<Rightarrow> (Inr stat, t'))"

section \<open>Per-channel settings\<close>

definition CallsChannelStore_Get :: "bool \<Rightarrow> string \<Rightarrow> CallsChannel list \<Rightarrow> store_error + CallsChannel" where
  "CallsChannelStore_Get fail channelID t =
     (if fail then Inl (ErrSql ''failed to find calls channel'')
      else case sql_one (\<lambda>r. cc_ChannelID r = channelID) t of
             None \<Rightarrow> Inl (ErrNotFound ''CallsChannel'' channelID)
           | Some r \<Rightarrow> Inr r)"

definition CallsChannelStore_Save ::
  "int \<Rightarrow> bool \<Rightarrow> CallsChannel \<Rightarrow> CallsChannel list \<Rightarrow> (store_error + CallsChannel) \<times> CallsChannel list" where
  "CallsChannelStore_Save now fail cc0 t =
     (let cc = CallsChannel_PreSave now cc0 in
      if fail then (Inl (ErrSql ''failed to save calls channel''), t)
      else if cc_ChannelID cc \<in> set (map cc_ChannelID t)
        then (Inr cc, map (\<lambda>r. if cc_ChannelID r = cc_ChannelID cc
               then r\<lparr>cc_Enabled := cc_Enabled cc, cc_MaxParticipants := cc_MaxParticipants cc,
                      cc_AllowScreenSharing := cc_AllowScreenSharing cc,
                      cc_AllowRecording := cc_AllowRecording cc, cc_UpdateAt := cc_UpdateAt cc\<rparr>
               else r) t)
        else (Inr cc, t @ [cc]))"

definition CallsChannelStore_Delete ::
  "bool \<Rightarrow> string \<Rightarrow> CallsChannel list \<Rightarrow> store_error option \<times> CallsChannel list" where
  "CallsChannelStore_Delete fail channelID t =
     (if fail then (Some (ErrSql ''failed to delete calls channel''), t)
      else (None, sql_delete (\<lambda>r. cc_ChannelID r = channelID) t))"

section \<open>Call jobs\<close>

definition CallJobStore_Get :: "bool \<Rightarrow> string \<Rightarrow> CallJob list \<Rightarrow> store_error + CallJob" where
  "CallJobStore_Get fail jobID t =
     (if fail then Inl (ErrSql ''failed to find call job'')
      else case sql_one (\<lambda>r. jb_ID r = jobID) t of
             None \<Rightarrow> Inl (ErrNotFound ''CallJob'' jobID)
           | Some r \<Rightarrow> Inr r)"

definition CallJobStore_GetByCall :: "bool \<Rightarrow> string \<Rightarrow> CallJob list \<Rightarrow> store_error + CallJob list" where
  "CallJobStore_GetByCall fail callID t =
     (if fail then Inl (ErrSql ''failed to get call jobs by call'')
      else Inr (sort_key jb_StartAt (filter (\<lambda>r. jb_CallID r = callID) t)))"

definition CallJobStore_Save ::
  "int \<Rightarrow> bool \<Rightarrow> CallJob \<Rightarrow> CallJob list \<Rightarrow> (store_error + CallJob) \<times> CallJob list" where
  "CallJobStore_Save now fail job0 t =
     (let job = CallJob_PreSave now job0 in
      case sql_insert jb_ID fail job t of
        None \<Rightarrow> (Inl (ErrSql ''failed to save call job''), t)
      | Some t' \<Rightarrow> (Inr job, t'))"

definition CallJobStore_Update ::
  "int \<Rightarrow> bool \<Rightarrow> CallJob \<Rightarrow> CallJob list \<Rightarrow> (store_error + CallJob) \<times> CallJob list" where
  "CallJobStore_Update now fail job0 t =
     (let job = CallJob_PreUpdate now job0 in
      if fail then (Inl (ErrSql ''failed to update call job''), t)
      else
        let (n, t') = sql_update (\<lambda>r. jb_ID r = jb_ID job)
              (\<lambda>r. r\<lparr>jb_StartAt := jb_StartAt job, jb_EndAt := jb_EndAt job, jb_Props := jb_Props job,
                      jb_Err := jb_Err job, jb_UpdateAt := jb_UpdateAt job\<rparr>) t
        in if n = 0 then (Inl (ErrNotFound ''CallJob'' (jb_ID job)), t') else (Inr job, t'))"

definition CallJobStore_Delete :: "bool \<Rightarrow> string \<Rightarrow> CallJob list \<Rightarrow> store_error option \<times> CallJob list" where
  "CallJobStore_Delete fail jobID t =
     (if fail then (Some (ErrSql ''failed to delete call job''), t)
      else (None, sql_delete (\<lambda>r. jb_ID r = jobID) t))"

section \<open>The tables keep the contract\<close>

interpretation calls: keyed_table ca_ID Call_PreSave CallStore_Get CallStore_Save
  by unfold_locales
    (auto simp: CallStore_Get_def sql_one_def CallStore_Save_def sql_insert_def Let_def Call_PreSave_def
      split: option.splits)

interpretation sessions: keyed_table se_ID CallSession_PreSave CallSessionStore_Get CallSessionStore_Save
  by unfold_locales
    (auto simp: CallSessionStore_Get_def sql_one_def CallSessionStore_Save_def sql_insert_def Let_def
      CallSession_PreSave_def split: option.splits)

interpretation stats: keyed_table st_ID "\<lambda>now r. if st_CreateAt r = 0 then r\<lparr>st_CreateAt := now\<rparr> else r"
  CallStatStore_Get CallStatStore_Save
  by unfold_locales
    (auto simp: CallStatStore_Get_def sql_one_def CallStatStore_Save_def sql_insert_def Let_def
      split: option.splits)

interpretation jobs: keyed_table jb_ID CallJob_PreSave CallJobStore_Get CallJobStore_Save
  by unfold_locales
    (auto simp: CallJobStore_Get_def sql_one_def CallJobStore_Save_def sql_insert_def Let_def
      CallJob_PreSave_def split: option.splits)

lemma EndSession_simp:
  "CallSessionStore_EndSession False callID connID endAt t =
     (Inr (fst (sql_update (\<lambda>r. se_CallID r = callID \<and> se_ConnID r = connID \<and> se_EndAt r = 0)
            (\<lambda>r. r\<lparr>se_EndAt := endAt, se_UpdateAt := endAt\<rparr>) t)),
      snd (sql_update (\<lambda>r. se_CallID r = callID \<and> se_ConnID r = connID \<and> se_EndAt r = 0)
            (\<lambda>r. r\<lparr>se_EndAt := endAt, se_UpdateAt := endAt\<rparr>) t))"
  by (simp add: CallSessionStore_EndSession_def split_def Let_def)

lemma EndOpenSessions_simp:
  "CallSessionStore_EndOpenSessions False callID endAt t =
     (Inr (fst (sql_update (\<lambda>r. se_CallID r = callID \<and> se_EndAt r = 0)
            (\<lambda>r. r\<lparr>se_EndAt := endAt, se_UpdateAt := endAt\<rparr>) t)),
      snd (sql_update (\<lambda>r. se_CallID r = callID \<and> se_EndAt r = 0)
            (\<lambda>r. r\<lparr>se_EndAt := endAt, se_UpdateAt := endAt\<rparr>) t))"
  by (simp add: CallSessionStore_EndOpenSessions_def split_def Let_def)

lemma EndOpenSessions_done:
  assumes "endAt \<noteq> 0"
  shows "\<forall>r \<in> set (snd (CallSessionStore_EndOpenSessions False callID endAt t)).
    \<not> (se_CallID r = callID \<and> se_EndAt r = 0)"
  unfolding EndOpenSessions_simp snd_conv by (rule sql_update_done) (use assms in simp)

section \<open>Properties\<close>

text \<open>
  stamping a participant's leave closes the open rows of that call and that session, and nothing
  else: a second device of the same user, the same connection in another call and rows closed before keep
  every column, and repeating the statement closes no further row.
\<close>

theorem EndSession_exact:
  assumes "endAt \<noteq> 0" and "CallSessionStore_EndSession False callID connID endAt t = (Inr n, t')"
  shows "length t' = length t
    \<and> (\<forall>r \<in> set t'. \<not> (se_CallID r = callID \<and> se_ConnID r = connID \<and> se_EndAt r = 0))
    \<and> (\<forall>i < length t. t' ! i \<noteq> t ! i \<longrightarrow>
         se_CallID (t ! i) = callID \<and> se_ConnID (t ! i) = connID \<and> se_EndAt (t ! i) = 0
         \<and> t' ! i = (t ! i)\<lparr>se_EndAt := endAt, se_UpdateAt := endAt\<rparr>)
    \<and> CallSessionStore_EndSession False callID connID later t' = (Inr 0, t')"
proof -
  let ?p = "\<lambda>r. se_CallID r = callID \<and> se_ConnID r = connID \<and> se_EndAt r = 0"
  let ?f = "\<lambda>r. r\<lparr>se_EndAt := endAt, se_UpdateAt := endAt\<rparr>"
  have t': "t' = snd (sql_update ?p ?f t)" using assms(2) by (simp add: EndSession_simp)
  have done': "\<forall>r \<in> set t'. \<not> ?p r"
    unfolding t' by (rule sql_update_done) (use assms(1) in simp)
  have "t' ! i \<noteq> t ! i \<longrightarrow> ?p (t ! i) \<and> t' ! i = ?f (t ! i)" if "i < length t" for i
    unfolding t' sql_update_nth[OF that] by simp
  moreover have "CallSessionStore_EndSession False callID connID later t' = (Inr 0, t')"
    using sql_update_none[OF done'] by (simp add: EndSession_simp)
  ultimately show ?thesis using done' t' by simp
qed

definition demo_row :: "string \<Rightarrow> string \<Rightarrow> int \<Rightarrow> CallSession" where
  "demo_row i conn e =
     \<lparr>se_ID = i, se_CallID = ''call'', se_UserID = ''ann'', se_ConnID = conn, se_StartAt = 5,
      se_EndAt = e, se_CreateAt = 5, se_UpdateAt = 5\<rparr>"

theorem EndSession_exact_witness:
  "CallSessionStore_EndSession False ''call'' ''phone'' 11
     [(demo_row ''1'' ''phone'' 9)\<lparr>se_UpdateAt := 9\<rparr>, demo_row ''2'' ''laptop'' 0]
     = (Inr 0, [(demo_row ''1'' ''phone'' 9)\<lparr>se_UpdateAt := 9\<rparr>, demo_row ''2'' ''laptop'' 0])"
proof -
  have e: "CallSessionStore_EndSession False ''call'' ''phone'' 9 [demo_row ''1'' ''phone'' 0, demo_row ''2'' ''laptop'' 0]
      = (Inr 1, [(demo_row ''1'' ''phone'' 9)\<lparr>se_UpdateAt := 9\<rparr>, demo_row ''2'' ''laptop'' 0])"
    by (simp add: EndSession_simp sql_update_def demo_row_def)
  show ?thesis using EndSession_exact[OF _ e, of 11] by simp
qed

text \<open>
  The call store is a faithful keyed store: a saved call is read back as stored, with its
  time stamps filled in and every other column unchanged; an update is read back with the new end time
  and the original creation time; saving a second row under the same id is refused and changes nothing.
\<close>

theorem CallStore_roundtrip:
  assumes "CallStore_Save now fail call t = (Inr saved, t1)"
    and "CallStore_Update later False (saved\<lparr>ca_EndAt := e\<rparr>) t1 = (res, t2)"
  shows "CallStore_Get False (ca_ID call) t1 = Inr saved \<and> saved = Call_PreSave now call
    \<and> res = Inr (saved\<lparr>ca_EndAt := e, ca_UpdateAt := later\<rparr>)
    \<and> CallStore_Get False (ca_ID call) t2 = Inr (saved\<lparr>ca_EndAt := e, ca_UpdateAt := later\<rparr>)
    \<and> (k \<noteq> ca_ID call \<longrightarrow> CallStore_Get False k t2 = CallStore_Get False k t)
    \<and> (\<exists>err. CallStore_Save now' fail' (call\<lparr>ca_OwnerID := other\<rparr>) t1 = (Inl err, t1))"
proof -
  have s: "saved = Call_PreSave now call" and t1: "t1 = t @ [saved]" and new: "ca_ID call \<notin> set (map ca_ID t)"
    using calls.save_cases[of now fail call t] assms(1) by auto
  have id: "ca_ID saved = ca_ID call" by (simp add: s calls.key_prep)
  let ?p = "\<lambda>r. ca_ID r = ca_ID call"
  have none: "\<forall>r \<in> set t. \<not> ?p r" using new by (auto simp: rev_image_eqI)
  let ?row = "saved\<lparr>ca_EndAt := e, ca_UpdateAt := later\<rparr>"
  have upd: "CallStore_Update later False (saved\<lparr>ca_EndAt := e\<rparr>) t1 = (Inr ?row, t @ [?row])"
    using none by (simp add: CallStore_Update_def Call_PreUpdate_def sql_update_def t1 id map_idI filter_empty_conv Let_def)
  have g2: "CallStore_Get False (ca_ID call) (t @ [?row]) = Inr ?row"
    using new by (subst calls.get_def) (simp add: calls.find_absent id)
  have o: "CallStore_Get False k (t @ [?row]) = CallStore_Get False k t" if "k \<noteq> ca_ID call"
    using that by (simp add: calls.get_def[of k "t @ [?row]"] calls.get_def[of k t] calls.find_append_other id)
  show ?thesis
    using calls.get_after_save[OF assms(1)] upd assms(2) g2 o
      calls.save_duplicate[of "call\<lparr>ca_OwnerID := other\<rparr>" t1 now' fail'] id
    by (auto simp: t1)
qed

definition demo_callrow :: Call where
  "demo_callrow = \<lparr>ca_ID = ''call'', ca_ChannelID = ''ch'', ca_OwnerID = ''ann'', ca_PostID = '''',
     ca_StartAt = 5, ca_EndAt = 0, ca_CreateAt = 5, ca_UpdateAt = 0\<rparr>"

theorem CallStore_roundtrip_witness:
  "CallStore_Get False ''call'' [demo_callrow\<lparr>ca_EndAt := 9, ca_UpdateAt := 9\<rparr>]
     = Inr (demo_callrow\<lparr>ca_EndAt := 9, ca_UpdateAt := 9\<rparr>)"
proof -
  have s: "CallStore_Save 6 False demo_callrow [] = (Inr (demo_callrow\<lparr>ca_UpdateAt := 6\<rparr>), [demo_callrow\<lparr>ca_UpdateAt := 6\<rparr>])"
    by (simp add: CallStore_Save_def Call_PreSave_def Call_IsValid_def sql_insert_def demo_callrow_def Let_def)
  have u: "CallStore_Update 9 False ((demo_callrow\<lparr>ca_UpdateAt := 6\<rparr>)\<lparr>ca_EndAt := 9\<rparr>) [demo_callrow\<lparr>ca_UpdateAt := 6\<rparr>]
      = (Inr (demo_callrow\<lparr>ca_EndAt := 9, ca_UpdateAt := 9\<rparr>), [demo_callrow\<lparr>ca_EndAt := 9, ca_UpdateAt := 9\<rparr>])"
    by (simp add: CallStore_Update_def Call_PreUpdate_def sql_update_def demo_callrow_def Let_def)
  show ?thesis
    using CallStore_roundtrip[OF s u] by (simp add: demo_callrow_def)
qed

end
