(* ===== verification/Calls_Service.thy ===== *)
theory Calls_Service
  imports Calls_Config Calls_Store
begin

text \<open>
  The call service and its call-level operations: \<^verbatim>\<open>calls/service.go\<close>, \<^verbatim>\<open>calls/api.go\<close>,
  \<^verbatim>\<open>calls/posts.go\<close> and \<^verbatim>\<open>calls/channels.go\<close>.

  The record \<open>service\<close> holds the heaps of sessions and calls, the three registries, the database tables
  and the observable output: the events published to the websocket hub, the messages sent to the
  SFU and the updates of announcement posts. What the service cannot decide itself comes from an
  environment \<open>env\<close>, read at an ever-increasing tick: the clock (\<^verbatim>\<open>model.GetMillis\<close>), fresh ids
  (\<^verbatim>\<open>model.NewId\<close>), whether the database refuses a statement, whether a send to the SFU fails, which host
  is assigned to a new call, whether a post can be created, and the decoding of JSON text. Theorems
  quantify over all environments; where one needs a fact about it (the clock is positive, ids are
  never repeated) it is a named hypothesis. Log output is left out.

  A handler runs as one atomic step; within a handler the order of effects is the order of the code.
\<close>

section \<open>Messages\<close>

datatype val =
    VNil
  | VStr string
  | VInt int
  | VBool bool
  | VList "val list"
  | VMap "(string \<times> val) list"
  | VError calls_error
  | VState CallStateView
  | VIce "iceServer list"
  | VEncoded val

type_synonym data = "(string \<times> val) list"

record WebsocketBroadcast =
  bc_ChannelId :: string
  bc_UserId :: string
  bc_ConnectionId :: string
  bc_Reliable :: bool

record hubEvent =
  ev_name :: string
  ev_data :: data
  ev_to :: WebsocketBroadcast

datatype rtcType =
    ICEMessage | SDPMessage | MuteMessage | UnmuteMessage | ScreenOnMessage | ScreenOffMessage
  | VoiceOnMessage | VoiceOffMessage | VideoOnMessage | VideoOffMessage

text \<open>Bytes of a payload: none, given text, or the JSON encoding of a value.\<close>

datatype bytes = NoBytes | Bytes string | Encoded val

record rtcMessage =
  rm_GroupID :: string
  rm_UserID :: string
  rm_SessionID :: string
  rm_CallID :: string
  rm_Type :: rtcType
  rm_Data :: bytes

datatype clientData = DRtc rtcMessage | DStrings "(string \<times> string) list" | DAny data | DOther

record clientMessage =
  cm_Type :: string
  cm_Data :: clientData

definition rtcEnvelope :: "string \<Rightarrow> string \<Rightarrow> string \<Rightarrow> rtcType \<Rightarrow> bytes \<Rightarrow> clientMessage" where
  "rtcEnvelope sessionID callID userID msgType raw =
     \<lparr>cm_Type = ''rtc'',
      cm_Data = DRtc \<lparr>rm_GroupID = ''default'', rm_UserID = userID, rm_SessionID = sessionID,
                      rm_CallID = callID, rm_Type = msgType, rm_Data = raw\<rparr>\<rparr>"

section \<open>Environment and service state\<close>

record env =
  en_now :: "nat \<Rightarrow> int"
  en_newId :: "nat \<Rightarrow> string"
  en_db :: "nat \<Rightarrow> bool"
  en_send :: "nat \<Rightarrow> bool"
  en_host :: "nat \<Rightarrow> calls_error + string"
  en_post :: "nat \<Rightarrow> string option"
  en_json :: "string \<Rightarrow> val option"

record service =
  sv_cfg :: CallsSettings
  sv_heap :: sheap
  sv_nextS :: sref
  sv_calls :: cheap
  sv_nextC :: cref
  sv_shards :: shardRegistry
  sv_index :: sessionRegistry
  sv_chan :: channelIndex
  sv_rtcd :: bool
  sv_started :: bool
  sv_postCreator :: bool
  sv_rtcdKick :: bool
  sv_reaper :: bool
  sv_timers :: "(cref \<times> string \<times> sref) list"
  sv_callRows :: "Call list"
  sv_sessRows :: "CallSession list"
  sv_statRows :: "CallStat list"
  sv_chanRows :: "CallsChannel list"
  sv_events :: "hubEvent list"
  sv_sfu :: "(string \<times> clientMessage) list"
  sv_posts :: "(string \<times> data) list"
  sv_tick :: nat

record ServiceConfig =
  sc_StoreFn :: "bool option"
  sc_ConfigFn :: "CallsSettings option option"
  sc_Hub :: bool
  sc_Log :: bool
  sc_PostCreatorFn :: bool

record tables =
  tb_calls :: "Call list"
  tb_sessions :: "CallSession list"
  tb_stats :: "CallStat list"
  tb_channels :: "CallsChannel list"

definition noSession :: session where
  "noSession =
     \<lparr>ss_userID = '''', ss_channelID = '''', ss_callID = '''', ss_sessionID = '''', ss_connID = '''',
      ss_unmuted = False, ss_screenOn = False, ss_videoOn = False, ss_voiceOn = False,
      ss_raisedHandAt = 0, ss_startAt = 0, ss_rtcClosed = 0, ss_removed = 0\<rparr>"

text \<open>
  \<^verbatim>\<open>New\<close>: a missing dependency is an error; the outer \<open>None\<close> is a nil function, the inner one a function
  that returns nil. The tables are what the database holds when the server starts.
\<close>

definition New :: "ServiceConfig \<Rightarrow> tables \<Rightarrow> calls_error + service" where
  "New sc db =
     (if sc_StoreFn sc = None \<or> sc_ConfigFn sc = None
        then Inl (ErrMsg ''calls: StoreFn and ConfigFn are required'')
      else if \<not> sc_Log sc then Inl (ErrMsg ''calls: Log is required'')
      else if \<not> sc_Hub sc then Inl (ErrMsg ''calls: Hub is required'')
      else if sc_StoreFn sc = Some False then Inl (ErrMsg ''calls: StoreFn returned a nil store'')
      else case the (sc_ConfigFn sc) of
             None \<Rightarrow> Inl (ErrMsg ''calls: ConfigFn returned a nil config'')
           | Some cfg \<Rightarrow> Inr
     \<lparr>sv_cfg = cfg, sv_heap = (\<lambda>_. noSession), sv_nextS = 0,
      sv_calls = (\<lambda>_. newCallState '''' '''' '''' 0), sv_nextC = 0,
      sv_shards = newShardRegistry (shardCountFor (Some cfg)), sv_index = newSessionRegistry,
      sv_chan = newChannelIndex, sv_rtcd = False, sv_started = False,
      sv_postCreator = sc_PostCreatorFn sc, sv_rtcdKick = False, sv_reaper = False, sv_timers = [],
      sv_callRows = tb_calls db, sv_sessRows = tb_sessions db, sv_statRows = tb_stats db,
      sv_chanRows = tb_channels db, sv_events = [], sv_sfu = [], sv_posts = [], sv_tick = 0\<rparr>)"

definition tick :: "service \<Rightarrow> service" where
  "tick s = s\<lparr>sv_tick := Suc (sv_tick s)\<rparr>"

definition GetMillis :: "env \<Rightarrow> service \<Rightarrow> int \<times> service" where
  "GetMillis E s = (en_now E (sv_tick s), tick s)"

definition NewId :: "env \<Rightarrow> service \<Rightarrow> string \<times> service" where
  "NewId E s = (en_newId E (sv_tick s), tick s)"

section \<open>Output\<close>

definition broadcast :: "string \<Rightarrow> data \<Rightarrow> WebsocketBroadcast \<Rightarrow> service \<Rightarrow> service" where
  "broadcast event d b s =
     s\<lparr>sv_events := sv_events s @ [\<lparr>ev_name = event, ev_data = d, ev_to = b\<rparr>]\<rparr>"

abbreviation toConn :: "string \<Rightarrow> WebsocketBroadcast" where
  "toConn connID \<equiv> \<lparr>bc_ChannelId = '''', bc_UserId = '''', bc_ConnectionId = connID, bc_Reliable = True\<rparr>"

abbreviation toChannel :: "string \<Rightarrow> bool \<Rightarrow> WebsocketBroadcast" where
  "toChannel channelID reliable \<equiv>
     \<lparr>bc_ChannelId = channelID, bc_UserId = '''', bc_ConnectionId = '''', bc_Reliable = reliable\<rparr>"

abbreviation toUser :: "string \<Rightarrow> WebsocketBroadcast" where
  "toUser userID \<equiv> \<lparr>bc_ChannelId = '''', bc_UserId = userID, bc_ConnectionId = '''', bc_Reliable = True\<rparr>"

definition sendError :: "string \<Rightarrow> calls_error \<Rightarrow> service \<Rightarrow> service" where
  "sendError connID e s =
     broadcast ''error'' [(''data'', VError e), (''connID'', VStr connID)] (toConn connID) s"

definition publishTo :: "string \<Rightarrow> data \<Rightarrow> string \<Rightarrow> service \<Rightarrow> service" where
  "publishTo event d connID s = broadcast event d (toConn connID) s"

definition publishChannel :: "string \<Rightarrow> string \<Rightarrow> data \<Rightarrow> service \<Rightarrow> service" where
  "publishChannel channelID event d s = broadcast event d (toChannel channelID True) s"

definition sendToHost :: "env \<Rightarrow> cref \<Rightarrow> clientMessage \<Rightarrow> service \<Rightarrow> calls_error option \<times> service" where
  "sendToHost E c msg s =
     (let host = cs_rtcdHost (sv_calls s c) in
      if \<not> sv_rtcd s \<or> host = '''' then (Some ErrNoSFUHost, s)
      else if en_send E (sv_tick s) then (Some (ErrMsg ''rtcd: failed to send message''), tick s)
      else (None, (tick s)\<lparr>sv_sfu := sv_sfu s @ [(host, msg)]\<rparr>))"

section \<open>Statements of the service on the database\<close>

definition db_Call_Save :: "env \<Rightarrow> Call \<Rightarrow> service \<Rightarrow> (store_error + Call) \<times> service" where
  "db_Call_Save E call s =
     (let (now, s1) = GetMillis E s;
          (res, t) = CallStore_Save now (en_db E (sv_tick s1)) call (sv_callRows s1)
      in (res, (tick s1)\<lparr>sv_callRows := t\<rparr>))"

definition db_Call_Update :: "env \<Rightarrow> Call \<Rightarrow> service \<Rightarrow> (store_error + Call) \<times> service" where
  "db_Call_Update E call s =
     (let (now, s1) = GetMillis E s;
          (res, t) = CallStore_Update now (en_db E (sv_tick s1)) call (sv_callRows s1)
      in (res, (tick s1)\<lparr>sv_callRows := t\<rparr>))"

definition db_Call_Get :: "env \<Rightarrow> string \<Rightarrow> service \<Rightarrow> (store_error + Call) \<times> service" where
  "db_Call_Get E callID s =
     (CallStore_Get (en_db E (sv_tick s)) callID (sv_callRows s), tick s)"

definition db_CallStat_Save :: "env \<Rightarrow> CallStat \<Rightarrow> service \<Rightarrow> (store_error + CallStat) \<times> service" where
  "db_CallStat_Save E stat s =
     (let (now, s1) = GetMillis E s;
          (res, t) = CallStatStore_Save now (en_db E (sv_tick s1)) stat (sv_statRows s1)
      in (res, (tick s1)\<lparr>sv_statRows := t\<rparr>))"

definition db_CallSession_Save ::
  "env \<Rightarrow> CallSession \<Rightarrow> service \<Rightarrow> (store_error + CallSession) \<times> service" where
  "db_CallSession_Save E sess s =
     (let (now, s1) = GetMillis E s;
          (res, t) = CallSessionStore_Save now (en_db E (sv_tick s1)) sess (sv_sessRows s1)
      in (res, (tick s1)\<lparr>sv_sessRows := t\<rparr>))"

definition db_EndSession :: "env \<Rightarrow> string \<Rightarrow> string \<Rightarrow> int \<Rightarrow> service \<Rightarrow> service" where
  "db_EndSession E callID connID endAt s =
     (tick s)\<lparr>sv_sessRows :=
        snd (CallSessionStore_EndSession (en_db E (sv_tick s)) callID connID endAt (sv_sessRows s))\<rparr>"

definition db_EndOpenSessions :: "env \<Rightarrow> string \<Rightarrow> int \<Rightarrow> service \<Rightarrow> service" where
  "db_EndOpenSessions E callID endAt s =
     (tick s)\<lparr>sv_sessRows :=
        snd (CallSessionStore_EndOpenSessions (en_db E (sv_tick s)) callID endAt (sv_sessRows s))\<rparr>"

definition db_CallsChannel_Get :: "env \<Rightarrow> string \<Rightarrow> service \<Rightarrow> (store_error + CallsChannel) \<times> service" where
  "db_CallsChannel_Get E channelID s =
     (CallsChannelStore_Get (en_db E (sv_tick s)) channelID (sv_chanRows s), tick s)"

definition db_CallsChannel_Save ::
  "env \<Rightarrow> CallsChannel \<Rightarrow> service \<Rightarrow> (store_error + CallsChannel) \<times> service" where
  "db_CallsChannel_Save E cc s =
     (let (now, s1) = GetMillis E s;
          (res, t) = CallsChannelStore_Save now (en_db E (sv_tick s1)) cc (sv_chanRows s1)
      in (res, (tick s1)\<lparr>sv_chanRows := t\<rparr>))"

section \<open>Announcement posts\<close>

definition callPostPropsStart :: "int \<Rightarrow> data" where
  "callPostPropsStart startAt = [(''start_at'', VInt startAt), (''title'', VStr ''Call started'')]"

definition callPostPropsEnd :: "int \<Rightarrow> string list \<Rightarrow> data" where
  "callPostPropsEnd endAt users =
     [(''end_at'', VInt endAt), (''participants'', VList (map VStr users))]"

definition createCallPost :: "env \<Rightarrow> callState \<Rightarrow> string \<Rightarrow> service \<Rightarrow> string \<times> service" where
  "createCallPost E cs ownerID s =
     (if \<not> sv_postCreator s then ('''', s)
      else case en_post E (sv_tick s) of
             None \<Rightarrow> ('''', tick s)
           | Some postID \<Rightarrow>
               (postID, (tick s)\<lparr>sv_posts := sv_posts s @ [(postID, callPostPropsStart (cs_startAt cs))]\<rparr>))"

definition endCallPost :: "env \<Rightarrow> string \<Rightarrow> string list \<Rightarrow> service \<Rightarrow> service" where
  "endCallPost E postID users s =
     (if postID = '''' then s
      else if \<not> sv_postCreator s then s
      else let (now, s1) = GetMillis E s
           in s1\<lparr>sv_posts := sv_posts s1 @ [(postID, callPostPropsEnd now users)]\<rparr>)"

section \<open>Starting a call\<close>

record StartResult =
  sr_CallID :: string
  sr_RTCDHost :: string
  sr_StartAt :: int

definition resultOf :: "callState \<Rightarrow> StartResult" where
  "resultOf cs = \<lparr>sr_CallID = cs_callID cs, sr_RTCDHost = cs_rtcdHost cs, sr_StartAt = cs_startAt cs\<rparr>"

text \<open>Host assignment: without an SFU pool the call runs with no host.\<close>

definition assignHost :: "env \<Rightarrow> service \<Rightarrow> (calls_error + string) \<times> service" where
  "assignHost E s =
     (if \<not> sv_rtcd s then (Inr '''', s)
      else case en_host E (sv_tick s) of
             Inl e \<Rightarrow> (Inl (ErrWrap ''calls: no rtcd host available'' ErrNoSFUHost), tick s)
           | Inr h \<Rightarrow> (Inr h, tick s))"

text \<open>Creation of the call state and its insertion into the shard of its id.\<close>

definition registerCall ::
  "env \<Rightarrow> string \<Rightarrow> string \<Rightarrow> string \<Rightarrow> service \<Rightarrow> (cref \<times> bool) \<times> service" where
  "registerCall E callID channelID rtcdHost s =
     (let (startAt, s1) = GetMillis E s;
          fresh = sv_nextC s1;
          s2 = s1\<lparr>sv_calls := (sv_calls s1)(fresh := newCallState callID channelID rtcdHost startAt),
                  sv_nextC := Suc fresh\<rparr>;
          (r, sh) = getOrCreateLive callID fresh (sv_calls s2) (shardFor (sv_shards s2) callID)
      in (r, s2\<lparr>sv_shards := setShard (sv_shards s2) callID sh\<rparr>))"

text \<open>Registration on the channel, announcement post and \<^verbatim>\<open>call_start\<close> broadcast.\<close>

definition announceCall ::
  "env \<Rightarrow> cref \<Rightarrow> string \<Rightarrow> string \<Rightarrow> Call \<Rightarrow> string \<Rightarrow> int \<Rightarrow> service \<Rightarrow> service" where
  "announceCall E c channelID ownerID call rtcdHost now s =
     (let s1 = s\<lparr>sv_chan := ci_set channelID c (sv_chan s)\<rparr>;
          (postID, s2) = createCallPost E (sv_calls s1 c) ownerID s1;
          s3 = (if postID \<noteq> '''' then snd (db_Call_Update E (call\<lparr>ca_PostID := postID\<rparr>) s2) else s2)
      in broadcast ''call_start''
           [(''channel_id'', VStr channelID), (''call_id'', VStr (ca_ID call)), (''start_at'', VInt now),
            (''rtcd_host'', VStr rtcdHost), (''post_id'', VStr postID), (''owner_id'', VStr ownerID)]
           (toChannel channelID False) s3)"

definition StartCall ::
  "env \<Rightarrow> string \<Rightarrow> string \<Rightarrow> string \<Rightarrow> service \<Rightarrow> (calls_error + StartResult) \<times> service" where
  "StartCall E channelID ownerID postID s =
     (if \<not> enabled (sv_cfg s) then (Inl ErrCallsDisabled, s)
      else if channelID = '''' \<or> ownerID = ''''
        then (Inl (ErrMsg ''calls: channelID and ownerID are required''), s)
      else case ci_getLive (sv_chan s) (sv_calls s) channelID of
        Some c \<Rightarrow> (Inr (resultOf (sv_calls s c)), s)
      | None \<Rightarrow>
          (case assignHost E s of
             (Inl e, s1) \<Rightarrow> (Inl e, s1)
           | (Inr rtcdHost, s1) \<Rightarrow>
               let (now, s2) = GetMillis E s1;
                   (callID, s3) = NewId E s2;
                   ((c, created), s4) = registerCall E callID channelID rtcdHost s3
               in if \<not> created then (Inr (resultOf (sv_calls s4 c)), s4)
                  else
                    (case db_Call_Save E
                            \<lparr>ca_ID = callID, ca_ChannelID = channelID, ca_OwnerID = ownerID,
                             ca_PostID = postID, ca_StartAt = now, ca_EndAt = 0, ca_CreateAt = now,
                             ca_UpdateAt = 0\<rparr> s4 of
                       (Inl e, s5) \<Rightarrow>
                         (Inl (ErrWrap ''calls: failed to persist call'' (ErrStore e)),
                          s5\<lparr>sv_shards := snd (reg_deleteIf callID c (sv_shards s5))\<rparr>)
                     | (Inr call, s5) \<Rightarrow>
                         (Inr \<lparr>sr_CallID = callID, sr_RTCDHost = rtcdHost, sr_StartAt = now\<rparr>,
                          announceCall E c channelID ownerID call rtcdHost now s5))))"

section \<open>Ending a call\<close>

definition persistEnd :: "env \<Rightarrow> callState \<Rightarrow> int \<Rightarrow> nat \<Rightarrow> Call \<Rightarrow> service \<Rightarrow> service" where
  "persistEnd E cs now participantCount call s =
     (let s1 = snd (db_Call_Update E (call\<lparr>ca_EndAt := now\<rparr>) s);
          (statID, s2) = NewId E s1
      in snd (db_CallStat_Save E
           \<lparr>st_ID = statID, st_CallID = cs_callID cs, st_ChannelID = cs_channelID cs,
            st_Participants = int participantCount, st_PeakParticipants = int (peak cs),
            st_DurationSeconds = go_div (wrap64 (now - cs_startAt cs)) 1000, st_CreateAt = now\<rparr> s2))"

text \<open>The loop over the remaining sessions: SFU leave message, then removal from the session index.\<close>

definition closeLeg :: "env \<Rightarrow> cref \<Rightarrow> string \<Rightarrow> service \<Rightarrow> service" where
  "closeLeg E c sid s =
     (let (_, s1) = sendToHost E c
            \<lparr>cm_Type = ''leave'', cm_Data = DStrings [(''sessionID'', sid)]\<rparr> s
      in s1\<lparr>sv_index := unlink sid (connIDFor sid (sv_heap s1) (sv_calls s1 c)) (sv_index s1)\<rparr>)"

definition endCallState :: "env \<Rightarrow> cref \<Rightarrow> int \<Rightarrow> service \<Rightarrow> calls_error option \<times> service" where
  "endCallState E c now s =
     (let (won, cs) = markEnded now (sv_calls s c) in
      if \<not> won then (Some ErrCallEnded, s)
      else
        let s1 = s\<lparr>sv_calls := (sv_calls s)(c := cs)\<rparr>;
            (views, _) = snapshot (sv_heap s1) cs;
            ids = sessionIDs cs;
            s2 = s1\<lparr>sv_shards := snd (reg_deleteIf (cs_callID cs) c (sv_shards s1))\<rparr>;
            (owned, ci) = ci_deleteIf (cs_channelID cs) c (sv_chan s2);
            s3 = s2\<lparr>sv_chan := ci\<rparr>;
            (loaded, s4) = db_Call_Get E (cs_callID cs) s3;
            s5 = (case loaded of Inl _ \<Rightarrow> s4 | Inr call \<Rightarrow> persistEnd E cs now (length views) call s4);
            s6 = endCallPost E (case loaded of Inl _ \<Rightarrow> '''' | Inr call \<Rightarrow> ca_PostID call)
                   (map sw_UserID views) s5;
            s7 = fold (closeLeg E c) ids s6;
            s8 = db_EndOpenSessions E (cs_callID cs) now s7
        in (None,
            if owned then
              broadcast ''call_end''
                [(''channel_id'', VStr (cs_channelID cs)), (''call_id'', VStr (cs_callID cs)),
                 (''end_at'', VInt now)]
                (toChannel (cs_channelID cs) False) s8
            else s8))"

definition EndCall :: "env \<Rightarrow> string \<Rightarrow> service \<Rightarrow> calls_error option \<times> service" where
  "EndCall E callID s =
     (case reg_get (sv_shards s) callID of
        None \<Rightarrow> (Some ErrCallNotFound, s)
      | Some c \<Rightarrow> let (now, s1) = GetMillis E s in endCallState E c now s1)"

section \<open>Reading the configuration and the state\<close>

record ConfigView =
  cw_Enabled :: bool
  cw_MaxCallParticipants :: int
  cw_AllowScreenSharing :: bool
  cw_AllowRecording :: bool
  cw_EnableRinging :: bool
  cw_HostControlsAllowed :: bool
  cw_GroupCallsAllowed :: bool
  cw_EnableVideo :: bool
  cw_EnableReactions :: bool
  cw_ICEServers :: "iceServer list"

definition GetConfig :: "service \<Rightarrow> ConfigView" where
  "GetConfig s =
     (let cfg = sv_cfg s in
      \<lparr>cw_Enabled = (enabled cfg \<and> sv_rtcd s), cw_MaxCallParticipants = maxParticipants cfg,
       cw_AllowScreenSharing = allowScreenSharing cfg, cw_AllowRecording = allowRecording cfg,
       cw_EnableRinging = enableRinging cfg, cw_HostControlsAllowed = hostControlsAllowed cfg,
       cw_GroupCallsAllowed = groupCallsAllowed cfg, cw_EnableVideo = enableVideo cfg,
       cw_EnableReactions = enableReactions cfg, cw_ICEServers = iceServers cfg\<rparr>)"

definition callStateView :: "cref \<Rightarrow> service \<Rightarrow> CallStateView" where
  "callStateView c s =
     (let cs = sv_calls s c; (views, host) = snapshot (sv_heap s) cs in
      \<lparr>cv_CallID = cs_callID cs, cv_ChannelID = cs_channelID cs, cv_StartAt = cs_startAt cs,
       cv_EndAt = endedAt cs, cv_RTCDHost = cs_rtcdHost cs, cv_Sessions = views,
       cv_Participants = length views, cv_HostSessionID = host\<rparr>)"

definition GetCallState :: "string \<Rightarrow> service \<Rightarrow> calls_error + CallStateView" where
  "GetCallState callID s =
     (case reg_get (sv_shards s) callID of
        None \<Rightarrow> Inl ErrCallNotFound
      | Some c \<Rightarrow> Inr (callStateView c s))"

definition GetCallStateByChannel :: "string \<Rightarrow> service \<Rightarrow> calls_error + CallStateView" where
  "GetCallStateByChannel channelID s =
     (case ci_get (sv_chan s) channelID of
        None \<Rightarrow> Inl ErrCallNotFound
      | Some c \<Rightarrow> Inr (callStateView c s))"

definition GetCallStates :: "service \<Rightarrow> CallStateView list" where
  "GetCallStates s =
     concat (map (\<lambda>c. let cs = sv_calls s c in
               if ended cs then []
               else let (views, host) = snapshot (sv_heap s) cs in
                 [\<lparr>cv_CallID = cs_callID cs, cv_ChannelID = cs_channelID cs, cv_StartAt = cs_startAt cs,
                   cv_EndAt = 0, cv_RTCDHost = cs_rtcdHost cs, cv_Sessions = views,
                   cv_Participants = length views, cv_HostSessionID = host\<rparr>])
       (reg_all (sv_shards s)))"

section \<open>Per-channel settings\<close>

record CallsChannelView =
  cx_ChannelID :: string
  cx_Enabled :: bool
  cx_MaxParticipants :: int
  cx_AllowScreenSharing :: bool
  cx_AllowRecording :: bool

definition GetCallsChannel :: "env \<Rightarrow> string \<Rightarrow> service \<Rightarrow> CallsChannelView \<times> service" where
  "GetCallsChannel E channelID s =
     (let (res, s1) = db_CallsChannel_Get E channelID s in
      (case res of
         Inr cc \<Rightarrow> \<lparr>cx_ChannelID = channelID, cx_Enabled = cc_Enabled cc,
                    cx_MaxParticipants = cc_MaxParticipants cc,
                    cx_AllowScreenSharing = cc_AllowScreenSharing cc,
                    cx_AllowRecording = cc_AllowRecording cc\<rparr>
       | Inl _ \<Rightarrow> \<lparr>cx_ChannelID = channelID, cx_Enabled = True, cx_MaxParticipants = 0,
                   cx_AllowScreenSharing = False, cx_AllowRecording = False\<rparr>, s1))"

definition SetCallsChannelEnabled ::
  "env \<Rightarrow> string \<Rightarrow> bool \<Rightarrow> string \<Rightarrow> service \<Rightarrow> calls_error option \<times> service" where
  "SetCallsChannelEnabled E channelID en userID s =
     (if channelID = '''' then (Some (ErrMsg ''calls: channelID is required''), s)
      else
        let (now, s1) = GetMillis E s;
            (res, s2) = db_CallsChannel_Save E
              \<lparr>cc_ChannelID = channelID, cc_Enabled = en, cc_MaxParticipants = 0,
               cc_AllowScreenSharing = True, cc_AllowRecording = False, cc_CreateAt = now,
               cc_UpdateAt = now\<rparr> s1
        in case res of
             Inl e \<Rightarrow> (Some (ErrStore e), s2)
           | Inr _ \<Rightarrow>
               (None, publishChannel channelID
                  (if en then ''channel_enable_voice'' else ''channel_disable_voice'')
                  [(''channel_id'', VStr channelID), (''user_id'', VStr userID)] s2))"

definition callsEnabledForChannel :: "env \<Rightarrow> string \<Rightarrow> service \<Rightarrow> bool \<times> service" where
  "callsEnabledForChannel E channelID s =
     (let (v, s1) = GetCallsChannel E channelID s in (cx_Enabled v, s1))"

definition DismissNotification :: "string \<Rightarrow> string \<Rightarrow> service \<Rightarrow> calls_error option \<times> service" where
  "DismissNotification channelID userID s =
     (if channelID = '''' \<or> userID = ''''
        then (Some (ErrMsg ''calls: channelID and userID are required''), s)
      else (None, broadcast ''user_dismissed_notification''
              [(''channel_id'', VStr channelID), (''user_id'', VStr userID)] (toUser userID) s))"

section \<open>Life cycle of the service\<close>

text \<open>
  \<^verbatim>\<open>Start\<close> spawns the background initialisation of the SFU manager when a URL is configured; its
  completion is the separate step \<open>rtcdInitDone\<close>, which installs the manager only while the service is started and
  has none; a round that \<^verbatim>\<open>kickRTCDInit\<close> spawned also releases the kick flag. \<^verbatim>\<open>registerClusterHandlers\<close> is a no-op in the code.
\<close>

definition Start :: "service \<Rightarrow> service" where
  "Start s =
     (if sv_started s then s
      else s\<lparr>sv_started := True, sv_reaper := True\<rparr>)"

definition rtcdInitDone :: "bool \<Rightarrow> service \<Rightarrow> service" where
  "rtcdInitDone kicked s =
     (let s1 = (if sv_started s \<and> \<not> sv_rtcd s then s\<lparr>sv_rtcd := True\<rparr> else s)
      in if kicked then s1\<lparr>sv_rtcdKick := False\<rparr> else s1)"

definition rtcdInitGaveUp :: "bool \<Rightarrow> service \<Rightarrow> service" where
  "rtcdInitGaveUp kicked s = (if kicked then s\<lparr>sv_rtcdKick := False\<rparr> else s)"

definition kickRTCDInit :: "service \<Rightarrow> service" where
  "kickRTCDInit s =
     (if sv_rtcd s then s
      else if rtcdURL (sv_cfg s) = '''' then s
      else if sv_rtcdKick s then s
      else s\<lparr>sv_rtcdKick := True\<rparr>)"

definition Stop :: "service \<Rightarrow> service" where
  "Stop s =
     (if \<not> sv_started s then s
      else s\<lparr>sv_rtcd := False, sv_started := False, sv_reaper := False\<rparr>)"

end
