(* ===== verification/Calls_Messages.thy ===== *)
theory Calls_Messages
  imports Calls_Service
begin

text \<open>
  Participants: the browser messages of \<^verbatim>\<open>calls/client_messages.go\<close>, the messages that arrive from
  the SFU (\<^verbatim>\<open>calls/rtcd_relay.go\<close>), the host controls of \<^verbatim>\<open>calls/host_controls.go\<close> and the
  watchdogs of \<^verbatim>\<open>calls/lifecycle.go\<close>. Each handler is one definition, in the order of effects of the
  code; the websocket dispatcher \<open>HandleClientMessage\<close> turns a handler's error into an event for the sender.
\<close>

section \<open>Message data\<close>

definition getString :: "data \<Rightarrow> string \<Rightarrow> string" where
  "getString d k = (case map_of d k of Some (VStr v) \<Rightarrow> v | _ \<Rightarrow> '''')"

definition getAny :: "data \<Rightarrow> string \<Rightarrow> val" where
  "getAny d k = (case map_of d k of Some v \<Rightarrow> v | None \<Rightarrow> VNil)"

definition rtcPayload :: "data \<Rightarrow> bytes" where
  "rtcPayload d =
     (case getAny d ''data'' of VNil \<Rightarrow> NoBytes | VStr v \<Rightarrow> Bytes v | v \<Rightarrow> Encoded v)"

definition relayPayload :: "data \<Rightarrow> bytes" where
  "relayPayload d = (case getAny d ''data'' of VStr v \<Rightarrow> Bytes v | v \<Rightarrow> Encoded v)"

definition sendCallState :: "cref \<Rightarrow> string \<Rightarrow> service \<Rightarrow> service" where
  "sendCallState c connID s =
     (let cs = sv_calls s c; (views, host) = snapshot (sv_heap s) cs in
      publishTo ''call_state''
        [(''call'', VState
           \<lparr>cv_CallID = cs_callID cs, cv_ChannelID = cs_channelID cs, cv_StartAt = cs_startAt cs,
            cv_EndAt = 0, cv_RTCDHost = cs_rtcdHost cs, cv_Sessions = views,
            cv_Participants = length views, cv_HostSessionID = host\<rparr>)] connID s)"

definition sessionByConn :: "string \<Rightarrow> service \<Rightarrow> (sref \<times> cref) option" where
  "sessionByConn connID s =
     (case byConnID (sv_index s) connID of
        None \<Rightarrow> None
      | Some c \<Rightarrow>
          (case findByConn connID (sv_calls s c) of
             None \<Rightarrow> None
           | Some r \<Rightarrow> Some (r, c)))"

section \<open>Session teardown\<close>

definition teardownSession :: "env \<Rightarrow> cref \<Rightarrow> sref \<Rightarrow> service \<Rightarrow> service" where
  "teardownSession E c r s =
     (let sess = sv_heap s r;
          ((removed, lastConnID), cs) = removeSession (ss_sessionID sess) (sv_heap s) (sv_calls s c)
      in if removed = None then s
         else
           let s1 = s\<lparr>sv_calls := (sv_calls s)(c := cs),
                      sv_index := unlink (ss_sessionID sess) lastConnID (sv_index s)\<rparr>;
               (_, s2) = sendToHost E c
                 \<lparr>cm_Type = ''leave'', cm_Data = DStrings [(''sessionID'', ss_sessionID sess)]\<rparr> s1;
               (t, s3) = GetMillis E s2;
               s4 = db_EndSession E (ss_callID sess) (ss_sessionID sess) t s3;
               s5 = publishChannel (cs_channelID cs) ''user_left''
                 [(''user_id'', VStr (ss_userID sess)), (''session_id'', VStr (ss_sessionID sess))] s4
           in if participants (sv_calls s5 c) = 0
              then let (t', s6) = GetMillis E s5 in snd (endCallState E c t' s6)
              else s5)"

section \<open>Join, leave and reconnect\<close>

text \<open>The loop of \<^verbatim>\<open>handleJoin\<close>: start or reuse the channel's call, then insert while it is live.\<close>

primrec joinLoop ::
  "env \<Rightarrow> nat \<Rightarrow> string \<Rightarrow> string \<Rightarrow> sref \<Rightarrow> int \<Rightarrow> service
    \<Rightarrow> (calls_error + cref \<times> string) \<times> service" where
  "joinLoop E 0 channelID userID r limit s = (Inl ErrCallNotFound, s)"
| "joinLoop E (Suc n) channelID userID r limit s =
     (case StartCall E channelID userID '''' s of
        (Inl e, s1) \<Rightarrow> (Inl e, s1)
      | (Inr res, s1) \<Rightarrow>
          let callID = sr_CallID res;
              s2 = s1\<lparr>sv_heap := (sv_heap s1)(r := (sv_heap s1 r)\<lparr>ss_callID := callID\<rparr>)\<rparr>;
              (added, C) = addSessionIfLive callID (ss_sessionID (sv_heap s2 r)) r limit
                             (sv_heap s2) (sv_calls s2) (shardFor (sv_shards s2) callID)
          in case added of
               Inl e \<Rightarrow> if errors_is e ErrCallNotFound then joinLoop E n channelID userID r limit s2
                        else (Inl e, s2)
             | Inr (c, prev) \<Rightarrow> (Inr (c, callID), s2\<lparr>sv_calls := C\<rparr>))"

definition newSession :: "string \<Rightarrow> string \<Rightarrow> string \<Rightarrow> int \<Rightarrow> session" where
  "newSession connID userID channelID now =
     \<lparr>ss_userID = userID, ss_channelID = channelID, ss_callID = '''', ss_sessionID = connID,
      ss_connID = connID, ss_unmuted = True, ss_screenOn = False, ss_videoOn = False,
      ss_voiceOn = False, ss_raisedHandAt = 0, ss_startAt = now, ss_rtcClosed = 0, ss_removed = 0\<rparr>"

text \<open>The second half of \<^verbatim>\<open>handleJoin\<close>: index entry, join row, SFU registration, events.\<close>

definition joinDone ::
  "env \<Rightarrow> string \<Rightarrow> string \<Rightarrow> string \<Rightarrow> int \<Rightarrow> cref \<Rightarrow> string \<Rightarrow> service \<Rightarrow> service" where
  "joinDone E connID userID channelID now c callID s =
     (let s1 = s\<lparr>sv_index := link connID connID c (sv_index s)\<rparr>;
          (rowID, s2) = NewId E s1;
          (_, s3) = db_CallSession_Save E
            \<lparr>se_ID = rowID, se_CallID = callID, se_UserID = userID, se_ConnID = connID,
             se_StartAt = now, se_EndAt = 0, se_CreateAt = now, se_UpdateAt = now\<rparr> s2;
          (_, s4) = sendToHost E c
            \<lparr>cm_Type = ''join'',
             cm_Data = DAny [(''callID'', VStr callID), (''userID'', VStr userID),
               (''sessionID'', VStr connID), (''channelID'', VStr channelID),
               (''av1Support'', VBool False), (''dcSignaling'', VBool False)]\<rparr> s3;
          s5 = publishTo ''join''
            [(''connID'', VStr connID), (''iceServers'', VIce (iceServers (sv_cfg s4)))] connID s4;
          s6 = publishChannel channelID ''user_joined''
            [(''user_id'', VStr userID), (''session_id'', VStr connID)] s5
      in sendCallState c connID s6)"

definition handleJoin :: "env \<Rightarrow> string \<Rightarrow> string \<Rightarrow> data \<Rightarrow> service \<Rightarrow> calls_error option \<times> service" where
  "handleJoin E connID userID d s =
     (let channelID = getString d ''channelID'' in
      if channelID = '''' then (Some (ErrMsg ''calls: channelID is required''), s)
      else if \<not> enabled (sv_cfg s) then (Some ErrCallsDisabled, s)
      else
        let (allowed, s1) = callsEnabledForChannel E channelID s in
        if \<not> allowed then (Some ErrChannelCallsDisabled, s1)
        else if \<not> sv_rtcd s1
          then (Some (ErrMsg ''calls: rtcd service is not configured''), kickRTCDInit s1)
        else
          let limit = maxParticipants (sv_cfg s1) in
          if limit > 0 \<and> (case ci_get (sv_chan s1) channelID of
                None \<Rightarrow> False
              | Some c \<Rightarrow> int (participants (sv_calls s1 c)) \<ge> limit)
            then (Some ErrMaxParticipants, s1)
          else
            let (now, s2) = GetMillis E s1;
                r = sv_nextS s2;
                s3 = s2\<lparr>sv_heap := (sv_heap s2)(r := newSession connID userID channelID now),
                        sv_nextS := Suc r\<rparr>
            in case joinLoop E 3 channelID userID r limit s3 of
                 (Inl e, s4) \<Rightarrow> (Some e, s4)
               | (Inr (c, callID), s4) \<Rightarrow>
                   (None, joinDone E connID userID channelID now c callID s4))"

definition handleLeave :: "env \<Rightarrow> string \<Rightarrow> string \<Rightarrow> data \<Rightarrow> service \<Rightarrow> calls_error option \<times> service" where
  "handleLeave E connID userID d s =
     (let channelID = getString d ''channelID'' in
      if channelID = '''' then (Some (ErrMsg ''calls: channelID is required''), s)
      else case ci_get (sv_chan s) channelID of
             None \<Rightarrow> (None, s)
           | Some c \<Rightarrow>
               (case findByConn connID (sv_calls s c) of
                  None \<Rightarrow> (None, s)
                | Some r \<Rightarrow> (None, teardownSession E c r s)))"

definition handleReconnect :: "env \<Rightarrow> string \<Rightarrow> string \<Rightarrow> data \<Rightarrow> service \<Rightarrow> calls_error option \<times> service" where
  "handleReconnect E connID userID d s =
     (let channelID = getString d ''channelID''; originalConnID = getString d ''originalConnID'' in
      if channelID = '''' \<or> originalConnID = ''''
        then (Some (ErrMsg ''calls: channelID and originalConnID are required''), s)
      else case ci_get (sv_chan s) channelID of
        None \<Rightarrow> (Some ErrCallNotFound, s)
      | Some c \<Rightarrow>
          (case cs_get originalConnID (sv_calls s c) of
             None \<Rightarrow> (Some ErrSessionNotFound, s)
           | Some r \<Rightarrow>
               if ss_userID (sv_heap s r) \<noteq> userID then (Some ErrSessionNotFound, s)
               else
                 let (ok, h, cs) = setConn (ss_sessionID (sv_heap s r)) connID (sv_heap s) (sv_calls s c)
                 in if \<not> ok then (Some ErrSessionNotFound, s)
                    else
                      let s1 = s\<lparr>sv_heap := h, sv_calls := (sv_calls s)(c := cs),
                                 sv_index := repoint (ss_sessionID (sv_heap s r)) originalConnID connID c
                                               (sv_index s)\<rparr>;
                          (_, s2) = sendToHost E c
                            \<lparr>cm_Type = ''reconnect'',
                             cm_Data = DStrings [(''sessionID'', originalConnID)]\<rparr> s1
                      in (None, sendCallState c connID s2)))"

section \<open>Signalling relay and presence\<close>

definition handleRTCRelay ::
  "env \<Rightarrow> string \<Rightarrow> string \<Rightarrow> rtcType \<Rightarrow> data \<Rightarrow> service \<Rightarrow> calls_error option \<times> service" where
  "handleRTCRelay E connID userID msgType d s =
     (case sessionByConn connID s of
        None \<Rightarrow> (Some ErrSessionNotFound, s)
      | Some (r, c) \<Rightarrow>
          sendToHost E c (rtcEnvelope (ss_sessionID (sv_heap s r)) (cs_callID (sv_calls s c)) userID
            msgType (relayPayload d)) s)"

text \<open>The common shape of the presence toggles: SFU message, flag, event.\<close>

definition mutateSession :: "cref \<Rightarrow> string \<Rightarrow> (session \<Rightarrow> session) \<Rightarrow> service \<Rightarrow> service" where
  "mutateSession c sid fn s = s\<lparr>sv_heap := snd (mutate sid fn (sv_heap s) (sv_calls s c))\<rparr>"

definition handleMuteToggle :: "env \<Rightarrow> string \<Rightarrow> string \<Rightarrow> bool \<Rightarrow> service \<Rightarrow> calls_error option \<times> service" where
  "handleMuteToggle E connID userID unmuted s =
     (case sessionByConn connID s of
        None \<Rightarrow> (Some ErrSessionNotFound, s)
      | Some (r, c) \<Rightarrow>
          let sid = ss_sessionID (sv_heap s r) in
          (case sendToHost E c (rtcEnvelope sid (cs_callID (sv_calls s c)) userID
                  (if unmuted then UnmuteMessage else MuteMessage) NoBytes) s of
             (Some e, s1) \<Rightarrow> (Some e, s1)
           | (None, s1) \<Rightarrow>
               (None, publishChannel (cs_channelID (sv_calls s1 c))
                  (if unmuted then ''user_unmuted'' else ''user_muted'')
                  [(''userID'', VStr userID), (''session_id'', VStr sid)]
                  (mutateSession c sid (\<lambda>x. x\<lparr>ss_unmuted := unmuted\<rparr>) s1))))"

definition handleScreenToggle ::
  "env \<Rightarrow> string \<Rightarrow> string \<Rightarrow> bool \<Rightarrow> data \<Rightarrow> service \<Rightarrow> calls_error option \<times> service" where
  "handleScreenToggle E connID userID on d s =
     (if on \<and> \<not> allowScreenSharing (sv_cfg s)
        then (Some (ErrMsg ''calls: screen sharing is not allowed''), s)
      else case sessionByConn connID s of
        None \<Rightarrow> (Some ErrSessionNotFound, s)
      | Some (r, c) \<Rightarrow>
          let sid = ss_sessionID (sv_heap s r) in
          if on \<and> (case screenSharer (sv_heap s) (sv_calls s c) of
                     None \<Rightarrow> False
                   | Some q \<Rightarrow> ss_sessionID (sv_heap s q) \<noteq> sid)
            then (Some (ErrMsg ''calls: someone else is already sharing their screen''), s)
          else
            (case sendToHost E c (rtcEnvelope sid (cs_callID (sv_calls s c)) userID
                    (if on then ScreenOnMessage else ScreenOffMessage)
                    (if on then rtcPayload d else NoBytes)) s of
               (Some e, s1) \<Rightarrow> (Some e, s1)
             | (None, s1) \<Rightarrow>
                 (None, publishChannel (cs_channelID (sv_calls s1 c))
                    (if on then ''user_screen_on'' else ''user_screen_off'')
                    [(''userID'', VStr userID), (''session_id'', VStr sid)]
                    (mutateSession c sid (\<lambda>x. x\<lparr>ss_screenOn := on\<rparr>) s1))))"

definition handleVideoToggle ::
  "env \<Rightarrow> string \<Rightarrow> string \<Rightarrow> bool \<Rightarrow> data \<Rightarrow> service \<Rightarrow> calls_error option \<times> service" where
  "handleVideoToggle E connID userID on d s =
     (case sessionByConn connID s of
        None \<Rightarrow> (Some ErrSessionNotFound, s)
      | Some (r, c) \<Rightarrow>
          let sid = ss_sessionID (sv_heap s r) in
          (case sendToHost E c (rtcEnvelope sid (cs_callID (sv_calls s c)) userID
                  (if on then VideoOnMessage else VideoOffMessage)
                  (if on then rtcPayload d else NoBytes)) s of
             (Some e, s1) \<Rightarrow> (Some e, s1)
           | (None, s1) \<Rightarrow>
               (None, publishChannel (cs_channelID (sv_calls s1 c))
                  (if on then ''user_video_on'' else ''user_video_off'')
                  [(''userID'', VStr userID), (''session_id'', VStr sid)]
                  (mutateSession c sid (\<lambda>x. x\<lparr>ss_videoOn := on\<rparr>) s1))))"

definition handleRaiseHand :: "env \<Rightarrow> string \<Rightarrow> string \<Rightarrow> bool \<Rightarrow> service \<Rightarrow> calls_error option \<times> service" where
  "handleRaiseHand E connID userID raised s =
     (case sessionByConn connID s of
        None \<Rightarrow> (Some ErrSessionNotFound, s)
      | Some (r, c) \<Rightarrow>
          let sid = ss_sessionID (sv_heap s r);
              (raisedAt, s1) = (if raised then GetMillis E s else (0, s))
          in (None, publishChannel (cs_channelID (sv_calls s1 c))
                (if raised then ''user_raise_hand'' else ''user_unraise_hand'')
                [(''userID'', VStr userID), (''session_id'', VStr sid), (''raised_hand'', VInt raisedAt)]
                (mutateSession c sid (\<lambda>x. x\<lparr>ss_raisedHandAt := raisedAt\<rparr>) s1)))"

section \<open>Reactions\<close>

record emojiData =
  em_Name :: string
  em_Skin :: string
  em_Unified :: string
  em_Literal :: string

definition emoji_toMap :: "emojiData \<Rightarrow> data" where
  "emoji_toMap ed =
     [(''name'', VStr (em_Name ed)), (''skin'', VStr (em_Skin ed)),
      (''unified'', VStr (em_Unified ed)), (''literal'', VStr (em_Literal ed))]"

text \<open>
  Decoding a JSON object into the struct: keys match without regard to case (Go also folds the
  long s and the Kelvin sign), a null leaves the field alone, any other non-string value is an error,
  and the last matching entry wins.
\<close>

fun foldName :: "string \<Rightarrow> string" where
  "foldName (a # b # c # rest) =
     (if a = char_of (197::nat) \<and> b = char_of (191::nat) then CHR ''s'' # foldName (c # rest)
      else if a = char_of (226::nat) \<and> b = char_of (132::nat) \<and> c = char_of (170::nat)
        then CHR ''k'' # foldName rest
      else char_toLower a # foldName (b # c # rest))"
| "foldName [a, b] =
     (if a = char_of (197::nat) \<and> b = char_of (191::nat) then ''s''
      else [char_toLower a, char_toLower b])"
| "foldName [a] = [char_toLower a]"
| "foldName [] = []"

fun setEmojiField :: "string \<Rightarrow> val \<Rightarrow> emojiData \<Rightarrow> emojiData option" where
  "setEmojiField k v ed =
     (if foldName k \<notin> {''name'', ''skin'', ''unified'', ''literal''} then Some ed
      else case v of
        VNil \<Rightarrow> Some ed
      | VStr x \<Rightarrow> Some
          (if foldName k = ''name'' then ed\<lparr>em_Name := x\<rparr>
           else if foldName k = ''skin'' then ed\<lparr>em_Skin := x\<rparr>
           else if foldName k = ''unified'' then ed\<lparr>em_Unified := x\<rparr>
           else ed\<lparr>em_Literal := x\<rparr>)
      | _ \<Rightarrow> None)"

fun emojiFields :: "data \<Rightarrow> emojiData \<Rightarrow> emojiData option" where
  "emojiFields [] ed = Some ed"
| "emojiFields ((k, v) # rest) ed =
     (case setEmojiField k v ed of None \<Rightarrow> None | Some ed' \<Rightarrow> emojiFields rest ed')"

definition noEmoji :: emojiData where
  "noEmoji = \<lparr>em_Name = '''', em_Skin = '''', em_Unified = '''', em_Literal = ''''\<rparr>"

definition unmarshalEmoji :: "val \<Rightarrow> emojiData option" where
  "unmarshalEmoji v =
     (case v of VNil \<Rightarrow> Some noEmoji | VMap m \<Rightarrow> emojiFields m noEmoji | _ \<Rightarrow> None)"

text \<open>A payload that is not a string is re-encoded first, which sorts the keys of an object.\<close>

definition parseEmoji :: "env \<Rightarrow> val \<Rightarrow> emojiData option" where
  "parseEmoji E raw =
     (case raw of
        VStr v \<Rightarrow> (case en_json E v of None \<Rightarrow> None | Some j \<Rightarrow> unmarshalEmoji j)
      | VMap m \<Rightarrow> unmarshalEmoji (VMap (sort_key fst m))
      | v \<Rightarrow> unmarshalEmoji v)"

definition handleReact :: "env \<Rightarrow> string \<Rightarrow> string \<Rightarrow> data \<Rightarrow> service \<Rightarrow> calls_error option \<times> service" where
  "handleReact E connID userID d s =
     (case sessionByConn connID s of
        None \<Rightarrow> (Some ErrSessionNotFound, s)
      | Some (r, c) \<Rightarrow>
          (case parseEmoji E (getAny d ''data'') of
             None \<Rightarrow> (Some (ErrMsg ''calls: invalid reaction data''), s)
           | Some emoji \<Rightarrow>
               if em_Name emoji = '''' \<and> em_Literal emoji = ''''
                 then (Some (ErrMsg ''calls: empty reaction''), s)
               else
                 let (t, s1) = GetMillis E s in
                 (None, publishChannel (cs_channelID (sv_calls s1 c)) ''user_reacted''
                    [(''user_id'', VStr userID), (''session_id'', VStr (ss_sessionID (sv_heap s r))),
                     (''emoji'', VMap (emoji_toMap emoji)), (''timestamp'', VInt t)] s1)))"

definition handleCallStateRequest :: "string \<Rightarrow> string \<Rightarrow> data \<Rightarrow> service \<Rightarrow> calls_error option \<times> service" where
  "handleCallStateRequest connID userID d s =
     (let channelID = getString d ''channelID'' in
      if channelID = '''' then (Some (ErrMsg ''calls: channelID is required''), s)
      else case ci_get (sv_chan s) channelID of
             None \<Rightarrow> (Some ErrCallNotFound, s)
           | Some c \<Rightarrow> (None, sendCallState c connID s))"

section \<open>Dispatch\<close>

definition dispatch ::
  "env \<Rightarrow> string \<Rightarrow> string \<Rightarrow> string \<Rightarrow> data \<Rightarrow> service \<Rightarrow> calls_error option \<times> service" where
  "dispatch E connID userID action d s =
     (if action = ''join'' then handleJoin E connID userID d s
      else if action = ''leave'' then handleLeave E connID userID d s
      else if action = ''reconnect'' then handleReconnect E connID userID d s
      else if action = ''sdp'' then handleRTCRelay E connID userID SDPMessage d s
      else if action = ''ice'' then handleRTCRelay E connID userID ICEMessage d s
      else if action = ''mute'' then handleMuteToggle E connID userID False s
      else if action = ''unmute'' then handleMuteToggle E connID userID True s
      else if action = ''screen_on'' then handleScreenToggle E connID userID True d s
      else if action = ''screen_off'' then handleScreenToggle E connID userID False [] s
      else if action = ''video_on'' then handleVideoToggle E connID userID True d s
      else if action = ''video_off'' then handleVideoToggle E connID userID False d s
      else if action = ''raise_hand'' then handleRaiseHand E connID userID True s
      else if action = ''unraise_hand'' then handleRaiseHand E connID userID False s
      else if action = ''react'' then handleReact E connID userID d s
      else if action = ''call_state'' then handleCallStateRequest connID userID d s
      else (None, s))"

definition HandleClientMessage ::
  "env \<Rightarrow> string \<Rightarrow> string \<Rightarrow> string \<Rightarrow> data \<Rightarrow> service \<Rightarrow> service" where
  "HandleClientMessage E connID userID action d s =
     (if userID = '''' \<or> connID = '''' then s
      else if \<not> isValidMsgType action then sendError connID (ErrUnknownType action) s
      else case dispatch E connID userID action d s of
             (None, s1) \<Rightarrow> s1
           | (Some e, s1) \<Rightarrow> sendError connID e s1)"

section \<open>Messages from the SFU\<close>

fun closeMessageData :: "clientData \<Rightarrow> (string \<times> string) list option" where
  "closeMessageData (DStrings m) = Some m"
| "closeMessageData (DAny m) =
     Some (concat (map (\<lambda>(k, v). case v of VStr x \<Rightarrow> [(k, x)] | _ \<Rightarrow> []) m))"
| "closeMessageData _ = None"

definition relayRTCMessage :: "rtcMessage \<Rightarrow> service \<Rightarrow> service" where
  "relayRTCMessage m s =
     (if rm_Type m \<in> {VoiceOnMessage, VoiceOffMessage} then
        (case bySessionID (sv_index s) (rm_SessionID m) of
           None \<Rightarrow> s
         | Some c \<Rightarrow>
             let voiceOn = (rm_Type m = VoiceOnMessage) in
             publishChannel (cs_channelID (sv_calls s c))
               (if voiceOn then ''user_voice_on'' else ''user_voice_off'')
               [(''userID'', VStr (rm_UserID m)), (''session_id'', VStr (rm_SessionID m))]
               (mutateSession c (rm_SessionID m) (\<lambda>x. x\<lparr>ss_voiceOn := voiceOn\<rparr>) s))
      else
        (case bySessionID (sv_index s) (rm_SessionID m) of
           None \<Rightarrow> s
         | Some c \<Rightarrow>
             (case rm_Data m of
                NoBytes \<Rightarrow> s
              | raw \<Rightarrow>
                  publishTo ''signal''
                    [(''data'', (case raw of Bytes x \<Rightarrow> VStr x | Encoded v \<Rightarrow> VEncoded v | NoBytes \<Rightarrow> VNil)),
                     (''connID'', VStr (rm_SessionID m))]
                    (connIDFor (rm_SessionID m) (sv_heap s) (sv_calls s c)) s)))"

definition handleRTCDMessage :: "env \<Rightarrow> clientMessage \<Rightarrow> service \<Rightarrow> service" where
  "handleRTCDMessage E msg s =
     (if cm_Type msg \<in> {''rtc'', ''vad''} then
        (case cm_Data msg of DRtc m \<Rightarrow> relayRTCMessage m s | _ \<Rightarrow> s)
      else if cm_Type msg = ''close'' then
        (case closeMessageData (cm_Data msg) of
           None \<Rightarrow> s
         | Some m \<Rightarrow>
             let sid = (case map_of m ''sessionID'' of None \<Rightarrow> '''' | Some x \<Rightarrow> x) in
             if sid = '''' then s
             else case bySessionID (sv_index s) sid of
                    None \<Rightarrow> s
                  | Some c \<Rightarrow>
                      (case cs_get sid (sv_calls s c) of
                         None \<Rightarrow> s
                       | Some r \<Rightarrow>
                           let (won, h) = markRTCclosed r (sv_heap s); s1 = s\<lparr>sv_heap := h\<rparr>
                           in if won then teardownSession E c r s1 else s1))
      else s)"

section \<open>Host controls\<close>

definition callForHostAction :: "string \<Rightarrow> string \<Rightarrow> service \<Rightarrow> calls_error + cref" where
  "callForHostAction callID requester s =
     (case reg_get (sv_shards s) callID of
        None \<Rightarrow> Inl ErrCallNotFound
      | Some c \<Rightarrow> if hostUserID (sv_heap s) (sv_calls s c) \<noteq> requester then Inl ErrNotCallHost else Inr c)"

definition MakeHost :: "string \<Rightarrow> string \<Rightarrow> string \<Rightarrow> service \<Rightarrow> calls_error option \<times> service" where
  "MakeHost callID requester newHost s =
     (case callForHostAction callID requester s of
        Inl e \<Rightarrow> (Some e, s)
      | Inr c \<Rightarrow>
          let (ok, cs) = setHostByUser newHost (sv_heap s) (sv_calls s c) in
          if \<not> ok then (Some ErrSessionNotFound, s)
          else (None, publishChannel (cs_channelID cs) ''call_host_changed''
                  [(''hostID'', VStr newHost), (''call_id'', VStr (cs_callID cs))]
                  (s\<lparr>sv_calls := (sv_calls s)(c := cs)\<rparr>)))"

definition muteOne :: "env \<Rightarrow> cref \<Rightarrow> string \<Rightarrow> service \<Rightarrow> calls_error option \<times> service" where
  "muteOne E c sid s =
     (case cs_get sid (sv_calls s c) of
        None \<Rightarrow> (Some ErrSessionNotFound, s)
      | Some r \<Rightarrow>
          (case sendToHost E c (rtcEnvelope sid (cs_callID (sv_calls s c)) (ss_userID (sv_heap s r))
                  MuteMessage NoBytes) s of
             (Some e, s1) \<Rightarrow> (Some (ErrWrap ''calls: failed to mute SFU session'' e), s1)
           | (None, s1) \<Rightarrow>
               let s2 = mutateSession c sid (\<lambda>x. x\<lparr>ss_unmuted := False\<rparr>) s1;
                   cs = sv_calls s2 c;
                   s3 = publishTo ''host_mute''
                     [(''channel_id'', VStr (cs_channelID cs)), (''session_id'', VStr sid)]
                     (connIDFor sid (sv_heap s2) cs) s2
               in (None, publishChannel (cs_channelID cs) ''user_muted''
                     [(''userID'', VStr (ss_userID (sv_heap s r))), (''session_id'', VStr sid)] s3)))"

definition MuteSession :: "env \<Rightarrow> string \<Rightarrow> string \<Rightarrow> string \<Rightarrow> service \<Rightarrow> calls_error option \<times> service" where
  "MuteSession E callID requester sid s =
     (case callForHostAction callID requester s of
        Inl e \<Rightarrow> (Some e, s)
      | Inr c \<Rightarrow> muteOne E c sid s)"

definition muteView :: "env \<Rightarrow> cref \<Rightarrow> string \<Rightarrow> SessionView \<Rightarrow> service \<Rightarrow> service" where
  "muteView E c requester v s =
     (if \<not> sw_Unmuted v \<or> sw_UserID v = requester then s else snd (muteOne E c (sw_ID v) s))"

definition MuteOthers :: "env \<Rightarrow> string \<Rightarrow> string \<Rightarrow> service \<Rightarrow> calls_error option \<times> service" where
  "MuteOthers E callID requester s =
     (case callForHostAction callID requester s of
        Inl e \<Rightarrow> (Some e, s)
      | Inr c \<Rightarrow>
          (None, fold (muteView E c requester) (fst (snapshot (sv_heap s) (sv_calls s c))) s))"

definition ScreenOff :: "env \<Rightarrow> string \<Rightarrow> string \<Rightarrow> string \<Rightarrow> service \<Rightarrow> calls_error option \<times> service" where
  "ScreenOff E callID requester sid s =
     (case callForHostAction callID requester s of
        Inl e \<Rightarrow> (Some e, s)
      | Inr c \<Rightarrow>
          (case cs_get sid (sv_calls s c) of
             None \<Rightarrow> (Some ErrSessionNotFound, s)
           | Some r \<Rightarrow>
               (case sendToHost E c (rtcEnvelope sid (cs_callID (sv_calls s c))
                       (ss_userID (sv_heap s r)) ScreenOffMessage NoBytes) s of
                  (Some e, s1) \<Rightarrow> (Some (ErrWrap ''calls: failed to stop screen on SFU'' e), s1)
                | (None, s1) \<Rightarrow>
                    let s2 = mutateSession c sid (\<lambda>x. x\<lparr>ss_screenOn := False\<rparr>) s1;
                        cs = sv_calls s2 c;
                        s3 = publishTo ''host_screen_off''
                          [(''channel_id'', VStr (cs_channelID cs)), (''session_id'', VStr sid)]
                          (connIDFor sid (sv_heap s2) cs) s2
                    in (None, publishChannel (cs_channelID cs) ''user_screen_off''
                          [(''userID'', VStr (ss_userID (sv_heap s r))), (''session_id'', VStr sid)] s3))))"

definition LowerHand :: "string \<Rightarrow> string \<Rightarrow> string \<Rightarrow> service \<Rightarrow> calls_error option \<times> service" where
  "LowerHand callID requester sid s =
     (case callForHostAction callID requester s of
        Inl e \<Rightarrow> (Some e, s)
      | Inr c \<Rightarrow>
          (case cs_get sid (sv_calls s c) of
             None \<Rightarrow> (Some ErrSessionNotFound, s)
           | Some r \<Rightarrow>
               let s1 = mutateSession c sid (\<lambda>x. x\<lparr>ss_raisedHandAt := 0\<rparr>) s;
                   cs = sv_calls s1 c;
                   s2 = publishTo ''host_lower_hand''
                     [(''channel_id'', VStr (cs_channelID cs)), (''session_id'', VStr sid),
                      (''host_id'', VStr requester)]
                     (connIDFor sid (sv_heap s1) cs) s1
               in (None, publishChannel (cs_channelID cs) ''user_unraise_hand''
                     [(''userID'', VStr (ss_userID (sv_heap s r))), (''session_id'', VStr sid),
                      (''raised_hand'', VInt 0)] s2)))"

definition RemoveSession :: "env \<Rightarrow> string \<Rightarrow> string \<Rightarrow> string \<Rightarrow> service \<Rightarrow> calls_error option \<times> service" where
  "RemoveSession E callID requester sid s =
     (case callForHostAction callID requester s of
        Inl e \<Rightarrow> (Some e, s)
      | Inr c \<Rightarrow>
          (case cs_get sid (sv_calls s c) of
             None \<Rightarrow> (Some ErrSessionNotFound, s)
           | Some r \<Rightarrow>
               let (won, h) = markRemoved r (sv_heap s); s1 = s\<lparr>sv_heap := h\<rparr> in
               if \<not> won then (None, s1)
               else
                 let cs = sv_calls s1 c;
                     s2 = publishTo ''host_removed''
                       [(''channel_id'', VStr (cs_channelID cs)), (''session_id'', VStr sid)]
                       (connIDFor sid (sv_heap s1) cs) s1;
                     s3 = publishChannel (cs_channelID cs) ''user_removed''
                       [(''user_id'', VStr (ss_userID (sv_heap s1 r))), (''session_id'', VStr sid),
                        (''host_id'', VStr requester)] s2
                 in (None, teardownSession E c r s3)))"

definition EndCallByHost :: "env \<Rightarrow> string \<Rightarrow> string \<Rightarrow> service \<Rightarrow> calls_error option \<times> service" where
  "EndCallByHost E callID requester s =
     (case callForHostAction callID requester s of
        Inl e \<Rightarrow> (Some e, s)
      | Inr c \<Rightarrow> EndCall E callID s)"

section \<open>Watchdogs\<close>

text \<open>
  \<^verbatim>\<open>HandleWSDisconnect\<close> arms a timer that captures the call, the dead connection and the session;
  \<open>fireTimer\<close> is the body it runs after the grace period, in whatever state the service is then.
\<close>

definition HandleWSDisconnect :: "string \<Rightarrow> string \<Rightarrow> service \<Rightarrow> service" where
  "HandleWSDisconnect connID userID s =
     (if connID = '''' then s
      else case byConnID (sv_index s) connID of
             None \<Rightarrow> s
           | Some c \<Rightarrow>
               (case findByConn connID (sv_calls s c) of
                  None \<Rightarrow> s
                | Some r \<Rightarrow> s\<lparr>sv_timers := sv_timers s @ [(c, connID, r)]\<rparr>))"

definition disconnectTimeout :: "env \<Rightarrow> cref \<Rightarrow> string \<Rightarrow> sref \<Rightarrow> service \<Rightarrow> service" where
  "disconnectTimeout E c connID r s =
     (if findByConn connID (sv_calls s c) \<noteq> Some r \<or> ended (sv_calls s c) then s
      else teardownSession E c r s)"

definition fireTimer :: "env \<Rightarrow> nat \<Rightarrow> service \<Rightarrow> service" where
  "fireTimer E i s =
     (if i < length (sv_timers s) then
        let (c, connID, r) = sv_timers s ! i
        in disconnectTimeout E c connID r
             (s\<lparr>sv_timers := take i (sv_timers s) @ drop (Suc i) (sv_timers s)\<rparr>)
      else s)"

definition reapOne :: "env \<Rightarrow> cref \<Rightarrow> service \<Rightarrow> service" where
  "reapOne E c s =
     (if ended (sv_calls s c) \<or> participants (sv_calls s c) > 0 then s
      else let (now, s1) = GetMillis E s in snd (endCallState E c now s1))"

definition reapIdleCalls :: "env \<Rightarrow> service \<Rightarrow> service" where
  "reapIdleCalls E s = fold (reapOne E) (reg_all (sv_shards s)) s"

section \<open>Decoding a broadcast reaction\<close>

lemma foldName_keys:
  "foldName ''name'' = ''name''" "foldName ''skin'' = ''skin''" "foldName ''unified'' = ''unified''" "foldName ''literal'' = ''literal''"
  by code_simp+

lemma emoji_keys_le:
  "''name'' \<le> ''skin''" "''skin'' \<le> ''unified''" "''literal'' \<le> ''name''" "\<not> ''skin'' \<le> ''literal''"
  "\<not> ''unified'' \<le> ''literal''" "\<not> ''name'' \<le> ''literal''"
  by code_simp+

lemma emoji_sorted:
  "sort_key fst (emoji_toMap ed) =
     [(''literal'', VStr (em_Literal ed)), (''name'', VStr (em_Name ed)), (''skin'', VStr (em_Skin ed)), (''unified'', VStr (em_Unified ed))]"
  by (simp add: emoji_toMap_def emoji_keys_le)

text \<open>
  A reaction survives the wire: the map that is broadcast for an emoji decodes back to the same emoji,
  whatever texts it holds and whatever the JSON decoder does with strings.
\<close>

theorem emoji_roundtrip: "parseEmoji E (VMap (emoji_toMap ed)) = Some ed"
  by (simp add: parseEmoji_def emoji_sorted unmarshalEmoji_def noEmoji_def foldName_keys del: foldName.simps)

end
