(* ===== verification/Calls_Invariant.thy ===== *)
theory Calls_Invariant
  imports Calls_Messages
begin

text \<open>
  The invariant of the call service and that every operation keeps it.

  \<open>svc_inv\<close> says: every call is well formed; call ids are never shared; the shard registry and the
  channel index hold exactly the same live calls, so a channel has at most one live call; every
  entry of the session index leads to a live call that has this session; and at most one participant
  of a call shares the screen. The environment is only assumed to have a positive clock and fresh ids.

  The proofs are organised around \<open>quiet\<close> steps, which touch only the output, the tables and the tick
  counter, and around closed forms of what the loud operations do to the registries.
\<close>

section \<open>Quiet steps\<close>

text \<open>The \<^verbatim>\<open>call_end\<close> announcements published so far.\<close>

definition ends :: "service \<Rightarrow> hubEvent list" where
  "ends s = filter (\<lambda>e. ev_name e = ''call_end'') (sv_events s)"

definition quiet :: "service \<Rightarrow> service \<Rightarrow> bool" where
  "quiet s s' \<longleftrightarrow>
     sv_cfg s' = sv_cfg s \<and> sv_heap s' = sv_heap s \<and> sv_nextS s' = sv_nextS s
     \<and> sv_calls s' = sv_calls s \<and> sv_nextC s' = sv_nextC s \<and> sv_shards s' = sv_shards s
     \<and> sv_index s' = sv_index s \<and> sv_chan s' = sv_chan s \<and> sv_rtcd s' = sv_rtcd s
     \<and> sv_timers s' = sv_timers s \<and> sv_tick s \<le> sv_tick s'
     \<and> ends s' = ends s \<and> sv_statRows s' = sv_statRows s"

lemma ends_simps [simp]:
  "ends (sv_cfg_update f1 s) = ends s" "ends (sv_heap_update f2 s) = ends s"
  "ends (sv_nextS_update f3 s) = ends s" "ends (sv_calls_update f4 s) = ends s"
  "ends (sv_nextC_update f5 s) = ends s" "ends (sv_shards_update f6 s) = ends s"
  "ends (sv_index_update f7 s) = ends s" "ends (sv_chan_update f8 s) = ends s"
  "ends (sv_timers_update f9 s) = ends s" "ends (sv_tick_update f10 s) = ends s"
  "ends (sv_statRows_update f11 s) = ends s" "ends (sv_callRows_update f12 s) = ends s"
  "ends (sv_sessRows_update f13 s) = ends s" "ends (sv_chanRows_update f14 s) = ends s"
  "ends (sv_sfu_update f15 s) = ends s" "ends (sv_posts_update f16 s) = ends s"
  "ends (sv_rtcd_update f17 s) = ends s" "ends (sv_rtcdKick_update f18 s) = ends s"
  "ends (sv_started_update f19 s) = ends s" "ends (sv_reaper_update f20 s) = ends s"
  by (simp_all add: ends_def)

lemma ends_events [simp]:
  "ends (s\<lparr>sv_events := sv_events s @ [e]\<rparr>) = (if ev_name e = ''call_end'' then ends s @ [e] else ends s)"
  by (simp add: ends_def)

lemma quiet_refl [simp]: "quiet s s"
  by (simp add: quiet_def)

lemma quiet_trans: "quiet s s' \<Longrightarrow> quiet s' s'' \<Longrightarrow> quiet s s''"
  by (simp add: quiet_def)

lemma quietD:
  assumes "quiet s s'"
  shows "sv_cfg s' = sv_cfg s" "sv_heap s' = sv_heap s" "sv_nextS s' = sv_nextS s"
    "sv_calls s' = sv_calls s" "sv_nextC s' = sv_nextC s" "sv_shards s' = sv_shards s"
    "sv_index s' = sv_index s" "sv_chan s' = sv_chan s" "sv_rtcd s' = sv_rtcd s"
    "sv_timers s' = sv_timers s" "sv_tick s \<le> sv_tick s'"
    "ends s' = ends s" "sv_statRows s' = sv_statRows s"
  using assms by (simp_all add: quiet_def)

lemma quiet_tick [simp]: "quiet s (tick s)"
  by (simp add: quiet_def tick_def)

lemma quiet_output [simp]:
  "e \<noteq> ''call_end'' \<Longrightarrow> quiet s (broadcast e d b s)" "quiet s (sendError connID er s)"
  "e \<noteq> ''call_end'' \<Longrightarrow> quiet s (publishTo e d connID s)"
  "e \<noteq> ''call_end'' \<Longrightarrow> quiet s (publishChannel ch e d s)" "quiet s (sendCallState c connID s)"
  by (simp_all add: quiet_def broadcast_def sendError_def publishTo_def publishChannel_def
      sendCallState_def split_def Let_def)

lemma quiet_oracle [simp]: "quiet s (snd (GetMillis E s))" "quiet s (snd (NewId E s))"
  by (simp_all add: GetMillis_def NewId_def)

lemma quiet_sendToHost [simp]: "quiet s (snd (sendToHost E c msg s))"
  by (simp add: sendToHost_def quiet_def tick_def Let_def)

lemma quiet_db [simp]:
  "quiet s (snd (db_Call_Save E call s))" "quiet s (snd (db_Call_Update E call s))"
  "quiet s (snd (db_Call_Get E k s))"
  "quiet s (snd (db_CallSession_Save E se s))" "quiet s (db_EndSession E k conn t s)"
  "quiet s (db_EndOpenSessions E k t s)" "quiet s (snd (db_CallsChannel_Get E ch s))"
  "quiet s (snd (db_CallsChannel_Save E cc s))"
  by (simp_all add: quiet_def db_Call_Save_def db_Call_Update_def db_Call_Get_def
      db_CallSession_Save_def db_EndSession_def db_EndOpenSessions_def db_CallsChannel_Get_def
      db_CallsChannel_Save_def GetMillis_def tick_def split_def Let_def)

lemma quiet_posts [simp]: "quiet s (snd (createCallPost E cs o' s))" "quiet s (endCallPost E p us s)"
  by (simp_all add: quiet_def createCallPost_def endCallPost_def GetMillis_def tick_def split_def Let_def
      split: option.splits)

text \<open>Ending a call stores at most one statistics row, and it carries the id of this call.\<close>

definition statOf :: "string \<Rightarrow> CallStat list \<Rightarrow> bool" where
  "statOf k st \<longleftrightarrow> st = [] \<or> (\<exists>row. st = [row] \<and> st_CallID row = k)"

lemma persistEnd_quiet:
  "\<exists>st. statOf (cs_callID cs) st \<and> quiet (s\<lparr>sv_statRows := sv_statRows s @ st\<rparr>) (persistEnd E cs now n call s)"
proof -
  define s1 where "s1 = snd (db_Call_Update E (call\<lparr>ca_EndAt := now\<rparr>) s)"
  define s2 where "s2 = snd (NewId E s1)"
  define row where "row = \<lparr>st_ID = fst (NewId E s1), st_CallID = cs_callID cs, st_ChannelID = cs_channelID cs,
      st_Participants = int n, st_PeakParticipants = int (peak cs),
      st_DurationSeconds = go_div (wrap64 (now - cs_startAt cs)) 1000, st_CreateAt = now\<rparr>"
  have q: "quiet s s2" unfolding s2_def s1_def by (rule quiet_trans[OF quiet_db(2) quiet_oracle(2)])
  have p: "persistEnd E cs now n call s = snd (db_CallStat_Save E row s2)"
    by (simp add: persistEnd_def s1_def s2_def row_def split_def Let_def)
  have key: "st_CallID row = cs_callID cs" by (simp add: row_def)
  let ?save = "CallStatStore_Save (fst (GetMillis E s2)) (en_db E (sv_tick (snd (GetMillis E s2)))) row (sv_statRows s2)"
  have "\<exists>st. statOf (cs_callID cs) st \<and> snd ?save = sv_statRows s2 @ st"
    using stats.save_cases[of "fst (GetMillis E s2)" "en_db E (sv_tick (snd (GetMillis E s2)))" row "sv_statRows s2"]
  proof
    assume "\<exists>e. ?save = (Inl e, sv_statRows s2)"
    then show ?thesis by (intro exI[of _ "[]"]) (auto simp: statOf_def)
  next
    assume "?save = (Inr (if st_CreateAt row = 0 then row\<lparr>st_CreateAt := fst (GetMillis E s2)\<rparr> else row),
        sv_statRows s2 @ [if st_CreateAt row = 0 then row\<lparr>st_CreateAt := fst (GetMillis E s2)\<rparr> else row])
        \<and> \<not> en_db E (sv_tick (snd (GetMillis E s2))) \<and> st_ID row \<notin> set (map st_ID (sv_statRows s2))"
    then show ?thesis
      by (intro exI[of _ "[if st_CreateAt row = 0 then row\<lparr>st_CreateAt := fst (GetMillis E s2)\<rparr> else row]"])
        (auto simp: statOf_def key)
  qed
  then obtain st where st: "statOf (cs_callID cs) st" and rows: "snd ?save = sv_statRows s2 @ st" by blast
  have "sv_statRows (snd (GetMillis E s2)) = sv_statRows s2" by (simp add: GetMillis_def tick_def)
  then have dbeq: "snd (db_CallStat_Save E row s2) = (tick (snd (GetMillis E s2)))\<lparr>sv_statRows := snd ?save\<rparr>"
    by (simp add: db_CallStat_Save_def split_def Let_def)
  have a: "quiet (s2\<lparr>sv_statRows := sv_statRows s2 @ st\<rparr>) (snd (db_CallStat_Save E row s2))"
    unfolding dbeq rows by (simp add: quiet_def GetMillis_def tick_def)
  have "quiet (s\<lparr>sv_statRows := sv_statRows s @ st\<rparr>) (s2\<lparr>sv_statRows := sv_statRows s2 @ st\<rparr>)"
    using q by (simp add: quiet_def)
  from quiet_trans[OF this a] st show ?thesis unfolding p by blast
qed

lemma quiet_persistCase:
  assumes "quiet a s"
  shows "\<exists>st. statOf (cs_callID cs) st \<and> quiet (a\<lparr>sv_statRows := sv_statRows a @ st\<rparr>)
    (case res of Inl _ \<Rightarrow> s | Inr call \<Rightarrow> persistEnd E cs now n call s)"
proof (cases res)
  case (Inl e)
  with assms show ?thesis by (intro exI[of _ "[]"]) (simp add: statOf_def)
next
  case (Inr call)
  obtain st where st: "statOf (cs_callID cs) st"
    "quiet (s\<lparr>sv_statRows := sv_statRows s @ st\<rparr>) (persistEnd E cs now n call s)"
    using persistEnd_quiet by blast
  have "quiet (a\<lparr>sv_statRows := sv_statRows a @ st\<rparr>) (s\<lparr>sv_statRows := sv_statRows s @ st\<rparr>)"
    using assms by (simp add: quiet_def)
  with st Inr show ?thesis by (auto intro: quiet_trans)
qed

lemma quiet_channels [simp]:
  "quiet s (snd (GetCallsChannel E ch s))" "quiet s (snd (callsEnabledForChannel E ch s))"
  "quiet s (snd (SetCallsChannelEnabled E ch en u s))" "quiet s (snd (DismissNotification ch u s))"
  "quiet s (kickRTCDInit s)"
proof -
  show g: "quiet s (snd (GetCallsChannel E ch s))"
    by (simp add: GetCallsChannel_def split_def Let_def)
  then show "quiet s (snd (callsEnabledForChannel E ch s))"
    by (simp add: callsEnabledForChannel_def split_def Let_def)
  show "quiet s (snd (SetCallsChannelEnabled E ch en u s))"
    unfolding SetCallsChannelEnabled_def Let_def split_def
    by (auto split: sum.splits
        intro: quiet_trans[OF quiet_oracle(1) quiet_db(8)]
        intro!: quiet_trans[OF quiet_trans[OF quiet_oracle(1) quiet_db(8)] quiet_output(4)])
  show "quiet s (snd (DismissNotification ch u s))" by (simp add: DismissNotification_def)
  show "quiet s (kickRTCDInit s)" by (simp add: kickRTCDInit_def quiet_def)
qed

section \<open>Closed form of ending a call\<close>

lemma quiet_set_index: "quiet s s' \<Longrightarrow> quiet (s\<lparr>sv_index := i\<rparr>) (s'\<lparr>sv_index := i\<rparr>)"
  by (simp add: quiet_def)

definition unlinkAll :: "sheap \<Rightarrow> callState \<Rightarrow> string list \<Rightarrow> sessionRegistry \<Rightarrow> sessionRegistry" where
  "unlinkAll h cs ids ri = fold (\<lambda>sid. unlink sid (connIDFor sid h cs)) ids ri"

lemma closeLeg_quiet:
  "quiet (s\<lparr>sv_index := unlink sid (connIDFor sid (sv_heap s) (sv_calls s c)) (sv_index s)\<rparr>)
     (closeLeg E c sid s)"
proof -
  let ?m = "\<lparr>cm_Type = ''leave'', cm_Data = DStrings [(''sessionID'', sid)]\<rparr>"
  have q: "quiet s (snd (sendToHost E c ?m s))" by simp
  note d = quietD[OF q]
  show ?thesis
    unfolding closeLeg_def Let_def split_def d(2,4,7)
    by (rule quiet_set_index) (rule q)
qed

lemma closeLegs_quiet:
  "quiet (s\<lparr>sv_index := unlinkAll (sv_heap s) (sv_calls s c) ids (sv_index s)\<rparr>)
     (fold (closeLeg E c) ids s)"
proof (induction ids arbitrary: s)
  case Nil
  show ?case by (simp add: unlinkAll_def)
next
  case (Cons sid ids)
  let ?i = "unlink sid (connIDFor sid (sv_heap s) (sv_calls s c)) (sv_index s)"
  let ?s1 = "closeLeg E c sid s"
  note q = closeLeg_quiet[where s = s and sid = sid and c = c and E = E]
  note d = quietD[OF q]
  have "quiet (s\<lparr>sv_index := unlinkAll (sv_heap s) (sv_calls s c) ids ?i\<rparr>)
     (?s1\<lparr>sv_index := unlinkAll (sv_heap s) (sv_calls s c) ids ?i\<rparr>)"
    using quiet_set_index[OF q] by simp
  moreover have "quiet (?s1\<lparr>sv_index := unlinkAll (sv_heap s) (sv_calls s c) ids ?i\<rparr>) (fold (closeLeg E c) ids ?s1)"
    using Cons.IH[of ?s1] d by simp
  ultimately have "quiet (s\<lparr>sv_index := unlinkAll (sv_heap s) (sv_calls s c) ids ?i\<rparr>) (fold (closeLeg E c) ids ?s1)"
    by (rule quiet_trans)
  then show ?case by (simp add: unlinkAll_def)
qed

lemma closeLegs_after:
  assumes "quiet s0 s"
  shows "quiet (s0\<lparr>sv_index := unlinkAll (sv_heap s0) (sv_calls s0 c) ids (sv_index s0)\<rparr>)
     (fold (closeLeg E c) ids s)"
  using quiet_trans[OF quiet_set_index[OF assms] closeLegs_quiet[where s = s and c = c and ids = ids and E = E]]
    quietD[OF assms] by simp

definition endEvent :: "callState \<Rightarrow> int \<Rightarrow> hubEvent" where
  "endEvent cs now = \<lparr>ev_name = ''call_end'',
     ev_data = [(''channel_id'', VStr (cs_channelID cs)), (''call_id'', VStr (cs_callID cs)), (''end_at'', VInt now)],
     ev_to = toChannel (cs_channelID cs) False\<rparr>"

definition endCore :: "cref \<Rightarrow> int \<Rightarrow> CallStat list \<Rightarrow> service \<Rightarrow> service" where
  "endCore c now st s =
     (let cs = (sv_calls s c)\<lparr>cs_endAt := now\<rparr> in
      s\<lparr>sv_statRows := sv_statRows s @ st,
        sv_events := sv_events s @
          (if ci_get (sv_chan s) (cs_channelID cs) = Some c then [endEvent cs now] else []),
        sv_calls := (sv_calls s)(c := cs),
        sv_shards := snd (reg_deleteIf (cs_callID cs) c (sv_shards s)),
        sv_chan := snd (ci_deleteIf (cs_channelID cs) c (sv_chan s)),
        sv_index := unlinkAll (sv_heap s) cs (sessionIDs cs) (sv_index s)\<rparr>)"

lemma endCallState_ended:
  "ended (sv_calls s c) \<Longrightarrow> endCallState E c now s = (Some ErrCallEnded, s)"
  by (simp add: endCallState_def markEnded_def ended_def)

lemma endCallState_quiet:
  assumes "\<not> ended (sv_calls s c)"
  shows "\<exists>st. fst (endCallState E c now s) = None \<and> statOf (cs_callID (sv_calls s c)) st
    \<and> quiet (endCore c now st s) (snd (endCallState E c now s))"
proof -
  define cs where "cs = (sv_calls s c)\<lparr>cs_endAt := now\<rparr>"
  have won: "markEnded now (sv_calls s c) = (True, cs)"
    using assms by (simp add: markEnded_def ended_def cs_def)
  define s3 where "s3 = s\<lparr>sv_calls := (sv_calls s)(c := cs),
      sv_shards := snd (reg_deleteIf (cs_callID cs) c (sv_shards s)),
      sv_chan := snd (ci_deleteIf (cs_channelID cs) c (sv_chan s))\<rparr>"
  define g where "g = db_Call_Get E (cs_callID cs) s3"
  define views where "views = fst (snapshot (sv_heap s) cs)"
  define s5 where "s5 = (case fst g of Inl _ \<Rightarrow> snd g
      | Inr call \<Rightarrow> persistEnd E cs now (length views) call (snd g))"
  define s6 where "s6 = endCallPost E (case fst g of Inl _ \<Rightarrow> '''' | Inr call \<Rightarrow> ca_PostID call)
      (map sw_UserID views) s5"
  define s7 where "s7 = fold (closeLeg E c) (sessionIDs cs) s6"
  define s8 where "s8 = db_EndOpenSessions E (cs_callID cs) now s7"
  note defs = s8_def s7_def s6_def s5_def views_def g_def s3_def
  have "quiet s3 (snd g)" by (simp add: g_def)
  then obtain st where st: "statOf (cs_callID cs) st" and "quiet (s3\<lparr>sv_statRows := sv_statRows s3 @ st\<rparr>) s5"
    unfolding s5_def using quiet_persistCase by blast
  then have q6: "quiet (s3\<lparr>sv_statRows := sv_statRows s3 @ st\<rparr>) s6"
    unfolding s6_def using quiet_trans[OF _ quiet_posts(2)] by blast
  let ?r = "s3\<lparr>sv_statRows := sv_statRows s @ st, sv_index := unlinkAll (sv_heap s) cs (sessionIDs cs) (sv_index s)\<rparr>"
  have "quiet ?r s7"
    unfolding s7_def using closeLegs_after[OF q6, of c "sessionIDs cs" E] by (simp add: s3_def)
  then have q8: "quiet ?r s8" unfolding s8_def by (metis quiet_trans quiet_db(6))
  have owned: "fst (ci_deleteIf (cs_channelID cs) c (sv_chan s)) \<longleftrightarrow> ci_get (sv_chan s) (cs_channelID cs) = Some c"
    by (simp add: ci_deleteIf_def ci_get_def)
  have eq: "endCallState E c now s = (None,
      s8\<lparr>sv_events := sv_events s8 @
        (if ci_get (sv_chan s) (cs_channelID cs) = Some c then [endEvent cs now] else [])\<rparr>)"
    unfolding owned[symmetric]
    by (simp add: endCallState_def won split_def Let_def defs broadcast_def endEvent_def cong: sum.case_cong)
  have "quiet (endCore c now st s) (snd (endCallState E c now s))"
    using q8 unfolding eq by (simp add: quiet_def endCore_def Let_def s3_def cs_def ends_def)
  with st eq show ?thesis by (auto simp: cs_def)
qed

lemma unlinkAll_ok:
  "gm_ok (ri_bySession ri) \<and> gm_ok (ri_byConn ri) \<Longrightarrow>
     gm_ok (ri_bySession (unlinkAll h cs ids ri)) \<and> gm_ok (ri_byConn (unlinkAll h cs ids ri))"
  by (induction ids arbitrary: ri) (simp_all add: unlinkAll_def unlink_def)

lemma unlinkAll_bySession:
  "gm_get (ri_bySession (unlinkAll h cs ids ri)) sid = (if sid \<in> set ids then None else gm_get (ri_bySession ri) sid)"
  by (induction ids arbitrary: ri) (auto simp: unlinkAll_def unlink_def)

lemma unlinkAll_byConn:
  "gm_get (ri_byConn (unlinkAll h cs ids ri)) conn
     = (if \<exists>sid \<in> set ids. connIDFor sid h cs = conn then None else gm_get (ri_byConn ri) conn)"
  by (induction ids arbitrary: ri) (auto simp: unlinkAll_def unlink_def)

section \<open>The invariant\<close>

definition env_ok :: "env \<Rightarrow> bool" where
  "env_ok E \<longleftrightarrow> (\<forall>n. en_now E n > 0) \<and> inj (en_newId E)"

definition inv_maps :: "service \<Rightarrow> bool" where
  "inv_maps s \<longleftrightarrow> reg_ok (sv_shards s) \<and> gm_ok (sv_chan s)
     \<and> gm_ok (ri_bySession (sv_index s)) \<and> gm_ok (ri_byConn (sv_index s))"

definition inv_calls :: "service \<Rightarrow> bool" where
  "inv_calls s \<longleftrightarrow> (\<forall>c < sv_nextC s.
     call_ok (sv_heap s) (sv_calls s c) \<and> one_sharer (sv_heap s) (sv_calls s c)
     \<and> (\<forall>sid r. gm_get (cs_sessions (sv_calls s c)) sid = Some r \<longrightarrow> r < sv_nextS s))"

definition inv_ids :: "env \<Rightarrow> service \<Rightarrow> bool" where
  "inv_ids E s \<longleftrightarrow> (\<forall>c < sv_nextC s.
     (\<exists>k < sv_tick s. cs_callID (sv_calls s c) = en_newId E k)
     \<and> (\<forall>d < sv_nextC s. cs_callID (sv_calls s d) = cs_callID (sv_calls s c) \<longrightarrow> d = c))"

definition inv_shards :: "service \<Rightarrow> bool" where
  "inv_shards s \<longleftrightarrow> (\<forall>k c. reg_get (sv_shards s) k = Some c \<longrightarrow>
     c < sv_nextC s \<and> cs_callID (sv_calls s c) = k \<and> \<not> ended (sv_calls s c)
     \<and> ci_get (sv_chan s) (cs_channelID (sv_calls s c)) = Some c)"

definition inv_chan :: "service \<Rightarrow> bool" where
  "inv_chan s \<longleftrightarrow> (\<forall>ch c. ci_get (sv_chan s) ch = Some c \<longrightarrow>
     cs_channelID (sv_calls s c) = ch \<and> reg_get (sv_shards s) (cs_callID (sv_calls s c)) = Some c)"

definition inv_index :: "service \<Rightarrow> bool" where
  "inv_index s \<longleftrightarrow>
     (\<forall>sid c. bySessionID (sv_index s) sid = Some c \<longrightarrow>
        reg_get (sv_shards s) (cs_callID (sv_calls s c)) = Some c
        \<and> gm_get (cs_sessions (sv_calls s c)) sid \<noteq> None)
     \<and> (\<forall>conn c. byConnID (sv_index s) conn = Some c \<longrightarrow> c < sv_nextC s)
     \<and> (\<forall>(c, conn, r) \<in> set (sv_timers s). c < sv_nextC s)"

text \<open>
  The call id of an announced end; every announced end and every statistics row belongs to an ended
  call, and no call has two of either.
\<close>

definition endKey :: "hubEvent \<Rightarrow> val option" where
  "endKey e = map_of (ev_data e) ''call_id''"

definition inv_ends :: "service \<Rightarrow> bool" where
  "inv_ends s \<longleftrightarrow> distinct (map endKey (ends s))
     \<and> (\<forall>e \<in> set (ends s). \<exists>c < sv_nextC s.
          ended (sv_calls s c) \<and> endKey e = Some (VStr (cs_callID (sv_calls s c))))"

definition inv_stats :: "env \<Rightarrow> service \<Rightarrow> bool" where
  "inv_stats E s \<longleftrightarrow>
     (\<forall>c < sv_nextC s.
        (\<not> ended (sv_calls s c) \<longrightarrow> cs_callID (sv_calls s c) \<notin> st_CallID ` set (sv_statRows s))
        \<and> count_list (map st_CallID (sv_statRows s)) (cs_callID (sv_calls s c)) \<le> 1)
     \<and> (\<forall>k \<ge> sv_tick s. en_newId E k \<notin> st_CallID ` set (sv_statRows s))"

definition svc_inv :: "env \<Rightarrow> service \<Rightarrow> bool" where
  "svc_inv E s \<longleftrightarrow>
     inv_maps s \<and> inv_calls s \<and> inv_ids E s \<and> inv_shards s \<and> inv_chan s \<and> inv_index s
     \<and> inv_ends s \<and> inv_stats E s"

lemmas inv_defs = svc_inv_def inv_maps_def inv_calls_def inv_ids_def inv_shards_def inv_chan_def
  inv_index_def inv_ends_def inv_stats_def

lemma svc_invD:
  assumes "svc_inv E s"
  shows "inv_maps s" "inv_calls s" "inv_ids E s" "inv_shards s" "inv_chan s" "inv_index s"
    "inv_ends s" "inv_stats E s"
  using assms by (simp_all add: svc_inv_def)

lemma inv_shardsD:
  assumes "svc_inv E s" and "reg_get (sv_shards s) k = Some c"
  shows "c < sv_nextC s" "cs_callID (sv_calls s c) = k" "\<not> ended (sv_calls s c)"
    "ci_get (sv_chan s) (cs_channelID (sv_calls s c)) = Some c"
  using assms by (auto simp: svc_inv_def inv_shards_def)

lemma inv_chanD:
  assumes "svc_inv E s" and "ci_get (sv_chan s) ch = Some c"
  shows "c < sv_nextC s" "cs_channelID (sv_calls s c) = ch" "\<not> ended (sv_calls s c)"
    "reg_get (sv_shards s) (cs_callID (sv_calls s c)) = Some c"
proof -
  show ch: "cs_channelID (sv_calls s c) = ch"
    and g: "reg_get (sv_shards s) (cs_callID (sv_calls s c)) = Some c"
    using assms by (auto simp: svc_inv_def inv_chan_def)
  show "c < sv_nextC s" "\<not> ended (sv_calls s c)" using inv_shardsD[OF assms(1) g] by auto
qed

lemma inv_bySessionD:
  assumes "svc_inv E s" and "bySessionID (sv_index s) sid = Some c"
  shows "c < sv_nextC s" "reg_get (sv_shards s) (cs_callID (sv_calls s c)) = Some c"
    "gm_get (cs_sessions (sv_calls s c)) sid \<noteq> None"
proof -
  show g: "reg_get (sv_shards s) (cs_callID (sv_calls s c)) = Some c"
    and "gm_get (cs_sessions (sv_calls s c)) sid \<noteq> None"
    using assms unfolding svc_inv_def inv_index_def by blast+
  show "c < sv_nextC s" by (rule inv_shardsD[OF assms(1) g])
qed

lemma inv_byConnD: "svc_inv E s \<Longrightarrow> byConnID (sv_index s) conn = Some c \<Longrightarrow> c < sv_nextC s"
  by (auto simp: svc_inv_def inv_index_def)

lemma inv_callsD:
  assumes "svc_inv E s" and "c < sv_nextC s"
  shows "call_ok (sv_heap s) (sv_calls s c)" "one_sharer (sv_heap s) (sv_calls s c)"
    "gm_get (cs_sessions (sv_calls s c)) sid = Some r \<Longrightarrow> r < sv_nextS s"
  using assms by (auto simp: svc_inv_def inv_calls_def)

lemma inv_idsD:
  assumes "svc_inv E s" and "c < sv_nextC s" and "d < sv_nextC s"
    and "cs_callID (sv_calls s d) = cs_callID (sv_calls s c)"
  shows "d = c"
  using assms by (auto simp: svc_inv_def inv_ids_def)

lemma inv_endsD:
  assumes "svc_inv E s" and "e \<in> set (ends s)"
  shows "\<exists>d < sv_nextC s. ended (sv_calls s d) \<and> endKey e = Some (VStr (cs_callID (sv_calls s d)))"
  using svc_invD(7)[OF assms(1)] assms(2) by (simp add: inv_ends_def)

lemma svc_inv_quiet:
  assumes "svc_inv E s" and "quiet s s'"
  shows "svc_inv E s'"
proof -
  have "inv_ids E s'"
    using svc_invD(3)[OF assms(1)] less_le_trans[OF _ quietD(11)[OF assms(2)]]
    unfolding inv_ids_def quietD(1-10)[OF assms(2)] by blast
  moreover have "inv_stats E s'"
    using svc_invD(8)[OF assms(1)] le_trans[OF quietD(11)[OF assms(2)]]
    unfolding inv_stats_def quietD(1-10)[OF assms(2)] quietD(13)[OF assms(2)] by blast
  ultimately show ?thesis
    using svc_invD[OF assms(1)] unfolding svc_inv_def inv_maps_def inv_calls_def inv_shards_def
      inv_chan_def inv_index_def inv_ends_def quietD(1-10)[OF assms(2)] quietD(12)[OF assms(2)] by blast
qed

lemma fresh_id:
  assumes "svc_inv E s" and "env_ok E" and "sv_tick s \<le> n" and "c < sv_nextC s"
  shows "cs_callID (sv_calls s c) \<noteq> en_newId E n"
proof
  assume eq: "cs_callID (sv_calls s c) = en_newId E n"
  obtain k where "k < sv_tick s" "cs_callID (sv_calls s c) = en_newId E k"
    using svc_invD(3)[OF assms(1)] assms(4) by (auto simp: inv_ids_def)
  with eq assms(2,3) show False by (auto simp: env_ok_def dest: injD)
qed

text \<open>Lookups after the end of call \<open>c\<close>.\<close>

lemma ci_get_deleteIf: "gm_ok ci \<Longrightarrow> ci_get (snd (ci_deleteIf ch c ci)) ch'
    = (if ch' = ch \<and> ci_get ci ch = Some c then None else ci_get ci ch')"
  by (rule chan.look_del_if)

lemma one_sharer_endAt [simp]: "one_sharer h (cs\<lparr>cs_endAt := t\<rparr>) = one_sharer h cs"
  by (simp add: one_sharer_def)

lemma call_ok_endAt [simp]: "call_ok h (cs\<lparr>cs_endAt := t\<rparr>) = call_ok h cs"
  by (simp add: call_ok_def session_ok_def host_ok_def participants_def)

lemma inv_ends_endCore:
  assumes inv: "svc_inv E s" and c: "c < sv_nextC s" and now: "now > 0" and live: "\<not> ended (sv_calls s c)"
  shows "inv_ends (endCore c now st s)"
proof -
  let ?s = "endCore c now st s"
  let ?new = "if ci_get (sv_chan s) (cs_channelID (sv_calls s c)) = Some c
      then [endEvent ((sv_calls s c)\<lparr>cs_endAt := now\<rparr>) now] else []"
  have e: "ends ?s = ends s @ ?new"
    by (simp add: endCore_def Let_def ends_def endEvent_def)
  have calls: "sv_calls ?s d = (if d = c then (sv_calls s c)\<lparr>cs_endAt := now\<rparr> else sv_calls s d)" for d
    by (simp add: endCore_def Let_def)
  have next': "sv_nextC ?s = sv_nextC s" by (simp add: endCore_def Let_def)
  have old: "endKey e \<noteq> Some (VStr (cs_callID (sv_calls s c)))" if e': "e \<in> set (ends s)" for e
  proof -
    obtain d where "d < sv_nextC s" "ended (sv_calls s d)" "endKey e = Some (VStr (cs_callID (sv_calls s d)))"
      using inv_endsD[OF inv e'] by blast
    then show ?thesis using live inv_idsD[OF inv c] by (metis option.inject val.inject(1))
  qed
  have key: "endKey (endEvent cs t) = Some (VStr (cs_callID cs))" for cs t
    by (simp add: endKey_def endEvent_def)
  have "distinct (map endKey (ends ?s))"
    using svc_invD(7)[OF inv] old unfolding e by (auto simp: inv_ends_def key)
  moreover have "\<exists>d < sv_nextC s. ended (sv_calls ?s d) \<and> endKey e = Some (VStr (cs_callID (sv_calls ?s d)))"
    if "e \<in> set (ends ?s)" for e
  proof (cases "e \<in> set (ends s)")
    case True
    then obtain d where "d < sv_nextC s" "ended (sv_calls s d)" "endKey e = Some (VStr (cs_callID (sv_calls s d)))"
      using inv_endsD[OF inv] by blast
    with live show ?thesis by (intro exI[of _ d]) (auto simp: calls)
  next
    case False
    with that have "e = endEvent ((sv_calls s c)\<lparr>cs_endAt := now\<rparr>) now" unfolding e by (auto split: if_splits)
    with c now show ?thesis by (intro exI[of _ c]) (simp add: calls key ended_def)
  qed
  ultimately show ?thesis by (simp add: inv_ends_def next')
qed

lemma inv_stats_endCore:
  assumes inv: "svc_inv E s" and c: "c < sv_nextC s" and now: "now > 0" and env: "env_ok E"
    and live: "\<not> ended (sv_calls s c)" and st: "statOf (cs_callID (sv_calls s c)) st"
  shows "inv_stats E (endCore c now st s)"
proof -
  let ?s = "endCore c now st s" and ?k = "cs_callID (sv_calls s c)"
  have calls: "sv_calls ?s d = (if d = c then (sv_calls s c)\<lparr>cs_endAt := now\<rparr> else sv_calls s d)" for d
    by (simp add: endCore_def Let_def)
  have same: "sv_nextC ?s = sv_nextC s" "sv_tick ?s = sv_tick s" "sv_statRows ?s = sv_statRows s @ st"
    by (simp_all add: endCore_def Let_def)
  have new: "st_CallID ` set st \<subseteq> {?k}" "count_list (map st_CallID st) k = (if st \<noteq> [] \<and> k = ?k then 1 else 0)" for k
    using st by (auto simp: statOf_def)
  note old = svc_invD(8)[OF inv]
  have zero: "count_list (map st_CallID (sv_statRows s)) ?k = 0"
    using old c live by (auto simp: inv_stats_def count_list_0_iff)
  have "(\<not> ended (sv_calls ?s d) \<longrightarrow> cs_callID (sv_calls ?s d) \<notin> st_CallID ` set (sv_statRows ?s))
      \<and> count_list (map st_CallID (sv_statRows ?s)) (cs_callID (sv_calls ?s d)) \<le> 1" if d: "d < sv_nextC s" for d
  proof (cases "d = c")
    case True
    with now zero new show ?thesis by (simp add: calls same ended_def)
  next
    case False
    with inv_idsD[OF inv c d] have ne: "cs_callID (sv_calls s d) \<noteq> ?k" by auto
    with False old d new show ?thesis by (auto simp: calls same inv_stats_def)
  qed
  moreover have "en_newId E n \<notin> st_CallID ` set (sv_statRows ?s)" if "sv_tick s \<le> n" for n
    using that old new fresh_id[OF inv env that c] by (auto simp: same inv_stats_def)
  ultimately show ?thesis by (simp add: inv_stats_def same)
qed

lemma svc_inv_endCore:
  assumes "svc_inv E s" and "c < sv_nextC s" and "now > 0" and "env_ok E" and "\<not> ended (sv_calls s c)"
    and st: "statOf (cs_callID (sv_calls s c)) st"
  shows "svc_inv E (endCore c now st s)"
proof -
  let ?s = "endCore c now st s"
  let ?k = "cs_callID (sv_calls s c)"
  have m: "inv_maps s" by (rule svc_invD(1)[OF assms(1)])
  then have rok: "reg_ok (sv_shards s)" and cok: "gm_ok (sv_chan s)" by (simp_all add: inv_maps_def)
  have calls: "sv_calls ?s d = (if d = c then (sv_calls s c)\<lparr>cs_endAt := now\<rparr> else sv_calls s d)" for d
    by (simp add: endCore_def Let_def)
  have same: "sv_nextC ?s = sv_nextC s" "sv_heap ?s = sv_heap s" "sv_nextS ?s = sv_nextS s"
    "sv_timers ?s = sv_timers s" "sv_tick ?s = sv_tick s"
    by (simp_all add: endCore_def Let_def)
  have ids: "cs_callID (sv_calls ?s d) = cs_callID (sv_calls s d)"
    "cs_channelID (sv_calls ?s d) = cs_channelID (sv_calls s d)"
    "cs_sessions (sv_calls ?s d) = cs_sessions (sv_calls s d)" for d
    by (simp_all add: calls)
  have sh: "reg_get (sv_shards ?s) k = (if k = ?k \<and> reg_get (sv_shards s) k = Some c then None else reg_get (sv_shards s) k)" for k
    using reg_get_deleteIf[OF rok] by (auto simp: endCore_def Let_def)
  have ch: "ci_get (sv_chan ?s) h = (if h = cs_channelID (sv_calls s c) \<and> ci_get (sv_chan s) h = Some c then None
      else ci_get (sv_chan s) h)" for h
    using ci_get_deleteIf[OF cok] by (auto simp: endCore_def Let_def)
  have sess: "bySessionID (sv_index ?s) sid = (if gm_get (cs_sessions (sv_calls s c)) sid \<noteq> None then None
      else bySessionID (sv_index s) sid)" for sid
    by (auto simp: endCore_def Let_def bySessionID_def unlinkAll_bySession sessionIDs_def gm_get_None_iff)
  have conn: "byConnID (sv_index ?s) k = Some d \<Longrightarrow> byConnID (sv_index s) k = Some d" for k d
    by (auto simp: endCore_def Let_def byConnID_def unlinkAll_byConn split: if_splits)
  have "inv_maps ?s"
    using m reg_deleteIf_ok chan.ok_del_if unlinkAll_ok by (simp add: inv_maps_def endCore_def Let_def)
  moreover have "inv_calls ?s"
    using svc_invD(2)[OF assms(1)] unfolding inv_calls_def same by (simp add: calls)
  moreover have "inv_ids E ?s"
    using svc_invD(3)[OF assms(1)] unfolding inv_ids_def same ids by blast
  moreover have "inv_shards ?s"
    unfolding inv_shards_def ids same
  proof (intro allI impI)
    fix k d assume "reg_get (sv_shards ?s) k = Some d"
    then have g: "reg_get (sv_shards s) k = Some d" and nd: "\<not> (k = ?k \<and> d = c)"
      by (auto simp: sh split: if_splits)
    note D = inv_shardsD[OF assms(1) g]
    from D(2) nd have "d \<noteq> c" by auto
    with D show "d < sv_nextC s \<and> cs_callID (sv_calls s d) = k \<and> \<not> ended (sv_calls ?s d)
        \<and> ci_get (sv_chan ?s) (cs_channelID (sv_calls s d)) = Some d"
      by (simp add: calls ch)
  qed
  moreover have "inv_chan ?s"
    unfolding inv_chan_def ids
  proof (intro allI impI)
    fix h d assume "ci_get (sv_chan ?s) h = Some d"
    then have g: "ci_get (sv_chan s) h = Some d" and nd: "\<not> (h = cs_channelID (sv_calls s c) \<and> d = c)"
      by (auto simp: ch split: if_splits)
    note D = inv_chanD[OF assms(1) g]
    from D(2) nd have "d \<noteq> c" by auto
    with D inv_idsD[OF assms(1) assms(2) D(1)]
    show "cs_channelID (sv_calls s d) = h \<and> reg_get (sv_shards ?s) (cs_callID (sv_calls s d)) = Some d"
      by (auto simp: sh)
  qed
  moreover have "inv_index ?s"
    unfolding inv_index_def ids same
  proof (intro conjI allI impI)
    fix sid d assume "bySessionID (sv_index ?s) sid = Some d"
    then have g: "bySessionID (sv_index s) sid = Some d" and nin: "gm_get (cs_sessions (sv_calls s c)) sid = None"
      by (auto simp: sess split: if_splits)
    note D = inv_bySessionD[OF assms(1) g]
    from D(3) nin have "d \<noteq> c" by auto
    with D inv_idsD[OF assms(1) assms(2) D(1)]
    show "reg_get (sv_shards ?s) (cs_callID (sv_calls s d)) = Some d" by (auto simp: sh)
    from D(3) show "gm_get (cs_sessions (sv_calls s d)) sid \<noteq> None" .
  next
    fix k d assume "byConnID (sv_index ?s) k = Some d"
    then show "d < sv_nextC s" using conn inv_byConnD[OF assms(1)] by blast
  next
    show "\<forall>(c, conn, r) \<in> set (sv_timers s). c < sv_nextC s"
      using svc_invD(6)[OF assms(1)] by (simp add: inv_index_def)
  qed
  moreover have "inv_ends ?s" and "inv_stats E ?s"
    using inv_ends_endCore[OF assms(1-3,5)] inv_stats_endCore[OF assms] by blast+
  ultimately show ?thesis by (simp add: svc_inv_def)
qed

lemma svc_inv_endCallState:
  assumes "svc_inv E s" and "c < sv_nextC s" and "now > 0" and "env_ok E"
  shows "svc_inv E (snd (endCallState E c now s))"
proof (cases "ended (sv_calls s c)")
  case True
  with assms show ?thesis by (simp add: endCallState_ended)
next
  case False
  then show ?thesis
    using svc_inv_quiet[OF svc_inv_endCore[OF assms False]] endCallState_quiet[OF False] by blast
qed

section \<open>Closed form of starting a call\<close>

definition newCore :: "string \<Rightarrow> string \<Rightarrow> string \<Rightarrow> int \<Rightarrow> service \<Rightarrow> service" where
  "newCore callID channelID host t s =
     s\<lparr>sv_calls := (sv_calls s)(sv_nextC s := newCallState callID channelID host t),
       sv_nextC := Suc (sv_nextC s)\<rparr>"

definition startCore :: "string \<Rightarrow> string \<Rightarrow> string \<Rightarrow> int \<Rightarrow> service \<Rightarrow> service" where
  "startCore callID channelID host t s =
     (newCore callID channelID host t s)
       \<lparr>sv_shards := reg_put callID (sv_nextC s) (sv_shards s),
        sv_chan := ci_set channelID (sv_nextC s) (sv_chan s)\<rparr>"

definition rollbackCore :: "string \<Rightarrow> string \<Rightarrow> string \<Rightarrow> int \<Rightarrow> service \<Rightarrow> service" where
  "rollbackCore callID channelID host t s =
     (newCore callID channelID host t s)
       \<lparr>sv_shards := snd (reg_deleteIf callID (sv_nextC s) (reg_put callID (sv_nextC s) (sv_shards s)))\<rparr>"

lemma fresh_unregistered:
  assumes "svc_inv E s" and "env_ok E" and "sv_tick s \<le> n"
  shows "reg_get (sv_shards s) (en_newId E n) = None"
proof (cases "reg_get (sv_shards s) (en_newId E n)")
  case (Some c)
  note D = inv_shardsD[OF assms(1) Some]
  with fresh_id[OF assms D(1)] show ?thesis by simp
qed

lemma quiet_newCore:
  "quiet s s' \<Longrightarrow> quiet (newCore k ch host t s) (newCore k ch host t s')"
  by (simp add: quiet_def newCore_def)

lemma registerCall_fresh:
  assumes "reg_get (sv_shards s) callID = None"
  shows "registerCall E callID channelID host s =
    ((sv_nextC s, True),
     (newCore callID channelID host (en_now E (sv_tick s)) (tick s))
        \<lparr>sv_shards := reg_put callID (sv_nextC s) (sv_shards s)\<rparr>)"
proof -
  have "gm_get (shardFor (sv_shards s) callID) callID = None"
    using assms by (simp add: reg_get_def shard_get_def)
  then show ?thesis
    by (simp add: registerCall_def GetMillis_def getOrCreateLive_def newCore_def reg_put_def Let_def tick_def)
qed

lemma announceCall_quiet:
  "quiet (s\<lparr>sv_chan := ci_set channelID c (sv_chan s)\<rparr>) (announceCall E c channelID ownerID call host now s)"
proof -
  let ?s1 = "s\<lparr>sv_chan := ci_set channelID c (sv_chan s)\<rparr>"
  let ?p = "createCallPost E (sv_calls ?s1 c) ownerID ?s1"
  have q: "quiet ?s1 (snd ?p)" by simp
  have "quiet ?s1 (if fst ?p \<noteq> '''' then snd (db_Call_Update E (call\<lparr>ca_PostID := fst ?p\<rparr>) (snd ?p)) else snd ?p)"
    using q quiet_trans[OF q quiet_db(2)] by auto
  then show ?thesis
    unfolding announceCall_def Let_def split_def by (rule quiet_trans) simp
qed

lemma StartCall_cases [consumes 2, case_names refused reused rollback started]:
  assumes "svc_inv E s" and "env_ok E"
  obtains (refused) e s' where "StartCall E ch owner post s = (Inl e, s')" "quiet s s'"
    "\<not> errors_is e ErrCallNotFound"
  | (reused) c where "ci_get (sv_chan s) ch = Some c" "StartCall E ch owner post s = (Inr (resultOf (sv_calls s c)), s)"
      "ch \<noteq> ''''" "owner \<noteq> ''''" "enabled (sv_cfg s)"
  | (rollback) e s' n host t where "StartCall E ch owner post s = (Inl e, s')" "sv_tick s \<le> n" "n < sv_tick s'"
      "quiet (rollbackCore (en_newId E n) ch host t s) s'" "\<not> errors_is e ErrCallNotFound"
      "ci_get (sv_chan s) ch = None"
  | (started) s' n host t now where "StartCall E ch owner post s = (Inr \<lparr>sr_CallID = en_newId E n, sr_RTCDHost = host, sr_StartAt = now\<rparr>, s')"
      "sv_tick s \<le> n" "n < sv_tick s'" "quiet (startCore (en_newId E n) ch host t s) s'"
      "ci_get (sv_chan s) ch = None" "ch \<noteq> ''''" "owner \<noteq> ''''" "enabled (sv_cfg s)"
proof (cases "\<not> enabled (sv_cfg s) \<or> ch = '''' \<or> owner = ''''")
  case True
  then show ?thesis
    using refused[of ErrCallsDisabled s] refused[of "ErrMsg ''calls: channelID and ownerID are required''" s]
    by (cases "enabled (sv_cfg s)") (simp_all add: StartCall_def errors_is.simps)
next
  case F: False
  show ?thesis
  proof (cases "ci_getLive (sv_chan s) (sv_calls s) ch")
    case (Some c)
    then show ?thesis
      using reused[of c] F by (auto simp: StartCall_def ci_getLive_def split: option.splits if_splits)
  next
    case None
    then have free: "ci_get (sv_chan s) ch = None"
      using inv_chanD(3)[OF assms(1)] by (auto simp: ci_getLive_def split: option.splits if_splits)
    obtain a s1 where a: "assignHost E s = (a, s1)" by (cases "assignHost E s")
    then have q1: "quiet s s1" by (auto simp: assignHost_def split: if_splits sum.splits)
    show ?thesis
    proof (cases a)
      case (Inl e)
      then have "StartCall E ch owner post s = (Inl e, s1)" using F None a by (simp add: StartCall_def)
      moreover have "\<not> errors_is e ErrCallNotFound"
        using a Inl by (auto simp: assignHost_def errors_is.simps split: if_splits sum.splits)
      ultimately show ?thesis using refused q1 by blast
    next
      case (Inr host)
      define n where "n = Suc (sv_tick s1)"
      define callID where "callID = en_newId E n"
      define now where "now = en_now E (sv_tick s1)"
      define s3 where "s3 = tick (tick s1)"
      have q3: "quiet s s3" unfolding s3_def using quiet_trans[OF quiet_trans[OF q1 quiet_tick] quiet_tick] .
      have n: "sv_tick s \<le> n" "n < sv_tick s3"
        using quietD(11)[OF q1] by (simp_all add: n_def s3_def tick_def)
      have unreg: "reg_get (sv_shards s3) callID = None"
        using fresh_unregistered[OF assms n(1)] quietD(6)[OF q3] by (simp add: callID_def)
      define t where "t = en_now E (sv_tick s3)"
      define s4 where "s4 = (newCore callID ch host t (tick s3))\<lparr>sv_shards := reg_put callID (sv_nextC s3) (sv_shards s3)\<rparr>"
      have r: "registerCall E callID ch host s3 = ((sv_nextC s3, True), s4)"
        using registerCall_fresh[OF unreg] by (simp add: s4_def t_def)
      define row where "row = \<lparr>ca_ID = callID, ca_ChannelID = ch, ca_OwnerID = owner,
          ca_PostID = post, ca_StartAt = now, ca_EndAt = 0, ca_CreateAt = now, ca_UpdateAt = 0\<rparr>"
      obtain w s5 where w: "db_Call_Save E row s4 = (w, s5)" by (cases "db_Call_Save E row s4")
      have q5: "quiet s4 s5" using quiet_db(1)[of s4 E row] w by simp
      have "quiet s (tick s3)" by (rule quiet_trans[OF q3]) simp
      then have q4: "quiet ((newCore callID ch host t s)\<lparr>sv_shards := reg_put callID (sv_nextC s) (sv_shards s)\<rparr>) s4"
        by (simp add: quiet_def s4_def newCore_def tick_def)
      have n5: "n < sv_tick s5"
        using n(2) quietD(11)[OF q5] by (simp add: s4_def newCore_def tick_def)
      have m: "GetMillis E s1 = (now, tick s1)" "NewId E (tick s1) = (callID, s3)"
        by (simp_all add: GetMillis_def NewId_def now_def callID_def n_def s3_def tick_def)
      have nc: "sv_nextC s3 = sv_nextC s" using quietD(5)[OF q3] .
      show ?thesis
      proof (cases w)
        case (Inl e)
        let ?e = "ErrWrap ''calls: failed to persist call'' (ErrStore e)"
        let ?s' = "s5\<lparr>sv_shards := snd (reg_deleteIf callID (sv_nextC s3) (sv_shards s5))\<rparr>"
        have "StartCall E ch owner post s = (Inl ?e, ?s')"
          using F None a Inr Inl w by (simp add: StartCall_def m r row_def)
        moreover have "quiet (rollbackCore callID ch host t s) ?s'"
          using quiet_trans[OF q4 q5] by (simp add: rollbackCore_def quiet_def nc)
        moreover have "\<not> errors_is ?e ErrCallNotFound" by (simp add: errors_is.simps)
        ultimately show ?thesis
          using rollback[OF _ n(1), of ?e ?s' host t] n5 free by (simp add: callID_def)
      next
        case (Inr call)
        let ?s' = "announceCall E (sv_nextC s3) ch owner call host now s5"
        have "StartCall E ch owner post s = (Inr \<lparr>sr_CallID = callID, sr_RTCDHost = host, sr_StartAt = now\<rparr>, ?s')"
          using F None a \<open>a = Inr host\<close> Inr w by (simp add: StartCall_def m r row_def)
        moreover have "quiet (s5\<lparr>sv_chan := ci_set ch (sv_nextC s3) (sv_chan s5)\<rparr>) ?s'"
          by (rule announceCall_quiet)
        moreover have "quiet (startCore callID ch host t s) (s5\<lparr>sv_chan := ci_set ch (sv_nextC s3) (sv_chan s5)\<rparr>)"
          using quiet_trans[OF q4 q5] by (simp add: startCore_def quiet_def nc newCore_def)
        ultimately have st: "StartCall E ch owner post s = (Inr \<lparr>sr_CallID = callID, sr_RTCDHost = host, sr_StartAt = now\<rparr>, ?s')"
          and q': "quiet (startCore callID ch host t s) ?s'"
          by (blast intro: quiet_trans)+
        have "sv_tick s5 \<le> sv_tick ?s'"
          using quietD(11)[OF announceCall_quiet[where s = s5 and c = "sv_nextC s3" and channelID = ch
              and E = E and ownerID = owner and call = call and host = host and now = now]] by simp
        with n5 have "n < sv_tick ?s'" by simp
        with st q' show ?thesis
          using started[of n host now ?s' t] n(1) free F by (simp add: callID_def)
      qed
    qed
  qed
qed

section \<open>Operations keep the invariant: calls\<close>

lemma newCallState_simps [simp]:
  "cs_callID (newCallState k ch host t) = k" "cs_channelID (newCallState k ch host t) = ch"
  "cs_sessions (newCallState k ch host t) = []" "cs_byConn (newCallState k ch host t) = []"
  "\<not> ended (newCallState k ch host t)" "call_ok h (newCallState k ch host t)"
  "one_sharer h (newCallState k ch host t)"
  by (simp_all add: newCallState_def ended_def call_ok_def host_ok_def participants_def one_sharer_def)

text \<open>
  A new call either becomes registered in both registries (\<open>reg\<close>) or in neither; in both cases
  the invariant is kept.
\<close>

lemma svc_inv_new:
  assumes inv: "svc_inv E s" and env: "env_ok E" and n: "sv_tick s \<le> n" "n < m"
    and free: "reg \<longrightarrow> ci_get (sv_chan s) ch = None"
    and R: "reg_ok R" "\<And>k. reg_get R k = (if reg \<and> k = en_newId E n then Some (sv_nextC s) else reg_get (sv_shards s) k)"
    and X: "gm_ok X" "\<And>h. ci_get X h = (if reg \<and> h = ch then Some (sv_nextC s) else ci_get (sv_chan s) h)"
  shows "svc_inv E ((newCore (en_newId E n) ch host t s)\<lparr>sv_shards := R, sv_chan := X, sv_tick := m\<rparr>)"
    (is "svc_inv E ?s")
proof -
  let ?c = "sv_nextC s"
  have old: "d < ?c \<Longrightarrow> sv_calls ?s d = sv_calls s d" for d by (simp add: newCore_def)
  have new: "sv_calls ?s ?c = newCallState (en_newId E n) ch host t" by (simp add: newCore_def)
  have next': "sv_nextC ?s = Suc ?c" by (simp add: newCore_def)
  have below: "d < Suc ?c \<Longrightarrow> d = ?c \<or> d < ?c" for d by auto
  have same: "sv_heap ?s = sv_heap s" "sv_nextS ?s = sv_nextS s" "sv_index ?s = sv_index s"
    "sv_timers ?s = sv_timers s" "sv_shards ?s = R" "sv_chan ?s = X" "sv_tick ?s = m"
    "ends ?s = ends s" "sv_statRows ?s = sv_statRows s"
    by (simp_all add: newCore_def)
  note fresh = fresh_id[OF inv env n(1)]
  have "inv_maps ?s"
    using svc_invD(1)[OF inv] R(1) X(1) by (simp add: inv_maps_def same)
  moreover have "inv_calls ?s"
    unfolding inv_calls_def next' same
    using inv_callsD[OF inv] old new by (auto dest!: below)
  moreover have "inv_ids E ?s"
    unfolding inv_ids_def next' same
  proof (intro allI impI conjI)
    fix c assume c: "c < Suc ?c"
    show "\<exists>k<m. cs_callID (sv_calls ?s c) = en_newId E k"
    proof (cases "c = ?c")
      case True
      with new n(2) show ?thesis by auto
    next
      case False
      with c old svc_invD(3)[OF inv] n show ?thesis
        by (auto simp: inv_ids_def dest!: spec[of _ c] below intro: less_trans less_le_trans)
    qed
    fix d assume d: "d < Suc ?c" and eq: "cs_callID (sv_calls ?s d) = cs_callID (sv_calls ?s c)"
    show "d = c"
      using below[OF c] below[OF d] eq new old fresh inv_idsD[OF inv, of c d] by fastforce
  qed
  moreover have "inv_shards ?s"
    unfolding inv_shards_def next' same
  proof (intro allI impI)
    fix k c assume g: "reg_get R k = Some c"
    show "c < Suc ?c \<and> cs_callID (sv_calls ?s c) = k \<and> \<not> ended (sv_calls ?s c)
        \<and> ci_get X (cs_channelID (sv_calls ?s c)) = Some c"
    proof (cases "reg \<and> k = en_newId E n")
      case True
      with g R(2) have "c = ?c" by simp
      with True show ?thesis using new X(2) by simp
    next
      case False
      with g R(2) have g': "reg_get (sv_shards s) k = Some c" by auto
      note D = inv_shardsD[OF inv g']
      with old free X(2) show ?thesis by auto
    qed
  qed
  moreover have "inv_chan ?s"
    unfolding inv_chan_def same
  proof (intro allI impI)
    fix h c assume g: "ci_get X h = Some c"
    show "cs_channelID (sv_calls ?s c) = h \<and> reg_get R (cs_callID (sv_calls ?s c)) = Some c"
    proof (cases "reg \<and> h = ch")
      case True
      with g X(2) have "c = ?c" by simp
      with True show ?thesis using new R(2) by simp
    next
      case False
      with g X(2) have g': "ci_get (sv_chan s) h = Some c" by auto
      note D = inv_chanD[OF inv g']
      with old[OF D(1)] fresh[OF D(1)] R(2) show ?thesis by auto
    qed
  qed
  moreover have "inv_index ?s"
    unfolding inv_index_def next' same
  proof (intro conjI allI impI)
    fix sid c assume g: "bySessionID (sv_index s) sid = Some c"
    note D = inv_bySessionD[OF inv g]
    show "reg_get R (cs_callID (sv_calls ?s c)) = Some c"
      using D(2) old[OF D(1)] fresh[OF D(1)] R(2) by auto
    show "gm_get (cs_sessions (sv_calls ?s c)) sid \<noteq> None" using D(3) old[OF D(1)] by simp
  next
    fix conn c assume "byConnID (sv_index s) conn = Some c"
    then show "c < Suc ?c" using inv_byConnD[OF inv] less_SucI by blast
  next
    show "\<forall>(c, conn, r) \<in> set (sv_timers s). c < Suc ?c"
      using svc_invD(6)[OF inv] by (auto simp: inv_index_def)
  qed
  moreover have "inv_ends ?s"
    unfolding inv_ends_def next' same
  proof (intro conjI ballI)
    show "distinct (map endKey (ends s))" using svc_invD(7)[OF inv] by (simp add: inv_ends_def)
    fix e assume "e \<in> set (ends s)"
    then obtain d where "d < ?c" "ended (sv_calls s d)" "endKey e = Some (VStr (cs_callID (sv_calls s d)))"
      using inv_endsD[OF inv] by blast
    then show "\<exists>d < Suc ?c. ended (sv_calls ?s d) \<and> endKey e = Some (VStr (cs_callID (sv_calls ?s d)))"
      using old by (intro exI[of _ d]) auto
  qed
  moreover have "inv_stats E ?s"
    unfolding inv_stats_def next' same
    using svc_invD(8)[OF inv] n old new by (auto simp: inv_stats_def count_list_0_iff dest!: below)
  ultimately show ?thesis by (simp add: svc_inv_def)
qed

lemma quiet_retick: "quiet a s \<Longrightarrow> quiet (a\<lparr>sv_tick := sv_tick s\<rparr>) s"
  by (simp add: quiet_def)

lemma inv_mapsD:
  assumes "svc_inv E s"
  shows "reg_ok (sv_shards s)" "gm_ok (sv_chan s)"
    "gm_ok (ri_bySession (sv_index s))" "gm_ok (ri_byConn (sv_index s))"
  using svc_invD(1)[OF assms] by (simp_all add: inv_maps_def)

lemma svc_inv_started:
  assumes "svc_inv E s" and "env_ok E" and "sv_tick s \<le> n" and "n < sv_tick s'"
    and "ci_get (sv_chan s) ch = None" and "quiet (startCore (en_newId E n) ch host t s) s'"
  shows "svc_inv E s'"
proof -
  note m = inv_mapsD[OF assms(1)]
  have "svc_inv E ((newCore (en_newId E n) ch host t s)
      \<lparr>sv_shards := reg_put (en_newId E n) (sv_nextC s) (sv_shards s),
       sv_chan := ci_set ch (sv_nextC s) (sv_chan s), sv_tick := sv_tick s'\<rparr>)"
    by (rule svc_inv_new[OF assms(1-4), where reg = True])
      (simp_all add: assms(5) reg_put_ok[OF m(1)] reg_get_put[OF m(1)] chan.ok_put[OF m(2)] chan.look_put[OF m(2)])
  then show ?thesis
    using svc_inv_quiet[OF _ quiet_retick[OF assms(6)]] by (simp add: startCore_def)
qed

lemma svc_inv_rolledback:
  assumes "svc_inv E s" and "env_ok E" and "sv_tick s \<le> n" and "n < sv_tick s'"
    and "quiet (rollbackCore (en_newId E n) ch host t s) s'"
  shows "svc_inv E s'"
proof -
  note m = inv_mapsD[OF assms(1)]
  let ?R = "snd (reg_deleteIf (en_newId E n) (sv_nextC s) (reg_put (en_newId E n) (sv_nextC s) (sv_shards s)))"
  have "reg_get ?R = reg_get (sv_shards s)"
    by (rule sharded.put_then_del_if[OF m(1) fresh_unregistered[OF assms(1-3)]])
  then have "svc_inv E ((newCore (en_newId E n) ch host t s)
      \<lparr>sv_shards := ?R, sv_chan := sv_chan s, sv_tick := sv_tick s'\<rparr>)"
    by (intro svc_inv_new[OF assms(1-4), where reg = False])
      (simp_all add: reg_put_ok[OF m(1)] reg_deleteIf_ok m(2))
  then show ?thesis
    using svc_inv_quiet[OF _ quiet_retick[OF assms(5)]] by (simp add: rollbackCore_def newCore_def)
qed

lemma svc_inv_StartCall:
  assumes "svc_inv E s" and "env_ok E"
  shows "svc_inv E (snd (StartCall E ch owner post s))"
  using assms
proof (cases rule: StartCall_cases[where ch = ch and owner = owner and post = post])
  case (refused e s')
  then show ?thesis using svc_inv_quiet[OF assms(1)] by simp
next
  case (reused c)
  then show ?thesis using assms by simp
next
  case (rollback e s' n host t)
  then show ?thesis using svc_inv_rolledback[OF assms] by simp
next
  case (started s' n host t now)
  then show ?thesis using svc_inv_started[OF assms] by simp
qed

section \<open>Operations keep the invariant: sessions\<close>

lemma session_disjoint:
  assumes "svc_inv E s" and "c < sv_nextC s" and "d < sv_nextC s"
    and "gm_get (cs_sessions (sv_calls s c)) sid = Some r"
    and "gm_get (cs_sessions (sv_calls s d)) sid' = Some r"
  shows "d = c \<and> sid' = sid"
proof -
  have "session_ok (sv_heap s) (sv_calls s c) sid r" "session_ok (sv_heap s) (sv_calls s d) sid' r"
    using call_okD(4) inv_callsD(1)[OF assms(1)] assms by blast+
  then have "cs_callID (sv_calls s d) = cs_callID (sv_calls s c)" "sid' = sid"
    unfolding session_ok_def by metis+
  then show ?thesis using inv_idsD[OF assms(1-3)] by blast
qed

text \<open>Replacing one call and the session index.\<close>

lemma svc_inv_call:
  assumes inv: "svc_inv E s" and c: "c < sv_nextC s"
    and same: "cs_callID cs = cs_callID (sv_calls s c)" "cs_channelID cs = cs_channelID (sv_calls s c)"
      "cs_endAt cs = cs_endAt (sv_calls s c)"
    and ok: "call_ok (sv_heap s) cs" "one_sharer (sv_heap s) cs"
      "\<And>sid r. gm_get (cs_sessions cs) sid = Some r \<Longrightarrow> r < sv_nextS s"
    and idx: "gm_ok (ri_bySession i)" "gm_ok (ri_byConn i)"
      "\<And>sid d. bySessionID i sid = Some d \<Longrightarrow> reg_get (sv_shards s) (cs_callID (sv_calls s d)) = Some d
         \<and> gm_get (cs_sessions (((sv_calls s)(c := cs)) d)) sid \<noteq> None"
      "\<And>conn d. byConnID i conn = Some d \<Longrightarrow> d < sv_nextC s"
  shows "svc_inv E (s\<lparr>sv_calls := (sv_calls s)(c := cs), sv_index := i\<rparr>)" (is "svc_inv E ?s")
proof -
  have ids: "cs_callID (sv_calls ?s d) = cs_callID (sv_calls s d)"
    "cs_channelID (sv_calls ?s d) = cs_channelID (sv_calls s d)"
    "ended (sv_calls ?s d) = ended (sv_calls s d)" for d
    using same by (simp_all add: ended_def)
  have simp': "sv_shards ?s = sv_shards s" "sv_chan ?s = sv_chan s" "sv_nextC ?s = sv_nextC s"
    "sv_nextS ?s = sv_nextS s" "sv_heap ?s = sv_heap s" "sv_timers ?s = sv_timers s" "sv_tick ?s = sv_tick s"
    "sv_index ?s = i" "ends ?s = ends s" "sv_statRows ?s = sv_statRows s" by simp_all
  have "inv_maps ?s" using svc_invD(1)[OF inv] idx(1,2) by (simp add: inv_maps_def)
  moreover have "inv_calls ?s" using inv_callsD[OF inv] ok by (simp add: inv_calls_def)
  moreover have "inv_ids E ?s"
    using svc_invD(3)[OF inv] unfolding inv_ids_def ids simp' .
  moreover have "inv_shards ?s"
    using svc_invD(4)[OF inv] unfolding inv_shards_def ids simp' .
  moreover have "inv_chan ?s"
    using svc_invD(5)[OF inv] unfolding inv_chan_def ids simp' .
  moreover have "inv_index ?s"
    using svc_invD(6)[OF inv] idx(3,4) unfolding inv_index_def ids simp' by simp
  moreover have "inv_ends ?s"
    using svc_invD(7)[OF inv] unfolding inv_ends_def ids simp' .
  moreover have "inv_stats E ?s"
    using svc_invD(8)[OF inv] unfolding inv_stats_def ids simp' .
  ultimately show ?thesis by (simp add: svc_inv_def)
qed

text \<open>Changing the heap where the identity of registered sessions stays.\<close>

lemma svc_inv_heap:
  assumes inv: "svc_inv E s"
    and h: "\<And>c sid r. c < sv_nextC s \<Longrightarrow> gm_get (cs_sessions (sv_calls s c)) sid = Some r \<Longrightarrow>
        ss_sessionID (h r) = ss_sessionID (sv_heap s r) \<and> ss_callID (h r) = ss_callID (sv_heap s r)"
    and sh: "\<And>c. c < sv_nextC s \<Longrightarrow> one_sharer h (sv_calls s c)"
    and n: "sv_nextS s \<le> n"
  shows "svc_inv E (s\<lparr>sv_heap := h, sv_nextS := n\<rparr>)"
proof -
  have "inv_calls (s\<lparr>sv_heap := h, sv_nextS := n\<rparr>)"
    unfolding inv_calls_def
  proof (intro allI impI conjI)
    fix c assume "c < sv_nextC (s\<lparr>sv_heap := h, sv_nextS := n\<rparr>)"
    then have c: "c < sv_nextC s" by simp
    show "call_ok (sv_heap (s\<lparr>sv_heap := h, sv_nextS := n\<rparr>)) (sv_calls (s\<lparr>sv_heap := h, sv_nextS := n\<rparr>) c)"
      using call_ok_heap[OF inv_callsD(1)[OF inv c]] h[OF c] by simp
    show "one_sharer (sv_heap (s\<lparr>sv_heap := h, sv_nextS := n\<rparr>)) (sv_calls (s\<lparr>sv_heap := h, sv_nextS := n\<rparr>) c)"
      using sh[OF c] by simp
    show "r < sv_nextS (s\<lparr>sv_heap := h, sv_nextS := n\<rparr>)"
      if "gm_get (cs_sessions (sv_calls (s\<lparr>sv_heap := h, sv_nextS := n\<rparr>) c)) sid = Some r" for sid r
      using that inv_callsD(3)[OF inv c, of sid r] n by simp
  qed
  then show ?thesis
    using svc_invD[OF inv]
    by (simp add: svc_inv_def inv_maps_def inv_ids_def inv_shards_def inv_chan_def inv_index_def
        inv_ends_def inv_stats_def)
qed

lemma svc_inv_set_heap:
  assumes "svc_inv E s"
    and "\<And>r. ss_sessionID (h r) = ss_sessionID (sv_heap s r) \<and> ss_callID (h r) = ss_callID (sv_heap s r)"
    and "\<And>c. c < sv_nextC s \<Longrightarrow> one_sharer h (sv_calls s c)"
  shows "svc_inv E (s\<lparr>sv_heap := h\<rparr>)"
  using svc_inv_heap[OF assms(1), of h "sv_nextS s"] assms(2,3) by simp

lemma svc_inv_mutate:
  assumes inv: "svc_inv E s"
    and "\<And>x. ss_sessionID (fn x) = ss_sessionID x" and "\<And>x. ss_callID (fn x) = ss_callID x"
    and "\<And>x. ss_screenOn (fn x) \<Longrightarrow> ss_screenOn x"
  shows "svc_inv E (mutateSession c sid fn s)"
proof -
  have scr: "ss_screenOn (snd (mutate sid fn (sv_heap s) (sv_calls s c)) r) \<Longrightarrow> ss_screenOn (sv_heap s r)" for r
    using assms(4) by (auto simp: mutate_def split: option.splits if_splits)
  have "one_sharer (snd (mutate sid fn (sv_heap s) (sv_calls s c))) (sv_calls s d)" if "d < sv_nextC s" for d
    using inv_callsD(2)[OF inv that] scr unfolding one_sharer_def by fastforce
  then show ?thesis
    unfolding mutateSession_def using assms(2,3) by (intro svc_inv_set_heap[OF inv]) simp_all
qed

lemma firstSharing_Some:
  "firstSharing h xs = Some r \<Longrightarrow> \<exists>sid. (sid, r) \<in> set xs \<and> ss_screenOn (h r)"
  by (induction xs) (auto split: if_splits)

lemma firstSharing_None: "firstSharing h xs = None \<longleftrightarrow> (\<forall>(sid, r) \<in> set xs. \<not> ss_screenOn (h r))"
  by (induction xs) (auto split: if_splits)

text \<open>The check of \<^verbatim>\<open>handleScreenToggle\<close> is exactly what keeps a single sharer.\<close>

lemma screen_on_one_sharer:
  assumes inv: "svc_inv E s" and c: "c < sv_nextC s"
    and chk: "case screenSharer (sv_heap s) (sv_calls s c) of None \<Rightarrow> True | Some q \<Rightarrow> ss_sessionID (sv_heap s q) = sid"
    and d: "d < sv_nextC s"
  shows "one_sharer (snd (mutate sid (\<lambda>x. x\<lparr>ss_screenOn := on\<rparr>) (sv_heap s) (sv_calls s c))) (sv_calls s d)"
proof (cases "gm_get (cs_sessions (sv_calls s c)) sid")
  case None
  then show ?thesis using inv_callsD(2)[OF inv d] by (simp add: mutate_def)
next
  case (Some r)
  let ?h = "(sv_heap s)(r := (sv_heap s r)\<lparr>ss_screenOn := on\<rparr>)"
  note okd = call_okD[OF inv_callsD(1)[OF inv d]] and okc = call_okD[OF inv_callsD(1)[OF inv c]]
  have only: "sid' = sid" if "gm_get (cs_sessions (sv_calls s c)) sid' = Some q" "ss_screenOn (sv_heap s q)" for sid' q
  proof (cases "screenSharer (sv_heap s) (sv_calls s c)")
    case None
    with that show ?thesis by (auto simp: screenSharer_def firstSharing_None dest: map_of_SomeD)
  next
    case (Some p)
    then obtain k where k: "gm_get (cs_sessions (sv_calls s c)) k = Some p" "ss_screenOn (sv_heap s p)"
      using firstSharing_Some okc(1) by (fastforce simp: screenSharer_def)
    then have "k = sid'" using inv_callsD(2)[OF inv c] that by (auto simp: one_sharer_alt[OF okc(1)])
    moreover have "k = sid" using okc(4)[OF k(1)] chk Some by (simp add: session_ok_def)
    ultimately show ?thesis by simp
  qed
  have "one_sharer ?h (sv_calls s d)"
    unfolding one_sharer_alt[OF okd(1)]
  proof (intro allI impI)
    fix a p b q
    assume ap: "gm_get (cs_sessions (sv_calls s d)) a = Some p" and bq: "gm_get (cs_sessions (sv_calls s d)) b = Some q"
      and on: "ss_screenOn (?h p)" "ss_screenOn (?h q)"
    show "a = b"
    proof (cases "d = c")
      case True
      have "x = sid" if "gm_get (cs_sessions (sv_calls s c)) x = Some y" "ss_screenOn (?h y)" for x y
        using that only[of x y] session_disjoint[OF inv c c Some, of x] by (cases "y = r") auto
      with True ap bq on show ?thesis by blast
    next
      case False
      then have "p \<noteq> r" "q \<noteq> r" using session_disjoint[OF inv c d Some] ap bq by blast+
      with on ap bq inv_callsD(2)[OF inv d] show ?thesis by (auto simp: one_sharer_alt[OF okd(1)])
    qed
  qed
  with Some show ?thesis by (simp add: mutate_def)
qed

lemma svc_inv_screen_on:
  assumes "svc_inv E s" and "c < sv_nextC s"
    and "case screenSharer (sv_heap s) (sv_calls s c) of None \<Rightarrow> True | Some q \<Rightarrow> ss_sessionID (sv_heap s q) = sid"
  shows "svc_inv E (mutateSession c sid (\<lambda>x. x\<lparr>ss_screenOn := on\<rparr>) s)"
  unfolding mutateSession_def
  using screen_on_one_sharer[OF assms, where on = on] by (intro svc_inv_set_heap[OF assms(1)]) simp_all

end
