(* ===== verification/Calls_Machine.thy ===== *)
theory Calls_Machine
  imports Calls_Invariant
begin

text \<open>
  The call service as a state machine: every entry point of the service is a step, in any order and
  with any arguments, and \<open>svc_inv\<close> is an invariant of every run from a fresh service (the locale
  \<open>step_invariant\<close> is interpreted on it). The properties of the whole service are read off this
  invariant.
\<close>

section \<open>Teardown\<close>

definition leaveCore :: "cref \<Rightarrow> string \<Rightarrow> service \<Rightarrow> service" where
  "leaveCore c sid s =
     (let ((_, lastConnID), cs) = removeSession sid (sv_heap s) (sv_calls s c)
      in s\<lparr>sv_calls := (sv_calls s)(c := cs), sv_index := unlink sid lastConnID (sv_index s)\<rparr>)"

lemma teardownSession_cases [case_names absent stays ends]:
  obtains (absent) "gm_get (cs_sessions (sv_calls s c)) (ss_sessionID (sv_heap s r)) = None"
      "teardownSession E c r s = s"
  | (stays) s' where "gm_get (cs_sessions (sv_calls s c)) (ss_sessionID (sv_heap s r)) \<noteq> None"
      "teardownSession E c r s = s'" "quiet (leaveCore c (ss_sessionID (sv_heap s r)) s) s'"
      "participants (sv_calls s' c) \<noteq> 0"
  | (ends) s' n where "gm_get (cs_sessions (sv_calls s c)) (ss_sessionID (sv_heap s r)) \<noteq> None"
      "teardownSession E c r s = snd (endCallState E c (en_now E n) s')"
      "quiet (leaveCore c (ss_sessionID (sv_heap s r)) s) s'" "participants (sv_calls s' c) = 0"
proof (cases "gm_get (cs_sessions (sv_calls s c)) (ss_sessionID (sv_heap s r))")
  case None
  then show ?thesis using absent by (simp add: teardownSession_def removeSession_def Let_def)
next
  case (Some q)
  define sess where "sess = sv_heap s r"
  obtain conn cs where rm: "removeSession (ss_sessionID sess) (sv_heap s) (sv_calls s c) = ((Some q, conn), cs)"
    using Some removeSession_cases[of "sv_calls s c" "ss_sessionID sess" "sv_heap s"]
    by (metis option.distinct(1) option.inject sess_def)
  define s1 where "s1 = s\<lparr>sv_calls := (sv_calls s)(c := cs), sv_index := unlink (ss_sessionID sess) conn (sv_index s)\<rparr>"
  define s2 where "s2 = snd (sendToHost E c \<lparr>cm_Type = ''leave'', cm_Data = DStrings [(''sessionID'', ss_sessionID sess)]\<rparr> s1)"
  define s3 where "s3 = tick s2"
  define s4 where "s4 = db_EndSession E (ss_callID sess) (ss_sessionID sess) (en_now E (sv_tick s2)) s3"
  define s5 where "s5 = publishChannel (cs_channelID cs) ''user_left''
      [(''user_id'', VStr (ss_userID sess)), (''session_id'', VStr (ss_sessionID sess))] s4"
  have core: "leaveCore c (ss_sessionID sess) s = s1"
    by (simp add: leaveCore_def rm s1_def)
  have "quiet s1 s2" "quiet s2 s3" "quiet s3 s4" "quiet s4 s5"
    by (simp_all add: s2_def s3_def s4_def s5_def)
  then have q5: "quiet s1 s5" using quiet_trans by blast
  have td: "teardownSession E c r s = (if participants (sv_calls s5 c) = 0
      then snd (endCallState E c (en_now E (sv_tick s5)) (tick s5)) else s5)"
    unfolding teardownSession_def Let_def sess_def[symmetric] rm
    by (simp add: split_def GetMillis_def s1_def[symmetric] s2_def[symmetric] s3_def[symmetric] s4_def[symmetric] s5_def[symmetric])
  show ?thesis
  proof (cases "participants (sv_calls s5 c) = 0")
    case True
    with td q5 Some show ?thesis
      using ends[of "sv_tick s5" "tick s5"] core quiet_trans[OF q5 quiet_tick] quietD(4)[OF quiet_tick]
      by (simp add: sess_def)
  next
    case False
    with td q5 Some show ?thesis using stays[of s5] core by (simp add: sess_def)
  qed
qed

lemma one_sharer_subset:
  "one_sharer h cs \<Longrightarrow> set (cs_sessions cs') \<subseteq> set (cs_sessions cs) \<Longrightarrow> one_sharer h cs'"
  unfolding one_sharer_def by blast

lemma svc_inv_leaveCore:
  assumes inv: "svc_inv E s" and c: "c < sv_nextC s"
  shows "svc_inv E (leaveCore c sid s)"
proof (cases rule: removeSession_cases[of "sv_calls s c" sid "sv_heap s"])
  case absent
  have "svc_inv E (s\<lparr>sv_calls := (sv_calls s)(c := sv_calls s c), sv_index := unlink sid '''' (sv_index s)\<rparr>)"
    using inv_callsD[OF inv c] inv_mapsD[OF inv] inv_bySessionD[OF inv] inv_byConnD[OF inv]
    by (intro svc_inv_call[OF inv c])
      (auto simp: unlink_def bySessionID_def byConnID_def split: if_splits)
  then show ?thesis by (simp add: leaveCore_def absent(2))
next
  case (removed q cs)
  have ok: "call_ok (sv_heap s) cs"
    using removeSession_ok[OF inv_callsD(1)[OF inv c], of sid] removed(2) by simp
  have sub: "set (cs_sessions cs) \<subseteq> set (cs_sessions (sv_calls s c))"
    unfolding removed(3) by (rule gm_del_subset)
  have "svc_inv E (s\<lparr>sv_calls := (sv_calls s)(c := cs),
      sv_index := unlink sid (ss_connID (sv_heap s q)) (sv_index s)\<rparr>)"
  proof (rule svc_inv_call[OF inv c])
    show "one_sharer (sv_heap s) cs" by (rule one_sharer_subset[OF inv_callsD(2)[OF inv c] sub])
    show "r < sv_nextS s" if "gm_get (cs_sessions cs) k = Some r" for k r
      using that inv_callsD(3)[OF inv c, of k r] by (simp add: removed(3) split: if_splits)
    show "reg_get (sv_shards s) (cs_callID (sv_calls s d)) = Some d
        \<and> gm_get (cs_sessions (((sv_calls s)(c := cs)) d)) k \<noteq> None"
      if "bySessionID (unlink sid (ss_connID (sv_heap s q)) (sv_index s)) k = Some d" for k d
    proof -
      from that have g: "bySessionID (sv_index s) k = Some d" and ne: "k \<noteq> sid"
        by (auto simp: unlink_def bySessionID_def split: if_splits)
      with inv_bySessionD[OF inv g] show ?thesis by (auto simp: removed(3))
    qed
    show "d < sv_nextC s" if "byConnID (unlink sid (ss_connID (sv_heap s q)) (sv_index s)) k = Some d" for k d
      using that inv_byConnD[OF inv, of k d] by (auto simp: unlink_def byConnID_def split: if_splits)
  qed (use removed ok inv_mapsD[OF inv] in \<open>simp_all add: unlink_def\<close>)
  then show ?thesis by (simp add: leaveCore_def removed(2))
qed

lemma svc_inv_teardown:
  assumes inv: "svc_inv E s" and env: "env_ok E" and c: "c < sv_nextC s"
  shows "svc_inv E (teardownSession E c r s)"
proof (cases rule: teardownSession_cases[of s c r E])
  case absent
  with inv show ?thesis by simp
next
  case (stays s')
  then show ?thesis using svc_inv_quiet[OF svc_inv_leaveCore[OF inv c]] by simp
next
  case (ends s' n)
  have "sv_nextC s' = sv_nextC s"
    using quietD(5)[OF ends(3)] by (simp add: leaveCore_def split_def Let_def)
  moreover have "svc_inv E s'" using ends svc_inv_quiet[OF svc_inv_leaveCore[OF inv c]] by blast
  ultimately show ?thesis
    unfolding ends(2) using svc_inv_endCallState[of E s' c "en_now E n"] c env by (simp add: env_ok_def)
qed

section \<open>Join\<close>

text \<open>A session object that no call holds yet.\<close>

definition unused :: "service \<Rightarrow> sref \<Rightarrow> bool" where
  "unused s r \<longleftrightarrow> r < sv_nextS s
     \<and> (\<forall>c < sv_nextC s. \<forall>sid. gm_get (cs_sessions (sv_calls s c)) sid \<noteq> Some r)"

lemma svc_inv_unused_heap:
  assumes inv: "svc_inv E s" and u: "unused s r"
  shows "svc_inv E (s\<lparr>sv_heap := (sv_heap s)(r := x)\<rparr>)"
proof -
  have "one_sharer ((sv_heap s)(r := x)) (sv_calls s c)" if c: "c < sv_nextC s" for c
  proof -
    have g: "gm_ok (cs_sessions (sv_calls s c))" using call_okD(1)[OF inv_callsD(1)[OF inv c]] .
    have "gm_get (cs_sessions (sv_calls s c)) sid = Some q \<Longrightarrow> q \<noteq> r" for sid q
      using u c by (auto simp: unused_def)
    then show ?thesis using inv_callsD(2)[OF inv c] unfolding one_sharer_alt[OF g] by (metis fun_upd_apply)
  qed
  moreover have "ss_sessionID (((sv_heap s)(r := x)) q) = ss_sessionID (sv_heap s q)
      \<and> ss_callID (((sv_heap s)(r := x)) q) = ss_callID (sv_heap s q)"
    if "c < sv_nextC s" "gm_get (cs_sessions (sv_calls s c)) sid = Some q" for c sid q
    using that u by (auto simp: unused_def)
  ultimately show ?thesis
    using svc_inv_heap[OF inv, of "(sv_heap s)(r := x)" "sv_nextS s"] by simp
qed

lemma svc_inv_alloc:
  assumes inv: "svc_inv E s"
  shows "svc_inv E (s\<lparr>sv_heap := (sv_heap s)(sv_nextS s := x), sv_nextS := Suc (sv_nextS s)\<rparr>)
    \<and> unused (s\<lparr>sv_heap := (sv_heap s)(sv_nextS s := x), sv_nextS := Suc (sv_nextS s)\<rparr>) (sv_nextS s)"
proof -
  have below: "gm_get (cs_sessions (sv_calls s c)) sid \<noteq> Some (sv_nextS s)" if "c < sv_nextC s" for c sid
    using inv_callsD(3)[OF inv that, of sid "sv_nextS s"] by auto
  let ?n = "s\<lparr>sv_nextS := Suc (sv_nextS s)\<rparr>"
  have "svc_inv E ?n"
    using svc_inv_heap[OF inv, of "sv_heap s" "Suc (sv_nextS s)"] inv_callsD(2)[OF inv] by simp
  moreover have "unused ?n (sv_nextS s)" using below by (simp add: unused_def)
  ultimately have i: "svc_inv E (?n\<lparr>sv_heap := (sv_heap ?n)(sv_nextS s := x)\<rparr>)" by (rule svc_inv_unused_heap)
  have eq: "?n\<lparr>sv_heap := (sv_heap ?n)(sv_nextS s := x)\<rparr>
      = s\<lparr>sv_heap := (sv_heap s)(sv_nextS s := x), sv_nextS := Suc (sv_nextS s)\<rparr>"
    by (rule service.equality) simp_all
  show ?thesis by (rule conjI[OF i[unfolded eq]]) (use below in \<open>simp add: unused_def\<close>)
qed

lemma StartCall_live:
  assumes "svc_inv E s" and "env_ok E" and "StartCall E ch owner post s = (Inr res, s1)"
  obtains c where "reg_get (sv_shards s1) (sr_CallID res) = Some c" "ci_get (sv_chan s1) ch = Some c"
    "sv_heap s1 = sv_heap s" "sv_nextS s1 = sv_nextS s" "sv_cfg s1 = sv_cfg s" "sv_index s1 = sv_index s"
    "(c < sv_nextC s \<and> s1 = s \<and> ci_get (sv_chan s) ch = Some c)
     \<or> (c = sv_nextC s \<and> sv_nextC s1 = Suc c \<and> ci_get (sv_chan s) ch = None
        \<and> (\<exists>host t. sv_calls s1 = (sv_calls s)(c := newCallState (sr_CallID res) ch host t)))"
    "\<And>h. h \<noteq> ch \<Longrightarrow> ci_get (sv_chan s1) h = ci_get (sv_chan s) h"
  using assms(1,2)
proof (cases rule: StartCall_cases[where ch = ch and owner = owner and post = post])
  case (refused e s')
  with assms show ?thesis by simp
next
  case (rollback e s' n host t)
  with assms show ?thesis by simp
next
  case (reused c)
  with assms(3) have "res = resultOf (sv_calls s c)" "s1 = s" by auto
  then show ?thesis
    using that[of c] reused(1) inv_chanD[OF assms(1) reused(1)] by (simp add: resultOf_def)
next
  case (started s' n host t now)
  with assms(3) have r: "sr_CallID res = en_newId E n" and s1: "s1 = s'" by auto
  note d = quietD[OF started(4)] and m = inv_mapsD[OF assms(1)]
  show ?thesis
    using that[of "sv_nextC s"] d(2-8) d(1) r s1 started(5)
    by (auto simp: startCore_def newCore_def reg_get_put[OF m(1)] chan.look_put[OF m(2)])
qed

lemma StartCall_unused:
  assumes "svc_inv E s" and "env_ok E" and "unused s r"
  shows "unused (snd (StartCall E ch owner post s)) r
    \<and> sv_heap (snd (StartCall E ch owner post s)) = sv_heap s"
  using assms(1,2)
proof (cases rule: StartCall_cases[where ch = ch and owner = owner and post = post])
  case (refused e s')
  with assms(3) quietD[OF refused(2)] show ?thesis by (simp add: unused_def)
next
  case (reused c)
  with assms(3) show ?thesis by simp
next
  case (rollback e s' n host t)
  with assms(3) quietD[OF rollback(4)] show ?thesis
    by (auto simp: unused_def rollbackCore_def newCore_def less_Suc_eq)
next
  case (started s' n host t now)
  with assms(3) quietD[OF started(4)] show ?thesis
    by (auto simp: unused_def startCore_def newCore_def less_Suc_eq)
qed

lemma one_sharer_add:
  assumes "one_sharer h cs" and "gm_ok (cs_sessions cs)" and "\<not> ss_screenOn (h r)"
    and "cs_sessions cs' = gm_set sid r (cs_sessions cs)"
  shows "one_sharer h cs'"
proof -
  have g: "gm_ok (cs_sessions cs')" using assms(2,4) by simp
  show ?thesis
    using assms(1,3) unfolding one_sharer_alt[OF g] one_sharer_alt[OF assms(2)] assms(4) gm_get_set
    by (auto split: if_splits)
qed

lemma svc_inv_addSession:
  assumes inv: "svc_inv E s" and c: "c < sv_nextC s" and r: "r < sv_nextS s"
    and sess: "ss_sessionID (sv_heap s r) = sid" "sid \<noteq> ''''" "ss_callID (sv_heap s r) = cs_callID (sv_calls s c)"
      "\<not> ss_screenOn (sv_heap s r)"
    and add: "addSession sid r limit (sv_heap s) (sv_calls s c) = (Inr prev, cs)"
  shows "svc_inv E (s\<lparr>sv_calls := (sv_calls s)(c := cs)\<rparr>)"
proof (cases rule: addSession_cases[of sid r limit "sv_heap s" "sv_calls s c"])
  case full
  with add show ?thesis by simp
next
  case (added cs')
  with add have cs: "cs' = cs" by simp
  note a = added[unfolded cs]
  have ok: "call_ok (sv_heap s) cs"
    using addSession_ok[OF inv_callsD(1)[OF inv c] sess(1-3), of limit] add by simp
  have "svc_inv E (s\<lparr>sv_calls := (sv_calls s)(c := cs), sv_index := sv_index s\<rparr>)"
  proof (rule svc_inv_call[OF inv c])
    show "one_sharer (sv_heap s) cs"
      by (rule one_sharer_add[OF inv_callsD(2)[OF inv c] call_okD(1)[OF inv_callsD(1)[OF inv c]] sess(4) a(2)])
    show "q < sv_nextS s" if "gm_get (cs_sessions cs) k = Some q" for k q
      using that inv_callsD(3)[OF inv c, of k q] r by (auto simp: a(2) split: if_splits)
    show "reg_get (sv_shards s) (cs_callID (sv_calls s d)) = Some d
        \<and> gm_get (cs_sessions (((sv_calls s)(c := cs)) d)) k \<noteq> None"
      if "bySessionID (sv_index s) k = Some d" for k d
      using inv_bySessionD[OF inv that] by (auto simp: a(2))
    show "d < sv_nextC s" if "byConnID (sv_index s) k = Some d" for k d
      using inv_byConnD[OF inv that] .
  qed (use a ok inv_mapsD[OF inv] in simp_all)
  then show ?thesis by simp
qed

lemma joinLoop_cases [consumes 5, case_names failed joined]:
  assumes inv: "svc_inv E s" and env: "env_ok E"
    and u: "unused s r" and sess: "ss_sessionID (sv_heap s r) \<noteq> ''''" "\<not> ss_screenOn (sv_heap s r)"
  obtains (failed) e s' where "joinLoop E (Suc n) ch user r limit s = (Inl e, s')" "svc_inv E s'"
      "\<not> errors_is e ErrCallNotFound"
  | (joined) c res s1 h prev cs where "StartCall E ch user '''' s = (Inr res, s1)"
      "reg_get (sv_shards s1) (sr_CallID res) = Some c" "ci_get (sv_chan s1) ch = Some c"
      "h = (sv_heap s)(r := (sv_heap s r)\<lparr>ss_callID := sr_CallID res\<rparr>)"
      "addSession (ss_sessionID (sv_heap s r)) r limit h (sv_calls s1 c) = (Inr prev, cs)"
      "joinLoop E (Suc n) ch user r limit s
         = (Inr (c, sr_CallID res), s1\<lparr>sv_heap := h, sv_calls := (sv_calls s1)(c := cs)\<rparr>)"
      "svc_inv E (s1\<lparr>sv_heap := h, sv_calls := (sv_calls s1)(c := cs)\<rparr>)" "svc_inv E s1"
proof -
  obtain x s1 where st: "StartCall E ch user '''' s = (x, s1)" by (cases "StartCall E ch user '''' s")
  have inv1: "svc_inv E s1" using svc_inv_StartCall[OF inv env, of ch user "''''"] st by simp
  have u1: "unused s1 r" and h1: "sv_heap s1 = sv_heap s"
    using StartCall_unused[OF inv env u, of ch user "''''"] st by simp_all
  show ?thesis
  proof (cases x)
    case (Inl e)
    have "\<not> errors_is e ErrCallNotFound"
      using inv env by (cases rule: StartCall_cases[where ch = ch and owner = user and post = "''''"]) (use st Inl in auto)
    with Inl st inv1 show ?thesis using failed[of e s1] by simp
  next
    case (Inr res)
    obtain c where c: "reg_get (sv_shards s1) (sr_CallID res) = Some c" "ci_get (sv_chan s1) ch = Some c"
      using StartCall_live[OF inv env st[unfolded Inr]] by metis
    define h where "h = (sv_heap s)(r := (sv_heap s r)\<lparr>ss_callID := sr_CallID res\<rparr>)"
    define s2 where "s2 = s1\<lparr>sv_heap := h\<rparr>"
    define sid where "sid = ss_sessionID (sv_heap s r)"
    note D = inv_shardsD[OF inv1 c(1)]
    have inv2: "svc_inv E s2"
      unfolding s2_def h_def using svc_inv_unused_heap[OF inv1 u1] by (simp add: h1)
    have look: "gm_get (shardFor (sv_shards s1) (sr_CallID res)) (sr_CallID res) = Some c"
      using c(1) by (simp add: reg_get_def shard_get_def)
    have sid2: "ss_sessionID (h r) = sid" by (simp add: h_def sid_def)
    have run: "joinLoop E (Suc n) ch user r limit s =
        (case addSession sid r limit h (sv_calls s1 c) of
           (Inl e, _) \<Rightarrow> if errors_is e ErrCallNotFound then joinLoop E n ch user r limit s2 else (Inl e, s2)
         | (Inr prev, cs) \<Rightarrow> (Inr (c, sr_CallID res), s2\<lparr>sv_calls := (sv_calls s1)(c := cs)\<rparr>))"
      using st Inr D(3) look sid2
      by (simp add: addSessionIfLive_def Let_def s2_def h_def h1 split: sum.splits prod.splits)
    show ?thesis
    proof (cases rule: addSession_cases[of sid r limit h "sv_calls s1 c"])
      case full
      then show ?thesis using failed[of ErrMaxParticipants s2] run inv2 by (simp add: errors_is.simps)
    next
      case (added cs)
      have "svc_inv E (s2\<lparr>sv_calls := (sv_calls s2)(c := cs)\<rparr>)"
        using svc_inv_addSession[OF inv2, of c r sid limit] D(1,2) u1 sess added(1) sid2
        by (simp add: s2_def unused_def h_def sid_def)
      then show ?thesis
        using joined[OF st[unfolded Inr] c h_def] added(1) run inv1 by (simp add: s2_def sid_def)
    qed
  qed
qed

text \<open>The index entry of the joiner, and the rest of the join.\<close>

lemma svc_inv_link:
  assumes inv: "svc_inv E s" and c: "reg_get (sv_shards s) (cs_callID (sv_calls s c)) = Some c"
    and sid: "gm_get (cs_sessions (sv_calls s c)) sid \<noteq> None"
  shows "svc_inv E (s\<lparr>sv_index := link sid conn c (sv_index s)\<rparr>)"
proof -
  note D = inv_shardsD[OF inv c]
  have "svc_inv E (s\<lparr>sv_calls := (sv_calls s)(c := sv_calls s c), sv_index := link sid conn c (sv_index s)\<rparr>)"
  proof (rule svc_inv_call[OF inv D(1)])
    show "reg_get (sv_shards s) (cs_callID (sv_calls s d)) = Some d
        \<and> gm_get (cs_sessions (((sv_calls s)(c := sv_calls s c)) d)) k \<noteq> None"
      if "bySessionID (link sid conn c (sv_index s)) k = Some d" for k d
      using that c sid inv_bySessionD[OF inv, of k d]
      by (auto simp: link_def bySessionID_def Let_def split: if_splits)
    show "d < sv_nextC s" if "byConnID (link sid conn c (sv_index s)) k = Some d" for k d
      using that D(1) inv_byConnD[OF inv, of k d]
      by (auto simp: link_def byConnID_def Let_def split: if_splits)
    show "q < sv_nextS s" if "gm_get (cs_sessions (sv_calls s c)) k = Some q" for k q
      using inv_callsD(3)[OF inv D(1) that] .
  qed (use inv_callsD[OF inv D(1)] inv_mapsD[OF inv] in \<open>simp_all add: link_def Let_def\<close>)
  then show ?thesis by simp
qed

lemma joinDone_quiet:
  "quiet (s\<lparr>sv_index := link connID connID c (sv_index s)\<rparr>) (joinDone E connID userID ch now c callID s)"
proof -
  have step: "quiet a b \<Longrightarrow> quiet b d \<Longrightarrow> quiet a d" for a b d by (rule quiet_trans)
  show ?thesis
    unfolding joinDone_def Let_def split_def
    by (rule step[OF _ quiet_output(5)], rule step[OF _ quiet_output(4)], rule step[OF _ quiet_output(3)],
        rule step[OF _ quiet_sendToHost], rule step[OF _ quiet_db(4)], rule quiet_oracle(2)) simp_all
qed

text \<open>A join is refused before anything is registered, or runs the loop on a freshly allocated session.\<close>

definition joinAlloc :: "string \<Rightarrow> string \<Rightarrow> string \<Rightarrow> int \<Rightarrow> service \<Rightarrow> service" where
  "joinAlloc connID user ch now s =
     s\<lparr>sv_heap := (sv_heap s)(sv_nextS s := newSession connID user ch now), sv_nextS := Suc (sv_nextS s)\<rparr>"

lemma joinLoop_3: "joinLoop E 3 = joinLoop E (Suc 2)"
  by (simp only: numeral_3_eq_3 numeral_2_eq_2)

lemma handleJoin_loop [case_names refused loop]:
  obtains (refused) e s' where "handleJoin E connID user d s = (Some e, s')" "quiet s s'"
      "\<not> errors_is e ErrCallNotFound"
  | (loop) s2 now where "quiet s s2" "getString d ''channelID'' \<noteq> ''''"
      "handleJoin E connID user d s =
        (case joinLoop E 3 (getString d ''channelID'') user (sv_nextS s2) (maxParticipants (sv_cfg s))
               (joinAlloc connID user (getString d ''channelID'') now s2) of
           (Inl e, s4) \<Rightarrow> (Some e, s4)
         | (Inr (c, callID), s4) \<Rightarrow>
             (None, joinDone E connID user (getString d ''channelID'') now c callID s4))"
proof -
  define ch where "ch = getString d ''channelID''"
  obtain allowed s1 where al: "callsEnabledForChannel E ch s = (allowed, s1)"
    by (cases "callsEnabledForChannel E ch s")
  have q1: "quiet s s1" using quiet_channels(2)[of s E ch] al by simp
  define limit where "limit = maxParticipants (sv_cfg s1)"
  have lim: "limit = maxParticipants (sv_cfg s)" using quietD(1)[OF q1] by (simp add: limit_def)
  define full where "full = (limit > 0 \<and> (case ci_get (sv_chan s1) ch of None \<Rightarrow> False
      | Some c \<Rightarrow> int (participants (sv_calls s1 c)) \<ge> limit))"
  define now where "now = en_now E (sv_tick s1)"
  define s2 where "s2 = tick s1"
  have q2: "quiet s s2" unfolding s2_def by (rule quiet_trans[OF q1 quiet_tick])
  have run: "handleJoin E connID user d s =
      (if ch = '''' then (Some (ErrMsg ''calls: channelID is required''), s)
       else if \<not> enabled (sv_cfg s) then (Some ErrCallsDisabled, s)
       else if \<not> allowed then (Some ErrChannelCallsDisabled, s1)
       else if \<not> sv_rtcd s1 then (Some (ErrMsg ''calls: rtcd service is not configured''), kickRTCDInit s1)
       else if full then (Some ErrMaxParticipants, s1)
       else case joinLoop E 3 ch user (sv_nextS s2) limit (joinAlloc connID user ch now s2) of
           (Inl e, s4) \<Rightarrow> (Some e, s4)
         | (Inr (c, callID), s4) \<Rightarrow> (None, joinDone E connID user ch now c callID s4))"
    unfolding handleJoin_def ch_def[symmetric] Let_def al GetMillis_def joinAlloc_def full_def
    by (simp add: now_def[symmetric] s2_def[symmetric] limit_def[symmetric] cong: option.case_cong)
  note qk = quiet_trans[OF q1 quiet_channels(5)]
  consider "handleJoin E connID user d s = (Some (ErrMsg ''calls: channelID is required''), s)"
    | "handleJoin E connID user d s = (Some ErrCallsDisabled, s)"
    | "handleJoin E connID user d s = (Some ErrChannelCallsDisabled, s1)"
    | "handleJoin E connID user d s = (Some (ErrMsg ''calls: rtcd service is not configured''), kickRTCDInit s1)"
    | "handleJoin E connID user d s = (Some ErrMaxParticipants, s1)"
    | (go) "ch \<noteq> ''''" "handleJoin E connID user d s =
        (case joinLoop E 3 ch user (sv_nextS s2) limit (joinAlloc connID user ch now s2) of
           (Inl e, s4) \<Rightarrow> (Some e, s4)
         | (Inr (c, callID), s4) \<Rightarrow> (None, joinDone E connID user ch now c callID s4))"
    unfolding run by (cases "ch = ''''"; cases "enabled (sv_cfg s)"; cases allowed; cases "sv_rtcd s1"; cases full) simp_all
  then show ?thesis
  proof cases
    case go
    then show ?thesis using loop[OF q2, of now, folded ch_def, folded lim] by blast
  qed (use refused[of _ s] refused[of _ s1] refused[of _ "kickRTCDInit s1"] q1 qk in \<open>simp_all add: errors_is.simps\<close>)
qed

lemma handleJoin_cases [consumes 3, case_names refused failed joined]:
  assumes inv: "svc_inv E s" and env: "env_ok E" and conn: "connID \<noteq> ''''"
  obtains (refused) e s' where "handleJoin E connID user d s = (Some e, s')" "quiet s s'"
      "\<not> errors_is e ErrCallNotFound"
  | (failed) e s' s2 now where "handleJoin E connID user d s = (Some e, s')" "svc_inv E s'"
      "\<not> errors_is e ErrCallNotFound" "quiet s s2"
      "joinLoop E (Suc 2) (getString d ''channelID'') user (sv_nextS s2) (maxParticipants (sv_cfg s))
         (joinAlloc connID user (getString d ''channelID'') now s2) = (Inl e, s')"
  | (joined) s2 now c res s1 h prev cs s' where "quiet s s2"
      "StartCall E (getString d ''channelID'') user ''''
         (joinAlloc connID user (getString d ''channelID'') now s2) = (Inr res, s1)"
      "svc_inv E (joinAlloc connID user (getString d ''channelID'') now s2)"
      "reg_get (sv_shards s1) (sr_CallID res) = Some c" "ci_get (sv_chan s1) (getString d ''channelID'') = Some c"
      "h = (sv_heap s2)(sv_nextS s2 :=
              (newSession connID user (getString d ''channelID'') now)\<lparr>ss_callID := sr_CallID res\<rparr>)"
      "addSession connID (sv_nextS s2) (maxParticipants (sv_cfg s)) h (sv_calls s1 c) = (Inr prev, cs)"
      "handleJoin E connID user d s = (None, s')" "svc_inv E s'" "svc_inv E s1"
      "quiet (s1\<lparr>sv_heap := h, sv_calls := (sv_calls s1)(c := cs), sv_index := link connID connID c (sv_index s1)\<rparr>) s'"
proof (cases rule: handleJoin_loop[of E connID user d s])
  case (refused e s')
  then show ?thesis by (rule that(1))
next
  case (loop s2 now)
  define ch where "ch = getString d ''channelID''"
  define s3 where "s3 = joinAlloc connID user ch now s2"
  note run = loop(3)[folded ch_def, folded s3_def, unfolded joinLoop_3]
  have inv3: "svc_inv E s3" and u3: "unused s3 (sv_nextS s2)"
    using svc_inv_alloc[OF svc_inv_quiet[OF inv loop(1)]] by (simp_all add: s3_def joinAlloc_def)
  have sess3: "ss_sessionID (sv_heap s3 (sv_nextS s2)) \<noteq> ''''" "\<not> ss_screenOn (sv_heap s3 (sv_nextS s2))"
    and sid: "ss_sessionID (sv_heap s3 (sv_nextS s2)) = connID"
    using conn by (simp_all add: s3_def joinAlloc_def newSession_def)
  note failed' = that(2) and joined' = that(3)
  from inv3 env u3 sess3 show ?thesis
  proof (cases rule: joinLoop_cases[where n = 2 and ch = ch and user = user and limit = "maxParticipants (sv_cfg s)"])
    case (failed e s')
    then show ?thesis
      using failed'[of e s' s2 now] loop(1) run by (simp add: ch_def s3_def)
  next
    case (joined c res s1 h prev cs)
    let ?s4 = "s1\<lparr>sv_heap := h, sv_calls := (sv_calls s1)(c := cs)\<rparr>"
    let ?s' = "joinDone E connID user ch now c (sr_CallID res) ?s4"
    have cs: "cs_callID cs = sr_CallID res \<and> gm_get (cs_sessions cs) connID = Some (sv_nextS s2)"
    proof (cases rule: addSession_cases[of connID "sv_nextS s2" "maxParticipants (sv_cfg s)" h "sv_calls s1 c"])
      case full
      with joined(5) sid show ?thesis by simp
    next
      case (added cs')
      with joined(5) sid inv_shardsD(2)[OF joined(8) joined(2)] show ?thesis by simp
    qed
    have "svc_inv E (?s4\<lparr>sv_index := link connID connID c (sv_index ?s4)\<rparr>)"
      by (rule svc_inv_link[OF joined(7)]) (use joined(2) cs in simp_all)
    then have "svc_inv E ?s'" by (rule svc_inv_quiet[OF _ joinDone_quiet])
    then show ?thesis
      using joined'[of s2 now res s1 c h prev cs ?s'] loop(1) run inv3 joined sid
        joinDone_quiet[where s = ?s4 and connID = connID and c = c]
      by (simp add: s3_def ch_def joinAlloc_def newSession_def)
  qed
qed

lemma svc_inv_handleJoin:
  assumes "svc_inv E s" and "env_ok E" and "connID \<noteq> ''''"
  shows "svc_inv E (snd (handleJoin E connID user d s))"
  using assms
proof (cases rule: handleJoin_cases[where user = user and d = d])
  case (refused e s')
  then show ?thesis using svc_inv_quiet[OF assms(1)] by simp
qed simp_all

section \<open>Reconnect and presence\<close>

lemma handleReconnect_cases [case_names refused moved]:
  obtains (refused) e where "handleReconnect E connID user d s = (Some e, s)"
  | (moved) c r h cs s' where
      "ci_get (sv_chan s) (getString d ''channelID'') = Some c"
      "gm_get (cs_sessions (sv_calls s c)) (getString d ''originalConnID'') = Some r"
      "ss_userID (sv_heap s r) = user"
      "setConn (ss_sessionID (sv_heap s r)) connID (sv_heap s) (sv_calls s c) = (True, h, cs)"
      "handleReconnect E connID user d s = (None, s')"
      "quiet (s\<lparr>sv_heap := h, sv_calls := (sv_calls s)(c := cs),
                sv_index := repoint (ss_sessionID (sv_heap s r)) (getString d ''originalConnID'') connID c (sv_index s)\<rparr>) s'"
proof -
  define ch where "ch = getString d ''channelID''"
  define orig where "orig = getString d ''originalConnID''"
  note unf = handleReconnect_def ch_def[symmetric] orig_def[symmetric] Let_def
  consider (e1) "ch = '''' \<or> orig = ''''" | (e2) "\<not> (ch = '''' \<or> orig = '''')" "ci_get (sv_chan s) ch = None"
    | (e3) c where "\<not> (ch = '''' \<or> orig = '''')" "ci_get (sv_chan s) ch = Some c" "cs_get orig (sv_calls s c) = None"
    | (e4) c r where "\<not> (ch = '''' \<or> orig = '''')" "ci_get (sv_chan s) ch = Some c" "cs_get orig (sv_calls s c) = Some r"
        "ss_userID (sv_heap s r) \<noteq> user"
    | (go) c r ok h cs where "\<not> (ch = '''' \<or> orig = '''')" "ci_get (sv_chan s) ch = Some c" "cs_get orig (sv_calls s c) = Some r"
        "ss_userID (sv_heap s r) = user"
        "setConn (ss_sessionID (sv_heap s r)) connID (sv_heap s) (sv_calls s c) = (ok, h, cs)"
    by (metis not_Some_eq prod_cases3)
  then show ?thesis
  proof cases
    case e1
    then show ?thesis using refused by (simp add: unf)
  next
    case e2
    then show ?thesis using refused by (simp add: unf)
  next
    case e3
    then show ?thesis using refused by (simp add: unf)
  next
    case e4
    then show ?thesis using refused by (simp add: unf)
  next
    case go
    show ?thesis
    proof (cases ok)
      case False
      with go show ?thesis using refused by (simp add: unf)
    next
      case True
      let ?s1 = "s\<lparr>sv_heap := h, sv_calls := (sv_calls s)(c := cs),
          sv_index := repoint (ss_sessionID (sv_heap s r)) orig connID c (sv_index s)\<rparr>"
      let ?s2 = "snd (sendToHost E c \<lparr>cm_Type = ''reconnect'', cm_Data = DStrings [(''sessionID'', orig)]\<rparr> ?s1)"
      have "handleReconnect E connID user d s = (None, sendCallState c connID ?s2)"
        using go True by (simp add: unf split_def)
      moreover have "quiet ?s1 (sendCallState c connID ?s2)" by (rule quiet_trans[OF quiet_sendToHost quiet_output(5)])
      ultimately show ?thesis
        using moved[of c r h cs "sendCallState c connID ?s2"] go True
        by (simp add: ch_def orig_def cs_get_def)
    qed
  qed
qed

lemma setConn_heap:
  assumes "setConn sid conn h cs = (b, h', cs')"
  shows "ss_sessionID (h' r) = ss_sessionID (h r) \<and> ss_callID (h' r) = ss_callID (h r)
    \<and> ss_screenOn (h' r) = ss_screenOn (h r) \<and> ss_userID (h' r) = ss_userID (h r)"
proof (cases rule: setConn_cases[of cs sid conn h])
  case absent
  with assms show ?thesis by simp
next
  case (moved q cs'')
  with assms have "h' = h(q := (h q)\<lparr>ss_connID := conn\<rparr>)" by simp
  then show ?thesis by simp
qed

lemma svc_inv_handleReconnect:
  assumes inv: "svc_inv E s"
  shows "svc_inv E (snd (handleReconnect E connID user d s))"
proof (cases rule: handleReconnect_cases[of E connID user d s])
  case (refused e)
  with inv show ?thesis by simp
next
  case (moved c r h cs s')
  note D = inv_chanD[OF inv moved(1)]
  note hp = setConn_heap[OF moved(4)]
  define orig where "orig = getString d ''originalConnID''"
  have key: "ss_sessionID (sv_heap s r) = orig"
    using call_okD(4)[OF inv_callsD(1)[OF inv D(1)] moved(2)] by (simp add: session_ok_def orig_def)
  define i where "i = repoint (ss_sessionID (sv_heap s r)) orig connID c (sv_index s)"
  have scr: "one_sharer h (sv_calls s e)" if "e < sv_nextC s" for e
    using inv_callsD(2)[OF inv that] hp unfolding one_sharer_def by fastforce
  have inv1: "svc_inv E (s\<lparr>sv_heap := h\<rparr>)"
    by (rule svc_inv_set_heap[OF inv]) (use hp scr in auto)
  have same: "cs_sessions cs = cs_sessions (sv_calls s c)" "cs_callID cs = cs_callID (sv_calls s c)"
    "cs_channelID cs = cs_channelID (sv_calls s c)" "cs_endAt cs = cs_endAt (sv_calls s c)"
    using moved(4) by (cases rule: setConn_cases[of "sv_calls s c" orig connID "sv_heap s"]; simp add: key)+
  have "svc_inv E ((s\<lparr>sv_heap := h\<rparr>)\<lparr>sv_calls := (sv_calls (s\<lparr>sv_heap := h\<rparr>))(c := cs), sv_index := i\<rparr>)"
  proof (rule svc_inv_call[OF inv1])
    show "call_ok (sv_heap (s\<lparr>sv_heap := h\<rparr>)) cs"
      using setConn_ok[OF inv_callsD(1)[OF inv D(1)] moved(4)] by simp
    show "one_sharer (sv_heap (s\<lparr>sv_heap := h\<rparr>)) cs"
      using scr[OF D(1)] same(1) by (simp add: one_sharer_def)
    show "q < sv_nextS (s\<lparr>sv_heap := h\<rparr>)" if "gm_get (cs_sessions cs) k = Some q" for k q
      using that inv_callsD(3)[OF inv D(1), of k q] by (simp add: same(1))
    show "reg_get (sv_shards (s\<lparr>sv_heap := h\<rparr>)) (cs_callID (sv_calls (s\<lparr>sv_heap := h\<rparr>) e)) = Some e
        \<and> gm_get (cs_sessions (((sv_calls (s\<lparr>sv_heap := h\<rparr>))(c := cs)) e)) k \<noteq> None"
      if "bySessionID i k = Some e" for k e
      using that D(4) moved(2) key inv_bySessionD[OF inv, of k e]
      by (auto simp: i_def repoint_def bySessionID_def Let_def same(1) orig_def split: if_splits)
    show "e < sv_nextC (s\<lparr>sv_heap := h\<rparr>)" if "byConnID i k = Some e" for k e
      using that D(1) inv_byConnD[OF inv, of k e]
      by (auto simp: i_def repoint_def byConnID_def Let_def split: if_splits)
  qed (use D(1) same inv_mapsD[OF inv] in \<open>simp_all add: i_def repoint_def Let_def\<close>)
  then show ?thesis
    using svc_inv_quiet[OF _ moved(6)] moved(5) by (simp add: i_def orig_def)
qed

lemma sessionByConn_lt:
  assumes "svc_inv E s" and "sessionByConn connID s = Some (r, c)"
  shows "c < sv_nextC s"
  using assms inv_byConnD[OF assms(1), of connID] by (auto simp: sessionByConn_def split: option.splits)

lemma svc_inv_publishChannel:
  assumes "svc_inv E s"
  shows "e \<noteq> ''call_end'' \<Longrightarrow> svc_inv E (publishChannel ch e d s)"
    and "e \<noteq> ''call_end'' \<Longrightarrow> svc_inv E (publishTo e d conn s)"
    and "svc_inv E (sendError conn er s)" and "svc_inv E (snd (sendToHost E c m s))"
    and "svc_inv E (snd (GetMillis E s))" and "svc_inv E (sendCallState c conn s)"
  using svc_inv_quiet[OF assms] by simp_all

lemma svc_inv_handleRTCRelay:
  "svc_inv E s \<Longrightarrow> svc_inv E (snd (handleRTCRelay E connID user ty d s))"
  by (auto simp: handleRTCRelay_def svc_inv_publishChannel split: option.splits prod.splits)

lemma svc_inv_handleMuteToggle:
  assumes "svc_inv E s"
  shows "svc_inv E (snd (handleMuteToggle E connID user b s))"
proof -
  have "svc_inv E s1" if "sendToHost E c m s = (x, s1)" for c m x s1
    using svc_inv_publishChannel(4)[OF assms, of c m] that by simp
  then show ?thesis
    using assms by (auto simp: handleMuteToggle_def Let_def intro!: svc_inv_publishChannel svc_inv_mutate
        split: option.splits prod.splits)
qed

lemma svc_inv_handleVideoToggle:
  assumes "svc_inv E s"
  shows "svc_inv E (snd (handleVideoToggle E connID user b d s))"
proof -
  have "svc_inv E s1" if "sendToHost E c m s = (x, s1)" for c m x s1
    using svc_inv_publishChannel(4)[OF assms, of c m] that by simp
  then show ?thesis
    using assms by (auto simp: handleVideoToggle_def Let_def intro!: svc_inv_publishChannel svc_inv_mutate
        split: option.splits prod.splits)
qed

lemma svc_inv_handleRaiseHand:
  assumes "svc_inv E s"
  shows "svc_inv E (snd (handleRaiseHand E connID user b s))"
proof -
  have "svc_inv E (snd (if b then GetMillis E s else (0, s)))"
    using assms svc_inv_publishChannel(5)[OF assms] by simp
  then show ?thesis
    using assms unfolding handleRaiseHand_def Let_def split_def
    by (auto intro!: svc_inv_publishChannel svc_inv_mutate split: option.splits prod.splits)
qed

lemma svc_inv_handleReact:
  "svc_inv E s \<Longrightarrow> svc_inv E (snd (handleReact E connID user d s))"
  unfolding handleReact_def Let_def split_def
  by (auto intro!: svc_inv_publishChannel split: option.splits prod.splits)

lemma svc_inv_handleCallStateRequest:
  "svc_inv E s \<Longrightarrow> svc_inv E (snd (handleCallStateRequest connID user d s))"
  unfolding handleCallStateRequest_def Let_def
  by (auto intro!: svc_inv_publishChannel split: option.splits)

lemma svc_inv_handleScreenToggle:
  assumes inv: "svc_inv E s"
  shows "svc_inv E (snd (handleScreenToggle E connID user on d s))"
proof (cases "(on \<and> \<not> allowScreenSharing (sv_cfg s)) \<or> sessionByConn connID s = None")
  case True
  with inv show ?thesis by (auto simp: handleScreenToggle_def)
next
  case False
  then obtain r c where f: "sessionByConn connID s = Some (r, c)" by auto
  define sid where "sid = ss_sessionID (sv_heap s r)"
  define busy where "busy = (on \<and> (case screenSharer (sv_heap s) (sv_calls s c) of None \<Rightarrow> False
      | Some q \<Rightarrow> ss_sessionID (sv_heap s q) \<noteq> sid))"
  define msg where "msg = rtcEnvelope sid (cs_callID (sv_calls s c)) user
      (if on then ScreenOnMessage else ScreenOffMessage) (if on then rtcPayload d else NoBytes)"
  obtain x s1 where x: "sendToHost E c msg s = (x, s1)" by (cases "sendToHost E c msg s")
  have q: "quiet s s1" using quiet_sendToHost[of s E c msg] x by simp
  have inv1: "svc_inv E s1" by (rule svc_inv_quiet[OF inv q])
  note d' = quietD[OF q]
  have c: "c < sv_nextC s1" using sessionByConn_lt[OF inv f] d' by simp
  have run: "handleScreenToggle E connID user on d s =
      (if busy then (Some (ErrMsg ''calls: someone else is already sharing their screen''), s)
       else case x of Some e \<Rightarrow> (Some e, s1)
            | None \<Rightarrow> (None, publishChannel (cs_channelID (sv_calls s1 c))
                (if on then ''user_screen_on'' else ''user_screen_off'')
                [(''userID'', VStr user), (''session_id'', VStr sid)]
                (mutateSession c sid (\<lambda>x. x\<lparr>ss_screenOn := on\<rparr>) s1)))"
    using False f x
    unfolding handleScreenToggle_def Let_def busy_def msg_def sid_def by (simp split: option.split)
  have "svc_inv E (mutateSession c sid (\<lambda>x. x\<lparr>ss_screenOn := on\<rparr>) s1)" if "\<not> busy"
  proof (cases on)
    case True
    with that have "case screenSharer (sv_heap s1) (sv_calls s1 c) of None \<Rightarrow> True
        | Some q \<Rightarrow> ss_sessionID (sv_heap s1 q) = sid"
      using d' by (simp add: busy_def split: option.splits)
    then show ?thesis by (rule svc_inv_screen_on[OF inv1 c])
  next
    case False
    then show ?thesis by (intro svc_inv_mutate[OF inv1]) simp_all
  qed
  then show ?thesis
    unfolding run using inv inv1 by (auto intro!: svc_inv_publishChannel split: option.split)
qed

section \<open>Every entry point keeps the invariant\<close>

lemma svc_inv_handleLeave:
  assumes "svc_inv E s" and "env_ok E"
  shows "svc_inv E (snd (handleLeave E connID user d s))"
  using assms svc_inv_teardown[OF assms] inv_chanD(1)[OF assms(1)]
  by (auto simp: handleLeave_def Let_def split: option.splits)

lemma svc_inv_dispatch:
  assumes "svc_inv E s" and "env_ok E" and "connID \<noteq> ''''"
  shows "svc_inv E (snd (dispatch E connID user action d s))"
  using assms
  by (simp add: dispatch_def svc_inv_handleJoin svc_inv_handleLeave svc_inv_handleReconnect
      svc_inv_handleRTCRelay svc_inv_handleMuteToggle svc_inv_handleScreenToggle svc_inv_handleVideoToggle
      svc_inv_handleRaiseHand svc_inv_handleReact svc_inv_handleCallStateRequest)

lemma svc_inv_HandleClientMessage:
  assumes "svc_inv E s" and "env_ok E"
  shows "svc_inv E (HandleClientMessage E connID user action d s)"
proof -
  have "svc_inv E s1" if "connID \<noteq> ''''" "dispatch E connID user action d s = (x, s1)" for x s1
    using svc_inv_dispatch[OF assms that(1), of user action d] that(2) by simp
  then show ?thesis
    using assms(1) by (auto simp: HandleClientMessage_def intro!: svc_inv_publishChannel
        split: prod.splits option.splits)
qed

lemma svc_inv_flag:
  assumes "svc_inv E s" and "f = (\<lambda>x. x\<lparr>ss_rtcClosed := v\<rparr>) \<or> f = (\<lambda>x. x\<lparr>ss_removed := v\<rparr>)"
  shows "svc_inv E (s\<lparr>sv_heap := (sv_heap s)(r := f (sv_heap s r))\<rparr>)"
proof -
  have "ss_screenOn (((sv_heap s)(r := f (sv_heap s r))) q) = ss_screenOn (sv_heap s q)" for q
    using assms(2) by auto
  then have "one_sharer ((sv_heap s)(r := f (sv_heap s r))) (sv_calls s c)" if "c < sv_nextC s" for c
    using inv_callsD(2)[OF assms(1) that] unfolding one_sharer_def by simp
  then show ?thesis
    using assms by (intro svc_inv_set_heap) auto
qed

lemma svc_inv_handleRTCDMessage:
  assumes inv: "svc_inv E s" and env: "env_ok E"
  shows "svc_inv E (handleRTCDMessage E msg s)"
proof -
  have relay: "svc_inv E (relayRTCMessage m s)" for m
    using inv by (auto simp: relayRTCMessage_def Let_def intro!: svc_inv_publishChannel svc_inv_mutate
        split: option.splits bytes.splits)
  have "svc_inv E (let (won, h) = markRTCclosed r (sv_heap s); s1 = s\<lparr>sv_heap := h\<rparr>
      in if won then teardownSession E c r s1 else s1)" if "bySessionID (sv_index s) sid = Some c" for sid c r
  proof -
    have "svc_inv E (s\<lparr>sv_heap := snd (markRTCclosed r (sv_heap s))\<rparr>)"
      using svc_inv_flag[OF inv, of "\<lambda>x. x\<lparr>ss_rtcClosed := v\<rparr>" v r for v]
      by (auto simp: markRTCclosed_def split_def Let_def)
    then show ?thesis
      using svc_inv_teardown[OF _ env] inv_bySessionD(1)[OF inv that] by (simp add: split_def Let_def)
  qed
  with relay inv show ?thesis
    by (auto simp: handleRTCDMessage_def Let_def split: option.splits clientData.splits)
qed

lemma callForHostActionD:
  assumes "svc_inv E s" and "callForHostAction callID user s = Inr c"
  shows "c < sv_nextC s" "reg_get (sv_shards s) callID = Some c"
    "hostUserID (sv_heap s) (sv_calls s c) = user"
proof -
  show g: "reg_get (sv_shards s) callID = Some c" and "hostUserID (sv_heap s) (sv_calls s c) = user"
    using assms(2) by (auto simp: callForHostAction_def split: option.splits if_splits)
  show "c < sv_nextC s" by (rule inv_shardsD(1)[OF assms(1) g])
qed

lemma svc_inv_MakeHost:
  assumes inv: "svc_inv E s"
  shows "svc_inv E (snd (MakeHost callID user new s))"
proof (cases "callForHostAction callID user s")
  case (Inl e)
  with inv show ?thesis by (simp add: MakeHost_def)
next
  case (Inr c)
  note c = callForHostActionD(1)[OF inv Inr]
  obtain ok cs where so: "setHostByUser new (sv_heap s) (sv_calls s c) = (ok, cs)"
    by (cases "setHostByUser new (sv_heap s) (sv_calls s c)")
  have same: "cs_sessions cs = cs_sessions (sv_calls s c)" "cs_callID cs = cs_callID (sv_calls s c)"
    "cs_channelID cs = cs_channelID (sv_calls s c)" "cs_endAt cs = cs_endAt (sv_calls s c)"
    using so by (auto simp: setHostByUser_def split: option.splits)
  have "svc_inv E (s\<lparr>sv_calls := (sv_calls s)(c := cs), sv_index := sv_index s\<rparr>)"
  proof (rule svc_inv_call[OF inv c])
    show "call_ok (sv_heap s) cs" using setHostByUser_ok[OF inv_callsD(1)[OF inv c], of new] so by simp
    show "one_sharer (sv_heap s) cs" using inv_callsD(2)[OF inv c] same(1) by (simp add: one_sharer_def)
    show "r < sv_nextS s" if "gm_get (cs_sessions cs) k = Some r" for k r
      using that inv_callsD(3)[OF inv c, of k r] by (simp add: same(1))
    show "reg_get (sv_shards s) (cs_callID (sv_calls s e)) = Some e
        \<and> gm_get (cs_sessions (((sv_calls s)(c := cs)) e)) k \<noteq> None" if "bySessionID (sv_index s) k = Some e" for k e
      using inv_bySessionD[OF inv that] by (auto simp: same(1))
    show "e < sv_nextC s" if "byConnID (sv_index s) k = Some e" for k e using inv_byConnD[OF inv that] .
  qed (use same inv_mapsD[OF inv] in simp_all)
  then have "svc_inv E (s\<lparr>sv_calls := (sv_calls s)(c := cs)\<rparr>)" by simp
  then show ?thesis
    using inv Inr so by (simp add: MakeHost_def svc_inv_publishChannel)
qed

lemma svc_inv_muteOne:
  assumes "svc_inv E s"
  shows "svc_inv E (snd (muteOne E c sid s))"
proof -
  have "svc_inv E s1" if "sendToHost E c m s = (x, s1)" for m x s1
    using svc_inv_publishChannel(4)[OF assms, of c m] that by simp
  then show ?thesis
    using assms by (auto simp: muteOne_def Let_def intro!: svc_inv_publishChannel svc_inv_mutate
        split: option.splits prod.splits)
qed

lemma svc_inv_muteViews: "svc_inv E s \<Longrightarrow> svc_inv E (fold (muteView E c user) vs s)"
  by (induction vs arbitrary: s) (auto simp: muteView_def svc_inv_muteOne)

lemma svc_inv_hostControls:
  assumes inv: "svc_inv E s" and env: "env_ok E"
  shows "svc_inv E (snd (MuteSession E callID user sid s))" and "svc_inv E (snd (MuteOthers E callID user s))"
    and "svc_inv E (snd (ScreenOff E callID user sid s))" and "svc_inv E (snd (LowerHand callID user sid s))"
    and "svc_inv E (snd (RemoveSession E callID user sid s))"
proof -
  have snt: "svc_inv E s1" if "sendToHost E c m s = (x, s1)" for c m x s1
    using svc_inv_publishChannel(4)[OF inv, of c m] that by simp
  show "svc_inv E (snd (MuteSession E callID user sid s))"
    using inv by (simp add: MuteSession_def svc_inv_muteOne split: sum.split)
  show "svc_inv E (snd (MuteOthers E callID user s))"
    using inv by (simp add: MuteOthers_def svc_inv_muteViews split: sum.split)
  show "svc_inv E (snd (ScreenOff E callID user sid s))"
    using inv snt by (auto simp: ScreenOff_def Let_def intro!: svc_inv_publishChannel svc_inv_mutate
        split: sum.split option.split prod.split)
  show "svc_inv E (snd (LowerHand callID user sid s))"
    using inv by (auto simp: LowerHand_def Let_def intro!: svc_inv_publishChannel svc_inv_mutate
        split: sum.split option.split prod.split)
  have rm: "svc_inv E (s\<lparr>sv_heap := snd (markRemoved r (sv_heap s))\<rparr>)" for r
    using svc_inv_flag[OF inv, of "\<lambda>x. x\<lparr>ss_removed := v\<rparr>" v r for v]
    by (auto simp: markRemoved_def split_def Let_def)
  show "svc_inv E (snd (RemoveSession E callID user sid s))"
  proof (cases "callForHostAction callID user s")
    case (Inl e)
    with inv show ?thesis by (simp add: RemoveSession_def)
  next
    case (Inr c)
    have td: "svc_inv E (teardownSession E c r t)"
      if "quiet (s\<lparr>sv_heap := snd (markRemoved r (sv_heap s))\<rparr>) t" for r t
      using svc_inv_teardown[OF svc_inv_quiet[OF rm that] env] callForHostActionD(1)[OF inv Inr]
        quietD(5)[OF that] by simp
    show ?thesis
      using Inr inv rm unfolding RemoveSession_def Let_def split_def
      by (auto split: option.split intro!: td quiet_trans[OF quiet_output(3) quiet_output(4)])
  qed
qed

lemma svc_inv_EndCall:
  assumes inv: "svc_inv E s" and env: "env_ok E"
  shows "svc_inv E (snd (EndCall E callID s))"
proof (cases "reg_get (sv_shards s) callID")
  case None
  with inv show ?thesis by (simp add: EndCall_def)
next
  case (Some c)
  have "svc_inv E (tick s)" by (rule svc_inv_quiet[OF inv quiet_tick])
  then show ?thesis
    using Some svc_inv_endCallState[of E "tick s" c] inv_shardsD(1)[OF inv Some] env
    by (simp add: EndCall_def GetMillis_def env_ok_def tick_def)
qed

lemma svc_inv_timers:
  assumes "svc_inv E s" and "\<forall>(c, conn, r) \<in> set ts. c < sv_nextC s"
  shows "svc_inv E (s\<lparr>sv_timers := ts\<rparr>)"
  using svc_invD[OF assms(1)] assms(2)
  by (simp add: inv_defs)

lemma svc_inv_watchdogs:
  assumes inv: "svc_inv E s" and env: "env_ok E"
  shows "svc_inv E (HandleWSDisconnect connID user s)" and "svc_inv E (fireTimer E i s)"
proof -
  have ts: "\<forall>(c, conn, r) \<in> set (sv_timers s). c < sv_nextC s"
    using svc_invD(6)[OF inv] by (simp add: inv_index_def)
  show "svc_inv E (HandleWSDisconnect connID user s)"
    using inv ts inv_byConnD[OF inv]
    by (auto simp: HandleWSDisconnect_def split: option.split intro!: svc_inv_timers)
  show "svc_inv E (fireTimer E i s)"
  proof (cases "i < length (sv_timers s)")
    case False
    with inv show ?thesis by (simp add: fireTimer_def)
  next
    case True
    obtain c conn r where t: "sv_timers s ! i = (c, conn, r)" by (cases "sv_timers s ! i")
    have c: "c < sv_nextC s" using ts nth_mem[OF True] t by auto
    have "svc_inv E (s\<lparr>sv_timers := take i (sv_timers s) @ drop (Suc i) (sv_timers s)\<rparr>)"
      using ts by (intro svc_inv_timers[OF inv]) (auto dest: in_set_takeD in_set_dropD)
    then show ?thesis
      using True t c svc_inv_teardown[OF _ env] by (simp add: fireTimer_def disconnectTimeout_def)
  qed
qed

lemma reapOne_nextC: "sv_nextC (reapOne E c s) = sv_nextC s"
proof (cases "ended (sv_calls s c) \<or> participants (sv_calls s c) > 0")
  case True
  then show ?thesis by (auto simp: reapOne_def)
next
  case False
  then have ne: "\<not> ended (sv_calls (tick s) c)" by (simp add: tick_def)
  from False show ?thesis
    using endCallState_quiet[OF ne, of E "en_now E (sv_tick s)"]
    by (auto dest!: quietD(5) simp: reapOne_def GetMillis_def endCore_def Let_def tick_def)
qed

lemma svc_inv_reapOne:
  assumes "svc_inv E s" and "env_ok E" and "c < sv_nextC s"
  shows "svc_inv E (reapOne E c s)"
  using assms svc_inv_endCallState[OF svc_inv_quiet[OF assms(1) quiet_tick], of c]
  by (auto simp: reapOne_def GetMillis_def env_ok_def tick_def)

lemma svc_inv_reapAll:
  assumes "env_ok E"
  shows "svc_inv E s \<Longrightarrow> \<forall>c \<in> set cs. c < sv_nextC s \<Longrightarrow> svc_inv E (fold (reapOne E) cs s)"
  by (induction cs arbitrary: s) (simp_all add: svc_inv_reapOne[OF _ assms] reapOne_nextC)

lemma svc_inv_reap:
  assumes "svc_inv E s" and "env_ok E"
  shows "svc_inv E (reapIdleCalls E s)"
  unfolding reapIdleCalls_def
  using reg_all_iff[OF inv_mapsD(1)[OF assms(1)]] inv_shardsD(1)[OF assms(1)]
  by (intro svc_inv_reapAll[OF assms(2,1)]) blast

section \<open>The machine\<close>

text \<open>
  One rule per entry point: the websocket messages, the SFU messages, the REST operations, the
  watchdogs, the life cycle of the service, a change of the configuration, and the re-ordering of a
  session map, which stands for Go's arbitrary iteration order.
\<close>

inductive svc_step :: "env \<Rightarrow> service \<Rightarrow> service \<Rightarrow> bool" for E where
  client: "svc_step E s (HandleClientMessage E connID user action d s)"
| sfu: "svc_step E s (handleRTCDMessage E msg s)"
| startCall: "svc_step E s (snd (StartCall E ch owner post s))"
| endCall: "svc_step E s (snd (EndCall E callID s))"
| makeHost: "svc_step E s (snd (MakeHost callID user new s))"
| mute: "svc_step E s (snd (MuteSession E callID user sid s))"
| muteOthers: "svc_step E s (snd (MuteOthers E callID user s))"
| screenOff: "svc_step E s (snd (ScreenOff E callID user sid s))"
| lowerHand: "svc_step E s (snd (LowerHand callID user sid s))"
| remove: "svc_step E s (snd (RemoveSession E callID user sid s))"
| endByHost: "svc_step E s (snd (EndCallByHost E callID user s))"
| setChannel: "svc_step E s (snd (SetCallsChannelEnabled E ch en user s))"
| dismiss: "svc_step E s (snd (DismissNotification ch user s))"
| disconnect: "svc_step E s (HandleWSDisconnect connID user s)"
| timer: "svc_step E s (fireTimer E i s)"
| reap: "sv_reaper s \<Longrightarrow> svc_step E s (reapIdleCalls E s)"
| start: "svc_step E s (Start s)"
| stop: "svc_step E s (Stop s)"
| rtcdUp: "svc_step E s (rtcdInitDone kicked s)"
| rtcdDown: "svc_step E s (rtcdInitGaveUp kicked s)"
| configure: "svc_step E s (s\<lparr>sv_cfg := cfg\<rparr>)"
| reorder: "c < sv_nextC s \<Longrightarrow> mset order = mset (cs_sessions (sv_calls s c)) \<Longrightarrow>
    svc_step E s (s\<lparr>sv_calls := (sv_calls s)(c := (sv_calls s c)\<lparr>cs_sessions := order\<rparr>)\<rparr>)"

inductive_cases svc_stepE: "svc_step E s t"

text \<open>A service starts on any database that has no statistics row of a call id still to be generated.\<close>

definition svc_start :: "env \<Rightarrow> service \<Rightarrow> bool" where
  "svc_start E s \<longleftrightarrow>
     (\<exists>sc db. New sc db = Inr s \<and> range (en_newId E) \<inter> st_CallID ` set (tb_stats db) = {})"

lemma svc_inv_New:
  assumes "New sc db = Inr s" and "range (en_newId E) \<inter> st_CallID ` set (tb_stats db) = {}"
  shows "svc_inv E s"
proof -
  obtain cfg where "s = \<lparr>sv_cfg = cfg, sv_heap = (\<lambda>_. noSession), sv_nextS = 0,
      sv_calls = (\<lambda>_. newCallState '''' '''' '''' 0), sv_nextC = 0,
      sv_shards = newShardRegistry (shardCountFor (Some cfg)), sv_index = newSessionRegistry,
      sv_chan = newChannelIndex, sv_rtcd = False, sv_started = False,
      sv_postCreator = sc_PostCreatorFn sc, sv_rtcdKick = False, sv_reaper = False, sv_timers = [],
      sv_callRows = tb_calls db, sv_sessRows = tb_sessions db, sv_statRows = tb_stats db,
      sv_chanRows = tb_channels db, sv_events = [], sv_sfu = [], sv_posts = [], sv_tick = 0\<rparr>"
    using assms by (auto simp: New_def split: if_splits option.splits)
  then show ?thesis
    using assms(2) by (auto simp: inv_defs ends_def
        newShardRegistry_ok newChannelIndex_def newSessionRegistry_def bySessionID_def byConnID_def ci_get_def)
qed

lemma mset_map_of:
  assumes "mset xs = mset ys" and "gm_ok ys"
  shows "gm_ok xs" and "gm_get xs = gm_get ys"
proof -
  have "mset (map fst xs) = mset (map fst ys)" using assms(1) by simp
  then show g: "gm_ok xs" using assms(2) mset_eq_imp_distinct_iff by blast
  have "set xs = set ys" using assms(1) by (metis set_mset_mset)
  then show "gm_get xs = gm_get ys" using g assms(2) map_of_inject_set by blast
qed

lemma svc_inv_reorder:
  assumes inv: "svc_inv E s" and c: "c < sv_nextC s" and o: "mset order = mset (cs_sessions (sv_calls s c))"
  shows "svc_inv E (s\<lparr>sv_calls := (sv_calls s)(c := (sv_calls s c)\<lparr>cs_sessions := order\<rparr>)\<rparr>)"
proof -
  let ?cs = "(sv_calls s c)\<lparr>cs_sessions := order\<rparr>"
  note ok = call_okD[OF inv_callsD(1)[OF inv c]]
  note m = mset_map_of[OF o ok(1)]
  have len: "length order = length (cs_sessions (sv_calls s c))" using o by (metis size_mset)
  have st: "set order = set (cs_sessions (sv_calls s c))" using o by (metis set_mset_mset)
  have "call_ok (sv_heap s) ?cs"
  proof (rule call_okI)
    show "host_ok ?cs" using ok(3) len m by (auto simp: host_ok_def split: if_splits)
  qed (use ok m len in \<open>auto simp: session_ok_def\<close>)
  moreover have "one_sharer (sv_heap s) ?cs" using inv_callsD(2)[OF inv c] st by (simp add: one_sharer_def)
  ultimately have "svc_inv E (s\<lparr>sv_calls := (sv_calls s)(c := ?cs), sv_index := sv_index s\<rparr>)"
    using inv_mapsD[OF inv] inv_callsD(3)[OF inv c] inv_bySessionD[OF inv] inv_byConnD[OF inv] m
    by (intro svc_inv_call[OF inv c]) auto
  then show ?thesis by simp
qed

lemma svc_inv_unwatched:
  assumes "svc_inv E s"
  shows "svc_inv E (Start s)" "svc_inv E (Stop s)" "svc_inv E (rtcdInitDone kicked s)" "svc_inv E (rtcdInitGaveUp kicked s)"
    "svc_inv E (s\<lparr>sv_cfg := cfg\<rparr>)"
  using assms
  by (simp_all add: Start_def Stop_def rtcdInitDone_def rtcdInitGaveUp_def inv_defs Let_def)

lemma svc_inv_step:
  assumes "svc_step E s t" and "svc_inv E s" and "env_ok E"
  shows "svc_inv E t"
  using assms(1)
proof cases
  case (setChannel ch en user)
  then show ?thesis using svc_inv_quiet[OF assms(2) quiet_channels(3)] by simp
next
  case (dismiss ch user)
  then show ?thesis using svc_inv_quiet[OF assms(2) quiet_channels(4)] by simp
next
  case (endByHost callID user)
  then show ?thesis
    using assms svc_inv_EndCall[OF assms(2,3)] by (simp add: EndCallByHost_def split: sum.split)
next
  case (reorder c order)
  then show ?thesis using svc_inv_reorder[OF assms(2)] by simp
qed (use assms in \<open>simp_all add: svc_inv_HandleClientMessage svc_inv_handleRTCDMessage svc_inv_StartCall
  svc_inv_EndCall svc_inv_MakeHost svc_inv_hostControls svc_inv_watchdogs svc_inv_reap svc_inv_unwatched\<close>)

interpretation machine: step_invariant "svc_start E" "\<lambda>s t. env_ok E \<and> svc_step E s t" "svc_inv E" for E
  by unfold_locales (auto simp: svc_start_def intro: svc_inv_New svc_inv_step)

definition reachable :: "env \<Rightarrow> service \<Rightarrow> bool" where
  "reachable E s \<longleftrightarrow> (\<exists>s0. svc_start E s0 \<and> (\<lambda>s t. env_ok E \<and> svc_step E s t)\<^sup>*\<^sup>* s0 s)"

lemma reachable_inv: "reachable E s \<Longrightarrow> svc_inv E s"
  unfolding reachable_def using machine.inv_reach by blast

lemma reachable_step: "reachable E s \<Longrightarrow> env_ok E \<Longrightarrow> svc_step E s t \<Longrightarrow> reachable E t"
  unfolding reachable_def by (blast intro: rtranclp.rtrancl_into_rtrancl)

end
