(* ===== verification/Calls_Demo.thy ===== *)
theory Calls_Demo
  imports Calls_Machine
begin

text \<open>
  A small environment and a run of two participants in one call, on which the hypotheses of the
  properties of the call service are met; the two \<open>shape\<close> lemmas evaluate the run.
\<close>

definition demo_env :: env where
  "demo_env =
     \<lparr>en_now = (\<lambda>n. 1000 + int n), en_newId = (\<lambda>n. CHR ''k'' # replicate n (CHR ''x'')),
      en_db = (\<lambda>_. False), en_send = (\<lambda>_. False), en_host = (\<lambda>_. Inr ''10.0.0.1''),
      en_post = (\<lambda>_. None), en_json = (\<lambda>_. None)\<rparr>"

definition demo_cfg :: CallsSettings where
  "demo_cfg = SetDefaults
     \<lparr>cf_Enable = Some True, cf_RTCDServiceURL = None, cf_RTCDClientID = None, cf_RTCDAuthKey = None,
      cf_ICEServers = None, cf_TURNStaticAuthSecret = None, cf_ServerSideTURN = None,
      cf_ICEHostOverride = None, cf_ICEHostPortOverride = None, cf_EnableIPv6 = None,
      cf_MaxCallParticipants = Some 3, cf_AllowScreenSharing = None, cf_AllowRecording = None,
      cf_EnableRinging = None, cf_EnableVideo = None, cf_EnableReactions = None,
      cf_HostControlsAllowed = None, cf_GroupCallsAllowed = None, cf_BatchMinMembers = None,
      cf_BatchIntervalMs = None, cf_BatchMaxSize = None, cf_StateShardCount = Some 1\<rparr>"

definition demo_config :: ServiceConfig where
  "demo_config = \<lparr>sc_StoreFn = Some True, sc_ConfigFn = Some (Some demo_cfg), sc_Hub = True,
     sc_Log = True, sc_PostCreatorFn = False\<rparr>"

definition demo_tables :: tables where
  "demo_tables = \<lparr>tb_calls = [], tb_sessions = [], tb_stats = [], tb_channels = []\<rparr>"

definition demo_s0 :: service where
  "demo_s0 = rtcdInitDone False (Start (projr (New demo_config demo_tables)))"

definition demo_join :: "string \<Rightarrow> string \<Rightarrow> service \<Rightarrow> service" where
  "demo_join conn user s = HandleClientMessage demo_env conn user ''join'' [(''channelID'', VStr ''ch'')] s"

definition demo_s1 :: service where "demo_s1 = demo_join ''a'' ''ann'' demo_s0"

definition demo_s2 :: service where "demo_s2 = demo_join ''b'' ''bob'' demo_s1"

lemma demo_env_ok: "env_ok demo_env"
  by (auto simp: env_ok_def demo_env_def inj_def)

lemma demo_reachable: "reachable demo_env demo_s0" "reachable demo_env demo_s1" "reachable demo_env demo_s2"
proof -
  have "New demo_config demo_tables = Inr (projr (New demo_config demo_tables))"
    by (simp add: New_def demo_config_def)
  then have "svc_start demo_env (projr (New demo_config demo_tables))"
    unfolding svc_start_def by (intro exI[of _ demo_config] exI[of _ demo_tables]) (simp add: demo_tables_def)
  then have "reachable demo_env (projr (New demo_config demo_tables))"
    unfolding reachable_def by blast
  then show 0: "reachable demo_env demo_s0"
    unfolding demo_s0_def by (blast intro: reachable_step demo_env_ok svc_step.start svc_step.rtcdUp)
  then show 1: "reachable demo_env demo_s1"
    unfolding demo_s1_def demo_join_def by (blast intro: reachable_step demo_env_ok svc_step.client)
  then show "reachable demo_env demo_s2"
    unfolding demo_s2_def demo_join_def by (blast intro: reachable_step demo_env_ok svc_step.client)
qed

lemma shardIndex_single [simp]: "shardIndex [x] k = 0"
  by (simp add: shardIndex_def)

text \<open>The definitions that evaluate a run of the service on a registry with one shard.\<close>

lemmas demo_start_defs = demo_s0_def Start_def rtcdInitDone_def New_def demo_config_def demo_tables_def
  demo_cfg_def SetDefaults_def orDefault_def newShardRegistry_def shardCountFor_def newCallShard_def
  newSessionRegistry_def newChannelIndex_def

lemmas demo_join_defs = HandleClientMessage_def isValidMsgType_def validMsgTypes_def dispatch_def
  handleJoin_def getString_def enabled_def callsEnabledForChannel_def GetCallsChannel_def
  db_CallsChannel_Get_def CallsChannelStore_Get_def sql_one_def tick_def maxParticipants_def derefOr_def
  GetMillis_def StartCall_def ci_getLive_def ci_get_def assignHost_def NewId_def registerCall_def
  getOrCreateLive_def shardFor_def setShard_def db_Call_Save_def CallStore_Save_def Call_PreSave_def
  Call_IsValid_def sql_insert_def announceCall_def createCallPost_def broadcast_def ci_set_def
  addSessionIfLive_def addSession_def newSession_def ended_def newCallState_def joinDone_def link_def
  db_CallSession_Save_def CallSessionStore_Save_def CallSession_PreSave_def CallSession_IsValid_def
  sendToHost_def publishTo_def publishChannel_def sendCallState_def snapshot_def session_view_def
  participants_def resultOf_def kickRTCDInit_def demo_env_def numeral_3_eq_3 Let_def

definition demo_member :: "string \<Rightarrow> string \<Rightarrow> int \<Rightarrow> session" where
  "demo_member conn user t =
     \<lparr>ss_userID = user, ss_channelID = ''ch'', ss_callID = ''kxxxx'', ss_sessionID = conn,
      ss_connID = conn, ss_unmuted = True, ss_screenOn = False, ss_videoOn = False, ss_voiceOn = False,
      ss_raisedHandAt = 0, ss_startAt = t, ss_rtcClosed = 0, ss_removed = 0\<rparr>"

definition demo_live :: "sref gomap \<Rightarrow> nat \<Rightarrow> callState" where
  "demo_live m p =
     \<lparr>cs_callID = ''kxxxx'', cs_channelID = ''ch'', cs_rtcdHost = ''10.0.0.1'', cs_startAt = 1005,
      cs_sessions = m, cs_byConn = m, cs_hostSessionID = ''a'', cs_endAt = 0, cs_peakParticipants = p\<rparr>"

definition demo_join_row :: "string \<Rightarrow> string \<Rightarrow> string \<Rightarrow> int \<Rightarrow> int \<Rightarrow> CallSession" where
  "demo_join_row i conn user t u =
     \<lparr>se_ID = i, se_CallID = ''kxxxx'', se_UserID = user, se_ConnID = conn, se_StartAt = t, se_EndAt = 0,
      se_CreateAt = t, se_UpdateAt = u\<rparr>"

definition demo_call_row :: Call where
  "demo_call_row =
     \<lparr>ca_ID = ''kxxxx'', ca_ChannelID = ''ch'', ca_OwnerID = ''ann'', ca_PostID = '''', ca_StartAt = 1003,
      ca_EndAt = 0, ca_CreateAt = 1003, ca_UpdateAt = 1006\<rparr>"

definition demo_shape ::
  "sheap \<Rightarrow> nat \<Rightarrow> callState \<Rightarrow> sessionRegistry \<Rightarrow> CallSession list \<Rightarrow> nat \<Rightarrow> hubEvent list
    \<Rightarrow> (string \<times> clientMessage) list \<Rightarrow> service" where
  "demo_shape h n cs i rows t ev sfu =
     \<lparr>sv_cfg = demo_cfg, sv_heap = h, sv_nextS = n,
      sv_calls = (\<lambda>_. newCallState '''' '''' '''' 0)(0 := cs), sv_nextC = 1,
      sv_shards = [[(''kxxxx'', 0)]], sv_index = i, sv_chan = [(''ch'', 0)], sv_rtcd = True,
      sv_started = True, sv_postCreator = False, sv_rtcdKick = False, sv_reaper = True, sv_timers = [],
      sv_callRows = [demo_call_row], sv_sessRows = rows, sv_statRows = [], sv_chanRows = [],
      sv_events = ev, sv_sfu = sfu, sv_posts = [], sv_tick = t\<rparr>"

lemmas demo_shape_defs = demo_shape_def demo_member_def demo_live_def demo_join_row_def demo_call_row_def

definition demo_index :: "string list \<Rightarrow> sessionRegistry" where
  "demo_index ks = \<lparr>ri_bySession = map (\<lambda>k. (k, 0)) ks, ri_byConn = map (\<lambda>k. (k, 0)) ks\<rparr>"

lemma demo_s1_shape:
  "\<exists>ev sfu. demo_s1 = demo_shape ((\<lambda>_. noSession)(0 := demo_member ''a'' ''ann'' 1001)) 1
     (demo_live [(''a'', 0)] 1) (demo_index [''a''])
     [demo_join_row ''kxxxxxxxx'' ''a'' ''ann'' 1001 1009] 12 ev sfu \<and> ends demo_s1 = []"
  by (simp add: demo_s1_def demo_join_def demo_start_defs demo_join_defs demo_shape_defs demo_index_def
      ends_def cong: option.case_cong)

lemma demo_s2_shape:
  "\<exists>ev sfu. demo_s2 = demo_shape
     ((\<lambda>_. noSession)(0 := demo_member ''a'' ''ann'' 1001, 1 := demo_member ''b'' ''bob'' 1013)) 2
     (demo_live [(''a'', 0), (''b'', 1)] 2) (demo_index [''a'', ''b''])
     [demo_join_row ''kxxxxxxxx'' ''a'' ''ann'' 1001 1009,
      demo_join_row ''kxxxxxxxxxxxxxx'' ''b'' ''bob'' 1013 1015] 18 ev sfu \<and> ends demo_s2 = []"
proof -
  obtain ev sfu where s1: "demo_s1 = demo_shape ((\<lambda>_. noSession)(0 := demo_member ''a'' ''ann'' 1001)) 1
     (demo_live [(''a'', 0)] 1) (demo_index [''a''])
     [demo_join_row ''kxxxxxxxx'' ''a'' ''ann'' 1001 1009] 12 ev sfu" and e: "ends demo_s1 = []"
    using demo_s1_shape by blast
  have e': "filter (\<lambda>e. ev_name e = ''call_end'') ev = []"
    using e by (simp add: s1 ends_def demo_shape_def)
  show ?thesis
    by (simp add: demo_s2_def s1 e' demo_join_def demo_join_defs demo_shape_defs demo_index_def
        demo_cfg_def SetDefaults_def orDefault_def ends_def eval_nat_numeral cong: option.case_cong)
qed

text \<open>The two states of the run as explicit records, up to the published events and SFU messages.\<close>

definition demo_at1 :: "hubEvent list \<Rightarrow> (string \<times> clientMessage) list \<Rightarrow> service" where
  "demo_at1 ev sfu = demo_shape ((\<lambda>_. noSession)(0 := demo_member ''a'' ''ann'' 1001)) 1
     (demo_live [(''a'', 0)] 1) (demo_index [''a''])
     [demo_join_row ''kxxxxxxxx'' ''a'' ''ann'' 1001 1009] 12 ev sfu"

definition demo_at2 :: "hubEvent list \<Rightarrow> (string \<times> clientMessage) list \<Rightarrow> service" where
  "demo_at2 ev sfu = demo_shape
     ((\<lambda>_. noSession)(0 := demo_member ''a'' ''ann'' 1001, 1 := demo_member ''b'' ''bob'' 1013)) 2
     (demo_live [(''a'', 0), (''b'', 1)] 2) (demo_index [''a'', ''b''])
     [demo_join_row ''kxxxxxxxx'' ''a'' ''ann'' 1001 1009,
      demo_join_row ''kxxxxxxxxxxxxxx'' ''b'' ''bob'' 1013 1015] 18 ev sfu"

lemma demo_s1_at: obtains ev sfu where "demo_s1 = demo_at1 ev sfu"
  using demo_s1_shape unfolding demo_at1_def by blast

lemma demo_s2_at: obtains ev sfu where "demo_s2 = demo_at2 ev sfu"
  using demo_s2_shape unfolding demo_at2_def by blast

lemmas demo_eval = demo_at1_def demo_at2_def demo_shape_defs demo_index_def

lemmas demo_share_defs = HandleClientMessage_def isValidMsgType_def validMsgTypes_def dispatch_def
  handleScreenToggle_def allowScreenSharing_def derefOr_def demo_cfg_def SetDefaults_def orDefault_def
  sessionByConn_def byConnID_def findByConn_def screenSharer_def sendToHost_def tick_def demo_env_def
  publishChannel_def broadcast_def mutateSession_def mutate_def Let_def

end
