(* ===== verification/Calls_Rooms.thy ===== *)
theory Calls_Rooms
  imports Calls_Demo
begin

text \<open>
  What the call service promises, without shards, indexes, heaps or connections: each channel is a
  room that is closed or holds a set of named members. \<open>rooms\<close> abstracts a service state to this view,
  and the simulation lemmas show that every step of the service leaves the rooms alone or makes one
  change to one of them, except the idle reaper, which closes exactly the empty rooms.
\<close>

section \<open>The abstract specification\<close>

type_synonym roomMembers = "string \<rightharpoonup> string"
type_synonym roomState = "string \<rightharpoonup> roomMembers"

definition room_enter :: "string \<Rightarrow> string \<Rightarrow> string \<Rightarrow> roomState \<Rightarrow> roomState" where
  "room_enter ch sid user R =
     R(ch \<mapsto> (case R ch of None \<Rightarrow> Map.empty | Some m \<Rightarrow> m)(sid \<mapsto> user))"

definition room_exit :: "string \<Rightarrow> string \<Rightarrow> roomState \<Rightarrow> roomState" where
  "room_exit ch sid R =
     (case R ch of
        None \<Rightarrow> R
      | Some m \<Rightarrow> if m(sid := None) = Map.empty then R(ch := None) else R(ch \<mapsto> m(sid := None)))"

inductive room_step :: "roomState \<Rightarrow> roomState \<Rightarrow> bool" where
  opened: "R ch = None \<Longrightarrow> room_step R (R(ch \<mapsto> Map.empty))"
| entered: "sid \<noteq> '''' \<Longrightarrow> user \<noteq> '''' \<Longrightarrow> room_step R (room_enter ch sid user R)"
| exited: "R ch = Some m \<Longrightarrow> m sid \<noteq> None \<Longrightarrow> room_step R (room_exit ch sid R)"
| closed: "R ch \<noteq> None \<Longrightarrow> room_step R (R(ch := None))"

definition members :: "sheap \<Rightarrow> callState \<Rightarrow> roomMembers" where
  "members h cs sid = map_option (\<lambda>r. ss_userID (h r)) (gm_get (cs_sessions cs) sid)"

definition rooms :: "service \<Rightarrow> roomState" where
  "rooms s ch = map_option (\<lambda>c. members (sv_heap s) (sv_calls s c)) (ci_get (sv_chan s) ch)"

section \<open>Effect of the operations on the rooms\<close>

lemma rooms_quiet: "quiet s s' \<Longrightarrow> rooms s' = rooms s"
  by (simp add: rooms_def fun_eq_iff quietD)

lemma rooms_cong:
  assumes "sv_chan s' = sv_chan s"
    and "\<And>ch c. ci_get (sv_chan s) ch = Some c \<Longrightarrow> members (sv_heap s') (sv_calls s' c) = members (sv_heap s) (sv_calls s c)"
  shows "rooms s' = rooms s"
proof
  fix ch
  show "rooms s' ch = rooms s ch"
    using assms by (cases "ci_get (sv_chan s) ch") (simp_all add: rooms_def)
qed

lemma members_empty [simp]: "members h (newCallState k ch host t) = Map.empty"
  by (simp add: members_def fun_eq_iff)

lemma members_participants: "gm_ok (cs_sessions cs) \<Longrightarrow> members h cs = Map.empty \<longleftrightarrow> participants cs = 0"
  by (auto simp: members_def participants_def fun_eq_iff gm_empty_iff)

lemma rooms_started:
  assumes inv: "svc_inv E s" and "quiet (startCore k ch host t s) s'"
  shows "rooms s' = (rooms s)(ch \<mapsto> Map.empty)"
proof
  fix h
  note d = quietD[OF assms(2)]
  have old: "ci_get (sv_chan s) h = Some c \<Longrightarrow> c \<noteq> sv_nextC s" for c
    using inv_chanD(1)[OF inv, of h c] by auto
  show "rooms s' h = ((rooms s)(ch \<mapsto> Map.empty)) h"
    using d old chan.look_put[OF inv_mapsD(2)[OF inv], of ch "sv_nextC s" h]
    by (cases "ci_get (sv_chan s) h") (auto simp: rooms_def startCore_def newCore_def)
qed

lemma rooms_rolledback:
  assumes inv: "svc_inv E s" and "quiet (rollbackCore k ch host t s) s'"
  shows "rooms s' = rooms s"
proof (rule rooms_cong)
  note d = quietD[OF assms(2)]
  show "sv_chan s' = sv_chan s" using d by (simp add: rollbackCore_def newCore_def)
  fix h c assume "ci_get (sv_chan s) h = Some c"
  then have "c \<noteq> sv_nextC s" using inv_chanD(1)[OF inv, of h c] by auto
  then show "members (sv_heap s') (sv_calls s' c) = members (sv_heap s) (sv_calls s c)"
    using d by (simp add: rollbackCore_def newCore_def)
qed

lemma rooms_StartCall:
  assumes "svc_inv E s" and "env_ok E"
  shows "rooms (snd (StartCall E ch owner post s)) =
    (case fst (StartCall E ch owner post s) of
       Inl _ \<Rightarrow> rooms s
     | Inr _ \<Rightarrow> if rooms s ch = None then (rooms s)(ch \<mapsto> Map.empty) else rooms s)"
  using assms
proof (cases rule: StartCall_cases[where ch = ch and owner = owner and post = post])
  case (refused e s')
  then show ?thesis by (simp add: rooms_quiet)
next
  case (reused c)
  then show ?thesis by (simp add: rooms_def)
next
  case (rollback e s' n host t)
  then show ?thesis using rooms_rolledback[OF assms(1)] by simp
next
  case (started s' n host t now)
  then have "rooms s ch = None" by (simp add: rooms_def)
  with started rooms_started[OF assms(1) started(4)] show ?thesis by simp
qed

lemma endCore_fields:
  "sv_heap (endCore c now st s) = sv_heap s"
  "sv_calls (endCore c now st s) = (sv_calls s)(c := (sv_calls s c)\<lparr>cs_endAt := now\<rparr>)"
  "sv_chan (endCore c now st s) = snd (ci_deleteIf (cs_channelID (sv_calls s c)) c (sv_chan s))"
  by (simp_all add: endCore_def Let_def)

lemma members_endAt [simp]: "members h (cs\<lparr>cs_endAt := t\<rparr>) = members h cs"
  by (simp add: members_def fun_eq_iff)

lemma rooms_endCallState:
  assumes inv: "svc_inv E s" and live: "\<not> ended (sv_calls s c)"
  shows "rooms (snd (endCallState E c now s)) =
    (if ci_get (sv_chan s) (cs_channelID (sv_calls s c)) = Some c
     then (rooms s)(cs_channelID (sv_calls s c) := None) else rooms s)"
proof -
  obtain st where q: "quiet (endCore c now st s) (snd (endCallState E c now s))"
    using endCallState_quiet[OF live] by blast
  have mem: "members (sv_heap s) (((sv_calls s)(c := (sv_calls s c)\<lparr>cs_endAt := now\<rparr>)) d)
      = members (sv_heap s) (sv_calls s d)" for d by simp
  have "rooms (endCore c now st s) =
    (if ci_get (sv_chan s) (cs_channelID (sv_calls s c)) = Some c
     then (rooms s)(cs_channelID (sv_calls s c) := None) else rooms s)"
    unfolding rooms_def fun_eq_iff endCore_fields mem ci_get_deleteIf[OF inv_mapsD(2)[OF inv]] by simp
  then show ?thesis using rooms_quiet[OF q] by simp
qed

lemma rooms_leaveCore:
  assumes inv: "svc_inv E s" and c: "c < sv_nextC s"
  shows "rooms (leaveCore c sid s) =
    (if ci_get (sv_chan s) (cs_channelID (sv_calls s c)) = Some c
     then (rooms s)(cs_channelID (sv_calls s c) \<mapsto> (members (sv_heap s) (sv_calls s c))(sid := None))
     else rooms s)"
proof -
  let ?ch = "cs_channelID (sv_calls s c)"
  let ?cs = "snd (removeSession sid (sv_heap s) (sv_calls s c))"
  have mem: "members (sv_heap s) ?cs = (members (sv_heap s) (sv_calls s c))(sid := None)"
    by (cases rule: removeSession_cases[of "sv_calls s c" sid "sv_heap s"])
      (auto simp: members_def fun_eq_iff)
  have f: "sv_chan (leaveCore c sid s) = sv_chan s" "sv_heap (leaveCore c sid s) = sv_heap s"
    "sv_calls (leaveCore c sid s) = (sv_calls s)(c := ?cs)"
    by (simp_all add: leaveCore_def split_def Let_def)
  have only: "ci_get (sv_chan s) h = Some c \<longleftrightarrow> h = ?ch \<and> ci_get (sv_chan s) ?ch = Some c" for h
    using inv_chanD(2)[OF inv, of h c] by auto
  have each: "rooms (leaveCore c sid s) h = (if ci_get (sv_chan s) h = Some c
      then Some ((members (sv_heap s) (sv_calls s c))(sid := None)) else rooms s h)" for h
    by (cases "ci_get (sv_chan s) h") (simp_all add: rooms_def f mem)
  show ?thesis
  proof
    fix h
    show "rooms (leaveCore c sid s) h = (if ci_get (sv_chan s) ?ch = Some c
        then (rooms s)(?ch \<mapsto> (members (sv_heap s) (sv_calls s c))(sid := None)) else rooms s) h"
      unfolding each using only[of h] by (cases "h = ?ch") simp_all
  qed
qed

lemma leaveCore_fields:
  "sv_chan (leaveCore c sid s) = sv_chan s" "sv_nextC (leaveCore c sid s) = sv_nextC s"
  "cs_channelID (sv_calls (leaveCore c sid s) d) = cs_channelID (sv_calls s d)"
  "cs_endAt (sv_calls (leaveCore c sid s) d) = cs_endAt (sv_calls s d)"
  "members (sv_heap s) (sv_calls (leaveCore c sid s) c) = (members (sv_heap s) (sv_calls s c))(sid := None)"
  by (cases rule: removeSession_cases[of "sv_calls s c" sid "sv_heap s"];
      simp add: leaveCore_def members_def fun_eq_iff)+

text \<open>A teardown of a session of a live call is exactly an exit from its room.\<close>

lemma rooms_teardown:
  assumes inv: "svc_inv E s" and c: "ci_get (sv_chan s) ch = Some c"
    and sid: "gm_get (cs_sessions (sv_calls s c)) (ss_sessionID (sv_heap s r)) \<noteq> None"
  shows "rooms (teardownSession E c r s) = room_exit ch (ss_sessionID (sv_heap s r)) (rooms s)"
proof -
  define k where "k = ss_sessionID (sv_heap s r)"
  note D = inv_chanD[OF inv c]
  let ?m = "members (sv_heap s) (sv_calls s c)"
  have R: "rooms s ch = Some ?m" by (simp add: rooms_def c)
  have L: "rooms (leaveCore c k s) = (rooms s)(ch \<mapsto> ?m(k := None))"
    using rooms_leaveCore[OF inv D(1), of k] D(2) c by simp
  have part: "participants (sv_calls s' c) = 0 \<longleftrightarrow> ?m(k := None) = Map.empty"
    if q: "quiet (leaveCore c k s) s'" for s'
  proof -
    have i: "svc_inv E s'" by (rule svc_inv_quiet[OF svc_inv_leaveCore[OF inv D(1)] q])
    have "c < sv_nextC s'" using quietD(5)[OF q] D(1) leaveCore_fields(2) by simp
    then have "gm_ok (cs_sessions (sv_calls s' c))" using call_okD(1)[OF inv_callsD(1)[OF i]] by blast
    from members_participants[OF this, of "sv_heap s"] show ?thesis
      using leaveCore_fields(5)[of s c k] quietD(4)[OF q] by simp
  qed
  show ?thesis
  proof (cases rule: teardownSession_cases[of s c r E])
    case absent
    with sid show ?thesis by simp
  next
    case (stays s')
    note q = stays(3)[folded k_def]
    show ?thesis
      using stays(2,4) part[OF q] rooms_quiet[OF q] L R by (simp add: room_exit_def k_def)
  next
    case (ends s' n)
    note q = ends(3)[folded k_def]
    have i: "svc_inv E s'" by (rule svc_inv_quiet[OF svc_inv_leaveCore[OF inv D(1)] q])
    have live: "\<not> ended (sv_calls s' c)" and ch: "cs_channelID (sv_calls s' c) = ch" "sv_chan s' = sv_chan s"
      using D(2,3) quietD(4,8)[OF q] by (simp_all add: ended_def leaveCore_fields)
    have "rooms (teardownSession E c r s) = (rooms s')(ch := None)"
      unfolding ends(2) using rooms_endCallState[OF i live] ch c by simp
    then show ?thesis
      using ends(4) part[OF q] rooms_quiet[OF q] L R by (simp add: room_exit_def k_def)
  qed
qed

lemma rooms_mutate:
  assumes "\<And>x. ss_userID (fn x) = ss_userID x"
  shows "rooms (mutateSession c sid fn s) = rooms s"
proof (rule rooms_cong)
  fix ch d
  have "ss_userID (snd (mutate sid fn (sv_heap s) (sv_calls s c)) r) = ss_userID (sv_heap s r)" for r
    using assms by (auto simp: mutate_def split: option.splits)
  then show "members (sv_heap (mutateSession c sid fn s)) (sv_calls (mutateSession c sid fn s) d)
      = members (sv_heap s) (sv_calls s d)"
    by (simp add: mutateSession_def members_def fun_eq_iff)
qed (simp add: mutateSession_def)

section \<open>Join\<close>

lemma members_unused:
  assumes "\<And>sid. gm_get (cs_sessions cs) sid \<noteq> Some r"
  shows "members (h(r := x)) cs = members h cs"
proof
  fix sid
  show "members (h(r := x)) cs sid = members h cs sid"
    using assms[of sid] by (cases "gm_get (cs_sessions cs) sid") (auto simp: members_def)
qed

lemma rooms_unused_heap:
  assumes inv: "svc_inv E s" and u: "unused s r"
  shows "rooms (s\<lparr>sv_heap := (sv_heap s)(r := x)\<rparr>) = rooms s"
proof (rule rooms_cong)
  fix ch c assume "ci_get (sv_chan s) ch = Some c"
  then have "c < sv_nextC s" by (rule inv_chanD(1)[OF inv])
  then show "members (sv_heap (s\<lparr>sv_heap := (sv_heap s)(r := x)\<rparr>)) (sv_calls (s\<lparr>sv_heap := (sv_heap s)(r := x)\<rparr>) c)
      = members (sv_heap s) (sv_calls s c)"
    using u by (simp add: members_unused unused_def)
qed simp

lemma rooms_joinAlloc:
  assumes inv: "svc_inv E s"
  shows "rooms (joinAlloc connID user ch now s) = rooms s"
proof (rule rooms_cong)
  fix h c assume "ci_get (sv_chan s) h = Some c"
  then have c: "c < sv_nextC s" by (rule inv_chanD(1)[OF inv])
  have "gm_get (cs_sessions (sv_calls s c)) sid \<noteq> Some (sv_nextS s)" for sid
    using inv_callsD(3)[OF inv c, of sid "sv_nextS s"] by auto
  then show "members (sv_heap (joinAlloc connID user ch now s)) (sv_calls (joinAlloc connID user ch now s) c)
      = members (sv_heap s) (sv_calls s c)"
    by (simp add: joinAlloc_def members_unused)
qed (simp add: joinAlloc_def)

lemma rooms_joinLoop_failed:
  assumes inv: "svc_inv E s" and env: "env_ok E" and u: "unused s r"
    and fail: "joinLoop E (Suc n) ch user r limit s = (Inl e, s')" and e: "\<not> errors_is e ErrCallNotFound"
  shows "rooms s' = rooms s"
proof -
  obtain x s1 where st: "StartCall E ch user '''' s = (x, s1)" by (cases "StartCall E ch user '''' s")
  show ?thesis
  proof (cases x)
    case (Inl e')
    then show ?thesis using fail st rooms_StartCall[OF inv env, of ch user "''''"] by simp
  next
    case (Inr res)
    obtain c where c: "reg_get (sv_shards s1) (sr_CallID res) = Some c" "ci_get (sv_chan s1) ch = Some c"
      "sv_heap s1 = sv_heap s"
      "(c < sv_nextC s \<and> s1 = s \<and> ci_get (sv_chan s) ch = Some c)
       \<or> (c = sv_nextC s \<and> sv_nextC s1 = Suc c \<and> ci_get (sv_chan s) ch = None
          \<and> (\<exists>host t. sv_calls s1 = (sv_calls s)(c := newCallState (sr_CallID res) ch host t)))"
      using StartCall_live[OF inv env st[unfolded Inr]] by metis
    have inv1: "svc_inv E s1" using svc_inv_StartCall[OF inv env, of ch user "''''"] st by simp
    define h where "h = (sv_heap s)(r := (sv_heap s r)\<lparr>ss_callID := sr_CallID res\<rparr>)"
    have look: "gm_get (shardFor (sv_shards s1) (sr_CallID res)) (sr_CallID res) = Some c"
      using c(1) by (simp add: reg_get_def shard_get_def)
    have run: "joinLoop E (Suc n) ch user r limit s =
        (case addSession (ss_sessionID (h r)) r limit h (sv_calls s1 c) of
           (Inl e, _) \<Rightarrow> if errors_is e ErrCallNotFound then joinLoop E n ch user r limit (s1\<lparr>sv_heap := h\<rparr>) else (Inl e, s1\<lparr>sv_heap := h\<rparr>)
         | (Inr prev, cs) \<Rightarrow> (Inr (c, sr_CallID res), s1\<lparr>sv_heap := h, sv_calls := (sv_calls s1)(c := cs)\<rparr>))"
      using st Inr inv_shardsD(3)[OF inv1 c(1)] look
      by (simp add: addSessionIfLive_def Let_def h_def c(3) split: sum.splits prod.splits)
    show ?thesis
    proof (cases rule: addSession_cases[of "ss_sessionID (h r)" r limit h "sv_calls s1 c"])
      case full
      then have "sv_calls s1 c \<noteq> newCallState k ch' host t" for k ch' host t by auto
      with c(4) have "s1 = s" by (metis fun_upd_same)
      then show ?thesis
        using fail run full rooms_unused_heap[OF inv u] by (simp add: errors_is.simps h_def)
    next
      case (added cs')
      with fail run show ?thesis by simp
    qed
  qed
qed

lemma rooms_handleJoin:
  assumes inv: "svc_inv E s" and env: "env_ok E" and conn: "connID \<noteq> ''''"
  shows "rooms (snd (handleJoin E connID user d s)) =
    (case fst (handleJoin E connID user d s) of
       Some _ \<Rightarrow> rooms s
     | None \<Rightarrow> room_enter (getString d ''channelID'') connID user (rooms s))"
  using inv env conn
proof (cases rule: handleJoin_cases[where user = user and d = d])
  case (refused e s')
  then show ?thesis by (simp add: rooms_quiet)
next
  case (failed e s' s2 now)
  have inv2: "svc_inv E s2" by (rule svc_inv_quiet[OF inv failed(4)])
  have "rooms s' = rooms (joinAlloc connID user (getString d ''channelID'') now s2)"
    using svc_inv_alloc[OF inv2] by (intro rooms_joinLoop_failed[OF _ env _ failed(5,3)]) (simp_all add: joinAlloc_def)
  then show ?thesis
    using failed(1) rooms_joinAlloc[OF inv2] rooms_quiet[OF failed(4)] by simp
next
  case (joined s2 now c res s1 h prev cs s')
  define ch where "ch = getString d ''channelID''"
  define s3 where "s3 = joinAlloc connID user ch now s2"
  have inv2: "svc_inv E s2" by (rule svc_inv_quiet[OF inv joined(1)])
  have R3: "rooms s3 = rooms s" using rooms_joinAlloc[OF inv2] rooms_quiet[OF joined(1)] by (simp add: s3_def)
  have u3: "unused s3 (sv_nextS s2)" using svc_inv_alloc[OF inv2] by (simp add: s3_def joinAlloc_def)
  have R1: "rooms s1 = (if rooms s ch = None then (rooms s)(ch \<mapsto> Map.empty) else rooms s)"
    using rooms_StartCall[OF joined(3) env, of ch user "''''"] joined(2) R3 by (simp add: s3_def ch_def)
  have u1: "unused s1 (sv_nextS s2)" and h1: "sv_heap s1 = sv_heap s3"
    using StartCall_unused[OF joined(3) env u3[unfolded s3_def ch_def], of "getString d ''channelID''" user "''''"] joined(2)
    by (simp_all add: s3_def ch_def)
  have h: "h = (sv_heap s1)(sv_nextS s2 := (newSession connID user ch now)\<lparr>ss_callID := sr_CallID res\<rparr>)"
    using joined(6) h1 by (simp add: s3_def joinAlloc_def ch_def)
  have mem: "members h (sv_calls s1 e) = members (sv_heap s1) (sv_calls s1 e)" if "e < sv_nextC s1" for e
    unfolding h using u1 that by (simp add: members_unused unused_def)
  have c: "c < sv_nextC s1" by (rule inv_chanD(1)[OF joined(10,5)])
  have "members h cs = (members h (sv_calls s1 c))(connID \<mapsto> user)"
  proof (cases rule: addSession_cases[of connID "sv_nextS s2" "maxParticipants (sv_cfg s)" h "sv_calls s1 c"])
    case full
    with joined(7) show ?thesis by simp
  next
    case (added cs')
    with joined(7) show ?thesis by (auto simp: members_def fun_eq_iff h newSession_def)
  qed
  then have new: "members h cs = (members (sv_heap s1) (sv_calls s1 c))(connID \<mapsto> user)" using mem[OF c] by simp
  have "rooms s' = (rooms s1)(ch \<mapsto> (members (sv_heap s1) (sv_calls s1 c))(connID \<mapsto> user))"
  proof
    fix k
    note d = quietD[OF joined(11)]
    show "rooms s' k = ((rooms s1)(ch \<mapsto> (members (sv_heap s1) (sv_calls s1 c))(connID \<mapsto> user))) k"
    proof (cases "ci_get (sv_chan s1) k")
      case None
      with joined(5) d show ?thesis by (auto simp: rooms_def ch_def)
    next
      case (Some e)
      note E = inv_chanD[OF joined(10) Some]
      have "k = ch \<longleftrightarrow> e = c" using E(2) inv_chanD(2)[OF joined(10,5)] Some joined(5) by (auto simp: ch_def)
      with Some d new mem[OF E(1)] show ?thesis by (auto simp: rooms_def)
    qed
  qed
  moreover have "rooms s1 ch = Some (members (sv_heap s1) (sv_calls s1 c))"
    using joined(5) by (simp add: rooms_def ch_def)
  ultimately have "rooms s' = room_enter ch connID user (rooms s)"
    unfolding R1 by (auto simp: room_enter_def fun_eq_iff split: if_splits)
  then show ?thesis using joined(8) by (simp add: ch_def)
qed

section \<open>Simulation\<close>

abbreviation room_change :: "roomState \<Rightarrow> roomState \<Rightarrow> bool" where
  "room_change R R' \<equiv> R' = R \<or> room_step R R'"

lemma sim_teardown:
  assumes inv: "svc_inv E s" and env: "env_ok E" and c: "c < sv_nextC s"
  shows "room_change (rooms s) (rooms (teardownSession E c r s))"
proof (cases "ci_get (sv_chan s) (cs_channelID (sv_calls s c)) = Some c")
  case True
  let ?k = "ss_sessionID (sv_heap s r)"
  show ?thesis
  proof (cases "gm_get (cs_sessions (sv_calls s c)) ?k")
    case None
    then show ?thesis by (simp add: teardownSession_def removeSession_def Let_def)
  next
    case (Some q)
    have "rooms s (cs_channelID (sv_calls s c)) = Some (members (sv_heap s) (sv_calls s c))"
      using True by (simp add: rooms_def)
    moreover have "members (sv_heap s) (sv_calls s c) ?k \<noteq> None" using Some by (simp add: members_def)
    ultimately have "room_step (rooms s) (room_exit (cs_channelID (sv_calls s c)) ?k (rooms s))"
      by (rule room_step.exited)
    then show ?thesis using rooms_teardown[OF inv True, where r = r] Some by simp
  qed
next
  case False
  show ?thesis
  proof (cases rule: teardownSession_cases[of s c r E])
    case absent
    then show ?thesis by simp
  next
    case (stays s')
    then show ?thesis using rooms_quiet[OF stays(3)] rooms_leaveCore[OF inv c] False by simp
  next
    case (ends s' n)
    have i: "svc_inv E s'" by (rule svc_inv_quiet[OF svc_inv_leaveCore[OF inv c] ends(3)])
    have f: "ci_get (sv_chan s') (cs_channelID (sv_calls s' c)) \<noteq> Some c"
      using False quietD(4,8)[OF ends(3)] by (simp add: leaveCore_fields)
    have "rooms (snd (endCallState E c (en_now E n) s')) = rooms s'"
    proof (cases "ended (sv_calls s' c)")
      case True
      then show ?thesis by (simp add: endCallState_ended)
    next
      case live: False
      show ?thesis using rooms_endCallState[OF i live] f by simp
    qed
    then show ?thesis using ends(2) rooms_quiet[OF ends(3)] rooms_leaveCore[OF inv c] False by simp
  qed
qed

lemma sim_endCallState:
  assumes inv: "svc_inv E s"
  shows "room_change (rooms s) (rooms (snd (endCallState E c now s)))"
proof (cases "ended (sv_calls s c)")
  case True
  then show ?thesis by (simp add: endCallState_ended)
next
  case False
  let ?ch = "cs_channelID (sv_calls s c)"
  show ?thesis
  proof (cases "ci_get (sv_chan s) ?ch = Some c")
    case True
    then have "rooms s ?ch \<noteq> None" by (simp add: rooms_def)
    from room_step.closed[of "rooms s", OF this] show ?thesis
      unfolding rooms_endCallState[OF inv False] using True by simp
  next
    case f: False
    show ?thesis unfolding rooms_endCallState[OF inv False] using f by simp
  qed
qed

lemma rooms_heap_flag:
  assumes "\<And>r. ss_userID (h r) = ss_userID (sv_heap s r)"
  shows "rooms (s\<lparr>sv_heap := h\<rparr>) = rooms s"
  using assms by (intro rooms_cong) (simp_all add: members_def fun_eq_iff)

lemma rooms_handleReconnect:
  "rooms (snd (handleReconnect E connID user d s)) = rooms s"
proof (cases rule: handleReconnect_cases[of E connID user d s])
  case (refused e)
  then show ?thesis by simp
next
  case (moved c r h cs s')
  have same: "cs_sessions cs = cs_sessions (sv_calls s c)"
    using moved(4) by (cases rule: setConn_cases[of "sv_calls s c" "ss_sessionID (sv_heap s r)" connID "sv_heap s"]) simp_all
  have "rooms s' = rooms (s\<lparr>sv_heap := h, sv_calls := (sv_calls s)(c := cs)\<rparr>)"
    using rooms_quiet[OF moved(6)] by (simp add: rooms_def fun_eq_iff)
  also have "\<dots> = rooms s"
    using setConn_heap[OF moved(4)] same by (intro rooms_cong) (auto simp: members_def fun_eq_iff)
  finally show ?thesis using moved(5) by simp
qed

lemma rooms_presence:
  "rooms (snd (handleRTCRelay E connID user ty d s)) = rooms s"
  "rooms (snd (handleMuteToggle E connID user b s)) = rooms s"
  "rooms (snd (handleScreenToggle E connID user b d s)) = rooms s"
  "rooms (snd (handleVideoToggle E connID user b d s)) = rooms s"
  "rooms (snd (handleRaiseHand E connID user b s)) = rooms s"
  "rooms (snd (handleReact E connID user d s)) = rooms s"
  "rooms (snd (handleCallStateRequest connID user d s)) = rooms s"
proof -
  have snt: "rooms s1 = rooms s" if "sendToHost E c m s = (x, s1)" for c m x s1
    using rooms_quiet[OF quiet_sendToHost[of s E c m]] that by simp
  have pub: "rooms (publishChannel ch e dd t) = rooms t" for ch e dd t
    by (simp add: publishChannel_def broadcast_def rooms_def fun_eq_iff)
  have ms: "rooms (snd (GetMillis E s)) = rooms s" by (rule rooms_quiet) simp
  have st: "rooms (sendCallState c connID s) = rooms s" for c by (rule rooms_quiet) simp
  show "rooms (snd (handleRTCRelay E connID user ty d s)) = rooms s"
    by (auto simp: handleRTCRelay_def rooms_quiet split: option.splits prod.splits)
  show "rooms (snd (handleMuteToggle E connID user b s)) = rooms s"
    by (auto simp: handleMuteToggle_def Let_def pub rooms_mutate snt split: option.splits prod.splits)
  show "rooms (snd (handleScreenToggle E connID user b d s)) = rooms s"
    by (auto simp: handleScreenToggle_def Let_def pub rooms_mutate snt split: option.splits prod.splits)
  show "rooms (snd (handleVideoToggle E connID user b d s)) = rooms s"
    by (auto simp: handleVideoToggle_def Let_def pub rooms_mutate snt split: option.splits prod.splits)
  show "rooms (snd (handleRaiseHand E connID user b s)) = rooms s"
    using ms by (auto simp: handleRaiseHand_def Let_def split_def pub rooms_mutate split: option.splits prod.splits)
  show "rooms (snd (handleReact E connID user d s)) = rooms s"
    using ms by (auto simp: handleReact_def Let_def split_def pub split: option.splits prod.splits)
  show "rooms (snd (handleCallStateRequest connID user d s)) = rooms s"
    using st by (auto simp: handleCallStateRequest_def Let_def split: option.splits)
qed

lemma sim_HandleClientMessage:
  assumes inv: "svc_inv E s" and env: "env_ok E"
  shows "room_change (rooms s) (rooms (HandleClientMessage E connID user action d s))"
proof (cases "user = '''' \<or> connID = '''' \<or> \<not> isValidMsgType action")
  case True
  then have "rooms (HandleClientMessage E connID user action d s) = rooms s"
    by (auto simp: HandleClientMessage_def rooms_quiet[OF quiet_output(2)])
  then show ?thesis by simp
next
  case False
  have lv: "room_change (rooms s) (rooms (snd (handleLeave E connID user d s)))"
    using sim_teardown[OF inv env] inv_chanD(1)[OF inv]
    by (auto simp: handleLeave_def Let_def split: option.splits)
  have jn: "room_change (rooms s) (rooms (snd (handleJoin E connID user d s)))"
    using rooms_handleJoin[OF inv env, of connID user d] False
      room_step.entered[of connID user "rooms s" "getString d ''channelID''"]
    by (auto split: option.splits)
  have disp: "room_change (rooms s) (rooms (snd (dispatch E connID user action d s)))"
    using lv jn by (simp add: dispatch_def rooms_handleReconnect rooms_presence)
  obtain x s1 where x: "dispatch E connID user action d s = (x, s1)" by (cases "dispatch E connID user action d s")
  have "rooms (HandleClientMessage E connID user action d s) = rooms s1"
    using False x by (cases x) (auto simp: HandleClientMessage_def rooms_quiet[OF quiet_output(2)])
  with disp x show ?thesis by simp
qed

lemma sim_handleRTCDMessage:
  assumes inv: "svc_inv E s" and env: "env_ok E"
  shows "room_change (rooms s) (rooms (handleRTCDMessage E msg s))"
proof -
  have pub: "rooms (publishChannel ch e dd t) = rooms t" "rooms (publishTo e dd ch t) = rooms t" for ch e dd t
    by (simp_all add: publishChannel_def publishTo_def broadcast_def rooms_def fun_eq_iff)
  have relay: "rooms (relayRTCMessage m s) = rooms s" for m
    by (auto simp: relayRTCMessage_def Let_def pub rooms_mutate split: option.splits bytes.splits)
  have "room_change (rooms s) (rooms (let (won, h) = markRTCclosed r (sv_heap s); s1 = s\<lparr>sv_heap := h\<rparr>
      in if won then teardownSession E c r s1 else s1))" if "bySessionID (sv_index s) sid = Some c" for sid c r
  proof -
    let ?s1 = "s\<lparr>sv_heap := snd (markRTCclosed r (sv_heap s))\<rparr>"
    have "svc_inv E ?s1"
      using svc_inv_flag[OF inv, of "\<lambda>x. x\<lparr>ss_rtcClosed := v\<rparr>" v r for v]
      by (auto simp: markRTCclosed_def split_def Let_def)
    moreover have "rooms ?s1 = rooms s"
      by (rule rooms_heap_flag) (simp add: markRTCclosed_def split_def Let_def)
    ultimately show ?thesis
      using sim_teardown[OF _ env, of ?s1 c r] inv_bySessionD(1)[OF inv that] by (simp add: split_def Let_def)
  qed
  with relay show ?thesis
    by (auto simp: handleRTCDMessage_def Let_def split: option.splits clientData.splits)
qed

lemma sim_StartCall:
  assumes "svc_inv E s" and "env_ok E"
  shows "room_change (rooms s) (rooms (snd (StartCall E ch owner post s)))"
  using room_step.opened[of "rooms s" ch]
  by (auto simp: rooms_StartCall[OF assms] split: sum.split)

lemma sim_EndCall:
  assumes "svc_inv E s"
  shows "room_change (rooms s) (rooms (snd (EndCall E callID s)))"
proof (cases "reg_get (sv_shards s) callID")
  case None
  then show ?thesis by (simp add: EndCall_def)
next
  case (Some c)
  have "svc_inv E (tick s)" by (rule svc_inv_quiet[OF assms quiet_tick])
  from sim_endCallState[OF this, of c "en_now E (sv_tick s)"] show ?thesis
    using Some rooms_quiet[OF quiet_tick[of s]] by (simp add: EndCall_def GetMillis_def tick_def)
qed

lemma rooms_muteOne: "rooms (snd (muteOne E c sid s)) = rooms s"
proof -
  have snt: "rooms s1 = rooms s" if "sendToHost E c m s = (x, s1)" for m x s1
    using rooms_quiet[OF quiet_sendToHost[of s E c m]] that by simp
  have pub: "rooms (publishChannel ch e dd t) = rooms t" "rooms (publishTo e dd ch t) = rooms t" for ch e dd t
    by (simp_all add: publishChannel_def publishTo_def broadcast_def rooms_def fun_eq_iff)
  show ?thesis
    by (auto simp: muteOne_def Let_def pub rooms_mutate snt split: option.splits prod.splits)
qed

lemma rooms_muteViews: "rooms (fold (muteView E c user) vs s) = rooms s"
  by (induction vs arbitrary: s) (simp_all add: muteView_def rooms_muteOne)

lemma rooms_hostControls:
  "rooms (snd (MuteSession E callID user sid s)) = rooms s"
  "rooms (snd (MuteOthers E callID user s)) = rooms s"
  "rooms (snd (ScreenOff E callID user sid s)) = rooms s"
  "rooms (snd (LowerHand callID user sid s)) = rooms s"
  "rooms (snd (MakeHost callID user new s)) = rooms s"
proof -
  have snt: "rooms s1 = rooms s" if "sendToHost E c m s = (x, s1)" for c m x s1
    using rooms_quiet[OF quiet_sendToHost[of s E c m]] that by simp
  have pub: "rooms (publishChannel ch e dd t) = rooms t" "rooms (publishTo e dd ch t) = rooms t" for ch e dd t
    by (simp_all add: publishChannel_def publishTo_def broadcast_def rooms_def fun_eq_iff)
  show "rooms (snd (MuteSession E callID user sid s)) = rooms s"
    by (simp add: MuteSession_def rooms_muteOne split: sum.split)
  show "rooms (snd (MuteOthers E callID user s)) = rooms s"
    by (simp add: MuteOthers_def rooms_muteViews split: sum.split)
  show "rooms (snd (ScreenOff E callID user sid s)) = rooms s"
    by (auto simp: ScreenOff_def Let_def pub rooms_mutate snt split: sum.splits option.splits prod.splits)
  show "rooms (snd (LowerHand callID user sid s)) = rooms s"
    by (auto simp: LowerHand_def Let_def pub rooms_mutate split: sum.splits option.splits)
  have "rooms (s\<lparr>sv_calls := (sv_calls s)(c := snd (setHostByUser new (sv_heap s) (sv_calls s c)))\<rparr>) = rooms s" for c
    by (intro rooms_cong) (auto simp: members_def fun_eq_iff setHostByUser_def split: option.splits)
  then show "rooms (snd (MakeHost callID user new s)) = rooms s"
    by (auto simp: MakeHost_def Let_def split_def pub split: sum.splits)
qed

lemma sim_RemoveSession:
  assumes inv: "svc_inv E s" and env: "env_ok E"
  shows "room_change (rooms s) (rooms (snd (RemoveSession E callID user sid s)))"
proof (cases "callForHostAction callID user s")
  case (Inl e)
  then show ?thesis by (simp add: RemoveSession_def)
next
  case (Inr c)
  define m where "m r = s\<lparr>sv_heap := snd (markRemoved r (sv_heap s))\<rparr>" for r
  have rm: "svc_inv E (m r)" for r
    using svc_inv_flag[OF inv, of "\<lambda>x. x\<lparr>ss_removed := v\<rparr>" v r for v]
    by (auto simp: m_def markRemoved_def split_def Let_def)
  have same: "rooms (m r) = rooms s" for r
    unfolding m_def by (rule rooms_heap_flag) (simp add: markRemoved_def split_def Let_def)
  have td: "room_change (rooms s) (rooms (teardownSession E c r t))" if "quiet (m r) t" for r t
    using sim_teardown[OF svc_inv_quiet[OF rm that] env, of c r] callForHostActionD(1)[OF inv Inr]
      quietD(5)[OF that] rooms_quiet[OF that] same by (simp add: m_def)
  show ?thesis
    using Inr same unfolding RemoveSession_def Let_def split_def m_def[symmetric]
    by (auto split: option.split intro!: td quiet_trans[OF quiet_output(3) quiet_output(4)])
qed

lemma sim_fireTimer:
  assumes inv: "svc_inv E s" and env: "env_ok E"
  shows "room_change (rooms s) (rooms (fireTimer E i s))"
proof (cases "i < length (sv_timers s)")
  case False
  then show ?thesis by (simp add: fireTimer_def)
next
  case True
  have ts: "\<forall>(c, conn, r) \<in> set (sv_timers s). c < sv_nextC s"
    using svc_invD(6)[OF inv] by (simp add: inv_index_def)
  obtain c conn r where t: "sv_timers s ! i = (c, conn, r)" by (cases "sv_timers s ! i")
  let ?s1 = "s\<lparr>sv_timers := take i (sv_timers s) @ drop (Suc i) (sv_timers s)\<rparr>"
  have "svc_inv E ?s1" using ts by (intro svc_inv_timers[OF inv]) (auto dest: in_set_takeD in_set_dropD)
  moreover have "c < sv_nextC ?s1" using ts nth_mem[OF True] t by auto
  moreover have "rooms ?s1 = rooms s" by (simp add: rooms_def fun_eq_iff)
  ultimately show ?thesis
    using True t sim_teardown[OF _ env, of ?s1 c r] by (simp add: fireTimer_def disconnectTimeout_def)
qed

text \<open>The idle reaper closes the rooms that are empty when it runs, and no other.\<close>

definition room_sweep :: "roomState \<Rightarrow> roomState" where
  "room_sweep R ch = (if R ch = Some Map.empty then None else R ch)"

lemma reapOne_fields:
  "sv_chan (reapOne E c s) = (if ended (sv_calls s c) \<or> participants (sv_calls s c) > 0 then sv_chan s
     else snd (ci_deleteIf (cs_channelID (sv_calls s c)) c (sv_chan s)))" (is ?A)
  "sv_heap (reapOne E c s) = sv_heap s" (is ?B)
  "cs_sessions (sv_calls (reapOne E c s) d) = cs_sessions (sv_calls s d)" (is ?C)
  "cs_channelID (sv_calls (reapOne E c s) d) = cs_channelID (sv_calls s d)" (is ?D)
proof -
  have "?A \<and> ?B \<and> ?C \<and> ?D"
  proof (cases "ended (sv_calls s c) \<or> participants (sv_calls s c) > 0")
    case True
    then show ?thesis by (auto simp: reapOne_def)
  next
    case False
    then have ne: "\<not> ended (sv_calls (tick s) c)" by (simp add: tick_def)
    obtain st where "quiet (endCore c (en_now E (sv_tick s)) st (tick s))
        (snd (endCallState E c (en_now E (sv_tick s)) (tick s)))"
      using endCallState_quiet[OF ne, of E "en_now E (sv_tick s)"] by blast
    moreover have "reapOne E c s = snd (endCallState E c (en_now E (sv_tick s)) (tick s))"
      using False by (simp add: reapOne_def GetMillis_def)
    ultimately show ?thesis
      using False by (simp add: quietD endCore_fields tick_def)
  qed
  then show ?A ?B ?C ?D by blast+
qed

lemma rooms_reapAll:
  assumes env: "env_ok E"
  shows "svc_inv E s \<Longrightarrow> \<forall>c \<in> set cs. c < sv_nextC s \<Longrightarrow> rooms (fold (reapOne E) cs s) ch =
    (if \<exists>c \<in> set cs. ci_get (sv_chan s) ch = Some c \<and> participants (sv_calls s c) = 0 then None else rooms s ch)"
proof (induction cs arbitrary: s)
  case Nil
  then show ?case by simp
next
  case (Cons c cs)
  let ?s = "reapOne E c s"
  have inv: "svc_inv E ?s" using Cons.prems by (intro svc_inv_reapOne env) simp_all
  have p: "participants (sv_calls ?s d) = participants (sv_calls s d)" for d
    by (simp add: participants_def reapOne_fields)
  note del = chan.look_del_if[OF inv_mapsD(2)[OF Cons.prems(1)], of "cs_channelID (sv_calls s c)" c ch]
  have chan: "ci_get (sv_chan ?s) ch = (if ci_get (sv_chan s) ch = Some c \<and> participants (sv_calls s c) = 0
      then None else ci_get (sv_chan s) ch)"
  proof (cases "ci_get (sv_chan s) ch = Some c")
    case True
    note inv_chanD(2,3)[OF Cons.prems(1) True]
    with True del show ?thesis unfolding reapOne_fields by simp
  next
    case False
    with del show ?thesis unfolding reapOne_fields by (cases "ch = cs_channelID (sv_calls s c)") simp_all
  qed
  have "members (sv_heap ?s) (sv_calls ?s d) = members (sv_heap s) (sv_calls s d)" for d
    by (simp add: members_def reapOne_fields fun_eq_iff)
  then have here: "rooms ?s ch = (if ci_get (sv_chan s) ch = Some c \<and> participants (sv_calls s c) = 0
      then None else rooms s ch)"
    unfolding rooms_def chan by simp
  have "rooms (fold (reapOne E) cs ?s) ch =
    (if \<exists>d \<in> set cs. ci_get (sv_chan ?s) ch = Some d \<and> participants (sv_calls ?s d) = 0 then None else rooms ?s ch)"
    using Cons.prems(2) by (intro Cons.IH inv) (simp add: reapOne_nextC)
  note rest = this[unfolded p chan]
  show ?case
  proof (cases "ci_get (sv_chan s) ch = Some c \<and> participants (sv_calls s c) = 0")
    case True
    with rest here show ?thesis by simp
  next
    case False
    then have "(\<exists>d \<in> set (c # cs). ci_get (sv_chan s) ch = Some d \<and> participants (sv_calls s d) = 0) \<longleftrightarrow>
        (\<exists>d \<in> set cs. ci_get (sv_chan s) ch = Some d \<and> participants (sv_calls s d) = 0)"
      unfolding set_simps by blast
    then show ?thesis using rest here unfolding if_not_P[OF False] fold_simps by (simp only:)
  qed
qed

lemma rooms_reapIdleCalls:
  assumes inv: "svc_inv E s" and env: "env_ok E"
  shows "rooms (reapIdleCalls E s) = room_sweep (rooms s)"
proof
  fix ch
  have all: "c \<in> set (reg_all (sv_shards s)) \<longleftrightarrow> (\<exists>k. reg_get (sv_shards s) k = Some c)" for c
    by (rule reg_all_iff[OF inv_mapsD(1)[OF inv]])
  have lt: "\<forall>c \<in> set (reg_all (sv_shards s)). c < sv_nextC s"
    using all inv_shardsD(1)[OF inv] by blast
  show "rooms (reapIdleCalls E s) ch = room_sweep (rooms s) ch"
  proof (cases "ci_get (sv_chan s) ch")
    case None
    then have "rooms s ch = None" by (simp add: rooms_def)
    with None show ?thesis
      by (simp add: reapIdleCalls_def rooms_reapAll[OF env inv lt] room_sweep_def)
  next
    case (Some c)
    have "c \<in> set (reg_all (sv_shards s))" using all inv_chanD(4)[OF inv Some] by blast
    moreover have "rooms s ch = Some Map.empty \<longleftrightarrow> participants (sv_calls s c) = 0"
      using members_participants[OF call_okD(1)[OF inv_callsD(1)[OF inv inv_chanD(1)[OF inv Some]]]] Some
      by (simp add: rooms_def)
    ultimately show ?thesis
      using Some by (simp add: reapIdleCalls_def rooms_reapAll[OF env inv lt] room_sweep_def)
  qed
qed

lemma rooms_lifecycle:
  "rooms (HandleWSDisconnect connID user s) = rooms s"
  "rooms (Start s) = rooms s" "rooms (Stop s) = rooms s" "rooms (rtcdInitDone kicked s) = rooms s"
  "rooms (rtcdInitGaveUp kicked s) = rooms s" "rooms (s\<lparr>sv_cfg := cfg\<rparr>) = rooms s"
  by (auto simp: rooms_def fun_eq_iff HandleWSDisconnect_def Start_def Stop_def rtcdInitDone_def
      rtcdInitGaveUp_def Let_def split: option.splits)

lemma rooms_reorder:
  assumes "svc_inv E s" and "c < sv_nextC s" and "mset order = mset (cs_sessions (sv_calls s c))"
  shows "rooms (s\<lparr>sv_calls := (sv_calls s)(c := (sv_calls s c)\<lparr>cs_sessions := order\<rparr>)\<rparr>) = rooms s"
  using mset_map_of(2)[OF assms(3) call_okD(1)[OF inv_callsD(1)[OF assms(1,2)]]]
  by (intro rooms_cong) (auto simp: members_def fun_eq_iff)

lemma sim_step:
  assumes "svc_step E s t" and inv: "svc_inv E s" and env: "env_ok E"
  shows "room_change (rooms s) (rooms t) \<or> rooms t = room_sweep (rooms s)"
  using assms(1)
proof cases
  case (client connID user action d)
  then show ?thesis using sim_HandleClientMessage[OF inv env] by simp
next
  case (sfu msg)
  then show ?thesis using sim_handleRTCDMessage[OF inv env] by simp
next
  case (startCall ch owner post)
  then show ?thesis using sim_StartCall[OF inv env] by simp
next
  case (endByHost callID user)
  then show ?thesis using sim_EndCall[OF inv] by (auto simp: EndCallByHost_def split: sum.split)
next
  case reap
  then show ?thesis using rooms_reapIdleCalls[OF inv env] by simp
next
  case (setChannel ch en user)
  then have "quiet s t" by simp
  then show ?thesis by (simp add: rooms_quiet)
next
  case (dismiss ch user)
  then have "quiet s t" by simp
  then show ?thesis by (simp add: rooms_quiet)
qed (use inv env in \<open>simp_all add: sim_EndCall sim_RemoveSession sim_fireTimer rooms_hostControls
      rooms_lifecycle rooms_reorder\<close>)

section \<open>Views of a call\<close>

lemma callStateView_simps:
  "cv_Sessions (callStateView c s) = fst (snapshot (sv_heap s) (sv_calls s c))"
  "cv_Participants (callStateView c s) = length (fst (snapshot (sv_heap s) (sv_calls s c)))"
  "cv_HostSessionID (callStateView c s) = cs_hostSessionID (sv_calls s c)"
  by (simp_all add: callStateView_def split_def Let_def snapshot_def)

lemma call_ok_mem: "call_ok h cs \<Longrightarrow> (sid, r) \<in> set (cs_sessions cs) \<Longrightarrow> ss_sessionID (h r) = sid"
  by (auto simp: call_ok_def session_ok_def)

lemma snapshot_ids:
  assumes "call_ok h cs"
  shows "map sw_ID (fst (snapshot h cs)) = map fst (cs_sessions cs)"
  using call_ok_mem[OF assms] by (auto simp: snapshot_def session_view_def)

lemma filter_key_distinct:
  "distinct (map fst m) \<Longrightarrow> map fst (filter (\<lambda>e. fst e = k) m) = (if k \<in> fst ` set m then [k] else [])"
  by (induction m) (auto simp: filter_empty_conv rev_image_eqI)

lemma snapshot_host:
  assumes "call_ok h cs"
  shows "map sw_ID (filter sw_IsHost (fst (snapshot h cs)))
    = map fst (filter (\<lambda>e. fst e = cs_hostSessionID cs) (cs_sessions cs))"
proof -
  have "filter sw_IsHost (fst (snapshot h cs)) = map (\<lambda>(sid, r). session_view (h r) (sid = cs_hostSessionID cs))
      (filter (\<lambda>e. fst e = cs_hostSessionID cs) (cs_sessions cs))"
    by (simp add: snapshot_def filter_map comp_def split_def session_view_def)
  then show ?thesis using call_ok_mem[OF assms] by (auto simp: session_view_def split_def)
qed

lemma callStateView_coherent:
  assumes ok: "call_ok (sv_heap s) (sv_calls s c)"
  defines "v \<equiv> callStateView c s"
  shows "cv_Participants v = length (cv_Sessions v) \<and> distinct (map sw_ID (cv_Sessions v))
    \<and> (cv_HostSessionID v = '''' \<longleftrightarrow> cv_Sessions v = [])
    \<and> map sw_ID (filter sw_IsHost (cv_Sessions v)) = (if cv_Sessions v = [] then [] else [cv_HostSessionID v])"
proof -
  have e: "cv_Sessions v = [] \<longleftrightarrow> cs_sessions (sv_calls s c) = []"
    by (simp add: v_def callStateView_simps snapshot_def)
  show ?thesis
    unfolding e using call_okD(1,3)[OF ok]
    by (auto simp: v_def callStateView_simps snapshot_ids[OF ok] snapshot_host[OF ok] filter_key_distinct
        host_ok_def map_of_eq_None_iff split: if_splits)
qed

lemma callStateView_one_sharer:
  assumes ok: "call_ok (sv_heap s) (sv_calls s c)" and one: "one_sharer (sv_heap s) (sv_calls s c)"
  shows "length (filter sw_ScreenOn (cv_Sessions (callStateView c s))) \<le> 1"
proof -
  let ?h = "sv_heap s" and ?m = "cs_sessions (sv_calls s c)"
  define sh where "sh = filter (\<lambda>e. ss_screenOn (?h (snd e))) ?m"
  have "length (filter sw_ScreenOn (cv_Sessions (callStateView c s))) = length sh"
    by (simp add: callStateView_simps snapshot_def filter_map comp_def split_def session_view_def sh_def)
  moreover have "distinct (map fst sh)" unfolding sh_def by (rule distinct_map_filter[OF call_okD(1)[OF ok]])
  moreover have "a = b" if "a \<in> set (map fst sh)" "b \<in> set (map fst sh)" for a b
    using that one by (fastforce simp: sh_def one_sharer_def)
  ultimately show ?thesis
    by (metis One_nat_def length_map card_le_Suc0_iff_eq distinct_card finite_set)
qed

section \<open>Starting and ending a call, as a caller sees it\<close>

lemma GetCallState_cong:
  assumes "svc_inv E s" and "reg_get (sv_shards t) = reg_get (sv_shards s)" and "sv_heap t = sv_heap s"
    and "\<And>c. c < sv_nextC s \<Longrightarrow> sv_calls t c = sv_calls s c"
  shows "GetCallState k t = GetCallState k s"
  using assms(2-) inv_shardsD(1)[OF assms(1), of k]
  by (auto simp: GetCallState_def callStateView_def split_def Let_def split: option.splits)

lemma StartCall_failure_output:
  assumes "StartCall E ch owner post s = (Inl e, t)"
  shows "sv_events t = sv_events s \<and> sv_posts t = sv_posts s \<and> sv_callRows t = sv_callRows s \<and> sv_sfu t = sv_sfu s"
proof -
  have out: "sv_events (snd (db_Call_Save E c u)) = sv_events u" "sv_posts (snd (db_Call_Save E c u)) = sv_posts u"
    "sv_sfu (snd (db_Call_Save E c u)) = sv_sfu u" for c u
    by (simp_all add: db_Call_Save_def GetMillis_def tick_def split_def Let_def)
  have rows: "sv_callRows (snd (db_Call_Save E c u)) = sv_callRows u" if "fst (db_Call_Save E c u) = Inl e'" for c u e'
    using that calls.save_cases[of "en_now E (sv_tick u)" "en_db E (Suc (sv_tick u))" c "sv_callRows u"]
    by (auto simp: db_Call_Save_def GetMillis_def tick_def split_def Let_def)
  show ?thesis
    using assms
    by (auto simp: StartCall_def assignHost_def registerCall_def GetMillis_def NewId_def tick_def Let_def split_def
        out rows split: if_splits option.splits sum.splits)
qed

lemma StartCall_failure_state:
  assumes inv: "svc_inv E s" and env: "env_ok E" and f: "StartCall E ch owner post s = (Inl e, t)"
  shows "reg_get (sv_shards t) = reg_get (sv_shards s) \<and> sv_chan t = sv_chan s \<and> sv_index t = sv_index s
    \<and> sv_heap t = sv_heap s \<and> (\<forall>c < sv_nextC s. sv_calls t c = sv_calls s c)"
  using inv env
proof (cases rule: StartCall_cases[where ch = ch and owner = owner and post = post])
  case (refused e s')
  then show ?thesis using f by (simp add: quietD)
next
  case (rollback e s' n host u)
  have fresh: "reg_get (sv_shards s) (en_newId E n) = None"
    by (rule fresh_unregistered[OF inv env rollback(2)])
  note d = quietD[OF rollback(4)]
  have "reg_get (sv_shards s') = reg_get (sv_shards s)"
    using d sharded.put_then_del_if[OF inv_mapsD(1)[OF inv] fresh] by (simp add: rollbackCore_def newCore_def)
  then show ?thesis using f rollback(1) d by (simp add: rollbackCore_def newCore_def)
qed (use f in simp_all)

lemma endCallState_sessRows:
  assumes "\<not> ended (sv_calls s c)"
  shows "\<exists>u. sv_sessRows (snd (endCallState E c now s)) =
    sv_sessRows (db_EndOpenSessions E (cs_callID (sv_calls s c)) now u)"
  using assms
  by (auto simp: endCallState_def markEnded_def ended_def split_def Let_def broadcast_def)

lemma distinct_filter_key: "distinct (map f xs) \<Longrightarrow> length (filter (\<lambda>e. f e = x) xs) \<le> 1"
proof (induction xs)
  case (Cons a xs)
  then have "filter (\<lambda>e. f e = x) xs = []" if "f a = x"
    using that unfolding filter_empty_conv by (auto simp: rev_image_eqI)
  with Cons show ?case by auto
qed simp

lemma ends_at_most_once:
  assumes "svc_inv E s"
  shows "length (filter (\<lambda>e. ev_name e = ''call_end'' \<and> map_of (ev_data e) ''call_id'' = x) (sv_events s)) \<le> 1"
proof -
  have "distinct (map endKey (ends s))" using svc_invD(7)[OF assms] by (simp add: inv_ends_def)
  from distinct_filter_key[OF this] have "length (filter (\<lambda>e. endKey e = x) (ends s)) \<le> 1" .
  then show ?thesis by (simp add: ends_def endKey_def conj_commute)
qed

lemma stats_at_most_once:
  assumes "svc_inv E s" and "c < sv_nextC s"
  shows "length (filter (\<lambda>r. st_CallID r = cs_callID (sv_calls s c)) (sv_statRows s)) \<le> 1"
proof -
  have "count_list (map st_CallID xs) k = length (filter (\<lambda>r. st_CallID r = k) xs)" for xs :: "CallStat list" and k
    by (induction xs) auto
  moreover have "count_list (map st_CallID (sv_statRows s)) (cs_callID (sv_calls s c)) \<le> 1"
    using svc_invD(8)[OF assms(1)] assms(2) by (simp add: inv_stats_def)
  ultimately show ?thesis by simp
qed

lemma live_not_recorded:
  assumes inv: "svc_inv E s" and v: "GetCallState k s = Inr v"
  shows "(\<forall>e \<in> set (sv_events s). ev_name e = ''call_end'' \<longrightarrow> map_of (ev_data e) ''call_id'' \<noteq> Some (VStr k))
    \<and> k \<notin> st_CallID ` set (sv_statRows s)"
proof -
  obtain c where "reg_get (sv_shards s) k = Some c" using v by (auto simp: GetCallState_def split: option.splits)
  note C = inv_shardsD[OF inv this]
  have "k \<notin> st_CallID ` set (sv_statRows s)" using svc_invD(8)[OF inv] C by (auto simp: inv_stats_def)
  moreover have "endKey e \<noteq> Some (VStr k)" if mem: "e \<in> set (ends s)" for e
  proof
    assume "endKey e = Some (VStr k)"
    then obtain d where "d < sv_nextC s" "ended (sv_calls s d)" "cs_callID (sv_calls s d) = cs_callID (sv_calls s c)"
      using inv_endsD[OF inv mem] unfolding C(2) by auto
    with inv_idsD[OF inv C(1)] C(3) show False by blast
  qed
  ultimately show ?thesis by (auto simp: ends_def endKey_def)
qed

lemma StartCall_again:
  assumes inv: "svc_inv E s" and env: "env_ok E" and r: "StartCall E ch owner post s = (Inr r, t)" and o: "owner' \<noteq> ''''"
  shows "\<exists>at. StartCall E ch owner' post' t = (Inr (r\<lparr>sr_StartAt := at\<rparr>), t)"
  using inv env
proof (cases rule: StartCall_cases[where ch = ch and owner = owner and post = post])
  case (reused c)
  then have "StartCall E ch owner' post' t = (Inr (r\<lparr>sr_StartAt := sr_StartAt r\<rparr>), t)"
    using r o inv_chanD(3)[OF inv reused(1)] by (auto simp: StartCall_def ci_getLive_def)
  then show ?thesis by blast
next
  case (started s' n host u now)
  note d = quietD[OF started(4)]
  have "ci_get (sv_chan t) ch = Some (sv_nextC s)" "sv_calls t (sv_nextC s) = newCallState (en_newId E n) ch host u"
    "enabled (sv_cfg t)"
    using d started(1,8) r chan.look_put[OF inv_mapsD(2)[OF inv]] by (simp_all add: startCore_def newCore_def)
  then have "StartCall E ch owner' post' t = (Inr (r\<lparr>sr_StartAt := u\<rparr>), t)"
    using r started(1,6) o
    by (simp add: StartCall_def ci_getLive_def newCallState_def ended_def resultOf_def)
  then show ?thesis by blast
qed (use r in simp_all)


text \<open>The call that \<^verbatim>\<open>EndCall\<close> ends and the state it starts from, in closed form.\<close>

lemma EndCall_core:
  assumes inv: "svc_inv E s" and env: "env_ok E" and c: "reg_get (sv_shards s) k = Some c"
  shows "\<exists>st. fst (EndCall E k s) = None \<and> quiet (endCore c (en_now E (sv_tick s)) st (tick s)) (snd (EndCall E k s))"
proof -
  have "\<not> ended (sv_calls (tick s) c)" using inv_shardsD(3)[OF inv c] by (simp add: tick_def)
  from endCallState_quiet[OF this, of E "en_now E (sv_tick s)"] show ?thesis
    using c by (auto simp: EndCall_def GetMillis_def)
qed

lemma EndCall_run:
  assumes "svc_inv E s" and "env_ok E" and "reg_get (sv_shards s) k = Some c"
  shows "fst (EndCall E k s) = None"
  using EndCall_core[OF assms] by blast

lemma EndCall_gone:
  assumes inv: "svc_inv E s" and env: "env_ok E" and c: "reg_get (sv_shards s) k = Some c"
  shows "GetCallState k (snd (EndCall E k s)) = Inl ErrCallNotFound"
    and "EndCall E k (snd (EndCall E k s)) = (Some ErrCallNotFound, snd (EndCall E k s))"
proof -
  obtain st where q: "quiet (endCore c (en_now E (sv_tick s)) st (tick s)) (snd (EndCall E k s))"
    using EndCall_core[OF assms] by blast
  have "reg_get (sv_shards (snd (EndCall E k s))) k = None"
    using quietD(6)[OF q] c inv_shardsD(2)[OF inv c] sharded.look_del_if[OF inv_mapsD(1)[OF inv]]
    by (simp add: endCore_def Let_def tick_def)
  then show "GetCallState k (snd (EndCall E k s)) = Inl ErrCallNotFound"
    "EndCall E k (snd (EndCall E k s)) = (Some ErrCallNotFound, snd (EndCall E k s))"
    by (simp_all add: GetCallState_def EndCall_def)
qed

lemma EndCall_rooms:
  assumes inv: "svc_inv E s" and env: "env_ok E" and c: "reg_get (sv_shards s) k = Some c"
  shows "rooms (snd (EndCall E k s)) = (rooms s)(cv_ChannelID (callStateView c s) := None)"
proof -
  have i: "svc_inv E (tick s)" by (rule svc_inv_quiet[OF inv quiet_tick])
  have "\<not> ended (sv_calls (tick s) c)" using inv_shardsD(3)[OF inv c] by (simp add: tick_def)
  from rooms_endCallState[OF i this, of "en_now E (sv_tick s)"] show ?thesis
    using c inv_shardsD(4)[OF inv c] rooms_quiet[OF quiet_tick[of s]]
    by (simp add: EndCall_def GetMillis_def tick_def callStateView_def split_def Let_def)
qed

lemma EndCall_event:
  assumes inv: "svc_inv E s" and env: "env_ok E" and c: "reg_get (sv_shards s) k = Some c"
  shows "length (filter (\<lambda>e. ev_name e = ''call_end'' \<and> map_of (ev_data e) ''call_id'' = Some (VStr k))
    (sv_events (snd (EndCall E k s)))) = 1"
proof -
  obtain st where q: "quiet (endCore c (en_now E (sv_tick s)) st (tick s)) (snd (EndCall E k s))"
    using EndCall_core[OF assms] by blast
  have "ends (snd (EndCall E k s)) = ends s @ [endEvent (sv_calls s c) (en_now E (sv_tick s))]"
    using quietD(12)[OF q] inv_shardsD(4)[OF inv c]
    by (simp add: endCore_def Let_def tick_def ends_def endEvent_def)
  moreover have "filter (\<lambda>e. endKey e = Some (VStr k)) (ends s) = []"
    using live_not_recorded[OF inv, of k "callStateView c s"] c
    by (auto simp: filter_empty_conv GetCallState_def ends_def endKey_def)
  ultimately have "length (filter (\<lambda>e. endKey e = Some (VStr k)) (ends (snd (EndCall E k s)))) = 1"
    using inv_shardsD(2)[OF inv c] by (simp add: endEvent_def endKey_def)
  then show ?thesis by (simp add: ends_def endKey_def conj_commute)
qed

lemma EndCall_rows:
  assumes inv: "svc_inv E s" and env: "env_ok E" and c: "reg_get (sv_shards s) k = Some c" and db: "\<forall>n. \<not> en_db E n"
  shows "\<forall>r \<in> set (sv_sessRows (snd (EndCall E k s))). se_CallID r = k \<longrightarrow> se_EndAt r \<noteq> 0"
proof -
  have "\<not> ended (sv_calls (tick s) c)" using inv_shardsD(3)[OF inv c] by (simp add: tick_def)
  from endCallState_sessRows[OF this, of E "en_now E (sv_tick s)"]
  obtain u where u: "sv_sessRows (snd (EndCall E k s)) = sv_sessRows (db_EndOpenSessions E k (en_now E (sv_tick s)) u)"
    using c inv_shardsD(2)[OF inv c] by (auto simp: EndCall_def GetMillis_def tick_def)
  have "en_now E (sv_tick s) \<noteq> 0" using env by (metis env_ok_def less_irrefl)
  from EndOpenSessions_done[OF this, of k] show ?thesis
    unfolding u using db by (auto simp: db_EndOpenSessions_def tick_def)
qed

lemma EndCall_index:
  assumes inv: "svc_inv E s" and env: "env_ok E" and c: "reg_get (sv_shards s) k = Some c"
  shows "\<forall>w \<in> set (cv_Sessions (callStateView c s)). bySessionID (sv_index (snd (EndCall E k s))) (sw_ID w) = None"
proof -
  obtain st where q: "quiet (endCore c (en_now E (sv_tick s)) st (tick s)) (snd (EndCall E k s))"
    using EndCall_core[OF assms] by blast
  have "sw_ID ` set (cv_Sessions (callStateView c s)) = fst ` set (cs_sessions (sv_calls s c))"
    using arg_cong[OF snapshot_ids[OF inv_callsD(1)[OF inv inv_shardsD(1)[OF inv c]]], of set]
    by (simp add: callStateView_simps)
  then show ?thesis
    using quietD(7)[OF q] by (auto simp: bySessionID_def endCore_def Let_def tick_def unlinkAll_bySession sessionIDs_def)
qed

end
