(* ===== verification/Calls_Members.thy ===== *)
theory Calls_Members
  imports Calls_Rooms
begin

text \<open>
  What one participant or the host obtains: the connection of a join finds its session, leaving undoes
  joining, a reconnect moves the session to the new connection and disarms the old one, and the host
  controls reach exactly the sessions they name.
\<close>

section \<open>Joining and leaving\<close>

lemma handleJoin_bound:
  assumes inv: "svc_inv E s" and env: "env_ok E" and conn: "connID \<noteq> ''''"
    and run: "handleJoin E connID user d s = (None, t)"
  obtains c r where "ci_get (sv_chan t) (getString d ''channelID'') = Some c"
    "byConnID (sv_index t) connID = Some c" "findByConn connID (sv_calls t c) = Some r"
    "cs_get connID (sv_calls t c) = Some r"
    "ss_sessionID (sv_heap t r) = connID" "ss_userID (sv_heap t r) = user" "ss_connID (sv_heap t r) = connID"
  using inv env conn
proof (cases rule: handleJoin_cases[where user = user and d = d])
  case (joined s2 now c res s1 h prev cs s')
  note q = quietD[OF joined(11)]
  have t: "t = s'" using joined(8) run by simp
  have new: "h (sv_nextS s2) = (newSession connID user (getString d ''channelID'') now)\<lparr>ss_callID := sr_CallID res\<rparr>"
    by (simp add: joined(6))
  have "findByConn connID cs = Some (sv_nextS s2) \<and> cs_get connID cs = Some (sv_nextS s2)"
    using joined(7) conn new
    by (cases rule: addSession_cases[of connID "sv_nextS s2" "maxParticipants (sv_cfg s)" h "sv_calls s1 c"])
      (auto simp: findByConn_def cs_get_def newSession_def)
  moreover have "byConnID (sv_index t) connID = Some c"
    using q conn by (simp add: t byConnID_def link_def)
  ultimately show ?thesis
    using that[of c "sv_nextS s2"] joined(5) q new by (simp add: t newSession_def)
qed (use run in simp_all)

lemma handleLeave_exits:
  assumes inv: "svc_inv E s" and ch: "getString d ''channelID'' \<noteq> ''''"
    and c: "ci_get (sv_chan s) (getString d ''channelID'') = Some c"
    and r: "findByConn connID (sv_calls s c) = Some r"
    and m: "cs_get (ss_sessionID (sv_heap s r)) (sv_calls s c) \<noteq> None"
  shows "fst (handleLeave E connID user d s) = None"
    and "rooms (snd (handleLeave E connID user d s))
      = room_exit (getString d ''channelID'') (ss_sessionID (sv_heap s r)) (rooms s)"
  using assms rooms_teardown[OF inv c, of r] m by (simp_all add: handleLeave_def Let_def cs_get_def)

lemma room_exit_enter:
  assumes "\<And>m. R ch = Some m \<Longrightarrow> m sid = None"
  shows "room_exit ch sid (room_enter ch sid user R) = (if R ch = Some Map.empty then R(ch := None) else R)"
proof (cases "R ch")
  case None
  then show ?thesis by (auto simp: room_exit_def room_enter_def fun_eq_iff)
next
  case (Some m)
  from assms[OF Some] have "m(sid := None) = m" by (rule fun_upd_idem)
  with Some show ?thesis by (auto simp: room_exit_def room_enter_def fun_eq_iff)
qed

section \<open>Reconnecting\<close>

lemma reconnect_effect:
  assumes inv: "svc_inv E s" and conn: "connID \<noteq> ''''" and run: "handleReconnect E connID user d s = (None, t)"
  obtains c r where "ci_get (sv_chan s) (getString d ''channelID'') = Some c"
    "cs_get (getString d ''originalConnID'') (sv_calls s c) = Some r" "ss_userID (sv_heap s r) = user"
    "sv_heap t = (sv_heap s)(r := (sv_heap s r)\<lparr>ss_connID := connID\<rparr>)" "sv_timers t = sv_timers s"
    "ss_sessionID (sv_heap s r) = getString d ''originalConnID''"
    "byConnID (sv_index t) connID = Some c"
    "findByConn connID (sv_calls t c) = Some r"
    "ss_connID (sv_heap s r) \<notin> {'''', connID} \<longrightarrow> findByConn (ss_connID (sv_heap s r)) (sv_calls t c) = None"
proof (cases rule: handleReconnect_cases[of E connID user d s])
  case (refused e)
  with run show ?thesis by simp
next
  case (moved c q h cs s')
  note d' = quietD[OF moved(6)]
  have t: "t = s'" using moved(5) run by simp
  show ?thesis
    using moved(4)
  proof (cases rule: setConn_cases[of "sv_calls s c" "ss_sessionID (sv_heap s q)" connID "sv_heap s"])
    case absent
    with moved(4) show ?thesis by simp
  next
    case sc: (moved r cs')
    have "ss_sessionID (sv_heap s q) = getString d ''originalConnID''"
      using call_okD(4)[OF inv_callsD(1)[OF inv inv_chanD(1)[OF inv moved(1)]] moved(2)] by (simp add: session_ok_def)
    with sc(1) moved(2) have r: "r = q" and sid: "ss_sessionID (sv_heap s q) = getString d ''originalConnID''" by auto
    have h: "h = (sv_heap s)(q := (sv_heap s q)\<lparr>ss_connID := connID\<rparr>)" "cs = cs'" using sc(2) moved(4) by (auto simp: r)
    have find: "findByConn connID cs = Some q"
      "ss_connID (sv_heap s q) \<notin> {'''', connID} \<longrightarrow> findByConn (ss_connID (sv_heap s q)) cs = None"
      using sc(4) conn by (simp_all add: findByConn_def h(2) r Let_def)
    have "byConnID (sv_index t) connID = Some c"
      using d' conn by (simp add: t byConnID_def repoint_def Let_def)
    then show ?thesis
      using that[of c q] moved(1,2,3) d' h find sid by (simp add: t cs_get_def)
  qed
qed

section \<open>Host controls\<close>

lemma hostUserID_view:
  assumes ok: "call_ok (sv_heap s) (sv_calls s c)" and u: "hostUserID (sv_heap s) (sv_calls s c) = user" and ne: "user \<noteq> ''''"
  shows "\<exists>w \<in> set (cv_Sessions (callStateView c s)). sw_IsHost w \<and> sw_UserID w = user"
proof -
  let ?cs = "sv_calls s c"
  obtain r where r: "gm_get (cs_sessions ?cs) (cs_hostSessionID ?cs) = Some r" and ur: "ss_userID (sv_heap s r) = user"
    using u ne by (auto simp: hostUserID_def split: if_splits option.splits)
  have "session_view (sv_heap s r) True \<in> set (cv_Sessions (callStateView c s))"
    using map_of_SomeD[OF r] by (force simp: callStateView_simps snapshot_def)
  then show ?thesis using ur by (force simp: session_view_def)
qed

lemma not_host_refused:
  assumes inv: "svc_inv E s" and v: "GetCallState k s = Inr v" and ne: "user \<noteq> ''''"
    and no: "\<forall>w \<in> set (cv_Sessions v). sw_IsHost w \<longrightarrow> sw_UserID w \<noteq> user"
  shows "callForHostAction k user s = Inl ErrNotCallHost"
proof -
  obtain c where c: "reg_get (sv_shards s) k = Some c" and vc: "v = callStateView c s"
    using v by (auto simp: GetCallState_def split: option.splits)
  have "hostUserID (sv_heap s) (sv_calls s c) \<noteq> user"
    using hostUserID_view[OF inv_callsD(1)[OF inv inv_shardsD(1)[OF inv c]] _ ne] no vc by blast
  then show ?thesis using c by (simp add: callForHostAction_def)
qed

text \<open>One successful mute: the flag of the addressed session, nothing else of the heap or the calls.\<close>

definition mutedHeap :: "sref \<Rightarrow> sheap \<Rightarrow> sheap" where
  "mutedHeap r h = h(r := (h r)\<lparr>ss_unmuted := False\<rparr>)"

lemma muteOne_ok:
  assumes "cs_get sid (sv_calls s c) = Some r" and "sv_rtcd s" and "cs_rtcdHost (sv_calls s c) \<noteq> ''''"
    and "\<forall>n. \<not> en_send E n"
  shows "fst (muteOne E c sid s) = None \<and> sv_heap (snd (muteOne E c sid s)) = mutedHeap r (sv_heap s)
    \<and> sv_calls (snd (muteOne E c sid s)) = sv_calls s \<and> sv_shards (snd (muteOne E c sid s)) = sv_shards s
    \<and> sv_rtcd (snd (muteOne E c sid s)) = sv_rtcd s"
  using assms
  by (simp add: muteOne_def sendToHost_def Let_def tick_def mutateSession_def mutate_def cs_get_def
      publishTo_def publishChannel_def broadcast_def mutedHeap_def)

definition toMute :: "string \<Rightarrow> SessionView \<Rightarrow> bool" where
  "toMute user w \<longleftrightarrow> sw_Unmuted w \<and> sw_UserID w \<noteq> user"

lemma muteViews_ok:
  assumes "\<forall>w \<in> set vs. cs_get (sw_ID w) (sv_calls s c) = Some (f w)" and "sv_rtcd s"
    and "cs_rtcdHost (sv_calls s c) \<noteq> ''''" and send: "\<forall>n. \<not> en_send E n"
  shows "sv_heap (fold (muteView E c user) vs s) = fold (\<lambda>w h. if toMute user w then mutedHeap (f w) h else h) vs (sv_heap s)
    \<and> sv_calls (fold (muteView E c user) vs s) = sv_calls s \<and> sv_shards (fold (muteView E c user) vs s) = sv_shards s"
  using assms(1-3)
proof (induction vs arbitrary: s)
  case Nil
  then show ?case by simp
next
  case (Cons w vs)
  let ?s = "muteView E c user w s"
  have "sv_heap ?s = (if toMute user w then mutedHeap (f w) (sv_heap s) else sv_heap s)
    \<and> sv_calls ?s = sv_calls s \<and> sv_shards ?s = sv_shards s \<and> sv_rtcd ?s = sv_rtcd s"
    using Cons.prems muteOne_ok[where sid = "sw_ID w" and r = "f w" and s = s and c = c and E = E] send
    by (auto simp: muteView_def toMute_def)
  with Cons.IH[of ?s] Cons.prems show ?case by simp
qed

lemma fold_mute:
  "fold (\<lambda>w h. if toMute user w then mutedHeap (f w) h else h) vs h r =
     (if \<exists>w \<in> set vs. toMute user w \<and> f w = r then (h r)\<lparr>ss_unmuted := False\<rparr> else h r)"
  by (induction vs arbitrary: h) (auto simp: mutedHeap_def)

lemma muteOthers_heap:
  assumes inv: "svc_inv E s" and h: "callForHostAction k user s = Inr c" and up: "sv_rtcd s"
    and host: "cs_rtcdHost (sv_calls s c) \<noteq> ''''" and send: "\<forall>n. \<not> en_send E n"
    and t: "t = snd (MuteOthers E k user s)"
  shows "sv_shards t = sv_shards s" and "sv_calls t = sv_calls s"
    and "(sid, r) \<in> set (cs_sessions (sv_calls s c)) \<Longrightarrow> sv_heap t r =
      (if ss_unmuted (sv_heap s r) \<and> ss_userID (sv_heap s r) \<noteq> user then (sv_heap s r)\<lparr>ss_unmuted := False\<rparr> else sv_heap s r)"
proof -
  let ?cs = "sv_calls s c" and ?vs = "fst (snapshot (sv_heap s) (sv_calls s c))"
  note ok = inv_callsD(1)[OF inv callForHostActionD(1)[OF inv h]]
  define f where "f w = the (cs_get (sw_ID w) ?cs)" for w :: SessionView
  have mem: "gm_get (cs_sessions ?cs) (ss_sessionID (sv_heap s q)) = Some q" if "(i, q) \<in> set (cs_sessions ?cs)" for i q
    using that call_ok_mem[OF ok that] call_okD(1)[OF ok] by simp
  have look: "cs_get (sw_ID w) ?cs = Some (f w) \<and> toMute user w = (ss_unmuted (sv_heap s (f w)) \<and> ss_userID (sv_heap s (f w)) \<noteq> user)"
    if "w \<in> set ?vs" for w
    using that mem by (auto simp: snapshot_def session_view_def f_def cs_get_def toMute_def)
  have run: "t = fold (muteView E c user) ?vs s" using t h by (simp add: MuteOthers_def)
  note all = muteViews_ok[where f = f and vs = ?vs and s = s and c = c and E = E and user = user, OF _ up host send, folded run]
  show "sv_shards t = sv_shards s" "sv_calls t = sv_calls s" using all look by auto
  assume sr: "(sid, r) \<in> set (cs_sessions ?cs)"
  have "\<exists>w \<in> set ?vs. f w = r" using sr mem[OF sr] by (force simp: snapshot_def session_view_def f_def cs_get_def)
  then have "(\<exists>w \<in> set ?vs. toMute user w \<and> f w = r) \<longleftrightarrow> ss_unmuted (sv_heap s r) \<and> ss_userID (sv_heap s r) \<noteq> user"
    using look by blast
  moreover have "sv_heap t r = fold (\<lambda>w h. if toMute user w then mutedHeap (f w) h else h) ?vs (sv_heap s) r"
    using all look by simp
  ultimately show "sv_heap t r = (if ss_unmuted (sv_heap s r) \<and> ss_userID (sv_heap s r) \<noteq> user
      then (sv_heap s r)\<lparr>ss_unmuted := False\<rparr> else sv_heap s r)"
    unfolding fold_mute by simp
qed

end
