(* ===== verification/Calls_Rtcd.thy ===== *)
theory Calls_Rtcd
  imports Prelude
begin

text \<open>
  The manager of the SFU hosts, \<^verbatim>\<open>channels/calls/rtcd_client.go\<close>, and the adapter of one control connection,
  \<^verbatim>\<open>rtcd_conn.go\<close>: configuration and credentials, discovery of the hosts by DNS, choice of a host for a new call,
  healing of dead connections, and the retry loop that brings the manager up (\<^verbatim>\<open>service.go\<close>).

  \<^item> The client of the vendored \<^verbatim>\<open>rtcd\<close> package, the resolver, URL parsing, the random source, the environment and the
    JSON form of the configuration are parameters, the record \<open>rtcdNet\<close>, asked at the tick of the statement. The
    result of \<^verbatim>\<open>Register\<close> is only logged; its effect shows in whether the next \<^verbatim>\<open>Connect\<close> succeeds.
  \<^item> The world keeps the tick, the clients that have been created and not closed, and the key-value store.
  \<^item> The goroutines that forward messages are not part of the state. An operation is one step; the connection state
    of all hosts is read at one tick.
\<close>

section \<open>Parameters and world\<close>

record ClientConfig =
  cc_ClientID :: string
  cc_AuthKey :: string
  cc_URL :: string
  cc_ReconnectInterval :: int

text \<open>What is used of a parsed URL; \<open>up_bare\<close> is its text without the user.\<close>

record urlParts =
  up_scheme :: string
  up_hostname :: string
  up_port :: string
  up_user :: "(string \<times> string) option"
  up_bare :: string

record rtcdNet =
  rn_now :: "nat \<Rightarrow> int"
  rn_parse :: "string \<Rightarrow> urlParts option"
  rn_lookup :: "nat \<Rightarrow> string \<Rightarrow> string list option"
  rn_newClient :: "nat \<Rightarrow> bool"
  rn_connect :: "nat \<Rightarrow> bool"
  rn_alive :: "nat \<Rightarrow> nat \<Rightarrow> bool"
  rn_close :: "nat \<Rightarrow> bool"
  rn_send :: "nat \<Rightarrow> bool"
  rn_random :: "nat \<Rightarrow> string option"
  rn_rand :: "nat \<Rightarrow> nat"
  rn_getenv :: "string \<Rightarrow> string"
  rn_kvGet :: "nat \<Rightarrow> bool"
  rn_kvSet :: "nat \<Rightarrow> bool"
  rn_marshal :: "ClientConfig \<Rightarrow> string option"
  rn_unmarshal :: "string \<Rightarrow> ClientConfig option"
  rn_clientID :: string

text \<open>The Boolean fields say that the statement fails, except \<open>rn_alive\<close>: whether a client is connected at a tick.\<close>

record rtcdWorld =
  rw_tick :: nat
  rw_next :: nat
  rw_open :: "nat list"
  rw_kv :: "string gomap"

definition rtick :: "rtcdWorld \<Rightarrow> rtcdWorld" where
  "rtick w = w\<lparr>rw_tick := rw_tick w + 1\<rparr>"

definition closeClient :: "rtcdNet \<Rightarrow> nat \<Rightarrow> rtcdWorld \<Rightarrow> string option \<times> rtcdWorld" where
  "closeClient N c w =
     (if rn_close N (rw_tick w) then Some ''rtcd: failed to close'' else None, (rtick w)\<lparr>rw_open := removeAll c (rw_open w)\<rparr>)"

section \<open>Adapter\<close>

text \<open>\<open>ad_addr\<close> is the address the dial function is pinned to; \<open>ad_closed\<close> that the bridge channels are closed.\<close>

record adapter =
  ad_cfg :: ClientConfig
  ad_addr :: string
  ad_client :: "nat option"
  ad_lastHealAt :: "int option"
  ad_closed :: bool

definition JoinHostPort :: "string \<Rightarrow> string \<Rightarrow> string" where
  "JoinHostPort host port =
     (if CHR '':'' \<in> set host then ''['' @ host @ '']:'' @ port else host @ '':'' @ port)"

definition newRTCDClientAdapter :: "ClientConfig \<Rightarrow> string \<Rightarrow> adapter" where
  "newRTCDClientAdapter cfg addr = \<lparr>ad_cfg = cfg, ad_addr = addr, ad_client = None, ad_lastHealAt = None, ad_closed = False\<rparr>"

definition Connected :: "rtcdNet \<Rightarrow> adapter \<Rightarrow> nat \<Rightarrow> bool" where
  "Connected N a k = (case ad_client a of None \<Rightarrow> False | Some c \<Rightarrow> rn_alive N k c)"

definition connectInternal :: "rtcdNet \<Rightarrow> bool \<Rightarrow> adapter \<Rightarrow> rtcdWorld \<Rightarrow> (string + bool) \<times> adapter \<times> rtcdWorld" where
  "connectInternal N force a w =
     (if ad_client a \<noteq> None \<and> \<not> force then (Inr (Connected N a (rw_tick w)), a, rtick w)
      else let (a1, w1) = (case ad_client a of None \<Rightarrow> (a, w) | Some c \<Rightarrow> (a\<lparr>ad_client := None\<rparr>, snd (closeClient N c w)))
           in if rn_newClient N (rw_tick w1) then (Inl ''rtcd: failed to create client'', a1, rtick w1)
              else let c = rw_next w1; w2 = (rtick w1)\<lparr>rw_next := c + 1, rw_open := c # rw_open w1\<rparr>; w3 = rtick w2
                   in if \<not> rn_connect N (rw_tick w2) then (Inr True, a1\<lparr>ad_client := Some c\<rparr>, w3)
                      else if \<not> rn_connect N (rw_tick w3) then (Inr True, a1\<lparr>ad_client := Some c\<rparr>, rtick w3)
                      else (Inl ''rtcd: failed to connect after register'', a1, snd (closeClient N c (rtick w3))))"

definition Connect :: "rtcdNet \<Rightarrow> adapter \<Rightarrow> rtcdWorld \<Rightarrow> string option \<times> adapter \<times> rtcdWorld" where
  "Connect N a w = (case connectInternal N False a w of (r, a1, w1) \<Rightarrow> (case r of Inl e \<Rightarrow> Some e | Inr _ \<Rightarrow> None, a1, w1))"

definition healThrottle :: int where
  "healThrottle = 5000"

definition Heal :: "rtcdNet \<Rightarrow> adapter \<Rightarrow> rtcdWorld \<Rightarrow> bool \<times> adapter \<times> rtcdWorld" where
  "Heal N a w =
     (if Connected N a (rw_tick w) then (True, a, rtick w)
      else let now = rn_now N (rw_tick w); w1 = rtick w
           in if (case ad_lastHealAt a of None \<Rightarrow> False | Some t \<Rightarrow> now - t < healThrottle)
              then (Connected N a (rw_tick w1), a, rtick w1)
              else case connectInternal N True (a\<lparr>ad_lastHealAt := Some now\<rparr>) w1 of
                     (r, a2, w2) \<Rightarrow> (case r of Inl _ \<Rightarrow> False | Inr b \<Rightarrow> b, a2, w2))"

definition clientOrConnect :: "rtcdNet \<Rightarrow> adapter \<Rightarrow> rtcdWorld \<Rightarrow> (string + nat) \<times> adapter \<times> rtcdWorld" where
  "clientOrConnect N a w =
     (case ad_client a of
        Some c \<Rightarrow>
          if rn_alive N (rw_tick w) c then (Inr c, a, rtick w)
          else (Inr c, a, rtick (rtick w))
      | None \<Rightarrow>
          (case Connect N a (rtick w) of
             (Some e, a1, w1) \<Rightarrow> (Inl e, a1, w1)
           | (None, a1, w1) \<Rightarrow>
               (case ad_client a1 of
                  None \<Rightarrow> (Inl ''rtcd: client closed during connect'', a1, w1)
                | Some c \<Rightarrow> (Inr c, a1, w1))))"

definition adapter_Send :: "rtcdNet \<Rightarrow> adapter \<Rightarrow> rtcdWorld \<Rightarrow> string option \<times> adapter \<times> rtcdWorld" where
  "adapter_Send N a w =
     (case clientOrConnect N a w of
        (Inl e, a1, w1) \<Rightarrow> (Some e, a1, w1)
      | (Inr c, a1, w1) \<Rightarrow> (if rn_send N (rw_tick w1) then Some ''rtcd: failed to send message'' else None, a1, rtick w1))"

definition adapter_Close :: "rtcdNet \<Rightarrow> adapter \<Rightarrow> rtcdWorld \<Rightarrow> string option \<times> adapter \<times> rtcdWorld" where
  "adapter_Close N a w =
     (case ad_client a of
        None \<Rightarrow> (None, a\<lparr>ad_closed := True\<rparr>, w)
      | Some c \<Rightarrow> (case closeClient N c w of (e, w1) \<Rightarrow> (e, a\<lparr>ad_client := None, ad_closed := True\<rparr>, w1)))"

section \<open>Configuration\<close>

definition rtcdConfigKVKey :: string where "rtcdConfigKVKey = ''calls_rtcd_config''"

definition configStore_store :: "rtcdNet \<Rightarrow> ClientConfig \<Rightarrow> rtcdWorld \<Rightarrow> rtcdWorld" where
  "configStore_store N cfg w =
     (case rn_marshal N cfg of
        None \<Rightarrow> w
      | Some data \<Rightarrow> if rn_kvSet N (rw_tick w) then rtick w else (rtick w)\<lparr>rw_kv := gm_set rtcdConfigKVKey data (rw_kv w)\<rparr>)"

definition configStore_load :: "rtcdNet \<Rightarrow> rtcdWorld \<Rightarrow> ClientConfig option" where
  "configStore_load N w =
     (if rn_kvGet N (rw_tick w) then None
      else case gm_get (rw_kv w) rtcdConfigKVKey of
             None \<Rightarrow> None
           | Some data \<Rightarrow> if data = '''' then None else rn_unmarshal N data)"

definition trimSlash :: "string \<Rightarrow> string" where
  "trimSlash s = (if s \<noteq> [] \<and> last s = CHR ''/'' then butlast s else s)"

definition parseURL :: "rtcdNet \<Rightarrow> string \<Rightarrow> (string \<times> string \<times> string) option" where
  "parseURL N raw =
     (if raw = '''' then Some ('''', '''', '''')
      else case rn_parse N raw of
             None \<Rightarrow> None
           | Some u \<Rightarrow> Some (up_bare u, case up_user u of None \<Rightarrow> '''' | Some (i, _) \<Rightarrow> i, case up_user u of None \<Rightarrow> '''' | Some (_, p) \<Rightarrow> p))"

definition resolveClientConfig :: "rtcdNet \<Rightarrow> string \<Rightarrow> string \<Rightarrow> rtcdWorld \<Rightarrow> (string + ClientConfig) \<times> rtcdWorld" where
  "resolveClientConfig N rtcdURL clientIDFallback w =
     (let envID = rn_getenv N ''MM_CALLS_RTCD_CLIENT_ID''; envKey = rn_getenv N ''MM_CALLS_RTCD_AUTH_KEY'';
          interval = int (rn_rand N (rw_tick w) mod 5000); w1 = rtick w
      in case parseURL N (trimSlash rtcdURL) of
           None \<Rightarrow> (Inl ''failed to parse rtcd URL'', w1)
         | Some (u, embeddedID, embeddedKey) \<Rightarrow>
             let (id0, key0) = (if envID = '''' \<and> envKey = '''' then (embeddedID, embeddedKey) else (envID, envKey));
                 id1 = (if id0 = '''' then clientIDFallback else id0)
             in if u = '''' then (Inl ''rtcd URL is missing'', w1)
                else if id1 = '''' then (Inl ''rtcd client id is missing'', w1)
                else let key1 = (if key0 = '''' then (case configStore_load N w1 of None \<Rightarrow> '''' | Some c \<Rightarrow> cc_AuthKey c) else key0);
                         cfg = \<lparr>cc_ClientID = id1, cc_AuthKey = key1, cc_URL = u, cc_ReconnectInterval = interval\<rparr>; w2 = rtick w1
                     in if key1 \<noteq> '''' then (Inr cfg, w2)
                        else case rn_random N (rw_tick w2) of
                               None \<Rightarrow> (Inl ''failed to generate rtcd auth key'', rtick w2)
                             | Some key \<Rightarrow> let cfg1 = cfg\<lparr>cc_AuthKey := key\<rparr> in (Inr cfg1, configStore_store N cfg1 (rtick w2)))"

definition resolveURL :: "rtcdNet \<Rightarrow> string \<Rightarrow> nat \<Rightarrow> string + string list \<times> string" where
  "resolveURL N raw k =
     (case rn_parse N raw of
        None \<Rightarrow> Inl ''failed to parse URL''
      | Some u \<Rightarrow>
          let port = (if up_port u = '''' then (if up_scheme u = ''https'' \<or> up_scheme u = ''wss'' then ''443'' else ''80'') else up_port u)
          in case rn_lookup N k (up_hostname u) of
               None \<Rightarrow> Inl ''failed to resolve host''
             | Some ips \<Rightarrow> if ips = [] then Inl ''no IPs resolved for host'' else Inr (ips, port))"

section \<open>Manager\<close>

record rtcdHost =
  ho_ip :: string
  ho_client :: adapter
  ho_flagged :: bool

record rtcdClientManager =
  mg_rtcdURL :: string
  mg_rtcdPort :: string
  mg_hosts :: "rtcdHost gomap"
  mg_closed :: bool

definition addHost :: "string \<Rightarrow> adapter \<Rightarrow> rtcdClientManager \<Rightarrow> rtcdClientManager option" where
  "addHost ip a m =
     (if gm_get (mg_hosts m) ip \<noteq> None then None
      else Some (m\<lparr>mg_hosts := mg_hosts m @ [(ip, \<lparr>ho_ip = ip, ho_client = a, ho_flagged = False\<rparr>)]\<rparr>))"

text \<open>Closing every host; the first error is reported.\<close>

fun closeAllHosts :: "rtcdNet \<Rightarrow> (string \<times> rtcdHost) list \<Rightarrow> rtcdWorld \<Rightarrow> string option \<times> rtcdWorld" where
  "closeAllHosts N [] w = (None, w)"
| "closeAllHosts N ((ip, h) # hs) w =
     (case adapter_Close N (ho_client h) w of
        (e, _, w1) \<Rightarrow> (case closeAllHosts N hs w1 of (e', w2) \<Rightarrow> (if e \<noteq> None then e else e', w2)))"

definition manager_Close :: "rtcdNet \<Rightarrow> rtcdClientManager \<Rightarrow> rtcdWorld \<Rightarrow> string option \<times> rtcdClientManager \<times> rtcdWorld" where
  "manager_Close N m w =
     (if mg_closed m then (None, m, w)
      else case closeAllHosts N (mg_hosts m) w of (e, w1) \<Rightarrow> (e, m\<lparr>mg_hosts := [], mg_closed := True\<rparr>, w1))"

definition newRTCDClient :: "rtcdNet \<Rightarrow> rtcdClientManager \<Rightarrow> string \<Rightarrow> string \<Rightarrow> rtcdWorld \<Rightarrow> (string + adapter) \<times> rtcdWorld" where
  "newRTCDClient N m rtcdURL host w =
     (case resolveClientConfig N rtcdURL (rn_clientID N) w of
        (Inl e, w1) \<Rightarrow> (Inl e, w1)
      | (Inr cfg, w1) \<Rightarrow>
          (case Connect N (newRTCDClientAdapter cfg (JoinHostPort host (mg_rtcdPort m))) w1 of
             (Some e, a, w2) \<Rightarrow> (Inl e, snd (snd (adapter_Close N a w2)))
           | (None, a, w2) \<Rightarrow> (Inr a, w2)))"

text \<open>The loop over the resolved addresses at construction.\<close>

fun addInitial :: "rtcdNet \<Rightarrow> string \<Rightarrow> string list \<Rightarrow> rtcdClientManager \<Rightarrow> rtcdWorld \<Rightarrow> (string + rtcdClientManager) \<times> rtcdWorld" where
  "addInitial N url [] m w = (Inr m, w)"
| "addInitial N url (ip # ips) m w =
     (case newRTCDClient N m url ip w of
        (Inl e, w1) \<Rightarrow> (Inl ''failed to create rtcd client for host'', snd (closeAllHosts N (mg_hosts m) w1))
      | (Inr a, w1) \<Rightarrow>
          (case addHost ip a m of
             None \<Rightarrow> (Inl ''failed to add rtcd host'', snd (snd (adapter_Close N a w1)))
           | Some m1 \<Rightarrow> addInitial N url ips m1 w1))"

definition newRTCDClientManager :: "rtcdNet \<Rightarrow> string \<Rightarrow> rtcdWorld \<Rightarrow> (string + rtcdClientManager) \<times> rtcdWorld" where
  "newRTCDClientManager N url w =
     (case resolveURL N url (rw_tick w) of
        Inl e \<Rightarrow> (Inl ''failed to resolve rtcd URL'', rtick w)
      | Inr (ips, port) \<Rightarrow>
          addInitial N url ips \<lparr>mg_rtcdURL = trimSlash url, mg_rtcdPort = port, mg_hosts = [], mg_closed = False\<rparr> (rtick w))"

text \<open>One round of the host checker.\<close>

definition reflag :: "string list \<Rightarrow> string \<times> rtcdHost \<Rightarrow> string \<times> rtcdHost" where
  "reflag ips e =
     (case e of (ip, h) \<Rightarrow>
        (ip, if ip \<notin> set ips \<and> \<not> ho_flagged h then h\<lparr>ho_flagged := True\<rparr>
             else if ip \<in> set ips \<and> ho_flagged h then h\<lparr>ho_flagged := False\<rparr>
             else h))"

fun addNew :: "rtcdNet \<Rightarrow> string list \<Rightarrow> rtcdClientManager \<Rightarrow> rtcdWorld \<Rightarrow> rtcdClientManager \<times> rtcdWorld" where
  "addNew N [] m w = (m, w)"
| "addNew N (ip # ips) m w =
     (if gm_get (mg_hosts m) ip \<noteq> None then addNew N ips m w
      else case newRTCDClient N m (mg_rtcdURL m) ip w of
             (Inl _, w1) \<Rightarrow> addNew N ips m w1
           | (Inr a, w1) \<Rightarrow>
               (case addHost ip a m of
                  None \<Rightarrow> addNew N ips m (snd (snd (adapter_Close N a w1)))
                | Some m1 \<Rightarrow> addNew N ips m1 w1))"

definition hostsChecker :: "rtcdNet \<Rightarrow> rtcdClientManager \<Rightarrow> rtcdWorld \<Rightarrow> rtcdClientManager \<times> rtcdWorld" where
  "hostsChecker N m w =
     (case resolveURL N (mg_rtcdURL m) (rw_tick w) of
        Inl _ \<Rightarrow> (m, rtick w)
      | Inr (ips, _) \<Rightarrow> addNew N (remdups ips) (m\<lparr>mg_hosts := map (reflag ips) (mg_hosts m)\<rparr>) (rtick w))"

definition healthy :: "rtcdNet \<Rightarrow> nat \<Rightarrow> string \<times> rtcdHost \<Rightarrow> bool" where
  "healthy N k e \<longleftrightarrow> \<not> ho_flagged (snd e) \<and> Connected N (ho_client (snd e)) k"

definition pickHealthyHost :: "rtcdNet \<Rightarrow> rtcdClientManager \<Rightarrow> nat \<Rightarrow> string option" where
  "pickHealthyHost N m k =
     (let hs = filter (healthy N k) (mg_hosts m)
      in if hs = [] then None else Some (JoinHostPort (ho_ip (snd (hs ! (rn_rand N k mod length hs)))) (mg_rtcdPort m)))"

fun healAll :: "rtcdNet \<Rightarrow> string list \<Rightarrow> (string \<times> rtcdHost) list \<Rightarrow> rtcdWorld \<Rightarrow> (string \<times> rtcdHost) list \<times> rtcdWorld" where
  "healAll N candidates [] w = ([], w)"
| "healAll N candidates ((ip, h) # hs) w =
     (if ip \<in> set candidates
      then (case Heal N (ho_client h) w of
              (_, a, w1) \<Rightarrow> (case healAll N candidates hs w1 of (hs', w2) \<Rightarrow> ((ip, h\<lparr>ho_client := a\<rparr>) # hs', w2)))
      else (case healAll N candidates hs w of (hs', w2) \<Rightarrow> ((ip, h) # hs', w2)))"

definition GetHostForNewCall :: "rtcdNet \<Rightarrow> rtcdClientManager \<Rightarrow> rtcdWorld \<Rightarrow> (string + string) \<times> rtcdClientManager \<times> rtcdWorld" where
  "GetHostForNewCall N m w =
     (case pickHealthyHost N m (rw_tick w) of
        Some host \<Rightarrow> (Inr host, m, rtick w)
      | None \<Rightarrow>
          let w1 = rtick w;
              candidates = map fst (filter (\<lambda>e. \<not> ho_flagged (snd e) \<and> \<not> Connected N (ho_client (snd e)) (rw_tick w1)) (mg_hosts m));
              (hosts, w2) = healAll N candidates (mg_hosts m) (rtick w1);
              m1 = m\<lparr>mg_hosts := hosts\<rparr>
          in (case pickHealthyHost N m1 (rw_tick w2) of
                Some host \<Rightarrow> (Inr host, m1, rtick w2)
              | None \<Rightarrow> (Inl ''no healthy rtcd host available'', m1, rtick w2)))"

text \<open>\<^verbatim>\<open>net.SplitHostPort\<close>: the last colon separates, a host with colons stands in brackets.\<close>

definition SplitHostPort :: "string \<Rightarrow> (string \<times> string) option" where
  "SplitHostPort hp =
     (if CHR '':'' \<notin> set hp then None
      else let i = length hp - 1 - length (takeWhile (\<lambda>c. c \<noteq> CHR '':'') (rev hp))
           in if hd hp = CHR ''['' then
                (if CHR '']'' \<notin> set hp then None
                 else let e = length (takeWhile (\<lambda>c. c \<noteq> CHR '']'') hp)
                      in if e + 1 \<noteq> i \<or> CHR ''['' \<in> set (drop 1 hp) \<or> CHR '']'' \<in> set (drop (e + 1) hp) then None
                         else Some (drop 1 (take e hp), drop (i + 1) hp))
              else if CHR '':'' \<in> set (take i hp) \<or> CHR ''['' \<in> set hp \<or> CHR '']'' \<in> set hp then None
              else Some (take i hp, drop (i + 1) hp))"

definition clientForHost :: "rtcdClientManager \<Rightarrow> string \<Rightarrow> string + rtcdHost" where
  "clientForHost m hostAddr =
     (let host = (case SplitHostPort hostAddr of None \<Rightarrow> hostAddr | Some (h, _) \<Rightarrow> h)
      in case gm_get (mg_hosts m) host of None \<Rightarrow> Inl ''rtcd host not found'' | Some h \<Rightarrow> Inr h)"

definition SendToHost :: "rtcdNet \<Rightarrow> string \<Rightarrow> rtcdClientManager \<Rightarrow> rtcdWorld \<Rightarrow> string option \<times> rtcdClientManager \<times> rtcdWorld" where
  "SendToHost N host m w =
     (case clientForHost m host of
        Inl e \<Rightarrow> (Some e, m, w)
      | Inr h \<Rightarrow>
          (case adapter_Send N (ho_client h) w of
             (e, a, w1) \<Rightarrow> (e, m\<lparr>mg_hosts := gm_set (ho_ip h) (h\<lparr>ho_client := a\<rparr>) (mg_hosts m)\<rparr>, w1)))"

section \<open>Bringing the manager up\<close>

text \<open>
  The retry loop in milliseconds: \<open>cost k\<close> is what attempt \<open>k\<close> takes, and \<open>wanted\<close> says whether the service is still started
  and without a manager when one has been built; otherwise the new one is closed. The result is the installed
  manager, if any, with the number of attempts and the time.
\<close>

definition defaultMaxBackoff :: int where "defaultMaxBackoff = 15000"

definition rtcdInitBounds :: "int \<Rightarrow> int \<Rightarrow> int \<times> int" where
  "rtcdInitBounds maxWait minBackoff = (if maxWait = 0 then 300000 else maxWait, if minBackoff = 0 then 2000 else minBackoff)"

partial_function (option) initLoop ::
  "rtcdNet \<Rightarrow> string \<Rightarrow> bool \<Rightarrow> (nat \<Rightarrow> int) \<Rightarrow> int \<Rightarrow> int \<Rightarrow> nat \<Rightarrow> int \<Rightarrow> int \<Rightarrow> rtcdWorld
    \<Rightarrow> (rtcdClientManager option \<times> nat \<times> int \<times> rtcdWorld) option" where
  "initLoop N url wanted cost maxBackoff deadline k now backoff w =
     (case newRTCDClientManager N url w of
        (Inr m, w1) \<Rightarrow>
          if wanted then Some (Some m, k + 1, now + cost k, w1)
          else Some (None, k + 1, now + cost k, snd (snd (manager_Close N m w1)))
      | (Inl _, w1) \<Rightarrow>
          if now + cost k > deadline then Some (None, k + 1, now + cost k, w1)
          else initLoop N url wanted cost maxBackoff deadline (k + 1) (now + cost k + backoff) (min (backoff * 2) maxBackoff) w1)"

definition initRTCDManagerWithRetry ::
  "rtcdNet \<Rightarrow> string \<Rightarrow> bool \<Rightarrow> (nat \<Rightarrow> int) \<Rightarrow> int \<times> int \<Rightarrow> int \<Rightarrow> rtcdWorld
    \<Rightarrow> (rtcdClientManager option \<times> nat \<times> int \<times> rtcdWorld) option" where
  "initRTCDManagerWithRetry N url wanted cost bounds now w =
     (case bounds of (maxWait, minBackoff) \<Rightarrow>
        initLoop N url wanted cost (if minBackoff > defaultMaxBackoff then minBackoff else defaultMaxBackoff) (now + maxWait) 0 now minBackoff w)"

section \<open>A host for a new call\<close>

text \<open>IPv4 addresses and port numbers have no colons and no brackets.\<close>

definition plainAddr :: "string \<Rightarrow> bool" where
  "plainAddr s \<longleftrightarrow> CHR '':'' \<notin> set s \<and> CHR ''['' \<notin> set s \<and> CHR '']'' \<notin> set s"

definition hosts_ok :: "rtcdClientManager \<Rightarrow> bool" where
  "hosts_ok m \<longleftrightarrow> gm_ok (mg_hosts m) \<and> (\<forall>e \<in> set (mg_hosts m). ho_ip (snd e) = fst e \<and> plainAddr (fst e)) \<and> plainAddr (mg_rtcdPort m)"

lemma split_join:
  assumes "plainAddr ip" and "plainAddr port"
  shows "SplitHostPort (JoinHostPort ip port) = Some (ip, port)"
proof -
  have "takeWhile (\<lambda>c. c \<noteq> CHR '':'') (rev port @ CHR '':'' # rev ip) = rev port"
    using assms(2) by (simp add: plainAddr_def takeWhile_append)
  moreover have "hd (ip @ '':'' @ port) \<noteq> CHR ''[''" using assms(1) by (cases ip) (auto simp: plainAddr_def)
  ultimately show ?thesis using assms by (simp add: JoinHostPort_def SplitHostPort_def plainAddr_def)
qed

lemma pick_usable:
  assumes "hosts_ok m" and "pickHealthyHost N m k = Some addr"
  shows "\<exists>h. clientForHost m addr = Inr h \<and> \<not> ho_flagged h \<and> Connected N (ho_client h) k"
proof -
  let ?hs = "filter (healthy N k) (mg_hosts m)"
  define e where "e = ?hs ! (rn_rand N k mod length ?hs)"
  have ne: "?hs \<noteq> []" using assms(2) by (auto simp: pickHealthyHost_def Let_def split: if_splits)
  then have "e \<in> set ?hs" unfolding e_def by (metis length_greater_0_conv mod_less_divisor nth_mem)
  then have e: "e \<in> set (mg_hosts m)" "healthy N k e" by auto
  have "addr = JoinHostPort (ho_ip (snd e)) (mg_rtcdPort m)" using assms(2) ne by (simp add: pickHealthyHost_def e_def Let_def)
  then have "SplitHostPort addr = Some (fst e, mg_rtcdPort m)" using assms(1) e(1) split_join by (auto simp: hosts_ok_def)
  moreover have "gm_get (mg_hosts m) (fst e) = Some (snd e)" using assms(1) e(1) by (cases e) (auto simp: hosts_ok_def)
  ultimately have "clientForHost m addr = Inr (snd e)" by (simp add: clientForHost_def)
  then show ?thesis using e(2) by (auto simp: healthy_def)
qed

lemma pick_none: "pickHealthyHost N m k = None \<longleftrightarrow> (\<forall>e \<in> set (mg_hosts m). \<not> healthy N k e)"
  by (auto simp: pickHealthyHost_def Let_def filter_empty_conv)

text \<open>Healing changes connections only.\<close>

lemma healAll_same:
  "map (\<lambda>e. (fst e, ho_ip (snd e), ho_flagged (snd e))) (fst (healAll N cs hs w)) = map (\<lambda>e. (fst e, ho_ip (snd e), ho_flagged (snd e))) hs"
  by (induction N cs hs w rule: healAll.induct) (auto split: prod.split)

lemma healAll_ok:
  assumes "hosts_ok m"
  shows "hosts_ok (m\<lparr>mg_hosts := fst (healAll N cs (mg_hosts m) w)\<rparr>)"
proof -
  let ?f = "\<lambda>e :: string \<times> rtcdHost. (fst e, ho_ip (snd e), ho_flagged (snd e))"
  let ?hs = "fst (healAll N cs (mg_hosts m) w)"
  note same = healAll_same[of N cs "mg_hosts m" w]
  have "map fst ?hs = map fst (mg_hosts m)" using arg_cong[OF same, of "map fst"] by (simp add: comp_def)
  moreover have "\<exists>e' \<in> set (mg_hosts m). ?f e = ?f e'" if "e \<in> set ?hs" for e
  proof -
    have "?f e \<in> set (map ?f ?hs)" using that by simp
    then have "?f e \<in> set (map ?f (mg_hosts m))" by (simp only: same)
    then show ?thesis by auto
  qed
  ultimately show ?thesis using assms unfolding hosts_ok_def by fastforce
qed

text \<open>
  C31: A new call gets a host it can use. The address chosen for a new call leads back to a host of the pool that is not
  flagged and is connected at the moment of the choice; and when the request is refused, no unflagged host is
  connected then, although each has been given its chance to heal. Choosing neither adds nor removes nor flags a
  host.
\<close>

theorem assigned_host_is_usable:
  assumes "hosts_ok m" and "GetHostForNewCall N m w = (r, m1, w1)"
  shows "map (\<lambda>e. (fst e, ho_flagged (snd e))) (mg_hosts m1) = map (\<lambda>e. (fst e, ho_flagged (snd e))) (mg_hosts m)
    \<and> (case r of
         Inr addr \<Rightarrow> \<exists>h. clientForHost m1 addr = Inr h \<and> \<not> ho_flagged h \<and> Connected N (ho_client h) (rw_tick w1 - 1)
       | Inl _ \<Rightarrow> \<forall>e \<in> set (mg_hosts m1). ho_flagged (snd e) \<or> \<not> Connected N (ho_client (snd e)) (rw_tick w1 - 1))"
proof (cases "pickHealthyHost N m (rw_tick w)")
  case (Some addr)
  then show ?thesis using assms(2) pick_usable[OF assms(1) Some] by (auto simp: GetHostForNewCall_def rtick_def)
next
  case None
  define cs where "cs = map fst (filter (\<lambda>e. \<not> ho_flagged (snd e) \<and> \<not> Connected N (ho_client (snd e)) (rw_tick (rtick w))) (mg_hosts m))"
  obtain hosts w2 where h: "healAll N cs (mg_hosts m) (rtick (rtick w)) = (hosts, w2)" by (rule prod.exhaust)
  define m2 where "m2 = m\<lparr>mg_hosts := hosts\<rparr>"
  have m1: "m1 = m2" "w1 = rtick w2" "r = (case pickHealthyHost N m2 (rw_tick w2) of Some host \<Rightarrow> Inr host | None \<Rightarrow> Inl ''no healthy rtcd host available'')"
    using assms(2) None h by (auto simp: GetHostForNewCall_def cs_def m2_def Let_def split: option.splits)
  have ok: "hosts_ok m2" using healAll_ok[OF assms(1), of N cs "rtick (rtick w)"] h by (simp add: m2_def)
  have "map (\<lambda>e. (fst e, ho_flagged (snd e))) hosts = map (\<lambda>e. (fst e, ho_flagged (snd e))) (mg_hosts m)"
    using arg_cong[OF healAll_same[of N cs "mg_hosts m" "rtick (rtick w)"], of "map (\<lambda>(a, _, c). (a, c))"] h by (simp add: comp_def)
  moreover have "rw_tick w1 - 1 = rw_tick w2" by (simp add: m1 rtick_def)
  ultimately show ?thesis
    using pick_usable[OF ok, of N "rw_tick w2"] pick_none[of N m2 "rw_tick w2"] m1
    by (cases "pickHealthyHost N m2 (rw_tick w2)") (auto simp: m2_def healthy_def)
qed

section \<open>Retries end\<close>

lemma initLoop_returns:
  assumes "0 < b0" and "b0 \<le> maxBackoff" and "\<And>i. 0 \<le> cost i"
    and "b0 \<le> backoff" and "start + int k * b0 \<le> now" and "int k * b0 \<le> deadline - start + b0" and "start \<le> deadline"
  shows "\<exists>m j t w1. initLoop N url wanted cost maxBackoff deadline k now backoff w = Some (m, j, t, w1)
    \<and> int j * b0 \<le> deadline - start + 2 * b0 \<and> (wanted \<and> m = None \<longrightarrow> t > deadline)"
  using assms(4-6)
proof (induction "nat (deadline + 1 - now)" arbitrary: k now backoff w rule: less_induct)
  case less
  obtain r w1 where r: "newRTCDClientManager N url w = (r, w1)" by (rule prod.exhaust)
  have j: "int (k + 1) * b0 \<le> deadline - start + 2 * b0" using less.prems(3) by (simp add: algebra_simps)
  show ?case
  proof (cases "\<exists>m. r = Inr m \<or> now + cost k > deadline")
    case True
    then show ?thesis using r j by (subst initLoop.simps) (auto split: sum.split)
  next
    case False
    let ?now = "now + cost k + backoff"
    have c: "0 \<le> cost k" "now + cost k \<le> deadline" using assms(3) False by auto
    have dec: "nat (deadline + 1 - ?now) < nat (deadline + 1 - now)" using c less.prems(1) assms(1) by linarith
    have "b0 \<le> min (backoff * 2) maxBackoff" using less.prems(1) assms(1,2) by simp
    moreover have "start + int (k + 1) * b0 \<le> ?now" using less.prems c by (simp add: algebra_simps)
    moreover have "int (k + 1) * b0 \<le> deadline - start + b0" using less.prems(2) c by (simp add: algebra_simps)
    ultimately have "\<exists>m j t w2. initLoop N url wanted cost maxBackoff deadline (k + 1) ?now (min (backoff * 2) maxBackoff) w1 = Some (m, j, t, w2)
      \<and> int j * b0 \<le> deadline - start + 2 * b0 \<and> (wanted \<and> m = None \<longrightarrow> t > deadline)" by (rule less.hyps[OF dec])
    moreover obtain e where "r = Inl e" using False by (cases r) auto
    ultimately show ?thesis using r False by (subst initLoop.simps) auto
  qed
qed

text \<open>
  C33: Bringing up the SFU connection always ends. For every pair of bounds with a positive first pause the loop returns,
  after at most two attempts more than the waiting time has first pauses; and while the service wants a manager it
  never gives up before the waiting time is over.
\<close>

theorem init_retry_ends:
  assumes "0 < minBackoff" and "0 \<le> maxWait" and "\<forall>i. 0 \<le> cost i"
  shows "\<exists>m j t w1. initRTCDManagerWithRetry N url wanted cost (maxWait, minBackoff) now w = Some (m, j, t, w1)
    \<and> int j \<le> maxWait div minBackoff + 2 \<and> (wanted \<and> m = None \<longrightarrow> t > now + maxWait)"
proof -
  let ?mb = "if minBackoff > defaultMaxBackoff then minBackoff else defaultMaxBackoff"
  have "minBackoff \<le> ?mb" by simp
  from initLoop_returns[OF assms(1) this, of cost minBackoff now 0 now "now + maxWait" N url wanted w]
  obtain m j t w1 where l: "initLoop N url wanted cost ?mb (now + maxWait) 0 now minBackoff w = Some (m, j, t, w1)"
    "int j * minBackoff \<le> maxWait + 2 * minBackoff" "wanted \<and> m = None \<longrightarrow> t > now + maxWait"
    using assms by auto
  have "(int j - 2) * minBackoff \<le> maxWait" using l(2) by (simp add: algebra_simps)
  from zdiv_mono1[OF this assms(1)] have "int j - 2 \<le> maxWait div minBackoff" using assms(1) by simp
  then show ?thesis using l by (auto simp: initRTCDManagerWithRetry_def)
qed

section \<open>No connection is left behind\<close>

definition world_ok :: "rtcdWorld \<Rightarrow> bool" where
  "world_ok w \<longleftrightarrow> (\<forall>c \<in> set (rw_open w). c < rw_next w)"

definition clientsOf :: "(string \<times> rtcdHost) list \<Rightarrow> nat set" where
  "clientsOf hs = (\<Union>e \<in> set hs. set_option (ad_client (ho_client (snd e))))"

lemma clientsOf_simps [simp]:
  "clientsOf [] = {}" "clientsOf (e # hs) = set_option (ad_client (ho_client (snd e))) \<union> clientsOf hs"
  "clientsOf (hs @ hs') = clientsOf hs \<union> clientsOf hs'"
  by (auto simp: clientsOf_def)

lemma rtick_simps [simp]:
  "rw_open (rtick w) = rw_open w" "rw_next (rtick w) = rw_next w" "rw_open (snd (closeClient N c w)) = removeAll c (rw_open w)"
  "rw_next (snd (closeClient N c w)) = rw_next w"
  by (simp_all add: rtick_def closeClient_def)

lemma resolveClientConfig_open [simp]:
  "rw_open (snd (resolveClientConfig N url fb w)) = rw_open w" "rw_next (snd (resolveClientConfig N url fb w)) = rw_next w"
  by (simp_all add: resolveClientConfig_def configStore_store_def Let_def split: option.split prod.split)

lemma adapter_Close_open: "set (rw_open (snd (snd (adapter_Close N a w)))) = set (rw_open w) - set_option (ad_client a)"
  by (cases "ad_client a") (auto simp: adapter_Close_def closeClient_def split_def)

lemma closeAllHosts_open: "set (rw_open (snd (closeAllHosts N hs w))) = set (rw_open w) - clientsOf hs"
proof (induction N hs w rule: closeAllHosts.induct)
  case (2 N ip h hs w)
  show ?case using 2[of "fst (adapter_Close N (ho_client h) w)" _ "fst (snd (adapter_Close N (ho_client h) w))"
        "snd (snd (adapter_Close N (ho_client h) w))"] adapter_Close_open[of N "ho_client h" w]
    by (auto simp: split_def)
qed simp

lemma connect_new_open:
  assumes "ad_client a = None" and "Connect N a w = (e, a1, w1)" and "world_ok w"
  shows "world_ok w1 \<and> (case e of
      Some _ \<Rightarrow> ad_client a1 = None \<and> set (rw_open w1) = set (rw_open w)
    | None \<Rightarrow> \<exists>c. ad_client a1 = Some c \<and> c \<notin> set (rw_open w) \<and> set (rw_open w1) = insert c (set (rw_open w)))"
  using assms
  by (auto simp: Connect_def connectInternal_def world_ok_def closeClient_def rtick_def Let_def less_Suc_eq split: if_splits)

lemma newRTCDClient_open:
  assumes "newRTCDClient N m url ip w = (r, w1)" and "world_ok w"
  shows "world_ok w1 \<and> (case r of
      Inl _ \<Rightarrow> set (rw_open w1) = set (rw_open w)
    | Inr a \<Rightarrow> \<exists>c. ad_client a = Some c \<and> c \<notin> set (rw_open w) \<and> set (rw_open w1) = insert c (set (rw_open w)))"
proof -
  obtain q w0 where q: "resolveClientConfig N url (rn_clientID N) w = (q, w0)" by (rule prod.exhaust)
  have o: "rw_open w0 = rw_open w" "rw_next w0 = rw_next w" using resolveClientConfig_open[of N url "rn_clientID N" w] q by simp_all
  show ?thesis
  proof (cases q)
    case (Inl e)
    then show ?thesis using assms q o by (auto simp: newRTCDClient_def world_ok_def)
  next
    case (Inr cfg)
    let ?a = "newRTCDClientAdapter cfg (JoinHostPort ip (mg_rtcdPort m))"
    obtain e a1 w2 where c: "Connect N ?a w0 = (e, a1, w2)" by (rule prod_cases3)
    have "world_ok w0" using assms(2) o by (simp add: world_ok_def)
    from connect_new_open[OF _ c this] show ?thesis using assms(1) q c o Inr
      by (cases e) (auto simp: newRTCDClient_def newRTCDClientAdapter_def adapter_Close_def)
  qed
qed

lemma addInitial_open:
  assumes "world_ok w" and "set (rw_open w) = old \<union> clientsOf (mg_hosts m)" and "old \<inter> clientsOf (mg_hosts m) = {}"
    and "distinct ips" and "\<forall>ip \<in> set ips. gm_get (mg_hosts m) ip = None"
  shows "(case fst (addInitial N url ips m w) of
      Inl _ \<Rightarrow> set (rw_open (snd (addInitial N url ips m w))) = old
    | Inr m1 \<Rightarrow> set (rw_open (snd (addInitial N url ips m w))) = old \<union> clientsOf (mg_hosts m1) \<and> old \<inter> clientsOf (mg_hosts m1) = {}
        \<and> mg_closed m1 = mg_closed m)"
  using assms
proof (induction N url ips m w rule: addInitial.induct)
  case (2 N url ip ips m w)
  obtain r w1 where r: "newRTCDClient N m url ip w = (r, w1)" by (rule prod.exhaust)
  note o = newRTCDClient_open[OF r 2(2)]
  show ?case
  proof (cases r)
    case (Inl e)
    then show ?thesis using r o 2(3,4) closeAllHosts_open[of N "mg_hosts m" w1] by auto
  next
    case (Inr a)
    define m1 where "m1 = m\<lparr>mg_hosts := mg_hosts m @ [(ip, \<lparr>ho_ip = ip, ho_client = a, ho_flagged = False\<rparr>)]\<rparr>"
    have m1: "addHost ip a m = Some m1" using 2(6) by (simp add: addHost_def m1_def)
    obtain c where c: "ad_client a = Some c" "c \<notin> set (rw_open w)" "set (rw_open w1) = insert c (set (rw_open w))" "world_ok w1"
      using o Inr by auto
    have "old \<inter> clientsOf (mg_hosts m1) = {}" "set (rw_open w1) = old \<union> clientsOf (mg_hosts m1)"
      using c 2(3,4) by (auto simp: m1_def)
    moreover have "\<forall>i \<in> set ips. gm_get (mg_hosts m1) i = None" using 2(5,6) by (auto simp: m1_def map_add_def)
    ultimately have "case fst (addInitial N url ips m1 w1) of
        Inl _ \<Rightarrow> set (rw_open (snd (addInitial N url ips m1 w1))) = old
      | Inr m2 \<Rightarrow> set (rw_open (snd (addInitial N url ips m1 w1))) = old \<union> clientsOf (mg_hosts m2) \<and> old \<inter> clientsOf (mg_hosts m2) = {}
          \<and> mg_closed m2 = mg_closed m1"
      using 2(1)[OF r[symmetric] Inr m1 c(4)] 2(5) by simp
    moreover have "addInitial N url (ip # ips) m w = addInitial N url ips m1 w1" "mg_closed m1 = mg_closed m"
      using r Inr m1 by (simp_all add: m1_def)
    ultimately show ?thesis by (simp only:)
  qed
qed auto


section \<open>The pool follows the DNS\<close>

definition grown :: "string list \<Rightarrow> rtcdClientManager \<Rightarrow> rtcdClientManager \<Rightarrow> bool" where
  "grown ips m m' \<longleftrightarrow> (\<exists>new. m' = m\<lparr>mg_hosts := mg_hosts m @ new\<rparr> \<and> (gm_ok (mg_hosts m) \<longrightarrow> gm_ok (mg_hosts m @ new))
     \<and> (\<forall>e \<in> set new. fst e \<in> set ips \<and> \<not> ho_flagged (snd e) \<and> ho_ip (snd e) = fst e))"

lemma grown_refl: "grown [] m m"
  unfolding grown_def by (rule exI[of _ "[]"]) simp

lemma grown_skip: "grown ips m m' \<Longrightarrow> grown (ip # ips) m m'"
  unfolding grown_def by (erule ex_forward) simp

lemma grown_add:
  assumes "addHost ip a m = Some m1" and "grown ips m1 m'"
  shows "grown (ip # ips) m m'"
proof -
  let ?e = "(ip, \<lparr>ho_ip = ip, ho_client = a, ho_flagged = False\<rparr>)"
  have m1: "m1 = m\<lparr>mg_hosts := mg_hosts m @ [?e]\<rparr>" "gm_get (mg_hosts m) ip = None"
    using assms(1) by (auto simp: addHost_def split: if_splits)
  obtain new where n: "m' = m1\<lparr>mg_hosts := mg_hosts m1 @ new\<rparr>" "gm_ok (mg_hosts m1) \<longrightarrow> gm_ok (mg_hosts m1 @ new)"
    "\<forall>e \<in> set new. fst e \<in> set ips \<and> \<not> ho_flagged (snd e) \<and> ho_ip (snd e) = fst e" using assms(2) unfolding grown_def by blast
  have "gm_ok (mg_hosts m) \<longrightarrow> gm_ok (mg_hosts m1)" using m1 by (auto simp: gm_get_None_iff)
  then show ?thesis unfolding grown_def using n m1 by (intro exI[of _ "?e # new"]) auto
qed

lemma addNew_grown: "grown ips m (fst (addNew N ips m w))"
proof (induction N ips m w rule: addNew.induct)
  case (2 N ip ips m w)
  obtain r w1 where r: "newRTCDClient N m (mg_rtcdURL m) ip w = (r, w1)" by (rule prod.exhaust)
  show ?case
  proof (cases "gm_get (mg_hosts m) ip = None")
    case False
    then show ?thesis using grown_skip[OF 2(1)] by simp
  next
    case True
    show ?thesis
    proof (cases r)
      case (Inl e)
      then show ?thesis using grown_skip[OF 2(2)[OF _ r[symmetric] Inl]] True r by simp
    next
      case (Inr a)
      then obtain m1 where m1: "addHost ip a m = Some m1" using True by (simp add: addHost_def)
      show ?thesis using grown_add[OF m1 2(4)[OF _ r[symmetric] Inr m1]] True r Inr m1 by simp
    qed
  qed
qed (simp add: grown_refl)

lemma reflag_simps [simp]:
  "fst (reflag ips e) = fst e" "ho_ip (snd (reflag ips e)) = ho_ip (snd e)" "ho_client (snd (reflag ips e)) = ho_client (snd e)"
  "ho_flagged (snd (reflag ips e)) \<longleftrightarrow> fst e \<notin> set ips"
  by (auto simp: reflag_def split: prod.split)

text \<open>
  C32: The pool follows the DNS. After a round of the host checker a host is flagged exactly when its address is no longer
  resolved, so exactly the resolved hosts take new calls; no host is dropped and none loses its connection, so
  running calls keep theirs; hosts are added for resolved addresses only; and the pool stays well formed.
\<close>

theorem hosts_follow_dns:
  assumes "hosts_ok m" and "resolveURL N (mg_rtcdURL m) (rw_tick w) = Inr (ips, port)" and "\<forall>ip \<in> set ips. plainAddr ip"
  shows "hosts_ok (fst (hostsChecker N m w))
    \<and> (\<forall>e \<in> set (mg_hosts (fst (hostsChecker N m w))). ho_flagged (snd e) \<longleftrightarrow> fst e \<notin> set ips)
    \<and> map (\<lambda>e. (fst e, ho_client (snd e))) (take (length (mg_hosts m)) (mg_hosts (fst (hostsChecker N m w))))
        = map (\<lambda>e. (fst e, ho_client (snd e))) (mg_hosts m)
    \<and> fst ` set (mg_hosts (fst (hostsChecker N m w))) \<subseteq> fst ` set (mg_hosts m) \<union> set ips"
proof -
  let ?m = "m\<lparr>mg_hosts := map (reflag ips) (mg_hosts m)\<rparr>"
  obtain new where n: "fst (addNew N (remdups ips) ?m (rtick w)) = ?m\<lparr>mg_hosts := mg_hosts ?m @ new\<rparr>" "gm_ok (mg_hosts ?m) \<longrightarrow> gm_ok (mg_hosts ?m @ new)"
    "\<forall>e \<in> set new. fst e \<in> set ips \<and> \<not> ho_flagged (snd e) \<and> ho_ip (snd e) = fst e"
    using addNew_grown[of "remdups ips" ?m N "rtick w"] unfolding grown_def by auto
  have h: "mg_hosts (fst (hostsChecker N m w)) = map (reflag ips) (mg_hosts m) @ new" "mg_rtcdPort (fst (hostsChecker N m w)) = mg_rtcdPort m"
    using n(1) assms(2) by (simp_all add: hostsChecker_def)
  have "gm_ok (map (reflag ips) (mg_hosts m) @ new)" using n(2) assms(1) by (simp add: hosts_ok_def comp_def)
  then have "hosts_ok (fst (hostsChecker N m w))" using assms(1,3) n(3) unfolding hosts_ok_def h by auto
  then show ?thesis unfolding h using n(3) by (auto simp: comp_def intro: rev_image_eqI)
qed

section \<open>A small network\<close>

definition demoNet :: rtcdNet where
  "demoNet = \<lparr>rn_now = \<lambda>k. int k, rn_parse = \<lambda>s. Some \<lparr>up_scheme = ''http'', up_hostname = ''rtcd'', up_port = ''8045'', up_user = None, up_bare = s\<rparr>,
     rn_lookup = \<lambda>_ _. Some [''10.0.0.1'', ''10.0.0.2''], rn_newClient = \<lambda>_. False, rn_connect = \<lambda>k. k > 7, rn_alive = \<lambda>_ c. c = 0, rn_close = \<lambda>_. False,
     rn_send = \<lambda>_. False, rn_random = \<lambda>_. Some ''key'', rn_rand = \<lambda>k. k, rn_getenv = \<lambda>_. '''', rn_kvGet = \<lambda>_. False, rn_kvSet = \<lambda>_. False,
     rn_marshal = \<lambda>c. Some (cc_AuthKey c), rn_unmarshal = \<lambda>s. Some \<lparr>cc_ClientID = '''', cc_AuthKey = s, cc_URL = '''', cc_ReconnectInterval = 0\<rparr>, rn_clientID = ''server''\<rparr>"

definition demoWorld :: rtcdWorld where
  "demoWorld = \<lparr>rw_tick = 0, rw_next = 0, rw_open = [], rw_kv = []\<rparr>"

definition oneHost :: rtcdClientManager where
  "oneHost = \<lparr>mg_rtcdURL = ''http://rtcd'', mg_rtcdPort = ''8045'',
     mg_hosts = [(''10.0.0.1'', \<lparr>ho_ip = ''10.0.0.1'',
       ho_client = (newRTCDClientAdapter \<lparr>cc_ClientID = '''', cc_AuthKey = '''', cc_URL = '''', cc_ReconnectInterval = 0\<rparr> ''10.0.0.1:8045''), ho_flagged = False\<rparr>)],
     mg_closed = False\<rparr>"

text \<open>The only host is not connected; healing it connects client 0, which is alive.\<close>

theorem assigned_host_is_usable_witness:
  "\<exists>m1 w1. GetHostForNewCall demoNet oneHost demoWorld = (Inr ''10.0.0.1:8045'', m1, w1) \<and> (\<exists>h. clientForHost m1 ''10.0.0.1:8045'' = Inr h \<and> \<not> ho_flagged h)"
proof -
  have ok: "hosts_ok oneHost" by (simp add: hosts_ok_def oneHost_def plainAddr_def)
  obtain m1 w1 where g: "GetHostForNewCall demoNet oneHost demoWorld = (Inr ''10.0.0.1:8045'', m1, w1)"
    by (simp add: GetHostForNewCall_def pickHealthyHost_def oneHost_def demoWorld_def demoNet_def healthy_def Connected_def newRTCDClientAdapter_def
        Heal_def connectInternal_def rtick_def JoinHostPort_def Let_def)
  from assigned_host_is_usable[OF ok g] g show ?thesis by auto
qed

theorem init_retry_ends_witness:
  "\<exists>m j t w1. initRTCDManagerWithRetry demoNet ''http://rtcd'' True (\<lambda>_. 10) (300000, 2000) 0 demoWorld = Some (m, j, t, w1) \<and> int j \<le> 152"
  using init_retry_ends[of 2000 300000 "\<lambda>_. 10" demoNet "''http://rtcd''" True 0 demoWorld] by auto


theorem hosts_follow_dns_witness:
  "map (\<lambda>e. (fst e, ho_flagged (snd e))) (mg_hosts (fst (hostsChecker demoNet (oneHost\<lparr>mg_hosts := [(''10.0.0.9'', (snd (hd (mg_hosts oneHost)))\<lparr>ho_ip := ''10.0.0.9''\<rparr>)]\<rparr>) demoWorld)))
     = [(''10.0.0.9'', True), (''10.0.0.1'', False)]
   \<and> hosts_ok (fst (hostsChecker demoNet (oneHost\<lparr>mg_hosts := [(''10.0.0.9'', (snd (hd (mg_hosts oneHost)))\<lparr>ho_ip := ''10.0.0.9''\<rparr>)]\<rparr>) demoWorld))"
proof -
  let ?m = "oneHost\<lparr>mg_hosts := [(''10.0.0.9'', (snd (hd (mg_hosts oneHost)))\<lparr>ho_ip := ''10.0.0.9''\<rparr>)]\<rparr>"
  have "hosts_ok ?m" "resolveURL demoNet (mg_rtcdURL ?m) (rw_tick demoWorld) = Inr ([''10.0.0.1'', ''10.0.0.2''], ''8045'')"
    "\<forall>ip \<in> set [''10.0.0.1'', ''10.0.0.2'']. plainAddr ip"
    by (simp_all add: hosts_ok_def oneHost_def plainAddr_def resolveURL_def demoNet_def)
  from hosts_follow_dns[OF this] have "hosts_ok (fst (hostsChecker demoNet ?m demoWorld))" by blast
  moreover have "map (\<lambda>e. (fst e, ho_flagged (snd e))) (mg_hosts (fst (hostsChecker demoNet ?m demoWorld))) = [(''10.0.0.9'', True), (''10.0.0.1'', False)]"
    by (simp add: hostsChecker_def reflag_def resolveURL_def newRTCDClient_def resolveClientConfig_def parseURL_def trimSlash_def configStore_load_def
        configStore_store_def rtcdConfigKVKey_def Connect_def connectInternal_def newRTCDClientAdapter_def addHost_def adapter_Close_def closeClient_def
        rtick_def demoNet_def demoWorld_def oneHost_def Let_def)
  ultimately show ?thesis by simp
qed

end
