(* ===== verification/Lms_Base.thy ===== *)
theory Lms_Base
  imports Complex_Main Sql_Tables
begin

text \<open>
  Vocabulary of the learning-management part: identifiers (\<^verbatim>\<open>model.IsValidId\<close>), calendar dates
  (\<^verbatim>\<open>utils.VnTime\<close>), errors of the application layer, and the common shape of the \<^verbatim>\<open>lms_store\<close>
  methods, with the contract \<open>entity_store\<close> that every one of the tables is shown to keep.

  \<^item> The environment \<open>lmsEnv\<close> supplies what the program cannot compute: at tick \<open>n\<close>, the \<open>i\<close>-th reading of
    the clock, a fresh id, and whether the \<open>i\<close>-th statement is refused by the database (connection, constraint,
    column overflow). \<open>lv_letter\<close> is the Unicode classification of the code points above 127, which
    \<^verbatim>\<open>unicode.IsLetter\<close> and \<^verbatim>\<open>unicode.IsNumber\<close> read from their tables.
  \<^item> A \<^verbatim>\<open>null.String\<close> is an option. A \<^verbatim>\<open>decimal.Decimal\<close> is a rational number; the rounding of a
    \<^verbatim>\<open>decimal(10, 2)\<close> column is left out, amounts are taken to fit their column.
  \<^item> A \<^verbatim>\<open>VnTime\<close> is the number of milliseconds since the zero time of Go (1 January of year 1, UTC).
\<close>

type_synonym vntime = int

definition zeroTime :: vntime where
  "zeroTime = 0"

definition dayMs :: int where
  "dayMs = 86400000"

definition unixEpoch :: int where
  "unixEpoch = 719162 * dayMs"

record lmsEnv =
  lv_now :: "nat \<Rightarrow> nat \<Rightarrow> int"
  lv_newId :: "nat \<Rightarrow> string"
  lv_db :: "nat \<Rightarrow> nat \<Rightarrow> bool"
  lv_letter :: "nat \<Rightarrow> bool"

text \<open>\<^verbatim>\<open>utils.VnTime(time.Now())\<close> for a clock that shows the given Unix time in milliseconds.\<close>

definition vnNow :: "int \<Rightarrow> vntime" where
  "vnNow ms = unixEpoch + ms"

text \<open>A \<^verbatim>\<open>DATE\<close> column keeps the UTC day, and \<^verbatim>\<open>VnTime.Scan\<close> returns its midnight.\<close>

definition dateCol :: "vntime \<Rightarrow> vntime" where
  "dateCol t = t div dayMs * dayMs"

lemma dateCol_idem [simp]: "dateCol (dateCol t) = dateCol t"
  by (simp add: dateCol_def dayMs_def)

lemma dateCol_mult [simp]: "dateCol (d * dayMs) = d * dayMs"
  by (simp add: dateCol_def dayMs_def)

section \<open>Identifiers\<close>

text \<open>
  A \<^verbatim>\<open>range\<close> loop over a string decodes UTF-8: a well-formed sequence is one code point, any other byte
  is the replacement character and one byte long.
\<close>

definition contByte :: "nat \<Rightarrow> nat \<Rightarrow> nat \<Rightarrow> bool" where
  "contByte lo hi b \<longleftrightarrow> lo \<le> b \<and> b \<le> hi"

definition decodeRune :: "nat list \<Rightarrow> nat \<times> nat" where
  "decodeRune bs =
     (case bs of
        [] \<Rightarrow> (65533, 1)
      | b0 # r \<Rightarrow>
          if b0 < 128 then (b0, 1)
          else if 194 \<le> b0 \<and> b0 \<le> 223 then
            (case r of b1 # _ \<Rightarrow> if contByte 128 191 b1 then ((b0 - 192) * 64 + (b1 - 128), 2) else (65533, 1)
                     | [] \<Rightarrow> (65533, 1))
          else if 224 \<le> b0 \<and> b0 \<le> 239 then
            (case r of
               b1 # b2 # _ \<Rightarrow>
                 if contByte (if b0 = 224 then 160 else 128) (if b0 = 237 then 159 else 191) b1 \<and> contByte 128 191 b2
                 then ((b0 - 224) * 4096 + (b1 - 128) * 64 + (b2 - 128), 3) else (65533, 1)
             | _ \<Rightarrow> (65533, 1))
          else if 240 \<le> b0 \<and> b0 \<le> 244 then
            (case r of
               b1 # b2 # b3 # _ \<Rightarrow>
                 if contByte (if b0 = 240 then 144 else 128) (if b0 = 244 then 143 else 191) b1
                    \<and> contByte 128 191 b2 \<and> contByte 128 191 b3
                 then ((b0 - 240) * 262144 + (b1 - 128) * 4096 + (b2 - 128) * 64 + (b3 - 128), 4) else (65533, 1)
             | _ \<Rightarrow> (65533, 1))
          else (65533, 1))"

lemma decodeRune_width: "0 < snd (decodeRune bs)"
  by (simp add: decodeRune_def split: list.split)

function runesOf :: "nat list \<Rightarrow> nat list" where
  "runesOf bs = (if bs = [] then [] else fst (decodeRune bs) # runesOf (drop (snd (decodeRune bs)) bs))"
  by pat_completeness auto
termination
  by (relation "measure length") (auto simp: decodeRune_width)

declare runesOf.simps [simp del]

definition asciiAlnum :: "nat \<Rightarrow> bool" where
  "asciiAlnum r \<longleftrightarrow> (48 \<le> r \<and> r \<le> 57) \<or> (65 \<le> r \<and> r \<le> 90) \<or> (97 \<le> r \<and> r \<le> 122)"

definition letterOrNumber :: "(nat \<Rightarrow> bool) \<Rightarrow> nat \<Rightarrow> bool" where
  "letterOrNumber U r = (if r < 128 then asciiAlnum r else r \<noteq> 65533 \<and> U r)"

definition IsValidId :: "(nat \<Rightarrow> bool) \<Rightarrow> string \<Rightarrow> bool" where
  "IsValidId U value \<longleftrightarrow> length value = 26 \<and> list_all (letterOrNumber U) (runesOf (map of_char value))"

lemma IsValidId_nonempty [simp]: "\<not> IsValidId U ''''"
  by (simp add: IsValidId_def)

lemma runesOf_ascii: "list_all (\<lambda>b. b < 128) bs \<Longrightarrow> runesOf bs = bs"
  by (induction bs) (simp_all add: runesOf.simps decodeRune_def)

text \<open>An id of 26 ASCII letters and digits is valid whatever the Unicode tables say.\<close>

lemma IsValidId_ascii:
  assumes "length s = 26" and "list_all (\<lambda>c. asciiAlnum (of_char c)) s"
  shows "IsValidId U s"
proof -
  have "list_all (\<lambda>b. b < 128 \<and> asciiAlnum b) (map of_char s)"
    using assms(2) by (auto simp: list_all_iff asciiAlnum_def)
  then show ?thesis
    using assms(1) by (auto simp: IsValidId_def runesOf_ascii list_all_iff letterOrNumber_def)
qed

definition longerThan :: "nat \<Rightarrow> string option \<Rightarrow> bool" where
  "longerThan n v = (case v of None \<Rightarrow> False | Some s \<Rightarrow> length s > n)"

section \<open>Errors of the application layer\<close>

text \<open>A \<^verbatim>\<open>model.AppError\<close>: the message id and the HTTP status.\<close>

datatype app_error = AppError string int

section \<open>The shape of the store methods\<close>

definition ent_get :: "string \<Rightarrow> string \<Rightarrow> ('r \<Rightarrow> string) \<Rightarrow> bool \<Rightarrow> string \<Rightarrow> 'r list \<Rightarrow> store_error + 'r" where
  "ent_get name msg key fail i t =
     (if fail then Inl (ErrSql msg)
      else case sql_one (\<lambda>r. key r = i) t of
             None \<Rightarrow> Inl (ErrNotFound name i)
           | Some r \<Rightarrow> Inr r)"

text \<open>
  \<^verbatim>\<open>Insert(boil.Infer())\<close> leaves out the columns that have a default and whose value is the zero value, and reads
  them back: \<open>dflt\<close> is the effect of the column defaults on the row. The row in the table is what the
  column types make of it (\<open>col\<close>: a \<^verbatim>\<open>DATE\<close> column keeps the day); the caller gets the struct it passed.
\<close>

definition ent_save ::
  "string \<Rightarrow> ('r \<Rightarrow> string) \<Rightarrow> ('r \<Rightarrow> 'r) \<Rightarrow> ('r \<Rightarrow> string option) \<Rightarrow> ('r \<Rightarrow> 'r) \<Rightarrow> ('r \<Rightarrow> 'r) \<Rightarrow> bool \<Rightarrow> 'r \<Rightarrow> 'r list
    \<Rightarrow> (store_error + 'r) \<times> 'r list" where
  "ent_save msg key pre valid dflt col fail r t =
     (let r1 = pre r in
      case valid r1 of
        Some e \<Rightarrow> (Inl (ErrInvalid e), t)
      | None \<Rightarrow>
          (case sql_insert key fail (col (dflt r1)) t of
             None \<Rightarrow> (Inl (ErrSql msg), t)
           | Some t1 \<Rightarrow> (Inr (dflt r1), t1)))"

text \<open>\<^verbatim>\<open>Update(boil.Infer())\<close> writes every column but the key; the \<^verbatim>\<open>Reload\<close> reads the row back.\<close>

definition ent_update ::
  "string \<Rightarrow> string \<Rightarrow> string \<Rightarrow> ('r \<Rightarrow> string) \<Rightarrow> ('r \<Rightarrow> 'r) \<Rightarrow> ('r \<Rightarrow> string option) \<Rightarrow> ('r \<Rightarrow> 'r) \<Rightarrow> bool \<Rightarrow> bool \<Rightarrow> 'r \<Rightarrow> 'r list
    \<Rightarrow> (store_error + 'r) \<times> 'r list" where
  "ent_update name msg msg2 key pre valid col fail fail2 r t =
     (let r1 = pre r in
      case valid r1 of
        Some e \<Rightarrow> (Inl (ErrInvalid e), t)
      | None \<Rightarrow>
          if fail then (Inl (ErrSql msg), t)
          else let (n, t1) = sql_update (\<lambda>x. key x = key r1) (\<lambda>_. col r1) t in
               if n = 0 then (Inl (ErrNotFound name (key r1)), t1)
               else if fail2 then (Inl (ErrSql msg2), t1)
               else (Inr (col r1), t1))"

definition ent_delete ::
  "string \<Rightarrow> string \<Rightarrow> string \<Rightarrow> ('r \<Rightarrow> string) \<Rightarrow> bool \<Rightarrow> bool \<Rightarrow> string \<Rightarrow> 'r list \<Rightarrow> store_error option \<times> 'r list" where
  "ent_delete name msg msg2 key fail fail2 i t =
     (if fail then (Some (ErrSql msg), t)
      else case sql_one (\<lambda>r. key r = i) t of
             None \<Rightarrow> (Some (ErrNotFound name i), t)
           | Some _ \<Rightarrow>
               if fail2 then (Some (ErrSql msg2), t)
               else (None, sql_delete (\<lambda>r. key r = i) t))"

section \<open>The contract of a store\<close>

text \<open>
  What the store of one entity is made of: its key, hooks and validation, and the four methods of the
  shape above. The client lemmas say what a caller of any of these stores obtains.
\<close>

definition table_ok :: "('r \<Rightarrow> string) \<Rightarrow> lmsEnv \<Rightarrow> 'r list \<Rightarrow> bool" where
  "table_ok key E t \<longleftrightarrow> distinct (map key t) \<and> (\<forall>r \<in> set t. IsValidId (lv_letter E) (key r))"

locale entity_store =
  fixes key :: "'r \<Rightarrow> string"
    and pre :: "lmsEnv \<Rightarrow> nat \<Rightarrow> 'r \<Rightarrow> 'r"
    and valid :: "(nat \<Rightarrow> bool) \<Rightarrow> 'r \<Rightarrow> string option"
    and dflt :: "'r \<Rightarrow> 'r"
    and col :: "'r \<Rightarrow> 'r"
    and get :: "lmsEnv \<Rightarrow> nat \<Rightarrow> string \<Rightarrow> 'r list \<Rightarrow> store_error + 'r"
    and save :: "lmsEnv \<Rightarrow> nat \<Rightarrow> 'r \<Rightarrow> 'r list \<Rightarrow> (store_error + 'r) \<times> 'r list"
  assumes get_shape: "\<exists>name msg. \<forall>E n. get E n = ent_get name msg key (lv_db E n 0)"
    and save_shape: "\<exists>msg. \<forall>E n. save E n = ent_save msg key (pre E n) (valid (lv_letter E)) dflt col (lv_db E n 0)"
    and key_pre: "key (pre E n r) = (if key r = '''' then lv_newId E n else key r)"
    and key_valid: "valid U r = None \<Longrightarrow> key r \<noteq> '''' \<Longrightarrow> IsValidId U (key r)"
    and key_dflt: "key (dflt r) = key r"
    and key_col: "key (col r) = key r"
begin

lemma save_cases:
  obtains (refused) e where "save E n r t = (Inl e, t)"
  | (saved) "save E n r t = (Inr (dflt (pre E n r)), t @ [col (dflt (pre E n r))])"
      "valid (lv_letter E) (pre E n r) = None" "key (dflt (pre E n r)) \<notin> set (map key t)" "\<not> lv_db E n 0"
proof -
  obtain msg where s: "save E n = ent_save msg key (pre E n) (valid (lv_letter E)) dflt col (lv_db E n 0)"
    using save_shape by blast
  let ?r = "dflt (pre E n r)"
  show ?thesis
  proof (cases "valid (lv_letter E) (pre E n r) = None \<and> \<not> lv_db E n 0 \<and> key ?r \<notin> set (map key t)")
    case True
    then show ?thesis by (intro saved) (simp_all add: s ent_save_def sql_insert_def Let_def key_col)
  next
    case False
    then have "\<exists>e. save E n r t = (Inl e, t)"
      by (auto simp: s ent_save_def sql_insert_def Let_def key_col split: option.split)
    then show ?thesis using refused by blast
  qed
qed

lemma get_found:
  assumes "\<not> lv_db E n 0"
  shows "get E n i t = Inr r \<longleftrightarrow> find (\<lambda>x. key x = i) t = Some r"
proof -
  obtain name msg where "get E n = ent_get name msg key (lv_db E n 0)" using get_shape by blast
  then show ?thesis using assms by (simp add: ent_get_def sql_one_def split: option.split)
qed

lemma find_snoc: "i \<notin> set (map key t) \<Longrightarrow> find (\<lambda>x. key x = i) (t @ [r]) = (if key r = i then Some r else None)"
  by (induction t) auto

lemma get_after_save:
  assumes "save E n r t = (Inr r', t')" and "\<not> lv_db E m 0"
  shows "get E m (key r') t' = Inr (col r')"
proof (cases rule: save_cases[of E n r t])
  case (refused e)
  with assms(1) show ?thesis by simp
next
  case saved
  then show ?thesis using assms find_snoc[OF saved(3)] by (auto simp: get_found key_col)
qed

lemma save_ok:
  assumes "table_ok key E t" and "IsValidId (lv_letter E) (lv_newId E n)"
  shows "table_ok key E (snd (save E n r t))"
proof (cases rule: save_cases[of E n r t])
  case (refused e)
  with assms(1) show ?thesis by simp
next
  case saved
  let ?r = "dflt (pre E n r)"
  have k: "key ?r = (if key r = '''' then lv_newId E n else key r)" by (simp add: key_dflt key_pre)
  have "key ?r \<noteq> ''''" using assms(2) k by (auto split: if_splits)
  then have "IsValidId (lv_letter E) (key ?r)"
    using key_valid[OF saved(2)] key_dflt by simp
  then show ?thesis using saved(1,3) assms(1) by (auto simp: table_ok_def key_col)
qed

end

locale updatable_store = entity_store +
  fixes upd :: "lmsEnv \<Rightarrow> nat \<Rightarrow> 'a \<Rightarrow> 'a"
    and update :: "lmsEnv \<Rightarrow> nat \<Rightarrow> 'a \<Rightarrow> 'a list \<Rightarrow> (store_error + 'a) \<times> 'a list"
    and delete :: "lmsEnv \<Rightarrow> nat \<Rightarrow> string \<Rightarrow> 'a list \<Rightarrow> store_error option \<times> 'a list"
  assumes update_shape: "\<exists>name msg msg2. \<forall>E n. update E n =
      ent_update name msg msg2 key (upd E n) (valid (lv_letter E)) col (lv_db E n 0) (lv_db E n 1)"
    and delete_shape: "\<exists>name msg msg2. \<forall>E n. delete E n = ent_delete name msg msg2 key (lv_db E n 0) (lv_db E n 1)"
    and key_upd: "key (upd E n r) = key r"
begin

lemma update_table:
  obtains (same) e where "update E n r t = (Inl e, t)"
  | (written) x where "update E n r t = (x, map (\<lambda>y. if key y = key r then col (upd E n r) else y) t)"
      "valid (lv_letter E) (upd E n r) = None" "x = Inr (col (upd E n r)) \<or> (\<exists>e. x = Inl e)" "key r \<in> set (map key t)"
proof -
  obtain name msg msg2 where u: "update E n =
      ent_update name msg msg2 key (upd E n) (valid (lv_letter E)) col (lv_db E n 0) (lv_db E n 1)"
    using update_shape by blast
  let ?p = "\<lambda>x. key x = key r"
  show ?thesis
  proof (cases "valid (lv_letter E) (upd E n r) \<noteq> None \<or> lv_db E n 0")
    case True
    then have "\<exists>e. update E n r t = (Inl e, t)"
      by (auto simp: u ent_update_def Let_def split: option.split)
    then show ?thesis using same by blast
  next
    case ok: False
    show ?thesis
    proof (cases "\<exists>y \<in> set t. ?p y")
      case False
      then have "sql_update ?p (\<lambda>_. col (upd E n r)) t = (0, t)" by (intro sql_update_none) blast
      then show ?thesis using ok by (intro same) (simp add: u ent_update_def Let_def key_upd)
    next
      case True
      then have "length (filter ?p t) \<noteq> 0" by (auto simp: filter_empty_conv)
      then show ?thesis
        using ok True written[of "if lv_db E n 1 then Inl (ErrSql msg2) else Inr (col (upd E n r))"]
        by (auto simp: u ent_update_def sql_update_def Let_def key_upd rev_image_eqI)
    qed
  qed
qed

lemma update_ok:
  assumes "table_ok key E t"
  shows "table_ok key E (snd (update E n r t))"
proof (cases rule: update_table[of E n r t])
  case (same e)
  with assms show ?thesis by simp
next
  case (written x)
  have "map key (map (\<lambda>y. if key y = key r then col (upd E n r) else y) t) = map key t" by (simp add: key_upd key_col)
  then show ?thesis using assms written(1,4) by (auto simp: table_ok_def key_upd key_col simp del: map_map)
qed

lemma delete_table: "snd (delete E n i t) = t \<or> snd (delete E n i t) = filter (\<lambda>r. key r \<noteq> i) t"
proof -
  obtain name msg msg2 where "delete E n = ent_delete name msg msg2 key (lv_db E n 0) (lv_db E n 1)"
    using delete_shape by blast
  then show ?thesis by (simp add: ent_delete_def sql_delete_def split: option.split)
qed

lemma delete_ok:
  assumes "table_ok key E t"
  shows "table_ok key E (snd (delete E n i t))"
  using assms delete_table[of E n i t] by (auto simp: table_ok_def distinct_map_filter)

end

section \<open>From store errors to application errors\<close>

text \<open>The \<^verbatim>\<open>switch\<close> on \<^verbatim>\<open>*store.ErrNotFound\<close> that the application methods share.\<close>

definition storeErr :: "string \<Rightarrow> string \<Rightarrow> store_error \<Rightarrow> app_error" where
  "storeErr notFound other e = (if IsErrNotFound e then AppError notFound 404 else AppError other 500)"

definition mapErr :: "('e \<Rightarrow> 'f) \<Rightarrow> 'e + 'a \<Rightarrow> 'f + 'a" where
  "mapErr f r = (case r of Inl e \<Rightarrow> Inl (f e) | Inr x \<Rightarrow> Inr x)"

lemma mapErr_Inr [simp]: "mapErr f r = Inr x \<longleftrightarrow> r = Inr x"
  by (simp add: mapErr_def split: sum.split)

lemma mapErr_eq [simp]: "mapErr f (Inr x) = Inr x" "mapErr f (Inl e) = Inl (f e)"
  by (simp_all add: mapErr_def)

section \<open>A concrete environment\<close>

text \<open>For the examples: the database accepts every statement and the ids are runs of one letter.\<close>

definition demoId :: "nat \<Rightarrow> string" where
  "demoId n = replicate 26 (char_of (97 + n mod 26))"

definition lmsDemo :: lmsEnv where
  "lmsDemo = \<lparr>lv_now = \<lambda>_ _. 1000, lv_newId = demoId, lv_db = \<lambda>_ _. False, lv_letter = \<lambda>_. False\<rparr>"

lemma lmsDemo_simps [simp]:
  "lv_now lmsDemo n i = 1000" "lv_newId lmsDemo n = demoId n" "\<not> lv_db lmsDemo n i" "lv_letter lmsDemo = (\<lambda>_. False)"
  by (simp_all add: lmsDemo_def)

lemma demoId_valid [simp]: "IsValidId U (demoId n)"
proof (rule IsValidId_ascii)
  show "list_all (\<lambda>c. asciiAlnum (of_char c)) (demoId n)"
    using mod_less_divisor[of 26 n] by (simp add: demoId_def list_all_iff asciiAlnum_def)
qed (simp add: demoId_def)

lemma demoId_eq: "demoId m = demoId n \<longleftrightarrow> m mod 26 = n mod 26"
proof -
  have "char_of (97 + k mod 26) = (char_of (97 + l mod 26) :: char) \<longleftrightarrow> k mod 26 = l mod 26" for k l :: nat
    using mod_less_divisor[of 26 k] mod_less_divisor[of 26 l] by simp
  then show ?thesis by (simp add: demoId_def replicate_eq_replicate)
qed

lemma demoId_nonempty [simp]: "demoId n \<noteq> []"
  by (simp add: demoId_def)

end
