(* ===== verification/Go_Time.thy ===== *)
theory Go_Time
  imports Go_Strings
begin

text \<open>
  Calendar dates and the three layouts of Go's \<^verbatim>\<open>time\<close> package that the program uses: \<^verbatim>\<open>2006-01-02\<close>,
  \<^verbatim>\<open>2006-01-02 15:04:05\<close> and RFC 3339. A date is the number of days since 1 January of year 1 in the proleptic
  Gregorian calendar. The parsers follow \<^verbatim>\<open>time.Parse\<close>: an hour may have one digit, a fraction of a second is
  accepted after a period or a comma, a zone offset may reach 24:60, and text left over is an error. The fraction
  is read and dropped: it never changes the date.
\<close>

section \<open>Decimal numbers\<close>

definition digitChar :: "nat \<Rightarrow> char" where
  "digitChar k = char_of (48 + k)"

definition digitVal :: "char \<Rightarrow> nat" where
  "digitVal c = of_char c - 48"

fun decStr :: "nat \<Rightarrow> string" where
  "decStr n = (if n < 10 then [digitChar n] else decStr (n div 10) @ [digitChar (n mod 10)])"

declare decStr.simps [simp del]

text \<open>\<^verbatim>\<open>appendInt\<close> of the package \<^verbatim>\<open>time\<close>: a sign, then zeros up to the width.\<close>

definition appendInt :: "int \<Rightarrow> nat \<Rightarrow> string" where
  "appendInt x w =
     (let ds = decStr (nat \<bar>x\<bar>)
      in (if x < 0 then ''-'' else []) @ replicate (w - length ds) (CHR ''0'') @ ds)"

lemma digit_char [simp]:
  assumes "k < 10"
  shows "isDigit (digitChar k)" "digitVal (digitChar k) = k"
proof -
  have "k \<in> {0, 1, 2, 3, 4, 5, 6, 7, 8, 9}" using assms by auto
  then show "isDigit (digitChar k)" "digitVal (digitChar k) = k"
    by (auto simp: isDigit_def digitChar_def digitVal_def less_eq_char_def)
qed

lemma digit_zero: "digitChar 0 = CHR ''0''"
  using char_of_char[of "CHR ''0''", where 'a = nat] by (simp add: digitChar_def)

lemma digit_chars:
  "digitChar (Suc 0) = CHR ''1''" "digitChar 2 = CHR ''2''" "digitChar 3 = CHR ''3''" "digitChar 4 = CHR ''4''"
  "digitChar 5 = CHR ''5''" "digitChar 6 = CHR ''6''" "digitChar 7 = CHR ''7''" "digitChar 8 = CHR ''8''"
  "digitChar 9 = CHR ''9''" "digitChar 1 = CHR ''1''" "digitChar 0 = CHR ''0''"
  using char_of_char[of "CHR ''1''", where 'a = nat] char_of_char[of "CHR ''2''", where 'a = nat]
    char_of_char[of "CHR ''3''", where 'a = nat] char_of_char[of "CHR ''4''", where 'a = nat]
    char_of_char[of "CHR ''5''", where 'a = nat] char_of_char[of "CHR ''6''", where 'a = nat]
    char_of_char[of "CHR ''7''", where 'a = nat] char_of_char[of "CHR ''8''", where 'a = nat]
    char_of_char[of "CHR ''9''", where 'a = nat]
  by (simp_all add: digitChar_def digit_zero[unfolded digitChar_def, simplified])

lemma decStr_digits: "c \<in> set (decStr n) \<Longrightarrow> isDigit c"
  by (induction n rule: decStr.induct) (subst (asm) (2) decStr.simps, auto split: if_splits)

lemma decStr_nonempty [simp]: "decStr n \<noteq> []"
  by (subst decStr.simps) simp

text \<open>The value of a string of digits, the inverse of \<^const>\<open>decStr\<close>.\<close>

definition decVal :: "string \<Rightarrow> nat" where
  "decVal s = fold (\<lambda>c a. 10 * a + digitVal c) s 0"

lemma decVal_decStr [simp]: "decVal (decStr n) = n"
  by (induction n rule: decStr.induct) (subst decStr.simps, auto simp: decVal_def)

lemma decStr_inj: "decStr m = decStr n \<longleftrightarrow> m = n"
  by (metis decVal_decStr)

section \<open>The calendar\<close>

definition isLeap :: "int \<Rightarrow> bool" where
  "isLeap y \<longleftrightarrow> y mod 4 = 0 \<and> (y mod 100 \<noteq> 0 \<or> y mod 400 = 0)"

definition daysIn :: "int \<Rightarrow> int \<Rightarrow> int" where
  "daysIn y m = (if m = 2 then (if isLeap y then 29 else 28) else if m \<in> {4, 6, 9, 11} then 30 else 31)"

definition daysBefore :: "int \<Rightarrow> int \<Rightarrow> int" where
  "daysBefore y m = sum_list (map (daysIn y) [1 .. m - 1])"

definition yearStart :: "int \<Rightarrow> int" where
  "yearStart y = 365 * (y - 1) + (y - 1) div 4 - (y - 1) div 100 + (y - 1) div 400"

definition validDate :: "int \<times> int \<times> int \<Rightarrow> bool" where
  "validDate = (\<lambda>(y, m, d). 1 \<le> m \<and> m \<le> 12 \<and> 1 \<le> d \<and> d \<le> daysIn y m)"

definition civilDay :: "int \<times> int \<times> int \<Rightarrow> int" where
  "civilDay = (\<lambda>(y, m, d). yearStart y + daysBefore y m + d - 1)"

text \<open>The year of a day by cycles of 400, 100, 4 and 1 years, as in \<^verbatim>\<open>time.absDate\<close>.\<close>

definition yearDay :: "int \<Rightarrow> int \<times> int" where
  "yearDay n =
     (let a = n div 146097; r = n mod 146097;
          b0 = r div 36524; b = b0 - b0 div 4; r1 = r - 36524 * b;
          c = r1 div 1461; r2 = r1 - 1461 * c;
          e0 = r2 div 365; e = e0 - e0 div 4
      in (400 * a + 100 * b + 4 * c + e + 1, r2 - 365 * e))"

fun monthDay :: "int \<Rightarrow> int list \<Rightarrow> int \<Rightarrow> int \<times> int" where
  "monthDay y [] yd = (12, yd + 1)"
| "monthDay y (m # ms) yd = (if yd < daysIn y m then (m, yd + 1) else monthDay y ms (yd - daysIn y m))"

definition dateOfDay :: "int \<Rightarrow> int \<times> int \<times> int" where
  "dateOfDay n = (let (y, yd) = yearDay n in (y, monthDay y [1 .. 12] yd))"

lemma div_mod_unique:
  assumes "0 \<le> r" and "r < (d::int)"
  shows "(d * q + r) div d = q" and "(d * q + r) mod d = r"
  using assms by simp_all

lemma yearStart_split:
  assumes "0 \<le> b" "b < 4" "0 \<le> c" "c < 25" "0 \<le> e" "e < 4"
  shows "yearStart (400 * a + 100 * b + 4 * c + e + 1) = 146097 * a + 36524 * b + 1461 * c + 365 * e"
proof -
  define z where "z = 400 * a + 100 * b + 4 * c + e"
  have "z = 4 * (100 * a + 25 * b + c) + e" "z = 100 * (4 * a + b) + (4 * c + e)"
    "z = 400 * a + (100 * b + (4 * c + e))" by (simp_all add: z_def)
  then have "z div 4 = 100 * a + 25 * b + c" "z div 100 = 4 * a + b" "z div 400 = a"
    using assms div_mod_unique(1)[of e 4] div_mod_unique(1)[of "4 * c + e" 100]
      div_mod_unique(1)[of "100 * b + (4 * c + e)" 400] by simp_all
  then show ?thesis unfolding yearStart_def z_def[symmetric] by (simp add: z_def)
qed

lemma year_cycles:
  obtains a b c e where "y = 400 * a + 100 * b + 4 * c + e + 1"
    "0 \<le> b" "b < 4" "0 \<le> c" "c < 25" "0 \<le> e" "e < (4::int)"
proof -
  define w v where "w = (y - 1) mod 400" and "v = w mod 100"
  have "0 \<le> w" "w < 400" "0 \<le> v" "v < 100" by (simp_all add: w_def v_def)
  then have "0 \<le> w div 100" "w div 100 < 4" "0 \<le> v div 4" "v div 4 < 25" by simp_all
  moreover have "y = 400 * ((y - 1) div 400) + 100 * (w div 100) + 4 * (v div 4) + v mod 4 + 1"
    using mult_div_mod_eq[of 400 "y - 1"] mult_div_mod_eq[of 100 w] mult_div_mod_eq[of 4 v]
    unfolding w_def[symmetric] v_def[symmetric] by linarith
  moreover have "0 \<le> v mod 4" "v mod 4 < 4" by simp_all
  ultimately show ?thesis using that[of "(y - 1) div 400" "w div 100" "v div 4" "v mod 4"] by blast
qed

definition yearLen :: "int \<Rightarrow> int" where
  "yearLen y = (if isLeap y then 366 else 365)"

lemma isLeap_split:
  assumes "0 \<le> b" "b < 4" "0 \<le> c" "c < 25" "0 \<le> e" "e < 4"
  shows "isLeap (400 * a + 100 * b + 4 * c + e + 1) \<longleftrightarrow> e = 3 \<and> (c \<noteq> 24 \<or> b = 3)" (is "isLeap ?y \<longleftrightarrow> _")
proof (cases "e = 3")
  case False
  have y: "?y = 4 * (100 * a + 25 * b + c) + (e + 1)" by simp
  have "?y mod 4 \<noteq> 0" unfolding y using False assms by (subst div_mod_unique(2)) auto
  then show ?thesis using False by (simp add: isLeap_def)
next
  case e: True
  have 4: "?y mod 4 = 0"
  proof -
    have y: "?y = 4 * (100 * a + 25 * b + c + 1) + 0" using e by simp
    show ?thesis unfolding y by (subst div_mod_unique(2)) auto
  qed
  show ?thesis
  proof (cases "c = 24")
    case False
    have y: "?y = 100 * (4 * a + b) + (4 * c + 4)" using e by simp
    have "?y mod 100 \<noteq> 0" unfolding y using False assms by (subst div_mod_unique(2)) auto
    then show ?thesis using 4 e False by (simp add: isLeap_def)
  next
    case c: True
    have y: "?y = 100 * (4 * a + b + 1) + 0" using e c by simp
    have 100: "?y mod 100 = 0" unfolding y by (subst div_mod_unique(2)) auto
    have "?y mod 400 = (if b = 3 then 0 else 100 * b + 100)"
    proof (cases "b = 3")
      case True
      then have y: "?y = 400 * (a + 1) + 0" using e c by simp
      show ?thesis unfolding y using True by (subst div_mod_unique(2)) auto
    next
      case False
      have y: "?y = 400 * a + (100 * b + 100)" using e c by simp
      show ?thesis unfolding y using False assms by (subst div_mod_unique(2)) auto
    qed
    then show ?thesis using 4 100 e c assms(1) by (simp add: isLeap_def)
  qed
qed

lemma yearDay_yearStart:
  assumes "0 \<le> k" "k < yearLen y"
  shows "yearDay (yearStart y + k) = (y, k)"
proof -
  obtain a b c e where y: "y = 400 * a + 100 * b + 4 * c + e + 1"
    and r: "0 \<le> b" "b < 4" "0 \<le> c" "c < 25" "0 \<le> e" "e < (4::int)" by (rule year_cycles)
  have k: "k \<le> 364 \<or> k = 365 \<and> e = 3 \<and> (c \<noteq> 24 \<or> b = 3)"
    using assms isLeap_split[OF r] by (auto simp: yearLen_def y split: if_splits)
  define n where "n = yearStart y + k"
  have n: "n = 146097 * a + (36524 * b + (1461 * c + (365 * e + k)))"
    using yearStart_split[OF r] by (simp add: n_def y)
  have 4: "0 \<le> 365 * e + k" "365 * e + k \<le> 1460" "365 * e + k = 1460 \<longrightarrow> e = 3 \<and> (c \<noteq> 24 \<or> b = 3)"
    using k r assms(1) by auto
  have 100: "0 \<le> 1461 * c + (365 * e + k)" "1461 * c + (365 * e + k) \<le> 36524"
    "1461 * c + (365 * e + k) = 36524 \<longrightarrow> b = 3"
    using 4 r by auto
  have 400: "0 \<le> 36524 * b + (1461 * c + (365 * e + k))" "36524 * b + (1461 * c + (365 * e + k)) < 146097"
    using 100 r by auto
  have da: "n div 146097 = a" "n mod 146097 = 36524 * b + (1461 * c + (365 * e + k))"
    unfolding n using 400 by simp_all
  have db: "(let b0 = (36524 * b + (1461 * c + (365 * e + k))) div 36524 in b0 - b0 div 4) = b"
  proof (cases "1461 * c + (365 * e + k) = 36524")
    case True
    then show ?thesis using 100 by simp
  next
    case False
    then have "(36524 * b + (1461 * c + (365 * e + k))) div 36524 = b" using 100 by simp
    then show ?thesis using r by simp
  qed
  have dc: "(1461 * c + (365 * e + k)) div 1461 = c" using 4 by simp
  have de: "(let e0 = (365 * e + k) div 365 in e0 - e0 div 4) = e"
  proof (cases "k = 365")
    case True
    then show ?thesis using k by simp
  next
    case False
    then have "(365 * e + k) div 365 = e" using k assms(1) by simp
    then show ?thesis using r by simp
  qed
  show ?thesis
    unfolding yearDay_def n_def[symmetric] da Let_def db[unfolded Let_def]
    using dc de by (simp add: Let_def y)
qed

lemma sum_daysIn_nonneg: "0 \<le> sum_list (map (daysIn y) ms)"
  by (rule sum_list_nonneg) (auto simp: daysIn_def)

lemma monthDay_before:
  assumes "0 \<le> k" "k < daysIn y m"
  shows "monthDay y (ms @ m # rest) (sum_list (map (daysIn y) ms) + k) = (m, k + 1)"
  using assms
proof (induction ms)
  case Nil
  then show ?case by simp
next
  case (Cons x ms)
  then show ?case using sum_daysIn_nonneg[of y ms] by (simp add: algebra_simps)
qed

lemma daysBefore_len:
  assumes "1 \<le> m" "m \<le> 12" "d \<le> daysIn y m"
  shows "daysBefore y m + d \<le> yearLen y"
proof -
  have "m = 1 \<or> m = 2 \<or> m = 3 \<or> m = 4 \<or> m = 5 \<or> m = 6 \<or> m = 7 \<or> m = 8 \<or> m = 9 \<or> m = 10 \<or> m = 11 \<or> m = 12"
    using assms(1,2) by presburger
  then show ?thesis
    using assms(3) by (elim disjE) (simp_all add: daysBefore_def daysIn_def yearLen_def upto_rec1 split: if_splits)
qed

text \<open>Every valid date is the date of its day number.\<close>

lemma dateOfDay_civilDay:
  assumes "validDate (y, m, d)"
  shows "dateOfDay (civilDay (y, m, d)) = (y, m, d)"
proof -
  have r: "1 \<le> m" "m \<le> 12" "1 \<le> d" "d \<le> daysIn y m" using assms by (auto simp: validDate_def)
  have 0: "0 \<le> daysBefore y m" unfolding daysBefore_def by (rule sum_daysIn_nonneg)
  have n: "civilDay (y, m, d) = yearStart y + (daysBefore y m + (d - 1))" by (simp add: civilDay_def)
  have "daysBefore y m + (d - 1) < yearLen y" using daysBefore_len[OF r(1,2,4)] by simp
  then have yd: "yearDay (civilDay (y, m, d)) = (y, daysBefore y m + (d - 1))"
    unfolding n using 0 r(3) by (intro yearDay_yearStart) auto
  have up: "[1 .. 12] = [1 .. m - 1] @ m # [m + 1 .. 12]"
    using r by (metis upto_split1 upto_split2 order_refl upto_rec1 upto_split3)
  show ?thesis
    unfolding dateOfDay_def yd up daysBefore_def using r by (simp add: monthDay_before)
qed

text \<open>Conversely every day has a date.\<close>

lemma div_pred:
  assumes "0 < (d::int)"
  shows "y div d = (y - 1) div d + (if y mod d = 0 then 1 else 0)"
proof (cases "y mod d = 0")
  case True
  then have "y - 1 = d * (y div d - 1) + (d - 1)"
    using mult_div_mod_eq[of d y] by (simp add: algebra_simps)
  then have "(y - 1) div d = (d * (y div d - 1) + (d - 1)) div d" by (rule arg_cong)
  also have "\<dots> = y div d - 1" using assms by (intro div_mod_unique) auto
  finally show ?thesis using True by simp
next
  case False
  then have "0 \<le> y mod d - 1" using pos_mod_sign[OF assms, of y] by linarith
  moreover have "y - 1 = d * (y div d) + (y mod d - 1)" using mult_div_mod_eq[of d y] by linarith
  moreover have "y mod d - 1 < d" using pos_mod_bound[OF assms, of y] by linarith
  ultimately have "(y - 1) div d = y div d" by (metis div_mod_unique(1))
  then show ?thesis using False by simp
qed

lemma leap_count:
  fixes a b c p q r y :: int
  assumes "a = p + (if A then 1 else 0)" and "b = q + (if B then 1 else 0)" and "c = r + (if C then 1 else 0)"
    and "B \<longrightarrow> A" and "C \<longrightarrow> B"
  shows "365 * y + a - b + c = 365 * (y - 1) + p - q + r + (if A \<and> (\<not> B \<or> C) then 366 else 365)"
  using assms by (cases A; cases B; cases C) simp_all

lemma yearStart_next: "yearStart (y + 1) = yearStart y + yearLen y"
proof -
  have "y mod 100 = 0 \<longrightarrow> y mod 4 = 0" "y mod 400 = 0 \<longrightarrow> y mod 100 = 0"
    using dvd_trans[of 4 100 y] dvd_trans[of 100 400 y] by (simp_all add: mod_eq_0_iff_dvd)
  note leap = leap_count[OF div_pred[of 4 y] div_pred[of 100 y] div_pred[of 400 y] this,
      OF zero_less_numeral zero_less_numeral zero_less_numeral]
  show ?thesis
    unfolding yearStart_def yearLen_def isLeap_def add_diff_cancel_right' by (rule leap)
qed

lemma day_in_year: "\<exists>y k. n = yearStart y + k \<and> 0 \<le> k \<and> k < yearLen y"
proof (induction n rule: int_induct[where k = 0])
  case base
  have "0 = yearStart 1 + 0" "(0::int) < yearLen 1" by (simp_all add: yearStart_def yearLen_def)
  then show ?case by blast
next
  case (step1 n)
  then obtain y k where k: "n = yearStart y + k" "0 \<le> k" "k < yearLen y" by blast
  show ?case
  proof (cases "k + 1 < yearLen y")
    case True
    with k show ?thesis by (intro exI[of _ y] exI[of _ "k + 1"]) simp
  next
    case False
    then have "n + 1 = yearStart (y + 1) + 0" using k by (simp add: yearStart_next)
    moreover have "(0::int) < yearLen (y + 1)" by (simp add: yearLen_def)
    ultimately show ?thesis by blast
  qed
next
  case (step2 n)
  then obtain y k where k: "n = yearStart y + k" "0 \<le> k" "k < yearLen y" by blast
  show ?case
  proof (cases "k = 0")
    case False
    with k show ?thesis by (intro exI[of _ y] exI[of _ "k - 1"]) simp
  next
    case True
    then have "n - 1 = yearStart (y - 1) + (yearLen (y - 1) - 1)" using k yearStart_next[of "y - 1"] by simp
    moreover have "0 \<le> yearLen (y - 1) - 1" by (simp add: yearLen_def)
    ultimately show ?thesis by fastforce
  qed
qed

lemma daysBefore_next: "1 \<le> m \<Longrightarrow> daysBefore y (m + 1) = daysBefore y m + daysIn y m"
  by (simp add: daysBefore_def upto_rec2)

lemma day_in_month:
  assumes "0 \<le> k" "k < daysBefore y (int j + 1)"
  shows "\<exists>m. 1 \<le> m \<and> m \<le> int j \<and> daysBefore y m \<le> k \<and> k < daysBefore y m + daysIn y m"
  using assms
proof (induction j)
  case 0
  then show ?case by (simp add: daysBefore_def)
next
  case (Suc j)
  show ?case
  proof (cases "k < daysBefore y (int j + 1)")
    case True
    then show ?thesis using Suc by fastforce
  next
    case False
    then show ?thesis using Suc.prems daysBefore_next[of "int j + 1" y]
      by (intro exI[of _ "int j + 1"]) (simp add: algebra_simps)
  qed
qed

lemma daysBefore_13: "daysBefore y 13 = yearLen y"
  by (simp add: daysBefore_def daysIn_def yearLen_def upto_rec1)

lemma dateOfDay_valid: "validDate (dateOfDay n)" and civilDay_dateOfDay: "civilDay (dateOfDay n) = n"
proof -
  obtain y k where y: "n = yearStart y + k" "0 \<le> k" "k < yearLen y" using day_in_year by blast
  obtain m where m: "1 \<le> m" "m \<le> 12" "daysBefore y m \<le> k" "k < daysBefore y m + daysIn y m"
    using day_in_month[of k y 12] y daysBefore_13[of y] by auto
  define d where "d = k - daysBefore y m + 1"
  have v: "validDate (y, m, d)" using m by (simp add: validDate_def d_def)
  have n: "civilDay (y, m, d) = n" by (simp add: civilDay_def d_def y(1))
  show "validDate (dateOfDay n)" "civilDay (dateOfDay n) = n"
    using dateOfDay_civilDay[OF v] v n by simp_all
qed

section \<open>Formatting and parsing\<close>

definition formatDate :: "int \<times> int \<times> int \<Rightarrow> string" where
  "formatDate = (\<lambda>(y, m, d). appendInt y 4 @ ''-'' @ appendInt m 2 @ ''-'' @ appendInt d 2)"

fun lit :: "char \<Rightarrow> string \<Rightarrow> string option" where
  "lit c [] = None"
| "lit c (x # xs) = (if x = c then Some xs else None)"

text \<open>\<^verbatim>\<open>getnum\<close>: two digits, or one when the layout does not fix the width.\<close>

fun getnum :: "bool \<Rightarrow> string \<Rightarrow> (int \<times> string) option" where
  "getnum fixed [] = None"
| "getnum fixed [a] = (if isDigit a \<and> \<not> fixed then Some (int (digitVal a), []) else None)"
| "getnum fixed (a # b # r) =
     (if \<not> isDigit a then None
      else if \<not> isDigit b then (if fixed then None else Some (int (digitVal a), b # r))
      else Some (10 * int (digitVal a) + int (digitVal b), r))"

definition getyear :: "string \<Rightarrow> (int \<times> string) option" where
  "getyear s =
     (if length s \<ge> 4 \<and> list_all isDigit (take 4 s) then Some (int (decVal (take 4 s)), drop 4 s) else None)"

definition parseDatePart :: "string \<Rightarrow> ((int \<times> int \<times> int) \<times> string) option" where
  "parseDatePart s0 =
     (case getyear s0 of None \<Rightarrow> None | Some (y, s1) \<Rightarrow>
      case lit (CHR ''-'') s1 of None \<Rightarrow> None | Some s2 \<Rightarrow>
      case getnum True s2 of None \<Rightarrow> None | Some (m, s3) \<Rightarrow>
      case lit (CHR ''-'') s3 of None \<Rightarrow> None | Some s4 \<Rightarrow>
      case getnum True s4 of None \<Rightarrow> None | Some (d, s5) \<Rightarrow>
        if validDate (y, m, d) then Some ((y, m, d), s5) else None)"

definition skipFraction :: "string \<Rightarrow> string" where
  "skipFraction s =
     (case s of
        c # d # r \<Rightarrow> if c \<in> {CHR ''.'', CHR '',''} \<and> isDigit d then dropWhile isDigit (d # r) else s
      | _ \<Rightarrow> s)"

text \<open>\<^verbatim>\<open>15:04:05\<close>, in seconds.\<close>

definition parseClock :: "string \<Rightarrow> (int \<times> string) option" where
  "parseClock s0 =
     (case getnum False s0 of None \<Rightarrow> None | Some (h, s1) \<Rightarrow>
      case lit (CHR '':'') s1 of None \<Rightarrow> None | Some s2 \<Rightarrow>
      case getnum True s2 of None \<Rightarrow> None | Some (mi, s3) \<Rightarrow>
      case lit (CHR '':'') s3 of None \<Rightarrow> None | Some s4 \<Rightarrow>
      case getnum True s4 of None \<Rightarrow> None | Some (sec, s5) \<Rightarrow>
        if h < 24 \<and> mi < 60 \<and> sec < 60 then Some (3600 * h + 60 * mi + sec, skipFraction s5) else None)"

text \<open>\<^verbatim>\<open>Z07:00\<close>, in seconds east of UTC.\<close>

definition parseZone :: "string \<Rightarrow> (int \<times> string) option" where
  "parseZone s =
     (case s of
        [] \<Rightarrow> None
      | c # r0 \<Rightarrow>
          if c = CHR ''Z'' then Some (0, r0)
          else case getnum True r0 of None \<Rightarrow> None | Some (h, r1) \<Rightarrow>
               case lit (CHR '':'') r1 of None \<Rightarrow> None | Some r2 \<Rightarrow>
               case getnum True r2 of None \<Rightarrow> None | Some (mi, r3) \<Rightarrow>
                 if h \<le> 24 \<and> mi \<le> 60
                 then (if c = CHR ''+'' then Some (3600 * h + 60 * mi, r3)
                       else if c = CHR ''-'' then Some (- (3600 * h + 60 * mi), r3) else None)
                 else None)"

definition parseDate :: "string \<Rightarrow> (int \<times> int \<times> int) option" where
  "parseDate s = (case parseDatePart s of Some (ymd, []) \<Rightarrow> Some ymd | _ \<Rightarrow> None)"

text \<open>The instant, in seconds since 1 January of year 1 UTC.\<close>

definition parseRFC3339 :: "string \<Rightarrow> int option" where
  "parseRFC3339 s =
     (case parseDatePart s of None \<Rightarrow> None | Some (ymd, s1) \<Rightarrow>
      case lit (CHR ''T'') s1 of None \<Rightarrow> None | Some s2 \<Rightarrow>
      case parseClock s2 of None \<Rightarrow> None | Some (sec, s3) \<Rightarrow>
      case parseZone s3 of Some (off, []) \<Rightarrow> Some (86400 * civilDay ymd + sec - off) | _ \<Rightarrow> None)"

text \<open>Date and time of day without a zone.\<close>

definition parseDateTime :: "string \<Rightarrow> ((int \<times> int \<times> int) \<times> int) option" where
  "parseDateTime s =
     (case parseDatePart s of None \<Rightarrow> None | Some (ymd, s1) \<Rightarrow>
      case lit (CHR '' '') s1 of None \<Rightarrow> None | Some s2 \<Rightarrow>
      case parseClock s2 of Some (sec, []) \<Rightarrow> Some (ymd, sec) | _ \<Rightarrow> None)"

lemma appendInt_2:
  assumes "0 \<le> x" "x < 100"
  shows "appendInt x 2 = [digitChar (nat x div 10), digitChar (nat x mod 10)]"
proof (cases "nat x < 10")
  case True
  then show ?thesis using assms by (simp add: appendInt_def decStr.simps[of "nat x"] digit_zero)
next
  case False
  then have "decStr (nat x) = [digitChar (nat x div 10), digitChar (nat x mod 10)]"
    using assms by (simp add: decStr.simps[of "nat x"] decStr.simps[of "nat x div 10"])
  then show ?thesis using assms by (simp add: appendInt_def)
qed

lemma getnum_appendInt [simp]:
  assumes "0 \<le> x" "x < 100"
  shows "getnum f (appendInt x 2 @ r) = Some (x, r)"
proof -
  have "nat x div 10 < 10" "nat x mod 10 < 10" using assms by auto
  moreover have "10 * int (nat x div 10) + int (nat x mod 10) = x"
    using assms mult_div_mod_eq[of 10 "nat x"] by linarith
  ultimately show ?thesis by (simp add: appendInt_2[OF assms])
qed

lemma decVal_zeros [simp]: "decVal (replicate k (CHR ''0'') @ s) = decVal s"
  by (induction k) (simp_all add: decVal_def digitVal_def)

lemma length_decStr: "n < 10 ^ k \<Longrightarrow> 0 < k \<Longrightarrow> length (decStr n) \<le> k"
proof (induction k arbitrary: n)
  case (Suc k)
  show ?case
  proof (cases "n < 10")
    case True
    then show ?thesis by (simp add: decStr.simps[of n])
  next
    case False
    then have "k \<noteq> 0" "n div 10 < 10 ^ k" using Suc.prems by (auto intro: ccontr)
    then show ?thesis using Suc.IH[of "n div 10"] False by (simp add: decStr.simps[of n])
  qed
qed simp

lemma getyear_appendInt [simp]:
  assumes "0 \<le> y" "y < 10000"
  shows "getyear (appendInt y 4 @ r) = Some (y, r)"
proof -
  have "length (decStr (nat y)) \<le> 4" using assms by (intro length_decStr) auto
  then have len: "length (appendInt y 4) = 4" using assms by (simp add: appendInt_def Let_def)
  have "list_all isDigit (appendInt y 4)"
    using assms decStr_digits digit_char(1)[of 0] by (auto simp: appendInt_def Let_def list_all_iff digit_zero split: if_splits)
  moreover have "decVal (appendInt y 4) = nat y" using assms by (simp add: appendInt_def Let_def)
  ultimately show ?thesis using assms len by (simp add: getyear_def)
qed

text \<open>A valid date of the years 0 to 9999 is read back as it was written, whatever follows it.\<close>

lemma parseDatePart_format:
  assumes "validDate (y, m, d)" and "0 \<le> y" and "y < 10000"
  shows "parseDatePart (formatDate (y, m, d) @ r) = Some ((y, m, d), r)"
proof -
  have "0 \<le> m" "m < 100" "0 \<le> d" "d < 100" using assms(1) by (auto simp: validDate_def daysIn_def split: if_splits)
  then show ?thesis using assms by (simp add: parseDatePart_def formatDate_def)
qed

lemma parseDate_format:
  assumes "validDate (y, m, d)" and "0 \<le> y" and "y < 10000"
  shows "parseDate (formatDate (y, m, d)) = Some (y, m, d)"
  using parseDatePart_format[OF assms, of "[]"] by (simp add: parseDate_def)

end
