(* ===== verification/Passwords.thy ===== *)
theory Passwords
  imports Lms_Base Go_Time
begin

text \<open>
  Password hashes: the PHC string parser (\<^verbatim>\<open>channels/app/password/phcparser/parser.go\<close>) and the hashers
  (\<^verbatim>\<open>channels/app/password/hashers\<close>). The state of the parser is the list of code points it has still to read;
  error texts are left out, an error is \<^const>\<open>None\<close>. The derived key of PBKDF2 (\<^verbatim>\<open>crypto/pbkdf2\<close>), the random
  salt and \<^verbatim>\<open>golang.org/x/crypto/bcrypt\<close> are parameters, collected in \<open>hashLib\<close>.
\<close>

section \<open>Base 64 without padding\<close>

text \<open>\<^verbatim>\<open>base64.RawStdEncoding\<close>; a byte is a \<^typ>\<open>char\<close>.\<close>

definition b64digit :: "nat \<Rightarrow> char" where
  "b64digit k =
     (if k < 26 then char_of (65 + k) else if k < 52 then char_of (71 + k) else if k < 62 then char_of (k - 4)
      else if k = 62 then CHR ''+'' else CHR ''/'')"

definition b64val :: "char \<Rightarrow> nat option" where
  "b64val c =
     (if CHR ''A'' \<le> c \<and> c \<le> CHR ''Z'' then Some (of_char c - 65)
      else if CHR ''a'' \<le> c \<and> c \<le> CHR ''z'' then Some (of_char c - 71)
      else if isDigit c then Some (of_char c + 4)
      else if c = CHR ''+'' then Some 62 else if c = CHR ''/'' then Some 63 else None)"

fun b64sextets :: "nat list \<Rightarrow> nat list" where
  "b64sextets [] = []"
| "b64sextets [a] = [a div 4, (a mod 4) * 16]"
| "b64sextets [a, b] = [a div 4, (a mod 4) * 16 + b div 16, (b mod 16) * 4]"
| "b64sextets (a # b # c # r) =
     [a div 4, (a mod 4) * 16 + b div 16, (b mod 16) * 4 + c div 64, c mod 64] @ b64sextets r"

definition b64encode :: "string \<Rightarrow> string" where
  "b64encode s = map b64digit (b64sextets (map of_char s))"

text \<open>Decoding skips line breaks and does not look at the unused bits of the last digit.\<close>

fun b64bytes :: "nat list \<Rightarrow> nat list option" where
  "b64bytes [] = Some []"
| "b64bytes [x] = None"
| "b64bytes [x, y] = Some [x * 4 + y div 16]"
| "b64bytes [x, y, z] = Some [x * 4 + y div 16, (y mod 16) * 16 + z div 4]"
| "b64bytes (x # y # z # w # r) =
     map_option (\<lambda>l. [x * 4 + y div 16, (y mod 16) * 16 + z div 4, (z mod 4) * 64 + w] @ l) (b64bytes r)"

definition b64decode :: "string \<Rightarrow> string option" where
  "b64decode s =
     (let t = filter (\<lambda>c. c \<noteq> CHR 0x0A \<and> c \<noteq> CHR 0x0D) s in
      if list_all (\<lambda>c. b64val c \<noteq> None) t
      then map_option (map char_of) (b64bytes (map (the \<circ> b64val) t)) else None)"

section \<open>Tokens\<close>

datatype Token = ILLEGAL | EOF | DOLLARSIGN | COMMA | EQUALSIGN | FUNCTIONID | PARAMNAME | PARAMVALUE | B64ENCODED | IDENT

text \<open>The flags overlap: \<^const>\<open>IDENT\<close> is the union of the four literals.\<close>

definition tokenMatches :: "Token \<Rightarrow> Token \<Rightarrow> bool" where
  "tokenMatches token expected \<longleftrightarrow>
     token = expected \<or> (token = IDENT \<and> expected \<in> {FUNCTIONID, PARAMNAME, PARAMVALUE, B64ENCODED})"

definition eofRune :: nat where "eofRune = 0"

definition isLowercaseLetter :: "nat \<Rightarrow> bool" where
  "isLowercaseLetter ch \<longleftrightarrow> 97 \<le> ch \<and> ch \<le> 122"

definition isLetter :: "nat \<Rightarrow> bool" where
  "isLetter ch \<longleftrightarrow> (65 \<le> ch \<and> ch \<le> 90) \<or> (97 \<le> ch \<and> ch \<le> 122)"

definition isDigitRune :: "nat \<Rightarrow> bool" where
  "isDigitRune ch \<longleftrightarrow> 48 \<le> ch \<and> ch \<le> 57"

definition isB64 :: "nat \<Rightarrow> bool" where
  "isB64 ch \<longleftrightarrow> isLetter ch \<or> isDigitRune ch \<or> ch = 43 \<or> ch = 47"

definition isSymbol :: "nat \<Rightarrow> bool" where
  "isSymbol ch \<longleftrightarrow> ch = 47 \<or> ch = 43 \<or> ch = 46 \<or> ch = 45"

definition isLowercaseLetterOrDigitOrMinus :: "nat \<Rightarrow> bool" where
  "isLowercaseLetterOrDigitOrMinus ch \<longleftrightarrow> isLowercaseLetter ch \<or> isDigitRune ch \<or> ch = 45"

definition isLetterOrDigitOrSymbol :: "nat \<Rightarrow> bool" where
  "isLetterOrDigitOrSymbol ch \<longleftrightarrow> isLetter ch \<or> isDigitRune ch \<or> isSymbol ch"

definition noneAllowed :: "nat \<Rightarrow> bool" where
  "noneAllowed ch = False"

section \<open>The parser\<close>

text \<open>The input is limited to 256 bytes; the end of the input reads as the code point 0.\<close>

definition MaxRunes :: nat where "MaxRunes = 256"

definition newParser :: "string \<Rightarrow> nat list" where
  "newParser s = runesOf (map of_char (take MaxRunes s))"

definition readRune :: "nat list \<Rightarrow> nat \<times> nat list" where
  "readRune rs = (case rs of [] \<Rightarrow> (eofRune, []) | r # rs' \<Rightarrow> (r, rs'))"

text \<open>
  The loop of \<^verbatim>\<open>scanIdent\<close>: the code points taken, and the rest. A code point that does not belong to the
  identifier is put back, a code point 0 is not.
\<close>

fun scanRest :: "(nat \<Rightarrow> bool) \<Rightarrow> nat list \<Rightarrow> nat list \<times> nat list" where
  "scanRest ok [] = ([], [])"
| "scanRest ok (r # rs) =
     (if r = eofRune then ([], rs)
      else if \<not> ok r then ([], r # rs)
      else let (l, rest) = scanRest ok rs in (r # l, rest))"

definition scanIdent :: "(nat \<Rightarrow> bool) \<Rightarrow> nat list \<Rightarrow> (Token \<times> string) \<times> nat list" where
  "scanIdent ok rs =
     (let (ch, rs1) = readRune rs; (l, rs2) = scanRest ok rs1
      in ((IDENT, map char_of (ch # l)), rs2))"

text \<open>The literal of an illegal token only serves the error text and is left empty.\<close>

definition scan :: "(nat \<Rightarrow> bool) \<Rightarrow> nat list \<Rightarrow> (Token \<times> string) \<times> nat list" where
  "scan ok rs =
     (let (ch, rs1) = readRune rs in
      if ok ch then scanIdent ok rs
      else if ch = eofRune then ((EOF, []), rs1)
      else if ch = 36 then ((DOLLARSIGN, ''$''), rs1)
      else if ch = 44 then ((COMMA, '',''), rs1)
      else if ch = 61 then ((EQUALSIGN, ''=''), rs1)
      else ((ILLEGAL, []), rs1))"

definition scanSeparator :: "nat list \<Rightarrow> Token \<times> nat list" where
  "scanSeparator rs = (let ((tok, _), rs1) = scan noneAllowed rs in (tok, rs1))"

fun allowedRuneFunc :: "Token \<Rightarrow> nat \<Rightarrow> bool" where
  "allowedRuneFunc FUNCTIONID = isLowercaseLetterOrDigitOrMinus"
| "allowedRuneFunc PARAMNAME = isLowercaseLetterOrDigitOrMinus"
| "allowedRuneFunc PARAMVALUE = isLetterOrDigitOrSymbol"
| "allowedRuneFunc B64ENCODED = isB64"
| "allowedRuneFunc _ = noneAllowed"

definition parseToken :: "Token \<Rightarrow> nat list \<Rightarrow> (string \<times> nat list) option" where
  "parseToken expected rs =
     (let ((token, literal), rs1) = scan (allowedRuneFunc expected) rs
      in if tokenMatches token expected then Some (literal, rs1) else None)"

definition parseFunctionId :: "nat list \<Rightarrow> (string \<times> nat list) option" where
  "parseFunctionId rs = (case parseToken DOLLARSIGN rs of None \<Rightarrow> None | Some (_, rs1) \<Rightarrow> parseToken FUNCTIONID rs1)"

definition parseHash :: "nat list \<Rightarrow> string option" where
  "parseHash rs =
     (case parseToken B64ENCODED rs of
        None \<Rightarrow> None
      | Some (hash, rs1) \<Rightarrow> map_option (\<lambda>_. hash) (parseToken EOF rs1))"

definition parseParamRHS :: "nat list \<Rightarrow> (string \<times> nat list) option" where
  "parseParamRHS rs = (case parseToken EQUALSIGN rs of None \<Rightarrow> None | Some (_, rs1) \<Rightarrow> parseToken PARAMVALUE rs1)"

record PHC =
  phc_Id :: string
  phc_Version :: string
  phc_Params :: "string gomap"
  phc_Salt :: string
  phc_Hash :: string

definition emptyPHC :: PHC where
  "emptyPHC = \<lparr>phc_Id = [], phc_Version = [], phc_Params = [], phc_Salt = [], phc_Hash = []\<rparr>"

text \<open>The salt has been read and the separator after it: the hash is optional.\<close>

definition parseSaltEnd :: "Token \<Rightarrow> nat list \<Rightarrow> string \<Rightarrow> PHC \<Rightarrow> PHC option" where
  "parseSaltEnd token rs salt out =
     (if token = DOLLARSIGN then map_option (\<lambda>hash. out\<lparr>phc_Salt := salt, phc_Hash := hash\<rparr>) (parseHash rs)
      else if token = EOF then Some (out\<lparr>phc_Salt := salt\<rparr>)
      else None)"

lemma readRune_length: "length (snd (readRune rs)) \<le> length rs"
  by (simp add: readRune_def split: list.split)

lemma scanRest_length: "length (snd (scanRest ok rs)) \<le> length rs"
  by (induction ok rs rule: scanRest.induct) (auto simp: case_prod_beta Let_def)

lemma scan_length: "length (snd (scan ok rs)) \<le> length rs"
  using readRune_length[of rs] scanRest_length[of ok "snd (readRune rs)"]
  by (auto simp: scan_def scanIdent_def case_prod_beta Let_def)

lemma parseToken_length: "parseToken e rs = Some (l, rs1) \<Longrightarrow> length rs1 \<le> length rs"
  using scan_length[of "allowedRuneFunc e" rs] by (auto simp: parseToken_def case_prod_beta Let_def split: if_splits)

lemma parseParamRHS_length: "parseParamRHS rs = Some (l, rs1) \<Longrightarrow> length rs1 \<le> length rs"
  by (auto simp: parseParamRHS_def split: option.splits dest!: parseToken_length)

lemma scanSeparator_length: "scanSeparator rs = (tok, rs1) \<Longrightarrow> length rs1 \<le> length rs"
  using scan_length[of noneAllowed rs] by (auto simp: scanSeparator_def case_prod_beta Let_def)

lemma scanSeparator_COMMA: "scanSeparator rs = (COMMA, rs1) \<Longrightarrow> length rs1 < length rs"
  by (auto simp: scanSeparator_def scan_def readRune_def noneAllowed_def eofRune_def case_prod_beta Let_def
      split: if_splits list.splits)

text \<open>The loop over the parameters. Every turn consumes a comma.\<close>

function parseParams :: "nat list \<Rightarrow> PHC \<Rightarrow> PHC option" where
  "parseParams rs out =
     (case scanSeparator rs of
        (EOF, _) \<Rightarrow> Some out
      | (COMMA, rs1) \<Rightarrow>
          (case parseToken PARAMNAME rs1 of
             None \<Rightarrow> None
           | Some (paramName, rs2) \<Rightarrow>
               (case parseParamRHS rs2 of
                  None \<Rightarrow> None
                | Some (paramValue, rs3) \<Rightarrow>
                    parseParams rs3 (out\<lparr>phc_Params := gm_set paramName paramValue (phc_Params out)\<rparr>)))
      | (DOLLARSIGN, rs1) \<Rightarrow>
          (case parseToken B64ENCODED rs1 of
             None \<Rightarrow> None
           | Some (salt, rs2) \<Rightarrow> (let (token, rs3) = scanSeparator rs2 in parseSaltEnd token rs3 salt out))
      | _ \<Rightarrow> None)"
  by pat_completeness auto
termination
  by (relation "measure (length \<circ> fst)")
    (auto dest!: scanSeparator_COMMA[OF sym] parseToken_length parseParamRHS_length)


declare parseParams.simps [simp del]

text \<open>
  The part after the optional version: a parameter name or the salt. In \<^verbatim>\<open>Parse\<close> the error of reading the first
  parameter value is returned as well.
\<close>

definition parseNameOrSalt :: "string \<Rightarrow> nat list \<Rightarrow> PHC \<Rightarrow> PHC option" where
  "parseNameOrSalt paramNameOrSalt rs out =
     (let (token, rs1) = scanSeparator rs in
      if token = EQUALSIGN then
        if paramNameOrSalt = ''v'' then None
        else (case parseToken PARAMVALUE rs1 of
                None \<Rightarrow> None
              | Some (paramValue, rs2) \<Rightarrow>
                  parseParams rs2 (out\<lparr>phc_Params := gm_set paramNameOrSalt paramValue (phc_Params out)\<rparr>))
      else parseSaltEnd token rs1 paramNameOrSalt out)"

definition Parse :: "nat list \<Rightarrow> PHC option" where
  "Parse rs =
     (case parseFunctionId rs of
        None \<Rightarrow> None
      | Some (i, rs1) \<Rightarrow>
          let out = emptyPHC\<lparr>phc_Id := i\<rparr>; (token, rs2) = scanSeparator rs1 in
          if token = EOF then Some out
          else if token \<noteq> DOLLARSIGN then None
          else
            (case parseToken B64ENCODED rs2 of
               None \<Rightarrow> None
             | Some (first, rs3) \<Rightarrow>
                 if first \<noteq> ''v'' then parseNameOrSalt first rs3 out
                 else
                   (case parseParamRHS rs3 of
                      None \<Rightarrow> None
                    | Some (versionStr, rs4) \<Rightarrow>
                        let out1 = out\<lparr>phc_Version := versionStr\<rparr>; (token1, rs5) = scanSeparator rs4 in
                        if token1 = EOF then Some out1
                        else if token1 \<noteq> DOLLARSIGN then None
                        else
                          (case parseToken B64ENCODED rs5 of
                             None \<Rightarrow> None
                           | Some (next1, rs6) \<Rightarrow> parseNameOrSalt next1 rs6 out1))))"

section \<open>The hashers\<close>

text \<open>\<^verbatim>\<open>strconv.Atoi\<close>: an optional sign, digits, a value of 64 bits.\<close>

definition goAtoi :: "string \<Rightarrow> int option" where
  "goAtoi s =
     (let neg = take 1 s = ''-''; ds = (if take 1 s = ''-'' \<or> take 1 s = ''+'' then drop 1 s else s);
          v = (if neg then - int (decVal ds) else int (decVal ds)) in
      if ds \<noteq> [] \<and> list_all isDigit ds \<and> - (2 ^ 63) \<le> v \<and> v < 2 ^ 63 then Some v else None)"

definition goItoa :: "int \<Rightarrow> string" where
  "goItoa x = appendInt x 0"

datatype hash_error = ErrPasswordTooLong | ErrMismatchedHashAndPassword | ErrHash

text \<open>
  What the hashers take from outside: the salt read at a tick, the derived key (password, salt, iterations, length
  in bytes), and the two functions of bcrypt; the generation also depends on a tick, by its salt.
\<close>

record hashLib =
  hl_salt :: "nat \<Rightarrow> string option"
  hl_key :: "string \<Rightarrow> string \<Rightarrow> int \<Rightarrow> int \<Rightarrow> string option"
  hl_bcrypt :: "nat \<Rightarrow> string \<Rightarrow> hash_error + string"
  hl_bcryptCompare :: "string \<Rightarrow> string \<Rightarrow> hash_error option"

record PBKDF2 =
  pb_workFactor :: int
  pb_keyLength :: int
  pb_phcHeader :: string

definition NewPBKDF2 :: "int \<Rightarrow> int \<Rightarrow> PBKDF2 option" where
  "NewPBKDF2 workFactor keyLength =
     (if workFactor \<le> 0 \<or> keyLength \<le> 0 then None
      else Some \<lparr>pb_workFactor = workFactor, pb_keyLength = keyLength,
        pb_phcHeader = ''$'' @ ''pbkdf2'' @ ''$f='' @ ''SHA256'' @ '',w='' @ goItoa workFactor @ '',l='' @ goItoa keyLength @ ''$''\<rparr>)"

text \<open>Both parameters are positive, so \<^verbatim>\<open>DefaultPBKDF2\<close> does not panic.\<close>

definition DefaultPBKDF2 :: PBKDF2 where
  "DefaultPBKDF2 = the (NewPBKDF2 600000 32)"

definition PasswordMaxLengthBytes :: nat where
  "PasswordMaxLengthBytes = 72"

definition paramOf :: "PHC \<Rightarrow> string \<Rightarrow> string" where
  "paramOf phc k = (case gm_get (phc_Params phc) k of None \<Rightarrow> [] | Some v \<Rightarrow> v)"

definition NewPBKDF2FromPHC :: "PHC \<Rightarrow> PBKDF2 option" where
  "NewPBKDF2FromPHC phc =
     (case goAtoi (paramOf phc ''w'') of
        None \<Rightarrow> None
      | Some workFactor \<Rightarrow>
          (case goAtoi (paramOf phc ''l'') of None \<Rightarrow> None | Some keyLength \<Rightarrow> NewPBKDF2 workFactor keyLength))"

definition hashWithSalt :: "hashLib \<Rightarrow> PBKDF2 \<Rightarrow> string \<Rightarrow> string \<Rightarrow> string option" where
  "hashWithSalt L p password salt = map_option b64encode (hl_key L password salt (pb_workFactor p) (pb_keyLength p))"

definition PBKDF2_Hash :: "hashLib \<Rightarrow> nat \<Rightarrow> PBKDF2 \<Rightarrow> string \<Rightarrow> hash_error + string" where
  "PBKDF2_Hash L n p password =
     (if length password > PasswordMaxLengthBytes then Inl ErrPasswordTooLong
      else case hl_salt L n of
             None \<Rightarrow> Inl ErrHash
           | Some salt \<Rightarrow>
               (case hashWithSalt L p password salt of
                  None \<Rightarrow> Inl ErrHash
                | Some hash \<Rightarrow> Inr (pb_phcHeader p @ b64encode salt @ ''$'' @ hash)))"

definition PBKDF2_IsPHCValid :: "PBKDF2 \<Rightarrow> PHC \<Rightarrow> bool" where
  "PBKDF2_IsPHCValid p phc \<longleftrightarrow>
     phc_Id phc = ''pbkdf2'' \<and> length (phc_Params phc) = 3 \<and> paramOf phc ''f'' = ''SHA256''
     \<and> paramOf phc ''w'' = goItoa (pb_workFactor p) \<and> paramOf phc ''l'' = goItoa (pb_keyLength p)"

definition PBKDF2_CompareHashAndPassword :: "hashLib \<Rightarrow> PBKDF2 \<Rightarrow> PHC \<Rightarrow> string \<Rightarrow> hash_error option" where
  "PBKDF2_CompareHashAndPassword L p hash password =
     (if length password > PasswordMaxLengthBytes then Some ErrPasswordTooLong
      else if \<not> PBKDF2_IsPHCValid p hash then Some ErrHash
      else case b64decode (phc_Salt hash) of
             None \<Rightarrow> Some ErrHash
           | Some salt \<Rightarrow>
               (case hashWithSalt L p password salt of
                  None \<Rightarrow> Some ErrHash
                | Some newHash \<Rightarrow> if phc_Hash hash \<noteq> newHash then Some ErrMismatchedHashAndPassword else None))"

definition BCrypt_Hash :: "hashLib \<Rightarrow> nat \<Rightarrow> string \<Rightarrow> hash_error + string" where
  "BCrypt_Hash L n password = hl_bcrypt L n password"

definition BCrypt_CompareHashAndPassword :: "hashLib \<Rightarrow> PHC \<Rightarrow> string \<Rightarrow> hash_error option" where
  "BCrypt_CompareHashAndPassword L hash password =
     (if length password > PasswordMaxLengthBytes then Some ErrPasswordTooLong else hl_bcryptCompare L (phc_Hash hash) password)"

text \<open>The values of the interface \<^verbatim>\<open>PasswordHasher\<close>.\<close>

datatype hasher = HPBKDF2 PBKDF2 | HBCrypt

definition latestHasher :: hasher where
  "latestHasher = HPBKDF2 DefaultPBKDF2"

fun hasher_IsPHCValid :: "hasher \<Rightarrow> PHC \<Rightarrow> bool" where
  "hasher_IsPHCValid (HPBKDF2 p) phc = PBKDF2_IsPHCValid p phc"
| "hasher_IsPHCValid HBCrypt phc = False"

fun hasher_Compare :: "hashLib \<Rightarrow> hasher \<Rightarrow> PHC \<Rightarrow> string \<Rightarrow> hash_error option" where
  "hasher_Compare L (HPBKDF2 p) phc password = PBKDF2_CompareHashAndPassword L p phc password"
| "hasher_Compare L HBCrypt phc password = BCrypt_CompareHashAndPassword L phc password"

fun hasher_Hash :: "hashLib \<Rightarrow> nat \<Rightarrow> hasher \<Rightarrow> string \<Rightarrow> hash_error + string" where
  "hasher_Hash L n (HPBKDF2 p) password = PBKDF2_Hash L n p password"
| "hasher_Hash L n HBCrypt password = BCrypt_Hash L n password"

definition getOriginalHasher :: "string \<Rightarrow> hasher \<times> PHC" where
  "getOriginalHasher phcString = (HBCrypt, emptyPHC\<lparr>phc_Hash := phcString\<rparr>)"

definition GetHasherFromPHCString :: "string \<Rightarrow> (hasher \<times> PHC) option" where
  "GetHasherFromPHCString phcString =
     (case Parse (newParser phcString) of
        None \<Rightarrow> Some (getOriginalHasher phcString)
      | Some phc \<Rightarrow>
          if hasher_IsPHCValid latestHasher phc then Some (latestHasher, phc)
          else if phc_Id phc = ''pbkdf2'' then map_option (\<lambda>p. (HPBKDF2 p, phc)) (NewPBKDF2FromPHC phc)
          else Some (getOriginalHasher phcString))"

text \<open>\<^verbatim>\<open>hashers.Hash\<close> of a production build.\<close>

definition Hash :: "hashLib \<Rightarrow> nat \<Rightarrow> string \<Rightarrow> hash_error + string" where
  "Hash L n password = hasher_Hash L n latestHasher password"

definition IsLatestHasher :: "hasher \<Rightarrow> bool" where
  "IsLatestHasher h \<longleftrightarrow> h = latestHasher"

section \<open>Base 64 is injective\<close>

lemma b64_bytes_sextets:
  "list_all (\<lambda>b. b < 256) bs \<Longrightarrow> b64bytes (b64sextets bs) = Some bs"
proof (induction bs rule: b64sextets.induct)
  case (4 a b c r)
  have small: "b div 16 < 16" "c div 64 < 4" using 4(2) by (simp_all add: less_mult_imp_div_less)
  have "a div 4 * 4 + ((a mod 4) * 16 + b div 16) div 16 = a"
    using small(1) by simp
  moreover have "((a mod 4) * 16 + b div 16) mod 16 * 16 + ((b mod 16) * 4 + c div 64) div 4 = b"
    using small by simp
  moreover have "((b mod 16) * 4 + c div 64) mod 4 * 64 + c mod 64 = c"
    using small(2) by simp
  ultimately show ?case using 4 by simp
next
  case (3 a b)
  have "b div 16 < 16" using 3 by (simp add: less_mult_imp_div_less)
  then show ?case by simp
qed simp_all

lemma b64sextets_bound: "list_all (\<lambda>b. b < 256) bs \<Longrightarrow> list_all (\<lambda>k. k < 64) (b64sextets bs)"
  by (induction bs rule: b64sextets.induct) auto

lemma b64digit_code:
  assumes "k < 64"
  shows "of_char (b64digit k) =
    (if k < 26 then 65 + k else if k < 52 then 71 + k else if k < 62 then k - 4 else if k = 62 then 43 else 47)"
  using assms by (simp add: b64digit_def)

lemma b64digit_cases:
  assumes "k < 64"
  shows "b64val (b64digit k) = Some k \<and> isB64 (of_char (b64digit k)) \<and> b64digit k \<noteq> CHR 0x0A \<and> b64digit k \<noteq> CHR 0x0D"
proof -
  define c where "c = b64digit k"
  note code = b64digit_code[OF assms, folded c_def]
  have "c \<noteq> CHR 0x0A" "c \<noteq> CHR 0x0D" using code by (auto split: if_splits)
  moreover have "c = CHR ''+''" if "k = 62" using that by (simp add: c_def b64digit_def)
  moreover have "c = CHR ''/''" if "k = 63" using that by (simp add: c_def b64digit_def)
  moreover have "k = 63" if "\<not> k < 62" "k \<noteq> 62" using that assms by linarith
  ultimately show ?thesis
    unfolding c_def[symmetric] using code
    by (cases "k < 26"; cases "k < 52"; cases "k < 62"; cases "k = 62")
      (auto simp: b64val_def isB64_def isLetter_def isDigitRune_def isDigit_def less_eq_char_def)
qed

lemma of_char_bytes [simp]: "list_all (\<lambda>b. b < 256) (map of_char s :: nat list)"
  by (simp add: list_all_iff)

lemma b64encode_digits: "list_all (\<lambda>c. isB64 (of_char c)) (b64encode s)"
  using b64sextets_bound[OF of_char_bytes, of s] b64digit_cases by (auto simp: b64encode_def list_all_iff)

lemma b64_roundtrip [simp]: "b64decode (b64encode s) = Some s"
proof -
  let ?k = "b64sextets (map of_char s)"
  have k: "x \<in> set ?k \<Longrightarrow> x < 64" for x using b64sextets_bound[OF of_char_bytes, of s] by (simp add: list_all_iff)
  have "filter (\<lambda>c. c \<noteq> CHR 0x0A \<and> c \<noteq> CHR 0x0D) (b64encode s) = b64encode s"
    using b64digit_cases[OF k] by (auto simp: b64encode_def intro!: filter_True)
  moreover have "list_all (\<lambda>c. b64val c \<noteq> None) (b64encode s)"
    using b64digit_cases[OF k] by (auto simp: b64encode_def list_all_iff)
  moreover have "map (the \<circ> b64val) (b64encode s) = ?k"
    using b64digit_cases[OF k] by (auto simp: b64encode_def intro!: map_idI)
  ultimately show ?thesis by (simp add: b64decode_def b64_bytes_sextets comp_def)
qed

lemma b64encode_inj: "b64encode s = b64encode t \<longleftrightarrow> s = t"
  by (metis b64_roundtrip option.inject)

lemma b64sextets_length: "length (b64sextets bs) = (length bs * 4 + 2) div 3"
  by (induction bs rule: b64sextets.induct) auto

lemma b64encode_length: "length (b64encode s) = (length s * 4 + 2) div 3"
  by (simp add: b64encode_def b64sextets_length)

section \<open>Reading what a hasher wrote\<close>

text \<open>A literal of the given kind, and input that ends it.\<close>

definition isIdent :: "(nat \<Rightarrow> bool) \<Rightarrow> string \<Rightarrow> bool" where
  "isIdent ok s \<longleftrightarrow> s \<noteq> [] \<and> list_all (\<lambda>c. ok (of_char c)) s"

definition stopsAt :: "(nat \<Rightarrow> bool) \<Rightarrow> nat list \<Rightarrow> bool" where
  "stopsAt ok rs \<longleftrightarrow> (case rs of [] \<Rightarrow> True | r # _ \<Rightarrow> \<not> ok r \<and> r \<noteq> 0)"

lemma scanRest_ident:
  assumes "\<not> ok 0" "stopsAt ok rs"
  shows "list_all (\<lambda>c. ok (of_char c)) s \<Longrightarrow> scanRest ok (map of_char s @ rs) = (map of_char s, rs)"
proof (induction s)
  case Nil
  then show ?case using assms by (cases rs) (auto simp: stopsAt_def eofRune_def)
next
  case (Cons c s)
  have "of_char c \<noteq> (0::nat)"
  proof
    assume "of_char c = (0::nat)"
    then show False using Cons.prems assms(1) by simp
  qed
  then show ?case using Cons by (simp add: eofRune_def)
qed

lemma parseToken_ident:
  assumes "isIdent (allowedRuneFunc e) s" "stopsAt (allowedRuneFunc e) rs" "e \<in> {FUNCTIONID, PARAMNAME, PARAMVALUE, B64ENCODED}"
  shows "parseToken e (map of_char s @ rs) = Some (s, rs)"
proof -
  have "\<not> allowedRuneFunc e 0"
    using assms(3) by (auto simp: isLowercaseLetterOrDigitOrMinus_def isLetterOrDigitOrSymbol_def isB64_def isLetter_def isLowercaseLetter_def
        isDigitRune_def isSymbol_def)
  moreover obtain c t where s: "s = c # t" using assms(1) by (cases s) (auto simp: isIdent_def)
  ultimately have "scanRest (allowedRuneFunc e) (map of_char t @ rs) = (map of_char t, rs)"
    using assms(1,2) by (intro scanRest_ident) (auto simp: isIdent_def)
  then show ?thesis
    using assms(1,3) s by (auto simp: parseToken_def scan_def readRune_def scanIdent_def isIdent_def tokenMatches_def Let_def comp_def)
qed

lemma scanSeparator_simps [simp]:
  "scanSeparator [] = (EOF, [])" "scanSeparator (36 # rs) = (DOLLARSIGN, rs)" "scanSeparator (44 # rs) = (COMMA, rs)"
  "scanSeparator (61 # rs) = (EQUALSIGN, rs)"
  by (simp_all add: scanSeparator_def scan_def readRune_def noneAllowed_def eofRune_def)

lemma parseToken_simps [simp]:
  "parseToken DOLLARSIGN (36 # rs) = Some (''$'', rs)" "parseToken EQUALSIGN (61 # rs) = Some (''='', rs)" "parseToken EOF [] = Some ([], [])"
  by (simp_all add: parseToken_def scan_def readRune_def noneAllowed_def eofRune_def tokenMatches_def)

lemmas runeClasses = isLowercaseLetterOrDigitOrMinus_def isLetterOrDigitOrSymbol_def isB64_def isLetter_def isLowercaseLetter_def
  isDigitRune_def isSymbol_def stopsAt_def isIdent_def

lemma Parse_header:
  assumes "isIdent isLetterOrDigitOrSymbol w" "isIdent isLetterOrDigitOrSymbol l" "isIdent isB64 salt" "isIdent isB64 hash"
  shows "Parse (map of_char (''$pbkdf2$f=SHA256,w='' @ w @ '',l='' @ l @ ''$'' @ salt @ ''$'' @ hash)) =
    Some \<lparr>phc_Id = ''pbkdf2'', phc_Version = [], phc_Params = [(''f'', ''SHA256''), (''w'', w), (''l'', l)], phc_Salt = salt, phc_Hash = hash\<rparr>"
proof -
  let ?h = "map of_char hash :: nat list"
  let ?s = "map of_char salt @ 36 # ?h :: nat list"
  let ?l = "map of_char l @ 36 # ?s"
  let ?w = "map of_char w @ 44 # map of_char ''l'' @ 61 # ?l"
  let ?f = "map of_char ''SHA256'' @ 44 # map of_char ''w'' @ 61 # ?w"
  have h: "parseHash ?h = Some hash"
    using parseToken_ident[of B64ENCODED hash "[]"] assms(4) by (simp add: parseHash_def stopsAt_def)
  have s: "parseToken B64ENCODED ?s = Some (salt, 36 # ?h)"
    using assms(3) by (intro parseToken_ident) (simp_all add: runeClasses)
  have l: "parseParamRHS (61 # ?l) = Some (l, 36 # ?s)"
    using parseToken_ident[of PARAMVALUE l "36 # ?s"] assms(2) by (simp add: parseParamRHS_def runeClasses)
  have w: "parseParamRHS (61 # ?w) = Some (w, 44 # map of_char ''l'' @ 61 # ?l)"
    using parseToken_ident[of PARAMVALUE w "44 # map of_char ''l'' @ 61 # ?l"] assms(1) by (simp add: parseParamRHS_def runeClasses)
  have names: "parseToken PARAMNAME (map of_char ''l'' @ 61 # ?l) = Some (''l'', 61 # ?l)"
    "parseToken PARAMNAME (map of_char ''w'' @ 61 # ?w) = Some (''w'', 61 # ?w)"
    "parseToken PARAMVALUE ?f = Some (''SHA256'', 44 # map of_char ''w'' @ 61 # ?w)"
    "parseToken B64ENCODED (map of_char ''f'' @ 61 # ?f) = Some (''f'', 61 # ?f)"
    "parseToken FUNCTIONID (map of_char ''pbkdf2'' @ 36 # map of_char ''f'' @ 61 # ?f) = Some (''pbkdf2'', 36 # map of_char ''f'' @ 61 # ?f)"
    by (intro parseToken_ident; simp add: runeClasses)+
  let ?o = "\<lambda>ps. \<lparr>phc_Id = ''pbkdf2'', phc_Version = [], phc_Params = ps, phc_Salt = [], phc_Hash = []\<rparr>"
  have p3: "parseParams (36 # ?s) (?o ps) = Some (?o ps\<lparr>phc_Salt := salt, phc_Hash := hash\<rparr>)" for ps
    by (subst parseParams.simps) (simp add: s h parseSaltEnd_def)
  have p2: "parseParams (44 # map of_char ''l'' @ 61 # ?l) (?o ps) = parseParams (36 # ?s) (?o (gm_set ''l'' l ps))" for ps
    by (subst parseParams.simps) (simp add: names(1)[simplified] l)
  have p1: "parseParams (44 # map of_char ''w'' @ 61 # ?w) (?o ps) = parseParams (44 # map of_char ''l'' @ 61 # ?l) (?o (gm_set ''w'' w ps))" for ps
    by (subst parseParams.simps) (simp add: names(2)[simplified] w[simplified])
  have start: "parseFunctionId (map of_char (''$pbkdf2$f=SHA256,w='' @ w @ '',l='' @ l @ ''$'' @ salt @ ''$'' @ hash)) =
      Some (''pbkdf2'', 36 # map of_char ''f'' @ 61 # ?f)"
    using names(5) by (simp add: parseFunctionId_def)
  show ?thesis
    unfolding Parse_def start
    using p1[of "[(''f'', ''SHA256'')]"] p2[of "[(''f'', ''SHA256''), (''w'', w)]"] p3 names(3,4)
    by (simp add: parseNameOrSalt_def emptyPHC_def)
qed


lemma isIdent_b64: "s \<noteq> [] \<Longrightarrow> isIdent isB64 (b64encode s)"
proof -
  assume "s \<noteq> []"
  then have "b64encode s \<noteq> []" by (metis b64_roundtrip b64encode_def b64sextets.simps(1) list.map(1) option.inject)
  then show ?thesis using b64encode_digits[of s] by (simp add: isIdent_def)
qed

lemma default_itoa: "goItoa 600000 = ''600000''" "goItoa 32 = ''32''"
  by (simp_all add: goItoa_def appendInt_def decStr.simps digit_chars)

lemma DefaultPBKDF2_eq:
  "DefaultPBKDF2 = \<lparr>pb_workFactor = 600000, pb_keyLength = 32, pb_phcHeader = ''$pbkdf2$f=SHA256,w=600000,l=32$''\<rparr>"
  by (simp add: DefaultPBKDF2_def NewPBKDF2_def default_itoa)

text \<open>What the latest hasher writes, and its length.\<close>

definition phcString :: "string \<Rightarrow> string \<Rightarrow> string" where
  "phcString salt k = ''$pbkdf2$f=SHA256,w=600000,l=32$'' @ b64encode salt @ ''$'' @ b64encode k"

definition phcOf :: "string \<Rightarrow> string \<Rightarrow> PHC" where
  "phcOf salt k = \<lparr>phc_Id = ''pbkdf2'', phc_Version = [], phc_Params = [(''f'', ''SHA256''), (''w'', ''600000''), (''l'', ''32'')],
     phc_Salt = b64encode salt, phc_Hash = b64encode k\<rparr>"

lemma phcString_length: "length salt = 16 \<Longrightarrow> length k = 32 \<Longrightarrow> length (phcString salt k) = 97"
  by (simp add: phcString_def b64encode_length)

lemma Hash_eq:
  "Hash L n p = (if length p > 72 then Inl ErrPasswordTooLong
     else case hl_salt L n of None \<Rightarrow> Inl ErrHash
       | Some salt \<Rightarrow> (case hl_key L p salt 600000 32 of None \<Rightarrow> Inl ErrHash | Some k \<Rightarrow> Inr (phcString salt k)))"
  by (simp add: Hash_def latestHasher_def DefaultPBKDF2_eq PBKDF2_Hash_def PasswordMaxLengthBytes_def hashWithSalt_def phcString_def
      split: option.split)

lemma b64_ascii: "isB64 (of_char c) \<Longrightarrow> of_char c < (128::nat)"
  by (auto simp: isB64_def isLetter_def isDigitRune_def)

lemma Parse_phcString:
  assumes "length salt = 16" "length k = 32"
  shows "Parse (newParser (phcString salt k)) = Some (phcOf salt k)"
proof -
  have ne: "salt \<noteq> []" "k \<noteq> []" using assms by auto
  have "list_all (\<lambda>b. b < 128) (map of_char (phcString salt k) :: nat list)"
    using b64encode_digits[of salt] b64encode_digits[of k] by (auto simp: phcString_def list_all_iff dest: b64_ascii)
  then have "newParser (phcString salt k) = map of_char (phcString salt k)"
    by (simp add: newParser_def MaxRunes_def phcString_length[OF assms] runesOf_ascii)
  moreover have "isIdent isLetterOrDigitOrSymbol ''600000''" "isIdent isLetterOrDigitOrSymbol ''32''"
    by (simp_all add: runeClasses)
  from Parse_header[OF this isIdent_b64[OF ne(1)] isIdent_b64[OF ne(2)]]
  have "Parse (map of_char (phcString salt k)) = Some (phcOf salt k)"
    by (simp add: phcString_def phcOf_def)
  ultimately show ?thesis by simp
qed

lemma phcOf_valid: "hasher_IsPHCValid latestHasher (phcOf salt k)"
  by (simp add: latestHasher_def DefaultPBKDF2_eq PBKDF2_IsPHCValid_def phcOf_def paramOf_def default_itoa)

lemma Compare_phcOf:
  "hasher_Compare L latestHasher (phcOf salt k) q =
     (if length q > 72 then Some ErrPasswordTooLong
      else case hl_key L q salt 600000 32 of
             None \<Rightarrow> Some ErrHash | Some k' \<Rightarrow> if k' \<noteq> k then Some ErrMismatchedHashAndPassword else None)"
  using phcOf_valid[of salt k]
  by (auto simp: latestHasher_def DefaultPBKDF2_eq PBKDF2_CompareHashAndPassword_def PasswordMaxLengthBytes_def hashWithSalt_def
      b64encode_inj phcOf_def split: option.split)

text \<open>
  C21: Stored passwords verify. A password of at most 72 bytes is hashed to a string that the server recognises as
  produced by its current hasher, and comparing any text with it succeeds exactly when the text has at most 72
  bytes and derives the same key under the stored salt. In particular the password itself is accepted.
  PBKDF2 returns as many bytes as asked for, and 16 random bytes are read for the salt.
\<close>

theorem password_roundtrip:
  assumes "length p \<le> 72" and "hl_salt L n = Some salt" "length salt = 16"
    and "hl_key L p salt 600000 32 = Some k" "length k = 32"
  shows "\<exists>h phc. Hash L n p = Inr h \<and> GetHasherFromPHCString h = Some (latestHasher, phc) \<and> hasher_Compare L latestHasher phc p = None
    \<and> (\<forall>q. hasher_Compare L latestHasher phc q = None \<longleftrightarrow> length q \<le> 72 \<and> hl_key L q salt 600000 32 = Some k)"
proof -
  have "Hash L n p = Inr (phcString salt k)" using assms by (simp add: Hash_eq)
  moreover have "GetHasherFromPHCString (phcString salt k) = Some (latestHasher, phcOf salt k)"
    by (simp add: GetHasherFromPHCString_def Parse_phcString[OF assms(3,5)] phcOf_valid)
  moreover have "hasher_Compare L latestHasher (phcOf salt k) q = None \<longleftrightarrow> length q \<le> 72 \<and> hl_key L q salt 600000 32 = Some k" for q
    by (auto simp: Compare_phcOf split: option.split)
  ultimately show ?thesis using assms(1,4) by blast
qed

text \<open>A library for the examples: the key is the password, padded or cut to 32 bytes.\<close>

definition demoHash :: hashLib where
  "demoHash = \<lparr>hl_salt = \<lambda>_. Some (replicate 16 (CHR ''s'')), hl_key = \<lambda>p s w l. Some (take 32 (p @ replicate 32 (CHR ''.''))),
     hl_bcrypt = \<lambda>n p. Inr (replicate 60 (CHR ''b'')), hl_bcryptCompare = \<lambda>h p. None\<rparr>"

theorem password_roundtrip_witness:
  "\<exists>h phc. Hash demoHash 0 ''Student@123'' = Inr h \<and> GetHasherFromPHCString h = Some (latestHasher, phc)
     \<and> hasher_Compare demoHash latestHasher phc ''Student@123'' = None
     \<and> hasher_Compare demoHash latestHasher phc ''Student@124'' \<noteq> None"
proof -
  have "length ''Student@123'' \<le> 72" "hl_salt demoHash 0 = Some (replicate 16 (CHR ''s''))" "length (replicate 16 (CHR ''s'')) = 16"
    by (simp_all add: demoHash_def)
  moreover have k: "hl_key demoHash ''Student@123'' (replicate 16 (CHR ''s'')) 600000 32 = Some (take 32 (''Student@123'' @ replicate 32 (CHR ''.'')))"
    "hl_key demoHash ''Student@124'' (replicate 16 (CHR ''s'')) 600000 32 \<noteq> Some (take 32 (''Student@123'' @ replicate 32 (CHR ''.'')))"
    by (simp_all add: demoHash_def)
  moreover have "length (take 32 (''Student@123'' @ replicate 32 (CHR ''.''))) = 32" by simp
  ultimately show ?thesis using password_roundtrip[of "''Student@123''" demoHash 0] by blast
qed

end
