(* ===== verification/Sfu_Auth.thy ===== *)
theory Sfu_Auth
  imports Passwords
begin

text \<open>
  Who may use the SFU, \<^verbatim>\<open>rtcd/service\<close>: the key-value store of the registered clients (\<^verbatim>\<open>store/bitcask.go\<close>), the cache of
  bearer tokens (\<^verbatim>\<open>auth/session_cache.go\<close>), registration and login (\<^verbatim>\<open>auth/service.go\<close>, \<^verbatim>\<open>auth/crypto.go\<close>) and the HTTP
  handlers around them (\<^verbatim>\<open>auth.go\<close>).

  \<^item> The environment \<open>sfuEnv\<close> supplies at a tick the clock in nanoseconds, the random bytes, whether the rate limiter
    and the statements of the database library refuse, and bcrypt. An operation that starts at tick \<open>n\<close> reads each of them
    at most once; a handler authenticates at \<open>n\<close> and acts at \<open>n + 1\<close>.
  \<^item> An error is its text, as in the answers; the empty text is no error. The texts of bcrypt and of the libraries are
    parameters.
  \<^item> The answer of a handler is its status and its JSON object. Log and audit lines are left out.
\<close>

section \<open>Environment and state\<close>

record sfuEnv =
  sy_now :: "nat \<Rightarrow> int"
  sy_dbGet :: "nat \<Rightarrow> string option"
  sy_dbPut :: "nat \<Rightarrow> string option"
  sy_dbDelete :: "nat \<Rightarrow> string option"
  sy_dbSync :: "nat \<Rightarrow> string option"
  sy_wait :: "nat \<Rightarrow> string option"
  sy_rand :: "nat \<Rightarrow> nat \<Rightarrow> string + string"
  sy_bcrypt :: "nat \<Rightarrow> string \<Rightarrow> string + string"
  sy_compare :: "string \<Rightarrow> string \<Rightarrow> string option"

record SessionCacheConfig =
  scc_ExpirationMinutes :: int

record SecurityConfig =
  sec_EnableAdmin :: bool
  sec_AdminSecretKey :: string
  sec_AllowSelfRegistration :: bool
  sec_SessionCache :: SessionCacheConfig

definition SecurityConfig_IsValid :: "SecurityConfig \<Rightarrow> string option" where
  "SecurityConfig_IsValid c =
     (if \<not> sec_EnableAdmin c then None
      else if sec_AdminSecretKey c = '''' then Some ''invalid AdminSecretKey value: should not be empty''
      else None)"

record CachedSession =
  sn_ClientID :: string
  sn_ExpirationDate :: int

record SessionCache =
  sm_cfg :: SessionCacheConfig
  sm_sessionMap :: "CachedSession gomap"

record authService =
  as_sessionCache :: SessionCache
  as_store :: "string gomap"

section \<open>The store of clients\<close>

datatype bitcask_error = SErrNotFound | SErrEmptyKey | SErrConflict | SErrDb string

fun storeText :: "bitcask_error \<Rightarrow> string" where
  "storeText SErrNotFound = ''error: not found''"
| "storeText SErrEmptyKey = ''error: empty key''"
| "storeText SErrConflict = ''error: conflict''"
| "storeText (SErrDb e) = e"

definition bitcask_Get :: "sfuEnv \<Rightarrow> nat \<Rightarrow> string \<Rightarrow> string gomap \<Rightarrow> bitcask_error + string" where
  "bitcask_Get E n key db =
     (if key = '''' then Inl SErrEmptyKey
      else case sy_dbGet E n of
             Some e \<Rightarrow> Inl (SErrDb (''failed to get key: '' @ e))
           | None \<Rightarrow> (case gm_get db key of None \<Rightarrow> Inl SErrNotFound | Some v \<Rightarrow> Inr v))"

definition dbSynced :: "sfuEnv \<Rightarrow> nat \<Rightarrow> string gomap \<Rightarrow> bitcask_error option \<times> string gomap" where
  "dbSynced E n db =
     (case sy_dbSync E n of Some e \<Rightarrow> (Some (SErrDb (''failed to sync db: '' @ e)), db) | None \<Rightarrow> (None, db))"

definition bitcask_Set :: "sfuEnv \<Rightarrow> nat \<Rightarrow> string \<Rightarrow> string \<Rightarrow> string gomap \<Rightarrow> bitcask_error option \<times> string gomap" where
  "bitcask_Set E n key v db =
     (if key = '''' then (Some SErrEmptyKey, db)
      else case sy_dbPut E n of
             Some e \<Rightarrow> (Some (SErrDb (''failed to set key: '' @ e)), db)
           | None \<Rightarrow> dbSynced E n (gm_set key v db))"

definition bitcask_Put :: "sfuEnv \<Rightarrow> nat \<Rightarrow> string \<Rightarrow> string \<Rightarrow> string gomap \<Rightarrow> bitcask_error option \<times> string gomap" where
  "bitcask_Put E n key v db =
     (if key = '''' then (Some SErrEmptyKey, db)
      else if gm_get db key \<noteq> None then (Some SErrConflict, db)
      else case sy_dbPut E n of
             Some e \<Rightarrow> (Some (SErrDb (''failed to set key: '' @ e)), db)
           | None \<Rightarrow> dbSynced E n (gm_set key v db))"

definition bitcask_Delete :: "sfuEnv \<Rightarrow> nat \<Rightarrow> string \<Rightarrow> string gomap \<Rightarrow> bitcask_error option \<times> string gomap" where
  "bitcask_Delete E n key db =
     (if key = '''' then (Some SErrEmptyKey, db)
      else case sy_dbDelete E n of
             Some e \<Rightarrow> (Some (SErrDb (''failed to delete key: '' @ e)), db)
           | None \<Rightarrow> dbSynced E n (gm_del key db))"

section \<open>The cache of bearer tokens\<close>

definition SessionCacheConfig_IsValid :: "SessionCacheConfig \<Rightarrow> string option" where
  "SessionCacheConfig_IsValid c =
     (if scc_ExpirationMinutes c \<le> 0 then Some ''invalid ExpirationMinutes value: should be a positive number'' else None)"

definition NewSessionCache :: "SessionCacheConfig \<Rightarrow> string + SessionCache" where
  "NewSessionCache cfg =
     (case SessionCacheConfig_IsValid cfg of Some e \<Rightarrow> Inl e | None \<Rightarrow> Inr \<lparr>sm_cfg = cfg, sm_sessionMap = []\<rparr>)"

definition SessionCache_Get :: "sfuEnv \<Rightarrow> nat \<Rightarrow> string \<Rightarrow> SessionCache \<Rightarrow> (string + CachedSession) \<times> SessionCache" where
  "SessionCache_Get E n token t =
     (case gm_get (sm_sessionMap t) token of
        None \<Rightarrow> (Inl ''token is invalid'', t)
      | Some session \<Rightarrow>
          if sy_now E n > sn_ExpirationDate session
          then (Inl ''session is expired'', t\<lparr>sm_sessionMap := gm_del token (sm_sessionMap t)\<rparr>)
          else (Inr session, t))"

text \<open>The loop deletes the first entry of the client it meets and returns.\<close>

definition SessionCache_delete :: "string \<Rightarrow> SessionCache \<Rightarrow> SessionCache" where
  "SessionCache_delete clientID t =
     (case find (\<lambda>(_, session). sn_ClientID session = clientID) (sm_sessionMap t) of
        None \<Rightarrow> t
      | Some (token, _) \<Rightarrow> t\<lparr>sm_sessionMap := gm_del token (sm_sessionMap t)\<rparr>)"

definition expiration :: "SessionCacheConfig \<Rightarrow> int" where
  "expiration cfg = wrap64 (scc_ExpirationMinutes cfg * 60000000000)"

definition SessionCache_Put :: "sfuEnv \<Rightarrow> nat \<Rightarrow> string \<Rightarrow> string \<Rightarrow> SessionCache \<Rightarrow> string option \<times> SessionCache" where
  "SessionCache_Put E n clientID token t =
     (if clientID = '''' then (Some ''can not cache: invalid client id'', t)
      else if token = '''' then (Some ''can not cache: invalid token'', t)
      else if gm_get (sm_sessionMap t) token \<noteq> None then (Some ''can not cache: token in use'', t)
      else let t1 = SessionCache_delete clientID t
           in (None, t1\<lparr>sm_sessionMap := gm_set token
                 \<lparr>sn_ClientID = clientID, sn_ExpirationDate = sy_now E n + expiration (sm_cfg t)\<rparr> (sm_sessionMap t1)\<rparr>))"

section \<open>Keys and tokens\<close>

definition MinKeyLen :: nat where
  "MinKeyLen = 32"

text \<open>\<^verbatim>\<open>base64.RawURLEncoding\<close>.\<close>

definition b64urlDigit :: "nat \<Rightarrow> char" where
  "b64urlDigit k = (if k = 62 then CHR ''-'' else if k = 63 then CHR ''_'' else b64digit k)"

definition newRandomString :: "sfuEnv \<Rightarrow> nat \<Rightarrow> nat \<Rightarrow> string + string" where
  "newRandomString E n len =
     (let size = 1 + len * 4 div 3 in
      case sy_rand E n size of
        Inl e \<Rightarrow> Inl e
      | Inr data \<Rightarrow>
          if length data \<noteq> size then Inl ''failed to read enough data''
          else Inr (take len (map b64urlDigit (b64sextets (map of_char data)))))"

definition newRandomToken :: "sfuEnv \<Rightarrow> nat \<Rightarrow> string + string" where
  "newRandomToken E n = newRandomString E n MinKeyLen"

definition hashKey :: "sfuEnv \<Rightarrow> nat \<Rightarrow> string \<Rightarrow> string + string" where
  "hashKey E n key = (if key = '''' then Inl ''invalid empty key'' else sy_bcrypt E n key)"

definition compareKeyHash :: "sfuEnv \<Rightarrow> string \<Rightarrow> string \<Rightarrow> string option" where
  "compareKeyHash E hash key =
     (if hash = '''' then Some ''invalid empty hash''
      else if key = '''' then Some ''invalid empty key''
      else sy_compare E hash key)"

section \<open>Registration and login\<close>

definition Authenticate :: "sfuEnv \<Rightarrow> nat \<Rightarrow> string \<Rightarrow> string \<Rightarrow> authService \<Rightarrow> string option" where
  "Authenticate E n ident authToken s =
     (case bitcask_Get E n ident (as_store s) of
        Inl e \<Rightarrow> Some (''authentication failed: '' @ storeText e)
      | Inr hash \<Rightarrow>
          (case sy_wait E n of
             Some e \<Rightarrow> Some (''authentication failed: '' @ e)
           | None \<Rightarrow> (case compareKeyHash E hash authToken of Some _ \<Rightarrow> Some ''authentication failed'' | None \<Rightarrow> None)))"

definition Register :: "sfuEnv \<Rightarrow> nat \<Rightarrow> string \<Rightarrow> string \<Rightarrow> authService \<Rightarrow> string option \<times> authService" where
  "Register E n ident key s =
     (if length key < MinKeyLen then (Some ''registration failed: key not long enough'', s)
      else case bitcask_Get E n ident (as_store s) of
        Inr _ \<Rightarrow> (Some ''registration failed: already registered'', s)
      | Inl e \<Rightarrow>
          if e \<noteq> SErrNotFound then (Some (''registration failed: '' @ storeText e), s)
          else (case sy_wait E n of
             Some w \<Rightarrow> (Some (''registration failed: '' @ w), s)
           | None \<Rightarrow>
               (case hashKey E n key of
                  Inl h \<Rightarrow> (Some (''registration failed: '' @ h), s)
                | Inr hash \<Rightarrow>
                    (case bitcask_Put E n ident hash (as_store s) of
                       (None, db) \<Rightarrow> (None, s\<lparr>as_store := db\<rparr>)
                     | (Some p, db) \<Rightarrow>
                         (Some (if p = SErrConflict then ''registration failed: already registered''
                            else ''registration failed: '' @ storeText p), s\<lparr>as_store := db\<rparr>)))))"

definition Unregister :: "sfuEnv \<Rightarrow> nat \<Rightarrow> string \<Rightarrow> authService \<Rightarrow> string option \<times> authService" where
  "Unregister E n ident s =
     (case bitcask_Get E n ident (as_store s) of
        Inl e \<Rightarrow> (Some (''unregister failed: '' @ storeText e), s)
      | Inr _ \<Rightarrow>
          (case bitcask_Delete E n ident (as_store s) of
             (Some e, db) \<Rightarrow> (Some (''unregister failed: '' @ storeText e), s\<lparr>as_store := db\<rparr>)
           | (None, db) \<Rightarrow> (None, s\<lparr>as_store := db, as_sessionCache := SessionCache_delete ident (as_sessionCache s)\<rparr>)))"

definition Login :: "sfuEnv \<Rightarrow> nat \<Rightarrow> string \<Rightarrow> string \<Rightarrow> authService \<Rightarrow> (string + string) \<times> authService" where
  "Login E n ident key s =
     (case Authenticate E n ident key s of
        Some e \<Rightarrow> (Inl (''login failed: '' @ e), s)
      | None \<Rightarrow>
          (case newRandomToken E n of
             Inl e \<Rightarrow> (Inl (''login failed: '' @ e), s)
           | Inr bearerToken \<Rightarrow>
               (case SessionCache_Put E n ident bearerToken (as_sessionCache s) of
                  (Some e, _) \<Rightarrow> (Inl (''login failed: '' @ e), s)
                | (None, c) \<Rightarrow> (Inr bearerToken, s\<lparr>as_sessionCache := c\<rparr>))))"

section \<open>The HTTP handlers\<close>

record httpRequest =
  hq_Method :: string
  hq_Authorization :: string
  hq_body :: "string + string gomap"

definition field :: "string gomap \<Rightarrow> string \<Rightarrow> string" where
  "field m k = (case gm_get m k of None \<Rightarrow> '''' | Some v \<Rightarrow> v)"

definition equalFold :: "string \<Rightarrow> string \<Rightarrow> bool" where
  "equalFold a b \<longleftrightarrow> str_lower a = str_lower b"

text \<open>\<^verbatim>\<open>base64.StdEncoding\<close> and \<^verbatim>\<open>Request.BasicAuth\<close> of \<^verbatim>\<open>net/http\<close>.\<close>

definition unpad :: "string \<Rightarrow> string" where
  "unpad t =
     (let r = rev t in
      if take 2 r = ''=='' then rev (drop 2 r) else if take 1 r = ''='' then rev (drop 1 r) else t)"

definition b64stdDecode :: "string \<Rightarrow> string option" where
  "b64stdDecode s =
     (let t = filter (\<lambda>c. c \<noteq> CHR 0x0A \<and> c \<noteq> CHR 0x0D) s in
      if length t mod 4 \<noteq> 0 then None else b64decode (unpad t))"

definition BasicAuth :: "string \<Rightarrow> (string \<times> string) option" where
  "BasicAuth auth =
     (if length auth < 6 \<or> \<not> equalFold (take 6 auth) ''Basic '' then None
      else case b64stdDecode (drop 6 auth) of
             None \<Rightarrow> None
           | Some c \<Rightarrow> (let (u, p, ok) = str_cut (CHR '':'') c in if ok then Some (u, p) else None))"

definition bearerPrefix :: string where
  "bearerPrefix = ''Bearer ''"

definition parseBearerAuth :: "string \<Rightarrow> string option" where
  "parseBearerAuth auth =
     (if length auth < length bearerPrefix \<or> \<not> equalFold (take (length bearerPrefix) auth) bearerPrefix then None
      else Some (drop (length bearerPrefix) auth))"

definition basicAuthHandler :: "sfuEnv \<Rightarrow> SecurityConfig \<Rightarrow> nat \<Rightarrow> string \<Rightarrow> authService \<Rightarrow> string \<times> int \<times> string" where
  "basicAuthHandler E cfg n auth s =
     (case BasicAuth auth of
        None \<Rightarrow> ('''', 401, ''authentication failed: invalid auth header'')
      | Some (clientID, authKey) \<Rightarrow>
          if sec_EnableAdmin cfg \<and> authKey = sec_AdminSecretKey cfg then ('''', 200, '''')
          else if clientID = '''' then ('''', 401, ''authentication failed: unauthorized'')
          else (case Authenticate E n clientID authKey s of
                  Some _ \<Rightarrow> ('''', 401, ''authentication failed'')
                | None \<Rightarrow> (clientID, 200, '''')))"

definition bearerAuthHandler :: "sfuEnv \<Rightarrow> nat \<Rightarrow> string \<Rightarrow> authService \<Rightarrow> (string \<times> int \<times> string) \<times> authService" where
  "bearerAuthHandler E n auth s =
     (case parseBearerAuth auth of
        None \<Rightarrow> (('''', 401, ''authentication failed: invalid auth header''), s)
      | Some bearerToken \<Rightarrow>
          (case SessionCache_Get E n bearerToken (as_sessionCache s) of
             (Inl e, c) \<Rightarrow> (('''', 401, ''authentication failed: '' @ e), s\<lparr>as_sessionCache := c\<rparr>)
           | (Inr session, c) \<Rightarrow>
               if sn_ClientID session = ''''
               then (('''', 401, ''authentication failed: unauthorized''), s\<lparr>as_sessionCache := c\<rparr>)
               else ((sn_ClientID session, 200, ''''), s\<lparr>as_sessionCache := c\<rparr>)))"

definition authHandler ::
  "sfuEnv \<Rightarrow> SecurityConfig \<Rightarrow> nat \<Rightarrow> httpRequest \<Rightarrow> authService \<Rightarrow> (string \<times> int \<times> string) \<times> authService" where
  "authHandler E cfg n r s =
     (if take (length bearerPrefix) (hq_Authorization r) = bearerPrefix
      then bearerAuthHandler E n (hq_Authorization r) s
      else (basicAuthHandler E cfg n (hq_Authorization r) s, s))"

datatype httpReply = NotFoundPage | Reply int "string gomap"

definition httpAudit :: "int \<Rightarrow> string \<Rightarrow> string gomap \<Rightarrow> httpReply" where
  "httpAudit code err resData =
     Reply code (gm_set ''code'' (goItoa code) (if err = '''' then resData else gm_set ''error'' err resData))"

definition registerClient ::
  "sfuEnv \<Rightarrow> SecurityConfig \<Rightarrow> nat \<Rightarrow> httpRequest \<Rightarrow> authService \<Rightarrow> httpReply \<times> authService" where
  "registerClient E cfg n r s =
     (if hq_Method r \<noteq> ''POST'' then (NotFoundPage, s)
      else
        let ((_, code, err), s1) = (if sec_AllowSelfRegistration cfg then (('''', 200, ''''), s) else authHandler E cfg n r s)
        in if err \<noteq> '''' then (httpAudit code err [], s1)
           else case hq_body r of
             Inl e \<Rightarrow> (httpAudit 400 e [], s1)
           | Inr reqData \<Rightarrow>
               (let clientID = field reqData ''clientID''; authKey = field reqData ''authKey''
                in case Register E (n + 1) clientID authKey s1 of
                     (Some e, s2) \<Rightarrow> (httpAudit 400 e [], s2)
                   | (None, s2) \<Rightarrow> (httpAudit 201 '''' [(''clientID'', clientID)], s2)))"

definition unregisterClient ::
  "sfuEnv \<Rightarrow> SecurityConfig \<Rightarrow> nat \<Rightarrow> httpRequest \<Rightarrow> authService \<Rightarrow> httpReply \<times> authService" where
  "unregisterClient E cfg n r s =
     (if hq_Method r \<noteq> ''POST'' then (NotFoundPage, s)
      else if \<not> sec_EnableAdmin cfg \<and> \<not> sec_AllowSelfRegistration cfg then (httpAudit 403 ''unregister not enabled'' [], s)
      else
        let ((authedClientID, code, err), s1) = authHandler E cfg n r s
        in if err \<noteq> '''' then (httpAudit code err [], s1)
           else case hq_body r of
             Inl e \<Rightarrow> (httpAudit 400 e [], s1)
           | Inr reqData \<Rightarrow>
               (let clientID = field reqData ''clientID''
                in if clientID = '''' then (httpAudit 400 ''client id should not be empty'' [], s1)
                   else if authedClientID \<noteq> '''' \<and> authedClientID \<noteq> clientID then (httpAudit 403 ''client id not valid'' [], s1)
                   else case Unregister E (n + 1) clientID s1 of
                          (Some e, s2) \<Rightarrow> (httpAudit 400 e [], s2)
                        | (None, s2) \<Rightarrow> (httpAudit 200 '''' [], s2)))"

definition loginClient ::
  "sfuEnv \<Rightarrow> SecurityConfig \<Rightarrow> nat \<Rightarrow> httpRequest \<Rightarrow> authService \<Rightarrow> httpReply \<times> authService" where
  "loginClient E cfg n r s =
     (if hq_Method r \<noteq> ''POST'' then (NotFoundPage, s)
      else case hq_body r of
        Inl e \<Rightarrow> (httpAudit 400 e [], s)
      | Inr reqData \<Rightarrow>
          (case Login E (n + 1) (field reqData ''clientID'') (field reqData ''authKey'') s of
             (Inl e, s1) \<Rightarrow> (httpAudit 400 e [], s1)
           | (Inr bearerToken, s1) \<Rightarrow> (httpAudit 200 '''' [(''bearerToken'', bearerToken)], s1)))"

section \<open>One token per client\<close>

definition cache_ok :: "SessionCache \<Rightarrow> bool" where
  "cache_ok t \<longleftrightarrow> gm_ok (sm_sessionMap t) \<and> distinct (map (\<lambda>e. sn_ClientID (snd e)) (sm_sessionMap t))
     \<and> (\<forall>e \<in> set (sm_sessionMap t). sn_ClientID (snd e) \<noteq> '''')"

lemma cache_same_client:
  assumes "cache_ok t" and "gm_get (sm_sessionMap t) a = Some x" and "gm_get (sm_sessionMap t) b = Some y"
    and "sn_ClientID x = sn_ClientID y"
  shows "a = b"
proof -
  have "(a, x) \<in> set (sm_sessionMap t)" "(b, y) \<in> set (sm_sessionMap t)" using assms(2,3) by (auto dest: map_of_SomeD)
  moreover have "inj_on (\<lambda>e. sn_ClientID (snd e)) (set (sm_sessionMap t))" using assms(1) by (simp add: cache_ok_def distinct_map)
  ultimately show ?thesis using assms(4) by (metis inj_onD prod.inject snd_conv)
qed

lemma cache_ok_del: "cache_ok t \<Longrightarrow> cache_ok (t\<lparr>sm_sessionMap := gm_del k (sm_sessionMap t)\<rparr>)"
  by (auto simp: cache_ok_def AList.delete_eq distinct_map_filter)

lemma SessionCache_Get_keeps:
  assumes "cache_ok t"
  shows "cache_ok (snd (SessionCache_Get E n token t))" "sm_cfg (snd (SessionCache_Get E n token t)) = sm_cfg t"
  using assms by (auto simp: SessionCache_Get_def cache_ok_del split: option.split)

lemma SessionCache_delete_lookup:
  assumes "cache_ok t"
  shows "gm_get (sm_sessionMap (SessionCache_delete c t)) k =
    (case gm_get (sm_sessionMap t) k of Some x \<Rightarrow> if sn_ClientID x = c then None else Some x | None \<Rightarrow> None)"
proof (cases "find (\<lambda>(_, session). sn_ClientID session = c) (sm_sessionMap t)")
  case None
  then have "\<forall>e \<in> set (sm_sessionMap t). sn_ClientID (snd e) \<noteq> c" by (fastforce simp: find_None_iff)
  then show ?thesis using None by (fastforce simp: SessionCache_delete_def split: option.split dest: map_of_SomeD)
next
  case (Some e)
  obtain a x where e: "e = (a, x)" by (cases e)
  have "(a, x) \<in> set (sm_sessionMap t)" "sn_ClientID x = c" using Some e by (auto simp: find_Some_iff in_set_conv_nth)
  then have "gm_get (sm_sessionMap t) a = Some x" "sn_ClientID x = c" using assms by (auto simp: cache_ok_def)
  then show ?thesis using cache_same_client[OF assms] Some e
    by (auto simp: SessionCache_delete_def split: option.split)
qed

lemma SessionCache_delete_ok:
  assumes "cache_ok t"
  shows "cache_ok (SessionCache_delete c t)" "sm_cfg (SessionCache_delete c t) = sm_cfg t"
    "\<forall>e \<in> set (sm_sessionMap (SessionCache_delete c t)). sn_ClientID (snd e) \<noteq> c"
proof -
  show ok: "cache_ok (SessionCache_delete c t)" using assms by (simp add: SessionCache_delete_def cache_ok_del split: option.split)
  show "sm_cfg (SessionCache_delete c t) = sm_cfg t" by (simp add: SessionCache_delete_def split: option.split)
  show "\<forall>e \<in> set (sm_sessionMap (SessionCache_delete c t)). sn_ClientID (snd e) \<noteq> c"
  proof
    fix e assume "e \<in> set (sm_sessionMap (SessionCache_delete c t))"
    then have "gm_get (sm_sessionMap (SessionCache_delete c t)) (fst e) = Some (snd e)" using ok by (simp add: cache_ok_def)
    then show "sn_ClientID (snd e) \<noteq> c" by (auto simp: SessionCache_delete_lookup[OF assms] split: option.splits if_splits)
  qed
qed

lemma gm_set_fresh: "gm_get m k = None \<Longrightarrow> gm_set k v m = m @ [(k, v)]"
  by (induction m) (auto split: if_splits)

lemma SessionCache_Put_stored:
  assumes "cache_ok t" and "SessionCache_Put E n c token t = (None, t1)"
  shows "cache_ok t1" "c \<noteq> ''''"
    "gm_get (sm_sessionMap t1) k =
       (if k = token then Some \<lparr>sn_ClientID = c, sn_ExpirationDate = sy_now E n + expiration (sm_cfg t)\<rparr>
        else case gm_get (sm_sessionMap t) k of Some x \<Rightarrow> if sn_ClientID x = c then None else Some x | None \<Rightarrow> None)"
proof -
  have c: "c \<noteq> ''''" and new: "gm_get (sm_sessionMap t) token = None"
    and t1: "t1 = (SessionCache_delete c t)\<lparr>sm_sessionMap := gm_set token
        \<lparr>sn_ClientID = c, sn_ExpirationDate = sy_now E n + expiration (sm_cfg t)\<rparr> (sm_sessionMap (SessionCache_delete c t))\<rparr>"
    using assms(2) by (auto simp: SessionCache_Put_def Let_def split: if_splits)
  have f: "gm_get (sm_sessionMap (SessionCache_delete c t)) token = None" by (simp add: SessionCache_delete_lookup[OF assms(1)] new)
  show "c \<noteq> ''''" by (fact c)
  show "cache_ok t1"
    using SessionCache_delete_ok[OF assms(1), of c] f c
    by (auto simp: t1 gm_set_fresh[OF f] cache_ok_def gm_get_None_iff)
  show "gm_get (sm_sessionMap t1) k =
       (if k = token then Some \<lparr>sn_ClientID = c, sn_ExpirationDate = sy_now E n + expiration (sm_cfg t)\<rparr>
        else case gm_get (sm_sessionMap t) k of Some x \<Rightarrow> if sn_ClientID x = c then None else Some x | None \<Rightarrow> None)"
    by (simp add: t1 SessionCache_delete_lookup[OF assms(1)])
qed

section \<open>Runs of the authentication service\<close>

inductive auth_step :: "sfuEnv \<Rightarrow> SecurityConfig \<Rightarrow> authService \<Rightarrow> authService \<Rightarrow> bool" for E cfg where
  register: "auth_step E cfg s (snd (registerClient E cfg n r s))"
| unregister: "auth_step E cfg s (snd (unregisterClient E cfg n r s))"
| login: "auth_step E cfg s (snd (loginClient E cfg n r s))"
| authenticate: "auth_step E cfg s (snd (authHandler E cfg n r s))"

definition auth_start :: "SecurityConfig \<Rightarrow> authService \<Rightarrow> bool" where
  "auth_start cfg s \<longleftrightarrow> (\<exists>c db. NewSessionCache (sec_SessionCache cfg) = Inr c \<and> gm_ok db \<and> s = \<lparr>as_sessionCache = c, as_store = db\<rparr>)"

definition auth_ok :: "SecurityConfig \<Rightarrow> authService \<Rightarrow> bool" where
  "auth_ok cfg s \<longleftrightarrow> cache_ok (as_sessionCache s) \<and> sm_cfg (as_sessionCache s) = sec_SessionCache cfg \<and> gm_ok (as_store s)"

lemma authHandler_ok: "auth_ok cfg s \<Longrightarrow> auth_ok cfg (snd (authHandler E cfg n r s))"
  using SessionCache_Get_keeps[of "as_sessionCache s" E n]
  by (auto simp: authHandler_def bearerAuthHandler_def auth_ok_def split: option.split prod.split sum.split)
     (metis snd_conv)+

lemma bitcask_ok:
  assumes "gm_ok db"
  shows "gm_ok (snd (bitcask_Put E n k v db))" "gm_ok (snd (bitcask_Delete E n k db))"
  using assms by (simp_all add: bitcask_Put_def bitcask_Delete_def dbSynced_def split: option.split)

lemma Register_ok: "auth_ok cfg s \<Longrightarrow> auth_ok cfg (snd (Register E n c k s))"
  using bitcask_ok(1)[of "as_store s" E n c]
  by (auto simp: Register_def auth_ok_def split: sum.split option.split prod.split) (metis snd_conv)+

lemma Unregister_ok: "auth_ok cfg s \<Longrightarrow> auth_ok cfg (snd (Unregister E n c s))"
  using bitcask_ok(2)[of "as_store s" E n c] SessionCache_delete_ok[of "as_sessionCache s" c]
  by (auto simp: Unregister_def auth_ok_def split: sum.split option.split prod.split)

lemma Put_cfg: "sm_cfg (snd (SessionCache_Put E n c k t)) = sm_cfg t"
  by (simp add: SessionCache_Put_def SessionCache_delete_def Let_def split: option.split)

lemma Login_ok: "auth_ok cfg s \<Longrightarrow> auth_ok cfg (snd (Login E n c k s))"
  using SessionCache_Put_stored(1)[of "as_sessionCache s" E n c] Put_cfg[of E n c _ "as_sessionCache s"]
  by (auto simp: Login_def auth_ok_def split: sum.split option.split prod.split) (metis snd_conv)

lemma auth_step_ok: "auth_step E cfg s t \<Longrightarrow> auth_ok cfg s \<Longrightarrow> auth_ok cfg t"
proof (induction rule: auth_step.induct)
  case (register s n r)
  show ?case
    using authHandler_ok[OF register, of E n r] register Register_ok
    by (auto simp: registerClient_def Let_def split: sum.split option.split prod.split) (metis snd_conv)+
next
  case (unregister s n r)
  show ?case
    using authHandler_ok[OF unregister, of E n r] unregister Unregister_ok
    by (auto simp: unregisterClient_def Let_def split: sum.split option.split prod.split) (metis snd_conv)+
next
  case (login s n r)
  then show ?case using Login_ok
    by (auto simp: loginClient_def split: sum.split prod.split) (metis snd_conv)+
next
  case (authenticate s n r)
  then show ?case by (rule authHandler_ok)
qed

interpretation auth: step_invariant "auth_start cfg" "auth_step E cfg" "auth_ok cfg" for E cfg
proof
  show "auth_ok cfg s" if "auth_start cfg s" for s
    using that by (auto simp: auth_start_def auth_ok_def NewSessionCache_def cache_ok_def split: option.splits)
  show "auth_ok cfg t" if "auth_ok cfg s" "auth_step E cfg s t" for s t
    using that by (blast intro: auth_step_ok)
qed

section \<open>What tokens and registrations are worth\<close>

lemma parse_bearer [simp]: "parseBearerAuth (bearerPrefix @ k) = Some k"
  by (simp add: parseBearerAuth_def bearerPrefix_def equalFold_def)

lemma bearer_result:
  "fst (bearerAuthHandler E m (bearerPrefix @ k) s) =
     (case gm_get (sm_sessionMap (as_sessionCache s)) k of
        None \<Rightarrow> ('''', 401, ''authentication failed: token is invalid'')
      | Some x \<Rightarrow> if sy_now E m > sn_ExpirationDate x then ('''', 401, ''authentication failed: session is expired'')
          else if sn_ClientID x = '''' then ('''', 401, ''authentication failed: unauthorized'')
          else (sn_ClientID x, 200, ''''))"
  by (simp add: bearerAuthHandler_def SessionCache_Get_def split: option.split)

lemma Login_done:
  assumes "Login E n c key s = (Inr token, t)"
  shows "Authenticate E n c key s = None"
    "\<exists>p. SessionCache_Put E n c token (as_sessionCache s) = (None, p) \<and> t = s\<lparr>as_sessionCache := p\<rparr>"
  using assms by (auto simp: Login_def split: option.splits sum.splits prod.splits)

text \<open>
  C38: A login is worth exactly one token. It succeeds only for the key of the client; the token it answers admits that
  client until the end of its life and is refused afterwards; every earlier token of the client stops being accepted,
  and the tokens of the other clients are worth what they were. This holds in every state that the service can reach.
\<close>

theorem login_token_exact:
  assumes "auth_start cfg s0" and "(auth_step E cfg)\<^sup>*\<^sup>* s0 s" and "Login E n c key s = (Inr token, t)"
  shows "Authenticate E n c key s = None
    \<and> fst (bearerAuthHandler E m (bearerPrefix @ token) t) =
        (if sy_now E m \<le> sy_now E n + expiration (sec_SessionCache cfg) then (c, 200, '''')
         else ('''', 401, ''authentication failed: session is expired''))
    \<and> (k \<noteq> token \<longrightarrow> fst (fst (bearerAuthHandler E m (bearerPrefix @ k) t)) =
        (if fst (fst (bearerAuthHandler E m (bearerPrefix @ k) s)) = c then ''''
         else fst (fst (bearerAuthHandler E m (bearerPrefix @ k) s))))"
proof -
  have ok: "cache_ok (as_sessionCache s)" "sm_cfg (as_sessionCache s) = sec_SessionCache cfg"
    using auth.inv_reach[OF assms(1,2)] by (simp_all add: auth_ok_def)
  obtain p where p: "SessionCache_Put E n c token (as_sessionCache s) = (None, p)" and t: "t = s\<lparr>as_sessionCache := p\<rparr>"
    using Login_done(2)[OF assms(3)] by blast
  note stored = SessionCache_Put_stored[OF ok(1) p]
  show ?thesis
    using stored(2) Login_done(1)[OF assms(3)]
    by (auto simp: bearer_result t stored(3) ok(2) split: option.split)
qed

lemma Register_done:
  assumes "Register E n c key s = (None, t)"
  obtains h where "sy_bcrypt E n key = Inr h" "c \<noteq> ''''" "length key \<ge> MinKeyLen" "gm_get (as_store s) c = None"
    "t = s\<lparr>as_store := gm_set c h (as_store s)\<rparr>"
  using assms
  by (auto simp: Register_def bitcask_Get_def hashKey_def bitcask_Put_def dbSynced_def MinKeyLen_def
      split: if_splits option.splits sum.splits prod.splits)

lemma Unregister_done:
  assumes "Unregister E n c s = (None, t)"
  shows "t = s\<lparr>as_store := gm_del c (as_store s), as_sessionCache := SessionCache_delete c (as_sessionCache s)\<rparr>"
  using assms
  by (auto simp: Unregister_def bitcask_Get_def bitcask_Delete_def dbSynced_def
      split: if_splits option.splits sum.splits prod.splits)

lemma Authenticate_iff:
  assumes "sy_dbGet E m = None" and "sy_wait E m = None" and "c \<noteq> ''''"
  shows "Authenticate E m c k s = None \<longleftrightarrow>
    (\<exists>h. gm_get (as_store s) c = Some h \<and> h \<noteq> '''' \<and> k \<noteq> '''' \<and> sy_compare E h k = None)"
  using assms by (auto simp: Authenticate_def bitcask_Get_def compareKeyHash_def split: option.split)

lemma Authenticate_unknown: "gm_get (as_store s) c = None \<Longrightarrow> Authenticate E m c k s \<noteq> None"
  by (simp add: Authenticate_def bitcask_Get_def split: option.split)

lemma Authenticate_cong: "gm_get (as_store t) c = gm_get (as_store s) c \<Longrightarrow> Authenticate E m c k t = Authenticate E m c k s"
  by (simp add: Authenticate_def bitcask_Get_def split: option.split)


text \<open>
  Registrations are only ended by their owner or the administrator: when a request to unregister changes the
  registration of a client, it was authenticated as that client, or it carried the secret of the administrator.
\<close>

lemma Unregister_store: "k \<noteq> c \<Longrightarrow> gm_get (as_store (snd (Unregister E n c s))) k = gm_get (as_store s) k"
  by (auto simp: Unregister_def bitcask_Get_def bitcask_Delete_def dbSynced_def split: option.split sum.split)

lemma authHandler_store: "as_store (snd (authHandler E cfg n r s)) = as_store s"
  by (simp add: authHandler_def bearerAuthHandler_def split: option.split prod.split sum.split)

lemma authHandler_admin:
  assumes "fst (authHandler E cfg n r s) = ('''', code, '''')"
  shows "sec_EnableAdmin cfg \<and> (\<exists>u. BasicAuth (hq_Authorization r) = Some (u, sec_AdminSecretKey cfg))"
  using assms
  by (auto simp: authHandler_def bearerAuthHandler_def basicAuthHandler_def split: if_splits option.splits prod.splits sum.splits)

theorem unregister_only_own:
  assumes "gm_get (as_store (snd (unregisterClient E cfg n r s))) k \<noteq> gm_get (as_store s) k"
  shows "fst (fst (authHandler E cfg n r s)) = k
    \<or> sec_EnableAdmin cfg \<and> (\<exists>u. BasicAuth (hq_Authorization r) = Some (u, sec_AdminSecretKey cfg))"
proof -
  obtain a code err s1 where h: "authHandler E cfg n r s = ((a, code, err), s1)" by (metis prod.exhaust)
  have st: "as_store s1 = as_store s" using authHandler_store[of E cfg n r s] by (simp add: h)
  have "err = '''' \<and> (a = '''' \<or> a = k)"
    using assms by (auto simp: unregisterClient_def h st Let_def split: if_splits sum.splits prod.splits option.splits)
      (metis Unregister_store snd_conv st)+
  then show ?thesis using authHandler_admin[of E cfg n r s code] h by auto
qed

definition demoSfu :: sfuEnv where
  "demoSfu = \<lparr>sy_now = \<lambda>n. int n * 1000000000, sy_dbGet = \<lambda>_. None, sy_dbPut = \<lambda>_. None, sy_dbDelete = \<lambda>_. None,
     sy_dbSync = \<lambda>_. None, sy_wait = \<lambda>_. None, sy_rand = \<lambda>_ k. Inr (replicate k (CHR 0x00)),
     sy_bcrypt = \<lambda>_ k. Inr (CHR ''#'' # k), sy_compare = \<lambda>h k. if h = CHR ''#'' # k then None else Some ''mismatch''\<rparr>"

definition demoSecurity :: SecurityConfig where
  "demoSecurity = \<lparr>sec_EnableAdmin = False, sec_AdminSecretKey = '''', sec_AllowSelfRegistration = True,
     sec_SessionCache = \<lparr>scc_ExpirationMinutes = 1\<rparr>\<rparr>"

definition demoAuth :: authService where
  "demoAuth = \<lparr>as_sessionCache = \<lparr>sm_cfg = \<lparr>scc_ExpirationMinutes = 1\<rparr>, sm_sessionMap = []\<rparr>,
     as_store = [(''mm'', CHR ''#'' # replicate 32 (CHR ''k''))]\<rparr>"

lemma demoAuth_start: "auth_start demoSecurity demoAuth"
  by (simp add: auth_start_def demoSecurity_def demoAuth_def NewSessionCache_def SessionCacheConfig_IsValid_def)

lemma sextets_zero: "b64sextets (replicate (3 * k + 1) 0) = replicate (4 * k + 2) 0"
proof (induction k)
  case 0
  show ?case by (simp add: numeral_2_eq_2)
next
  case (Suc k)
  have "3 * Suc k + 1 = Suc (Suc (Suc (3 * k + 1)))" "4 * Suc k + 2 = Suc (Suc (Suc (Suc (4 * k + 2))))" by simp_all
  then show ?case using Suc by (simp only: replicate.simps b64sextets.simps) simp
qed

lemma demoToken: "newRandomToken demoSfu n = Inr (replicate 32 (CHR ''A''))"
proof -
  have "b64sextets (replicate 43 0) = replicate 58 (0::nat)" using sextets_zero[of 14] by simp
  moreover have "b64urlDigit 0 = CHR ''A''" by code_simp
  ultimately show ?thesis
    by (simp add: newRandomToken_def newRandomString_def MinKeyLen_def demoSfu_def Let_def map_replicate_const)
qed

theorem login_token_exact_witness:
  "\<exists>t. Login demoSfu 2 ''mm'' (replicate 32 (CHR ''k'')) demoAuth = (Inr (replicate 32 (CHR ''A'')), t)
     \<and> fst (bearerAuthHandler demoSfu 62 (bearerPrefix @ replicate 32 (CHR ''A'')) t) = (''mm'', 200, '''')
     \<and> fst (bearerAuthHandler demoSfu 63 (bearerPrefix @ replicate 32 (CHR ''A'')) t) = ('''', 401, ''authentication failed: session is expired'')"
proof -
  have adm: "Authenticate demoSfu 2 ''mm'' (replicate 32 (CHR ''k'')) demoAuth = None"
    by (simp add: Authenticate_def bitcask_Get_def compareKeyHash_def demoAuth_def demoSfu_def)
  have "\<exists>t. Login demoSfu 2 ''mm'' (replicate 32 (CHR ''k'')) demoAuth = (Inr (replicate 32 (CHR ''A'')), t)"
    by (simp add: Login_def demoToken adm SessionCache_Put_def Let_def) (simp add: demoAuth_def)
  then obtain t where l: "Login demoSfu 2 ''mm'' (replicate 32 (CHR ''k'')) demoAuth = (Inr (replicate 32 (CHR ''A'')), t)" by blast
  have e: "expiration (sec_SessionCache demoSecurity) = 60000000000" by (simp add: expiration_def demoSecurity_def wrap64_def)
  show ?thesis
    using l login_token_exact[OF demoAuth_start rtranclp.rtrancl_refl l] e by (auto simp: demoSfu_def)
qed


text \<open>
  An unregistration whose last statement fails: the record is gone, the request answers an error, and the token of
  the client stays in the cache.
\<close>

theorem unsynced_unregister_keeps_token:
  assumes "gm_get (as_store s) c = Some h" and "c \<noteq> ''''" and "sy_dbGet E n = None" and "sy_dbDelete E n = None" and "sy_dbSync E n = Some e"
  shows "fst (Unregister E n c s) \<noteq> None \<and> gm_get (as_store (snd (Unregister E n c s))) c = None
    \<and> as_sessionCache (snd (Unregister E n c s)) = as_sessionCache s"
  using assms by (simp add: Unregister_def bitcask_Get_def bitcask_Delete_def dbSynced_def)

end
