(* ===== verification/Sfu_Calls.thy ===== *)
theory Sfu_Calls
  imports Sfu_Auth
begin

text \<open>
  The sessions of the SFU, \<^verbatim>\<open>rtcd/service/rtc\<close>, and the messages that steer them, \<^verbatim>\<open>rtcd/service/service.go\<close>: groups (one
  per registered client), calls, sessions, the holder of the screen, the table of session ids, the queue of control
  messages, and the table from sessions to websocket connections.

  \<^item> WebRTC is not modelled. A session keeps what the control messages read and write: stream ids, whether it has a
    voice track and whether that is enabled, whether a screen is sent to it, and the queues of its signalling.
  \<^item> The record \<open>rtcLib\<close> holds what libraries decide at a tick: whether a peer connection can be made and whether a
    message can be queued for a connection; and the decoding of JSON texts.
  \<^item> A message of a client is one step, and so is one round of \<^verbatim>\<open>msgReader\<close>. Error texts are those of the code, without the
    details of a type. What follows the draining in \<^verbatim>\<open>Stop\<close> (closing channels and sockets) is left out.
\<close>

section \<open>Sessions, calls and groups\<close>

datatype sfuVal = SStr string | SBool bool | SAny

record SessionConfig =
  sg_GroupID :: string
  sg_CallID :: string
  sg_UserID :: string
  sg_SessionID :: string
  sg_Props :: "sfuVal gomap"

fun strVal :: "sfuVal option \<Rightarrow> string" where
  "strVal (Some (SStr x)) = x"
| "strVal _ = ''''"

fun boolVal :: "sfuVal option \<Rightarrow> bool" where
  "boolVal (Some (SBool b)) = b"
| "boolVal _ = False"

definition Props_ChannelID :: "sfuVal gomap \<Rightarrow> string" where
  "Props_ChannelID p = strVal (gm_get p ''channelID'')"

definition Props_AV1Support :: "sfuVal gomap \<Rightarrow> bool" where
  "Props_AV1Support p = boolVal (gm_get p ''av1Support'')"

definition Props_DCSignaling :: "sfuVal gomap \<Rightarrow> bool" where
  "Props_DCSignaling p = boolVal (gm_get p ''dcSignaling'')"

definition SessionConfig_IsValid :: "SessionConfig \<Rightarrow> string option" where
  "SessionConfig_IsValid c =
     (if sg_GroupID c = '''' then Some ''invalid GroupID value: should not be empty''
      else if sg_CallID c = '''' then Some ''invalid CallID value: should not be empty''
      else if sg_UserID c = '''' then Some ''invalid UserID value: should not be empty''
      else if sg_SessionID c = '''' then Some ''invalid SessionID value: should not be empty''
      else None)"

text \<open>A missing entry is the nil of the map lookup; the properties hold whatever the message has.\<close>

definition propVal :: "sfuVal gomap \<Rightarrow> string \<Rightarrow> sfuVal" where
  "propVal m k = (case gm_get m k of None \<Rightarrow> SAny | Some v \<Rightarrow> v)"

definition FromMap :: "sfuVal gomap option \<Rightarrow> string + SessionConfig" where
  "FromMap d =
     (case d of
        None \<Rightarrow> Inl ''invalid nil map''
      | Some m \<Rightarrow> Inr \<lparr>sg_GroupID = strVal (gm_get m ''groupID''), sg_CallID = strVal (gm_get m ''callID''),
          sg_UserID = strVal (gm_get m ''userID''), sg_SessionID = strVal (gm_get m ''sessionID''),
          sg_Props = [(''channelID'', propVal m ''channelID''), (''av1Support'', propVal m ''av1Support''),
            (''dcSignaling'', propVal m ''dcSignaling'')]\<rparr>)"

record sfuMessage =
  fm_GroupID :: string
  fm_UserID :: string
  fm_SessionID :: string
  fm_CallID :: string
  fm_Type :: int
  fm_Data :: string

abbreviation "rtcICEMessage \<equiv> 1 :: int"
abbreviation "rtcSDPMessage \<equiv> 2 :: int"
abbreviation "rtcMuteMessage \<equiv> 3 :: int"
abbreviation "rtcUnmuteMessage \<equiv> 4 :: int"
abbreviation "rtcScreenOnMessage \<equiv> 5 :: int"
abbreviation "rtcScreenOffMessage \<equiv> 6 :: int"
abbreviation "rtcVoiceOnMessage \<equiv> 7 :: int"
abbreviation "rtcVoiceOffMessage \<equiv> 8 :: int"
abbreviation "rtcVideoOnMessage \<equiv> 9 :: int"
abbreviation "rtcVideoOffMessage \<equiv> 10 :: int"

definition sfuMessage_IsValid :: "sfuMessage \<Rightarrow> string option" where
  "sfuMessage_IsValid m =
     (if fm_SessionID m = '''' then Some ''invalid SessionID value: should not be empty''
      else if fm_Type m = 0 then Some ''invalid Type value'' else None)"

text \<open>\<open>us_conn\<close> and \<open>us_client\<close> are the variables captured by the \<^verbatim>\<open>closeCb\<close> of the session.\<close>

record sfuSession =
  us_cfg :: SessionConfig
  us_screenStreamID :: string
  us_videoStreamID :: string
  us_outVoiceTrack :: bool
  us_outVoiceTrackEnabled :: bool
  us_vadMonitor :: bool
  us_screenTrackSender :: bool
  us_iceInCh :: "string list"
  us_sdpOfferInCh :: "string list"
  us_sdpAnswerInCh :: "string list"
  us_conn :: string
  us_client :: string

record sfuCall =
  ic_id :: string
  ic_sessions :: "sfuSession gomap"
  ic_screenSession :: "string option"

record rtcServer =
  sr_groups :: "sfuCall gomap gomap"
  sr_sessions :: "SessionConfig gomap"
  sr_sendCh :: "sfuMessage list"
  sr_receiveCh :: "sfuMessage list"
  sr_draining :: bool
  sr_drained :: bool

record rtcLib =
  rl_peer :: "nat \<Rightarrow> string option"
  rl_wsSend :: "nat \<Rightarrow> string option"
  rl_strings :: "string \<Rightarrow> string gomap option"
  rl_sdpType :: "string \<Rightarrow> string option"

definition newMessage :: "sfuSession \<Rightarrow> int \<Rightarrow> string \<Rightarrow> sfuMessage" where
  "newMessage us ty data =
     \<lparr>fm_GroupID = sg_GroupID (us_cfg us), fm_UserID = sg_UserID (us_cfg us), fm_SessionID = sg_SessionID (us_cfg us),
      fm_CallID = sg_CallID (us_cfg us), fm_Type = ty, fm_Data = data\<rparr>"

definition getCall :: "string \<Rightarrow> string \<Rightarrow> rtcServer \<Rightarrow> sfuCall option" where
  "getCall g c S = (case gm_get (sr_groups S) g of None \<Rightarrow> None | Some calls \<Rightarrow> gm_get calls c)"

definition sfu_getSession :: "string \<Rightarrow> string \<Rightarrow> string \<Rightarrow> rtcServer \<Rightarrow> sfuSession option" where
  "sfu_getSession g c k S = (case getCall g c S of None \<Rightarrow> None | Some cl \<Rightarrow> gm_get (ic_sessions cl) k)"

definition setCall :: "string \<Rightarrow> string \<Rightarrow> sfuCall \<Rightarrow> rtcServer \<Rightarrow> rtcServer" where
  "setCall g c cl S =
     S\<lparr>sr_groups := gm_set g (gm_set c cl (case gm_get (sr_groups S) g of None \<Rightarrow> [] | Some calls \<Rightarrow> calls)) (sr_groups S)\<rparr>"

definition setSession :: "string \<Rightarrow> string \<Rightarrow> string \<Rightarrow> sfuSession \<Rightarrow> rtcServer \<Rightarrow> rtcServer" where
  "setSession g c k us S =
     (case getCall g c S of None \<Rightarrow> S | Some cl \<Rightarrow> setCall g c (cl\<lparr>ic_sessions := gm_set k us (ic_sessions cl)\<rparr>) S)"

definition newSfuSession :: "SessionConfig \<Rightarrow> string \<Rightarrow> string \<Rightarrow> sfuSession" where
  "newSfuSession cfg connID clientID =
     \<lparr>us_cfg = cfg, us_screenStreamID = '''', us_videoStreamID = '''', us_outVoiceTrack = False, us_outVoiceTrackEnabled = False,
      us_vadMonitor = False, us_screenTrackSender = False, us_iceInCh = [], us_sdpOfferInCh = [], us_sdpAnswerInCh = [],
      us_conn = connID, us_client = clientID\<rparr>"

definition call_addSession :: "SessionConfig \<Rightarrow> sfuSession \<Rightarrow> sfuCall \<Rightarrow> bool \<times> sfuCall" where
  "call_addSession cfg us cl =
     (case gm_get (ic_sessions cl) (sg_SessionID cfg) of
        Some _ \<Rightarrow> (False, cl)
      | None \<Rightarrow> (True, cl\<lparr>ic_sessions := gm_set (sg_SessionID cfg) us (ic_sessions cl)\<rparr>))"

definition server_addSession :: "SessionConfig \<Rightarrow> sfuSession \<Rightarrow> rtcServer \<Rightarrow> string option \<times> rtcServer" where
  "server_addSession cfg us S =
     (case SessionConfig_IsValid cfg of
        Some e \<Rightarrow> (Some e, S)
      | None \<Rightarrow>
          (let cl = (case getCall (sg_GroupID cfg) (sg_CallID cfg) S of
                       None \<Rightarrow> \<lparr>ic_id = sg_CallID cfg, ic_sessions = [], ic_screenSession = None\<rparr> | Some cl \<Rightarrow> cl);
               (ok, cl1) = call_addSession cfg us cl;
               S1 = setCall (sg_GroupID cfg) (sg_CallID cfg) cl1 S
           in if ok then (None, S1\<lparr>sr_sessions := gm_set (sg_SessionID cfg) cfg (sr_sessions S1)\<rparr>)
              else (Some ''user session already exists'', S1)))"

definition InitSession :: "rtcLib \<Rightarrow> nat \<Rightarrow> SessionConfig \<Rightarrow> string \<Rightarrow> string \<Rightarrow> rtcServer \<Rightarrow> string option \<times> rtcServer" where
  "InitSession R n cfg connID clientID S =
     (case SessionConfig_IsValid cfg of
        Some e \<Rightarrow> (Some (''invalid session config: '' @ e), S)
      | None \<Rightarrow>
          (case rl_peer R n of
             Some e \<Rightarrow> (Some e, S)
           | None \<Rightarrow>
               (case server_addSession cfg (newSfuSession cfg connID clientID) S of
                  (Some e, S1) \<Rightarrow> (Some (''failed to add session: '' @ e), S1)
                | (None, S1) \<Rightarrow> (None, S1))))"

section \<open>The screen\<close>

definition setScreenSession :: "string \<Rightarrow> sfuCall \<Rightarrow> bool \<times> sfuCall" where
  "setScreenSession k cl = (if ic_screenSession cl = None then (True, cl\<lparr>ic_screenSession := Some k\<rparr>) else (False, cl))"

definition session_clearScreenState :: "sfuSession \<Rightarrow> sfuSession" where
  "session_clearScreenState us = us\<lparr>us_screenStreamID := ''''\<rparr>"

definition call_clearScreenState :: "string \<Rightarrow> sfuCall \<Rightarrow> string option \<times> sfuCall" where
  "call_clearScreenState k cl =
     (case ic_screenSession cl of
        None \<Rightarrow> (Some ''call.screenSession should not be nil'', cl)
      | Some h \<Rightarrow>
          if h \<noteq> k then (Some (''screenSession mismatch, call.screenSession='' @ h @ '', screenSession='' @ k), cl)
          else (None, cl\<lparr>ic_screenSession := None,
                 ic_sessions := map (\<lambda>(j, s). (j, if j = k then session_clearScreenState s
                    else s\<lparr>us_screenTrackSender := False\<rparr>)) (ic_sessions cl)\<rparr>))"

definition handleSessionClose :: "string \<Rightarrow> sfuCall \<Rightarrow> sfuCall" where
  "handleSessionClose k cl =
     (if ic_screenSession cl = Some k
      then cl\<lparr>ic_screenSession := None,
           ic_sessions := map (\<lambda>(j, s). (j, if j = k then s else s\<lparr>us_screenTrackSender := False\<rparr>)) (ic_sessions cl)\<rparr>
      else cl)"

section \<open>Closing\<close>

definition removeFromCall :: "string \<Rightarrow> string \<Rightarrow> string \<Rightarrow> sfuCall \<Rightarrow> rtcServer \<Rightarrow> rtcServer" where
  "removeFromCall g c k cl S =
     (let cl1 = (handleSessionClose k cl)\<lparr>ic_sessions := gm_del k (ic_sessions (handleSessionClose k cl))\<rparr>;
          calls = (case gm_get (sr_groups S) g of None \<Rightarrow> [] | Some calls \<Rightarrow> calls)
      in if ic_sessions cl1 \<noteq> [] then setCall g c cl1 S
         else let calls1 = gm_del c calls
              in if calls1 = [] then S\<lparr>sr_groups := gm_del g (sr_groups S)\<rparr>
                 else S\<lparr>sr_groups := gm_set g calls1 (sr_groups S)\<rparr>)"

text \<open>The closed session is returned with the result: its \<^verbatim>\<open>closeCb\<close> is called at the end.\<close>

definition CloseSession :: "string \<Rightarrow> rtcServer \<Rightarrow> string option \<times> sfuSession option \<times> rtcServer" where
  "CloseSession k S =
     (let S1 = S\<lparr>sr_sessions := gm_del k (sr_sessions S)\<rparr>;
          S2 = (if sr_sessions S1 = [] \<and> sr_draining S1 then S1\<lparr>sr_draining := False, sr_drained := True\<rparr> else S1)
      in case gm_get (sr_sessions S) k of
           None \<Rightarrow> (None, None, S2)
         | Some cfg \<Rightarrow>
             if gm_get (sr_groups S2) (sg_GroupID cfg) = None then (Some (''group not found: '' @ sg_GroupID cfg), None, S2)
             else (case getCall (sg_GroupID cfg) (sg_CallID cfg) S2 of
                     None \<Rightarrow> (Some (''call not found: '' @ sg_CallID cfg), None, S2)
                   | Some cl \<Rightarrow>
                       (case gm_get (ic_sessions cl) (sg_SessionID cfg) of
                          None \<Rightarrow> (Some (''session not found: '' @ sg_SessionID cfg), None, S2)
                        | Some us \<Rightarrow> (None, Some us, removeFromCall (sg_GroupID cfg) (sg_CallID cfg) (sg_SessionID cfg) cl S2))))"

definition server_Stop :: "rtcServer \<Rightarrow> rtcServer" where
  "server_Stop S = (if sr_sessions S \<noteq> [] then S\<lparr>sr_draining := True, sr_drained := False\<rparr> else S\<lparr>sr_drained := True\<rparr>)"

definition GetSessionConfig :: "string \<Rightarrow> string \<Rightarrow> string \<Rightarrow> rtcServer \<Rightarrow> string + SessionConfig" where
  "GetSessionConfig g c k S =
     (case gm_get (sr_groups S) g of
        None \<Rightarrow> Inl ''group not found''
      | Some calls \<Rightarrow>
          (case gm_get calls c of
             None \<Rightarrow> Inl ''call not found''
           | Some cl \<Rightarrow> (case gm_get (ic_sessions cl) k of None \<Rightarrow> Inl ''session not found'' | Some us \<Rightarrow> Inr (us_cfg us))))"

definition GetSessionConfigs :: "string \<Rightarrow> string \<Rightarrow> rtcServer \<Rightarrow> string + SessionConfig list" where
  "GetSessionConfigs g c S =
     (case gm_get (sr_groups S) g of
        None \<Rightarrow> Inl ''group not found''
      | Some calls \<Rightarrow>
          (case gm_get calls c of
             None \<Rightarrow> Inl ''call not found''
           | Some cl \<Rightarrow> if ic_sessions cl = [] then Inl ''no sessions found'' else Inr (map (us_cfg \<circ> snd) (ic_sessions cl))))"

section \<open>Control messages\<close>

definition signalChSize :: nat where
  "signalChSize = 20"

definition msgChSize :: nat where
  "msgChSize = 2000"

definition server_Send :: "sfuMessage \<Rightarrow> rtcServer \<Rightarrow> string option \<times> rtcServer" where
  "server_Send m S =
     (if length (sr_sendCh S) < msgChSize then (None, S\<lparr>sr_sendCh := sr_sendCh S @ [m]\<rparr>)
      else (Some ''failed to send rtc message, channel is full'', S))"

definition pushed :: "nat \<Rightarrow> 'a \<Rightarrow> 'a list \<Rightarrow> 'a list" where
  "pushed cap x ch = (if length ch < cap then ch @ [x] else ch)"

definition handleIncomingSDP :: "rtcLib \<Rightarrow> string \<Rightarrow> sfuSession \<Rightarrow> sfuSession" where
  "handleIncomingSDP R data us =
     (case rl_sdpType R data of
        None \<Rightarrow> us
      | Some ty \<Rightarrow>
          if ty = ''offer'' then us\<lparr>us_sdpOfferInCh := pushed signalChSize data (us_sdpOfferInCh us)\<rparr>
          else if ty = ''answer'' then us\<lparr>us_sdpAnswerInCh := pushed signalChSize data (us_sdpAnswerInCh us)\<rparr>
          else us)"

definition handleMessage :: "rtcLib \<Rightarrow> sfuMessage \<Rightarrow> string \<Rightarrow> string \<Rightarrow> string \<Rightarrow> sfuCall \<Rightarrow> sfuSession \<Rightarrow> rtcServer \<Rightarrow> rtcServer" where
  "handleMessage R m g c k cl us S =
     (if fm_Type m = rtcICEMessage then setSession g c k (us\<lparr>us_iceInCh := pushed (signalChSize * 2) (fm_Data m) (us_iceInCh us)\<rparr>) S
      else if fm_Type m = rtcSDPMessage then setSession g c k (handleIncomingSDP R (fm_Data m) us) S
      else if fm_Type m = rtcScreenOnMessage then
        (case rl_strings R (fm_Data m) of
           None \<Rightarrow> S
         | Some data \<Rightarrow>
             (let cl1 = cl\<lparr>ic_sessions := gm_set k (us\<lparr>us_screenStreamID := field data ''screenStreamID''\<rparr>) (ic_sessions cl)\<rparr>
              in setCall g c (snd (setScreenSession k cl1)) S))
      else if fm_Type m = rtcScreenOffMessage then setCall g c (snd (call_clearScreenState k cl)) S
      else if fm_Type m = rtcVideoOnMessage then
        (case rl_strings R (fm_Data m) of
           None \<Rightarrow> S
         | Some data \<Rightarrow> setSession g c k (us\<lparr>us_videoStreamID := field data ''videoStreamID''\<rparr>) S)
      else if fm_Type m = rtcVideoOffMessage then S
      else if fm_Type m = rtcMuteMessage \<or> fm_Type m = rtcUnmuteMessage then
        (if \<not> us_outVoiceTrack us then S
         else let S1 = (if fm_Type m = rtcMuteMessage \<and> us_vadMonitor us
                        then S\<lparr>sr_receiveCh := pushed msgChSize (newMessage us rtcVoiceOffMessage '''') (sr_receiveCh S)\<rparr> else S)
              in setSession g c k (us\<lparr>us_outVoiceTrackEnabled := (fm_Type m = rtcUnmuteMessage)\<rparr>) S1)
      else S)"

text \<open>One round of the loop: the message is taken from the queue; messages that cannot be delivered are dropped.\<close>

definition msgReader :: "rtcLib \<Rightarrow> rtcServer \<Rightarrow> rtcServer" where
  "msgReader R S =
     (case sr_sendCh S of
        [] \<Rightarrow> S
      | m # ms \<Rightarrow>
          (let S1 = S\<lparr>sr_sendCh := ms\<rparr> in
           if sfuMessage_IsValid m \<noteq> None then S1
           else case gm_get (sr_sessions S1) (fm_SessionID m) of
             None \<Rightarrow> S1
           | Some cfg \<Rightarrow>
               (case getCall (sg_GroupID cfg) (sg_CallID cfg) S1 of
                  None \<Rightarrow> S1
                | Some cl \<Rightarrow>
                    (case gm_get (ic_sessions cl) (sg_SessionID cfg) of
                       None \<Rightarrow> S1
                     | Some us \<Rightarrow> handleMessage R m (sg_GroupID cfg) (sg_CallID cfg) (sg_SessionID cfg) cl us S1))))"

section \<open>Messages of the clients\<close>

text \<open>A message to a websocket connection: connection, client, type and the data it carries.\<close>

datatype outData = OStrings "string gomap" | ORtc sfuMessage

record wsOut =
  wo_ConnID :: string
  wo_ClientID :: string
  wo_Type :: string
  wo_Data :: outData

record sfuService =
  fs_auth :: authService
  fs_rtc :: rtcServer
  fs_connMap :: "string gomap"
  fs_out :: "wsOut list"

text \<open>The decoded data of a message: a map of any values (nil is \<^const>\<open>None\<close>), a map of strings, an RTC message, or anything else.\<close>

datatype sfuData = DAnyMap "sfuVal gomap option" | DStrMap "string gomap" | DRtcMsg sfuMessage | DIface

definition wsSend :: "rtcLib \<Rightarrow> nat \<Rightarrow> wsOut \<Rightarrow> sfuService \<Rightarrow> string option \<times> sfuService" where
  "wsSend R n m s =
     (case rl_wsSend R n of Some e \<Rightarrow> (Some e, s) | None \<Rightarrow> (None, s\<lparr>fs_out := fs_out s @ [m]\<rparr>))"

definition sendClientMessage ::
  "rtcLib \<Rightarrow> nat \<Rightarrow> string \<Rightarrow> string \<Rightarrow> string \<Rightarrow> outData \<Rightarrow> sfuService \<Rightarrow> string option \<times> sfuService" where
  "sendClientMessage R n connID clientID ty data s =
     (case wsSend R n \<lparr>wo_ConnID = connID, wo_ClientID = clientID, wo_Type = ty, wo_Data = data\<rparr> s of
        (Some e, s1) \<Rightarrow> (Some (''failed to send client message: '' @ e), s1)
      | (None, s1) \<Rightarrow> (None, s1))"

definition closeCb :: "rtcLib \<Rightarrow> nat \<Rightarrow> sfuSession \<Rightarrow> sfuService \<Rightarrow> string option \<times> sfuService" where
  "closeCb R n us s =
     (let k = sg_SessionID (us_cfg us);
          s1 = s\<lparr>fs_connMap := gm_del k (fs_connMap s)\<rparr>
      in case sendClientMessage R n (us_conn us) (us_client us) ''close'' (OStrings [(''sessionID'', k)]) s1 of
           (Some e, s2) \<Rightarrow> (Some (''failed to send close message: '' @ e), s2)
         | (None, s2) \<Rightarrow> (None, s2))"

definition closeSession :: "rtcLib \<Rightarrow> nat \<Rightarrow> string \<Rightarrow> sfuService \<Rightarrow> string option \<times> sfuService" where
  "closeSession R n k s =
     (case CloseSession k (fs_rtc s) of
        (e, None, S) \<Rightarrow> (e, s\<lparr>fs_rtc := S\<rparr>)
      | (_, Some us, S) \<Rightarrow> closeCb R n us (s\<lparr>fs_rtc := S\<rparr>))"

definition handleOpenMessage :: "rtcLib \<Rightarrow> nat \<Rightarrow> string \<Rightarrow> string \<Rightarrow> sfuService \<Rightarrow> sfuService" where
  "handleOpenMessage R n connID clientID s =
     snd (sendClientMessage R n connID clientID ''hello'' (OStrings [(''clientID'', clientID), (''connID'', connID)]) s)"

definition handleClientMsg ::
  "rtcLib \<Rightarrow> nat \<Rightarrow> string \<Rightarrow> string \<Rightarrow> string \<Rightarrow> sfuData \<Rightarrow> sfuService \<Rightarrow> string option \<times> sfuService" where
  "handleClientMsg R n connID clientID ty data s =
     (if ty = ''join'' then
        (case data of
           DAnyMap d \<Rightarrow>
             (case FromMap d of
                Inl e \<Rightarrow> (Some (''failed to read session config from map: '' @ e), s)
              | Inr cfg0 \<Rightarrow>
                  (let cfg = cfg0\<lparr>sg_GroupID := clientID\<rparr>
                   in case InitSession R n cfg connID clientID (fs_rtc s) of
                        (Some e, S) \<Rightarrow> (Some (''failed to initialize rtc session: '' @ e), s\<lparr>fs_rtc := S\<rparr>)
                      | (None, S) \<Rightarrow> (None, s\<lparr>fs_rtc := S, fs_connMap := gm_set (sg_SessionID cfg) connID (fs_connMap s)\<rparr>)))
         | _ \<Rightarrow> (Some ''unexpected data type'', s))
      else if ty = ''reconnect'' then
        (case data of
           DStrMap m \<Rightarrow>
             if field m ''sessionID'' = '''' then (Some ''missing sessionID in client message'', s)
             else (None, s\<lparr>fs_connMap := gm_set (field m ''sessionID'') connID (fs_connMap s)\<rparr>)
         | _ \<Rightarrow> (Some ''unexpected data type'', s))
      else if ty = ''leave'' then
        (case data of
           DStrMap m \<Rightarrow>
             if field m ''sessionID'' = '''' then (Some ''missing sessionID in client message'', s)
             else (case closeSession R n (field m ''sessionID'') s of
                     (Some e, s1) \<Rightarrow> (Some (''failed to close session: '' @ e), s1)
                   | (None, s1) \<Rightarrow> (None, s1))
         | _ \<Rightarrow> (Some ''unexpected data type'', s))
      else if ty = ''rtc'' then
        (case data of
           DRtcMsg m \<Rightarrow>
             (case server_Send m (fs_rtc s) of
                (Some e, S) \<Rightarrow> (Some (''failed to send message: '' @ e), s\<lparr>fs_rtc := S\<rparr>)
              | (None, S) \<Rightarrow> (None, s\<lparr>fs_rtc := S\<rparr>))
         | _ \<Rightarrow> (Some ''unexpected data type'', s))
      else (Some (''unexpected client message type: '' @ ty), s))"

definition handleRTCMsg :: "rtcLib \<Rightarrow> nat \<Rightarrow> sfuMessage \<Rightarrow> sfuService \<Rightarrow> string option \<times> sfuService" where
  "handleRTCMsg R n m s =
     (if fm_Type m \<notin> {rtcSDPMessage, rtcICEMessage, rtcVoiceOnMessage, rtcVoiceOffMessage} then (Some ''unexpected rtc message type: '', s)
      else let ty = (if fm_Type m \<in> {rtcSDPMessage, rtcICEMessage} then ''rtc'' else ''vad'')
           in case gm_get (fs_connMap s) (fm_SessionID m) of
                None \<Rightarrow> (Some ''unexpected empty connID'', s)
              | Some connID \<Rightarrow>
                  if connID = '''' then (Some ''unexpected empty connID'', s)
                  else wsSend R n \<lparr>wo_ConnID = connID, wo_ClientID = fm_GroupID m, wo_Type = ty, wo_Data = ORtc m\<rparr> s)"

section \<open>Session requests\<close>

datatype sessionReply = SessionNotFound | SessionError int string | SessionData "SessionConfig list"

definition handleGetSession ::
  "sfuEnv \<Rightarrow> SecurityConfig \<Rightarrow> nat \<Rightarrow> httpRequest \<Rightarrow> string \<Rightarrow> string \<Rightarrow> sfuService \<Rightarrow> sessionReply \<times> sfuService" where
  "handleGetSession E cfg n r callID sessionID s =
     (if hq_Method r \<noteq> ''GET'' then (SessionNotFound, s)
      else let ((clientID, code, err), a) = authHandler E cfg n r (fs_auth s); s1 = s\<lparr>fs_auth := a\<rparr>
           in if clientID = '''' then (SessionError 401 ''unauthorized'', s1)
              else if callID = '''' then (SessionError 400 ''callID is required'', s1)
              else if sessionID = '''' then (SessionError 400 ''sessionID is required'', s1)
              else case GetSessionConfig clientID callID sessionID (fs_rtc s) of
                     Inl e \<Rightarrow> (SessionError 404 (''failed to get session config: '' @ e), s1)
                   | Inr c \<Rightarrow> (SessionData [c], s1))"

definition handleGetSessions ::
  "sfuEnv \<Rightarrow> SecurityConfig \<Rightarrow> nat \<Rightarrow> httpRequest \<Rightarrow> string \<Rightarrow> sfuService \<Rightarrow> sessionReply \<times> sfuService" where
  "handleGetSessions E cfg n r callID s =
     (if hq_Method r \<noteq> ''GET'' then (SessionNotFound, s)
      else let ((clientID, code, err), a) = authHandler E cfg n r (fs_auth s); s1 = s\<lparr>fs_auth := a\<rparr>
           in if clientID = '''' then (SessionError 401 ''unauthorized'', s1)
              else if callID = '''' then (SessionError 400 ''callID is required'', s1)
              else case GetSessionConfigs clientID callID (fs_rtc s) of
                     Inl e \<Rightarrow> (SessionError 404 (''failed to get session configs: '' @ e), s1)
                   | Inr cs \<Rightarrow> (SessionData cs, s1))"

section \<open>Runs and the shape of the state\<close>

text \<open>
  \<open>fresh_join\<close>: a joining session does not use the id of a session of another call. \<open>media\<close> stands for WebRTC, which
  changes everything of a session but its configuration.
\<close>

definition fresh_join :: "SessionConfig \<Rightarrow> rtcServer \<Rightarrow> bool" where
  "fresh_join cfg S \<longleftrightarrow>
     (\<forall>d. gm_get (sr_sessions S) (sg_SessionID cfg) = Some d \<longrightarrow> sg_GroupID d = sg_GroupID cfg \<and> sg_CallID d = sg_CallID cfg)"

definition fresh_message :: "string \<Rightarrow> string \<Rightarrow> sfuData \<Rightarrow> sfuService \<Rightarrow> bool" where
  "fresh_message clientID ty data s \<longleftrightarrow>
     (\<forall>d cfg. ty = ''join'' \<longrightarrow> data = DAnyMap d \<longrightarrow> FromMap d = Inr cfg \<longrightarrow> fresh_join (cfg\<lparr>sg_GroupID := clientID\<rparr>) (fs_rtc s))"

inductive sfu_step :: "rtcLib \<Rightarrow> sfuService \<Rightarrow> sfuService \<Rightarrow> bool" for R where
  client: "fresh_message clientID ty data s \<Longrightarrow> sfu_step R s (snd (handleClientMsg R n connID clientID ty data s))"
| opened: "sfu_step R s (handleOpenMessage R n connID clientID s)"
| reader: "sfu_step R s (s\<lparr>fs_rtc := msgReader R (fs_rtc s)\<rparr>)"
| outgoing: "sfu_step R s (snd (handleRTCMsg R n m s))"
| failed: "sfu_step R s (snd (closeSession R n k s))"
| stop: "sfu_step R s (s\<lparr>fs_rtc := server_Stop (fs_rtc s)\<rparr>)"
| media: "sfu_getSession g c k (fs_rtc s) = Some u \<Longrightarrow> us_cfg v = us_cfg u \<Longrightarrow>
    sfu_step R s (s\<lparr>fs_rtc := (setSession g c k v (fs_rtc s))\<lparr>sr_receiveCh := msgs\<rparr>\<rparr>)"
| auth: "sfu_step R s (s\<lparr>fs_auth := a\<rparr>)"

definition sfuCall_ok :: "sfuCall \<Rightarrow> bool" where
  "sfuCall_ok cl \<longleftrightarrow> gm_ok (ic_sessions cl) \<and> ic_sessions cl \<noteq> []
     \<and> (\<forall>k. ic_screenSession cl = Some k \<longrightarrow> gm_get (ic_sessions cl) k \<noteq> None)"

definition sfu_ok :: "rtcServer \<Rightarrow> bool" where
  "sfu_ok S \<longleftrightarrow> gm_ok (sr_groups S) \<and> gm_ok (sr_sessions S)
     \<and> (\<forall>g calls. gm_get (sr_groups S) g = Some calls \<longrightarrow> gm_ok calls \<and> calls \<noteq> [] \<and> (\<forall>c cl. gm_get calls c = Some cl \<longrightarrow> sfuCall_ok cl))
     \<and> (\<forall>g c k u. sfu_getSession g c k S = Some u \<longrightarrow>
          sg_GroupID (us_cfg u) = g \<and> sg_CallID (us_cfg u) = c \<and> gm_get (sr_sessions S) k = Some (us_cfg u))
     \<and> (\<forall>k cfg. gm_get (sr_sessions S) k = Some cfg \<longrightarrow>
          sg_SessionID cfg = k \<and> sfu_getSession (sg_GroupID cfg) (sg_CallID cfg) k S \<noteq> None)"

lemma sfu_okD:
  assumes "sfu_ok S"
  shows "sfu_getSession g c k S = Some u \<Longrightarrow>
      sg_GroupID (us_cfg u) = g \<and> sg_CallID (us_cfg u) = c \<and> gm_get (sr_sessions S) k = Some (us_cfg u)"
    "gm_get (sr_sessions S) k = Some cfg \<Longrightarrow> sg_SessionID cfg = k \<and> sfu_getSession (sg_GroupID cfg) (sg_CallID cfg) k S \<noteq> None"
    "gm_get (sr_groups S) h = Some calls \<Longrightarrow> gm_ok calls \<and> calls \<noteq> [] \<and> (\<forall>c cl. gm_get calls c = Some cl \<longrightarrow> sfuCall_ok cl)"
  using assms by (simp_all add: sfu_ok_def del: map_of_eq_Some_iff)

lemma getCall_setCall [simp]: "getCall g c (setCall g' c' cl S) = (if g = g' \<and> c = c' then Some cl else getCall g c S)"
  by (auto simp: getCall_def setCall_def split: option.split)

lemma setCall_simps [simp]: "sr_sessions (setCall g c cl S) = sr_sessions S"
  by (simp add: setCall_def)

text \<open>Replacing a call by one with the same sessions up to what is not their configuration.\<close>

lemma sfu_ok_setCall:
  assumes "sfu_ok S" and "getCall g c S = Some cl" and "sfuCall_ok cl1"
    and "\<And>k. map_option us_cfg (gm_get (ic_sessions cl1) k) = map_option us_cfg (gm_get (ic_sessions cl) k)"
  shows "sfu_ok (setCall g c cl1 S)"
proof -
  have same: "map_option us_cfg (sfu_getSession g' c' k (setCall g c cl1 S)) = map_option us_cfg (sfu_getSession g' c' k S)" for g' c' k
    using assms(2,4) by (auto simp: sfu_getSession_def)
  have listed: "sg_GroupID (us_cfg u) = g' \<and> sg_CallID (us_cfg u) = c' \<and> gm_get (sr_sessions S) k = Some (us_cfg u)"
    if "sfu_getSession g' c' k (setCall g c cl1 S) = Some u" for g' c' k u
  proof -
    note new = that
    obtain v where v: "sfu_getSession g' c' k S = Some v" "us_cfg v = us_cfg u" using same[of g' c' k] new
      by (cases "sfu_getSession g' c' k S") auto
    then show ?thesis using sfu_okD(1)[OF assms(1) v(1)] by simp
  qed
  have found: "sg_SessionID cfg = k \<and> sfu_getSession (sg_GroupID cfg) (sg_CallID cfg) k (setCall g c cl1 S) \<noteq> None"
    if "gm_get (sr_sessions S) k = Some cfg" for k cfg
    using sfu_okD(2)[OF assms(1) that] same[of "sg_GroupID cfg" "sg_CallID cfg" k] by auto
  have "gm_ok (sr_groups (setCall g c cl1 S))" using assms(1) by (simp add: sfu_ok_def setCall_def)
  moreover have "gm_ok calls \<and> calls \<noteq> [] \<and> (\<forall>c' cl'. gm_get calls c' = Some cl' \<longrightarrow> sfuCall_ok cl')"
    if "gm_get (sr_groups (setCall g c cl1 S)) g' = Some calls" for g' calls
    using that assms(1,3) unfolding sfu_ok_def
    by (auto simp: setCall_def split: if_splits option.splits)
  ultimately show ?thesis using assms(1) listed found unfolding sfu_ok_def setCall_simps by blast
qed

lemma sfuCall_okD:
  assumes "sfu_ok S" and "getCall g c S = Some cl"
  shows "sfuCall_ok cl"
  using assms by (auto simp: sfu_ok_def getCall_def split: option.splits)

lemma sfu_ok_cong:
  "sr_groups T = sr_groups S \<Longrightarrow> sr_sessions T = sr_sessions S \<Longrightarrow> sfu_ok T = sfu_ok S"
  by (simp add: sfu_ok_def sfu_getSession_def getCall_def)

lemma sfu_ok_setSession:
  assumes "sfu_ok S" and "sfu_getSession g c k S = Some u" and "us_cfg v = us_cfg u"
  shows "sfu_ok (setSession g c k v S)"
proof -
  obtain cl where cl: "getCall g c S = Some cl" "gm_get (ic_sessions cl) k = Some u"
    using assms(2) by (auto simp: sfu_getSession_def split: option.splits)
  have "sfuCall_ok (cl\<lparr>ic_sessions := gm_set k v (ic_sessions cl)\<rparr>)" using sfuCall_okD[OF assms(1) cl(1)] by (auto simp: sfuCall_ok_def)
  then show ?thesis using sfu_ok_setCall[OF assms(1) cl(1)] cl assms(3) by (simp add: setSession_def)
qed

section \<open>Every step keeps the shape\<close>

lemma map_of_mapped: "map_of (map (\<lambda>(j, s). (j, f j s)) m) k = map_option (f k) (map_of m k)"
  by (induction m) auto

lemma keys_mapped: "map fst (map (\<lambda>(j, s). (j, f j s)) m) = map fst m"
  by (induction m) auto

lemma clearScreen_ok:
  assumes "sfuCall_ok cl"
  shows "sfuCall_ok (snd (call_clearScreenState k cl))"
    "map_option us_cfg (gm_get (ic_sessions (snd (call_clearScreenState k cl))) j) = map_option us_cfg (gm_get (ic_sessions cl) j)"
  using assms
  by (auto simp: call_clearScreenState_def sfuCall_ok_def keys_mapped map_of_mapped session_clearScreenState_def option.map_comp
      simp del: map_map map_of_eq_Some_iff intro!: map_option_cong split: option.split)

lemma handleMessage_ok:
  assumes "sfu_ok S" and "getCall g c S = Some cl" and "gm_get (ic_sessions cl) k = Some us"
  shows "sfu_ok (handleMessage R m g c k cl us S)"
proof -
  have cl: "sfuCall_ok cl" using assms(1,2) by (rule sfuCall_okD)
  have at: "sfu_getSession g c k S = Some us" using assms(2,3) by (simp add: sfu_getSession_def)
  have set: "sfu_ok (setSession g c k v S)" if "us_cfg v = us_cfg us" for v
    using sfu_ok_setSession[OF assms(1) at that] .
  have recv: "sfu_ok (setSession g c k v (S\<lparr>sr_receiveCh := q\<rparr>))" if "us_cfg v = us_cfg us" for v q
  proof (rule sfu_ok_setSession[OF _ _ that])
    show "sfu_ok (S\<lparr>sr_receiveCh := q\<rparr>)" using assms(1) sfu_ok_cong[of "S\<lparr>sr_receiveCh := q\<rparr>" S] by simp
    show "sfu_getSession g c k (S\<lparr>sr_receiveCh := q\<rparr>) = Some us" using at by (simp add: sfu_getSession_def getCall_def)
  qed
  have sdp: "us_cfg (handleIncomingSDP R d us) = us_cfg us" for d by (simp add: handleIncomingSDP_def split: option.split)
  have off: "sfu_ok (setCall g c (snd (call_clearScreenState k cl)) S)"
    using clearScreen_ok[OF cl] by (intro sfu_ok_setCall[OF assms(1,2)])
  have on: "sfu_ok (setCall g c (snd (setScreenSession k (cl\<lparr>ic_sessions := gm_set k v (ic_sessions cl)\<rparr>))) S)" if "us_cfg v = us_cfg us" for v
    using cl assms(3) that by (intro sfu_ok_setCall[OF assms(1,2)]) (auto simp: setScreenSession_def sfuCall_ok_def simp del: map_of_eq_Some_iff)
  show ?thesis
    using set recv sdp off on assms(1) by (simp add: handleMessage_def Let_def split: option.split)
qed

lemma msgReader_ok:
  assumes "sfu_ok S"
  shows "sfu_ok (msgReader R S)"
proof (cases "sr_sendCh S")
  case (Cons m ms)
  have "sfu_ok (S\<lparr>sr_sendCh := ms\<rparr>)" using assms sfu_ok_cong[of "S\<lparr>sr_sendCh := ms\<rparr>" S] by simp
  then show ?thesis using handleMessage_ok by (auto simp: msgReader_def Cons Let_def split: option.split)
qed (simp add: msgReader_def assms)

lemma sfu_okI:
  assumes "gm_ok (sr_groups S)" and "gm_ok (sr_sessions S)"
    and "\<And>g calls. gm_get (sr_groups S) g = Some calls \<Longrightarrow> gm_ok calls \<and> calls \<noteq> [] \<and> (\<forall>c cl. gm_get calls c = Some cl \<longrightarrow> sfuCall_ok cl)"
    and "\<And>g c k u. sfu_getSession g c k S = Some u \<Longrightarrow>
      sg_GroupID (us_cfg u) = g \<and> sg_CallID (us_cfg u) = c \<and> gm_get (sr_sessions S) k = Some (us_cfg u)"
    and "\<And>k cfg. gm_get (sr_sessions S) k = Some cfg \<Longrightarrow> sg_SessionID cfg = k \<and> sfu_getSession (sg_GroupID cfg) (sg_CallID cfg) k S \<noteq> None"
  shows "sfu_ok S"
  using assms by (simp add: sfu_ok_def del: map_of_eq_Some_iff)

lemma groups_setCall:
  assumes "sfu_ok S" and "sfuCall_ok cl" and "gm_get (sr_groups (setCall g c cl S)) h = Some calls"
  shows "gm_ok calls \<and> calls \<noteq> [] \<and> (\<forall>c cl. gm_get calls c = Some cl \<longrightarrow> sfuCall_ok cl)"
  using assms(2,3) sfu_okD(3)[OF assms(1)]
  by (fastforce simp: setCall_def simp del: map_of_eq_Some_iff split: if_splits option.splits)

lemma sfu_addSession_ok:
  assumes "sfu_ok S" and "fresh_join cfg S" and "us_cfg us = cfg"
  shows "sfu_ok (snd (server_addSession cfg us S))"
proof -
  let ?g = "sg_GroupID cfg" and ?c = "sg_CallID cfg" and ?k = "sg_SessionID cfg"
  define cl where "cl = (case getCall ?g ?c S of None \<Rightarrow> \<lparr>ic_id = ?c, ic_sessions = [], ic_screenSession = None\<rparr> | Some cl \<Rightarrow> cl)"
  have at: "gm_get (ic_sessions cl) k = sfu_getSession ?g ?c k S" for k
    by (simp add: cl_def sfu_getSession_def split: option.split)
  show ?thesis
  proof (cases "SessionConfig_IsValid cfg = None \<and> sfu_getSession ?g ?c ?k S = None")
    case False
    have "sfu_ok (setCall ?g ?c cl S)" if "sfu_getSession ?g ?c ?k S \<noteq> None"
    proof -
      have "getCall ?g ?c S = Some cl" using that by (auto simp: cl_def sfu_getSession_def split: option.splits)
      then show ?thesis using sfu_ok_setCall[OF assms(1)] sfuCall_okD[OF assms(1)] by blast
    qed
    with False assms(1) show ?thesis
      by (auto simp: server_addSession_def call_addSession_def at Let_def cl_def[symmetric] split: option.split)
  next
    case True
    define cl1 where "cl1 = cl\<lparr>ic_sessions := gm_set ?k us (ic_sessions cl)\<rparr>"
    define T where "T = (setCall ?g ?c cl1 S)\<lparr>sr_sessions := gm_set ?k cfg (sr_sessions S)\<rparr>"
    have T: "snd (server_addSession cfg us S) = T"
      using True at[of ?k] by (simp add: server_addSession_def call_addSession_def Let_def cl_def[symmetric] cl1_def T_def)
    have new: "gm_get (sr_sessions S) ?k = None"
    proof (cases "gm_get (sr_sessions S) ?k")
      case (Some d)
      then show ?thesis using True sfu_okD(2)[OF assms(1) Some] assms(2) by (auto simp: fresh_join_def)
    qed
    have look: "sfu_getSession g c k T = (if g = ?g \<and> c = ?c \<and> k = ?k then Some us else sfu_getSession g c k S)" for g c k
    proof -
      have "sfu_getSession g c k T = (if g = ?g \<and> c = ?c then gm_get (ic_sessions cl1) k else sfu_getSession g c k S)"
        using getCall_setCall[of g c ?g ?c cl1 S] by (simp add: T_def sfu_getSession_def getCall_def)
      then show ?thesis using at[of k] by (simp add: cl1_def)
    qed
    have sess: "gm_get (sr_sessions T) k = (if k = ?k then Some cfg else gm_get (sr_sessions S) k)" for k by (simp add: T_def)
    have cl1: "sfuCall_ok cl1"
      using sfuCall_okD[OF assms(1)] unfolding cl1_def cl_def
      by (cases "getCall ?g ?c S") (auto simp: sfuCall_ok_def simp del: map_of_eq_Some_iff)
    show ?thesis unfolding T
    proof (rule sfu_okI)
      show "gm_ok (sr_groups T)" "gm_ok (sr_sessions T)" using assms(1) by (simp_all add: T_def setCall_def sfu_ok_def)
      show "gm_ok calls \<and> calls \<noteq> [] \<and> (\<forall>c cl. gm_get calls c = Some cl \<longrightarrow> sfuCall_ok cl)" if "gm_get (sr_groups T) h = Some calls" for h calls
        using groups_setCall[OF assms(1) cl1, of ?g ?c h calls] that by (simp add: T_def)
      show "sg_GroupID (us_cfg u) = g \<and> sg_CallID (us_cfg u) = c \<and> gm_get (sr_sessions T) k = Some (us_cfg u)" if "sfu_getSession g c k T = Some u" for g c k u
        using that assms(3) new sfu_okD(1)[OF assms(1), of g c k u] by (auto simp: look sess split: if_splits)
      show "sg_SessionID d = k \<and> sfu_getSession (sg_GroupID d) (sg_CallID d) k T \<noteq> None" if "gm_get (sr_sessions T) k = Some d" for k d
        using that sfu_okD(2)[OF assms(1), of k d] by (auto simp: look sess split: if_splits)
    qed
  qed
qed

lemma sessionClose_cfg:
  "map fst (ic_sessions (handleSessionClose k cl)) = map fst (ic_sessions cl)"
  "map_option us_cfg (gm_get (ic_sessions (handleSessionClose k cl)) j) = map_option us_cfg (gm_get (ic_sessions cl) j)"
  by (auto simp: handleSessionClose_def keys_mapped map_of_mapped option.map_comp simp del: map_map intro!: map_option_cong)

lemma sessionClose_ok:
  assumes "sfuCall_ok cl" and "cl1 = (handleSessionClose k cl)\<lparr>ic_sessions := gm_del k (ic_sessions (handleSessionClose k cl))\<rparr>" and "ic_sessions cl1 \<noteq> []"
  shows "sfuCall_ok cl1"
proof -
  have "gm_get (ic_sessions cl1) j \<noteq> None" if "ic_screenSession cl1 = Some j" for j
  proof -
    have "ic_screenSession cl = Some j" "j \<noteq> k" using that assms(2) by (auto simp: handleSessionClose_def split: if_splits)
    then show ?thesis using assms(1) sessionClose_cfg(2)[of k cl j] by (auto simp: assms(2) sfuCall_ok_def)
  qed
  moreover have "gm_ok (ic_sessions cl1)" using assms(1) sessionClose_cfg(1)[of k cl] by (simp add: assms(2) sfuCall_ok_def)
  ultimately show ?thesis using assms(3) by (simp add: sfuCall_ok_def)
qed

lemma removeFromCall_groups:
  assumes "sfu_ok S" and "getCall g c S = Some cl"
  shows "gm_ok (sr_groups (removeFromCall g c k cl S))"
    "gm_get (sr_groups (removeFromCall g c k cl S)) h = Some calls \<Longrightarrow>
       gm_ok calls \<and> calls \<noteq> [] \<and> (\<forall>c cl. gm_get calls c = Some cl \<longrightarrow> sfuCall_ok cl)"
    "sr_sessions (removeFromCall g c k cl S) = sr_sessions S"
    "map_option us_cfg (sfu_getSession g' c' j (removeFromCall g c k cl S)) =
       (if g' = g \<and> c' = c \<and> j = k then None else map_option us_cfg (sfu_getSession g' c' j S))"
proof -
  let ?T = "removeFromCall g c k cl S"
  define cl1 where "cl1 = (handleSessionClose k cl)\<lparr>ic_sessions := gm_del k (ic_sessions (handleSessionClose k cl))\<rparr>"
  obtain cs where cs: "gm_get (sr_groups S) g = Some cs" "gm_get cs c = Some cl"
    using assms(2) by (auto simp: getCall_def simp del: map_of_eq_Some_iff split: option.splits)
  have T: "?T = (if ic_sessions cl1 \<noteq> [] then setCall g c cl1 S else if gm_del c cs = [] then S\<lparr>sr_groups := gm_del g (sr_groups S)\<rparr>
      else S\<lparr>sr_groups := gm_set g (gm_del c cs) (sr_groups S)\<rparr>)"
    by (simp add: removeFromCall_def Let_def cl1_def[symmetric] cs)
  have ok: "sfuCall_ok cl" using assms by (rule sfuCall_okD)
  have lk: "map_option us_cfg (gm_get (ic_sessions cl1) j) = (if j = k then None else map_option us_cfg (gm_get (ic_sessions cl) j))" for j
    using sessionClose_cfg(2)[of k cl j] by (simp add: cl1_def)
  show "gm_ok (sr_groups ?T)" using assms(1) by (simp add: T setCall_def sfu_ok_def)
  show "sr_sessions ?T = sr_sessions S" by (simp add: T)
  show "gm_ok calls \<and> calls \<noteq> [] \<and> (\<forall>c cl. gm_get calls c = Some cl \<longrightarrow> sfuCall_ok cl)" if "gm_get (sr_groups ?T) h = Some calls"
    using that groups_setCall[OF assms(1) sessionClose_ok[OF ok cl1_def]] sfu_okD(3)[OF assms(1)] cs
    by (auto simp: T simp del: map_of_eq_Some_iff split: if_splits)
  have call: "getCall g' c' ?T = (if g' = g \<and> c' = c then (if ic_sessions cl1 \<noteq> [] then Some cl1 else None) else getCall g' c' S)"
    using gm_empty_iff[of "gm_del c cs"] cs by (auto simp: T getCall_def setCall_def simp del: map_of_eq_Some_iff split: option.split)
  show "map_option us_cfg (sfu_getSession g' c' j ?T) = (if g' = g \<and> c' = c \<and> j = k then None else map_option us_cfg (sfu_getSession g' c' j S))"
    using lk[of j] assms(2) by (auto simp: sfu_getSession_def call)
qed

lemma CloseSession_cases:
  assumes "sfu_ok S"
  obtains (unknown) "gm_get (sr_sessions S) k = None" "fst (snd (CloseSession k S)) = None"
      "sr_groups (snd (snd (CloseSession k S))) = sr_groups S" "sr_sessions (snd (snd (CloseSession k S))) = sr_sessions S"
  | (closed) cfg us cl S2 where "gm_get (sr_sessions S) k = Some cfg" "sg_SessionID cfg = k"
      "sr_groups S2 = sr_groups S" "sr_sessions S2 = gm_del k (sr_sessions S)" "getCall (sg_GroupID cfg) (sg_CallID cfg) S = Some cl"
      "CloseSession k S = (None, Some us, removeFromCall (sg_GroupID cfg) (sg_CallID cfg) k cl S2)"
proof (cases "gm_get (sr_sessions S) k")
  case None
  then have "gm_del k (sr_sessions S) = sr_sessions S" by (simp add: gm_del_id)
  with None show ?thesis by (intro unknown) (simp_all add: CloseSession_def Let_def)
next
  case (Some cfg)
  define S1 where "S1 = S\<lparr>sr_sessions := gm_del k (sr_sessions S)\<rparr>"
  define S2 where "S2 = (if sr_sessions S1 = [] \<and> sr_draining S1 then S1\<lparr>sr_draining := False, sr_drained := True\<rparr> else S1)"
  have k: "sg_SessionID cfg = k" and f: "sfu_getSession (sg_GroupID cfg) (sg_CallID cfg) k S \<noteq> None" using sfu_okD(2)[OF assms Some] by simp_all
  have same: "sr_groups S2 = sr_groups S" "sr_sessions S2 = gm_del k (sr_sessions S)" by (simp_all add: S2_def S1_def)
  obtain cl us where cl: "getCall (sg_GroupID cfg) (sg_CallID cfg) S = Some cl" "gm_get (ic_sessions cl) k = Some us"
    using f by (auto simp: sfu_getSession_def split: option.splits)
  have "getCall (sg_GroupID cfg) (sg_CallID cfg) S2 = Some cl" "gm_get (sr_groups S) (sg_GroupID cfg) \<noteq> None"
    using cl(1) by (auto simp: getCall_def same split: option.splits)
  then have "CloseSession k S = (None, Some us, removeFromCall (sg_GroupID cfg) (sg_CallID cfg) k cl S2)"
    using Some cl by (simp add: CloseSession_def Let_def S1_def[symmetric] S2_def[symmetric] k same)
  with Some k same cl(1) show ?thesis by (intro closed)
qed

lemma unlisted_elsewhere:
  assumes "sfu_ok S" and "gm_get (sr_sessions S) k = Some cfg" and "sfu_getSession g c k S = Some u"
  shows "g = sg_GroupID cfg" "c = sg_CallID cfg"
  using sfu_okD(1)[OF assms(1,3)] assms(2) by auto

lemma CloseSession_exact:
  assumes "sfu_ok S" and "T = snd (snd (CloseSession k S))"
  shows "sfu_ok T" "gm_get (sr_sessions T) j = (if j = k then None else gm_get (sr_sessions S) j)"
    "map_option us_cfg (sfu_getSession g c j T) = (if j = k then None else map_option us_cfg (sfu_getSession g c j S))"
proof -
  have all: "sfu_ok T \<and> (\<forall>j. gm_get (sr_sessions T) j = (if j = k then None else gm_get (sr_sessions S) j))
    \<and> (\<forall>g c j. map_option us_cfg (sfu_getSession g c j T) = (if j = k then None else map_option us_cfg (sfu_getSession g c j S)))"
  proof (rule CloseSession_cases[OF assms(1), of k], goal_cases)
    case 1
    note unknown = 1
    have "sfu_getSession g c k S = None" for g c
      using sfu_okD(1)[OF assms(1), of g c k] unknown(1) by (cases "sfu_getSession g c k S") auto
    moreover have "sfu_getSession g c j T = sfu_getSession g c j S" for g c j
      using unknown(3) by (simp add: assms(2) sfu_getSession_def getCall_def)
    ultimately show ?thesis using unknown assms sfu_ok_cong[of T S] by simp
  next
    case (2 cfg us cl S2)
    note closed = 2
    define S3 where "S3 = S2\<lparr>sr_sessions := sr_sessions S\<rparr>"
    have S3: "sfu_ok S3" "getCall (sg_GroupID cfg) (sg_CallID cfg) S3 = Some cl" "sr_sessions S3 = sr_sessions S"
      "sfu_getSession g c j S3 = sfu_getSession g c j S" for g c j
      using assms(1) closed(3,5) sfu_ok_cong[of S3 S] by (simp_all add: S3_def getCall_def sfu_getSession_def)
    have T: "T = removeFromCall (sg_GroupID cfg) (sg_CallID cfg) k cl S2" using closed(6) assms(2) by simp
    let ?T3 = "removeFromCall (sg_GroupID cfg) (sg_CallID cfg) k cl S3"
    have g3: "sr_groups T = sr_groups ?T3" by (simp add: T S3_def removeFromCall_def setCall_def Let_def)
    note rem = removeFromCall_groups[OF S3(1,2)]
    have sess: "gm_get (sr_sessions T) j = (if j = k then None else gm_get (sr_sessions S) j)" for j
    proof -
      have "sr_sessions T = sr_sessions S2" by (simp add: T removeFromCall_def setCall_def Let_def)
      then show ?thesis using closed(4) by simp
    qed
    have gok: "gm_ok (sr_sessions T)"
    proof -
      have "sr_sessions T = gm_del k (sr_sessions S)" using closed(4) by (simp add: T removeFromCall_def setCall_def Let_def)
      then show ?thesis using assms(1) by (simp add: sfu_ok_def)
    qed
    have get: "map_option us_cfg (sfu_getSession g c j T) = (if j = k then None else map_option us_cfg (sfu_getSession g c j S))" for g c j
    proof -
      have "sfu_getSession g c j T = sfu_getSession g c j ?T3" by (simp add: sfu_getSession_def getCall_def g3)
      moreover have "sfu_getSession g c k S = None" if "\<not> (g = sg_GroupID cfg \<and> c = sg_CallID cfg)"
        using unlisted_elsewhere[OF assms(1) closed(1), of g c] that by (cases "sfu_getSession g c k S") auto
      ultimately show ?thesis using rem(4)[of g c j k] by (auto simp: S3(4))
    qed
    have "sfu_ok T"
    proof (rule sfu_okI)
      show "gm_ok (sr_groups T)" unfolding g3 by (rule rem(1))
      show "gm_ok (sr_sessions T)" by (rule gok)
      show "gm_ok calls \<and> calls \<noteq> [] \<and> (\<forall>c cl. gm_get calls c = Some cl \<longrightarrow> sfuCall_ok cl)" if "gm_get (sr_groups T) h = Some calls" for h calls
        using that unfolding g3 by (rule rem(2))
      show "sg_GroupID (us_cfg u) = g \<and> sg_CallID (us_cfg u) = c \<and> gm_get (sr_sessions T) j = Some (us_cfg u)" if u: "sfu_getSession g c j T = Some u" for g c j u
      proof -
        have j: "j \<noteq> k" "map_option us_cfg (sfu_getSession g c j S) = Some (us_cfg u)" using get[of g c j] u by (auto split: if_splits)
        then obtain v where "sfu_getSession g c j S = Some v" "us_cfg v = us_cfg u" by auto
        then show ?thesis using sfu_okD(1)[OF assms(1), of g c j v] j(1) by (simp add: sess)
      qed
      show "sg_SessionID d = j \<and> sfu_getSession (sg_GroupID d) (sg_CallID d) j T \<noteq> None" if d: "gm_get (sr_sessions T) j = Some d" for j d
        using d sfu_okD(2)[OF assms(1), of j d] get[of "sg_GroupID d" "sg_CallID d" j] by (auto simp: sess split: if_splits)
    qed
    then show ?thesis using sess get by simp
  qed
  then show "sfu_ok T" "gm_get (sr_sessions T) j = (if j = k then None else gm_get (sr_sessions S) j)"
    "map_option us_cfg (sfu_getSession g c j T) = (if j = k then None else map_option us_cfg (sfu_getSession g c j S))" by simp_all
qed

lemma out_rtc [simp]:
  "fs_rtc (snd (wsSend R n m s)) = fs_rtc s" "fs_rtc (snd (sendClientMessage R n a b ty d s)) = fs_rtc s"
  "fs_rtc (snd (closeCb R n us s)) = fs_rtc s" "fs_rtc (handleOpenMessage R n a b s) = fs_rtc s" "fs_rtc (snd (handleRTCMsg R n q s)) = fs_rtc s"
  by (auto simp: wsSend_def sendClientMessage_def closeCb_def handleOpenMessage_def handleRTCMsg_def Let_def split: option.split prod.split)

lemma closeSession_rtc [simp]: "fs_rtc (snd (closeSession R n k s)) = snd (snd (CloseSession k (fs_rtc s)))"
  by (simp add: closeSession_def split: prod.split option.split)

lemma client_rtc:
  assumes "sfu_ok (fs_rtc s)" and "fresh_message clientID ty data s"
  shows "sfu_ok (fs_rtc (snd (handleClientMsg R n connID clientID ty data s)))"
proof -
  have send: "sfu_ok (snd (server_Send m (fs_rtc s)))" for m
    using assms(1) sfu_ok_cong[of "snd (server_Send m (fs_rtc s))" "fs_rtc s"] by (simp add: server_Send_def)
  have join: "sfu_ok (snd (InitSession R n (cfg\<lparr>sg_GroupID := clientID\<rparr>) connID clientID (fs_rtc s)))"
    if "ty = ''join''" "data = DAnyMap d" "FromMap d = Inr cfg" for d cfg
    using sfu_addSession_ok[OF assms(1), of "cfg\<lparr>sg_GroupID := clientID\<rparr>" "newSfuSession (cfg\<lparr>sg_GroupID := clientID\<rparr>) connID clientID"] assms that
    by (auto simp: InitSession_def fresh_message_def newSfuSession_def split: option.split prod.split)
  have leave: "sfu_ok (fs_rtc (snd (closeSession R n k s)))" for k
    using CloseSession_exact(1)[OF assms(1) refl] by simp
  have "sfu_ok (fs_rtc (snd (handleClientMsg R n connID clientID ''join'' data s)))" if "ty = ''join''"
    using assms(1) join[OF that]
    by (auto simp: handleClientMsg_def Let_def split: sfuData.split sum.split prod.split option.split) (metis snd_conv)+
  moreover have "sfu_ok (fs_rtc (snd (handleClientMsg R n connID clientID ''leave'' data s)))"
    using assms(1) leave
    by (auto simp: handleClientMsg_def split: sfuData.split prod.split option.split simp del: closeSession_rtc) (metis snd_conv)+
  moreover have "sfu_ok (fs_rtc (snd (handleClientMsg R n connID clientID ''rtc'' data s)))"
    using assms(1) send
    by (auto simp: handleClientMsg_def split: sfuData.split prod.split option.split) (metis snd_conv)+
  moreover have "fs_rtc (snd (handleClientMsg R n connID clientID ty data s)) = fs_rtc s" if "ty \<notin> {''join'', ''leave'', ''rtc''}"
    using that by (simp add: handleClientMsg_def split: sfuData.split)
  ultimately show ?thesis using assms(1) by (cases "ty \<in> {''join'', ''leave'', ''rtc''}") auto
qed

lemma sfu_step_ok: "sfu_step R s t \<Longrightarrow> sfu_ok (fs_rtc s) \<Longrightarrow> sfu_ok (fs_rtc t)"
proof (induction rule: sfu_step.induct)
  case (stop s)
  then show ?case using sfu_ok_cong[of "server_Stop (fs_rtc s)" "fs_rtc s"] by (simp add: server_Stop_def)
next
  case (media g c k s u v msgs)
  then show ?case
    using sfu_ok_setSession[of "fs_rtc s" g c k u v] sfu_ok_cong[of "(setSession g c k v (fs_rtc s))\<lparr>sr_receiveCh := msgs\<rparr>" "setSession g c k v (fs_rtc s)"] by simp
qed (simp_all add: client_rtc msgReader_ok CloseSession_exact(1))

definition sfu_start :: "sfuService \<Rightarrow> bool" where
  "sfu_start s \<longleftrightarrow> fs_rtc s = \<lparr>sr_groups = [], sr_sessions = [], sr_sendCh = [], sr_receiveCh = [], sr_draining = False, sr_drained = False\<rparr>
     \<and> fs_connMap s = [] \<and> fs_out s = []"

interpretation sfu: step_invariant sfu_start "sfu_step R" "\<lambda>s. sfu_ok (fs_rtc s)" for R
proof
  show "sfu_ok (fs_rtc s)" if "sfu_start s" for s
    using that by (simp add: sfu_start_def sfu_ok_def sfu_getSession_def getCall_def)
  show "sfu_ok (fs_rtc t)" if "sfu_ok (fs_rtc s)" "sfu_step R s t" for s t
    using that by (blast intro: sfu_step_ok)
qed

lemma GetSessionConfig_iff: "GetSessionConfig g c k S = Inr cfg \<longleftrightarrow> map_option us_cfg (sfu_getSession g c k S) = Some cfg"
  by (auto simp: GetSessionConfig_def sfu_getSession_def getCall_def split: option.split)

lemma listed_iff:
  assumes "sfu_ok S"
  shows "GetSessionConfig g c k S = Inr cfg \<longleftrightarrow> gm_get (sr_sessions S) k = Some cfg \<and> sg_GroupID cfg = g \<and> sg_CallID cfg = c"
  unfolding GetSessionConfig_iff
proof
  assume "map_option us_cfg (sfu_getSession g c k S) = Some cfg"
  then obtain u where "sfu_getSession g c k S = Some u" "us_cfg u = cfg" by auto
  then show "gm_get (sr_sessions S) k = Some cfg \<and> sg_GroupID cfg = g \<and> sg_CallID cfg = c" using sfu_okD(1)[OF assms] by blast
next
  assume l: "gm_get (sr_sessions S) k = Some cfg \<and> sg_GroupID cfg = g \<and> sg_CallID cfg = c"
  then obtain u where u: "sfu_getSession g c k S = Some u" using sfu_okD(2)[OF assms, of k cfg] by auto
  then show "map_option us_cfg (sfu_getSession g c k S) = Some cfg" using sfu_okD(1)[OF assms u] l by simp
qed

lemma groups_empty:
  assumes "sfu_ok S"
  shows "sr_groups S = [] \<longleftrightarrow> sr_sessions S = []"
proof
  assume "sr_groups S = []"
  then have "sfu_getSession g c k S = None" for g c k by (simp add: sfu_getSession_def getCall_def)
  then have "gm_get (sr_sessions S) k = None" for k using sfu_okD(2)[OF assms, of k] by (cases "gm_get (sr_sessions S) k") auto
  then show "sr_sessions S = []" by (simp add: gm_empty_iff)
next
  assume e: "sr_sessions S = []"
  have "gm_get (sr_groups S) g = None" for g
  proof (rule ccontr)
    assume "gm_get (sr_groups S) g \<noteq> None"
    then obtain calls where c: "gm_get (sr_groups S) g = Some calls" by auto
    note ok = sfu_okD(3)[OF assms c]
    then obtain c cl where cl: "gm_get calls c = Some cl" using gm_empty_iff[of calls] by (metis not_None_eq)
    then obtain k u where "gm_get (ic_sessions cl) k = Some u" using ok gm_empty_iff[of "ic_sessions cl"]
      unfolding sfuCall_ok_def by (metis not_None_eq)
    then have "sfu_getSession g c k S = Some u" using c cl by (simp add: sfu_getSession_def getCall_def)
    then show False using sfu_okD(1)[OF assms] e by fastforce
  qed
  then show "sr_groups S = []" by (simp add: gm_empty_iff)
qed

section \<open>Sessions, exactly\<close>


text \<open>
  What happens without the guard: client \<open>m2\<close> joins with the id of a session of client \<open>m1\<close>. The entry of the table
  now leads to the session of \<open>m2\<close>; leaving, \<open>m1\<close> closes that one, and its own session stays for ever.
\<close>

definition demoLib :: rtcLib where
  "demoLib = \<lparr>rl_peer = \<lambda>_. None, rl_wsSend = \<lambda>_. None, rl_strings = \<lambda>_. None, rl_sdpType = \<lambda>_. None\<rparr>"

definition demoService :: sfuService where
  "demoService = \<lparr>fs_auth = demoAuth, fs_rtc = \<lparr>sr_groups = [], sr_sessions = [], sr_sendCh = [], sr_receiveCh = [],
     sr_draining = False, sr_drained = False\<rparr>, fs_connMap = [], fs_out = []\<rparr>"

definition demoJoin :: "string \<Rightarrow> sfuData" where
  "demoJoin callID = DAnyMap (Some [(''callID'', SStr callID), (''userID'', SStr ''u''), (''sessionID'', SStr ''k'')])"

definition joined :: "string \<Rightarrow> string \<Rightarrow> sfuService \<Rightarrow> sfuService" where
  "joined clientID callID s = snd (handleClientMsg demoLib 0 ''conn'' clientID ''join'' (demoJoin callID) s)"

lemmas sfu_eval = joined_def demoJoin_def demoService_def handleClientMsg_def FromMap_def InitSession_def SessionConfig_IsValid_def demoLib_def
  server_addSession_def call_addSession_def newSfuSession_def getCall_def setCall_def Let_def

theorem stolen_session_id:
  "case joined ''m2'' ''c2'' (joined ''m1'' ''c1'' demoService) of s \<Rightarrow>
     (case snd (closeSession demoLib 0 ''k'' s) of t \<Rightarrow>
        (\<exists>cfg. GetSessionConfig ''m1'' ''c1'' ''k'' (fs_rtc t) = Inr cfg)
        \<and> GetSessionConfig ''m2'' ''c2'' ''k'' (fs_rtc t) = Inl ''group not found''
        \<and> snd (closeSession demoLib 0 ''k'' t) = t)"
  by (simp add: sfu_eval closeSession_def CloseSession_def removeFromCall_def handleSessionClose_def closeCb_def sendClientMessage_def
      wsSend_def GetSessionConfig_def)


end
