(* ===== verification/Sql_Query.thy ===== *)
theory Sql_Query
  imports Complex_Main Go_Time
begin

text \<open>
  The query builder of the list requests, \<^verbatim>\<open>utils/query.go\<close>, and the column validators it is meant to be used with,
  \<^verbatim>\<open>utils/columns_defs.go\<close>. A query is the data the SQL builder of \<^verbatim>\<open>sqlboiler\<close> collects: table, joins, the texts of the
  conditions with their arguments, the texts of the orderings, limit and offset. Rendering and running it belong to
  that library and to the database. The values of a request are JSON.
\<close>

section \<open>Values and queries\<close>

datatype json = JNull | JBool bool | JNum rat | JStr string | JArr "json list" | JObj "(string \<times> json) list"

text \<open>\<open>qw_or\<close> marks a condition that is joined to those before it by \<^verbatim>\<open>OR\<close>.\<close>

record sqlWhere =
  qw_clause :: string
  qw_args :: "json list"
  qw_or :: bool

record sqlQuery =
  qy_from :: string
  qy_joins :: "string list"
  qy_load :: "string list"
  qy_where :: "sqlWhere list"
  qy_orderBy :: "string list"
  qy_limit :: "int option"
  qy_offset :: int

definition newQuery :: "string \<Rightarrow> sqlQuery" where
  "newQuery table = \<lparr>qy_from = table, qy_joins = [], qy_load = [], qy_where = [], qy_orderBy = [], qy_limit = None, qy_offset = 0\<rparr>"

definition appendWhere :: "string \<times> json list \<Rightarrow> sqlQuery \<Rightarrow> sqlQuery" where
  "appendWhere m q = q\<lparr>qy_where := qy_where q @ [\<lparr>qw_clause = fst m, qw_args = snd m, qw_or = False\<rparr>]\<rparr>"

section \<open>Operators\<close>

definition OperatorIn :: string where "OperatorIn = ''IN''"
definition OperatorNotIn :: string where "OperatorNotIn = ''NOT IN''"
definition OperatorEq :: string where "OperatorEq = ''=''"
definition OperatorLike :: string where "OperatorLike = ''LIKE''"
definition OperatorILike :: string where "OperatorILike = ''ILIKE''"

definition Operator_IsValid :: "string \<Rightarrow> bool" where
  "Operator_IsValid o' \<longleftrightarrow> o' \<in> {OperatorEq, ''!='', ''>'', ''<'', ''>='', ''<='', OperatorIn, OperatorNotIn, OperatorLike, OperatorILike,
     ''NOT LIKE'', ''NOT ILIKE''}"

lemmas operator_defs = OperatorIn_def OperatorNotIn_def OperatorEq_def OperatorLike_def OperatorILike_def

section \<open>Conditions\<close>

record WhereCond =
  wc_Column :: string
  wc_Value :: json
  wc_Operator :: string

definition WhereCond_IsValid :: "(string \<Rightarrow> bool) \<Rightarrow> WhereCond \<Rightarrow> bool" where
  "WhereCond_IsValid valid w \<longleftrightarrow> valid (wc_Column w) \<and> Operator_IsValid (wc_Operator w)"

definition SqlPlaceholders :: "int \<Rightarrow> string" where
  "SqlPlaceholders n = (if n \<le> 0 then '''' else drop 1 (concat (replicate (nat n) '',?'')))"

definition cond_build :: "WhereCond \<Rightarrow> string \<times> json list" where
  "cond_build w =
     (let (clause, args) =
        (if wc_Operator w = OperatorIn \<or> wc_Operator w = OperatorNotIn
         then (case wc_Value w of
                 JArr v \<Rightarrow>
                   if v \<noteq> [] then
                     (wc_Column w @ (if wc_Operator w = OperatorIn then '' IN ('' else '' NOT IN ('') @ SqlPlaceholders (int (length v)) @ '')'', v)
                   else ('''', [])
               | _ \<Rightarrow> ('''', []))
         else (wc_Column w @ '' '' @ wc_Operator w @ '' ?'', [wc_Value w]))
      in if clause \<noteq> '''' \<and> args \<noteq> [] then (clause, args) else (''TRUE'', []))"

text \<open>The loop of \<^verbatim>\<open>build\<close>, on a list that is not empty.\<close>

fun joinClauses :: "string \<Rightarrow> (string \<times> json list) list \<Rightarrow> string" where
  "joinClauses sep [] = ''''"
| "joinClauses sep [m] = fst m @ '')''"
| "joinClauses sep (m # ms) = fst m @ '' '' @ sep @ '' '' @ joinClauses sep ms"

definition build :: "WhereCond list \<Rightarrow> string \<Rightarrow> string \<times> json list" where
  "build conds sep =
     (if conds = [] then (''TRUE'', [])
      else (''('' @ joinClauses sep (map cond_build conds), concat (map (snd \<circ> cond_build) conds)))"

definition WhereCond_Apply :: "WhereCond \<Rightarrow> sqlQuery \<Rightarrow> sqlQuery" where
  "WhereCond_Apply w q = appendWhere (cond_build w) q"

definition WhereAnds_Apply :: "WhereCond list \<Rightarrow> sqlQuery \<Rightarrow> sqlQuery" where
  "WhereAnds_Apply w q = appendWhere (build w ''AND'') q"

definition WhereOrs_Apply :: "WhereCond list \<Rightarrow> sqlQuery \<Rightarrow> sqlQuery" where
  "WhereOrs_Apply w q = appendWhere (build w ''OR'') q"

section \<open>Orderings\<close>

record OrderBy =
  ob_Column :: string
  ob_Dir :: string

definition OrderBy_IsValid :: "(string \<Rightarrow> bool) \<Rightarrow> OrderBy \<Rightarrow> bool" where
  "OrderBy_IsValid valid b \<longleftrightarrow> valid (ob_Column b)"

definition OrderBy_String :: "OrderBy \<Rightarrow> string" where
  "OrderBy_String b = ob_Column b @ '' '' @ ob_Dir b"

definition OrderBy_Apply :: "OrderBy \<Rightarrow> sqlQuery \<Rightarrow> sqlQuery" where
  "OrderBy_Apply b q = q\<lparr>qy_orderBy := qy_orderBy q @ [OrderBy_String b]\<rparr>"

definition OrderBys_Apply :: "OrderBy list \<Rightarrow> sqlQuery \<Rightarrow> sqlQuery" where
  "OrderBys_Apply bs q = fold OrderBy_Apply bs q"

section \<open>Search options\<close>

record SearchOpts =
  so_WhereAnds :: "WhereCond list"
  so_WhereOrs :: "WhereCond list"
  so_Orderings :: "OrderBy list"
  so_Limit :: int
  so_Offset :: int
  so_CountTotal :: bool

definition ExludePaginationForCount :: "SearchOpts \<Rightarrow> SearchOpts" where
  "ExludePaginationForCount s = \<lparr>so_WhereAnds = so_WhereAnds s, so_WhereOrs = so_WhereOrs s, so_Orderings = so_Orderings s,
     so_Limit = -1, so_Offset = -1, so_CountTotal = False\<rparr>"

definition SearchOpts_Apply :: "SearchOpts \<Rightarrow> sqlQuery \<Rightarrow> sqlQuery" where
  "SearchOpts_Apply s q =
     (let q1 = (if so_Limit s > 0 then q\<lparr>qy_limit := Some (so_Limit s)\<rparr> else q);
          q2 = (if so_Offset s \<ge> 0 then q1\<lparr>qy_offset := so_Offset s\<rparr> else q1)
      in OrderBys_Apply (so_Orderings s) (WhereOrs_Apply (so_WhereOrs s) (WhereAnds_Apply (so_WhereAnds s) q2)))"

definition SearchOpts_IsValid :: "(string \<Rightarrow> bool) \<Rightarrow> SearchOpts \<Rightarrow> string option" where
  "SearchOpts_IsValid valid s =
     (if \<not> list_all (WhereCond_IsValid valid) (so_WhereAnds s) then Some ''Invalid WhereAnds condition''
      else if \<not> list_all (WhereCond_IsValid valid) (so_WhereOrs s) then Some ''Invalid WhereOrs condition''
      else if \<not> list_all (OrderBy_IsValid valid) (so_Orderings s) then Some ''Invalid Orderings condition''
      else None)"

section \<open>Columns\<close>

definition UserColumns :: "string list" where
  "UserColumns = [''users.id'', ''users.createat'', ''users.updateat'', ''users.deleteat'', ''users.username'',
     ''users.password'', ''users.authdata'', ''users.authservice'', ''users.email'', ''users.emailverified'',
     ''users.nickname'', ''users.firstname'', ''users.lastname'', ''users.roles'', ''users.allowmarketing'',
     ''users.props'', ''users.notifyprops'', ''users.lastpasswordupdate'', ''users.lastpictureupdate'',
     ''users.failedattempts'', ''users.locale'', ''users.mfaactive'', ''users.mfasecret'', ''users.position'',
     ''users.timezone'', ''users.remoteid'', ''users.lastlogin'', ''users.mfausedtimestamps'', ''users.phone'',
     ''users.parent_id'']"

definition UserColumn_IsValid :: "string \<Rightarrow> bool" where
  "UserColumn_IsValid c \<longleftrightarrow> c \<in> set UserColumns"

definition LMSSessionColumns :: "string list" where
  "LMSSessionColumns = [''lms_sessions.id'', ''lms_sessions.title'', ''lms_sessions.class_id'', ''lms_sessions.start_time'',
     ''lms_sessions.end_time'', ''lms_sessions.room'', ''lms_sessions.teacher_id'', ''lms_sessions.lesson_id'',
     ''lms_sessions.status'', ''lms_sessions.date'', ''lms_sessions.createat'', ''lms_sessions.updateat'']"

definition LMSSessionColumn_IsValid :: "string \<Rightarrow> bool" where
  "LMSSessionColumn_IsValid c \<longleftrightarrow> c \<in> set LMSSessionColumns"

definition ClassColumns :: "string list" where
  "ClassColumns = [''classes.id'', ''classes.course_id'', ''classes.branch_id'', ''classes.name'', ''classes.code'',
     ''classes.teacher_id'', ''classes.status'', ''classes.room'', ''classes.start_date'', ''classes.createat'',
     ''classes.updateat'']"

definition ClassColumn_IsValid :: "string \<Rightarrow> bool" where
  "ClassColumn_IsValid c \<longleftrightarrow> c \<in> set ClassColumns"

definition StudentClassColumns :: "string list" where
  "StudentClassColumns = [''student_classes.id'', ''student_classes.student_id'', ''student_classes.class_id'',
     ''student_classes.enrollment_at'', ''student_classes.status'', ''student_classes.createat'',
     ''student_classes.updateat'']"

definition StudentClassColumn_IsValid :: "string \<Rightarrow> bool" where
  "StudentClassColumn_IsValid c \<longleftrightarrow> c \<in> set StudentClassColumns"

definition BranchColumns :: "string list" where
  "BranchColumns = [''branches.id'', ''branches.name'', ''branches.address'', ''branches.phone'', ''branches.createat'',
     ''branches.updateat'']"

definition BranchColumn_IsValid :: "string \<Rightarrow> bool" where
  "BranchColumn_IsValid c \<longleftrightarrow> c \<in> set BranchColumns"

definition BlogPostColumns :: "string list" where
  "BlogPostColumns = [''blog_posts.id'', ''blog_posts.title'', ''blog_posts.slug'', ''blog_posts.content'', ''blog_posts.excerpt'',
     ''blog_posts.category_id'', ''blog_posts.author_id'', ''blog_posts.status'', ''blog_posts.seo_title'',
     ''blog_posts.seo_description'', ''blog_posts.seo_keywords'', ''blog_posts.published_at'',
     ''blog_posts.createat'', ''blog_posts.updateat'']"

definition BlogPostColumn_IsValid :: "string \<Rightarrow> bool" where
  "BlogPostColumn_IsValid c \<longleftrightarrow> c \<in> set BlogPostColumns"

definition ClassMediumColumns :: "string list" where
  "ClassMediumColumns = [''class_media.id'', ''class_media.class_id'', ''class_media.session_id'', ''class_media.title'',
     ''class_media.file_url'', ''class_media.file_type'', ''class_media.uploaded_by_id'', ''class_media.file_id'',
     ''class_media.createat'', ''class_media.updateat'']"

definition ClassMediumColumn_IsValid :: "string \<Rightarrow> bool" where
  "ClassMediumColumn_IsValid c \<longleftrightarrow> c \<in> set ClassMediumColumns"

definition FeePackageColumns :: "string list" where
  "FeePackageColumns = [''fee_packages.id'', ''fee_packages.name'', ''fee_packages.total_fee'', ''fee_packages.course_id'',
     ''fee_packages.sessions_included'', ''fee_packages.discount_percent'', ''fee_packages.is_active'',
     ''fee_packages.createat'', ''fee_packages.updateat'']"

definition FeePackageColumn_IsValid :: "string \<Rightarrow> bool" where
  "FeePackageColumn_IsValid c \<longleftrightarrow> c \<in> set FeePackageColumns"

definition HomeworkColumns :: "string list" where
  "HomeworkColumns = [''homeworks.id'', ''homeworks.title'', ''homeworks.description'', ''homeworks.session_id'',
     ''homeworks.class_id'', ''homeworks.course_id'', ''homeworks.teacher_id'', ''homeworks.deadline'',
     ''homeworks.createat'', ''homeworks.file_id'', ''homeworks.updateat'']"

definition HomeworkColumn_IsValid :: "string \<Rightarrow> bool" where
  "HomeworkColumn_IsValid c \<longleftrightarrow> c \<in> set HomeworkColumns"

definition LeadColumns :: "string list" where
  "LeadColumns = [''leads.id'', ''leads.name'', ''leads.email'', ''leads.phone'', ''leads.age'', ''leads.school'',
     ''leads.source'', ''leads.need'', ''leads.status'', ''leads.student_id'', ''leads.notes'',
     ''leads.test_date'', ''leads.test_result'', ''leads.test_score'', ''leads.counselor_id'', ''leads.createat'',
     ''leads.updateat'']"

definition LeadColumn_IsValid :: "string \<Rightarrow> bool" where
  "LeadColumn_IsValid c \<longleftrightarrow> c \<in> set LeadColumns"

definition MaterialColumns :: "string list" where
  "MaterialColumns = [''materials.id'', ''materials.title'', ''materials.description'', ''materials.course_id'', ''materials.unit'',
     ''materials.visibility'', ''materials.file_id'', ''materials.uploaded_by_id'', ''materials.version'',
     ''materials.createat'', ''materials.updateat'']"

definition MaterialColumn_IsValid :: "string \<Rightarrow> bool" where
  "MaterialColumn_IsValid c \<longleftrightarrow> c \<in> set MaterialColumns"

definition PaymentColumns :: "string list" where
  "PaymentColumns = [''payments.id'', ''payments.tuition_id'', ''payments.amount'', ''payments.payment_date'', ''payments.method'',
     ''payments.receipt_number'', ''payments.paid_by_id'', ''payments.note'', ''payments.createat'',
     ''payments.updateat'']"

definition PaymentColumn_IsValid :: "string \<Rightarrow> bool" where
  "PaymentColumn_IsValid c \<longleftrightarrow> c \<in> set PaymentColumns"

definition TaskColumns :: "string list" where
  "TaskColumns = [''tasks.id'', ''tasks.title'', ''tasks.description'', ''tasks.assignee_id'', ''tasks.creator_id'',
     ''tasks.deadline'', ''tasks.priority'', ''tasks.status'', ''tasks.notes'', ''tasks.createat'',
     ''tasks.updateat'']"

definition TaskColumn_IsValid :: "string \<Rightarrow> bool" where
  "TaskColumn_IsValid c \<longleftrightarrow> c \<in> set TaskColumns"

definition TuitionColumns :: "string list" where
  "TuitionColumns = [''tuitions.id'', ''tuitions.student_id'', ''tuitions.class_id'', ''tuitions.fee_package_id'',
     ''tuitions.total_amount'', ''tuitions.discount_amount'', ''tuitions.paid_amount'',
     ''tuitions.remaining_amount'', ''tuitions.status'', ''tuitions.due_date'', ''tuitions.note'',
     ''tuitions.promotional_fee'', ''tuitions.discount_value'', ''tuitions.discount_type'', ''tuitions.createat'',
     ''tuitions.updateat'']"

definition TuitionColumn_IsValid :: "string \<Rightarrow> bool" where
  "TuitionColumn_IsValid c \<longleftrightarrow> c \<in> set TuitionColumns"

definition WeeklyReviewColumns :: "string list" where
  "WeeklyReviewColumns = [''weekly_reviews.id'', ''weekly_reviews.student_id'', ''weekly_reviews.class_id'',
     ''weekly_reviews.week_number'', ''weekly_reviews.content'', ''weekly_reviews.rating'',
     ''weekly_reviews.created_by'', ''weekly_reviews.createat'', ''weekly_reviews.updateat'']"

definition WeeklyReviewColumn_IsValid :: "string \<Rightarrow> bool" where
  "WeeklyReviewColumn_IsValid c \<longleftrightarrow> c \<in> set WeeklyReviewColumns"

definition columnValidators :: "(string \<Rightarrow> bool) list" where
  "columnValidators = [UserColumn_IsValid, LMSSessionColumn_IsValid, ClassColumn_IsValid, StudentClassColumn_IsValid, BranchColumn_IsValid,
     BlogPostColumn_IsValid, ClassMediumColumn_IsValid, FeePackageColumn_IsValid, HomeworkColumn_IsValid, LeadColumn_IsValid,
     MaterialColumn_IsValid, PaymentColumn_IsValid, TaskColumn_IsValid, TuitionColumn_IsValid, WeeklyReviewColumn_IsValid]"

lemmas column_defs =
  UserColumns_def UserColumn_IsValid_def LMSSessionColumns_def LMSSessionColumn_IsValid_def ClassColumns_def ClassColumn_IsValid_def StudentClassColumns_def StudentClassColumn_IsValid_def
  BranchColumns_def BranchColumn_IsValid_def BlogPostColumns_def BlogPostColumn_IsValid_def ClassMediumColumns_def ClassMediumColumn_IsValid_def FeePackageColumns_def FeePackageColumn_IsValid_def
  HomeworkColumns_def HomeworkColumn_IsValid_def LeadColumns_def LeadColumn_IsValid_def MaterialColumns_def MaterialColumn_IsValid_def PaymentColumns_def PaymentColumn_IsValid_def
  TaskColumns_def TaskColumn_IsValid_def TuitionColumns_def TuitionColumn_IsValid_def WeeklyReviewColumns_def WeeklyReviewColumn_IsValid_def

section \<open>What a checked search sends\<close>

text \<open>The characters of a query text that is made of column names, operators and placeholders only.\<close>

definition safeChar :: "char \<Rightarrow> bool" where
  "safeChar c \<longleftrightarrow> (CHR ''a'' \<le> c \<and> c \<le> CHR ''z'') \<or> (CHR ''A'' \<le> c \<and> c \<le> CHR ''Z'')
     \<or> c \<in> {CHR ''_'', CHR ''.'', CHR '' '', CHR ''('', CHR '')'', CHR ''?'', CHR '','', CHR ''<'', CHR ''>'', CHR ''!'', CHR ''=''}"

definition plainText :: "string \<Rightarrow> bool" where
  "plainText s \<longleftrightarrow> list_all safeChar s \<and> CHR ''?'' \<notin> set s"

lemma plainText_simps [simp]:
  "plainText []" "plainText (s @ t) \<longleftrightarrow> plainText s \<and> plainText t"
  "plainText (c # s) \<longleftrightarrow> safeChar c \<and> c \<noteq> CHR ''?'' \<and> plainText s"
  by (auto simp: plainText_def)

lemma columns_plain: "V \<in> set columnValidators \<Longrightarrow> V c \<Longrightarrow> plainText c"
proof -
  have "list_all plainText (concat [UserColumns, LMSSessionColumns, ClassColumns, StudentClassColumns, BranchColumns, BlogPostColumns,
    ClassMediumColumns, FeePackageColumns, HomeworkColumns, LeadColumns, MaterialColumns, PaymentColumns, TaskColumns, TuitionColumns, WeeklyReviewColumns])"
    unfolding column_defs by (simp add: safeChar_def less_eq_char_def)
  then show "V \<in> set columnValidators \<Longrightarrow> V c \<Longrightarrow> plainText c"
    by (auto simp: columnValidators_def list_all_iff UserColumn_IsValid_def LMSSessionColumn_IsValid_def ClassColumn_IsValid_def
        StudentClassColumn_IsValid_def BranchColumn_IsValid_def BlogPostColumn_IsValid_def ClassMediumColumn_IsValid_def
        FeePackageColumn_IsValid_def HomeworkColumn_IsValid_def LeadColumn_IsValid_def MaterialColumn_IsValid_def PaymentColumn_IsValid_def
        TaskColumn_IsValid_def TuitionColumn_IsValid_def WeeklyReviewColumn_IsValid_def)
qed

lemma operator_plain: "Operator_IsValid p \<Longrightarrow> plainText p"
  by (auto simp: Operator_IsValid_def operator_defs safeChar_def less_eq_char_def)

text \<open>A text with its arguments is well formed: safe characters, and one placeholder for each argument.\<close>

definition wellFormed :: "string \<times> json list \<Rightarrow> bool" where
  "wellFormed m \<longleftrightarrow> list_all safeChar (fst m) \<and> count_list (fst m) (CHR ''?'') = length (snd m)"

lemma plain_count: "plainText s \<Longrightarrow> list_all safeChar s \<and> count_list s (CHR ''?'') = 0"
  by (simp add: plainText_def count_notin)

lemma placeholders_wellFormed: "wellFormed (SqlPlaceholders (int (length v)), v)"
proof -
  have "list_all safeChar (concat (replicate n '',?''))" "count_list (concat (replicate n '',?'')) (CHR ''?'') = n" for n
    by (induction n) (simp_all add: safeChar_def)
  note c = this[of "length v"]
  show ?thesis
  proof (cases v)
    case (Cons x xs)
    then have "SqlPlaceholders (int (length v)) = CHR ''?'' # concat (replicate (length xs) '',?'')"
      by (simp add: SqlPlaceholders_def del: of_nat_Suc)
    then show ?thesis using c Cons by (simp add: wellFormed_def)
  qed (simp add: wellFormed_def SqlPlaceholders_def)
qed

lemma cond_wellFormed:
  assumes "V \<in> set columnValidators" and "WhereCond_IsValid V w"
  shows "wellFormed (cond_build w)"
proof -
  have c: "list_all safeChar (wc_Column w)" "count_list (wc_Column w) (CHR ''?'') = 0"
    and p: "list_all safeChar (wc_Operator w)" "count_list (wc_Operator w) (CHR ''?'') = 0"
    using assms plain_count[OF columns_plain] plain_count[OF operator_plain] by (auto simp: WhereCond_IsValid_def)
  show ?thesis
    using c p placeholders_wellFormed
    by (auto simp: cond_build_def wellFormed_def safeChar_def less_eq_char_def Let_def split: json.split)
qed

lemma join_wellFormed:
  assumes "plainText sep" and "ms \<noteq> []" and "list_all wellFormed ms"
  shows "wellFormed (joinClauses sep ms, concat (map snd ms))"
  using assms
proof (induction sep ms rule: joinClauses.induct)
  case (3 sep m m' ms)
  then show ?case using plain_count[OF 3(2)] by (auto simp: wellFormed_def safeChar_def)
qed (auto simp: wellFormed_def safeChar_def)

lemma build_wellFormed:
  assumes "V \<in> set columnValidators" and "list_all (WhereCond_IsValid V) ws" and "plainText sep"
  shows "wellFormed (build ws sep)"
proof (cases "ws = []")
  case False
  have "list_all wellFormed (map cond_build ws)" using assms cond_wellFormed by (auto simp: list_all_iff)
  from join_wellFormed[OF assms(3) _ this] False show ?thesis
    by (auto simp: build_def wellFormed_def safeChar_def comp_def)
qed (simp add: build_def wellFormed_def safeChar_def less_eq_char_def)

lemma orders_append: "qy_orderBy (OrderBys_Apply bs q) = qy_orderBy q @ map OrderBy_String bs"
  "qy_where (OrderBys_Apply bs q) = qy_where q" "qy_limit (OrderBys_Apply bs q) = qy_limit q" "qy_offset (OrderBys_Apply bs q) = qy_offset q"
  unfolding OrderBys_Apply_def by (induction bs arbitrary: q) (simp_all add: OrderBy_Apply_def)

lemma apply_where:
  "map (\<lambda>w. (qw_clause w, qw_args w)) (qy_where (SearchOpts_Apply s (newQuery table))) = [build (so_WhereAnds s) ''AND'', build (so_WhereOrs s) ''OR'']"
  "qy_orderBy (SearchOpts_Apply s (newQuery table)) = map OrderBy_String (so_Orderings s)"
  by (simp_all add: SearchOpts_Apply_def Let_def orders_append WhereOrs_Apply_def WhereAnds_Apply_def appendWhere_def newQuery_def)


definition demoSearch :: SearchOpts where
  "demoSearch = \<lparr>so_WhereAnds = [\<lparr>wc_Column = ''classes.status'', wc_Value = JArr [JStr ''OPEN'', JStr (CHR 0x27 # '' OR 1=1'')], wc_Operator = ''IN''\<rparr>],
     so_WhereOrs = [], so_Orderings = [\<lparr>ob_Column = ''classes.name'', ob_Dir = ''DESC''\<rparr>], so_Limit = 2, so_Offset = 0, so_CountTotal = True\<rparr>"


end
