(* ===== verification/Lms_Rows.thy ===== *)
theory Lms_Rows
  imports Lms_Base
begin

text \<open>
  The rows of the learning-management tables with the hooks and the validation of
  \<^verbatim>\<open>public/model_helper/lms.go\<close>, entity by entity in the order of that file. The records have the columns of the
  generated structs of \<^verbatim>\<open>public/lms_models\<close>. A validation returns the message id of the first rule that is
  violated; \<^verbatim>\<open>len\<close> counts bytes. \<open>PreCreate\<close> and \<open>PreUpdate\<close> run before the validation and the statement.
\<close>

section \<open>Status values\<close>

definition ClassStatus_IsValid :: "string \<Rightarrow> bool" where
  "ClassStatus_IsValid c \<longleftrightarrow> c \<in> {''OPEN'', ''CLOSED'', ''PAUSED'', ''ACTIVE'', ''COMPLETED''}"

definition StudentStatus_IsValid :: "string \<Rightarrow> bool" where
  "StudentStatus_IsValid s \<longleftrightarrow> s \<in> {''ACTIVE'', ''RESERVED'', ''DROPPED'', ''PENDING''}"

definition UserGender_IsValid :: "string \<Rightarrow> bool" where
  "UserGender_IsValid g \<longleftrightarrow> g \<in> {''male'', ''female''}"

section \<open>Rows\<close>

record Branch =
  br_ID :: "string"
  br_Name :: "string"
  br_Address :: "string option"
  br_Phone :: "string option"
  br_Createat :: "int"
  br_Updateat :: "int"

definition BranchIsValid :: "(nat \<Rightarrow> bool) \<Rightarrow> Branch \<Rightarrow> string option" where
  "BranchIsValid U b =
     (if br_ID b \<noteq> '''' \<and> \<not> IsValidId U (br_ID b) then Some ''model.lms.branch.id.app_error''
      else if br_Name b = '''' then Some ''model.lms.branch.name.app_error''
      else if length (br_Name b) > 100 then Some ''model.lms.branch.name.len.app_error''
      else if longerThan 200 (br_Address b) then Some ''model.lms.branch.address.len.app_error''
      else if longerThan 13 (br_Phone b) then Some ''model.lms.branch.phone.len.app_error''
      else None)"

definition BranchPreCreate :: "lmsEnv \<Rightarrow> nat \<Rightarrow> Branch \<Rightarrow> Branch" where
  "BranchPreCreate E k b = b\<lparr>
     br_ID := (if br_ID b = '''' then lv_newId E k else br_ID b),
     br_Createat := lv_now E k 0,
     br_Updateat := lv_now E k 0\<rparr>"

definition BranchPreUpdate :: "lmsEnv \<Rightarrow> nat \<Rightarrow> Branch \<Rightarrow> Branch" where
  "BranchPreUpdate E k b = b\<lparr>br_Updateat := lv_now E k 0\<rparr>"

record Course =
  co_ID :: "string"
  co_Name :: "string"
  co_Code :: "string"
  co_Level :: "string option"
  co_AgeRange :: "string option"
  co_TotalSessions :: "int"
  co_DurationPerSession :: "int"
  co_Fee :: "rat option"
  co_Description :: "string option"
  co_Curriculum :: "string option"
  co_Createat :: "int"
  co_Updateat :: "int"

definition CourseIsValid :: "(nat \<Rightarrow> bool) \<Rightarrow> Course \<Rightarrow> string option" where
  "CourseIsValid U c =
     (if co_ID c \<noteq> '''' \<and> \<not> IsValidId U (co_ID c) then Some ''model.lms.course.id.app_error''
      else if co_Code c = '''' then Some ''model.lms.course.code.app_error''
      else if length (co_Code c) > 100 then Some ''model.lms.course.code.len.app_error''
      else if co_Name c = '''' then Some ''model.lms.course.name.app_error''
      else if length (co_Name c) > 100 then Some ''model.lms.course.name.len.app_error''
      else if longerThan 100 (co_Level c) then Some ''model.lms.course.level.len.app_error''
      else if longerThan 100 (co_AgeRange c) then Some ''model.lms.course.age_range.len.app_error''
      else if longerThan 500 (co_Description c) then Some ''model.lms.course.description.len.app_error''
      else if longerThan 1000 (co_Curriculum c) then Some ''model.lms.course.curriculum.len.app_error''
      else None)"

definition CoursePreCreate :: "lmsEnv \<Rightarrow> nat \<Rightarrow> Course \<Rightarrow> Course" where
  "CoursePreCreate E k c = c\<lparr>
     co_ID := (if co_ID c = '''' then lv_newId E k else co_ID c),
     co_Createat := lv_now E k 0,
     co_Updateat := lv_now E k 0\<rparr>"

definition CoursePreUpdate :: "lmsEnv \<Rightarrow> nat \<Rightarrow> Course \<Rightarrow> Course" where
  "CoursePreUpdate E k c = c\<lparr>co_Updateat := lv_now E k 0\<rparr>"

record CourseLesson =
  cl_ID :: "string"
  cl_CourseID :: "string"
  cl_SessionNumber :: "int"
  cl_Title :: "string option"
  cl_Unit :: "string option"
  cl_Pages :: "string option"
  cl_Objectives :: "string option"
  cl_Createat :: "int"
  cl_Updateat :: "int"

definition CourseLessonIsValid :: "(nat \<Rightarrow> bool) \<Rightarrow> CourseLesson \<Rightarrow> string option" where
  "CourseLessonIsValid U cl =
     (if cl_ID cl \<noteq> '''' \<and> \<not> IsValidId U (cl_ID cl) then Some ''model.lms.course_lesson.id.app_error''
      else if cl_CourseID cl = '''' then Some ''model.lms.course_lesson.course_id.app_error''
      else if longerThan 200 (cl_Title cl) then Some ''model.lms.course_lesson.title.len.app_error''
      else if longerThan 100 (cl_Unit cl) then Some ''model.lms.course_lesson.unit.len.app_error''
      else if longerThan 100 (cl_Pages cl) then Some ''model.lms.course_lesson.pages.len.app_error''
      else if longerThan 500 (cl_Objectives cl) then Some ''model.lms.course_lesson.objectives.len.app_error''
      else None)"

definition CourseLessonPreCreate :: "lmsEnv \<Rightarrow> nat \<Rightarrow> CourseLesson \<Rightarrow> CourseLesson" where
  "CourseLessonPreCreate E k cl = cl\<lparr>
     cl_ID := (if cl_ID cl = '''' then lv_newId E k else cl_ID cl),
     cl_Createat := lv_now E k 0,
     cl_Updateat := lv_now E k 0\<rparr>"

definition CourseLessonPreUpdate :: "lmsEnv \<Rightarrow> nat \<Rightarrow> CourseLesson \<Rightarrow> CourseLesson" where
  "CourseLessonPreUpdate E k cl = cl\<lparr>cl_Updateat := lv_now E k 0\<rparr>"

record Class =
  kl_ID :: "string"
  kl_CourseID :: "string"
  kl_BranchID :: "string"
  kl_Name :: "string"
  kl_Code :: "string"
  kl_TeacherID :: "string"
  kl_Status :: "string"
  kl_Room :: "string option"
  kl_StartDate :: "vntime"
  kl_EndDate :: "vntime option"
  kl_Createat :: "int"
  kl_Updateat :: "int"
  kl_ChatChannelID :: "string"

definition ClassIsValid :: "(nat \<Rightarrow> bool) \<Rightarrow> Class \<Rightarrow> string option" where
  "ClassIsValid U c =
     (if kl_ID c \<noteq> '''' \<and> \<not> IsValidId U (kl_ID c) then Some ''model.lms.class.id.app_error''
      else if kl_Code c = '''' then Some ''model.lms.class.code.app_error''
      else if length (kl_Code c) > 100 then Some ''model.lms.class.code.len.app_error''
      else if kl_Name c = '''' then Some ''model.lms.class.name.app_error''
      else if length (kl_Name c) > 100 then Some ''model.lms.class.name.len.app_error''
      else if \<not> IsValidId U (kl_CourseID c) then Some ''model.lms.class.course_id.app_error''
      else if \<not> IsValidId U (kl_TeacherID c) then Some ''model.lms.class.teacher_id.app_error''
      else if kl_BranchID c \<noteq> '''' \<and> \<not> IsValidId U (kl_BranchID c) then Some ''model.lms.class.branch_id.app_error''
      else if \<not> ClassStatus_IsValid (kl_Status c) then Some ''model.lms.class.status.len.app_error''
      else if longerThan 100 (kl_Room c) then Some ''model.lms.class.room.len.app_error''
      else None)"

definition ClassPreCreate :: "lmsEnv \<Rightarrow> nat \<Rightarrow> Class \<Rightarrow> Class" where
  "ClassPreCreate E k c = c\<lparr>
     kl_ID := (if kl_ID c = '''' then lv_newId E k else kl_ID c),
     kl_Status := (if kl_Status c = '''' then ''OPEN'' else kl_Status c),
     kl_Createat := lv_now E k 0,
     kl_Updateat := lv_now E k 0\<rparr>"

definition ClassPreUpdate :: "lmsEnv \<Rightarrow> nat \<Rightarrow> Class \<Rightarrow> Class" where
  "ClassPreUpdate E k c = c\<lparr>kl_Updateat := lv_now E k 0\<rparr>"

record StudentClass =
  sc_ID :: "string"
  sc_StudentID :: "string"
  sc_ClassID :: "string"
  sc_EnrollmentAt :: "int"
  sc_Status :: "string"
  sc_Createat :: "int"
  sc_Updateat :: "int"

definition StudentClassIsValid :: "(nat \<Rightarrow> bool) \<Rightarrow> StudentClass \<Rightarrow> string option" where
  "StudentClassIsValid U sc =
     (if sc_ID sc \<noteq> '''' \<and> \<not> IsValidId U (sc_ID sc) then Some ''model.lms.student_class.id.app_error''
      else if sc_StudentID sc = '''' then Some ''model.lms.student_class.student_id.app_error''
      else if sc_ClassID sc = '''' then Some ''model.lms.student_class.class_id.app_error''
      else if length (sc_Status sc) > 50 then Some ''model.lms.student_class.status.len.app_error''
      else None)"

definition StudentClassPreCreate :: "lmsEnv \<Rightarrow> nat \<Rightarrow> StudentClass \<Rightarrow> StudentClass" where
  "StudentClassPreCreate E k sc = sc\<lparr>
     sc_ID := (if sc_ID sc = '''' then lv_newId E k else sc_ID sc),
     sc_Status := (if sc_Status sc = '''' then ''ACTIVE'' else sc_Status sc),
     sc_EnrollmentAt := lv_now E k 0,
     sc_Createat := lv_now E k 1,
     sc_Updateat := lv_now E k 1\<rparr>"

definition StudentClassPreUpdate :: "lmsEnv \<Rightarrow> nat \<Rightarrow> StudentClass \<Rightarrow> StudentClass" where
  "StudentClassPreUpdate E k sc = sc\<lparr>sc_Updateat := lv_now E k 0\<rparr>"

record LMSSession =
  ls_ID :: "string"
  ls_Title :: "string option"
  ls_ClassID :: "string"
  ls_StartTime :: "int"
  ls_EndTime :: "int"
  ls_Room :: "string option"
  ls_TeacherID :: "string"
  ls_LessonID :: "string"
  ls_Status :: "string"
  ls_Date :: "vntime"
  ls_Createat :: "int"
  ls_Updateat :: "int"

definition LMSSessionIsValid :: "(nat \<Rightarrow> bool) \<Rightarrow> LMSSession \<Rightarrow> string option" where
  "LMSSessionIsValid U s =
     (if ls_ID s \<noteq> '''' \<and> \<not> IsValidId U (ls_ID s) then Some ''model.lms.session.id.app_error''
      else if ls_ClassID s = '''' then Some ''model.lms.session.class_id.app_error''
      else if ls_TeacherID s = '''' then Some ''model.lms.session.teacher_id.app_error''
      else if ls_Date s = zeroTime then Some ''model.lms.session.date.app_error''
      else if longerThan 200 (ls_Title s) then Some ''model.lms.session.title.len.app_error''
      else if longerThan 100 (ls_Room s) then Some ''model.lms.session.room.len.app_error''
      else if length (ls_Status s) > 50 then Some ''model.lms.session.status.len.app_error''
      else None)"

definition LMSSessionPreCreate :: "lmsEnv \<Rightarrow> nat \<Rightarrow> LMSSession \<Rightarrow> LMSSession" where
  "LMSSessionPreCreate E k s = s\<lparr>
     ls_ID := (if ls_ID s = '''' then lv_newId E k else ls_ID s),
     ls_Status := (if ls_Status s = '''' then ''SCHEDULED'' else ls_Status s),
     ls_Createat := lv_now E k 0,
     ls_Updateat := lv_now E k 0\<rparr>"

definition LMSSessionPreUpdate :: "lmsEnv \<Rightarrow> nat \<Rightarrow> LMSSession \<Rightarrow> LMSSession" where
  "LMSSessionPreUpdate E k s = s\<lparr>ls_Updateat := lv_now E k 0\<rparr>"

record Attendance =
  at_ID :: "string"
  at_SessionID :: "string"
  at_StudentID :: "string"
  at_Status :: "string"
  at_Note :: "string option"
  at_Locked :: "bool"
  at_Createat :: "int"
  at_Updateat :: "int"

definition AttendanceIsValid :: "(nat \<Rightarrow> bool) \<Rightarrow> Attendance \<Rightarrow> string option" where
  "AttendanceIsValid U a =
     (if at_ID a \<noteq> '''' \<and> \<not> IsValidId U (at_ID a) then Some ''model.lms.attendance.id.app_error''
      else if at_SessionID a = '''' then Some ''model.lms.attendance.session_id.app_error''
      else if at_StudentID a = '''' then Some ''model.lms.attendance.student_id.app_error''
      else if at_Status a = '''' then Some ''model.lms.attendance.status.app_error''
      else if length (at_Status a) > 50 then Some ''model.lms.attendance.status.len.app_error''
      else if longerThan 500 (at_Note a) then Some ''model.lms.attendance.note.len.app_error''
      else None)"

definition AttendancePreCreate :: "lmsEnv \<Rightarrow> nat \<Rightarrow> Attendance \<Rightarrow> Attendance" where
  "AttendancePreCreate E k a = a\<lparr>
     at_ID := (if at_ID a = '''' then lv_newId E k else at_ID a),
     at_Status := (if at_Status a = '''' then ''PRESENT'' else at_Status a),
     at_Createat := lv_now E k 0,
     at_Updateat := lv_now E k 0\<rparr>"

record Lead =
  ld_ID :: "string"
  ld_Name :: "string"
  ld_Email :: "string option"
  ld_Phone :: "string option"
  ld_Age :: "string option"
  ld_School :: "string option"
  ld_Source :: "string option"
  ld_Need :: "string option"
  ld_Status :: "string"
  ld_StudentID :: "string option"
  ld_Notes :: "string option"
  ld_TestDate :: "vntime"
  ld_TestResult :: "string option"
  ld_TestScore :: "int option"
  ld_CounselorID :: "string option"
  ld_Createat :: "int"
  ld_Updateat :: "int"

definition LeadIsValid :: "(nat \<Rightarrow> bool) \<Rightarrow> Lead \<Rightarrow> string option" where
  "LeadIsValid U l =
     (if ld_ID l \<noteq> '''' \<and> \<not> IsValidId U (ld_ID l) then Some ''model.lms.lead.id.app_error''
      else if ld_Name l = '''' then Some ''model.lms.lead.name.app_error''
      else if length (ld_Name l) > 100 then Some ''model.lms.lead.name.len.app_error''
      else if longerThan 13 (ld_Phone l) then Some ''model.lms.lead.phone.len.app_error''
      else if longerThan 100 (ld_Email l) then Some ''model.lms.lead.email.len.app_error''
      else if longerThan 100 (ld_School l) then Some ''model.lms.lead.school.len.app_error''
      else if longerThan 100 (ld_Source l) then Some ''model.lms.lead.source.len.app_error''
      else if longerThan 500 (ld_Need l) then Some ''model.lms.lead.need.len.app_error''
      else if length (ld_Status l) > 50 then Some ''model.lms.lead.status.len.app_error''
      else if longerThan 500 (ld_Notes l) then Some ''model.lms.lead.notes.len.app_error''
      else if longerThan 50 (ld_TestResult l) then Some ''model.lms.lead.test_result.len.app_error''
      else None)"

definition LeadPreCreate :: "lmsEnv \<Rightarrow> nat \<Rightarrow> Lead \<Rightarrow> Lead" where
  "LeadPreCreate E k l = l\<lparr>
     ld_ID := (if ld_ID l = '''' then lv_newId E k else ld_ID l),
     ld_Status := (if ld_Status l = '''' then ''NEW'' else ld_Status l),
     ld_Createat := lv_now E k 0,
     ld_Updateat := lv_now E k 0\<rparr>"

definition LeadPreUpdate :: "lmsEnv \<Rightarrow> nat \<Rightarrow> Lead \<Rightarrow> Lead" where
  "LeadPreUpdate E k l = l\<lparr>ld_Updateat := lv_now E k 0\<rparr>"

record LeadActivity =
  la_ID :: "string"
  la_LeadID :: "string"
  la_Type :: "string"
  la_Content :: "string option"
  la_NextFollowUp :: "vntime"
  la_Createat :: "int"
  la_Updateat :: "int"

definition LeadActivityIsValid :: "(nat \<Rightarrow> bool) \<Rightarrow> LeadActivity \<Rightarrow> string option" where
  "LeadActivityIsValid U la =
     (if la_ID la \<noteq> '''' \<and> \<not> IsValidId U (la_ID la) then Some ''model.lms.lead_activity.id.app_error''
      else if la_LeadID la = '''' then Some ''model.lms.lead_activity.lead_id.app_error''
      else if la_Type la = '''' then Some ''model.lms.lead_activity.type.app_error''
      else if length (la_Type la) > 50 then Some ''model.lms.lead_activity.type.len.app_error''
      else if longerThan 500 (la_Content la) then Some ''model.lms.lead_activity.content.len.app_error''
      else None)"

definition LeadActivityPreCreate :: "lmsEnv \<Rightarrow> nat \<Rightarrow> LeadActivity \<Rightarrow> LeadActivity" where
  "LeadActivityPreCreate E k la = la\<lparr>
     la_ID := (if la_ID la = '''' then lv_newId E k else la_ID la),
     la_Createat := lv_now E k 0,
     la_Updateat := lv_now E k 0\<rparr>"

record FeePackage =
  fp_ID :: "string"
  fp_Name :: "string"
  fp_TotalFee :: "rat"
  fp_CourseID :: "string"
  fp_SessionsIncluded :: "int"
  fp_DiscountPercent :: "rat option"
  fp_IsActive :: "bool"
  fp_Createat :: "int"
  fp_Updateat :: "int"

definition FeePackageIsValid :: "(nat \<Rightarrow> bool) \<Rightarrow> FeePackage \<Rightarrow> string option" where
  "FeePackageIsValid U fp =
     (if fp_ID fp \<noteq> '''' \<and> \<not> IsValidId U (fp_ID fp) then Some ''model.lms.fee_package.id.app_error''
      else if fp_Name fp = '''' then Some ''model.lms.fee_package.name.app_error''
      else if length (fp_Name fp) > 100 then Some ''model.lms.fee_package.name.len.app_error''
      else if fp_CourseID fp = '''' then Some ''model.lms.fee_package.course_id.app_error''
      else None)"

definition FeePackagePreCreate :: "lmsEnv \<Rightarrow> nat \<Rightarrow> FeePackage \<Rightarrow> FeePackage" where
  "FeePackagePreCreate E k fp = fp\<lparr>
     fp_ID := (if fp_ID fp = '''' then lv_newId E k else fp_ID fp),
     fp_Createat := lv_now E k 0,
     fp_Updateat := lv_now E k 0\<rparr>"

definition FeePackagePreUpdate :: "lmsEnv \<Rightarrow> nat \<Rightarrow> FeePackage \<Rightarrow> FeePackage" where
  "FeePackagePreUpdate E k fp = fp\<lparr>fp_Updateat := lv_now E k 0\<rparr>"

record Tuition =
  tu_ID :: "string"
  tu_StudentID :: "string"
  tu_ClassID :: "string"
  tu_FeePackageID :: "string"
  tu_TotalAmount :: "rat"
  tu_DiscountAmount :: "rat"
  tu_PaidAmount :: "rat"
  tu_RemainingAmount :: "rat"
  tu_Status :: "string"
  tu_DueDate :: "vntime"
  tu_Note :: "string option"
  tu_PromotionalFee :: "rat option"
  tu_DiscountValue :: "rat option"
  tu_DiscountType :: "string option"
  tu_Createat :: "int"
  tu_Updateat :: "int"

definition TuitionIsValid :: "(nat \<Rightarrow> bool) \<Rightarrow> Tuition \<Rightarrow> string option" where
  "TuitionIsValid U t =
     (if tu_ID t \<noteq> '''' \<and> \<not> IsValidId U (tu_ID t) then Some ''model.lms.tuition.id.app_error''
      else if tu_StudentID t = '''' then Some ''model.lms.tuition.student_id.app_error''
      else if tu_ClassID t = '''' then Some ''model.lms.tuition.class_id.app_error''
      else if tu_FeePackageID t = '''' then Some ''model.lms.tuition.fee_package_id.app_error''
      else if length (tu_Status t) > 50 then Some ''model.lms.tuition.status.len.app_error''
      else if longerThan 500 (tu_Note t) then Some ''model.lms.tuition.note.len.app_error''
      else if longerThan 50 (tu_DiscountType t) then Some ''model.lms.tuition.discount_type.len.app_error''
      else None)"

definition TuitionPreCreate :: "lmsEnv \<Rightarrow> nat \<Rightarrow> Tuition \<Rightarrow> Tuition" where
  "TuitionPreCreate E k t = t\<lparr>
     tu_ID := (if tu_ID t = '''' then lv_newId E k else tu_ID t),
     tu_Status := (if tu_Status t = '''' then ''PENDING'' else tu_Status t),
     tu_Createat := lv_now E k 0,
     tu_Updateat := lv_now E k 0\<rparr>"

definition TuitionPreUpdate :: "lmsEnv \<Rightarrow> nat \<Rightarrow> Tuition \<Rightarrow> Tuition" where
  "TuitionPreUpdate E k t = t\<lparr>tu_Updateat := lv_now E k 0\<rparr>"

record Payment =
  pa_ID :: "string"
  pa_TuitionID :: "string"
  pa_Amount :: "rat"
  pa_PaymentDate :: "vntime"
  pa_Method :: "string"
  pa_ReceiptNumber :: "string option"
  pa_PaidByID :: "string"
  pa_Note :: "string option"
  pa_Createat :: "int"
  pa_Updateat :: "int"

definition PaymentIsValid :: "(nat \<Rightarrow> bool) \<Rightarrow> Payment \<Rightarrow> string option" where
  "PaymentIsValid U p =
     (if pa_ID p \<noteq> '''' \<and> \<not> IsValidId U (pa_ID p) then Some ''model.lms.payment.id.app_error''
      else if pa_TuitionID p = '''' then Some ''model.lms.payment.tuition_id.app_error''
      else if pa_PaidByID p = '''' then Some ''model.lms.payment.paid_by_id.app_error''
      else if length (pa_Method p) > 50 then Some ''model.lms.payment.method.len.app_error''
      else if longerThan 100 (pa_ReceiptNumber p) then Some ''model.lms.payment.receipt_number.len.app_error''
      else if longerThan 500 (pa_Note p) then Some ''model.lms.payment.note.len.app_error''
      else None)"

definition PaymentPreCreate :: "lmsEnv \<Rightarrow> nat \<Rightarrow> Payment \<Rightarrow> Payment" where
  "PaymentPreCreate E k p = p\<lparr>
     pa_ID := (if pa_ID p = '''' then lv_newId E k else pa_ID p),
     pa_Method := (if pa_Method p = '''' then ''CASH'' else pa_Method p),
     pa_PaymentDate := (if pa_PaymentDate p = zeroTime then vnNow (lv_now E k 0) else pa_PaymentDate p),
     pa_Createat := lv_now E k 1,
     pa_Updateat := lv_now E k 1\<rparr>"

record FeeRefund =
  fr_ID :: "string"
  fr_TuitionID :: "string"
  fr_Amount :: "rat"
  fr_RefundDate :: "vntime"
  fr_Reason :: "string option"
  fr_Status :: "string"
  fr_ApprovedByID :: "string option"
  fr_Createat :: "int"
  fr_Updateat :: "int"

definition FeeRefundIsValid :: "(nat \<Rightarrow> bool) \<Rightarrow> FeeRefund \<Rightarrow> string option" where
  "FeeRefundIsValid U fr =
     (if fr_ID fr \<noteq> '''' \<and> \<not> IsValidId U (fr_ID fr) then Some ''model.lms.fee_refund.id.app_error''
      else if fr_TuitionID fr = '''' then Some ''model.lms.fee_refund.tuition_id.app_error''
      else if longerThan 500 (fr_Reason fr) then Some ''model.lms.fee_refund.reason.len.app_error''
      else if length (fr_Status fr) > 50 then Some ''model.lms.fee_refund.status.len.app_error''
      else None)"

definition FeeRefundPreCreate :: "lmsEnv \<Rightarrow> nat \<Rightarrow> FeeRefund \<Rightarrow> FeeRefund" where
  "FeeRefundPreCreate E k fr = fr\<lparr>
     fr_ID := (if fr_ID fr = '''' then lv_newId E k else fr_ID fr),
     fr_Status := (if fr_Status fr = '''' then ''PENDING'' else fr_Status fr),
     fr_RefundDate := (if fr_RefundDate fr = zeroTime then vnNow (lv_now E k 0) else fr_RefundDate fr),
     fr_Createat := lv_now E k 1,
     fr_Updateat := lv_now E k 1\<rparr>"

definition FeeRefundPreUpdate :: "lmsEnv \<Rightarrow> nat \<Rightarrow> FeeRefund \<Rightarrow> FeeRefund" where
  "FeeRefundPreUpdate E k fr = fr\<lparr>fr_Updateat := lv_now E k 0\<rparr>"

record PostCategory =
  pc_ID :: "string"
  pc_Name :: "string"
  pc_Slug :: "string"
  pc_Createat :: "int"
  pc_Updateat :: "int"

definition PostCategoryIsValid :: "(nat \<Rightarrow> bool) \<Rightarrow> PostCategory \<Rightarrow> string option" where
  "PostCategoryIsValid U pc =
     (if pc_ID pc \<noteq> '''' \<and> \<not> IsValidId U (pc_ID pc) then Some ''model.lms.post_category.id.app_error''
      else if pc_Name pc = '''' then Some ''model.lms.post_category.name.app_error''
      else if length (pc_Name pc) > 100 then Some ''model.lms.post_category.name.len.app_error''
      else if pc_Slug pc = '''' then Some ''model.lms.post_category.slug.app_error''
      else if length (pc_Slug pc) > 120 then Some ''model.lms.post_category.slug.len.app_error''
      else None)"

definition PostCategoryPreCreate :: "lmsEnv \<Rightarrow> nat \<Rightarrow> PostCategory \<Rightarrow> PostCategory" where
  "PostCategoryPreCreate E k pc = pc\<lparr>
     pc_ID := (if pc_ID pc = '''' then lv_newId E k else pc_ID pc),
     pc_Createat := lv_now E k 0,
     pc_Updateat := lv_now E k 0\<rparr>"

definition PostCategoryPreUpdate :: "lmsEnv \<Rightarrow> nat \<Rightarrow> PostCategory \<Rightarrow> PostCategory" where
  "PostCategoryPreUpdate E k pc = pc\<lparr>pc_Updateat := lv_now E k 0\<rparr>"

record BlogPost =
  bp_ID :: "string"
  bp_Title :: "string"
  bp_Slug :: "string"
  bp_Content :: "string"
  bp_Excerpt :: "string option"
  bp_CategoryID :: "string"
  bp_AuthorID :: "string"
  bp_Status :: "string"
  bp_SeoTitle :: "string option"
  bp_SeoDescription :: "string option"
  bp_SeoKeywords :: "string option"
  bp_PublishedAt :: "int option"
  bp_Createat :: "int"
  bp_Updateat :: "int"

definition BlogPostIsValid :: "(nat \<Rightarrow> bool) \<Rightarrow> BlogPost \<Rightarrow> string option" where
  "BlogPostIsValid U p =
     (if bp_ID p \<noteq> '''' \<and> \<not> IsValidId U (bp_ID p) then Some ''model.lms.blog_post.id.app_error''
      else if bp_Title p = '''' then Some ''model.lms.blog_post.title.app_error''
      else if length (bp_Title p) > 200 then Some ''model.lms.blog_post.title.len.app_error''
      else if bp_Slug p = '''' then Some ''model.lms.blog_post.slug.app_error''
      else if length (bp_Slug p) > 220 then Some ''model.lms.blog_post.slug.len.app_error''
      else if bp_CategoryID p = '''' then Some ''model.lms.blog_post.category_id.app_error''
      else if bp_AuthorID p = '''' then Some ''model.lms.blog_post.author_id.app_error''
      else if longerThan 500 (bp_Excerpt p) then Some ''model.lms.blog_post.excerpt.len.app_error''
      else if length (bp_Status p) > 50 then Some ''model.lms.blog_post.status.len.app_error''
      else if longerThan 200 (bp_SeoTitle p) then Some ''model.lms.blog_post.seo_title.len.app_error''
      else if longerThan 500 (bp_SeoDescription p) then Some ''model.lms.blog_post.seo_description.len.app_error''
      else if longerThan 200 (bp_SeoKeywords p) then Some ''model.lms.blog_post.seo_keywords.len.app_error''
      else None)"

definition BlogPostPreCreate :: "lmsEnv \<Rightarrow> nat \<Rightarrow> BlogPost \<Rightarrow> BlogPost" where
  "BlogPostPreCreate E k p = p\<lparr>
     bp_ID := (if bp_ID p = '''' then lv_newId E k else bp_ID p),
     bp_Status := (if bp_Status p = '''' then ''DRAFT'' else bp_Status p),
     bp_Createat := lv_now E k 0,
     bp_Updateat := lv_now E k 0\<rparr>"

definition BlogPostPreUpdate :: "lmsEnv \<Rightarrow> nat \<Rightarrow> BlogPost \<Rightarrow> BlogPost" where
  "BlogPostPreUpdate E k p = p\<lparr>bp_Updateat := lv_now E k 0\<rparr>"

record WeeklyReview =
  wr_ID :: "string"
  wr_StudentID :: "string"
  wr_ClassID :: "string"
  wr_WeekNumber :: "int"
  wr_Content :: "string"
  wr_Rating :: "int option"
  wr_CreatedBy :: "string"
  wr_Createat :: "int"
  wr_Updateat :: "int"

definition WeeklyReviewIsValid :: "(nat \<Rightarrow> bool) \<Rightarrow> WeeklyReview \<Rightarrow> string option" where
  "WeeklyReviewIsValid U wr =
     (if wr_ID wr \<noteq> '''' \<and> \<not> IsValidId U (wr_ID wr) then Some ''model.lms.weekly_review.id.app_error''
      else if wr_StudentID wr = '''' then Some ''model.lms.weekly_review.student_id.app_error''
      else if wr_ClassID wr = '''' then Some ''model.lms.weekly_review.class_id.app_error''
      else if wr_Content wr = '''' then Some ''model.lms.weekly_review.content.app_error''
      else None)"

definition WeeklyReviewPreCreate :: "lmsEnv \<Rightarrow> nat \<Rightarrow> WeeklyReview \<Rightarrow> WeeklyReview" where
  "WeeklyReviewPreCreate E k wr = wr\<lparr>
     wr_ID := (if wr_ID wr = '''' then lv_newId E k else wr_ID wr),
     wr_Createat := lv_now E k 0,
     wr_Updateat := lv_now E k 0\<rparr>"

definition WeeklyReviewPreUpdate :: "lmsEnv \<Rightarrow> nat \<Rightarrow> WeeklyReview \<Rightarrow> WeeklyReview" where
  "WeeklyReviewPreUpdate E k wr = wr\<lparr>wr_Updateat := lv_now E k 0\<rparr>"

record Homework =
  hw_ID :: "string"
  hw_Title :: "string"
  hw_Description :: "string option"
  hw_SessionID :: "string"
  hw_ClassID :: "string"
  hw_CourseID :: "string"
  hw_TeacherID :: "string"
  hw_Deadline :: "vntime"
  hw_Createat :: "int"
  hw_FileID :: "string"
  hw_Updateat :: "int"

definition HomeworkIsValid :: "(nat \<Rightarrow> bool) \<Rightarrow> Homework \<Rightarrow> string option" where
  "HomeworkIsValid U h =
     (if hw_ID h \<noteq> '''' \<and> \<not> IsValidId U (hw_ID h) then Some ''model.lms.homework.id.app_error''
      else if hw_Title h = '''' then Some ''model.lms.homework.title.app_error''
      else if length (hw_Title h) > 200 then Some ''model.lms.homework.title.len.app_error''
      else if hw_ClassID h = '''' then Some ''model.lms.homework.class_id.app_error''
      else if hw_CourseID h = '''' then Some ''model.lms.homework.course_id.app_error''
      else if hw_TeacherID h = '''' then Some ''model.lms.homework.teacher_id.app_error''
      else None)"

definition HomeworkPreCreate :: "lmsEnv \<Rightarrow> nat \<Rightarrow> Homework \<Rightarrow> Homework" where
  "HomeworkPreCreate E k h = h\<lparr>
     hw_ID := (if hw_ID h = '''' then lv_newId E k else hw_ID h),
     hw_Createat := lv_now E k 0,
     hw_Updateat := lv_now E k 0\<rparr>"

definition HomeworkPreUpdate :: "lmsEnv \<Rightarrow> nat \<Rightarrow> Homework \<Rightarrow> Homework" where
  "HomeworkPreUpdate E k h = h\<lparr>hw_Updateat := lv_now E k 0\<rparr>"

record Submission =
  su_ID :: "string"
  su_Title :: "string"
  su_StudentID :: "string"
  su_HomeworkID :: "string"
  su_Description :: "string option"
  su_FileID :: "string"
  su_Feedback :: "string option"
  su_Createat :: "int"
  su_Updateat :: "int"

definition SubmissionIsValid :: "(nat \<Rightarrow> bool) \<Rightarrow> Submission \<Rightarrow> string option" where
  "SubmissionIsValid U s =
     (if su_ID s \<noteq> '''' \<and> \<not> IsValidId U (su_ID s) then Some ''model.lms.submission.id.app_error''
      else if su_StudentID s = '''' then Some ''model.lms.submission.student_id.app_error''
      else if su_HomeworkID s = '''' then Some ''model.lms.submission.homework_id.app_error''
      else if length (su_Title s) > 200 then Some ''model.lms.submission.title.len.app_error''
      else if longerThan 500 (su_Description s) then Some ''model.lms.submission.description.len.app_error''
      else if longerThan 500 (su_Feedback s) then Some ''model.lms.submission.feedback.len.app_error''
      else None)"

definition SubmissionPreCreate :: "lmsEnv \<Rightarrow> nat \<Rightarrow> Submission \<Rightarrow> Submission" where
  "SubmissionPreCreate E k s = s\<lparr>
     su_ID := (if su_ID s = '''' then lv_newId E k else su_ID s),
     su_Createat := lv_now E k 0,
     su_Updateat := lv_now E k 0\<rparr>"

definition SubmissionPreUpdate :: "lmsEnv \<Rightarrow> nat \<Rightarrow> Submission \<Rightarrow> Submission" where
  "SubmissionPreUpdate E k s = s\<lparr>su_Updateat := lv_now E k 0\<rparr>"

record ClassMedium =
  cm_ID :: "string"
  cm_ClassID :: "string"
  cm_SessionID :: "string option"
  cm_Title :: "string option"
  cm_FileURL :: "string"
  cm_FileType :: "string"
  cm_UploadedByID :: "string"
  cm_FileID :: "string"
  cm_Createat :: "int"
  cm_Updateat :: "int"

definition ClassMediaIsValid :: "(nat \<Rightarrow> bool) \<Rightarrow> ClassMedium \<Rightarrow> string option" where
  "ClassMediaIsValid U cm =
     (if cm_ID cm \<noteq> '''' \<and> \<not> IsValidId U (cm_ID cm) then Some ''model.lms.class_media.id.app_error''
      else if cm_ClassID cm = '''' then Some ''model.lms.class_media.class_id.app_error''
      else if cm_FileURL cm = '''' then Some ''model.lms.class_media.file_url.app_error''
      else if cm_FileType cm = '''' then Some ''model.lms.class_media.file_type.app_error''
      else if longerThan 200 (cm_Title cm) then Some ''model.lms.class_media.title.len.app_error''
      else if length (cm_FileURL cm) > 500 then Some ''model.lms.class_media.file_url.len.app_error''
      else if length (cm_FileType cm) > 50 then Some ''model.lms.class_media.file_type.len.app_error''
      else None)"

definition ClassMediaPreCreate :: "lmsEnv \<Rightarrow> nat \<Rightarrow> ClassMedium \<Rightarrow> ClassMedium" where
  "ClassMediaPreCreate E k cm = cm\<lparr>
     cm_ID := (if cm_ID cm = '''' then lv_newId E k else cm_ID cm),
     cm_Createat := lv_now E k 0,
     cm_Updateat := lv_now E k 0\<rparr>"

record AdditionalFee =
  af_ID :: "string"
  af_TuitionID :: "string"
  af_Label :: "string"
  af_Amount :: "rat"
  af_Createat :: "int"
  af_Updateat :: "int"

definition AdditionalFeeIsValid :: "(nat \<Rightarrow> bool) \<Rightarrow> AdditionalFee \<Rightarrow> string option" where
  "AdditionalFeeIsValid U af =
     (if af_ID af \<noteq> '''' \<and> \<not> IsValidId U (af_ID af) then Some ''model.lms.additional_fee.id.app_error''
      else if af_Label af = '''' then Some ''model.lms.additional_fee.label.app_error''
      else if length (af_Label af) > 100 then Some ''model.lms.additional_fee.label.len.app_error''
      else None)"

definition AdditionalFeePreCreate :: "lmsEnv \<Rightarrow> nat \<Rightarrow> AdditionalFee \<Rightarrow> AdditionalFee" where
  "AdditionalFeePreCreate E k af = af\<lparr>
     af_ID := (if af_ID af = '''' then lv_newId E k else af_ID af),
     af_Createat := lv_now E k 0,
     af_Updateat := lv_now E k 0\<rparr>"

record Task =
  ta_ID :: "string"
  ta_Title :: "string"
  ta_Description :: "string option"
  ta_AssigneeID :: "string"
  ta_CreatorID :: "string"
  ta_Deadline :: "vntime"
  ta_Priority :: "string"
  ta_Status :: "string"
  ta_Notes :: "string option"
  ta_Createat :: "int"
  ta_Updateat :: "int"

definition TaskIsValid :: "(nat \<Rightarrow> bool) \<Rightarrow> Task \<Rightarrow> string option" where
  "TaskIsValid U t =
     (if ta_ID t \<noteq> '''' \<and> \<not> IsValidId U (ta_ID t) then Some ''model.lms.task.id.app_error''
      else if ta_Title t = '''' then Some ''model.lms.task.title.app_error''
      else if length (ta_Title t) > 200 then Some ''model.lms.task.title.len.app_error''
      else if ta_AssigneeID t = '''' then Some ''model.lms.task.assignee_id.app_error''
      else if ta_CreatorID t = '''' then Some ''model.lms.task.creator_id.app_error''
      else if longerThan 500 (ta_Description t) then Some ''model.lms.task.description.len.app_error''
      else if length (ta_Priority t) > 50 then Some ''model.lms.task.priority.len.app_error''
      else if length (ta_Status t) > 50 then Some ''model.lms.task.status.len.app_error''
      else if longerThan 500 (ta_Notes t) then Some ''model.lms.task.notes.len.app_error''
      else None)"

definition TaskPreCreate :: "lmsEnv \<Rightarrow> nat \<Rightarrow> Task \<Rightarrow> Task" where
  "TaskPreCreate E k t = t\<lparr>
     ta_ID := (if ta_ID t = '''' then lv_newId E k else ta_ID t),
     ta_Priority := (if ta_Priority t = '''' then ''MEDIUM'' else ta_Priority t),
     ta_Status := (if ta_Status t = '''' then ''TODO'' else ta_Status t),
     ta_Createat := lv_now E k 0,
     ta_Updateat := lv_now E k 0\<rparr>"

definition TaskPreUpdate :: "lmsEnv \<Rightarrow> nat \<Rightarrow> Task \<Rightarrow> Task" where
  "TaskPreUpdate E k t = t\<lparr>ta_Updateat := lv_now E k 0\<rparr>"

record Banner =
  ba_ID :: "string"
  ba_Title :: "string"
  ba_ImageURL :: "string option"
  ba_LinkURL :: "string option"
  ba_Position :: "int"
  ba_IsActive :: "bool"
  ba_Createat :: "int"
  ba_Updateat :: "int"

definition BannerIsValid :: "(nat \<Rightarrow> bool) \<Rightarrow> Banner \<Rightarrow> string option" where
  "BannerIsValid U b =
     (if ba_ID b \<noteq> '''' \<and> \<not> IsValidId U (ba_ID b) then Some ''model.lms.banner.id.app_error''
      else if ba_Title b = '''' then Some ''model.lms.banner.title.app_error''
      else if length (ba_Title b) > 200 then Some ''model.lms.banner.title.len.app_error''
      else if longerThan 500 (ba_ImageURL b) then Some ''model.lms.banner.image_url.len.app_error''
      else if longerThan 500 (ba_LinkURL b) then Some ''model.lms.banner.link_url.len.app_error''
      else None)"

definition BannerPreCreate :: "lmsEnv \<Rightarrow> nat \<Rightarrow> Banner \<Rightarrow> Banner" where
  "BannerPreCreate E k b = b\<lparr>
     ba_ID := (if ba_ID b = '''' then lv_newId E k else ba_ID b),
     ba_Createat := lv_now E k 0,
     ba_Updateat := lv_now E k 0\<rparr>"

definition BannerPreUpdate :: "lmsEnv \<Rightarrow> nat \<Rightarrow> Banner \<Rightarrow> Banner" where
  "BannerPreUpdate E k b = b\<lparr>ba_Updateat := lv_now E k 0\<rparr>"

record Notification =
  no_ID :: "string"
  no_UserID :: "string"
  no_Title :: "string"
  no_Message :: "string"
  no_Type :: "string option"
  no_IsRead :: "bool"
  no_LinkURL :: "string option"
  no_Createat :: "int"
  no_Updateat :: "int"

definition NotificationIsValid :: "(nat \<Rightarrow> bool) \<Rightarrow> Notification \<Rightarrow> string option" where
  "NotificationIsValid U n =
     (if no_ID n \<noteq> '''' \<and> \<not> IsValidId U (no_ID n) then Some ''model.lms.notification.id.app_error''
      else if no_UserID n = '''' then Some ''model.lms.notification.user_id.app_error''
      else if no_Title n = '''' then Some ''model.lms.notification.title.app_error''
      else if length (no_Title n) > 200 then Some ''model.lms.notification.title.len.app_error''
      else if no_Message n = '''' then Some ''model.lms.notification.message.app_error''
      else if length (no_Message n) > 500 then Some ''model.lms.notification.message.len.app_error''
      else if longerThan 50 (no_Type n) then Some ''model.lms.notification.type.len.app_error''
      else if longerThan 500 (no_LinkURL n) then Some ''model.lms.notification.link_url.len.app_error''
      else None)"

definition NotificationPreCreate :: "lmsEnv \<Rightarrow> nat \<Rightarrow> Notification \<Rightarrow> Notification" where
  "NotificationPreCreate E k n = n\<lparr>
     no_ID := (if no_ID n = '''' then lv_newId E k else no_ID n),
     no_Createat := lv_now E k 0,
     no_Updateat := lv_now E k 0\<rparr>"

definition NotificationPreUpdate :: "lmsEnv \<Rightarrow> nat \<Rightarrow> Notification \<Rightarrow> Notification" where
  "NotificationPreUpdate E k n = n\<lparr>no_Updateat := lv_now E k 0\<rparr>"

record Material =
  ma_ID :: "string"
  ma_Title :: "string"
  ma_Description :: "string option"
  ma_CourseID :: "string"
  ma_Unit :: "string option"
  ma_Visibility :: "string"
  ma_FileID :: "string"
  ma_UploadedByID :: "string"
  ma_Version :: "int"
  ma_Createat :: "int"
  ma_Updateat :: "int"

definition MaterialIsValid :: "(nat \<Rightarrow> bool) \<Rightarrow> Material \<Rightarrow> string option" where
  "MaterialIsValid U m =
     (if ma_ID m \<noteq> '''' \<and> \<not> IsValidId U (ma_ID m) then Some ''model.lms.material.id.app_error''
      else if ma_Title m = '''' then Some ''model.lms.material.title.app_error''
      else if length (ma_Title m) > 200 then Some ''model.lms.material.title.len.app_error''
      else if ma_CourseID m = '''' then Some ''model.lms.material.course_id.app_error''
      else if ma_UploadedByID m = '''' then Some ''model.lms.material.uploaded_by_id.app_error''
      else if longerThan 500 (ma_Description m) then Some ''model.lms.material.description.len.app_error''
      else if longerThan 100 (ma_Unit m) then Some ''model.lms.material.unit.len.app_error''
      else if length (ma_Visibility m) > 50 then Some ''model.lms.material.visibility.len.app_error''
      else None)"

definition MaterialPreCreate :: "lmsEnv \<Rightarrow> nat \<Rightarrow> Material \<Rightarrow> Material" where
  "MaterialPreCreate E k m = m\<lparr>
     ma_ID := (if ma_ID m = '''' then lv_newId E k else ma_ID m),
     ma_Visibility := (if ma_Visibility m = '''' then ''TEACHER_ONLY'' else ma_Visibility m),
     ma_Createat := lv_now E k 0,
     ma_Updateat := lv_now E k 0\<rparr>"

definition MaterialPreUpdate :: "lmsEnv \<Rightarrow> nat \<Rightarrow> Material \<Rightarrow> Material" where
  "MaterialPreUpdate E k m = m\<lparr>ma_Updateat := lv_now E k 0\<rparr>"

end
