(* ===== verification/Lms_Stores.thy ===== *)
theory Lms_Stores
  imports Lms_Rows
begin

text \<open>
  The SQL stores of \<^verbatim>\<open>sqlstore/lms_store\<close> for the learning-management tables: \<^verbatim>\<open>Get\<close>, \<^verbatim>\<open>Save\<close>, \<^verbatim>\<open>Update\<close> and
  \<^verbatim>\<open>Delete\<close> of every entity, then the lookups by other columns. All of them keep the contract
  \<open>entity_store\<close>, and those with an \<^verbatim>\<open>Update\<close> the contract \<open>updatable_store\<close>. The generic \<^verbatim>\<open>Search\<close> methods, which
  assemble a query from column names the client sends, are not modelled.
\<close>

section \<open>Column defaults\<close>

text \<open>
  The defaults of migrations 000153 and 000154 that differ from the zero value of the Go field.
\<close>

definition Banner_defaults :: "Banner \<Rightarrow> Banner" where
  "Banner_defaults b = (if ba_IsActive b then b else b\<lparr>ba_IsActive := True\<rparr>)"

definition FeePackage_defaults :: "FeePackage \<Rightarrow> FeePackage" where
  "FeePackage_defaults f = (if fp_IsActive f then f else f\<lparr>fp_IsActive := True\<rparr>)"

definition Material_defaults :: "Material \<Rightarrow> Material" where
  "Material_defaults m = (if ma_Version m = 0 then m\<lparr>ma_Version := 1\<rparr> else m)"

definition Tuition_defaults :: "Tuition \<Rightarrow> Tuition" where
  "Tuition_defaults t =
     t\<lparr>tu_PromotionalFee := (case tu_PromotionalFee t of None \<Rightarrow> Some 0 | Some x \<Rightarrow> Some x),
       tu_DiscountValue := (case tu_DiscountValue t of None \<Rightarrow> Some 0 | Some x \<Rightarrow> Some x)\<rparr>"

section \<open>Column types\<close>

definition Class_columns :: "Class \<Rightarrow> Class" where
  "Class_columns r = r\<lparr>kl_StartDate := dateCol (kl_StartDate r), kl_EndDate := map_option dateCol (kl_EndDate r)\<rparr>"

definition LMSSession_columns :: "LMSSession \<Rightarrow> LMSSession" where
  "LMSSession_columns r = r\<lparr>ls_Date := dateCol (ls_Date r)\<rparr>"

definition Lead_columns :: "Lead \<Rightarrow> Lead" where
  "Lead_columns r = r\<lparr>ld_TestDate := dateCol (ld_TestDate r)\<rparr>"

definition LeadActivity_columns :: "LeadActivity \<Rightarrow> LeadActivity" where
  "LeadActivity_columns r = r\<lparr>la_NextFollowUp := dateCol (la_NextFollowUp r)\<rparr>"

definition Tuition_columns :: "Tuition \<Rightarrow> Tuition" where
  "Tuition_columns r = r\<lparr>tu_DueDate := dateCol (tu_DueDate r)\<rparr>"

definition Payment_columns :: "Payment \<Rightarrow> Payment" where
  "Payment_columns r = r\<lparr>pa_PaymentDate := dateCol (pa_PaymentDate r)\<rparr>"

definition FeeRefund_columns :: "FeeRefund \<Rightarrow> FeeRefund" where
  "FeeRefund_columns r = r\<lparr>fr_RefundDate := dateCol (fr_RefundDate r)\<rparr>"

definition Homework_columns :: "Homework \<Rightarrow> Homework" where
  "Homework_columns r = r\<lparr>hw_Deadline := dateCol (hw_Deadline r)\<rparr>"

definition Task_columns :: "Task \<Rightarrow> Task" where
  "Task_columns r = r\<lparr>ta_Deadline := dateCol (ta_Deadline r)\<rparr>"

section \<open>Methods of every store\<close>

definition BranchStore_Get :: "lmsEnv \<Rightarrow> nat \<Rightarrow> string \<Rightarrow> Branch list \<Rightarrow> store_error + Branch" where
  "BranchStore_Get E n = ent_get ''Branch'' ''failed to get branch'' br_ID (lv_db E n 0)"

definition BranchStore_Save :: "lmsEnv \<Rightarrow> nat \<Rightarrow> Branch \<Rightarrow> Branch list
    \<Rightarrow> (store_error + Branch) \<times> Branch list" where
  "BranchStore_Save E n = ent_save ''failed to insert branch'' br_ID
     (BranchPreCreate E n) (BranchIsValid (lv_letter E)) id id (lv_db E n 0)"

definition BranchStore_Delete :: "lmsEnv \<Rightarrow> nat \<Rightarrow> string \<Rightarrow> Branch list
    \<Rightarrow> store_error option \<times> Branch list" where
  "BranchStore_Delete E n = ent_delete ''Branch''
     ''failed to find branch for deletion'' ''failed to delete branch'' br_ID (lv_db E n 0) (lv_db E n 1)"

definition CourseStore_Get :: "lmsEnv \<Rightarrow> nat \<Rightarrow> string \<Rightarrow> Course list \<Rightarrow> store_error + Course" where
  "CourseStore_Get E n = ent_get ''Course'' ''failed to get course'' co_ID (lv_db E n 0)"

definition CourseStore_Save :: "lmsEnv \<Rightarrow> nat \<Rightarrow> Course \<Rightarrow> Course list
    \<Rightarrow> (store_error + Course) \<times> Course list" where
  "CourseStore_Save E n = ent_save ''failed to insert course'' co_ID
     (CoursePreCreate E n) (CourseIsValid (lv_letter E)) id id (lv_db E n 0)"

definition CourseStore_Update :: "lmsEnv \<Rightarrow> nat \<Rightarrow> Course \<Rightarrow> Course list
    \<Rightarrow> (store_error + Course) \<times> Course list" where
  "CourseStore_Update E n = ent_update ''Course'' ''failed to update course'' ''failed to reload course'' co_ID
     (CoursePreUpdate E n) (CourseIsValid (lv_letter E)) id (lv_db E n 0) (lv_db E n 1)"

definition CourseStore_Delete :: "lmsEnv \<Rightarrow> nat \<Rightarrow> string \<Rightarrow> Course list
    \<Rightarrow> store_error option \<times> Course list" where
  "CourseStore_Delete E n = ent_delete ''Course''
     ''failed to find course for deletion'' ''failed to delete course'' co_ID (lv_db E n 0) (lv_db E n 1)"

definition CourseLessonStore_Get :: "lmsEnv \<Rightarrow> nat \<Rightarrow> string \<Rightarrow> CourseLesson list \<Rightarrow> store_error + CourseLesson" where
  "CourseLessonStore_Get E n = ent_get ''CourseLesson'' ''failed to get course lesson'' cl_ID (lv_db E n 0)"

definition CourseLessonStore_Save :: "lmsEnv \<Rightarrow> nat \<Rightarrow> CourseLesson \<Rightarrow> CourseLesson list
    \<Rightarrow> (store_error + CourseLesson) \<times> CourseLesson list" where
  "CourseLessonStore_Save E n = ent_save ''failed to insert course lesson'' cl_ID
     (CourseLessonPreCreate E n) (CourseLessonIsValid (lv_letter E)) id id (lv_db E n 0)"

definition CourseLessonStore_Update :: "lmsEnv \<Rightarrow> nat \<Rightarrow> CourseLesson \<Rightarrow> CourseLesson list
    \<Rightarrow> (store_error + CourseLesson) \<times> CourseLesson list" where
  "CourseLessonStore_Update E n = ent_update ''CourseLesson'' ''failed to update course lesson'' ''failed to reload course lesson'' cl_ID
     (CourseLessonPreUpdate E n) (CourseLessonIsValid (lv_letter E)) id (lv_db E n 0) (lv_db E n 1)"

definition CourseLessonStore_Delete :: "lmsEnv \<Rightarrow> nat \<Rightarrow> string \<Rightarrow> CourseLesson list
    \<Rightarrow> store_error option \<times> CourseLesson list" where
  "CourseLessonStore_Delete E n = ent_delete ''CourseLesson''
     ''failed to find course lesson for deletion'' ''failed to delete course lesson'' cl_ID (lv_db E n 0) (lv_db E n 1)"

definition ClassStore_Get :: "lmsEnv \<Rightarrow> nat \<Rightarrow> string \<Rightarrow> Class list \<Rightarrow> store_error + Class" where
  "ClassStore_Get E n = ent_get ''Class'' ''failed to get class'' kl_ID (lv_db E n 0)"

definition ClassStore_Save :: "lmsEnv \<Rightarrow> nat \<Rightarrow> Class \<Rightarrow> Class list
    \<Rightarrow> (store_error + Class) \<times> Class list" where
  "ClassStore_Save E n = ent_save ''failed to save class'' kl_ID
     (ClassPreCreate E n) (ClassIsValid (lv_letter E)) id Class_columns (lv_db E n 0)"

definition ClassStore_Update :: "lmsEnv \<Rightarrow> nat \<Rightarrow> Class \<Rightarrow> Class list
    \<Rightarrow> (store_error + Class) \<times> Class list" where
  "ClassStore_Update E n = ent_update ''Class'' ''failed to update class'' ''failed to reload class'' kl_ID
     (ClassPreUpdate E n) (ClassIsValid (lv_letter E)) Class_columns (lv_db E n 0) (lv_db E n 1)"

definition ClassStore_Delete :: "lmsEnv \<Rightarrow> nat \<Rightarrow> string \<Rightarrow> Class list
    \<Rightarrow> store_error option \<times> Class list" where
  "ClassStore_Delete E n = ent_delete ''Class''
     ''failed to find class for deletion'' ''failed to delete class'' kl_ID (lv_db E n 0) (lv_db E n 1)"

definition StudentClassStore_Get :: "lmsEnv \<Rightarrow> nat \<Rightarrow> string \<Rightarrow> StudentClass list \<Rightarrow> store_error + StudentClass" where
  "StudentClassStore_Get E n = ent_get ''StudentClass'' ''failed to get student class'' sc_ID (lv_db E n 0)"

definition StudentClassStore_Save :: "lmsEnv \<Rightarrow> nat \<Rightarrow> StudentClass \<Rightarrow> StudentClass list
    \<Rightarrow> (store_error + StudentClass) \<times> StudentClass list" where
  "StudentClassStore_Save E n = ent_save ''failed to save student class'' sc_ID
     (StudentClassPreCreate E n) (StudentClassIsValid (lv_letter E)) id id (lv_db E n 0)"

definition StudentClassStore_Delete :: "lmsEnv \<Rightarrow> nat \<Rightarrow> string \<Rightarrow> StudentClass list
    \<Rightarrow> store_error option \<times> StudentClass list" where
  "StudentClassStore_Delete E n = ent_delete ''StudentClass''
     ''failed to find student class for deletion'' ''failed to delete student class'' sc_ID (lv_db E n 0) (lv_db E n 1)"

definition LMSSessionStore_Get :: "lmsEnv \<Rightarrow> nat \<Rightarrow> string \<Rightarrow> LMSSession list \<Rightarrow> store_error + LMSSession" where
  "LMSSessionStore_Get E n = ent_get ''LMSSession'' ''failed to get lms session'' ls_ID (lv_db E n 0)"

definition LMSSessionStore_Save :: "lmsEnv \<Rightarrow> nat \<Rightarrow> LMSSession \<Rightarrow> LMSSession list
    \<Rightarrow> (store_error + LMSSession) \<times> LMSSession list" where
  "LMSSessionStore_Save E n = ent_save ''failed to save lms session'' ls_ID
     (LMSSessionPreCreate E n) (LMSSessionIsValid (lv_letter E)) id LMSSession_columns (lv_db E n 0)"

definition LMSSessionStore_Update :: "lmsEnv \<Rightarrow> nat \<Rightarrow> LMSSession \<Rightarrow> LMSSession list
    \<Rightarrow> (store_error + LMSSession) \<times> LMSSession list" where
  "LMSSessionStore_Update E n = ent_update ''LMSSession'' ''failed to update lms session'' ''failed to reload lms session'' ls_ID
     (LMSSessionPreUpdate E n) (LMSSessionIsValid (lv_letter E)) LMSSession_columns (lv_db E n 0) (lv_db E n 1)"

definition LMSSessionStore_Delete :: "lmsEnv \<Rightarrow> nat \<Rightarrow> string \<Rightarrow> LMSSession list
    \<Rightarrow> store_error option \<times> LMSSession list" where
  "LMSSessionStore_Delete E n = ent_delete ''LMSSession''
     ''failed to find lms session for deletion'' ''failed to delete lms session'' ls_ID (lv_db E n 0) (lv_db E n 1)"

definition AttendanceStore_Get :: "lmsEnv \<Rightarrow> nat \<Rightarrow> string \<Rightarrow> Attendance list \<Rightarrow> store_error + Attendance" where
  "AttendanceStore_Get E n = ent_get ''Attendance'' ''failed to get attendance'' at_ID (lv_db E n 0)"

definition AttendanceStore_Save :: "lmsEnv \<Rightarrow> nat \<Rightarrow> Attendance \<Rightarrow> Attendance list
    \<Rightarrow> (store_error + Attendance) \<times> Attendance list" where
  "AttendanceStore_Save E n = ent_save ''failed to save attendance'' at_ID
     (AttendancePreCreate E n) (AttendanceIsValid (lv_letter E)) id id (lv_db E n 0)"

definition AttendanceStore_Delete :: "lmsEnv \<Rightarrow> nat \<Rightarrow> string \<Rightarrow> Attendance list
    \<Rightarrow> store_error option \<times> Attendance list" where
  "AttendanceStore_Delete E n = ent_delete ''Attendance''
     ''failed to find attendance for deletion'' ''failed to delete attendance'' at_ID (lv_db E n 0) (lv_db E n 1)"

definition LeadStore_Get :: "lmsEnv \<Rightarrow> nat \<Rightarrow> string \<Rightarrow> Lead list \<Rightarrow> store_error + Lead" where
  "LeadStore_Get E n = ent_get ''Lead'' ''failed to get lead'' ld_ID (lv_db E n 0)"

definition LeadStore_Save :: "lmsEnv \<Rightarrow> nat \<Rightarrow> Lead \<Rightarrow> Lead list
    \<Rightarrow> (store_error + Lead) \<times> Lead list" where
  "LeadStore_Save E n = ent_save ''failed to save lead'' ld_ID
     (LeadPreCreate E n) (LeadIsValid (lv_letter E)) id Lead_columns (lv_db E n 0)"

definition LeadStore_Update :: "lmsEnv \<Rightarrow> nat \<Rightarrow> Lead \<Rightarrow> Lead list
    \<Rightarrow> (store_error + Lead) \<times> Lead list" where
  "LeadStore_Update E n = ent_update ''Lead'' ''failed to update lead'' ''failed to reload lead'' ld_ID
     (LeadPreUpdate E n) (LeadIsValid (lv_letter E)) Lead_columns (lv_db E n 0) (lv_db E n 1)"

definition LeadStore_Delete :: "lmsEnv \<Rightarrow> nat \<Rightarrow> string \<Rightarrow> Lead list
    \<Rightarrow> store_error option \<times> Lead list" where
  "LeadStore_Delete E n = ent_delete ''Lead''
     ''failed to find lead for deletion'' ''failed to delete lead'' ld_ID (lv_db E n 0) (lv_db E n 1)"

definition LeadActivityStore_Get :: "lmsEnv \<Rightarrow> nat \<Rightarrow> string \<Rightarrow> LeadActivity list \<Rightarrow> store_error + LeadActivity" where
  "LeadActivityStore_Get E n = ent_get ''LeadActivity'' ''failed to get lead activity'' la_ID (lv_db E n 0)"

definition LeadActivityStore_Save :: "lmsEnv \<Rightarrow> nat \<Rightarrow> LeadActivity \<Rightarrow> LeadActivity list
    \<Rightarrow> (store_error + LeadActivity) \<times> LeadActivity list" where
  "LeadActivityStore_Save E n = ent_save ''failed to save lead activity'' la_ID
     (LeadActivityPreCreate E n) (LeadActivityIsValid (lv_letter E)) id LeadActivity_columns (lv_db E n 0)"

definition FeePackageStore_Get :: "lmsEnv \<Rightarrow> nat \<Rightarrow> string \<Rightarrow> FeePackage list \<Rightarrow> store_error + FeePackage" where
  "FeePackageStore_Get E n = ent_get ''FeePackage'' ''failed to get fee package'' fp_ID (lv_db E n 0)"

definition FeePackageStore_Save :: "lmsEnv \<Rightarrow> nat \<Rightarrow> FeePackage \<Rightarrow> FeePackage list
    \<Rightarrow> (store_error + FeePackage) \<times> FeePackage list" where
  "FeePackageStore_Save E n = ent_save ''failed to save fee package'' fp_ID
     (FeePackagePreCreate E n) (FeePackageIsValid (lv_letter E)) FeePackage_defaults id (lv_db E n 0)"

definition FeePackageStore_Delete :: "lmsEnv \<Rightarrow> nat \<Rightarrow> string \<Rightarrow> FeePackage list
    \<Rightarrow> store_error option \<times> FeePackage list" where
  "FeePackageStore_Delete E n = ent_delete ''FeePackage''
     ''failed to find fee package for deletion'' ''failed to delete fee package'' fp_ID (lv_db E n 0) (lv_db E n 1)"

definition TuitionStore_Get :: "lmsEnv \<Rightarrow> nat \<Rightarrow> string \<Rightarrow> Tuition list \<Rightarrow> store_error + Tuition" where
  "TuitionStore_Get E n = ent_get ''Tuition'' ''failed to get tuition'' tu_ID (lv_db E n 0)"

definition TuitionStore_Save :: "lmsEnv \<Rightarrow> nat \<Rightarrow> Tuition \<Rightarrow> Tuition list
    \<Rightarrow> (store_error + Tuition) \<times> Tuition list" where
  "TuitionStore_Save E n = ent_save ''failed to save tuition'' tu_ID
     (TuitionPreCreate E n) (TuitionIsValid (lv_letter E)) Tuition_defaults Tuition_columns (lv_db E n 0)"

definition TuitionStore_Update :: "lmsEnv \<Rightarrow> nat \<Rightarrow> Tuition \<Rightarrow> Tuition list
    \<Rightarrow> (store_error + Tuition) \<times> Tuition list" where
  "TuitionStore_Update E n = ent_update ''Tuition'' ''failed to update tuition'' ''failed to reload tuition after update'' tu_ID
     (TuitionPreUpdate E n) (TuitionIsValid (lv_letter E)) Tuition_columns (lv_db E n 0) (lv_db E n 1)"

definition TuitionStore_Delete :: "lmsEnv \<Rightarrow> nat \<Rightarrow> string \<Rightarrow> Tuition list
    \<Rightarrow> store_error option \<times> Tuition list" where
  "TuitionStore_Delete E n = ent_delete ''Tuition''
     ''failed to find tuition for deletion'' ''failed to delete tuition'' tu_ID (lv_db E n 0) (lv_db E n 1)"

definition PaymentStore_Get :: "lmsEnv \<Rightarrow> nat \<Rightarrow> string \<Rightarrow> Payment list \<Rightarrow> store_error + Payment" where
  "PaymentStore_Get E n = ent_get ''Payment'' ''failed to get payment'' pa_ID (lv_db E n 0)"

definition PaymentStore_Save :: "lmsEnv \<Rightarrow> nat \<Rightarrow> Payment \<Rightarrow> Payment list
    \<Rightarrow> (store_error + Payment) \<times> Payment list" where
  "PaymentStore_Save E n = ent_save ''failed to save payment'' pa_ID
     (PaymentPreCreate E n) (PaymentIsValid (lv_letter E)) id Payment_columns (lv_db E n 0)"

definition FeeRefundStore_Get :: "lmsEnv \<Rightarrow> nat \<Rightarrow> string \<Rightarrow> FeeRefund list \<Rightarrow> store_error + FeeRefund" where
  "FeeRefundStore_Get E n = ent_get ''FeeRefund'' ''failed to get fee refund'' fr_ID (lv_db E n 0)"

definition FeeRefundStore_Save :: "lmsEnv \<Rightarrow> nat \<Rightarrow> FeeRefund \<Rightarrow> FeeRefund list
    \<Rightarrow> (store_error + FeeRefund) \<times> FeeRefund list" where
  "FeeRefundStore_Save E n = ent_save ''failed to save fee refund'' fr_ID
     (FeeRefundPreCreate E n) (FeeRefundIsValid (lv_letter E)) id FeeRefund_columns (lv_db E n 0)"

definition FeeRefundStore_Delete :: "lmsEnv \<Rightarrow> nat \<Rightarrow> string \<Rightarrow> FeeRefund list
    \<Rightarrow> store_error option \<times> FeeRefund list" where
  "FeeRefundStore_Delete E n = ent_delete ''FeeRefund''
     ''failed to find fee refund for deletion'' ''failed to delete fee refund'' fr_ID (lv_db E n 0) (lv_db E n 1)"

definition PostCategoryStore_Get :: "lmsEnv \<Rightarrow> nat \<Rightarrow> string \<Rightarrow> PostCategory list \<Rightarrow> store_error + PostCategory" where
  "PostCategoryStore_Get E n = ent_get ''PostCategory'' ''failed to get post category'' pc_ID (lv_db E n 0)"

definition PostCategoryStore_Save :: "lmsEnv \<Rightarrow> nat \<Rightarrow> PostCategory \<Rightarrow> PostCategory list
    \<Rightarrow> (store_error + PostCategory) \<times> PostCategory list" where
  "PostCategoryStore_Save E n = ent_save ''failed to save post category'' pc_ID
     (PostCategoryPreCreate E n) (PostCategoryIsValid (lv_letter E)) id id (lv_db E n 0)"

definition PostCategoryStore_Update :: "lmsEnv \<Rightarrow> nat \<Rightarrow> PostCategory \<Rightarrow> PostCategory list
    \<Rightarrow> (store_error + PostCategory) \<times> PostCategory list" where
  "PostCategoryStore_Update E n = ent_update ''PostCategory'' ''failed to update post category'' ''failed to reload post category after update'' pc_ID
     (PostCategoryPreUpdate E n) (PostCategoryIsValid (lv_letter E)) id (lv_db E n 0) (lv_db E n 1)"

definition PostCategoryStore_Delete :: "lmsEnv \<Rightarrow> nat \<Rightarrow> string \<Rightarrow> PostCategory list
    \<Rightarrow> store_error option \<times> PostCategory list" where
  "PostCategoryStore_Delete E n = ent_delete ''PostCategory''
     ''failed to find post category for deletion'' ''failed to delete post category'' pc_ID (lv_db E n 0) (lv_db E n 1)"

definition BlogPostStore_Get :: "lmsEnv \<Rightarrow> nat \<Rightarrow> string \<Rightarrow> BlogPost list \<Rightarrow> store_error + BlogPost" where
  "BlogPostStore_Get E n = ent_get ''BlogPost'' ''failed to get blog post'' bp_ID (lv_db E n 0)"

definition BlogPostStore_Save :: "lmsEnv \<Rightarrow> nat \<Rightarrow> BlogPost \<Rightarrow> BlogPost list
    \<Rightarrow> (store_error + BlogPost) \<times> BlogPost list" where
  "BlogPostStore_Save E n = ent_save ''failed to save blog post'' bp_ID
     (BlogPostPreCreate E n) (BlogPostIsValid (lv_letter E)) id id (lv_db E n 0)"

definition BlogPostStore_Update :: "lmsEnv \<Rightarrow> nat \<Rightarrow> BlogPost \<Rightarrow> BlogPost list
    \<Rightarrow> (store_error + BlogPost) \<times> BlogPost list" where
  "BlogPostStore_Update E n = ent_update ''BlogPost'' ''failed to update blog post'' ''failed to reload blog post after update'' bp_ID
     (BlogPostPreUpdate E n) (BlogPostIsValid (lv_letter E)) id (lv_db E n 0) (lv_db E n 1)"

definition BlogPostStore_Delete :: "lmsEnv \<Rightarrow> nat \<Rightarrow> string \<Rightarrow> BlogPost list
    \<Rightarrow> store_error option \<times> BlogPost list" where
  "BlogPostStore_Delete E n = ent_delete ''BlogPost''
     ''failed to find blog post for deletion'' ''failed to delete blog post'' bp_ID (lv_db E n 0) (lv_db E n 1)"

definition WeeklyReviewStore_Get :: "lmsEnv \<Rightarrow> nat \<Rightarrow> string \<Rightarrow> WeeklyReview list \<Rightarrow> store_error + WeeklyReview" where
  "WeeklyReviewStore_Get E n = ent_get ''WeeklyReview'' ''failed to find weekly review'' wr_ID (lv_db E n 0)"

definition WeeklyReviewStore_Save :: "lmsEnv \<Rightarrow> nat \<Rightarrow> WeeklyReview \<Rightarrow> WeeklyReview list
    \<Rightarrow> (store_error + WeeklyReview) \<times> WeeklyReview list" where
  "WeeklyReviewStore_Save E n = ent_save ''failed to save weekly review'' wr_ID
     (WeeklyReviewPreCreate E n) (WeeklyReviewIsValid (lv_letter E)) id id (lv_db E n 0)"

definition WeeklyReviewStore_Update :: "lmsEnv \<Rightarrow> nat \<Rightarrow> WeeklyReview \<Rightarrow> WeeklyReview list
    \<Rightarrow> (store_error + WeeklyReview) \<times> WeeklyReview list" where
  "WeeklyReviewStore_Update E n = ent_update ''WeeklyReview'' ''failed to update weekly review'' ''failed to reload weekly review'' wr_ID
     (WeeklyReviewPreUpdate E n) (WeeklyReviewIsValid (lv_letter E)) id (lv_db E n 0) (lv_db E n 1)"

definition WeeklyReviewStore_Delete :: "lmsEnv \<Rightarrow> nat \<Rightarrow> string \<Rightarrow> WeeklyReview list
    \<Rightarrow> store_error option \<times> WeeklyReview list" where
  "WeeklyReviewStore_Delete E n = ent_delete ''WeeklyReview''
     ''failed to find weekly review for deletion'' ''failed to delete weekly review'' wr_ID (lv_db E n 0) (lv_db E n 1)"

definition HomeworkStore_Get :: "lmsEnv \<Rightarrow> nat \<Rightarrow> string \<Rightarrow> Homework list \<Rightarrow> store_error + Homework" where
  "HomeworkStore_Get E n = ent_get ''Homework'' ''failed to find homework'' hw_ID (lv_db E n 0)"

definition HomeworkStore_Save :: "lmsEnv \<Rightarrow> nat \<Rightarrow> Homework \<Rightarrow> Homework list
    \<Rightarrow> (store_error + Homework) \<times> Homework list" where
  "HomeworkStore_Save E n = ent_save ''failed to save homework'' hw_ID
     (HomeworkPreCreate E n) (HomeworkIsValid (lv_letter E)) id Homework_columns (lv_db E n 0)"

definition HomeworkStore_Update :: "lmsEnv \<Rightarrow> nat \<Rightarrow> Homework \<Rightarrow> Homework list
    \<Rightarrow> (store_error + Homework) \<times> Homework list" where
  "HomeworkStore_Update E n = ent_update ''Homework'' ''failed to update homework'' ''failed to reload homework'' hw_ID
     (HomeworkPreUpdate E n) (HomeworkIsValid (lv_letter E)) Homework_columns (lv_db E n 0) (lv_db E n 1)"

definition HomeworkStore_Delete :: "lmsEnv \<Rightarrow> nat \<Rightarrow> string \<Rightarrow> Homework list
    \<Rightarrow> store_error option \<times> Homework list" where
  "HomeworkStore_Delete E n = ent_delete ''Homework''
     ''failed to find homework for deletion'' ''failed to delete homework'' hw_ID (lv_db E n 0) (lv_db E n 1)"

definition SubmissionStore_Get :: "lmsEnv \<Rightarrow> nat \<Rightarrow> string \<Rightarrow> Submission list \<Rightarrow> store_error + Submission" where
  "SubmissionStore_Get E n = ent_get ''Submission'' ''failed to find submission'' su_ID (lv_db E n 0)"

definition SubmissionStore_Save :: "lmsEnv \<Rightarrow> nat \<Rightarrow> Submission \<Rightarrow> Submission list
    \<Rightarrow> (store_error + Submission) \<times> Submission list" where
  "SubmissionStore_Save E n = ent_save ''failed to save submission'' su_ID
     (SubmissionPreCreate E n) (SubmissionIsValid (lv_letter E)) id id (lv_db E n 0)"

definition SubmissionStore_Update :: "lmsEnv \<Rightarrow> nat \<Rightarrow> Submission \<Rightarrow> Submission list
    \<Rightarrow> (store_error + Submission) \<times> Submission list" where
  "SubmissionStore_Update E n = ent_update ''Submission'' ''failed to update submission'' ''failed to reload submission'' su_ID
     (SubmissionPreUpdate E n) (SubmissionIsValid (lv_letter E)) id (lv_db E n 0) (lv_db E n 1)"

definition SubmissionStore_Delete :: "lmsEnv \<Rightarrow> nat \<Rightarrow> string \<Rightarrow> Submission list
    \<Rightarrow> store_error option \<times> Submission list" where
  "SubmissionStore_Delete E n = ent_delete ''Submission''
     ''failed to find submission for deletion'' ''failed to delete submission'' su_ID (lv_db E n 0) (lv_db E n 1)"

definition ClassMediumStore_Get :: "lmsEnv \<Rightarrow> nat \<Rightarrow> string \<Rightarrow> ClassMedium list \<Rightarrow> store_error + ClassMedium" where
  "ClassMediumStore_Get E n = ent_get ''ClassMedium'' ''failed to find class media'' cm_ID (lv_db E n 0)"

definition ClassMediumStore_Save :: "lmsEnv \<Rightarrow> nat \<Rightarrow> ClassMedium \<Rightarrow> ClassMedium list
    \<Rightarrow> (store_error + ClassMedium) \<times> ClassMedium list" where
  "ClassMediumStore_Save E n = ent_save ''failed to save class media'' cm_ID
     (ClassMediaPreCreate E n) (ClassMediaIsValid (lv_letter E)) id id (lv_db E n 0)"

definition ClassMediumStore_Delete :: "lmsEnv \<Rightarrow> nat \<Rightarrow> string \<Rightarrow> ClassMedium list
    \<Rightarrow> store_error option \<times> ClassMedium list" where
  "ClassMediumStore_Delete E n = ent_delete ''ClassMedia''
     ''failed to find class media for deletion'' ''failed to delete class media'' cm_ID (lv_db E n 0) (lv_db E n 1)"

definition AdditionalFeeStore_Get :: "lmsEnv \<Rightarrow> nat \<Rightarrow> string \<Rightarrow> AdditionalFee list \<Rightarrow> store_error + AdditionalFee" where
  "AdditionalFeeStore_Get E n = ent_get ''AdditionalFee'' ''failed to get additional fee'' af_ID (lv_db E n 0)"

definition AdditionalFeeStore_Save :: "lmsEnv \<Rightarrow> nat \<Rightarrow> AdditionalFee \<Rightarrow> AdditionalFee list
    \<Rightarrow> (store_error + AdditionalFee) \<times> AdditionalFee list" where
  "AdditionalFeeStore_Save E n = ent_save ''failed to save additional fee'' af_ID
     (AdditionalFeePreCreate E n) (AdditionalFeeIsValid (lv_letter E)) id id (lv_db E n 0)"

definition AdditionalFeeStore_Delete :: "lmsEnv \<Rightarrow> nat \<Rightarrow> string \<Rightarrow> AdditionalFee list
    \<Rightarrow> store_error option \<times> AdditionalFee list" where
  "AdditionalFeeStore_Delete E n = ent_delete ''AdditionalFee''
     ''failed to find additional fee for deletion'' ''failed to delete additional fee'' af_ID (lv_db E n 0) (lv_db E n 1)"

definition TaskStore_Get :: "lmsEnv \<Rightarrow> nat \<Rightarrow> string \<Rightarrow> Task list \<Rightarrow> store_error + Task" where
  "TaskStore_Get E n = ent_get ''Task'' ''failed to find task'' ta_ID (lv_db E n 0)"

definition TaskStore_Save :: "lmsEnv \<Rightarrow> nat \<Rightarrow> Task \<Rightarrow> Task list
    \<Rightarrow> (store_error + Task) \<times> Task list" where
  "TaskStore_Save E n = ent_save ''failed to save task'' ta_ID
     (TaskPreCreate E n) (TaskIsValid (lv_letter E)) id Task_columns (lv_db E n 0)"

definition TaskStore_Update :: "lmsEnv \<Rightarrow> nat \<Rightarrow> Task \<Rightarrow> Task list
    \<Rightarrow> (store_error + Task) \<times> Task list" where
  "TaskStore_Update E n = ent_update ''Task'' ''failed to update task'' ''failed to reload task'' ta_ID
     (TaskPreUpdate E n) (TaskIsValid (lv_letter E)) Task_columns (lv_db E n 0) (lv_db E n 1)"

definition TaskStore_Delete :: "lmsEnv \<Rightarrow> nat \<Rightarrow> string \<Rightarrow> Task list
    \<Rightarrow> store_error option \<times> Task list" where
  "TaskStore_Delete E n = ent_delete ''Task''
     ''failed to find task for deletion'' ''failed to delete task'' ta_ID (lv_db E n 0) (lv_db E n 1)"

definition BannerStore_Get :: "lmsEnv \<Rightarrow> nat \<Rightarrow> string \<Rightarrow> Banner list \<Rightarrow> store_error + Banner" where
  "BannerStore_Get E n = ent_get ''Banner'' ''failed to find banner'' ba_ID (lv_db E n 0)"

definition BannerStore_Save :: "lmsEnv \<Rightarrow> nat \<Rightarrow> Banner \<Rightarrow> Banner list
    \<Rightarrow> (store_error + Banner) \<times> Banner list" where
  "BannerStore_Save E n = ent_save ''failed to save banner'' ba_ID
     (BannerPreCreate E n) (BannerIsValid (lv_letter E)) Banner_defaults id (lv_db E n 0)"

definition BannerStore_Update :: "lmsEnv \<Rightarrow> nat \<Rightarrow> Banner \<Rightarrow> Banner list
    \<Rightarrow> (store_error + Banner) \<times> Banner list" where
  "BannerStore_Update E n = ent_update ''Banner'' ''failed to update banner'' ''failed to reload banner'' ba_ID
     (BannerPreUpdate E n) (BannerIsValid (lv_letter E)) id (lv_db E n 0) (lv_db E n 1)"

definition BannerStore_Delete :: "lmsEnv \<Rightarrow> nat \<Rightarrow> string \<Rightarrow> Banner list
    \<Rightarrow> store_error option \<times> Banner list" where
  "BannerStore_Delete E n = ent_delete ''Banner''
     ''failed to find banner for deletion'' ''failed to delete banner'' ba_ID (lv_db E n 0) (lv_db E n 1)"

definition NotificationStore_Get :: "lmsEnv \<Rightarrow> nat \<Rightarrow> string \<Rightarrow> Notification list \<Rightarrow> store_error + Notification" where
  "NotificationStore_Get E n = ent_get ''Notification'' ''failed to find notification'' no_ID (lv_db E n 0)"

definition NotificationStore_Save :: "lmsEnv \<Rightarrow> nat \<Rightarrow> Notification \<Rightarrow> Notification list
    \<Rightarrow> (store_error + Notification) \<times> Notification list" where
  "NotificationStore_Save E n = ent_save ''failed to save notification'' no_ID
     (NotificationPreCreate E n) (NotificationIsValid (lv_letter E)) id id (lv_db E n 0)"

definition MaterialStore_Get :: "lmsEnv \<Rightarrow> nat \<Rightarrow> string \<Rightarrow> Material list \<Rightarrow> store_error + Material" where
  "MaterialStore_Get E n = ent_get ''Material'' ''failed to find material'' ma_ID (lv_db E n 0)"

definition MaterialStore_Save :: "lmsEnv \<Rightarrow> nat \<Rightarrow> Material \<Rightarrow> Material list
    \<Rightarrow> (store_error + Material) \<times> Material list" where
  "MaterialStore_Save E n = ent_save ''failed to save material'' ma_ID
     (MaterialPreCreate E n) (MaterialIsValid (lv_letter E)) Material_defaults id (lv_db E n 0)"

definition MaterialStore_Update :: "lmsEnv \<Rightarrow> nat \<Rightarrow> Material \<Rightarrow> Material list
    \<Rightarrow> (store_error + Material) \<times> Material list" where
  "MaterialStore_Update E n = ent_update ''Material'' ''failed to update material'' ''failed to reload material'' ma_ID
     (MaterialPreUpdate E n) (MaterialIsValid (lv_letter E)) id (lv_db E n 0) (lv_db E n 1)"

definition MaterialStore_Delete :: "lmsEnv \<Rightarrow> nat \<Rightarrow> string \<Rightarrow> Material list
    \<Rightarrow> store_error option \<times> Material list" where
  "MaterialStore_Delete E n = ent_delete ''Material''
     ''failed to find material for deletion'' ''failed to delete material'' ma_ID (lv_db E n 0) (lv_db E n 1)"

section \<open>The stores keep the contract\<close>

interpretation branch_store: entity_store br_ID BranchPreCreate BranchIsValid id id BranchStore_Get BranchStore_Save
  by unfold_locales
    (auto simp: fun_eq_iff BranchStore_Get_def BranchStore_Save_def BranchPreCreate_def BranchIsValid_def split: if_splits)

interpretation course_store: updatable_store co_ID CoursePreCreate CourseIsValid id id CourseStore_Get CourseStore_Save
    CoursePreUpdate CourseStore_Update CourseStore_Delete
  by unfold_locales
    (auto simp: fun_eq_iff CourseStore_Get_def CourseStore_Save_def CoursePreCreate_def CourseStore_Update_def CourseStore_Delete_def
      CoursePreUpdate_def CourseIsValid_def split: if_splits)

interpretation courseLesson_store: updatable_store cl_ID CourseLessonPreCreate CourseLessonIsValid id id CourseLessonStore_Get CourseLessonStore_Save
    CourseLessonPreUpdate CourseLessonStore_Update CourseLessonStore_Delete
  by unfold_locales
    (auto simp: fun_eq_iff CourseLessonStore_Get_def CourseLessonStore_Save_def CourseLessonPreCreate_def CourseLessonStore_Update_def CourseLessonStore_Delete_def
      CourseLessonPreUpdate_def CourseLessonIsValid_def split: if_splits)

interpretation class_store: updatable_store kl_ID ClassPreCreate ClassIsValid id Class_columns ClassStore_Get ClassStore_Save
    ClassPreUpdate ClassStore_Update ClassStore_Delete
  by unfold_locales
    (auto simp: fun_eq_iff ClassStore_Get_def ClassStore_Save_def ClassPreCreate_def ClassStore_Update_def ClassStore_Delete_def
      ClassPreUpdate_def Class_columns_def ClassIsValid_def split: if_splits)

interpretation studentClass_store: entity_store sc_ID StudentClassPreCreate StudentClassIsValid id id StudentClassStore_Get StudentClassStore_Save
  by unfold_locales
    (auto simp: fun_eq_iff StudentClassStore_Get_def StudentClassStore_Save_def StudentClassPreCreate_def StudentClassIsValid_def split: if_splits)

interpretation lmsSession_store: updatable_store ls_ID LMSSessionPreCreate LMSSessionIsValid id LMSSession_columns LMSSessionStore_Get LMSSessionStore_Save
    LMSSessionPreUpdate LMSSessionStore_Update LMSSessionStore_Delete
  by unfold_locales
    (auto simp: fun_eq_iff LMSSessionStore_Get_def LMSSessionStore_Save_def LMSSessionPreCreate_def LMSSessionStore_Update_def LMSSessionStore_Delete_def
      LMSSessionPreUpdate_def LMSSession_columns_def LMSSessionIsValid_def split: if_splits)

interpretation attendance_store: entity_store at_ID AttendancePreCreate AttendanceIsValid id id AttendanceStore_Get AttendanceStore_Save
  by unfold_locales
    (auto simp: fun_eq_iff AttendanceStore_Get_def AttendanceStore_Save_def AttendancePreCreate_def AttendanceIsValid_def split: if_splits)

interpretation lead_store: updatable_store ld_ID LeadPreCreate LeadIsValid id Lead_columns LeadStore_Get LeadStore_Save
    LeadPreUpdate LeadStore_Update LeadStore_Delete
  by unfold_locales
    (auto simp: fun_eq_iff LeadStore_Get_def LeadStore_Save_def LeadPreCreate_def LeadStore_Update_def LeadStore_Delete_def
      LeadPreUpdate_def Lead_columns_def LeadIsValid_def split: if_splits)

interpretation leadActivity_store: entity_store la_ID LeadActivityPreCreate LeadActivityIsValid id LeadActivity_columns LeadActivityStore_Get LeadActivityStore_Save
  by unfold_locales
    (auto simp: fun_eq_iff LeadActivityStore_Get_def LeadActivityStore_Save_def LeadActivityPreCreate_def LeadActivity_columns_def LeadActivityIsValid_def split: if_splits)

interpretation feePackage_store: entity_store fp_ID FeePackagePreCreate FeePackageIsValid FeePackage_defaults id FeePackageStore_Get FeePackageStore_Save
  by unfold_locales
    (auto simp: fun_eq_iff FeePackageStore_Get_def FeePackageStore_Save_def FeePackagePreCreate_def FeePackage_defaults_def FeePackageIsValid_def split: if_splits)

interpretation tuition_store: updatable_store tu_ID TuitionPreCreate TuitionIsValid Tuition_defaults Tuition_columns TuitionStore_Get TuitionStore_Save
    TuitionPreUpdate TuitionStore_Update TuitionStore_Delete
  by unfold_locales
    (auto simp: fun_eq_iff TuitionStore_Get_def TuitionStore_Save_def TuitionPreCreate_def TuitionStore_Update_def TuitionStore_Delete_def
      TuitionPreUpdate_def Tuition_defaults_def Tuition_columns_def TuitionIsValid_def split: if_splits)

interpretation payment_store: entity_store pa_ID PaymentPreCreate PaymentIsValid id Payment_columns PaymentStore_Get PaymentStore_Save
  by unfold_locales
    (auto simp: fun_eq_iff PaymentStore_Get_def PaymentStore_Save_def PaymentPreCreate_def Payment_columns_def PaymentIsValid_def split: if_splits)

interpretation feeRefund_store: entity_store fr_ID FeeRefundPreCreate FeeRefundIsValid id FeeRefund_columns FeeRefundStore_Get FeeRefundStore_Save
  by unfold_locales
    (auto simp: fun_eq_iff FeeRefundStore_Get_def FeeRefundStore_Save_def FeeRefundPreCreate_def FeeRefund_columns_def FeeRefundIsValid_def split: if_splits)

interpretation postCategory_store: updatable_store pc_ID PostCategoryPreCreate PostCategoryIsValid id id PostCategoryStore_Get PostCategoryStore_Save
    PostCategoryPreUpdate PostCategoryStore_Update PostCategoryStore_Delete
  by unfold_locales
    (auto simp: fun_eq_iff PostCategoryStore_Get_def PostCategoryStore_Save_def PostCategoryPreCreate_def PostCategoryStore_Update_def PostCategoryStore_Delete_def
      PostCategoryPreUpdate_def PostCategoryIsValid_def split: if_splits)

interpretation blogPost_store: updatable_store bp_ID BlogPostPreCreate BlogPostIsValid id id BlogPostStore_Get BlogPostStore_Save
    BlogPostPreUpdate BlogPostStore_Update BlogPostStore_Delete
  by unfold_locales
    (auto simp: fun_eq_iff BlogPostStore_Get_def BlogPostStore_Save_def BlogPostPreCreate_def BlogPostStore_Update_def BlogPostStore_Delete_def
      BlogPostPreUpdate_def BlogPostIsValid_def split: if_splits)

interpretation weeklyReview_store: updatable_store wr_ID WeeklyReviewPreCreate WeeklyReviewIsValid id id WeeklyReviewStore_Get WeeklyReviewStore_Save
    WeeklyReviewPreUpdate WeeklyReviewStore_Update WeeklyReviewStore_Delete
  by unfold_locales
    (auto simp: fun_eq_iff WeeklyReviewStore_Get_def WeeklyReviewStore_Save_def WeeklyReviewPreCreate_def WeeklyReviewStore_Update_def WeeklyReviewStore_Delete_def
      WeeklyReviewPreUpdate_def WeeklyReviewIsValid_def split: if_splits)

interpretation homework_store: updatable_store hw_ID HomeworkPreCreate HomeworkIsValid id Homework_columns HomeworkStore_Get HomeworkStore_Save
    HomeworkPreUpdate HomeworkStore_Update HomeworkStore_Delete
  by unfold_locales
    (auto simp: fun_eq_iff HomeworkStore_Get_def HomeworkStore_Save_def HomeworkPreCreate_def HomeworkStore_Update_def HomeworkStore_Delete_def
      HomeworkPreUpdate_def Homework_columns_def HomeworkIsValid_def split: if_splits)

interpretation submission_store: updatable_store su_ID SubmissionPreCreate SubmissionIsValid id id SubmissionStore_Get SubmissionStore_Save
    SubmissionPreUpdate SubmissionStore_Update SubmissionStore_Delete
  by unfold_locales
    (auto simp: fun_eq_iff SubmissionStore_Get_def SubmissionStore_Save_def SubmissionPreCreate_def SubmissionStore_Update_def SubmissionStore_Delete_def
      SubmissionPreUpdate_def SubmissionIsValid_def split: if_splits)

interpretation classMedium_store: entity_store cm_ID ClassMediaPreCreate ClassMediaIsValid id id ClassMediumStore_Get ClassMediumStore_Save
  by unfold_locales
    (auto simp: fun_eq_iff ClassMediumStore_Get_def ClassMediumStore_Save_def ClassMediaPreCreate_def ClassMediaIsValid_def split: if_splits)

interpretation additionalFee_store: entity_store af_ID AdditionalFeePreCreate AdditionalFeeIsValid id id AdditionalFeeStore_Get AdditionalFeeStore_Save
  by unfold_locales
    (auto simp: fun_eq_iff AdditionalFeeStore_Get_def AdditionalFeeStore_Save_def AdditionalFeePreCreate_def AdditionalFeeIsValid_def split: if_splits)

interpretation task_store: updatable_store ta_ID TaskPreCreate TaskIsValid id Task_columns TaskStore_Get TaskStore_Save
    TaskPreUpdate TaskStore_Update TaskStore_Delete
  by unfold_locales
    (auto simp: fun_eq_iff TaskStore_Get_def TaskStore_Save_def TaskPreCreate_def TaskStore_Update_def TaskStore_Delete_def
      TaskPreUpdate_def Task_columns_def TaskIsValid_def split: if_splits)

interpretation banner_store: updatable_store ba_ID BannerPreCreate BannerIsValid Banner_defaults id BannerStore_Get BannerStore_Save
    BannerPreUpdate BannerStore_Update BannerStore_Delete
  by unfold_locales
    (auto simp: fun_eq_iff BannerStore_Get_def BannerStore_Save_def BannerPreCreate_def BannerStore_Update_def BannerStore_Delete_def
      BannerPreUpdate_def Banner_defaults_def BannerIsValid_def split: if_splits)

interpretation notification_store: entity_store no_ID NotificationPreCreate NotificationIsValid id id NotificationStore_Get NotificationStore_Save
  by unfold_locales
    (auto simp: fun_eq_iff NotificationStore_Get_def NotificationStore_Save_def NotificationPreCreate_def NotificationIsValid_def split: if_splits)

interpretation material_store: updatable_store ma_ID MaterialPreCreate MaterialIsValid Material_defaults id MaterialStore_Get MaterialStore_Save
    MaterialPreUpdate MaterialStore_Update MaterialStore_Delete
  by unfold_locales
    (auto simp: fun_eq_iff MaterialStore_Get_def MaterialStore_Save_def MaterialPreCreate_def MaterialStore_Update_def MaterialStore_Delete_def
      MaterialPreUpdate_def Material_defaults_def MaterialIsValid_def split: if_splits)

end
