(* ===== verification/Lms_Lookups.thy ===== *)
theory Lms_Lookups
  imports Lms_Stores "HOL-Library.Option_ord"
begin

text \<open>
  The remaining methods of the \<^verbatim>\<open>lms_store\<close> stores: lookups, deletions and counts by other columns. A query
  without \<^verbatim>\<open>ORDER BY\<close> returns the rows in table order; with it, rows with equal sort keys keep that order. The
  database leaves both open; no property below depends on them.
\<close>

section \<open>Shapes of the queries\<close>

definition sql_all :: "string \<Rightarrow> bool \<Rightarrow> ('r \<Rightarrow> bool) \<Rightarrow> 'r list \<Rightarrow> store_error + 'r list" where
  "sql_all msg fail p t = (if fail then Inl (ErrSql msg) else Inr (filter p t))"

definition sql_sorted ::
  "string \<Rightarrow> bool \<Rightarrow> ('r \<Rightarrow> bool) \<Rightarrow> ('r \<Rightarrow> 'k::linorder) \<Rightarrow> 'r list \<Rightarrow> store_error + 'r list" where
  "sql_sorted msg fail p key t = (if fail then Inl (ErrSql msg) else Inr (sort_key key (filter p t)))"

definition sql_deleteAll :: "string \<Rightarrow> bool \<Rightarrow> ('r \<Rightarrow> bool) \<Rightarrow> 'r list \<Rightarrow> store_error option \<times> 'r list" where
  "sql_deleteAll msg fail p t = (if fail then (Some (ErrSql msg), t) else (None, sql_delete p t))"

definition sql_count :: "string \<Rightarrow> bool \<Rightarrow> ('r \<Rightarrow> bool) \<Rightarrow> 'r list \<Rightarrow> store_error + int" where
  "sql_count msg fail p t = (if fail then Inl (ErrSql msg) else Inr (int (length (filter p t))))"

text \<open>\<^verbatim>\<open>One\<close> with the missing row reported as \<^verbatim>\<open>nil, nil\<close>.\<close>

definition sql_maybe :: "string \<Rightarrow> bool \<Rightarrow> ('r \<Rightarrow> bool) \<Rightarrow> 'r list \<Rightarrow> store_error + 'r option" where
  "sql_maybe msg fail p t = (if fail then Inl (ErrSql msg) else Inr (sql_one p t))"

lemma table_ok_filter: "table_ok key E t \<Longrightarrow> table_ok key E (filter p t)"
  by (auto simp: table_ok_def distinct_map_filter)

lemma sql_deleteAll_ok: "table_ok key E t \<Longrightarrow> table_ok key E (snd (sql_deleteAll msg fail p t))"
  by (simp add: sql_deleteAll_def sql_delete_def table_ok_filter)

section \<open>Courses, banners, posts\<close>

definition CourseStore_GetAll :: "lmsEnv \<Rightarrow> nat \<Rightarrow> Course list \<Rightarrow> store_error + Course list" where
  "CourseStore_GetAll E n = sql_sorted ''failed to get all courses'' (lv_db E n 0) (\<lambda>_. True) co_Name"

definition CourseStore_GetLessons :: "lmsEnv \<Rightarrow> nat \<Rightarrow> string \<Rightarrow> CourseLesson list \<Rightarrow> store_error + CourseLesson list" where
  "CourseStore_GetLessons E n courseID =
     sql_sorted ''failed to get course lessons'' (lv_db E n 0) (\<lambda>r. cl_CourseID r = courseID) cl_SessionNumber"

definition CourseLessonStore_GetByCourse :: "lmsEnv \<Rightarrow> nat \<Rightarrow> string \<Rightarrow> CourseLesson list \<Rightarrow> store_error + CourseLesson list" where
  "CourseLessonStore_GetByCourse E n courseID =
     sql_sorted ''failed to get course lessons by course'' (lv_db E n 0) (\<lambda>r. cl_CourseID r = courseID) cl_SessionNumber"

definition BannerStore_GetAll :: "lmsEnv \<Rightarrow> nat \<Rightarrow> Banner list \<Rightarrow> store_error + Banner list" where
  "BannerStore_GetAll E n = sql_sorted ''failed to get banners'' (lv_db E n 0) (\<lambda>_. True) ba_Position"

definition PostCategoryStore_GetAll :: "lmsEnv \<Rightarrow> nat \<Rightarrow> PostCategory list \<Rightarrow> store_error + PostCategory list" where
  "PostCategoryStore_GetAll E n = sql_sorted ''failed to get all post categories'' (lv_db E n 0) (\<lambda>_. True) pc_Name"

text \<open>\<^verbatim>\<open>ORDER BY published_at DESC\<close> puts the rows without a publication time first.\<close>

definition BlogPostStore_GetPublished :: "lmsEnv \<Rightarrow> nat \<Rightarrow> BlogPost list \<Rightarrow> store_error + BlogPost list" where
  "BlogPostStore_GetPublished E n =
     sql_sorted ''failed to get published blog posts'' (lv_db E n 0) (\<lambda>r. bp_Status r = ''PUBLISHED'')
       (\<lambda>r. map_option uminus (bp_PublishedAt r))"

definition ClassMediaStore_GetByFileID :: "lmsEnv \<Rightarrow> nat \<Rightarrow> string \<Rightarrow> ClassMedium list \<Rightarrow> store_error + ClassMedium" where
  "ClassMediaStore_GetByFileID E n =
     ent_get ''ClassMedium'' ''failed to find class media by file id'' cm_FileID (lv_db E n 0)"

section \<open>Sessions and attendance\<close>

text \<open>
  At most 25 rows: the teacher's sessions that are not cancelled, overlap the interval and are not the excluded
  one, by start time.
\<close>

definition LMSSessionStore_FindTeacherConflicts ::
  "lmsEnv \<Rightarrow> nat \<Rightarrow> string \<Rightarrow> int \<Rightarrow> int \<Rightarrow> string \<Rightarrow> LMSSession list \<Rightarrow> store_error + LMSSession list" where
  "LMSSessionStore_FindTeacherConflicts E n teacherID startMs endMs excludeSessionID t =
     (if teacherID = '''' then Inr []
      else if lv_db E n 0 then Inl (ErrSql ''failed to find teacher session conflicts'')
      else Inr (take 25 (sort_key ls_StartTime (filter
             (\<lambda>r. ls_TeacherID r = teacherID \<and> ls_Status r \<noteq> ''CANCELLED'' \<and> ls_StartTime r < endMs
                \<and> ls_EndTime r > startMs \<and> (excludeSessionID \<noteq> '''' \<longrightarrow> ls_ID r \<noteq> excludeSessionID)) t))))"

text \<open>The parameter \<open>today\<close> is \<^verbatim>\<open>CURRENT_DATE\<close>; a session counts once for every enrolment it joins.\<close>

definition LMSSessionStore_CountUpcomingByStudent ::
  "lmsEnv \<Rightarrow> nat \<Rightarrow> vntime \<Rightarrow> string \<Rightarrow> StudentClass list \<Rightarrow> LMSSession list \<Rightarrow> store_error + int" where
  "LMSSessionStore_CountUpcomingByStudent E n today studentID scs t =
     sql_count ''failed to count upcoming sessions by student'' (lv_db E n 0)
       (\<lambda>(s, sc). ls_Status s = ''SCHEDULED'' \<and> ls_Date s \<ge> today \<and> sc_StudentID sc = studentID)
       (filter (\<lambda>(s, sc). sc_ClassID sc = ls_ClassID s) (List.product t scs))"

definition AttendanceStore_GetBySession :: "lmsEnv \<Rightarrow> nat \<Rightarrow> string \<Rightarrow> Attendance list \<Rightarrow> store_error + Attendance list" where
  "AttendanceStore_GetBySession E n sessionID =
     sql_all ''failed to get attendances by session'' (lv_db E n 0) (\<lambda>r. at_SessionID r = sessionID)"

definition AttendanceStore_GetBySessionAndStudent ::
  "lmsEnv \<Rightarrow> nat \<Rightarrow> string \<Rightarrow> string \<Rightarrow> Attendance list \<Rightarrow> store_error + Attendance option" where
  "AttendanceStore_GetBySessionAndStudent E n sessionID studentID =
     sql_maybe ''failed to get attendance by session and student'' (lv_db E n 0)
       (\<lambda>r. at_SessionID r = sessionID \<and> at_StudentID r = studentID)"

definition AttendanceStore_DeleteBySession ::
  "lmsEnv \<Rightarrow> nat \<Rightarrow> string \<Rightarrow> Attendance list \<Rightarrow> store_error option \<times> Attendance list" where
  "AttendanceStore_DeleteBySession E n sessionID =
     sql_deleteAll ''failed to delete attendances by session'' (lv_db E n 0) (\<lambda>r. at_SessionID r = sessionID)"

section \<open>Enrolments\<close>

definition StudentClassStore_GetByClass :: "lmsEnv \<Rightarrow> nat \<Rightarrow> string \<Rightarrow> StudentClass list \<Rightarrow> store_error + StudentClass list" where
  "StudentClassStore_GetByClass E n classID =
     sql_all ''failed to get student classes by class'' (lv_db E n 0) (\<lambda>r. sc_ClassID r = classID)"

definition StudentClassStore_GetByStudent :: "lmsEnv \<Rightarrow> nat \<Rightarrow> string \<Rightarrow> StudentClass list \<Rightarrow> store_error + StudentClass list" where
  "StudentClassStore_GetByStudent E n studentID =
     sql_all ''failed to get student classes by student'' (lv_db E n 0) (\<lambda>r. sc_StudentID r = studentID)"

definition StudentClassStore_GetExisting ::
  "lmsEnv \<Rightarrow> nat \<Rightarrow> string \<Rightarrow> string \<Rightarrow> StudentClass list \<Rightarrow> store_error + StudentClass option" where
  "StudentClassStore_GetExisting E n studentID classID =
     sql_maybe ''failed to get existing student class'' (lv_db E n 0)
       (\<lambda>r. sc_StudentID r = studentID \<and> sc_ClassID r = classID)"

definition StudentClassStore_DeleteByClass ::
  "lmsEnv \<Rightarrow> nat \<Rightarrow> string \<Rightarrow> StudentClass list \<Rightarrow> store_error option \<times> StudentClass list" where
  "StudentClassStore_DeleteByClass E n classID =
     sql_deleteAll ''failed to delete student classes by class'' (lv_db E n 0) (\<lambda>r. sc_ClassID r = classID)"

definition StudentClassStore_DeleteByStudent ::
  "lmsEnv \<Rightarrow> nat \<Rightarrow> string \<Rightarrow> StudentClass list \<Rightarrow> store_error option \<times> StudentClass list" where
  "StudentClassStore_DeleteByStudent E n studentID =
     sql_deleteAll ''failed to delete student classes by student'' (lv_db E n 0) (\<lambda>r. sc_StudentID r = studentID)"

definition StudentClassStore_CountByStudent ::
  "lmsEnv \<Rightarrow> nat \<Rightarrow> string \<Rightarrow> string \<Rightarrow> StudentClass list \<Rightarrow> store_error + int" where
  "StudentClassStore_CountByStudent E n studentID status =
     sql_count ''failed to count student classes'' (lv_db E n 0)
       (\<lambda>r. sc_StudentID r = studentID \<and> (status \<noteq> '''' \<longrightarrow> sc_Status r = status))"

section \<open>Homework, leads, notifications\<close>

definition SubmissionStore_GetByHomework :: "lmsEnv \<Rightarrow> nat \<Rightarrow> string \<Rightarrow> Submission list \<Rightarrow> store_error + Submission list" where
  "SubmissionStore_GetByHomework E n homeworkID =
     sql_sorted ''failed to get submissions by homework'' (lv_db E n 0) (\<lambda>r. su_HomeworkID r = homeworkID)
       (\<lambda>r. - su_Createat r)"

definition SubmissionStore_GetByHomeworkAndStudent ::
  "lmsEnv \<Rightarrow> nat \<Rightarrow> string \<Rightarrow> string \<Rightarrow> Submission list \<Rightarrow> store_error + Submission" where
  "SubmissionStore_GetByHomeworkAndStudent E n homeworkID studentID t =
     (if lv_db E n 0 then Inl (ErrSql ''failed to get submission by homework and student'')
      else case sql_one (\<lambda>r. su_HomeworkID r = homeworkID \<and> su_StudentID r = studentID) t of
             None \<Rightarrow> Inl (ErrNotFound ''Submission'' homeworkID)
           | Some r \<Rightarrow> Inr r)"

definition LeadActivityStore_GetByLead :: "lmsEnv \<Rightarrow> nat \<Rightarrow> string \<Rightarrow> LeadActivity list \<Rightarrow> store_error + LeadActivity list" where
  "LeadActivityStore_GetByLead E n leadID =
     sql_sorted ''failed to get lead activities by lead'' (lv_db E n 0) (\<lambda>r. la_LeadID r = leadID)
       (\<lambda>r. - la_Createat r)"

text \<open>Unread before read, then newest first.\<close>

definition NotificationStore_GetByUser :: "lmsEnv \<Rightarrow> nat \<Rightarrow> string \<Rightarrow> Notification list \<Rightarrow> store_error + Notification list" where
  "NotificationStore_GetByUser E n userID t =
     (if lv_db E n 0 then Inl (ErrSql ''failed to get notifications by user'')
      else Inr (sort_key no_IsRead (sort_key (\<lambda>r. - no_Createat r) (filter (\<lambda>r. no_UserID r = userID) t))))"

text \<open>\<^verbatim>\<open>errors.Wrap\<close> of a nil error is nil; the update writes the one column.\<close>

definition NotificationStore_MarkAsRead ::
  "lmsEnv \<Rightarrow> nat \<Rightarrow> string \<Rightarrow> Notification list \<Rightarrow> store_error option \<times> Notification list" where
  "NotificationStore_MarkAsRead E n i t =
     (if lv_db E n 0 then (Some (ErrSql ''failed to find notification''), t)
      else case sql_one (\<lambda>r. no_ID r = i) t of
             None \<Rightarrow> (Some (ErrNotFound ''Notification'' i), t)
           | Some _ \<Rightarrow>
               if lv_db E n 1 then (Some (ErrSql ''failed to mark notification as read''), t)
               else (None, snd (sql_update (\<lambda>r. no_ID r = i) (\<lambda>r. r\<lparr>no_IsRead := True\<rparr>) t)))"

section \<open>Finance\<close>

definition PaymentStore_GetByTuition :: "lmsEnv \<Rightarrow> nat \<Rightarrow> string \<Rightarrow> Payment list \<Rightarrow> store_error + Payment list" where
  "PaymentStore_GetByTuition E n tuitionID =
     sql_sorted ''failed to get payments by tuition'' (lv_db E n 0) (\<lambda>r. pa_TuitionID r = tuitionID)
       (\<lambda>r. - pa_PaymentDate r)"

definition FeeRefundStore_GetByTuition :: "lmsEnv \<Rightarrow> nat \<Rightarrow> string \<Rightarrow> FeeRefund list \<Rightarrow> store_error + FeeRefund list" where
  "FeeRefundStore_GetByTuition E n tuitionID =
     sql_sorted ''failed to get fee refunds by tuition'' (lv_db E n 0) (\<lambda>r. fr_TuitionID r = tuitionID)
       (\<lambda>r. - fr_RefundDate r)"

definition AdditionalFeeStore_GetByTuition :: "lmsEnv \<Rightarrow> nat \<Rightarrow> string \<Rightarrow> AdditionalFee list \<Rightarrow> store_error + AdditionalFee list" where
  "AdditionalFeeStore_GetByTuition E n tuitionID =
     sql_all ''failed to get additional fees by tuition'' (lv_db E n 0) (\<lambda>r. af_TuitionID r = tuitionID)"

definition AdditionalFeeStore_DeleteByTuition ::
  "lmsEnv \<Rightarrow> nat \<Rightarrow> string \<Rightarrow> AdditionalFee list \<Rightarrow> store_error option \<times> AdditionalFee list" where
  "AdditionalFeeStore_DeleteByTuition E n tuitionID =
     sql_deleteAll ''failed to delete additional fees by tuition'' (lv_db E n 0) (\<lambda>r. af_TuitionID r = tuitionID)"

end
