(* ===== verification/Lms_Catalog.thy ===== *)
theory Lms_Catalog
  imports Lms_Lookups
begin

text \<open>
  The application methods of \<^verbatim>\<open>channels/app/lms\<close> that keep a single table: branches, classes, courses and their
  lessons, leads, homework, posts and their categories, banners, materials, tasks, weekly reviews, class media and
  notifications, and the public pages. An operation takes the table and returns the one it leaves; \<open>n\<close> is the tick of its
  first statement. Rows of other tables that refer to a deleted row are removed by the database and are not part of
  these definitions; the counters sent to the metrics are left out.
\<close>

section \<open>Create, read, update, delete\<close>

definition GetBranch :: "lmsEnv \<Rightarrow> nat \<Rightarrow> string \<Rightarrow> Branch list \<Rightarrow> app_error + Branch" where
  "GetBranch E n i t =
     mapErr (storeErr ''app.lms.branch.not_found'' ''app.lms.branch.get.app_error'') (BranchStore_Get E n i t)"

definition CreateBranch :: "lmsEnv \<Rightarrow> nat \<Rightarrow> Branch \<Rightarrow> Branch list \<Rightarrow> (app_error + Branch) \<times> Branch list" where
  "CreateBranch E n r t =
     (let (x, t1) = BranchStore_Save E n r t
      in (mapErr (\<lambda>_. AppError ''app.lms.branch.create.app_error'' 500) x, t1))"

definition DeleteBranch :: "lmsEnv \<Rightarrow> nat \<Rightarrow> string \<Rightarrow> Branch list \<Rightarrow> app_error option \<times> Branch list" where
  "DeleteBranch E n i t =
     (let (x, t1) = BranchStore_Delete E n i t
      in (map_option (storeErr ''app.lms.branch.not_found'' ''app.lms.branch.delete.app_error'') x, t1))"

definition GetClass :: "lmsEnv \<Rightarrow> nat \<Rightarrow> string \<Rightarrow> Class list \<Rightarrow> app_error + Class" where
  "GetClass E n i t =
     mapErr (storeErr ''app.lms.class.not_found'' ''app.lms.class.get.app_error'') (ClassStore_Get E n i t)"

definition CreateClass :: "lmsEnv \<Rightarrow> nat \<Rightarrow> Class \<Rightarrow> Class list \<Rightarrow> (app_error + Class) \<times> Class list" where
  "CreateClass E n r t =
     (let (x, t1) = ClassStore_Save E n r t
      in (mapErr (\<lambda>_. AppError ''app.lms.class.create.app_error'' 500) x, t1))"

definition UpdateClass :: "lmsEnv \<Rightarrow> nat \<Rightarrow> string \<Rightarrow> Class \<Rightarrow> Class list \<Rightarrow> (app_error + Class) \<times> Class list" where
  "UpdateClass E n i r t =
     (let (x, t1) = ClassStore_Update E n (r\<lparr>kl_ID := i\<rparr>) t
      in (mapErr (storeErr ''app.lms.class.not_found'' ''app.lms.class.update.app_error'') x, t1))"

definition DeleteClass :: "lmsEnv \<Rightarrow> nat \<Rightarrow> string \<Rightarrow> Class list \<Rightarrow> app_error option \<times> Class list" where
  "DeleteClass E n i t =
     (let (x, t1) = ClassStore_Delete E n i t
      in (map_option (storeErr ''app.lms.class.not_found'' ''app.lms.class.delete.app_error'') x, t1))"

definition GetCourse :: "lmsEnv \<Rightarrow> nat \<Rightarrow> string \<Rightarrow> Course list \<Rightarrow> app_error + Course" where
  "GetCourse E n i t =
     mapErr (storeErr ''app.lms.course.not_found'' ''app.lms.course.get.app_error'') (CourseStore_Get E n i t)"

definition CreateCourse :: "lmsEnv \<Rightarrow> nat \<Rightarrow> Course \<Rightarrow> Course list \<Rightarrow> (app_error + Course) \<times> Course list" where
  "CreateCourse E n r t =
     (let (x, t1) = CourseStore_Save E n r t
      in (mapErr (\<lambda>_. AppError ''app.lms.course.create.app_error'' 500) x, t1))"

definition UpdateCourse :: "lmsEnv \<Rightarrow> nat \<Rightarrow> string \<Rightarrow> Course \<Rightarrow> Course list \<Rightarrow> (app_error + Course) \<times> Course list" where
  "UpdateCourse E n i r t =
     (let (x, t1) = CourseStore_Update E n (r\<lparr>co_ID := i\<rparr>) t
      in (mapErr (\<lambda>_. AppError ''app.lms.course.update.app_error'' 500) x, t1))"

definition DeleteCourse :: "lmsEnv \<Rightarrow> nat \<Rightarrow> string \<Rightarrow> Course list \<Rightarrow> app_error option \<times> Course list" where
  "DeleteCourse E n i t =
     (let (x, t1) = CourseStore_Delete E n i t
      in (map_option (storeErr ''app.lms.course.not_found'' ''app.lms.course.delete.app_error'') x, t1))"

definition GetCourseLesson :: "lmsEnv \<Rightarrow> nat \<Rightarrow> string \<Rightarrow> CourseLesson list \<Rightarrow> app_error + CourseLesson" where
  "GetCourseLesson E n i t =
     mapErr (storeErr ''app.lms.course_lesson.not_found'' ''app.lms.course_lesson.get.app_error'') (CourseLessonStore_Get E n i t)"

definition CreateCourseLesson :: "lmsEnv \<Rightarrow> nat \<Rightarrow> CourseLesson \<Rightarrow> CourseLesson list \<Rightarrow> (app_error + CourseLesson) \<times> CourseLesson list" where
  "CreateCourseLesson E n r t =
     (let (x, t1) = CourseLessonStore_Save E n r t
      in (mapErr (\<lambda>_. AppError ''app.lms.course_lesson.create.app_error'' 500) x, t1))"

definition UpdateCourseLesson :: "lmsEnv \<Rightarrow> nat \<Rightarrow> string \<Rightarrow> CourseLesson \<Rightarrow> CourseLesson list \<Rightarrow> (app_error + CourseLesson) \<times> CourseLesson list" where
  "UpdateCourseLesson E n i r t =
     (let (x, t1) = CourseLessonStore_Update E n (r\<lparr>cl_ID := i\<rparr>) t
      in (mapErr (storeErr ''app.lms.course_lesson.not_found'' ''app.lms.course_lesson.update.app_error'') x, t1))"

definition DeleteCourseLesson :: "lmsEnv \<Rightarrow> nat \<Rightarrow> string \<Rightarrow> CourseLesson list \<Rightarrow> app_error option \<times> CourseLesson list" where
  "DeleteCourseLesson E n i t =
     (let (x, t1) = CourseLessonStore_Delete E n i t
      in (map_option (storeErr ''app.lms.course_lesson.not_found'' ''app.lms.course_lesson.delete.app_error'') x, t1))"

definition GetLead :: "lmsEnv \<Rightarrow> nat \<Rightarrow> string \<Rightarrow> Lead list \<Rightarrow> app_error + Lead" where
  "GetLead E n i t =
     mapErr (storeErr ''app.lms.lead.not_found'' ''app.lms.lead.get.app_error'') (LeadStore_Get E n i t)"

definition CreateLead :: "lmsEnv \<Rightarrow> nat \<Rightarrow> Lead \<Rightarrow> Lead list \<Rightarrow> (app_error + Lead) \<times> Lead list" where
  "CreateLead E n r t =
     (let (x, t1) = LeadStore_Save E n r t
      in (mapErr (\<lambda>_. AppError ''app.lms.lead.create.app_error'' 500) x, t1))"

definition UpdateLead :: "lmsEnv \<Rightarrow> nat \<Rightarrow> string \<Rightarrow> Lead \<Rightarrow> Lead list \<Rightarrow> (app_error + Lead) \<times> Lead list" where
  "UpdateLead E n i r t =
     (let (x, t1) = LeadStore_Update E n (r\<lparr>ld_ID := i\<rparr>) t
      in (mapErr (storeErr ''app.lms.lead.not_found'' ''app.lms.lead.update.app_error'') x, t1))"

definition DeleteLead :: "lmsEnv \<Rightarrow> nat \<Rightarrow> string \<Rightarrow> Lead list \<Rightarrow> app_error option \<times> Lead list" where
  "DeleteLead E n i t =
     (let (x, t1) = LeadStore_Delete E n i t
      in (map_option (storeErr ''app.lms.lead.not_found'' ''app.lms.lead.delete.app_error'') x, t1))"

definition GetHomeworkByID :: "lmsEnv \<Rightarrow> nat \<Rightarrow> string \<Rightarrow> Homework list \<Rightarrow> app_error + Homework" where
  "GetHomeworkByID E n i t =
     mapErr (storeErr ''app.lms.homework.not_found'' ''app.lms.homework.get.app_error'') (HomeworkStore_Get E n i t)"

definition CreateHomework :: "lmsEnv \<Rightarrow> nat \<Rightarrow> Homework \<Rightarrow> Homework list \<Rightarrow> (app_error + Homework) \<times> Homework list" where
  "CreateHomework E n r t =
     (let (x, t1) = HomeworkStore_Save E n r t
      in (mapErr (\<lambda>_. AppError ''app.lms.homework.create.app_error'' 500) x, t1))"

definition UpdateHomework :: "lmsEnv \<Rightarrow> nat \<Rightarrow> string \<Rightarrow> Homework \<Rightarrow> Homework list \<Rightarrow> (app_error + Homework) \<times> Homework list" where
  "UpdateHomework E n i r t =
     (let (x, t1) = HomeworkStore_Update E n (r\<lparr>hw_ID := i\<rparr>) t
      in (mapErr (storeErr ''app.lms.homework.not_found'' ''app.lms.homework.update.app_error'') x, t1))"

definition DeleteHomework :: "lmsEnv \<Rightarrow> nat \<Rightarrow> string \<Rightarrow> Homework list \<Rightarrow> app_error option \<times> Homework list" where
  "DeleteHomework E n i t =
     (let (x, t1) = HomeworkStore_Delete E n i t
      in (map_option (storeErr ''app.lms.homework.not_found'' ''app.lms.homework.delete.app_error'') x, t1))"

definition CreatePostCategory :: "lmsEnv \<Rightarrow> nat \<Rightarrow> PostCategory \<Rightarrow> PostCategory list \<Rightarrow> (app_error + PostCategory) \<times> PostCategory list" where
  "CreatePostCategory E n r t =
     (let (x, t1) = PostCategoryStore_Save E n r t
      in (mapErr (\<lambda>_. AppError ''app.lms.post_category.create.app_error'' 500) x, t1))"

definition UpdatePostCategory :: "lmsEnv \<Rightarrow> nat \<Rightarrow> string \<Rightarrow> PostCategory \<Rightarrow> PostCategory list \<Rightarrow> (app_error + PostCategory) \<times> PostCategory list" where
  "UpdatePostCategory E n i r t =
     (let (x, t1) = PostCategoryStore_Update E n (r\<lparr>pc_ID := i\<rparr>) t
      in (mapErr (storeErr ''app.lms.post_category.not_found'' ''app.lms.post_category.update.app_error'') x, t1))"

definition DeletePostCategory :: "lmsEnv \<Rightarrow> nat \<Rightarrow> string \<Rightarrow> PostCategory list \<Rightarrow> app_error option \<times> PostCategory list" where
  "DeletePostCategory E n i t =
     (let (x, t1) = PostCategoryStore_Delete E n i t
      in (map_option (storeErr ''app.lms.post_category.not_found'' ''app.lms.post_category.delete.app_error'') x, t1))"

definition GetPost :: "lmsEnv \<Rightarrow> nat \<Rightarrow> string \<Rightarrow> BlogPost list \<Rightarrow> app_error + BlogPost" where
  "GetPost E n i t =
     mapErr (storeErr ''app.lms.blog_post.not_found'' ''app.lms.blog_post.get.app_error'') (BlogPostStore_Get E n i t)"

definition DeletePost :: "lmsEnv \<Rightarrow> nat \<Rightarrow> string \<Rightarrow> BlogPost list \<Rightarrow> app_error option \<times> BlogPost list" where
  "DeletePost E n i t =
     (let (x, t1) = BlogPostStore_Delete E n i t
      in (map_option (storeErr ''app.lms.blog_post.not_found'' ''app.lms.blog_post.delete.app_error'') x, t1))"

definition GetBanner :: "lmsEnv \<Rightarrow> nat \<Rightarrow> string \<Rightarrow> Banner list \<Rightarrow> app_error + Banner" where
  "GetBanner E n i t =
     mapErr (storeErr ''app.lms.banner.not_found.app_error'' ''app.lms.banner.get.app_error'') (BannerStore_Get E n i t)"

definition CreateBanner :: "lmsEnv \<Rightarrow> nat \<Rightarrow> Banner \<Rightarrow> Banner list \<Rightarrow> (app_error + Banner) \<times> Banner list" where
  "CreateBanner E n r t =
     (let (x, t1) = BannerStore_Save E n r t
      in (mapErr (\<lambda>_. AppError ''app.lms.banner.create.app_error'' 500) x, t1))"

definition UpdateBanner :: "lmsEnv \<Rightarrow> nat \<Rightarrow> string \<Rightarrow> Banner \<Rightarrow> Banner list \<Rightarrow> (app_error + Banner) \<times> Banner list" where
  "UpdateBanner E n i r t =
     (let (x, t1) = BannerStore_Update E n (r\<lparr>ba_ID := i\<rparr>) t
      in (mapErr (storeErr ''app.lms.banner.not_found.app_error'' ''app.lms.banner.update.app_error'') x, t1))"

definition DeleteBanner :: "lmsEnv \<Rightarrow> nat \<Rightarrow> string \<Rightarrow> Banner list \<Rightarrow> app_error option \<times> Banner list" where
  "DeleteBanner E n i t =
     (case BannerStore_Get E n i t of
        Inl e \<Rightarrow> (Some (storeErr ''app.lms.banner.not_found.app_error'' ''app.lms.banner.get.app_error'' e), t)
      | Inr _ \<Rightarrow>
          let (x, t1) = BannerStore_Delete E (n + 1) i t
          in (map_option (\<lambda>_. AppError ''app.lms.banner.delete.app_error'' 500) x, t1))"

definition GetMaterial :: "lmsEnv \<Rightarrow> nat \<Rightarrow> string \<Rightarrow> Material list \<Rightarrow> app_error + Material" where
  "GetMaterial E n i t =
     mapErr (storeErr ''app.lms.material.not_found.app_error'' ''app.lms.material.get.app_error'') (MaterialStore_Get E n i t)"

definition CreateMaterial :: "lmsEnv \<Rightarrow> nat \<Rightarrow> Material \<Rightarrow> Material list \<Rightarrow> (app_error + Material) \<times> Material list" where
  "CreateMaterial E n r t =
     (let (x, t1) = MaterialStore_Save E n r t
      in (mapErr (\<lambda>_. AppError ''app.lms.material.create.app_error'' 500) x, t1))"

definition UpdateMaterial :: "lmsEnv \<Rightarrow> nat \<Rightarrow> string \<Rightarrow> Material \<Rightarrow> Material list \<Rightarrow> (app_error + Material) \<times> Material list" where
  "UpdateMaterial E n i r t =
     (let (x, t1) = MaterialStore_Update E n (r\<lparr>ma_ID := i\<rparr>) t
      in (mapErr (storeErr ''app.lms.material.not_found.app_error'' ''app.lms.material.update.app_error'') x, t1))"

definition DeleteMaterial :: "lmsEnv \<Rightarrow> nat \<Rightarrow> string \<Rightarrow> Material list \<Rightarrow> app_error option \<times> Material list" where
  "DeleteMaterial E n i t =
     (case MaterialStore_Get E n i t of
        Inl e \<Rightarrow> (Some (storeErr ''app.lms.material.not_found.app_error'' ''app.lms.material.get.app_error'' e), t)
      | Inr _ \<Rightarrow>
          let (x, t1) = MaterialStore_Delete E (n + 1) i t
          in (map_option (\<lambda>_. AppError ''app.lms.material.delete.app_error'' 500) x, t1))"

definition GetTask :: "lmsEnv \<Rightarrow> nat \<Rightarrow> string \<Rightarrow> Task list \<Rightarrow> app_error + Task" where
  "GetTask E n i t =
     mapErr (storeErr ''app.lms.task.not_found.app_error'' ''app.lms.task.get.app_error'') (TaskStore_Get E n i t)"

definition CreateTask :: "lmsEnv \<Rightarrow> nat \<Rightarrow> Task \<Rightarrow> Task list \<Rightarrow> (app_error + Task) \<times> Task list" where
  "CreateTask E n r t =
     (let (x, t1) = TaskStore_Save E n r t
      in (mapErr (\<lambda>_. AppError ''app.lms.task.create.app_error'' 500) x, t1))"

definition UpdateTask :: "lmsEnv \<Rightarrow> nat \<Rightarrow> string \<Rightarrow> Task \<Rightarrow> Task list \<Rightarrow> (app_error + Task) \<times> Task list" where
  "UpdateTask E n i r t =
     (let (x, t1) = TaskStore_Update E n (r\<lparr>ta_ID := i\<rparr>) t
      in (mapErr (storeErr ''app.lms.task.not_found.app_error'' ''app.lms.task.update.app_error'') x, t1))"

definition DeleteTask :: "lmsEnv \<Rightarrow> nat \<Rightarrow> string \<Rightarrow> Task list \<Rightarrow> app_error option \<times> Task list" where
  "DeleteTask E n i t =
     (case TaskStore_Get E n i t of
        Inl e \<Rightarrow> (Some (storeErr ''app.lms.task.not_found.app_error'' ''app.lms.task.get.app_error'' e), t)
      | Inr _ \<Rightarrow>
          let (x, t1) = TaskStore_Delete E (n + 1) i t
          in (map_option (\<lambda>_. AppError ''app.lms.task.delete.app_error'' 500) x, t1))"

definition GetWeeklyReview :: "lmsEnv \<Rightarrow> nat \<Rightarrow> string \<Rightarrow> WeeklyReview list \<Rightarrow> app_error + WeeklyReview" where
  "GetWeeklyReview E n i t =
     mapErr (storeErr ''app.lms.weekly_review.not_found.app_error'' ''app.lms.weekly_review.get.app_error'') (WeeklyReviewStore_Get E n i t)"

definition CreateWeeklyReview :: "lmsEnv \<Rightarrow> nat \<Rightarrow> WeeklyReview \<Rightarrow> WeeklyReview list \<Rightarrow> (app_error + WeeklyReview) \<times> WeeklyReview list" where
  "CreateWeeklyReview E n r t =
     (let (x, t1) = WeeklyReviewStore_Save E n r t
      in (mapErr (\<lambda>_. AppError ''app.lms.weekly_review.create.app_error'' 500) x, t1))"

definition UpdateWeeklyReview :: "lmsEnv \<Rightarrow> nat \<Rightarrow> string \<Rightarrow> WeeklyReview \<Rightarrow> WeeklyReview list \<Rightarrow> (app_error + WeeklyReview) \<times> WeeklyReview list" where
  "UpdateWeeklyReview E n i r t =
     (let (x, t1) = WeeklyReviewStore_Update E n (r\<lparr>wr_ID := i\<rparr>) t
      in (mapErr (storeErr ''app.lms.weekly_review.not_found.app_error'' ''app.lms.weekly_review.update.app_error'') x, t1))"

definition DeleteWeeklyReview :: "lmsEnv \<Rightarrow> nat \<Rightarrow> string \<Rightarrow> WeeklyReview list \<Rightarrow> app_error option \<times> WeeklyReview list" where
  "DeleteWeeklyReview E n i t =
     (case WeeklyReviewStore_Get E n i t of
        Inl e \<Rightarrow> (Some (storeErr ''app.lms.weekly_review.not_found.app_error'' ''app.lms.weekly_review.get.app_error'' e), t)
      | Inr _ \<Rightarrow>
          let (x, t1) = WeeklyReviewStore_Delete E (n + 1) i t
          in (map_option (\<lambda>_. AppError ''app.lms.weekly_review.delete.app_error'' 500) x, t1))"

definition DeleteClassMedia :: "lmsEnv \<Rightarrow> nat \<Rightarrow> string \<Rightarrow> ClassMedium list \<Rightarrow> app_error option \<times> ClassMedium list" where
  "DeleteClassMedia E n i t =
     (case ClassMediumStore_Get E n i t of
        Inl e \<Rightarrow> (Some (storeErr ''app.lms.class_media.not_found.app_error'' ''app.lms.class_media.get.app_error'' e), t)
      | Inr _ \<Rightarrow>
          let (x, t1) = ClassMediumStore_Delete E (n + 1) i t
          in (map_option (\<lambda>_. AppError ''app.lms.class_media.delete.app_error'' 500) x, t1))"

section \<open>Courses with their lessons\<close>

record CourseWithLessons =
  cw_Course :: Course
  cw_Lessons :: "CourseLesson list"

definition GetCourseWithLessons :: "lmsEnv \<Rightarrow> nat \<Rightarrow> string \<Rightarrow> Course list \<Rightarrow> CourseLesson list \<Rightarrow> app_error + CourseWithLessons" where
  "GetCourseWithLessons E n i courses lessons =
     (case GetCourse E n i courses of
        Inl e \<Rightarrow> Inl e
      | Inr c \<Rightarrow>
          (case CourseLessonStore_GetByCourse E (n + 1) i lessons of
             Inl _ \<Rightarrow> Inl (AppError ''app.lms.course.get_lessons.app_error'' 500)
           | Inr ls \<Rightarrow> Inr \<lparr>cw_Course = c, cw_Lessons = ls\<rparr>))"

definition GetCourses :: "lmsEnv \<Rightarrow> nat \<Rightarrow> Course list \<Rightarrow> app_error + Course list" where
  "GetCourses E n t = mapErr (\<lambda>_. AppError ''app.lms.course.get_all.app_error'' 500) (CourseStore_GetAll E n t)"

section \<open>Posts\<close>

definition GetPostCategories :: "lmsEnv \<Rightarrow> nat \<Rightarrow> PostCategory list \<Rightarrow> app_error + PostCategory list" where
  "GetPostCategories E n t =
     mapErr (\<lambda>_. AppError ''app.lms.post_category.get_all.app_error'' 500) (PostCategoryStore_GetAll E n t)"

text \<open>The publication time is a reading of the clock of its own, before those of the save.\<close>

definition CreatePost :: "lmsEnv \<Rightarrow> nat \<Rightarrow> BlogPost \<Rightarrow> BlogPost list \<Rightarrow> (app_error + BlogPost) \<times> BlogPost list" where
  "CreatePost E n p t =
     (let p1 = (if bp_Status p = ''PUBLISHED'' then p\<lparr>bp_PublishedAt := Some (lv_now E n 0)\<rparr> else p);
          (x, t1) = BlogPostStore_Save E (n + 1) p1 t
      in (mapErr (\<lambda>_. AppError ''app.lms.blog_post.create.app_error'' 500) x, t1))"

definition UpdatePost :: "lmsEnv \<Rightarrow> nat \<Rightarrow> string \<Rightarrow> BlogPost \<Rightarrow> BlogPost list \<Rightarrow> (app_error + BlogPost) \<times> BlogPost list" where
  "UpdatePost E n i p0 t =
     (let p = p0\<lparr>bp_ID := i\<rparr>;
          p1 = (if bp_Status p = ''PUBLISHED'' \<and> bp_PublishedAt p = None
                then p\<lparr>bp_PublishedAt := Some (lv_now E n 0)\<rparr> else p);
          (x, t1) = BlogPostStore_Update E (n + 1) p1 t
      in (mapErr (storeErr ''app.lms.blog_post.not_found'' ''app.lms.blog_post.update.app_error'') x, t1))"

section \<open>Banners, class media, notifications\<close>

definition GetBanners :: "lmsEnv \<Rightarrow> nat \<Rightarrow> Banner list \<Rightarrow> app_error + Banner list" where
  "GetBanners E n t = mapErr (\<lambda>_. AppError ''app.lms.banner.get_all.app_error'' 500) (BannerStore_GetAll E n t)"

definition GetClassMediaByFileID :: "lmsEnv \<Rightarrow> nat \<Rightarrow> string \<Rightarrow> ClassMedium list \<Rightarrow> app_error + ClassMedium" where
  "GetClassMediaByFileID E n i t =
     mapErr (storeErr ''app.lms.class_media.not_found.app_error'' ''app.lms.class_media.get_by_file_id.app_error'')
       (ClassMediaStore_GetByFileID E n i t)"

definition MediaFileURL :: "string \<Rightarrow> string" where
  "MediaFileURL fileID = ''/api/v4/lms/media/'' @ fileID"

definition CreateClassMedia :: "lmsEnv \<Rightarrow> nat \<Rightarrow> ClassMedium \<Rightarrow> ClassMedium list \<Rightarrow> (app_error + ClassMedium) \<times> ClassMedium list" where
  "CreateClassMedia E n cm t =
     (let cm1 = (if cm_FileID cm \<noteq> [] \<and> IsValidId (lv_letter E) (cm_FileID cm)
                 then cm\<lparr>cm_FileURL := MediaFileURL (cm_FileID cm)\<rparr> else cm);
          (x, t1) = ClassMediumStore_Save E n cm1 t
      in (mapErr (\<lambda>_. AppError ''app.lms.class_media.create.app_error'' 500) x, t1))"

definition GetNotifications :: "lmsEnv \<Rightarrow> nat \<Rightarrow> string \<Rightarrow> Notification list \<Rightarrow> app_error + Notification list \<times> int" where
  "GetNotifications E n userID t =
     (case NotificationStore_GetByUser E n userID t of
        Inl _ \<Rightarrow> Inl (AppError ''app.lms.notification.get_by_user.app_error'' 500)
      | Inr l \<Rightarrow> Inr (l, fold (\<lambda>x c. if \<not> no_IsRead x then c + 1 else c) l 0))"

definition MarkNotificationAsRead :: "lmsEnv \<Rightarrow> nat \<Rightarrow> string \<Rightarrow> Notification list \<Rightarrow> app_error option \<times> Notification list" where
  "MarkNotificationAsRead E n i t =
     (let (x, t1) = NotificationStore_MarkAsRead E n i t
      in (map_option (\<lambda>_. AppError ''app.lms.notification.mark_as_read.app_error'' 500) x, t1))"

section \<open>Leads and the public pages\<close>

definition GetLeadActivities :: "lmsEnv \<Rightarrow> nat \<Rightarrow> string \<Rightarrow> LeadActivity list \<Rightarrow> app_error + LeadActivity list" where
  "GetLeadActivities E n i t =
     mapErr (\<lambda>_. AppError ''app.lms.lead_activity.get_by_lead.app_error'' 500) (LeadActivityStore_GetByLead E n i t)"

definition CreateLeadActivity ::
  "lmsEnv \<Rightarrow> nat \<Rightarrow> string \<Rightarrow> LeadActivity \<Rightarrow> LeadActivity list \<Rightarrow> (app_error + LeadActivity) \<times> LeadActivity list" where
  "CreateLeadActivity E n leadID a t =
     (let (x, t1) = LeadActivityStore_Save E n (a\<lparr>la_LeadID := leadID\<rparr>) t
      in (mapErr (\<lambda>_. AppError ''app.lms.lead_activity.create.app_error'' 500) x, t1))"

definition GetPublicCourses :: "lmsEnv \<Rightarrow> nat \<Rightarrow> Course list \<Rightarrow> app_error + Course list" where
  "GetPublicCourses E n t = mapErr (\<lambda>_. AppError ''app.lms.public.get_courses.app_error'' 500) (CourseStore_GetAll E n t)"

definition GetPublicPosts :: "lmsEnv \<Rightarrow> nat \<Rightarrow> BlogPost list \<Rightarrow> app_error + BlogPost list" where
  "GetPublicPosts E n t = mapErr (\<lambda>_. AppError ''app.lms.public.get_posts.app_error'' 500) (BlogPostStore_GetPublished E n t)"

definition PublicRegister :: "lmsEnv \<Rightarrow> nat \<Rightarrow> Lead \<Rightarrow> Lead list \<Rightarrow> (app_error + Lead) \<times> Lead list" where
  "PublicRegister E n l t =
     (let (x, t1) = LeadStore_Save E n (l\<lparr>ld_Status := ''NEW''\<rparr>) t
      in (mapErr (\<lambda>_. AppError ''app.lms.public.register.app_error'' 500) x, t1))"

definition SubmitContact ::
  "lmsEnv \<Rightarrow> nat \<Rightarrow> string \<Rightarrow> string \<Rightarrow> string \<Rightarrow> string \<Rightarrow> Lead list \<Rightarrow> (app_error + Lead) \<times> Lead list" where
  "SubmitContact E n name email phone message t =
     (let (x, t1) = LeadStore_Save E n
            \<lparr>ld_ID = [], ld_Name = name, ld_Email = Some email, ld_Phone = Some phone, ld_Age = None, ld_School = None,
             ld_Source = Some ''WEBSITE'', ld_Need = None, ld_Status = ''NEW'', ld_StudentID = None, ld_Notes = Some message,
             ld_TestDate = zeroTime, ld_TestResult = None, ld_TestScore = None, ld_CounselorID = None,
             ld_Createat = 0, ld_Updateat = 0\<rparr> t
      in (mapErr (\<lambda>_. AppError ''app.lms.public.contact.app_error'' 500) x, t1))"

end
