(* ===== verification/Lms_Classes.thy ===== *)
theory Lms_Classes
  imports Lms_Catalog
begin

text \<open>
  Enrolment, attendance and homework: the operations of \<^verbatim>\<open>class.go\<close>, \<^verbatim>\<open>attendance.go\<close> and \<^verbatim>\<open>homework.go\<close> of
  \<^verbatim>\<open>channels/app/lms\<close> that run several statements. Statement \<open>k\<close> of an operation that starts at tick \<open>n\<close> has the
  tick \<open>n + k\<close>; the two statements for the \<open>i\<close>-th student of an enrolment are \<open>n + 2 * i\<close> and \<open>n + 2 * i + 1\<close>.
\<close>

section \<open>Enrolment\<close>

text \<open>A row as the code builds it, all other fields zero.\<close>

definition newEnrolment :: "string \<Rightarrow> string \<Rightarrow> string \<Rightarrow> StudentClass" where
  "newEnrolment classID studentID status =
     \<lparr>sc_ID = [], sc_StudentID = studentID, sc_ClassID = classID, sc_EnrollmentAt = 0, sc_Status = status,
      sc_Createat = 0, sc_Updateat = 0\<rparr>"

text \<open>A lookup that fails is treated like a missing row.\<close>

definition EnrollStudent ::
  "lmsEnv \<Rightarrow> nat \<Rightarrow> string \<Rightarrow> string \<Rightarrow> StudentClass list \<Rightarrow> (app_error + StudentClass) \<times> StudentClass list" where
  "EnrollStudent E n classID studentID t =
     (case StudentClassStore_GetExisting E n studentID classID t of
        Inr (Some _) \<Rightarrow> (Inl (AppError ''app.lms.class.already_enrolled'' 409), t)
      | _ \<Rightarrow>
          let (x, t1) = StudentClassStore_Save E (n + 1) (newEnrolment classID studentID ''active'') t
          in (mapErr (\<lambda>_. AppError ''app.lms.class.enroll.app_error'' 500) x, t1))"

definition GetClassStudents :: "lmsEnv \<Rightarrow> nat \<Rightarrow> string \<Rightarrow> StudentClass list \<Rightarrow> app_error + StudentClass list" where
  "GetClassStudents E n classID t =
     mapErr (\<lambda>_. AppError ''app.lms.class.get_students.app_error'' 500) (StudentClassStore_GetByClass E n classID t)"

fun EnrollStudents ::
  "lmsEnv \<Rightarrow> nat \<Rightarrow> string \<Rightarrow> string list \<Rightarrow> StudentClass list \<Rightarrow> (app_error + StudentClass list) \<times> StudentClass list" where
  "EnrollStudents E n classID [] t = (Inr [], t)"
| "EnrollStudents E n classID (studentID # ids) t =
     (case StudentClassStore_GetExisting E n studentID classID t of
        Inr (Some _) \<Rightarrow> EnrollStudents E (n + 2) classID ids t
      | _ \<Rightarrow>
          (case StudentClassStore_Save E (n + 1) (newEnrolment classID studentID []) t of
             (Inl _, t1) \<Rightarrow> (Inl (AppError ''app.lms.class.enroll.app_error'' 500), t1)
           | (Inr saved, t1) \<Rightarrow>
               (case EnrollStudents E (n + 2) classID ids t1 of
                  (Inl e, t2) \<Rightarrow> (Inl e, t2)
                | (Inr l, t2) \<Rightarrow> (Inr (saved # l), t2))))"

definition UnenrollStudent ::
  "lmsEnv \<Rightarrow> nat \<Rightarrow> string \<Rightarrow> string \<Rightarrow> StudentClass list \<Rightarrow> (app_error + StudentClass) \<times> StudentClass list" where
  "UnenrollStudent E n classID studentID t =
     (case StudentClassStore_GetExisting E n studentID classID t of
        Inr None \<Rightarrow> (Inl (AppError ''app.lms.class.not_enrolled'' 404), t)
      | Inl _ \<Rightarrow> (Inl (AppError ''app.lms.class.unenroll.app_error'' 500), t)
      | Inr (Some existing) \<Rightarrow>
          (case StudentClassStore_Delete E (n + 1) (sc_ID existing) t of
             (Some _, t1) \<Rightarrow> (Inl (AppError ''app.lms.class.unenroll.app_error'' 500), t1)
           | (None, t1) \<Rightarrow> (Inr existing, t1)))"

section \<open>Attendance\<close>

definition GetAttendance :: "lmsEnv \<Rightarrow> nat \<Rightarrow> string \<Rightarrow> Attendance list \<Rightarrow> app_error + Attendance list" where
  "GetAttendance E n sessionID t =
     mapErr (\<lambda>_. AppError ''app.lms.attendance.get_by_session.app_error'' 500) (AttendanceStore_GetBySession E n sessionID t)"

fun saveRecords ::
  "lmsEnv \<Rightarrow> nat \<Rightarrow> string \<Rightarrow> Attendance list \<Rightarrow> Attendance list \<Rightarrow> (app_error + Attendance list) \<times> Attendance list" where
  "saveRecords E n sessionID [] t = (Inr [], t)"
| "saveRecords E n sessionID (r # rs) t =
     (case AttendanceStore_Save E n (r\<lparr>at_SessionID := sessionID\<rparr>) t of
        (Inl _, t1) \<Rightarrow> (Inl (AppError ''app.lms.attendance.save.app_error'' 500), t1)
      | (Inr saved, t1) \<Rightarrow>
          (case saveRecords E (n + 1) sessionID rs t1 of
             (Inl e, t2) \<Rightarrow> (Inl e, t2)
           | (Inr l, t2) \<Rightarrow> (Inr (saved # l), t2)))"

definition SaveAttendance ::
  "lmsEnv \<Rightarrow> nat \<Rightarrow> string \<Rightarrow> Attendance list \<Rightarrow> Attendance list \<Rightarrow> (app_error + Attendance list) \<times> Attendance list" where
  "SaveAttendance E n sessionID records t =
     (case AttendanceStore_DeleteBySession E n sessionID t of
        (Some _, t1) \<Rightarrow> (Inl (AppError ''app.lms.attendance.delete_existing.app_error'' 500), t1)
      | (None, t1) \<Rightarrow> saveRecords E (n + 1) sessionID records t1)"

section \<open>Homework\<close>

definition GetHomeworkSubmissions :: "lmsEnv \<Rightarrow> nat \<Rightarrow> string \<Rightarrow> Submission list \<Rightarrow> app_error + Submission list" where
  "GetHomeworkSubmissions E n homeworkID t =
     mapErr (\<lambda>_. AppError ''app.lms.homework.get_submissions.app_error'' 500) (SubmissionStore_GetByHomework E n homeworkID t)"

definition GetHomeworkByIDWithSubmissions ::
  "lmsEnv \<Rightarrow> nat \<Rightarrow> string \<Rightarrow> Homework list \<Rightarrow> Submission list \<Rightarrow> app_error + Homework \<times> Submission list" where
  "GetHomeworkByIDWithSubmissions E n i hws subs =
     (case GetHomeworkByID E n i hws of
        Inl e \<Rightarrow> Inl e
      | Inr hw \<Rightarrow>
          (case SubmissionStore_GetByHomework E (n + 1) i subs of
             Inl _ \<Rightarrow> Inl (AppError ''app.lms.homework.get_submissions.app_error'' 500)
           | Inr l \<Rightarrow> Inr (hw, l)))"

text \<open>The loop counts the students and does not look at them.\<close>

fun bulkAssign :: "lmsEnv \<Rightarrow> nat \<Rightarrow> Homework \<Rightarrow> string list \<Rightarrow> int \<Rightarrow> Homework list \<Rightarrow> (int \<times> app_error option) \<times> Homework list" where
  "bulkAssign E n hw [] made t = ((made, None), t)"
| "bulkAssign E n hw (_ # ids) made t =
     (case HomeworkStore_Save E n
             (hw\<lparr>hw_ID := [], hw_Createat := 0, hw_Updateat := 0\<rparr>) t of
        (Inl _, t1) \<Rightarrow> ((made, Some (AppError ''app.lms.homework.create.app_error'' 500)), t1)
      | (Inr _, t1) \<Rightarrow> bulkAssign E (n + 1) hw ids (made + 1) t1)"

definition BulkAssignHomework ::
  "lmsEnv \<Rightarrow> nat \<Rightarrow> Homework \<Rightarrow> string list \<Rightarrow> Homework list \<Rightarrow> (int \<times> app_error option) \<times> Homework list" where
  "BulkAssignHomework E n hw studentIDs t = bulkAssign E n hw studentIDs 0 t"

definition UpsertHomeworkSubmission ::
  "lmsEnv \<Rightarrow> nat \<Rightarrow> string \<Rightarrow> string \<Rightarrow> Submission \<Rightarrow> Submission list \<Rightarrow> (app_error + Submission) \<times> Submission list" where
  "UpsertHomeworkSubmission E n homeworkID studentID sub0 t =
     (let sub = sub0\<lparr>su_HomeworkID := homeworkID, su_StudentID := studentID\<rparr> in
      case SubmissionStore_GetByHomeworkAndStudent E n homeworkID studentID t of
        Inr existing \<Rightarrow>
          let (x, t1) = SubmissionStore_Update E (n + 1) (sub\<lparr>su_ID := su_ID existing\<rparr>) t
          in (mapErr (\<lambda>_. AppError ''app.lms.homework.update_submission.app_error'' 500) x, t1)
      | Inl _ \<Rightarrow>
          let (x, t1) = SubmissionStore_Save E (n + 1) sub t
          in (mapErr (\<lambda>_. AppError ''app.lms.homework.create_submission.app_error'' 500) x, t1))"

section \<open>Who is enrolled\<close>

definition students :: "string \<Rightarrow> StudentClass list \<Rightarrow> string set" where
  "students c t = sc_StudentID ` {r \<in> set t. sc_ClassID r = c}"

text \<open>Ids are unique and nobody is enrolled twice in a class.\<close>

definition enrolments_ok :: "StudentClass list \<Rightarrow> bool" where
  "enrolments_ok t \<longleftrightarrow> distinct (map sc_ID t) \<and> distinct (map (\<lambda>r. (sc_StudentID r, sc_ClassID r)) t)"

lemma GetExisting_cases:
  assumes "\<not> lv_db E n 0"
  obtains (found) r where "StudentClassStore_GetExisting E n s c t = Inr (Some r)" "r \<in> set t" "sc_StudentID r = s" "sc_ClassID r = c"
  | (missing) "StudentClassStore_GetExisting E n s c t = Inr None" "s \<notin> students c t"
proof (cases "find (\<lambda>r. sc_StudentID r = s \<and> sc_ClassID r = c) t")
  case None
  then have "s \<notin> students c t" by (auto simp: students_def find_None_iff)
  then show ?thesis
    using None assms missing by (simp add: StudentClassStore_GetExisting_def sql_maybe_def sql_one_def)
next
  case (Some r)
  then have "r \<in> set t" "sc_StudentID r = s" "sc_ClassID r = c" by (auto simp: find_Some_iff)
  then show ?thesis
    using Some assms found by (simp add: StudentClassStore_GetExisting_def sql_maybe_def sql_one_def)
qed

lemma students_snoc [simp]: "students c (t @ [r]) = (if sc_ClassID r = c then insert (sc_StudentID r) (students c t) else students c t)"
  by (auto simp: students_def)

lemma enrolments_snoc:
  "enrolments_ok (t @ [r]) \<longleftrightarrow> enrolments_ok t \<and> sc_ID r \<notin> set (map sc_ID t) \<and> sc_StudentID r \<notin> students (sc_ClassID r) t"
  by (auto simp: enrolments_ok_def students_def image_iff) 

lemma saved_enrolment [simp]:
  "sc_StudentID (StudentClassPreCreate E n (newEnrolment c s st)) = s"
  "sc_ClassID (StudentClassPreCreate E n (newEnrolment c s st)) = c"
  by (simp_all add: StudentClassPreCreate_def newEnrolment_def)

text \<open>One insertion of a student who is not in the class yet.\<close>

lemma save_enrolment:
  assumes "enrolments_ok t" "s \<notin> students c t" "StudentClassStore_Save E n (newEnrolment c s st) t = (x, t1)"
  shows "enrolments_ok t1" "\<And>r. x = Inr r \<Longrightarrow> t1 = t @ [r] \<and> sc_StudentID r = s \<and> sc_ClassID r = c" "\<And>e. x = Inl e \<Longrightarrow> t1 = t"
  using assms
  by (cases rule: studentClass_store.save_cases[of E n "newEnrolment c s st" t]; auto simp: enrolments_snoc)+

lemma reads_Cons:
  assumes "\<forall>i < Suc k. \<not> lv_db E (n + 2 * i) 0"
  shows "\<not> lv_db E n 0" "\<forall>i < k. \<not> lv_db E (n + 2 + 2 * i) 0"
proof -
  show "\<not> lv_db E n 0" using assms[rule_format, of 0] by simp
  show "\<forall>i < k. \<not> lv_db E (n + 2 + 2 * i) 0"
  proof (intro allI impI)
    fix i assume "i < k"
    then show "\<not> lv_db E (n + 2 + 2 * i) 0" using assms[rule_format, of "Suc i"] by simp
  qed
qed

lemma EnrollStudents_ok:
  assumes "enrolments_ok t" "\<forall>i < length ids. \<not> lv_db E (n + 2 * i) 0"
  shows "enrolments_ok (snd (EnrollStudents E n c ids t))"
  using assms
proof (induction ids arbitrary: n t)
  case (Cons s ids)
  have reads: "\<not> lv_db E n 0" "\<forall>i < length ids. \<not> lv_db E (n + 2 + 2 * i) 0"
    using reads_Cons[OF Cons.prems(2)[unfolded list.size add_Suc_right add_0_right]] by blast+
  show ?case
  proof (cases rule: GetExisting_cases[OF reads(1), of s c t])
    case (1 r)
    then show ?thesis using Cons.IH[OF Cons.prems(1) reads(2)] by simp
  next
    case 2
    obtain x t1 where x: "StudentClassStore_Save E (n + 1) (newEnrolment c s []) t = (x, t1)" by (meson surj_pair)
    note sv = save_enrolment[OF Cons.prems(1) 2(2) x]
    show ?thesis using 2(1) x sv(1) Cons.IH[OF sv(1) reads(2)] by (auto split: sum.splits prod.splits)
  qed
qed simp

lemma EnrollStudents_exact:
  assumes "enrolments_ok t" "\<forall>i < length ids. \<not> lv_db E (n + 2 * i) 0" "EnrollStudents E n c ids t = (Inr l, t1)"
  shows "t1 = t @ l \<and> sc_StudentID ` set l = set ids - students c t \<and> (\<forall>r \<in> set l. sc_ClassID r = c)"
  using assms
proof (induction ids arbitrary: n t l)
  case (Cons s ids)
  have reads: "\<not> lv_db E n 0" "\<forall>i < length ids. \<not> lv_db E (n + 2 + 2 * i) 0"
    using reads_Cons[OF Cons.prems(2)[unfolded list.size add_Suc_right add_0_right]] by blast+
  show ?case
  proof (cases rule: GetExisting_cases[OF reads(1), of s c t])
    case (1 r)
    then have "s \<in> students c t" by (auto simp: students_def)
    then show ?thesis using Cons.IH[OF Cons.prems(1) reads(2)] Cons.prems(3) 1(1) by auto
  next
    case 2
    obtain x t' where x: "StudentClassStore_Save E (n + 1) (newEnrolment c s []) t = (x, t')" by (meson surj_pair)
    note sv = save_enrolment[OF Cons.prems(1) 2(2) x]
    obtain r l' where r: "x = Inr r" "EnrollStudents E (n + 2) c ids t' = (Inr l', t1)" "l = r # l'"
      using Cons.prems(3) 2(1) x by (auto split: sum.splits prod.splits)
    show ?thesis
      using Cons.IH[OF sv(1) reads(2) r(2)] sv(2)[OF r(1)] r(3) 2(2) by auto
  qed
qed simp


lemma EnrollStudent_ok:
  assumes "enrolments_ok t" "\<not> lv_db E n 0"
  shows "enrolments_ok (snd (EnrollStudent E n c s t))"
proof (cases rule: GetExisting_cases[OF assms(2), of s c t])
  case (1 r)
  then show ?thesis using assms(1) by (simp add: EnrollStudent_def)
next
  case 2
  then show ?thesis
    using save_enrolment(1)[OF assms(1) 2(2) prod.collapse[symmetric], of E "n + 1" "''active''"]
    by (simp add: EnrollStudent_def case_prod_beta)
qed

lemma enrolments_filter: "enrolments_ok t \<Longrightarrow> enrolments_ok (filter p t)"
  by (simp add: enrolments_ok_def distinct_map_filter)

lemma StudentClassStore_Delete_table:
  "snd (StudentClassStore_Delete E n i t) = t \<or> snd (StudentClassStore_Delete E n i t) = filter (\<lambda>r. sc_ID r \<noteq> i) t"
  by (simp add: StudentClassStore_Delete_def ent_delete_def sql_delete_def split: option.split)

lemma UnenrollStudent_ok: "enrolments_ok t \<Longrightarrow> enrolments_ok (snd (UnenrollStudent E n c s t))"
  using StudentClassStore_Delete_table[of E "n + 1"]
  by (auto simp: UnenrollStudent_def split: sum.splits option.splits prod.splits dest: enrolments_filter)
    (metis enrolments_filter snd_conv)+

text \<open>Enrolments change by these operations; the lookups they start with are answered.\<close>

inductive enrol_step :: "lmsEnv \<Rightarrow> StudentClass list \<Rightarrow> StudentClass list \<Rightarrow> bool" for E where
  one: "\<not> lv_db E n 0 \<Longrightarrow> enrol_step E t (snd (EnrollStudent E n c s t))"
| many: "\<forall>i < length ids. \<not> lv_db E (n + 2 * i) 0 \<Longrightarrow> enrol_step E t (snd (EnrollStudents E n c ids t))"
| leave: "enrol_step E t (snd (UnenrollStudent E n c s t))"
| drop_class: "enrol_step E t (snd (StudentClassStore_DeleteByClass E n c t))"
| drop_student: "enrol_step E t (snd (StudentClassStore_DeleteByStudent E n s t))"

lemma enrol_step_ok: "enrol_step E t t1 \<Longrightarrow> enrolments_ok t \<Longrightarrow> enrolments_ok t1"
  by (induction rule: enrol_step.induct)
    (auto simp: EnrollStudent_ok EnrollStudents_ok UnenrollStudent_ok StudentClassStore_DeleteByClass_def
      StudentClassStore_DeleteByStudent_def sql_deleteAll_def sql_delete_def enrolments_filter)

interpretation roster: step_invariant "\<lambda>t. t = []" "enrol_step E" enrolments_ok for E
  by unfold_locales (simp add: enrolments_ok_def, rule enrol_step_ok)

lemma roster_distinct: "enrolments_ok t \<Longrightarrow> distinct (map sc_StudentID (filter (\<lambda>r. sc_ClassID r = c) t))"
  by (induction t rule: rev_induct) (auto simp: enrolments_snoc students_def enrolments_ok_def)



section \<open>What an attendance sheet leaves\<close>

lemma saveRecords_table:
  "saveRecords E n i rs t = (x, t1) \<Longrightarrow> \<exists>l. t1 = t @ l \<and> (\<forall>r \<in> set l. at_SessionID r = i) \<and> (\<forall>l'. x = Inr l' \<longrightarrow> l' = l
      \<and> map at_StudentID l = map at_StudentID rs)"
proof (induction rs arbitrary: n t x t1)
  case (Cons r rs)
  let ?r = "r\<lparr>at_SessionID := i\<rparr>"
  show ?case
  proof (cases rule: attendance_store.save_cases[of E n ?r t])
    case (refused e)
    then show ?thesis using Cons.prems by auto
  next
    case saved
    let ?s = "AttendancePreCreate E n ?r"
    obtain x' t' where rest: "saveRecords E (n + 1) i rs (t @ [?s]) = (x', t')" by (meson surj_pair)
    have "x = mapErr id x' \<or> (\<exists>l. x' = Inr l \<and> x = Inr (?s # l))" and t1: "t1 = t'"
      using Cons.prems saved(1) rest by (auto split: sum.splits)
    then show ?thesis using Cons.prems saved(1) Cons.IH[OF rest] rest
      by (auto simp: AttendancePreCreate_def split: sum.splits)
  qed
qed simp

lemma saveRecords_keys:
  "distinct (map at_ID t) \<Longrightarrow> distinct (map at_ID (snd (saveRecords E n i rs t)))"
proof (induction rs arbitrary: n t)
  case (Cons r rs)
  let ?r = "r\<lparr>at_SessionID := i\<rparr>"
  show ?case
  proof (cases rule: attendance_store.save_cases[of E n ?r t])
    case (refused e)
    then show ?thesis using Cons.prems by simp
  next
    case saved
    then have "distinct (map at_ID (t @ [AttendancePreCreate E n ?r]))" using Cons.prems by auto
    from Cons.IH[OF this, of "n + 1"] show ?thesis using saved(1) by (auto split: sum.splits prod.splits)
  qed
qed simp


definition demoAttendance :: "nat \<Rightarrow> Attendance" where
  "demoAttendance k = \<lparr>at_ID = [], at_SessionID = [], at_StudentID = demoId k, at_Status = [], at_Note = None, at_Locked = False,
     at_Createat = 0, at_Updateat = 0\<rparr>"


end
