(* ===== verification/Lms_Dates.thy ===== *)
theory Lms_Dates
  imports Lms_Base Go_Time
begin

text \<open>
  The calendar dates of \<^verbatim>\<open>public/utils/types.go\<close>: \<^verbatim>\<open>VnTime\<close> and \<^verbatim>\<open>NullVnTime\<close> with their JSON and database forms. The zone
  of \<^verbatim>\<open>vnLocation\<close> is UTC+7, which Asia/Bangkok has been since 1920; the server itself runs in UTC, as its deployment
  sets it. A \<^verbatim>\<open>NullVnTime\<close> is an option: its date is the zero value whenever it is not valid.
\<close>

definition utcMidnight :: "int \<times> int \<times> int \<Rightarrow> vntime" where
  "utcMidnight ymd = civilDay ymd * dayMs"

definition vnOffset :: int where
  "vnOffset = 7 * 3600"

definition unquote :: "string \<Rightarrow> string" where
  "unquote s = (if length s \<ge> 2 \<and> hd s = CHR 0x22 \<and> last s = CHR 0x22 then butlast (tl s) else s)"

definition VnTime_UnmarshalJSON :: "string \<Rightarrow> vntime option" where
  "VnTime_UnmarshalJSON s0 =
     (let s = unquote s0 in
      if s = [] \<or> s = ''null'' then Some zeroTime
      else case parseDate s of
             Some ymd \<Rightarrow> Some (utcMidnight ymd)
           | None \<Rightarrow>
               (case parseRFC3339 s of
                  Some sec \<Rightarrow> Some (utcMidnight (dateOfDay ((sec + vnOffset) div 86400)))
                | None \<Rightarrow>
                    (case parseDateTime s of
                       Some (ymd, _) \<Rightarrow> Some (utcMidnight ymd)
                     | None \<Rightarrow> None)))"

definition quote :: "string \<Rightarrow> string" where
  "quote s = CHR 0x22 # s @ [CHR 0x22]"

definition VnTime_MarshalJSON :: "vntime \<Rightarrow> string" where
  "VnTime_MarshalJSON t = (if t = zeroTime then quote [] else quote (formatDate (dateOfDay (t div dayMs))))"

definition VnTime_Value :: "vntime \<Rightarrow> vntime" where
  "VnTime_Value t = t"

text \<open>What a database driver hands to \<^verbatim>\<open>Scan\<close>.\<close>

datatype driverValue = DNil | DTime int | DBytes string | DString string | DOther

definition VnTime_scanString :: "string \<Rightarrow> vntime option" where
  "VnTime_scanString v =
     (case (if length v \<ge> 10 then parseDate (take 10 v) else None) of
        Some ymd \<Rightarrow> Some (utcMidnight ymd)
      | None \<Rightarrow>
          (case parseDateTime v of
             Some (ymd, _) \<Rightarrow> Some (utcMidnight ymd)
           | None \<Rightarrow> map_option (\<lambda>sec. utcMidnight (dateOfDay ((sec + vnOffset) div 86400))) (parseRFC3339 v)))"

fun VnTime_Scan :: "driverValue \<Rightarrow> vntime option" where
  "VnTime_Scan DNil = Some zeroTime"
| "VnTime_Scan (DTime t) = Some (utcMidnight (dateOfDay (t div dayMs)))"
| "VnTime_Scan (DBytes v) = VnTime_scanString v"
| "VnTime_Scan (DString v) = VnTime_scanString v"
| "VnTime_Scan DOther = None"

definition nonZero :: "vntime \<Rightarrow> vntime option" where
  "nonZero t = (if t = zeroTime then None else Some t)"

definition NewNullVnTime :: "string \<Rightarrow> vntime option option" where
  "NewNullVnTime dateStr =
     (if dateStr = [] then Some None else map_option nonZero (VnTime_UnmarshalJSON (quote dateStr)))"

definition NullVnTime_MarshalJSON :: "vntime option \<Rightarrow> string" where
  "NullVnTime_MarshalJSON n = (case n of None \<Rightarrow> ''null'' | Some t \<Rightarrow> VnTime_MarshalJSON t)"

definition NullVnTime_UnmarshalJSON :: "string \<Rightarrow> vntime option option" where
  "NullVnTime_UnmarshalJSON s =
     (if s = quote [] \<or> s = ''null'' then Some None else map_option nonZero (VnTime_UnmarshalJSON s))"

definition NullVnTime_Value :: "vntime option \<Rightarrow> driverValue" where
  "NullVnTime_Value n = (case n of None \<Rightarrow> DNil | Some t \<Rightarrow> DTime (VnTime_Value t))"

definition NullVnTime_Scan :: "driverValue \<Rightarrow> vntime option option" where
  "NullVnTime_Scan v = (case v of DNil \<Rightarrow> Some None | _ \<Rightarrow> map_option nonZero (VnTime_Scan v))"

section \<open>Lemmas\<close>

lemma unquote_quote [simp]: "unquote (quote s) = s"
  by (simp add: unquote_def quote_def)

lemma utcMidnight_day [simp]: "utcMidnight (dateOfDay n) = n * dayMs"
  by (simp add: utcMidnight_def civilDay_dateOfDay)

lemma VnTime_Scan_DTime: "VnTime_Scan (DTime t) = Some (dateCol t)"
  by (simp add: dateCol_def)

lemma yearStart_mono: "x < y \<Longrightarrow> yearStart x + yearLen x \<le> yearStart y"
proof (induction y rule: int_gr_induct)
  case base
  then show ?case by (simp add: yearStart_next)
next
  case (step y)
  moreover have "0 < yearLen y" by (simp add: yearLen_def)
  ultimately show ?case by (simp add: yearStart_next)
qed

lemma yearStart_mono_le: "x \<le> y \<Longrightarrow> yearStart x \<le> yearStart y"
  using yearStart_mono[of x y] by (cases "x = y") (auto simp: yearLen_def split: if_splits)

lemma civilDay_in_year:
  assumes "validDate (y, m, d)"
  shows "yearStart y \<le> civilDay (y, m, d)" and "civilDay (y, m, d) < yearStart (y + 1)"
proof -
  have r: "1 \<le> m" "m \<le> 12" "1 \<le> d" "d \<le> daysIn y m" using assms by (auto simp: validDate_def)
  show "yearStart y \<le> civilDay (y, m, d)"
    using r sum_daysIn_nonneg[of y "[1 .. m - 1]"] by (simp add: civilDay_def daysBefore_def)
  show "civilDay (y, m, d) < yearStart (y + 1)"
    using daysBefore_len[OF r(1,2,4)] by (simp add: civilDay_def yearStart_next)
qed

text \<open>The days of the years 1 to 9999.\<close>

definition maxDay :: int where
  "maxDay = 3652059"

lemma year_range:
  assumes "0 \<le> n" "n < maxDay" "dateOfDay n = (y, m, d)"
  shows "1 \<le> y" and "y < 10000"
proof -
  have v: "validDate (y, m, d)" and n: "civilDay (y, m, d) = n"
    using dateOfDay_valid[of n] civilDay_dateOfDay[of n] assms(3) by simp_all
  have b: "yearStart 1 = 0" "yearStart 10000 = maxDay" by (simp_all add: yearStart_def maxDay_def)
  show "1 \<le> y"
    using civilDay_in_year(2)[OF v] yearStart_mono_le[of "y + 1" 1] assms(1) n b by linarith
  show "y < 10000"
    using civilDay_in_year(1)[OF v] yearStart_mono_le[of 10000 y] assms(2) n b by linarith
qed

lemma formatDate_hd:
  assumes "0 \<le> y" "y < 10000"
  shows "\<exists>c r. formatDate (y, m, d) = c # r \<and> isDigit c"
proof -
  obtain z where "getyear (appendInt y 4 @ []) = Some z" using assms by (metis getyear_appendInt)
  then have "length (appendInt y 4) \<ge> 4" "list_all isDigit (take 4 (appendInt y 4))"
    by (auto simp: getyear_def split: if_splits)
  then show ?thesis by (cases "appendInt y 4") (auto simp: formatDate_def)
qed

lemma null_not_date: "isDigit c \<Longrightarrow> c # r \<noteq> ''null''"
  by (auto simp: isDigit_def less_eq_char_def)

lemma Unmarshal_date:
  assumes "validDate (y, m, d)" "0 \<le> y" "y < 10000"
  shows "VnTime_UnmarshalJSON (quote (formatDate (y, m, d))) = Some (utcMidnight (y, m, d))"
proof -
  obtain c r where f: "formatDate (y, m, d) = c # r" "isDigit c" using formatDate_hd[OF assms(2,3)] by blast
  then show ?thesis
    using parseDate_format[OF assms] null_not_date[OF f(2), of r] by (auto simp: VnTime_UnmarshalJSON_def Let_def)
qed

lemma Marshal_Unmarshal:
  assumes "dateCol t = t" "0 \<le> t" "t < maxDay * dayMs"
  shows "VnTime_UnmarshalJSON (VnTime_MarshalJSON t) = Some t"
proof (cases "t = zeroTime")
  case True
  then show ?thesis by (simp add: VnTime_MarshalJSON_def VnTime_UnmarshalJSON_def)
next
  case False
  define n where "n = t div dayMs"
  have t: "t = n * dayMs" using assms(1) by (simp add: dateCol_def n_def)
  have n: "0 \<le> n" "n < maxDay" using assms(2,3) unfolding t by (simp_all add: dayMs_def)
  obtain y m d where ymd: "dateOfDay n = (y, m, d)" by (cases "dateOfDay n") auto
  have v: "validDate (y, m, d)" using dateOfDay_valid[of n] ymd by simp
  have "utcMidnight (y, m, d) = t" using utcMidnight_day[of n] ymd t by simp
  then show ?thesis
    using False Unmarshal_date[OF v] year_range[OF n ymd] ymd
    by (simp add: VnTime_MarshalJSON_def n_def[symmetric])
qed

text \<open>
  C17: JSON round trip of dates. Every calendar date of the years 1 to 9999, the zero date included, is decoded
  from the JSON text the server sends for it, and optional dates likewise; the database column returns it too.
\<close>

theorem date_json_roundtrip:
  assumes "dateCol t = t" and "0 \<le> t" and "t < maxDay * dayMs"
  shows "VnTime_UnmarshalJSON (VnTime_MarshalJSON t) = Some t
    \<and> NullVnTime_UnmarshalJSON (NullVnTime_MarshalJSON (nonZero t)) = Some (nonZero t)
    \<and> VnTime_Scan (DTime (VnTime_Value t)) = Some t
    \<and> NullVnTime_Scan (NullVnTime_Value (nonZero t)) = Some (nonZero t)"
proof (intro conjI)
  show "VnTime_UnmarshalJSON (VnTime_MarshalJSON t) = Some t" by (rule Marshal_Unmarshal[OF assms])
  show "VnTime_Scan (DTime (VnTime_Value t)) = Some t"
    using assms(1) by (simp only: VnTime_Scan_DTime VnTime_Value_def)
  show "NullVnTime_UnmarshalJSON (NullVnTime_MarshalJSON (nonZero t)) = Some (nonZero t)"
  proof (cases "t = zeroTime")
    case False
    then have "VnTime_MarshalJSON t \<noteq> quote []" "VnTime_MarshalJSON t \<noteq> ''null''"
      by (auto simp: VnTime_MarshalJSON_def quote_def formatDate_def split: prod.splits)
    then show ?thesis using False Marshal_Unmarshal[OF assms]
      by (simp add: NullVnTime_UnmarshalJSON_def NullVnTime_MarshalJSON_def nonZero_def)
  qed (simp add: NullVnTime_UnmarshalJSON_def NullVnTime_MarshalJSON_def nonZero_def)
  show "NullVnTime_Scan (NullVnTime_Value (nonZero t)) = Some (nonZero t)"
    using VnTime_Scan_DTime[of t] assms(1)
    by (cases "t = zeroTime")
      (simp_all add: NullVnTime_Scan_def NullVnTime_Value_def nonZero_def VnTime_Value_def del: VnTime_Scan.simps)
qed

theorem date_json_roundtrip_witness:
  "VnTime_MarshalJSON (utcMidnight (2028, 2, 29)) = CHR 0x22 # ''2028-02-29'' @ [CHR 0x22]
     \<and> VnTime_UnmarshalJSON (VnTime_MarshalJSON (utcMidnight (2028, 2, 29))) = Some (utcMidnight (2028, 2, 29))"
proof -
  have t: "utcMidnight (2028, 2, 29) = 740405 * dayMs"
    by (simp add: utcMidnight_def civilDay_def yearStart_def daysBefore_def daysIn_def upto_rec1)
  have v: "validDate (2028, 2, 29)" by (simp add: validDate_def daysIn_def isLeap_def)
  have "dateOfDay (utcMidnight (2028, 2, 29) div dayMs) = (2028, 2, 29)"
    using dateOfDay_civilDay[OF v] by (simp add: utcMidnight_def dayMs_def)
  moreover have "utcMidnight (2028, 2, 29) \<noteq> zeroTime" by (simp add: t zeroTime_def dayMs_def)
  ultimately have "VnTime_MarshalJSON (utcMidnight (2028, 2, 29)) = CHR 0x22 # ''2028-02-29'' @ [CHR 0x22]"
    by (simp add: VnTime_MarshalJSON_def quote_def formatDate_def appendInt_def decStr.simps digit_chars Let_def)
  moreover have "VnTime_UnmarshalJSON (VnTime_MarshalJSON (utcMidnight (2028, 2, 29))) = Some (utcMidnight (2028, 2, 29))"
    by (rule date_json_roundtrip[THEN conjunct1]) (simp_all add: t maxDay_def dayMs_def dateCol_def)
  ultimately show ?thesis by blast
qed

text \<open>A time of day as \<^verbatim>\<open>15:04:05\<close>.\<close>

definition clockText :: "int \<Rightarrow> int \<Rightarrow> int \<Rightarrow> string" where
  "clockText h m s = appendInt h 2 @ '':'' @ appendInt m 2 @ '':'' @ appendInt s 2"

lemma parseClock_text:
  assumes "0 \<le> h" "h < 24" "0 \<le> m" "m < 60" "0 \<le> s" "s < 60" "r = [] \<or> hd r = CHR ''Z''"
  shows "parseClock (clockText h m s @ r) = Some (3600 * h + 60 * m + s, r)"
proof -
  have "skipFraction r = r" using assms(7) by (auto simp: skipFraction_def split: list.splits)
  then show ?thesis using assms by (simp add: parseClock_def clockText_def)
qed

lemma not_parseDate:
  assumes "validDate (y, m, d)" "0 \<le> y" "y < 10000" "r \<noteq> []"
  shows "parseDate (formatDate (y, m, d) @ r) = None"
  using parseDatePart_format[OF assms(1-3), of r] assms(4) by (cases r) (simp_all add: parseDate_def)

text \<open>
  Time stamps mean the day in Vietnam. A UTC time stamp is decoded to the calendar date it falls on at UTC+7:
  the date of the time stamp itself before 17:00 UTC and the following day from then on.
\<close>

theorem timestamp_is_local_day:
  assumes "validDate (y, m, d)" and "0 \<le> y" and "y < 10000"
    and "0 \<le> h" and "h < 24" and "0 \<le> mi" and "mi < 60" and "0 \<le> s" and "s < 60"
  shows "VnTime_UnmarshalJSON (quote (formatDate (y, m, d) @ ''T'' @ clockText h mi s @ ''Z''))
    = Some ((civilDay (y, m, d) + (if h < 17 then 0 else 1)) * dayMs)"
proof -
  let ?t = "formatDate (y, m, d) @ ''T'' @ clockText h mi s @ ''Z''" and ?n = "civilDay (y, m, d)"
  let ?sec = "3600 * h + 60 * mi + s"
  obtain c r where f: "formatDate (y, m, d) = c # r" "isDigit c" using formatDate_hd[OF assms(2,3)] by blast
  have ne: "?t \<noteq> []" "?t \<noteq> ''null''" using null_not_date[OF f(2)] by (simp_all add: f(1))
  have date: "parseDate ?t = None" by (rule not_parseDate[OF assms(1-3)]) simp
  have "parseClock (clockText h mi s @ ''Z'') = Some (?sec, ''Z'')" using assms by (intro parseClock_text) auto
  then have rfc: "parseRFC3339 ?t = Some (86400 * ?n + ?sec)"
    using parseDatePart_format[OF assms(1-3)] by (simp add: parseRFC3339_def parseZone_def)
  have "(86400 * ?n + ?sec + vnOffset) div 86400 = ?n + (if h < 17 then 0 else 1)"
  proof (cases "h < 17")
    case True
    have "(86400 * ?n + (?sec + vnOffset)) div 86400 = ?n"
      using True assms by (intro div_mod_unique) (simp_all add: vnOffset_def)
    then show ?thesis using True by (simp add: algebra_simps)
  next
    case False
    have "(86400 * (?n + 1) + (?sec + vnOffset - 86400)) div 86400 = ?n + 1"
      using False assms by (intro div_mod_unique) (simp_all add: vnOffset_def)
    then show ?thesis using False by (simp add: algebra_simps)
  qed
  then show ?thesis using ne date rfc by (simp add: VnTime_UnmarshalJSON_def Let_def)
qed

theorem timestamp_is_local_day_witness:
  "VnTime_UnmarshalJSON (quote ''2026-09-05T23:30:00Z'') = Some (utcMidnight (2026, 9, 6))"
proof -
  have v: "validDate (2026, 9, 5)" by (simp add: validDate_def daysIn_def)
  have "VnTime_UnmarshalJSON (quote (formatDate (2026, 9, 5) @ ''T'' @ clockText 23 30 0 @ ''Z''))
      = Some ((civilDay (2026, 9, 5) + (if (23::int) < 17 then 0 else 1)) * dayMs)"
    by (rule timestamp_is_local_day[OF v]) simp_all
  then show ?thesis
    by (simp add: formatDate_def clockText_def appendInt_def decStr.simps digit_chars Let_def utcMidnight_def civilDay_def)
qed

end
