(* ===== verification/Users.thy ===== *)
theory Users
  imports Passwords
begin

text \<open>
  The user accounts of the Mattermost core that the learning-management part creates and edits: \<^verbatim>\<open>model.User\<close>
  with its validation and save hooks (\<^verbatim>\<open>public/model/user.go\<close>), the methods of \<^verbatim>\<open>SqlUserStore\<close> it calls
  (\<^verbatim>\<open>channels/store/sqlstore/user_store.go\<close>), and the password check (\<^verbatim>\<open>channels/app/authentication.go\<close>).

  \<^item> The methods change the struct they are given through its pointer, also when they fail: the model returns the
    changed struct beside the result. A method that starts at tick \<open>n\<close> uses the ticks \<open>n\<close> and \<open>n + 1\<close>.
  \<^item> A nil map is \<^const>\<open>None\<close>. The columns hold the maps as JSON, which is read back unchanged.
  \<^item> The parameters \<open>userLib\<close> stand for \<^verbatim>\<open>unicode.ToLower\<close> above 127, \<^verbatim>\<open>mail.ParseAddress\<close>, the language tags of
    \<^verbatim>\<open>golang.org/x/text\<close>, the number of code points of a JSON object, the custom status (decoded, cut to its maximal
    length and encoded again, \<^const>\<open>None\<close> when it is no custom status), \<^verbatim>\<open>lower\<close> of the database, \<^verbatim>\<open>json.Marshal\<close> and
    \<^verbatim>\<open>json.Unmarshal\<close> of an object whose values are kept as JSON texts, and the maximal post size.
  \<^item> The fields that are not columns of the table (bot data, terms of service, last activity) are left out.
\<close>

record userLib =
  ul_hash :: hashLib
  ul_lower :: "nat \<Rightarrow> nat"
  ul_parseAddress :: "string \<Rightarrow> string option"
  ul_language :: "string \<Rightarrow> bool"
  ul_jsonRunes :: "string gomap \<Rightarrow> nat"
  ul_customStatus :: "nat \<Rightarrow> string \<Rightarrow> string option"
  ul_sqlLower :: "string \<Rightarrow> string"
  ul_marshal :: "string gomap \<Rightarrow> string option"
  ul_unmarshal :: "string \<Rightarrow> string gomap option"
  ul_maxPostSize :: nat

section \<open>Strings as code points\<close>

definition encodeRune :: "nat \<Rightarrow> nat list" where
  "encodeRune r =
     (if r < 128 then [r]
      else if r < 2048 then [192 + r div 64, 128 + r mod 64]
      else if r < 65536 then [224 + r div 4096, 128 + r div 64 mod 64, 128 + r mod 64]
      else [240 + r div 262144, 128 + r div 4096 mod 64, 128 + r div 64 mod 64, 128 + r mod 64])"

definition runes :: "string \<Rightarrow> nat list" where
  "runes s = runesOf (map of_char s)"

definition ofRunes :: "nat list \<Rightarrow> string" where
  "ofRunes rs = map char_of (concat (map encodeRune rs))"

text \<open>\<^verbatim>\<open>strings.Map\<close>: an invalid byte is read, and written, as the replacement character.\<close>

definition strMap :: "(nat \<Rightarrow> nat option) \<Rightarrow> string \<Rightarrow> string" where
  "strMap f s = ofRunes (List.map_filter f (runes s))"

definition lowerRune :: "userLib \<Rightarrow> nat \<Rightarrow> nat" where
  "lowerRune U r = (if r < 128 then (if 65 \<le> r \<and> r \<le> 90 then r + 32 else r) else ul_lower U r)"

definition goToLower :: "userLib \<Rightarrow> string \<Rightarrow> string" where
  "goToLower U s = strMap (Some \<circ> lowerRune U) s"

definition filterBlocklist :: "nat \<Rightarrow> nat option" where
  "filterBlocklist r =
     (if r \<in> {0x340, 0x341, 0x17A3, 0x17D3, 0x2028, 0x2029, 0x202A, 0x202B, 0x202C, 0x202D, 0x202E, 0x206A, 0x206B, 0x206C,
              0x206D, 0x206E, 0x206F, 0xFFF9, 0xFFFA, 0xFFFB, 0xFEFF, 0xFFFC} then None
      else if 0x1D173 \<le> r \<and> r \<le> 0x1D17A then None
      else if 0xE0000 \<le> r \<and> r \<le> 0xE007F then None
      else Some r)"

definition SanitizeUnicode :: "string \<Rightarrow> string" where
  "SanitizeUnicode s = strMap filterBlocklist s"

fun strJoin :: "string \<Rightarrow> string list \<Rightarrow> string" where
  "strJoin sep [] = []"
| "strJoin sep [w] = w"
| "strJoin sep (w # ws) = w @ sep @ strJoin sep ws"

section \<open>The user\<close>

record User =
  us_Id :: string
  us_CreateAt :: int
  us_UpdateAt :: int
  us_DeleteAt :: int
  us_Username :: string
  us_Password :: string
  us_AuthData :: "string option"
  us_AuthService :: string
  us_Email :: string
  us_EmailVerified :: bool
  us_Nickname :: string
  us_FirstName :: string
  us_LastName :: string
  us_Position :: string
  us_Roles :: string
  us_AllowMarketing :: bool
  us_Props :: "string gomap option"
  us_NotifyProps :: "string gomap option"
  us_LastPasswordUpdate :: int
  us_LastPictureUpdate :: int
  us_FailedAttempts :: int
  us_Locale :: string
  us_Timezone :: "string gomap option"
  us_MfaActive :: bool
  us_MfaSecret :: string
  us_RemoteId :: "string option"
  us_LastLogin :: int
  us_MfaUsedTimestamps :: "string list"
  us_Phone :: "string option"
  us_ParentId :: "string option"

definition GetFullName :: "User \<Rightarrow> string" where
  "GetFullName u =
     (if us_FirstName u \<noteq> [] \<and> us_LastName u \<noteq> [] then us_FirstName u @ '' '' @ us_LastName u
      else if us_FirstName u \<noteq> [] then us_FirstName u
      else if us_LastName u \<noteq> [] then us_LastName u else [])"

definition IsRemote :: "User \<Rightarrow> bool" where
  "IsRemote u \<longleftrightarrow> us_RemoteId u \<noteq> None \<and> us_RemoteId u \<noteq> Some []"

definition IsInRole :: "string \<Rightarrow> string \<Rightarrow> bool" where
  "IsInRole userRoles inRole \<longleftrightarrow> inRole \<in> set (str_split (CHR '' '') userRoles)"

definition IsSSOUser :: "User \<Rightarrow> bool" where
  "IsSSOUser u \<longleftrightarrow> us_AuthService u \<noteq> [] \<and> us_AuthService u \<noteq> ''email''"

definition IsOAuthUser :: "User \<Rightarrow> bool" where
  "IsOAuthUser u \<longleftrightarrow> us_AuthService u \<in> {''gitlab'', ''google'', ''office365'', ''openid''}"

definition IsLDAPUser :: "User \<Rightarrow> bool" where
  "IsLDAPUser u \<longleftrightarrow> us_AuthService u = ''ldap''"

text \<open>The regular expressions \<^verbatim>\<open>[a-z0-9\.\-_]+\<close> and \<^verbatim>\<open>[a-z0-9\.\-_:]*\<close>.\<close>

definition usernameChar :: "char \<Rightarrow> bool" where
  "usernameChar c \<longleftrightarrow> (CHR ''a'' \<le> c \<and> c \<le> CHR ''z'') \<or> isDigit c \<or> c \<in> {CHR ''.'', CHR ''-'', CHR ''_''}"

definition restrictedUsernames :: "string set" where
  "restrictedUsernames = {''all'', ''channel'', ''matterbot'', ''system''}"

definition IsValidUsername :: "string \<Rightarrow> bool" where
  "IsValidUsername s \<longleftrightarrow>
     1 \<le> length s \<and> length s \<le> 64 \<and> list_all usernameChar s \<and> s \<notin> restrictedUsernames"

definition IsValidUsernameAllowRemote :: "string \<Rightarrow> bool" where
  "IsValidUsernameAllowRemote s \<longleftrightarrow>
     1 \<le> length s \<and> length s \<le> 64 \<and> list_all (\<lambda>c. usernameChar c \<or> c = CHR '':'') s \<and> s \<notin> restrictedUsernames"

definition IsValidEmail :: "userLib \<Rightarrow> string \<Rightarrow> bool" where
  "IsValidEmail U input \<longleftrightarrow>
     goToLower U input = input \<and> ul_parseAddress U input = Some input \<and> length (filter (\<lambda>c. c = CHR ''@'') input) \<le> 1"

definition IsValidLocale :: "userLib \<Rightarrow> string \<Rightarrow> bool" where
  "IsValidLocale U locale \<longleftrightarrow> locale = [] \<or> (length locale \<le> 5 \<and> ul_language U locale)"

definition propOf :: "string gomap option \<Rightarrow> string \<Rightarrow> string" where
  "propOf m k = (case m of None \<Rightarrow> [] | Some l \<Rightarrow> (case gm_get l k of None \<Rightarrow> [] | Some v \<Rightarrow> v))"

definition ValidateCustomStatus :: "userLib \<Rightarrow> nat \<Rightarrow> User \<Rightarrow> bool" where
  "ValidateCustomStatus U n u \<longleftrightarrow>
     propOf (us_Props u) ''customStatus'' = [] \<or> ul_customStatus U n (propOf (us_Props u) ''customStatus'') \<noteq> None"

definition InvalidUserError :: "string \<Rightarrow> app_error" where
  "InvalidUserError fieldName = AppError (''model.user.is_valid.'' @ fieldName @ ''.app_error'') 400"

definition User_IsValid :: "userLib \<Rightarrow> lmsEnv \<Rightarrow> nat \<Rightarrow> User \<Rightarrow> app_error option" where
  "User_IsValid U E n u =
     (if \<not> IsValidId (lv_letter E) (us_Id u) then Some (InvalidUserError ''id'')
      else if us_CreateAt u = 0 then Some (InvalidUserError ''create_at'')
      else if us_UpdateAt u = 0 then Some (InvalidUserError ''update_at'')
      else if (if IsRemote u then \<not> IsValidUsernameAllowRemote (us_Username u) else \<not> IsValidUsername (us_Username u))
        then Some (InvalidUserError ''username'')
      else if length (us_Email u) > 128 \<or> us_Email u = [] \<or> (\<not> IsValidEmail U (us_Email u) \<and> \<not> IsRemote u)
        then Some (InvalidUserError ''email'')
      else if length (runes (us_Nickname u)) > 64 then Some (InvalidUserError ''nickname'')
      else if length (runes (us_Position u)) > 128 then Some (InvalidUserError ''position'')
      else if length (runes (us_FirstName u)) > 64 then Some (InvalidUserError ''first_name'')
      else if length (runes (us_LastName u)) > 64 then Some (InvalidUserError ''last_name'')
      else if (case us_AuthData u of None \<Rightarrow> False | Some d \<Rightarrow> length d > 128) then Some (InvalidUserError ''auth_data'')
      else if us_AuthData u \<noteq> None \<and> us_AuthData u \<noteq> Some [] \<and> us_AuthService u = [] then Some (InvalidUserError ''auth_data_type'')
      else if us_Password u \<noteq> [] \<and> us_AuthData u \<noteq> None \<and> us_AuthData u \<noteq> Some [] then Some (InvalidUserError ''auth_data_pwd'')
      else if \<not> IsValidLocale U (us_Locale u) then Some (InvalidUserError ''locale'')
      else if (case us_ParentId u of None \<Rightarrow> False | Some p \<Rightarrow> \<not> IsValidId (lv_letter E) p) then Some (InvalidUserError ''parent_id'')
      else if (case us_Timezone u of None \<Rightarrow> False | Some tz \<Rightarrow> tz \<noteq> [] \<and> ul_jsonRunes U tz > 256)
        then Some (InvalidUserError ''timezone_limit'')
      else if length (us_Roles u) > 256 then Some (AppError ''model.user.is_valid.roles_limit.app_error'' 400)
      else if us_Props u \<noteq> None \<and> \<not> ValidateCustomStatus U n u
        then Some (AppError ''model.user.is_valid.invalidProperty.app_error'' 400)
      else None)"

section \<open>The hooks\<close>

definition SetDefaultNotifications :: "User \<Rightarrow> User" where
  "SetDefaultNotifications u = u\<lparr>us_NotifyProps := Some
     [(''email'', ''true''), (''push'', ''mention''), (''desktop'', ''mention''), (''desktop_sound'', ''true''),
      (''mention_keys'', []), (''channel'', ''true''), (''push_status'', ''online''), (''comments'', ''never''),
      (''first_name'', ''false''), (''desktop_threads'', ''all''), (''email_threads'', ''all''), (''push_threads'', ''all'')]\<rparr>"

definition withNotifications :: "User \<Rightarrow> User" where
  "withNotifications u = (if us_NotifyProps u = None \<or> us_NotifyProps u = Some [] then SetDefaultNotifications u else u)"

definition saveCustomStatus :: "userLib \<Rightarrow> nat \<Rightarrow> User \<Rightarrow> User" where
  "saveCustomStatus U n u =
     (let data = propOf (us_Props u) ''customStatus'' in
      case (if data = [] then None else ul_customStatus U n data) of
        None \<Rightarrow> u
      | Some s \<Rightarrow> u\<lparr>us_Props := map_option (gm_set ''customStatus'' s) (us_Props u)\<rparr>)"

definition DefaultUserTimezone :: "string gomap" where
  "DefaultUserTimezone = [(''useAutomaticTimezone'', ''true''), (''automaticTimezone'', []), (''manualTimezone'', [])]"

definition hashedOf :: "userLib \<Rightarrow> nat \<Rightarrow> string \<Rightarrow> app_error + string" where
  "hashedOf U n password =
     (case Hash (ul_hash U) n password of
        Inl ErrPasswordTooLong \<Rightarrow> Inl (AppError ''model.user.pre_save.password_too_long.app_error'' 400)
      | Inl _ \<Rightarrow> Inl (AppError ''model.user.pre_save.password_hash.app_error'' 400)
      | Inr hashed \<Rightarrow> Inr hashed)"

text \<open>The fields before the password.\<close>

definition preSaveFields :: "userLib \<Rightarrow> lmsEnv \<Rightarrow> nat \<Rightarrow> User \<Rightarrow> User" where
  "preSaveFields U E n u =
     (let created = (if us_CreateAt u = 0 then lv_now E n 0 else us_CreateAt u);
          name = (if us_Username u = [] then CHR ''a'' # lv_newId E (n + 1) else us_Username u) in
      withNotifications (u\<lparr>
        us_Id := (if us_Id u = [] then lv_newId E n else us_Id u),
        us_Username := goToLower U (SanitizeUnicode name),
        us_AuthData := (if us_AuthData u = Some [] then None else us_AuthData u),
        us_FirstName := SanitizeUnicode (us_FirstName u),
        us_LastName := SanitizeUnicode (us_LastName u),
        us_Nickname := SanitizeUnicode (us_Nickname u),
        us_Email := goToLower U (us_Email u),
        us_CreateAt := created, us_UpdateAt := created, us_LastPasswordUpdate := created,
        us_MfaActive := False,
        us_Locale := (if us_Locale u = [] then ''en'' else us_Locale u),
        us_Props := (if us_Props u = None then Some [] else us_Props u),
        us_Timezone := (if us_Timezone u = None then Some DefaultUserTimezone else us_Timezone u)\<rparr>))"

definition User_PreSave :: "userLib \<Rightarrow> lmsEnv \<Rightarrow> nat \<Rightarrow> User \<Rightarrow> app_error option \<times> User" where
  "User_PreSave U E n u =
     (let u1 = preSaveFields U E n u in
      if us_Password u1 = [] then (None, saveCustomStatus U n u1)
      else case hashedOf U n (us_Password u1) of
             Inl e \<Rightarrow> (Some e, u1)
           | Inr hashed \<Rightarrow> (None, saveCustomStatus U n (u1\<lparr>us_Password := hashed\<rparr>)))"

definition cleanMentionKeys :: "userLib \<Rightarrow> User \<Rightarrow> User" where
  "cleanMentionKeys U u =
     (case us_NotifyProps u of
        None \<Rightarrow> SetDefaultNotifications u
      | Some m \<Rightarrow>
          if m = [] then SetDefaultNotifications u
          else (case gm_get m ''mention_keys'' of
                  None \<Rightarrow> u
                | Some keys \<Rightarrow>
                    u\<lparr>us_NotifyProps := Some (gm_set ''mention_keys''
                        (strJoin '','' (map (goToLower U) (filter (\<lambda>k. k \<noteq> []) (str_split (CHR '','') keys)))) m)\<rparr>))"

text \<open>The source sanitizes the names twice.\<close>

definition User_PreUpdate :: "userLib \<Rightarrow> lmsEnv \<Rightarrow> nat \<Rightarrow> User \<Rightarrow> User" where
  "User_PreUpdate U E n u =
     (let u1 = cleanMentionKeys U (u\<lparr>
        us_Username := goToLower U (SanitizeUnicode (us_Username u)),
        us_FirstName := SanitizeUnicode (SanitizeUnicode (us_FirstName u)),
        us_LastName := SanitizeUnicode (SanitizeUnicode (us_LastName u)),
        us_Nickname := SanitizeUnicode (SanitizeUnicode (us_Nickname u)),
        us_Email := goToLower U (us_Email u),
        us_UpdateAt := lv_now E n 0,
        us_AuthData := (if us_AuthData u = Some [] then None else us_AuthData u)\<rparr>) in
      if us_Props u1 \<noteq> None then saveCustomStatus U n u1 else u1)"

definition GetMentionKeys :: "User \<Rightarrow> string list" where
  "GetMentionKeys u =
     filter (\<lambda>k. k \<noteq> []) (map trimSpace (str_split (CHR '','') (propOf (us_NotifyProps u) ''mention_keys'')))"

definition UpdateMentionKeysFromUsername :: "string \<Rightarrow> User \<Rightarrow> User" where
  "UpdateMentionKeysFromUsername oldUsername u =
     (let nonUsernameKeys = filter (\<lambda>k. k \<noteq> oldUsername \<and> k \<noteq> CHR ''@'' # oldUsername) (GetMentionKeys u);
          v = (if nonUsernameKeys = [] then [] else '','' @ strJoin '','' nonUsernameKeys)
      in u\<lparr>us_NotifyProps := map_option (gm_set ''mention_keys'' v) (us_NotifyProps u)\<rparr>)"

text \<open>\<^verbatim>\<open>Sanitize\<close> with no options.\<close>

definition Sanitize :: "User \<Rightarrow> User" where
  "Sanitize u = u\<lparr>us_Password := [], us_MfaSecret := [], us_MfaUsedTimestamps := [], us_LastLogin := 0\<rparr>"


section \<open>The store\<close>

text \<open>
  Errors of the user store: a missing row, \<^verbatim>\<open>ErrInvalidInput\<close> with its field, \<^verbatim>\<open>ErrConflict\<close>, a validation error, anything
  else. The unique constraints of the table are checked in the order of their columns (id, username, authdata,
  email), as the database does; the first one violated is reported.
\<close>

datatype user_error = UErrNotFound | UErrInvalidInput string | UErrConflict string | UErrApp app_error | UErrSql

definition taken :: "('r \<Rightarrow> 'a) \<Rightarrow> 'a \<Rightarrow> 'r list \<Rightarrow> bool" where
  "taken f v t \<longleftrightarrow> v \<in> set (map f t)"

definition UserStore_Get :: "lmsEnv \<Rightarrow> nat \<Rightarrow> string \<Rightarrow> User list \<Rightarrow> user_error + User" where
  "UserStore_Get E n i t =
     (if lv_db E n 0 then Inl UErrSql
      else case sql_one (\<lambda>r. us_Id r = i) t of None \<Rightarrow> Inl UErrNotFound | Some r \<Rightarrow> Inr r)"

definition UserStore_GetAll :: "lmsEnv \<Rightarrow> nat \<Rightarrow> User list \<Rightarrow> user_error + User list" where
  "UserStore_GetAll E n t = (if lv_db E n 0 then Inl UErrSql else Inr (sort_key us_Username t))"

definition UserStore_GetByEmail :: "userLib \<Rightarrow> lmsEnv \<Rightarrow> nat \<Rightarrow> string \<Rightarrow> User list \<Rightarrow> user_error + User" where
  "UserStore_GetByEmail U E n email t =
     (if lv_db E n 0 then Inl UErrSql
      else case sql_one (\<lambda>r. us_Email r = ul_sqlLower U email) t of None \<Rightarrow> Inl UErrNotFound | Some r \<Rightarrow> Inr r)"

text \<open>The foreign key of the parent is declared \<^verbatim>\<open>ON DELETE SET NULL\<close>.\<close>

definition UserStore_PermanentDelete :: "lmsEnv \<Rightarrow> nat \<Rightarrow> string \<Rightarrow> User list \<Rightarrow> user_error option \<times> User list" where
  "UserStore_PermanentDelete E n i t =
     (if lv_db E n 0 then (Some UErrSql, t)
      else (None, map (\<lambda>r. if us_ParentId r = Some i then r\<lparr>us_ParentId := None\<rparr> else r) (sql_delete (\<lambda>r. us_Id r = i) t)))"

definition UserStore_UpdatePassword :: "lmsEnv \<Rightarrow> nat \<Rightarrow> string \<Rightarrow> string \<Rightarrow> User list \<Rightarrow> user_error option \<times> User list" where
  "UserStore_UpdatePassword E n userId hashedPassword t =
     (if lv_db E n 0 then (Some UErrSql, t)
      else (None, snd (sql_update (\<lambda>r. us_Id r = userId)
              (\<lambda>r. r\<lparr>us_Password := hashedPassword, us_LastPasswordUpdate := lv_now E n 0, us_UpdateAt := lv_now E n 0,
                     us_AuthData := None, us_AuthService := [], us_FailedAttempts := 0\<rparr>) t)))"

definition UserStore_UpdateFailedPasswordAttempts ::
  "lmsEnv \<Rightarrow> nat \<Rightarrow> string \<Rightarrow> int \<Rightarrow> User list \<Rightarrow> user_error option \<times> User list" where
  "UserStore_UpdateFailedPasswordAttempts E n userId attempts t =
     (if lv_db E n 0 then (Some UErrSql, t)
      else (None, snd (sql_update (\<lambda>r. us_Id r = userId) (\<lambda>r. r\<lparr>us_FailedAttempts := attempts\<rparr>) t)))"

definition validateAutoResponderMessageSize :: "userLib \<Rightarrow> User \<Rightarrow> bool" where
  "validateAutoResponderMessageSize U u \<longleftrightarrow> length (runes (propOf (us_NotifyProps u) ''auto_responder_message'')) \<le> ul_maxPostSize U"

text \<open>The \<^verbatim>\<open>INSERT\<close> has no column for the last login, whose default is 0.\<close>

definition insertedRow :: "User \<Rightarrow> User" where
  "insertedRow u = u\<lparr>us_LastLogin := 0\<rparr>"

definition UserStore_insert :: "userLib \<Rightarrow> lmsEnv \<Rightarrow> nat \<Rightarrow> User \<Rightarrow> User list \<Rightarrow> user_error option \<times> User list" where
  "UserStore_insert U E n u t =
     (if \<not> validateAutoResponderMessageSize U u then (Some UErrSql, t)
      else if lv_db E n 0 \<or> taken us_Id (us_Id u) t then (Some UErrSql, t)
      else if taken us_Username (us_Username u) t then (Some (UErrInvalidInput ''username''), t)
      else if us_AuthData u \<noteq> None \<and> taken us_AuthData (us_AuthData u) t then (Some UErrSql, t)
      else if taken us_Email (us_Email u) t then (Some (UErrInvalidInput ''email''), t)
      else (None, t @ [insertedRow u]))"

definition UserStore_Save ::
  "userLib \<Rightarrow> lmsEnv \<Rightarrow> nat \<Rightarrow> User \<Rightarrow> User list \<Rightarrow> user_error option \<times> User \<times> User list" where
  "UserStore_Save U E n u t =
     (if us_Id u \<noteq> [] \<and> \<not> IsRemote u then (Some (UErrInvalidInput ''id''), u, t)
      else case User_PreSave U E n u of
             (Some e, u1) \<Rightarrow> (Some (UErrApp e), u1, t)
           | (None, u1) \<Rightarrow>
               (case User_IsValid U E n u1 of
                  Some e \<Rightarrow> (Some (UErrApp e), u1, t)
                | None \<Rightarrow> (let (r, t1) = UserStore_insert U E n u1 t in (r, u1, t1))))"

text \<open>What \<^verbatim>\<open>Update\<close> takes from the stored row, for a trusted caller and for others.\<close>

definition keepOld :: "User \<Rightarrow> User \<Rightarrow> User" where
  "keepOld old u = u\<lparr>us_CreateAt := us_CreateAt old, us_AuthData := us_AuthData old, us_AuthService := us_AuthService old,
     us_Password := us_Password old, us_LastPasswordUpdate := us_LastPasswordUpdate old,
     us_LastPictureUpdate := us_LastPictureUpdate old, us_EmailVerified := us_EmailVerified old,
     us_FailedAttempts := us_FailedAttempts old, us_MfaSecret := us_MfaSecret old, us_MfaActive := us_MfaActive old,
     us_MfaUsedTimestamps := us_MfaUsedTimestamps old, us_LastLogin := us_LastLogin old, us_ParentId := us_ParentId old\<rparr>"

definition untrusted :: "User \<Rightarrow> User \<Rightarrow> user_error + User" where
  "untrusted old u0 =
     (let u1 = u0\<lparr>us_Roles := us_Roles old, us_DeleteAt := us_DeleteAt old\<rparr>;
          u = (if IsOAuthUser u1 then u1\<lparr>us_Email := us_Email old\<rparr> else u1) in
      if IsLDAPUser u \<and> us_Username u \<noteq> us_Username old then Inl (UErrInvalidInput ''id'')
      else if IsLDAPUser u \<and> us_Email u \<noteq> us_Email old then Inl (UErrInvalidInput ''email'')
      else Inr (if us_Email u \<noteq> us_Email old then u\<lparr>us_EmailVerified := False\<rparr> else u))"

definition merged :: "bool \<Rightarrow> User \<Rightarrow> User \<Rightarrow> user_error + User" where
  "merged trusted old u =
     (case (if trusted then Inr (keepOld old u) else untrusted old (keepOld old u)) of
        Inl e \<Rightarrow> Inl e
      | Inr u1 \<Rightarrow>
          let u2 = (if IsSSOUser u1 then u1\<lparr>us_EmailVerified := True\<rparr> else u1)
          in Inr (if us_Username u2 \<noteq> us_Username old then UpdateMentionKeysFromUsername (us_Username old) u2 else u2))"

text \<open>
  The result is the new row without its secrets, which is also what the caller's struct has become. A struct that is
  refused is not used again by any caller, so the model returns only the error.
\<close>

definition UserStore_Update ::
  "userLib \<Rightarrow> lmsEnv \<Rightarrow> nat \<Rightarrow> User \<Rightarrow> bool \<Rightarrow> User list \<Rightarrow> (user_error + User) \<times> User list" where
  "UserStore_Update U E n u0 trusted t =
     (let u = User_PreUpdate U E n u0 in
      case User_IsValid U E n u of
        Some e \<Rightarrow> (Inl (UErrApp e), t)
      | None \<Rightarrow>
          if \<not> validateAutoResponderMessageSize U u \<or> lv_db E n 0 then (Inl UErrSql, t)
          else
            (case sql_one (\<lambda>r. us_Id r = us_Id u) t of
               None \<Rightarrow> (Inl UErrSql, t)
             | Some old \<Rightarrow>
                 (case merged trusted old u of
                    Inl e \<Rightarrow> (Inl e, t)
                  | Inr w \<Rightarrow>
                      let others = filter (\<lambda>r. us_Id r \<noteq> us_Id u) t in
                      if lv_db E n 1 then (Inl UErrSql, t)
                      else if taken us_Username (us_Username w) others then (Inl (UErrConflict ''Username''), t)
                      else if us_AuthData w \<noteq> None \<and> taken us_AuthData (us_AuthData w) others then (Inl UErrSql, t)
                      else if taken us_Email (us_Email w) others then (Inl (UErrConflict ''Email''), t)
                      else (Inr (Sanitize w), snd (sql_update (\<lambda>r. us_Id r = us_Id u) (\<lambda>_. w) t)))))"

section \<open>Checking a password\<close>

text \<open>The third component tells whether the check made the account's cached copy invalid.\<close>

definition migratePassword ::
  "userLib \<Rightarrow> lmsEnv \<Rightarrow> nat \<Rightarrow> User \<Rightarrow> string \<Rightarrow> User list \<Rightarrow> app_error option \<times> User list \<times> bool" where
  "migratePassword U E n user password t =
     (case Hash (ul_hash U) n password of
        Inl _ \<Rightarrow> (Some (AppError ''app.user.check_user_password.failed_migration'' 500), t, False)
      | Inr newHash \<Rightarrow>
          (case UserStore_UpdatePassword E n (us_Id user) newHash t of
             (Some _, t1) \<Rightarrow> (Some (AppError ''app.user.check_user_password.failed_update'' 500), t1, False)
           | (None, t1) \<Rightarrow> (None, t1, True)))"

definition checkUserPassword ::
  "userLib \<Rightarrow> lmsEnv \<Rightarrow> nat \<Rightarrow> User \<Rightarrow> string \<Rightarrow> bool \<Rightarrow> User list \<Rightarrow> app_error option \<times> User list \<times> bool" where
  "checkUserPassword U E n user password invalidateCache t =
     (if us_Password user = [] \<or> password = [] then (Some (AppError ''api.user.check_user_password.invalid.app_error'' 401), t, False)
      else case GetHasherFromPHCString (us_Password user) of
             None \<Rightarrow> (Some (AppError ''api.user.check_user_password.invalid_hash.app_error'' 401), t, False)
           | Some (hasher, phc) \<Rightarrow>
               (case hasher_Compare (ul_hash U) hasher phc password of
                  Some ErrMismatchedHashAndPassword \<Rightarrow>
                    (case UserStore_UpdateFailedPasswordAttempts E n (us_Id user) (us_FailedAttempts user + 1) t of
                       (Some _, t1) \<Rightarrow> (Some (AppError ''app.user.update_failed_pwd_attempts.app_error'' 500), t1, False)
                     | (None, t1) \<Rightarrow> (Some (AppError ''api.user.check_user_password.invalid.app_error'' 401), t1, invalidateCache))
                | Some _ \<Rightarrow> (Some (AppError ''app.valid_password_generic.app_error'' 500), t, False)
                | None \<Rightarrow>
                    if \<not> IsLatestHasher hasher then migratePassword U E n user password t else (None, t, False)))"

section \<open>ASCII and code points\<close>

lemma decodeRune_ascii:
  "r < 128 \<Longrightarrow> fst (decodeRune bs) = r \<Longrightarrow> bs \<noteq> [] \<Longrightarrow> hd bs = r"
  by (auto simp: decodeRune_def contByte_def split: list.splits if_splits)

lemma contByte_high: "contByte lo hi b \<Longrightarrow> 128 \<le> lo \<Longrightarrow> 128 \<le> b"
  by (simp add: contByte_def)

text \<open>The bytes after the first of a longer sequence are not ASCII.\<close>

lemma decodeRune_width_cases:
  assumes "128 \<le> b0"
  shows "snd (decodeRune (b0 # r)) = 1
    \<or> (\<exists>b1 r'. r = b1 # r' \<and> 128 \<le> b1 \<and> snd (decodeRune (b0 # r)) = 2)
    \<or> (\<exists>b1 b2 r'. r = b1 # b2 # r' \<and> 128 \<le> b1 \<and> 128 \<le> b2 \<and> snd (decodeRune (b0 # r)) = 3)
    \<or> (\<exists>b1 b2 b3 r'. r = b1 # b2 # b3 # r' \<and> 128 \<le> b1 \<and> 128 \<le> b2 \<and> 128 \<le> b3 \<and> snd (decodeRune (b0 # r)) = 4)"
proof -
  consider "r = []" | b1 where "r = [b1]" | b1 b2 where "r = [b1, b2]" | b1 b2 b3 r' where "r = b1 # b2 # b3 # r'"
    by (metis neq_Nil_conv)
  then show ?thesis
  proof cases
    case 1
    then show ?thesis using assms by (simp add: decodeRune_def)
  next
    case 2
    then show ?thesis using assms contByte_high[of 128 191 b1] by (simp add: decodeRune_def)
  next
    case 3
    then show ?thesis
      using assms contByte_high[of 128 191 b1] contByte_high[of 128 191 b2] contByte_high[of "if b0 = 224 then 160 else 128" _ b1]
      by (auto simp: decodeRune_def)
  next
    case 4
    then show ?thesis
      using assms contByte_high[of 128 191 b1] contByte_high[of 128 191 b2] contByte_high[of 128 191 b3]
        contByte_high[of "if b0 = 224 then 160 else 128" _ b1] contByte_high[of "if b0 = 240 then 144 else 128" _ b1]
      by (auto simp: decodeRune_def)
  qed
qed

lemma decodeRune_taken:
  assumes "b \<in> set (take (snd (decodeRune bs)) bs)" "b < 128"
  shows "b = fst (decodeRune bs)"
proof (cases bs)
  case (Cons b0 r)
  show ?thesis
  proof (cases "b0 < 128")
    case True
    then show ?thesis using assms(1) Cons by (simp add: decodeRune_def)
  next
    case False
    then show ?thesis using assms decodeRune_width_cases[of b0 r] Cons by auto
  qed
qed (use assms in simp)

lemma decodeRune_tail:
  assumes "b \<in> set bs" "b < 128"
  shows "b = fst (decodeRune bs) \<or> b \<in> set (drop (snd (decodeRune bs)) bs)"
  using decodeRune_taken[OF _ assms(2), of bs] assms(1) by (metis UnE append_take_drop_id set_append)

text \<open>An ASCII byte is a code point of its own, and no other sequence decodes to one.\<close>

lemma runesOf_ascii_mem:
  assumes "r < 128"
  shows "r \<in> set (runesOf bs) \<longleftrightarrow> r \<in> set bs"
proof (induction bs rule: runesOf.induct)
  case (1 bs)
  show ?case
  proof (cases "bs = []")
    case True
    then show ?thesis by (simp add: runesOf.simps)
  next
    case False
    then have "runesOf bs = fst (decodeRune bs) # runesOf (drop (snd (decodeRune bs)) bs)" by (subst runesOf.simps) simp
    moreover have "r = fst (decodeRune bs) \<or> r \<in> set (drop (snd (decodeRune bs)) bs) \<longleftrightarrow> r \<in> set bs"
      using decodeRune_ascii[OF assms _ False] decodeRune_tail[OF _ assms, of bs] False by (metis hd_in_set in_set_dropD)
    ultimately show ?thesis using 1[OF False] by auto
  qed
qed

lemma runes_ascii_mem: "of_char c < (128::nat) \<Longrightarrow> of_char c \<in> set (runes s) \<longleftrightarrow> c \<in> set s"
  by (auto simp: runes_def runesOf_ascii_mem)

lemma encodeRune_ascii: "r < 128 \<Longrightarrow> encodeRune r = [r]"
  by (simp add: encodeRune_def)

lemma encodeRune_high: "128 \<le> r \<Longrightarrow> r < 1114112 \<Longrightarrow> b \<in> set (encodeRune r) \<Longrightarrow> 128 \<le> b \<and> b < 256"
proof -
  assume r: "128 \<le> r" "r < 1114112" and b: "b \<in> set (encodeRune r)"
  have m: "r mod 64 < 64" "r div 64 mod 64 < 64" "r div 4096 mod 64 < 64" by simp_all
  have d: "r < 2048 \<Longrightarrow> r div 64 < 32" "r < 65536 \<Longrightarrow> r div 4096 < 16" "r div 262144 < 5"
    using r(2) by (simp_all add: div_less_iff_less_mult)
  show ?thesis
  proof (cases "r < 2048")
    case True
    then show ?thesis using r b m d(1) by (auto simp: encodeRune_def)
  next
    case False
    then show ?thesis using r b m d(2,3) by (cases "r < 65536") (auto simp: encodeRune_def)
  qed
qed

lemma ofRunes_mem: "of_char c < (128::nat) \<Longrightarrow> of_char c \<in> set rs \<Longrightarrow> c \<in> set (ofRunes rs)"
proof -
  assume c: "of_char c < (128::nat)" "of_char c \<in> set rs"
  then have "of_char c \<in> set (concat (map encodeRune rs))" using encodeRune_ascii[OF c(1)] by force
  then show ?thesis by (metis char_of_char image_eqI list.set_map ofRunes_def)
qed

lemma ofRunes_memD:
  assumes "c \<in> set (ofRunes rs)" "of_char c < (128::nat)" "\<forall>r \<in> set rs. r < 1114112"
  shows "of_char c \<in> set rs"
proof -
  obtain r b where r: "r \<in> set rs" "b \<in> set (encodeRune r)" "c = char_of b" using assms(1) by (auto simp: ofRunes_def)
  show ?thesis
  proof (cases "r < 128")
    case True
    then show ?thesis using r by (simp add: encodeRune_ascii)
  next
    case False
    then have "128 \<le> b" "b < 256" using encodeRune_high[of r b] assms(3) r by auto
    then show ?thesis using r(3) assms(2) by simp
  qed
qed

lemma runes_ascii: "list_all (\<lambda>c. of_char c < (128::nat)) s \<Longrightarrow> runes s = map of_char s"
  by (simp add: runes_def runesOf_ascii list_all_iff)

lemma ofRunes_ascii: "list_all (\<lambda>c. of_char c < (128::nat)) s \<Longrightarrow> ofRunes (map of_char s) = s"
  by (induction s) (auto simp: ofRunes_def encodeRune_ascii)

lemma usernameChar_code:
  "usernameChar c \<Longrightarrow> of_char c < (128::nat) \<and> filterBlocklist (of_char c) = Some (of_char c) \<and> lowerRune U (of_char c) = of_char c"
  by (auto simp: usernameChar_def isDigit_def less_eq_char_def filterBlocklist_def lowerRune_def)

text \<open>A valid user name is stored as it is.\<close>

lemma username_fixed:
  assumes "list_all usernameChar s"
  shows "goToLower U s = s" "SanitizeUnicode s = s"
proof -
  have ascii: "list_all (\<lambda>c. of_char c < (128::nat)) s" using assms usernameChar_code by (auto simp: list_all_iff)
  have "List.map_filter (Some \<circ> lowerRune U) (map of_char s) = map of_char s"
    "List.map_filter filterBlocklist (map of_char s) = map of_char s"
    using assms usernameChar_code by (auto simp: List.map_filter_def list_all_iff filter_map comp_def intro!: map_cong filter_True)
  then show "goToLower U s = s" "SanitizeUnicode s = s"
    by (simp_all add: goToLower_def SanitizeUnicode_def strMap_def runes_ascii[OF ascii] ofRunes_ascii[OF ascii])
qed

lemma IsValidUsername_fixed: "IsValidUsername s \<Longrightarrow> goToLower U (SanitizeUnicode s) = s"
  by (simp add: IsValidUsername_def username_fixed)

text \<open>The sign that separates the two parts of an address is kept by both conversions.\<close>

lemma strMap_keeps:
  assumes "c \<in> set s" "of_char c < (128::nat)" "f (of_char c) = Some (of_char c)"
  shows "c \<in> set (strMap f s)"
proof -
  have "of_char c \<in> set (runes s)" using assms by (simp add: runes_ascii_mem)
  then have "of_char c \<in> set (List.map_filter f (runes s))" using assms(3) by (force simp: List.map_filter_def)
  then show ?thesis using assms(2) by (simp add: strMap_def ofRunes_mem)
qed

end
