(* ===== verification/Lms_Students.thy ===== *)
theory Lms_Students
  imports Lms_Classes Lms_Dates Users
begin

text \<open>
  Student and staff accounts: \<^verbatim>\<open>student.go\<close>, \<^verbatim>\<open>user.go\<close>, the conversion of a lead (\<^verbatim>\<open>lead.go\<close>) and the password reset
  (\<^verbatim>\<open>public.go\<close>) of \<^verbatim>\<open>channels/app/lms\<close>. Deleting an account also removes, by the foreign keys of the schema, the rows of
  other tables that belong to it; only the enrolments and the parents of other accounts are shown here.
\<close>

section \<open>Names\<close>

definition deriveUsernameFromEmail :: "userLib \<Rightarrow> string \<Rightarrow> string" where
  "deriveUsernameFromEmail U email =
     map (\<lambda>r. if (97 \<le> r \<and> r \<le> 122) \<or> (48 \<le> r \<and> r \<le> 57) \<or> r = 46 \<or> r = 45 \<or> r = 95 then char_of r else CHR ''-'')
       (runes (goToLower U (fst (str_cut (CHR ''@'') email))))"

definition maxUsernameAttempts :: nat where
  "maxUsernameAttempts = 20"

definition defaultStudentPassword :: string where
  "defaultStudentPassword = ''Student@123''"

section \<open>Students\<close>

definition userErr :: "string \<Rightarrow> string \<Rightarrow> user_error \<Rightarrow> app_error" where
  "userErr notFound other e = (if e = UErrNotFound then AppError notFound 404 else AppError other 500)"

definition GetStudent :: "lmsEnv \<Rightarrow> nat \<Rightarrow> string \<Rightarrow> User list \<Rightarrow> app_error + User" where
  "GetStudent E n i t =
     mapErr (userErr ''app.lms.student.not_found.app_error'' ''app.lms.student.get.app_error'') (UserStore_Get E n i t)"

text \<open>
  The loop has no bound of its own; \<^const>\<open>None\<close> would be a run that never returns. Each turn tries the next number
  after the base name. The result carries the tick after the last attempt.
\<close>

partial_function (option) saveRetry ::
  "userLib \<Rightarrow> lmsEnv \<Rightarrow> nat \<Rightarrow> string \<Rightarrow> nat \<Rightarrow> user_error option \<Rightarrow> User \<Rightarrow> User list \<Rightarrow> ((user_error + User) \<times> User list \<times> nat) option" where
  "saveRetry U E n base attempt err user t =
     (case err of
        None \<Rightarrow> Some (Inr user, t, n)
      | Some e \<Rightarrow>
          if e \<noteq> UErrInvalidInput ''username'' \<or> base = [] \<or> attempt \<ge> maxUsernameAttempts then Some (Inl e, t, n)
          else
            let (err1, user1, t1) = UserStore_Save U E n (user\<lparr>us_Id := [], us_Username := base @ decStr attempt\<rparr>) t
            in saveRetry U E (n + 2) base (attempt + 1) err1 user1 t1)"

definition saveStudentWithUniqueUsername ::
  "userLib \<Rightarrow> lmsEnv \<Rightarrow> nat \<Rightarrow> User \<Rightarrow> User list \<Rightarrow> ((user_error + User) \<times> User list \<times> nat) option" where
  "saveStudentWithUniqueUsername U E n user t =
     (let (err, user1, t1) = UserStore_Save U E n user t in saveRetry U E (n + 2) (us_Username user) 1 err user1 t1)"

definition createErr :: "user_error \<Rightarrow> app_error" where
  "createErr e =
     (if e = UErrInvalidInput ''email'' then AppError ''app.lms.student.email_exists.app_error'' 400
      else if e = UErrInvalidInput ''username'' then AppError ''app.user.save.username_exists.app_error'' 400
      else AppError ''app.lms.student.create.app_error'' 500)"

text \<open>The account as it is handed to the store.\<close>

definition newStudent :: "userLib \<Rightarrow> User \<Rightarrow> User" where
  "newStudent U user =
     (let candidate = deriveUsernameFromEmail U (us_Email user) in
      user\<lparr>us_Username := (if us_Username user = [] \<and> IsValidUsername candidate then candidate else us_Username user),
           us_Roles := ''lms_student'', us_EmailVerified := True, us_Password := defaultStudentPassword\<rparr>)"

definition withStudentProps :: "string \<Rightarrow> User \<Rightarrow> User" where
  "withStudentProps json user =
     user\<lparr>us_Props := Some (gm_set ''student'' json (case us_Props user of None \<Rightarrow> [] | Some m \<Rightarrow> m))\<rparr>"

definition CreateStudent ::
  "userLib \<Rightarrow> lmsEnv \<Rightarrow> nat \<Rightarrow> User option \<Rightarrow> string gomap option \<Rightarrow> User list \<Rightarrow> ((app_error + User) \<times> User list \<times> nat) option" where
  "CreateStudent U E n userOpt props t =
     (case userOpt of
        None \<Rightarrow> Some (Inl (AppError ''api.lms.create_student.bad_body.app_error'' 400), t, n)
      | Some user \<Rightarrow>
          if us_Email user = [] then Some (Inl (AppError ''app.lms.student.email.app_error'' 400), t, n)
          else
            let user1 = newStudent U user in
            (case (case props of None \<Rightarrow> Some user1 | Some m \<Rightarrow> map_option (\<lambda>j. withStudentProps j user1) (ul_marshal U m)) of
               None \<Rightarrow> Some (Inl (AppError ''app.lms.student.props_marshal.app_error'' 400), t, n)
             | Some user2 \<Rightarrow>
                 map_option (\<lambda>(r, t1, n1). (mapErr createErr r, t1, n1)) (saveStudentWithUniqueUsername U E n user2 t)))"

text \<open>Merging a partial account: fields that are set in the request replace the stored ones.\<close>

definition pick :: "string \<Rightarrow> string \<Rightarrow> string" where
  "pick new old = (if new \<noteq> [] then new else old)"

definition pickOpt :: "string option \<Rightarrow> string option \<Rightarrow> string option" where
  "pickOpt new old = (if new \<noteq> None \<and> new \<noteq> Some [] then new else old)"

definition mergeStudent :: "int \<Rightarrow> User \<Rightarrow> User \<Rightarrow> User" where
  "mergeStudent now user existing = existing\<lparr>
     us_FirstName := pick (us_FirstName user) (us_FirstName existing),
     us_LastName := pick (us_LastName user) (us_LastName existing),
     us_Nickname := pick (us_Nickname user) (us_Nickname existing),
     us_Position := pick (us_Position user) (us_Position existing),
     us_Phone := pickOpt (us_Phone user) (us_Phone existing),
     us_Email := pick (us_Email user) (us_Email existing),
     us_ParentId := pickOpt (us_ParentId user) (us_ParentId existing),
     us_Roles := pick (us_Roles user) (us_Roles existing),
     us_UpdateAt := now\<rparr>"

definition mergeProps :: "userLib \<Rightarrow> string gomap \<Rightarrow> User \<Rightarrow> User option" where
  "mergeProps U props existing =
     (let raw = propOf (us_Props existing) ''student'';
          existingProps = (if raw = [] then [] else case ul_unmarshal U raw of None \<Rightarrow> [] | Some m \<Rightarrow> m)
      in map_option (\<lambda>j. withStudentProps j existing) (ul_marshal U (fold (\<lambda>(k, v). gm_set k v) props existingProps)))"

definition UpdateStudent ::
  "userLib \<Rightarrow> lmsEnv \<Rightarrow> nat \<Rightarrow> User option \<Rightarrow> string gomap option \<Rightarrow> User list \<Rightarrow> (app_error + User) \<times> User list" where
  "UpdateStudent U E n userOpt props t =
     (case userOpt of
        None \<Rightarrow> (Inl (AppError ''api.lms.update_student.bad_body.app_error'' 400), t)
      | Some user \<Rightarrow>
          (case UserStore_Get E n (us_Id user) t of
             Inl e \<Rightarrow> (Inl (userErr ''app.lms.student.not_found.app_error'' ''app.lms.student.get.app_error'' e), t)
           | Inr existing \<Rightarrow>
               let existing1 = mergeStudent (lv_now E n 1) user existing in
               (case (case props of None \<Rightarrow> Some existing1 | Some m \<Rightarrow> mergeProps U m existing1) of
                  None \<Rightarrow> (Inl (AppError ''app.lms.student.props_marshal.app_error'' 400), t)
                | Some existing2 \<Rightarrow>
                    let (r, t1) = UserStore_Update U E (n + 1) existing2 True t
                    in (mapErr (userErr ''app.lms.student.not_found.app_error'' ''app.lms.student.update.app_error'') r, t1))))"

fun deleteEnrolments :: "lmsEnv \<Rightarrow> nat \<Rightarrow> StudentClass list \<Rightarrow> StudentClass list \<Rightarrow> app_error option \<times> StudentClass list" where
  "deleteEnrolments E n [] scs = (None, scs)"
| "deleteEnrolments E n (sc # rest) scs =
     (case StudentClassStore_Delete E n (sc_ID sc) scs of
        (Some _, scs1) \<Rightarrow> (Some (AppError ''app.lms.student.delete_enrollment.app_error'' 500), scs1)
      | (None, scs1) \<Rightarrow> deleteEnrolments E (n + 1) rest scs1)"

definition DeleteStudent ::
  "lmsEnv \<Rightarrow> nat \<Rightarrow> string \<Rightarrow> StudentClass list \<Rightarrow> User list \<Rightarrow> app_error option \<times> StudentClass list \<times> User list" where
  "DeleteStudent E n i scs t =
     (case UserStore_Get E n i t of
        Inl e \<Rightarrow> (Some (userErr ''app.lms.student.not_found.app_error'' ''app.lms.student.get.app_error'' e), scs, t)
      | Inr _ \<Rightarrow>
          (case StudentClassStore_GetByStudent E (n + 1) i scs of
             Inl _ \<Rightarrow> (Some (AppError ''app.lms.student.get_enrollments.app_error'' 500), scs, t)
           | Inr studentClasses \<Rightarrow>
               (case deleteEnrolments E (n + 3) studentClasses scs of
                  (Some e, scs1) \<Rightarrow> (Some e, scs1, t)
                | (None, scs1) \<Rightarrow>
                    (case UserStore_PermanentDelete E (n + 2) i t of
                       (Some _, t1) \<Rightarrow> (Some (AppError ''app.lms.student.delete.app_error'' 500), scs1, t1)
                     | (None, t1) \<Rightarrow> (None, filter (\<lambda>r. sc_StudentID r \<noteq> i) scs1, t1)))))"

definition GetConvertibleUsers :: "lmsEnv \<Rightarrow> nat \<Rightarrow> User list \<Rightarrow> app_error + User list" where
  "GetConvertibleUsers E n t =
     (case UserStore_GetAll E n t of
        Inl _ \<Rightarrow> Inl (AppError ''app.lms.student.get_all.app_error'' 500)
      | Inr users \<Rightarrow> Inr (filter (\<lambda>u. us_DeleteAt u = 0 \<and> \<not> IsInRole (us_Roles u) ''lms_student'') users))"

text \<open>The shape of the operations that read an account, change it and write it back.\<close>

definition editUser ::
  "userLib \<Rightarrow> lmsEnv \<Rightarrow> nat \<Rightarrow> (user_error \<Rightarrow> app_error) \<Rightarrow> (user_error \<Rightarrow> app_error) \<Rightarrow> (User \<Rightarrow> User) \<Rightarrow> string \<Rightarrow> User list
    \<Rightarrow> (app_error + User) \<times> User list" where
  "editUser U E n getErr updErr f i t =
     (case UserStore_Get E n i t of
        Inl e \<Rightarrow> (Inl (getErr e), t)
      | Inr user \<Rightarrow> (let (r, t1) = UserStore_Update U E (n + 1) (f user) True t in (mapErr updErr r, t1)))"

definition ConvertUserToStudent :: "userLib \<Rightarrow> lmsEnv \<Rightarrow> nat \<Rightarrow> string \<Rightarrow> User list \<Rightarrow> (app_error + User) \<times> User list" where
  "ConvertUserToStudent U E n = editUser U E n
     (userErr ''app.lms.student.not_found.app_error'' ''app.lms.student.get.app_error'')
     (userErr ''app.lms.student.not_found.app_error'' ''app.lms.student.update.app_error'')
     (\<lambda>u. u\<lparr>us_Roles := ''system_user lms_student''\<rparr>)"

definition RevertStudentToUser :: "userLib \<Rightarrow> lmsEnv \<Rightarrow> nat \<Rightarrow> string \<Rightarrow> User list \<Rightarrow> (app_error + User) \<times> User list" where
  "RevertStudentToUser U E n = editUser U E n
     (userErr ''app.lms.student.not_found.app_error'' ''app.lms.student.get.app_error'')
     (userErr ''app.lms.student.not_found.app_error'' ''app.lms.student.update.app_error'')
     (\<lambda>u. u\<lparr>us_Roles := ''system_user'', us_Props := map_option (gm_del ''student'') (us_Props u)\<rparr>)"

section \<open>Accounts\<close>

definition mergeUser :: "User \<Rightarrow> User \<Rightarrow> User" where
  "mergeUser user existing = existing\<lparr>
     us_Roles := pick (us_Roles user) (us_Roles existing),
     us_FirstName := pick (us_FirstName user) (us_FirstName existing),
     us_LastName := pick (us_LastName user) (us_LastName existing),
     us_Nickname := pick (us_Nickname user) (us_Nickname existing),
     us_Position := pick (us_Position user) (us_Position existing),
     us_Phone := pickOpt (us_Phone user) (us_Phone existing),
     us_Email := pick (us_Email user) (us_Email existing),
     us_Username := pick (us_Username user) (us_Username existing)\<rparr>"

definition UpdateUser :: "userLib \<Rightarrow> lmsEnv \<Rightarrow> nat \<Rightarrow> User \<Rightarrow> User list \<Rightarrow> (app_error + User) \<times> User list" where
  "UpdateUser U E n user = editUser U E n
     (userErr ''app.lms.user.not_found.app_error'' ''app.lms.user.get.app_error'')
     (userErr ''app.lms.user.not_found.app_error'' ''app.lms.user.update.app_error'')
     (mergeUser user) (us_Id user)"

definition DeleteUser :: "lmsEnv \<Rightarrow> nat \<Rightarrow> string \<Rightarrow> User list \<Rightarrow> app_error option \<times> User list" where
  "DeleteUser E n i t =
     (case UserStore_Get E n i t of
        Inl e \<Rightarrow> (Some (userErr ''app.lms.user.not_found.app_error'' ''app.lms.user.get.app_error'' e), t)
      | Inr _ \<Rightarrow>
          (case UserStore_PermanentDelete E (n + 1) i t of
             (Some _, t1) \<Rightarrow> (Some (AppError ''app.lms.user.delete.app_error'' 500), t1)
           | (None, t1) \<Rightarrow> (None, t1)))"

definition DeactivateUser :: "userLib \<Rightarrow> lmsEnv \<Rightarrow> nat \<Rightarrow> string \<Rightarrow> User list \<Rightarrow> (app_error + User) \<times> User list" where
  "DeactivateUser U E n = editUser U E n
     (userErr ''app.lms.user.not_found.app_error'' ''app.lms.user.get.app_error'') (\<lambda>_. AppError ''app.lms.user.update.app_error'' 500)
     (\<lambda>u. u\<lparr>us_UpdateAt := lv_now E n 1, us_DeleteAt := lv_now E n 1\<rparr>)"

definition ReactivateUser :: "userLib \<Rightarrow> lmsEnv \<Rightarrow> nat \<Rightarrow> string \<Rightarrow> User list \<Rightarrow> (app_error + User) \<times> User list" where
  "ReactivateUser U E n = editUser U E n
     (userErr ''app.lms.user.not_found.app_error'' ''app.lms.user.get.app_error'') (\<lambda>_. AppError ''app.lms.user.update.app_error'' 500)
     (\<lambda>u. u\<lparr>us_UpdateAt := lv_now E n 1, us_DeleteAt := 0\<rparr>)"

section \<open>Leads become students\<close>

definition zeroUser :: User where
  "zeroUser = \<lparr>us_Id = [], us_CreateAt = 0, us_UpdateAt = 0, us_DeleteAt = 0, us_Username = [], us_Password = [], us_AuthData = None,
     us_AuthService = [], us_Email = [], us_EmailVerified = False, us_Nickname = [], us_FirstName = [], us_LastName = [],
     us_Position = [], us_Roles = [], us_AllowMarketing = False, us_Props = None, us_NotifyProps = None,
     us_LastPasswordUpdate = 0, us_LastPictureUpdate = 0, us_FailedAttempts = 0, us_Locale = [], us_Timezone = None,
     us_MfaActive = False, us_MfaSecret = [], us_RemoteId = None, us_LastLogin = 0, us_MfaUsedTimestamps = [],
     us_Phone = None, us_ParentId = None\<rparr>"

definition stringOf :: "string option \<Rightarrow> string" where
  "stringOf v = (case v of None \<Rightarrow> [] | Some s \<Rightarrow> s)"

definition leadUser :: "string \<Rightarrow> Lead \<Rightarrow> User" where
  "leadUser hashed lead = zeroUser\<lparr>us_Username := stringOf (ld_Email lead), us_Password := hashed, us_Email := stringOf (ld_Email lead),
     us_Roles := ''lms_student'', us_Phone := ld_Phone lead, us_FirstName := ld_Name lead\<rparr>"

definition ConvertLeadToStudent ::
  "userLib \<Rightarrow> lmsEnv \<Rightarrow> nat \<Rightarrow> string \<Rightarrow> Lead list \<Rightarrow> User list \<Rightarrow> (app_error + User \<times> Lead) \<times> Lead list \<times> User list" where
  "ConvertLeadToStudent U E n leadID leads t =
     (case GetLead E n leadID leads of
        Inl e \<Rightarrow> (Inl e, leads, t)
      | Inr lead \<Rightarrow>
          (case BCrypt_Hash (ul_hash U) (n + 1) ''Student@123'' of
             Inl _ \<Rightarrow> (Inl (AppError ''app.lms.lead.hash_password.app_error'' 500), leads, t)
           | Inr hashed \<Rightarrow>
               (case UserStore_Save U E (n + 2) (leadUser hashed lead) t of
                  (Some _, _, t1) \<Rightarrow> (Inl (AppError ''app.lms.lead.create_user.app_error'' 500), leads, t1)
                | (None, savedUser, t1) \<Rightarrow>
                    (case LeadStore_Update E (n + 4) (lead\<lparr>ld_Status := ''ENROLLED'', ld_StudentID := Some (us_Id savedUser)\<rparr>) leads of
                       (Inl _, leads1) \<Rightarrow> (Inl (AppError ''app.lms.lead.update.app_error'' 500), leads1, t1)
                     | (Inr updatedLead, leads1) \<Rightarrow> (Inr (savedUser, updatedLead), leads1, t1)))))"

section \<open>Password reset\<close>

text \<open>\<^verbatim>\<open>Format(time.RFC3339)\<close> of an instant in seconds, for a server that runs in UTC.\<close>

definition formatRFC3339 :: "int \<Rightarrow> string" where
  "formatRFC3339 s =
     formatDate (dateOfDay (s div 86400)) @ ''T'' @ clockText (s mod 86400 div 3600) (s mod 3600 div 60) (s mod 60) @ ''Z''"

definition hexDigit :: "nat \<Rightarrow> char" where
  "hexDigit k = (if k < 10 then char_of (48 + k) else char_of (87 + k))"

definition hexEncode :: "string \<Rightarrow> string" where
  "hexEncode s = concat (map (\<lambda>c. [hexDigit (of_char c div 16), hexDigit (of_char c mod 16)]) s)"

definition setProp :: "string \<Rightarrow> string \<Rightarrow> User \<Rightarrow> User" where
  "setProp k v u = u\<lparr>us_Props := Some (gm_set k v (case us_Props u of None \<Rightarrow> [] | Some m \<Rightarrow> m))\<rparr>"

text \<open>\<open>random\<close> is what the random source returns for 32 bytes, \<^const>\<open>None\<close> when it fails.\<close>

definition SendPasswordReset ::
  "userLib \<Rightarrow> lmsEnv \<Rightarrow> nat \<Rightarrow> string option \<Rightarrow> string \<Rightarrow> User list \<Rightarrow> (app_error + string) \<times> User list" where
  "SendPasswordReset U E n random email t =
     (case UserStore_GetByEmail U E n email t of
        Inl UErrNotFound \<Rightarrow> (Inr [], t)
      | Inl _ \<Rightarrow> (Inl (AppError ''app.lms.public.send_password_reset.app_error'' 500), t)
      | Inr user \<Rightarrow>
          (case random of
             None \<Rightarrow> (Inl (AppError ''app.lms.public.generate_token.app_error'' 500), t)
           | Some b \<Rightarrow>
               let token = hexEncode b;
                   expiry = unixEpoch div 1000 + lv_now E n 1 div 1000 + 3600;
                   user1 = setProp ''reset_token_expiry'' (formatRFC3339 expiry) (setProp ''reset_token'' token user)
               in (case UserStore_Update U E (n + 1) user1 False t of
                     (Inl _, t1) \<Rightarrow> (Inl (AppError ''app.lms.public.update_user.app_error'' 500), t1)
                   | (Inr _, t1) \<Rightarrow> (Inr token, t1))))"

definition hasToken :: "string \<Rightarrow> User \<Rightarrow> bool" where
  "hasToken token u \<longleftrightarrow> propOf (us_Props u) ''reset_token'' = token \<and> propOf (us_Props u) ''reset_token_expiry'' \<noteq> []"

definition VerifyResetToken :: "lmsEnv \<Rightarrow> nat \<Rightarrow> string \<Rightarrow> User list \<Rightarrow> app_error + bool" where
  "VerifyResetToken E n token t =
     (if token = [] then Inr False
      else case UserStore_GetAll E n t of
             Inl _ \<Rightarrow> Inl (AppError ''app.lms.public.get_users.app_error'' 500)
           | Inr users \<Rightarrow>
               (case find (hasToken token) users of
                  None \<Rightarrow> Inr False
                | Some u \<Rightarrow>
                    (case parseRFC3339 (propOf (us_Props u) ''reset_token_expiry'') of
                       None \<Rightarrow> Inr False
                     | Some expiry \<Rightarrow> Inr (vnNow (lv_now E n 1) < expiry * 1000))))"

definition ResetPassword ::
  "userLib \<Rightarrow> lmsEnv \<Rightarrow> nat \<Rightarrow> string \<Rightarrow> string \<Rightarrow> User list \<Rightarrow> app_error option \<times> User list" where
  "ResetPassword U E n token newPassword t =
     (if token = [] \<or> newPassword = [] then (Some (AppError ''app.lms.public.reset_password.missing.app_error'' 400), t)
      else case UserStore_GetAll E n t of
             Inl _ \<Rightarrow> (Some (AppError ''app.lms.public.get_users.app_error'' 500), t)
           | Inr users \<Rightarrow>
               (case find (hasToken token) users of
                  None \<Rightarrow> (Some (AppError ''app.lms.public.reset_password.invalid_token.app_error'' 400), t)
                | Some u \<Rightarrow>
                    (case parseRFC3339 (propOf (us_Props u) ''reset_token_expiry'') of
                       None \<Rightarrow> (Some (AppError ''app.lms.public.reset_password.expired.app_error'' 400), t)
                     | Some expiry \<Rightarrow>
                         if vnNow (lv_now E n 1) > expiry * 1000
                         then (Some (AppError ''app.lms.public.reset_password.expired.app_error'' 400), t)
                         else
                           let u1 = u\<lparr>us_Props := map_option (gm_del ''reset_token_expiry'' \<circ> gm_del ''reset_token'') (us_Props u),
                                      us_Password := newPassword\<rparr>
                           in (case UserStore_Update U E (n + 1) u1 False t of
                                 (Inl _, t1) \<Rightarrow> (Some (AppError ''app.lms.public.update_password.app_error'' 500), t1)
                               | (Inr _, t1) \<Rightarrow> (None, t1)))))"

section \<open>What saving an account does\<close>

lemma UserStore_Save_cases:
  obtains (refused) e u1 where "UserStore_Save U E n u t = (Some e, u1, t)"
  | (saved) u1 where "UserStore_Save U E n u t = (None, u1, t @ [insertedRow u1])" "User_PreSave U E n u = (None, u1)"
      "User_IsValid U E n u1 = None" "\<not> taken us_Username (us_Username u1) t" "\<not> taken us_Email (us_Email u1) t" "\<not> taken us_Id (us_Id u1) t"
proof -
  obtain e u1 where p: "User_PreSave U E n u = (e, u1)" by (meson surj_pair)
  obtain r t1 where i: "UserStore_insert U E n u1 t = (r, t1)" by (meson surj_pair)
  have ins: "(r \<noteq> None \<and> t1 = t) \<or> (r = None \<and> t1 = t @ [insertedRow u1] \<and> \<not> taken us_Username (us_Username u1) t
      \<and> \<not> taken us_Email (us_Email u1) t \<and> \<not> taken us_Id (us_Id u1) t)"
    using i by (auto simp: UserStore_insert_def split: if_splits)
  show ?thesis
  proof (cases "(us_Id u \<noteq> [] \<and> \<not> IsRemote u) \<or> e \<noteq> None \<or> User_IsValid U E n u1 \<noteq> None \<or> r \<noteq> None")
    case True
    then have "\<exists>e' u'. UserStore_Save U E n u t = (Some e', u', t)"
      using p i ins by (auto simp: UserStore_Save_def split: option.split)
    then show ?thesis using refused by blast
  next
    case False
    then show ?thesis using p i ins by (intro saved[of u1]) (auto simp: UserStore_Save_def)
  qed
qed

lemma saveCustomStatus_same: "\<exists>p. saveCustomStatus U n u = u\<lparr>us_Props := p\<rparr>"
proof (cases "if propOf (us_Props u) ''customStatus'' = [] then None else ul_customStatus U n (propOf (us_Props u) ''customStatus'')")
  case None
  then show ?thesis by (intro exI[of _ "us_Props u"]) (simp add: saveCustomStatus_def Let_def)
next
  case (Some s)
  then show ?thesis unfolding saveCustomStatus_def Let_def Some option.case by blast
qed

lemma withNotifications_same: "\<exists>p. withNotifications u = u\<lparr>us_NotifyProps := p\<rparr>"
proof (cases "us_NotifyProps u = None \<or> us_NotifyProps u = Some []")
  case True
  then show ?thesis unfolding withNotifications_def SetDefaultNotifications_def by auto
next
  case False
  then have "withNotifications u = u" unfolding withNotifications_def by (rule if_not_P)
  then show ?thesis by (intro exI[of _ "us_NotifyProps u"]) simp
qed

definition storedName :: "userLib \<Rightarrow> lmsEnv \<Rightarrow> nat \<Rightarrow> User \<Rightarrow> string" where
  "storedName U E n u = goToLower U (SanitizeUnicode (if us_Username u = [] then CHR ''a'' # lv_newId E (n + 1) else us_Username u))"

lemma preSaveFields_eq:
  "us_Roles (preSaveFields U E n u) = us_Roles u" "us_EmailVerified (preSaveFields U E n u) = us_EmailVerified u"
  "us_Username (preSaveFields U E n u) = storedName U E n u" "us_Email (preSaveFields U E n u) = goToLower U (us_Email u)"
  "us_RemoteId (preSaveFields U E n u) = us_RemoteId u" "us_Password (preSaveFields U E n u) = us_Password u"
proof -
  define w where "w = u\<lparr>us_Id := (if us_Id u = [] then lv_newId E n else us_Id u), us_Username := storedName U E n u,
      us_AuthData := (if us_AuthData u = Some [] then None else us_AuthData u),
      us_FirstName := SanitizeUnicode (us_FirstName u), us_LastName := SanitizeUnicode (us_LastName u),
      us_Nickname := SanitizeUnicode (us_Nickname u), us_Email := goToLower U (us_Email u),
      us_CreateAt := (if us_CreateAt u = 0 then lv_now E n 0 else us_CreateAt u),
      us_UpdateAt := (if us_CreateAt u = 0 then lv_now E n 0 else us_CreateAt u),
      us_LastPasswordUpdate := (if us_CreateAt u = 0 then lv_now E n 0 else us_CreateAt u),
      us_MfaActive := False, us_Locale := (if us_Locale u = [] then ''en'' else us_Locale u),
      us_Props := (if us_Props u = None then Some [] else us_Props u),
      us_Timezone := (if us_Timezone u = None then Some DefaultUserTimezone else us_Timezone u)\<rparr>"
  have e: "preSaveFields U E n u = withNotifications w" unfolding preSaveFields_def Let_def w_def storedName_def by (rule refl)
  obtain p where p: "withNotifications w = w\<lparr>us_NotifyProps := p\<rparr>" using withNotifications_same by blast
  show "us_Roles (preSaveFields U E n u) = us_Roles u" "us_EmailVerified (preSaveFields U E n u) = us_EmailVerified u"
    "us_Username (preSaveFields U E n u) = storedName U E n u" "us_Email (preSaveFields U E n u) = goToLower U (us_Email u)"
    "us_RemoteId (preSaveFields U E n u) = us_RemoteId u" "us_Password (preSaveFields U E n u) = us_Password u"
    unfolding e p by (simp_all add: w_def)
qed

lemma PreSave_shape:
  "\<exists>pw p. snd (User_PreSave U E n u) = (preSaveFields U E n u)\<lparr>us_Password := pw, us_Props := p\<rparr>"
proof -
  let ?u = "preSaveFields U E n u"
  consider "us_Password ?u = []" | e where "us_Password ?u \<noteq> []" "hashedOf U n (us_Password ?u) = Inl e"
    | h where "us_Password ?u \<noteq> []" "hashedOf U n (us_Password ?u) = Inr h"
    by (meson sum.exhaust)
  then show ?thesis
  proof cases
    case 1
    obtain p where "saveCustomStatus U n ?u = ?u\<lparr>us_Props := p\<rparr>" using saveCustomStatus_same by blast
    then show ?thesis using 1 by (intro exI[of _ "[]"] exI[of _ p]) (simp add: User_PreSave_def Let_def)
  next
    case 2
    then show ?thesis by (intro exI[of _ "us_Password ?u"] exI[of _ "us_Props ?u"]) (simp add: User_PreSave_def Let_def)
  next
    case 3
    obtain p where "saveCustomStatus U n (?u\<lparr>us_Password := h\<rparr>) = ?u\<lparr>us_Password := h, us_Props := p\<rparr>" using saveCustomStatus_same by blast
    then show ?thesis using 3 by (intro exI[of _ h] exI[of _ p]) (simp add: User_PreSave_def Let_def)
  qed
qed

lemma preSave_fields [simp]:
  "us_Roles (snd (User_PreSave U E n u)) = us_Roles u" "us_EmailVerified (snd (User_PreSave U E n u)) = us_EmailVerified u"
  "us_Username (snd (User_PreSave U E n u)) = storedName U E n u" "us_Email (snd (User_PreSave U E n u)) = goToLower U (us_Email u)"
  "us_RemoteId (snd (User_PreSave U E n u)) = us_RemoteId u"
  using PreSave_shape[of U E n u] by (auto simp: preSaveFields_eq)

lemma UserStore_Save_struct:
  assumes "UserStore_Save U E n u t = (e, u1, t1)"
  shows "us_Roles u1 = us_Roles u" "us_EmailVerified u1 = us_EmailVerified u"
    "(e \<noteq> None \<and> t1 = t) \<or> (e = None \<and> t1 = t @ [insertedRow u1])"
proof -
  have "u1 = u \<or> u1 = snd (User_PreSave U E n u)"
    using assms by (auto simp: UserStore_Save_def split: if_splits prod.splits option.splits)
  then show "us_Roles u1 = us_Roles u" "us_EmailVerified u1 = us_EmailVerified u" by auto
  show "(e \<noteq> None \<and> t1 = t) \<or> (e = None \<and> t1 = t @ [insertedRow u1])"
    by (cases rule: UserStore_Save_cases[of U E n u t]; use assms in auto)
qed

section \<open>Creating a student\<close>

text \<open>The loop returns, having added at most one account.\<close>

definition retryOutcome :: "user_error option \<Rightarrow> User \<Rightarrow> User list \<Rightarrow> user_error + User \<Rightarrow> User list \<Rightarrow> bool" where
  "retryOutcome err user t r t1 \<longleftrightarrow>
     (case r of Inl e \<Rightarrow> t1 = t \<and> err \<noteq> None
      | Inr s \<Rightarrow> us_Roles s = us_Roles user \<and> us_EmailVerified s = us_EmailVerified user
          \<and> (if err = None then t1 = t \<and> s = user else t1 = t @ [insertedRow s]))"

lemma saveRetry_returns:
  assumes "attempt \<le> 20"
  shows "\<exists>r t1 n1. saveRetry U E n base attempt err user t = Some (r, t1, n1) \<and> n1 \<le> n + 2 * (20 - attempt)
    \<and> retryOutcome err user t r t1"
  using assms
proof (induction "20 - attempt" arbitrary: attempt n err user t)
  case 0
  then show ?case by (subst saveRetry.simps) (simp add: maxUsernameAttempts_def retryOutcome_def split: option.split)
next
  case (Suc k)
  show ?case
  proof (cases "err = None \<or> err \<noteq> Some (UErrInvalidInput ''username'') \<or> base = []")
    case True
    then show ?thesis by (subst saveRetry.simps) (cases err; simp add: retryOutcome_def)
  next
    case False
    have a: "attempt < 20" "k = 20 - (attempt + 1)" "attempt + 1 \<le> 20" using Suc.hyps(2) by auto
    let ?u = "user\<lparr>us_Id := [], us_Username := base @ decStr attempt\<rparr>"
    obtain e u1 t1 where s: "UserStore_Save U E n ?u t = (e, u1, t1)" by (rule prod_cases3)
    have step: "saveRetry U E n base attempt err user t = saveRetry U E (n + 2) base (attempt + 1) e u1 t1"
      using False a(1) s by (subst saveRetry.simps) (auto simp: maxUsernameAttempts_def)
    note u1 = UserStore_Save_struct(1,2)[OF s, simplified] and t1 = UserStore_Save_struct(3)[OF s]
    obtain r t2 n1 where r: "saveRetry U E (n + 2) base (attempt + 1) e u1 t1 = Some (r, t2, n1)" "n1 \<le> n + 2 + 2 * (20 - (attempt + 1))"
      "retryOutcome e u1 t1 r t2"
      using Suc.hyps(1)[OF a(2,3), of "n + 2" e u1 t1] by blast
    have "n1 \<le> n + 2 * (20 - attempt)" using r(2) a(1) by linarith
    moreover have "retryOutcome err user t r t2"
      using r(3) t1 u1 False unfolding retryOutcome_def by (cases r; cases e; simp)
    ultimately show ?thesis using step r(1) by auto
  qed
qed

text \<open>
  C22: Creating a student returns. Whatever the request and the state of the database, the loop over user names ends
  after at most 20 attempts (two ticks each); when the request fails no account is stored, and when it succeeds
  exactly one account has been added, with the student role and a verified address.
\<close>

theorem student_creation_returns:
  "\<exists>r t1 n1. CreateStudent U E n userOpt props t = Some (r, t1, n1) \<and> n1 \<le> n + 40
     \<and> (case r of Inl e \<Rightarrow> t1 = t
        | Inr s \<Rightarrow> t1 = t @ [insertedRow s] \<and> us_Roles s = ''lms_student'' \<and> us_EmailVerified s)"
proof -
  have save: "\<exists>r t1 n1. saveStudentWithUniqueUsername U E n u t = Some (r, t1, n1) \<and> n1 \<le> n + 40
     \<and> (case r of Inl e \<Rightarrow> t1 = t | Inr s \<Rightarrow> t1 = t @ [insertedRow s] \<and> us_Roles s = us_Roles u \<and> us_EmailVerified s = us_EmailVerified u)"
    for u
  proof -
    obtain e u1 t1 where s: "UserStore_Save U E n u t = (e, u1, t1)" by (rule prod_cases3)
    note u1 = UserStore_Save_struct(1,2)[OF s] and t1 = UserStore_Save_struct(3)[OF s]
    have one: "(1::nat) \<le> 20" by simp
    obtain r t2 n1 where r: "saveRetry U E (n + 2) (us_Username u) 1 e u1 t1 = Some (r, t2, n1)" "n1 \<le> n + 2 + 2 * (20 - 1)"
      "retryOutcome e u1 t1 r t2"
      using saveRetry_returns[OF one, of U E "n + 2" "us_Username u" e u1 t1] by blast
    moreover have "case r of Inl e' \<Rightarrow> t2 = t
        | Inr s' \<Rightarrow> t2 = t @ [insertedRow s'] \<and> us_Roles s' = us_Roles u \<and> us_EmailVerified s' = us_EmailVerified u"
      using r(3) t1 u1 unfolding retryOutcome_def by (cases r; cases e; simp)
    ultimately show ?thesis using s by (simp add: saveStudentWithUniqueUsername_def)
  qed
  show ?thesis
  proof (cases userOpt)
    case None
    then show ?thesis by (simp add: CreateStudent_def)
  next
    case (Some user)
    let ?u2 = "case props of None \<Rightarrow> Some (newStudent U user)
      | Some m \<Rightarrow> map_option (\<lambda>j. withStudentProps j (newStudent U user)) (ul_marshal U m)"
    show ?thesis
    proof (cases "us_Email user = [] \<or> ?u2 = None")
      case True
      then show ?thesis using Some by (auto simp: CreateStudent_def Let_def)
    next
      case False
      then obtain u2 where u2: "?u2 = Some u2" by auto
      then have f: "us_Roles u2 = ''lms_student''" "us_EmailVerified u2"
        by (auto simp: newStudent_def withStudentProps_def Let_def split: option.splits)
      obtain r t1 n1 where r: "saveStudentWithUniqueUsername U E n u2 t = Some (r, t1, n1)" "n1 \<le> n + 40"
        "case r of Inl e \<Rightarrow> t1 = t | Inr s \<Rightarrow> t1 = t @ [insertedRow s] \<and> us_Roles s = us_Roles u2 \<and> us_EmailVerified s = us_EmailVerified u2"
        using save[of u2] by blast
      have "CreateStudent U E n userOpt props t = Some (mapErr createErr r, t1, n1)"
        using Some False u2 r(1) by (simp add: CreateStudent_def Let_def)
      then show ?thesis using r(2,3) f by (cases r; simp)
    qed
  qed
qed

section \<open>A name that is taken\<close>

text \<open>
  Documented lengths of the hashing library: 16 bytes of salt are read, and PBKDF2 derives the number of bytes
  asked for.
\<close>

definition hashLib_ok :: "hashLib \<Rightarrow> bool" where
  "hashLib_ok L \<longleftrightarrow> (\<forall>n s. hl_salt L n = Some s \<longrightarrow> length s = 16) \<and> (\<forall>p s k. hl_key L p s 600000 32 = Some k \<longrightarrow> length k = 32)"

lemma Hash_long: "hashLib_ok L \<Longrightarrow> Hash L n p = Inr h \<Longrightarrow> length h = 97"
  by (auto simp: Hash_eq hashLib_ok_def phcString_length split: if_splits option.splits)

lemma hashedOf_long: "hashLib_ok (ul_hash U) \<Longrightarrow> hashedOf U n p = Inr h \<Longrightarrow> length h = 97"
  by (auto simp: hashedOf_def dest: Hash_long split: sum.splits hash_error.splits)

lemma hashedOf_refuses: "72 < length p \<Longrightarrow> hashedOf U n p = Inl (AppError ''model.user.pre_save.password_too_long.app_error'' 400)"
  by (simp add: hashedOf_def Hash_eq)

text \<open>After a failed attempt the struct holds the hash, which is too long to be hashed again.\<close>

lemma PreSave_password:
  assumes "hashLib_ok (ul_hash U)" "us_Password u \<noteq> []" "User_PreSave U E n u = (None, u1)"
  shows "length (us_Password u1) = 97"
proof -
  let ?u = "preSaveFields U E n u"
  obtain h where h: "hashedOf U n (us_Password u) = Inr h" "u1 = saveCustomStatus U n (?u\<lparr>us_Password := h\<rparr>)"
    using assms(2,3) by (cases "hashedOf U n (us_Password u)") (simp_all add: User_PreSave_def preSaveFields_eq Let_def)
  obtain p where "saveCustomStatus U n (?u\<lparr>us_Password := h\<rparr>) = ?u\<lparr>us_Password := h, us_Props := p\<rparr>" using saveCustomStatus_same by blast
  then show ?thesis using h hashedOf_long[OF assms(1) h(1)] by simp
qed

lemma Save_long_password:
  assumes "72 < length (us_Password u)" "us_Id u = []"
  shows "\<exists>e u1. UserStore_Save U E n u t = (Some (UErrApp e), u1, t)"
proof -
  have "us_Password u \<noteq> []" using assms(1) by auto
  then show ?thesis
    using assms(2) hashedOf_refuses[OF assms(1)] by (simp add: UserStore_Save_def User_PreSave_def preSaveFields_eq Let_def)
qed

lemma Save_username_error:
  assumes "UserStore_Save U E n u t = (Some (UErrInvalidInput ''username''), u1, t1)"
  shows "User_PreSave U E n u = (None, u1)"
proof -
  obtain e w where p: "User_PreSave U E n u = (e, w)" by (meson surj_pair)
  show ?thesis
  proof (cases "e = None \<and> User_IsValid U E n w = None")
    case True
    then show ?thesis using assms p by (simp add: UserStore_Save_def case_prod_beta split: if_splits)
  next
    case False
    then show ?thesis using assms p by (simp add: UserStore_Save_def split: if_splits option.splits)
  qed
qed

lemma saveStudent_taken:
  assumes "hashLib_ok (ul_hash U)" "us_Password u \<noteq> []" "taken us_Username (storedName U E n u) t"
  shows "\<exists>e n1. saveStudentWithUniqueUsername U E n u t = Some (Inl e, t, n1)"
proof -
  obtain e u1 where s: "UserStore_Save U E n u t = (Some e, u1, t)"
  proof (cases rule: UserStore_Save_cases[of U E n u t])
    case (saved u1)
    then show ?thesis using assms(3) preSave_fields(3)[of U E n u] by simp
  qed (rule that)
  let ?u = "u1\<lparr>us_Id := [], us_Username := us_Username u @ decStr 1\<rparr>"
  show ?thesis
  proof (cases "e = UErrInvalidInput ''username'' \<and> us_Username u \<noteq> []")
    case True
    have "length (us_Password u1) = 97"
      using PreSave_password[OF assms(1,2) Save_username_error] s True by blast
    then obtain e2 u2 where s2: "UserStore_Save U E (n + 2) ?u t = (Some (UErrApp e2), u2, t)"
      using Save_long_password[of ?u U E "n + 2" t] by auto
    have "saveRetry U E (n + 2) (us_Username u) 1 (Some e) u1 t = saveRetry U E (n + 4) (us_Username u) 2 (Some (UErrApp e2)) u2 t"
      using True s2 by (subst saveRetry.simps) (simp add: maxUsernameAttempts_def numeral_eq_Suc)
    also have "\<dots> = Some (Inl (UErrApp e2), t, n + 4)" by (subst saveRetry.simps) simp
    finally show ?thesis using s by (simp add: saveStudentWithUniqueUsername_def)
  next
    case False
    then have "saveRetry U E (n + 2) (us_Username u) 1 (Some e) u1 t = Some (Inl e, t, n + 2)"
      by (subst saveRetry.simps) auto
    then show ?thesis using s by (simp add: saveStudentWithUniqueUsername_def)
  qed
qed

text \<open>
  C23: A taken user name is never resolved. When the name derived from the address belongs to another account, the
  creation of the student fails and nothing is stored: the numbered names are never used. The first attempt
  replaces the password of the struct by its hash, and the second one refuses to hash that string, which is longer
  than 72 bytes.
\<close>

theorem taken_username_never_resolved:
  assumes "hashLib_ok (ul_hash U)" and "us_Username user = []"
    and "IsValidUsername (deriveUsernameFromEmail U (us_Email user))" and "taken us_Username (deriveUsernameFromEmail U (us_Email user)) t"
  shows "\<exists>e n1. CreateStudent U E n (Some user) props t = Some (Inl e, t, n1)"
proof -
  have name: "storedName U E n u = deriveUsernameFromEmail U (us_Email user)"
    if "us_Username u = deriveUsernameFromEmail U (us_Email user)" for u
    using assms(3) that by (auto simp: storedName_def IsValidUsername_fixed) (simp add: IsValidUsername_def)
  have new: "us_Username (newStudent U user) = deriveUsernameFromEmail U (us_Email user)" "us_Password (newStudent U user) \<noteq> []"
    using assms(2,3) by (simp_all add: newStudent_def Let_def defaultStudentPassword_def)
  have save: "\<exists>e n1. saveStudentWithUniqueUsername U E n u t = Some (Inl e, t, n1)"
    if "u = newStudent U user \<or> (\<exists>j. u = withStudentProps j (newStudent U user))" for u
    using that new name[of u] assms(1,4) by (intro saveStudent_taken) (auto simp: withStudentProps_def)
  let ?u2 = "case props of None \<Rightarrow> Some (newStudent U user)
    | Some m \<Rightarrow> map_option (\<lambda>j. withStudentProps j (newStudent U user)) (ul_marshal U m)"
  show ?thesis
  proof (cases "us_Email user = [] \<or> ?u2 = None")
    case True
    then show ?thesis by (auto simp: CreateStudent_def Let_def)
  next
    case False
    then obtain u2 where u2: "?u2 = Some u2" by auto
    then obtain e n1 where "saveStudentWithUniqueUsername U E n u2 t = Some (Inl e, t, n1)"
      using save[of u2] by (auto split: option.splits)
    then show ?thesis using False u2 by (simp add: CreateStudent_def Let_def)
  qed
qed

text \<open>A library for the examples: no letters above 127, every address with one separator is accepted.\<close>

definition demoUserLib :: userLib where
  "demoUserLib = \<lparr>ul_hash = demoHash, ul_lower = \<lambda>r. min r 1114111, ul_parseAddress = \<lambda>s. if CHR ''@'' \<in> set s then Some s else None,
     ul_language = \<lambda>_. True, ul_jsonRunes = length, ul_customStatus = \<lambda>_ _. None, ul_sqlLower = str_lower,
     ul_marshal = \<lambda>_. Some ''{}'', ul_unmarshal = \<lambda>_. Some [], ul_maxPostSize = 1000\<rparr>"

lemma demoUserLib_simps [simp]:
  "ul_hash demoUserLib = demoHash" "ul_lower demoUserLib r = min r 1114111" "ul_language demoUserLib s" "ul_jsonRunes demoUserLib m = length m"
  "ul_customStatus demoUserLib n s = None" "ul_maxPostSize demoUserLib = 1000"
  "ul_parseAddress demoUserLib s = (if CHR ''@'' \<in> set s then Some s else None)"
  by (simp_all add: demoUserLib_def)

lemma demoHash_ok [simp]: "hashLib_ok demoHash"
  by (simp add: hashLib_ok_def demoHash_def min_def)

lemma demo_derive: "deriveUsernameFromEmail demoUserLib ''Ann@x.com'' = ''ann''"
proof -
  have "goToLower demoUserLib ''Ann'' = ''ann''"
    using char_of_char[of "CHR ''a''", where 'a = nat] char_of_char[of "CHR ''n''", where 'a = nat]
    by (simp add: goToLower_def strMap_def runes_ascii List.map_filter_def lowerRune_def ofRunes_def encodeRune_def)
  then show ?thesis
    using char_of_char[of "CHR ''a''", where 'a = nat] char_of_char[of "CHR ''n''", where 'a = nat]
    by (simp add: deriveUsernameFromEmail_def runes_ascii)
qed

theorem taken_username_never_resolved_witness:
  "\<exists>e n1. CreateStudent demoUserLib lmsDemo 0 (Some (zeroUser\<lparr>us_Email := ''Ann@x.com''\<rparr>)) None [zeroUser\<lparr>us_Username := ''ann''\<rparr>]
     = Some (Inl e, [zeroUser\<lparr>us_Username := ''ann''\<rparr>], n1)"
proof (rule taken_username_never_resolved)
  let ?u = "zeroUser\<lparr>us_Email := ''Ann@x.com''\<rparr>"
  show "hashLib_ok (ul_hash demoUserLib)" by simp
  show "us_Username ?u = []" by (simp add: zeroUser_def)
  show "IsValidUsername (deriveUsernameFromEmail demoUserLib (us_Email ?u))"
    by (simp add: demo_derive IsValidUsername_def usernameChar_def less_eq_char_def restrictedUsernames_def)
  show "taken us_Username (deriveUsernameFromEmail demoUserLib (us_Email ?u)) [zeroUser\<lparr>us_Username := ''ann''\<rparr>]"
    by (simp add: demo_derive taken_def)
qed

section \<open>Leads never become students\<close>

text \<open>
  Documented behaviour of the libraries: the lower case of a letter above 127 is a code point and is not the sign that
  separates the parts of an address, and \<^verbatim>\<open>mail.ParseAddress\<close> returns an address with both parts.
\<close>

definition addresses_ok :: "userLib \<Rightarrow> bool" where
  "addresses_ok U \<longleftrightarrow> (\<forall>r \<ge> 128. ul_lower U r < 1114112 \<and> ul_lower U r \<noteq> 64) \<and> (\<forall>s a. ul_parseAddress U s = Some a \<longrightarrow> CHR ''@'' \<in> set a)"

lemma goToLower_at:
  assumes "addresses_ok U" "CHR ''@'' \<in> set (goToLower U s)"
  shows "CHR ''@'' \<in> set s"
proof -
  have low: "lowerRune U r < 1114112" for r using assms(1) by (simp add: lowerRune_def addresses_ok_def)
  have "of_char (CHR ''@'') \<in> set (map (lowerRune U) (runes s))"
    using assms(2) low by (intro ofRunes_memD) (auto simp: goToLower_def strMap_def List.map_filter_def comp_def)
  then obtain r where r: "r \<in> set (runes s)" "lowerRune U r = 64" by auto
  then have "r = 64" using assms(1) by (auto simp: lowerRune_def addresses_ok_def split: if_splits)
  then show ?thesis using r(1) runes_ascii_mem[of "CHR ''@''" s] by simp
qed

lemma at_kept:
  assumes "CHR ''@'' \<in> set s"
  shows "CHR ''@'' \<in> set (goToLower U (SanitizeUnicode s))"
proof -
  have "CHR ''@'' \<in> set (SanitizeUnicode s)"
    unfolding SanitizeUnicode_def using assms by (rule strMap_keeps) (simp_all add: filterBlocklist_def)
  then show ?thesis unfolding goToLower_def by (rule strMap_keeps) (simp_all add: lowerRune_def)
qed

lemma at_no_username: "CHR ''@'' \<in> set s \<Longrightarrow> \<not> IsValidUsername s"
  by (auto simp: IsValidUsername_def list_all_iff usernameChar_def isDigit_def less_eq_char_def intro!: bexI[of _ "CHR ''@''"])

lemma IsValid_name_and_email:
  assumes "User_IsValid U E n u = None" "\<not> IsRemote u"
  shows "IsValidUsername (us_Username u) \<and> IsValidEmail U (us_Email u)"
  using assms unfolding User_IsValid_def by (simp split: if_splits)

lemma leadUser_refused:
  assumes "addresses_ok U"
  shows "\<exists>e u1. UserStore_Save U E n (leadUser h lead) t = (Some e, u1, t)"
proof (cases rule: UserStore_Save_cases[of U E n "leadUser h lead" t])
  case (refused e u1)
  then show ?thesis by blast
next
  case (saved u1)
  let ?m = "stringOf (ld_Email lead)"
  have lead: "us_Username (leadUser h lead) = ?m" "us_Email (leadUser h lead) = ?m" "us_RemoteId (leadUser h lead) = None"
    by (simp_all add: leadUser_def zeroUser_def)
  have f: "us_Username u1 = storedName U E n (leadUser h lead)" "us_Email u1 = goToLower U ?m" "us_RemoteId u1 = None"
    using preSave_fields(3,4,5)[of U E n "leadUser h lead"] saved(2) lead by simp_all
  then have v: "IsValidUsername (us_Username u1)" "IsValidEmail U (goToLower U ?m)"
    using IsValid_name_and_email[OF saved(3)] by (auto simp: IsRemote_def)
  then have "CHR ''@'' \<in> set (goToLower U ?m)" using assms by (auto simp: IsValidEmail_def addresses_ok_def)
  then have at: "CHR ''@'' \<in> set ?m" by (rule goToLower_at[OF assms])
  then have "?m \<noteq> []" by auto
  then have "us_Username u1 = goToLower U (SanitizeUnicode ?m)" using f(1) lead(1) by (simp add: storedName_def)
  then show ?thesis using v(1) at_kept[OF at, of U] at_no_username by metis
qed

text \<open>
  C24: Converting a lead always fails. The code gives the new account the address of the lead as its user name; an
  address always has the sign that user names may not have, so the account is refused whatever the lead, and the
  lead stays as it is.
\<close>

theorem convert_lead_always_fails:
  assumes "addresses_ok U"
  shows "\<exists>e. ConvertLeadToStudent U E n i leads t = (Inl e, leads, t)"
proof (cases "GetLead E n i leads")
  case (Inl e)
  then show ?thesis by (simp add: ConvertLeadToStudent_def)
next
  case (Inr lead)
  show ?thesis
  proof (cases "BCrypt_Hash (ul_hash U) (n + 1) ''Student@123''")
    case (Inl e)
    then show ?thesis using Inr by (simp add: ConvertLeadToStudent_def)
  next
    case h: (Inr h)
    obtain e u1 where "UserStore_Save U E (n + 2) (leadUser h lead) t = (Some e, u1, t)" using leadUser_refused[OF assms] by blast
    then show ?thesis using Inr h by (simp add: ConvertLeadToStudent_def)
  qed
qed

definition demoLead :: Lead where
  "demoLead = \<lparr>ld_ID = demoId 3, ld_Name = ''Ann'', ld_Email = Some ''ann@x.com'', ld_Phone = None, ld_Age = None, ld_School = None,
     ld_Source = None, ld_Need = None, ld_Status = ''NEW'', ld_StudentID = None, ld_Notes = None, ld_TestDate = zeroTime,
     ld_TestResult = None, ld_TestScore = None, ld_CounselorID = None, ld_Createat = 1, ld_Updateat = 1\<rparr>"

theorem convert_lead_always_fails_witness:
  "(\<exists>e. ConvertLeadToStudent demoUserLib lmsDemo 0 (demoId 3) [demoLead] [] = (Inl e, [demoLead], []))
     \<and> GetLead lmsDemo 0 (demoId 3) [demoLead] = Inr demoLead"
proof -
  have "addresses_ok demoUserLib" by (auto simp: addresses_ok_def split: if_splits)
  from convert_lead_always_fails[OF this] show ?thesis
    by (simp add: GetLead_def LeadStore_Get_def ent_get_def sql_one_def demoLead_def)
qed


section \<open>What edits leave alone\<close>

definition credentials :: "User \<Rightarrow> string \<times> string \<times> string option \<times> string option \<times> int" where
  "credentials r = (us_Id r, us_Password r, us_ParentId r, us_AuthData r, us_CreateAt r)"

lemma SetDefaultNotifications_same: "\<exists>p. SetDefaultNotifications u = u\<lparr>us_NotifyProps := p\<rparr>"
  unfolding SetDefaultNotifications_def by blast

lemma cleanMentionKeys_same: "\<exists>p. cleanMentionKeys U u = u\<lparr>us_NotifyProps := p\<rparr>"
proof (cases "us_NotifyProps u")
  case None
  then show ?thesis using SetDefaultNotifications_same by (simp add: cleanMentionKeys_def)
next
  case (Some m)
  show ?thesis
  proof (cases "m = []")
    case True
    then show ?thesis using Some SetDefaultNotifications_same by (simp add: cleanMentionKeys_def)
  next
    case False
    show ?thesis
    proof (cases "gm_get m ''mention_keys''")
      case None
      then have "cleanMentionKeys U u = u" using Some False by (simp add: cleanMentionKeys_def)
      then show ?thesis by (intro exI[of _ "us_NotifyProps u"]) simp
    next
      case k: (Some k)
      show ?thesis unfolding cleanMentionKeys_def using False by (simp only: Some k option.case if_False) blast
    qed
  qed
qed

lemma credentials_simps [simp]:
  "credentials (UpdateMentionKeysFromUsername x u) = credentials u" "credentials (u\<lparr>us_EmailVerified := b\<rparr>) = credentials u"
  "credentials (u\<lparr>us_Email := m\<rparr>) = credentials u" "credentials (u\<lparr>us_Roles := r, us_DeleteAt := d\<rparr>) = credentials u"
  by (simp_all add: credentials_def UpdateMentionKeysFromUsername_def Let_def)

lemma PreUpdate_same: "us_Id (User_PreUpdate U E n u) = us_Id u" "us_Roles (User_PreUpdate U E n u) = us_Roles u"
proof -
  define w where "w = u\<lparr>
        us_Username := goToLower U (SanitizeUnicode (us_Username u)),
        us_FirstName := SanitizeUnicode (SanitizeUnicode (us_FirstName u)),
        us_LastName := SanitizeUnicode (SanitizeUnicode (us_LastName u)),
        us_Nickname := SanitizeUnicode (SanitizeUnicode (us_Nickname u)),
        us_Email := goToLower U (us_Email u),
        us_UpdateAt := lv_now E n 0,
        us_AuthData := (if us_AuthData u = Some [] then None else us_AuthData u)\<rparr>"
  obtain p where p: "cleanMentionKeys U w = w\<lparr>us_NotifyProps := p\<rparr>" using cleanMentionKeys_same by blast
  obtain q where q: "saveCustomStatus U n (w\<lparr>us_NotifyProps := p\<rparr>) = w\<lparr>us_NotifyProps := p, us_Props := q\<rparr>" using saveCustomStatus_same by blast
  have "User_PreUpdate U E n u = (if us_Props (cleanMentionKeys U w) \<noteq> None then saveCustomStatus U n (cleanMentionKeys U w) else cleanMentionKeys U w)"
    unfolding User_PreUpdate_def Let_def w_def by (rule refl)
  then show "us_Id (User_PreUpdate U E n u) = us_Id u" "us_Roles (User_PreUpdate U E n u) = us_Roles u" unfolding p q by (simp_all add: w_def)
qed

lemma untrusted_keeps: "untrusted old u = Inr w \<Longrightarrow> credentials w = credentials u"
  unfolding untrusted_def Let_def by (simp split: if_splits) (use credentials_simps in metis)+

lemma merged_keeps:
  assumes "merged trusted old u = Inr w" "us_Id old = us_Id u"
  shows "credentials w = credentials old"
proof -
  obtain u1 where u1: "(if trusted then Inr (keepOld old u) else untrusted old (keepOld old u)) = Inr u1"
    using assms(1) by (cases "if trusted then Inr (keepOld old u) else untrusted old (keepOld old u)") (simp_all add: merged_def)
  have "credentials u1 = credentials (keepOld old u)"
    using u1 untrusted_keeps[of old "keepOld old u" u1] by (cases trusted) simp_all
  moreover have "credentials (keepOld old u) = credentials old" using assms(2) by (simp add: credentials_def keepOld_def)
  moreover have "w = (let u2 = (if IsSSOUser u1 then u1\<lparr>us_EmailVerified := True\<rparr> else u1)
      in if us_Username u2 \<noteq> us_Username old then UpdateMentionKeysFromUsername (us_Username old) u2 else u2)"
    using assms(1) unfolding merged_def u1 by (simp add: Let_def)
  then have "credentials w = credentials u1" by (simp add: Let_def)
  ultimately show ?thesis by simp
qed

lemma UserStore_Update_keeps:
  assumes "distinct (map us_Id t)"
  shows "map credentials (snd (UserStore_Update U E n u tr t)) = map credentials t"
proof -
  let ?u = "User_PreUpdate U E n u"
  have upd: "map credentials (snd (sql_update (\<lambda>r. us_Id r = us_Id ?u) (\<lambda>_. w) t)) = map credentials t"
    if "find (\<lambda>r. us_Id r = us_Id ?u) t = Some old" "merged tr old ?u = Inr w" for old w
  proof -
    have old: "old \<in> set t" "us_Id old = us_Id ?u" using that(1) by (auto simp: find_Some_iff)
    have same: "r = old" if "r \<in> set t" "us_Id r = us_Id ?u" for r
      using that old assms by (metis distinct_map inj_on_eq_iff)
    have "credentials w = credentials old" using merged_keeps[OF that(2)] old(2) by simp
    then show ?thesis using same by (auto simp: sql_update_def)
  qed
  show ?thesis
    using upd by (simp add: UserStore_Update_def sql_one_def Let_def split: option.split sum.split)
qed

lemma editUser_keeps:
  "distinct (map us_Id t) \<Longrightarrow> map credentials (snd (editUser U E n ge ue f i t)) = map credentials t"
  by (simp add: editUser_def case_prod_beta UserStore_Update_keeps split: sum.split)

lemma UpdateStudent_keeps:
  "distinct (map us_Id t) \<Longrightarrow> map credentials (snd (UpdateStudent U E n u props t)) = map credentials t"
  by (simp add: UpdateStudent_def case_prod_beta Let_def UserStore_Update_keeps split: sum.split option.split)

lemma snd_case_result [simp]:
  "snd (case x of (Inl e, t1) \<Rightarrow> (f e, t1) | (Inr y, t1) \<Rightarrow> (g y, t1)) = snd x"
  by (simp split: prod.split sum.split)

lemma SendPasswordReset_keeps:
  "distinct (map us_Id t) \<Longrightarrow> map credentials (snd (SendPasswordReset U E n rnd email t)) = map credentials t"
  by (simp add: SendPasswordReset_def Let_def UserStore_Update_keeps split: sum.split user_error.split option.split)

lemma ResetPassword_keeps:
  "distinct (map us_Id t) \<Longrightarrow> map credentials (snd (ResetPassword U E n token pw t)) = map credentials t"
  by (simp add: ResetPassword_def Let_def UserStore_Update_keeps split: sum.split option.split)

text \<open>
  C25: No edit of an account changes its password, its parent or its login data. This holds for the updates of
  students and staff, the conversions, (re)activation and, although it is meant to set a new password, for the password
  reset; and a parent given in the update of a student is not stored.
\<close>

theorem edits_keep_credentials:
  assumes "distinct (map us_Id t)"
  shows "map credentials (snd (UpdateStudent U E n userOpt props t)) = map credentials t
    \<and> map credentials (snd (UpdateUser U E n user t)) = map credentials t
    \<and> map credentials (snd (ConvertUserToStudent U E n i t)) = map credentials t
    \<and> map credentials (snd (RevertStudentToUser U E n i t)) = map credentials t
    \<and> map credentials (snd (DeactivateUser U E n i t)) = map credentials t
    \<and> map credentials (snd (ReactivateUser U E n i t)) = map credentials t
    \<and> map credentials (snd (SendPasswordReset U E n random email t)) = map credentials t
    \<and> map credentials (snd (ResetPassword U E n token newPassword t)) = map credentials t"
  using assms
  by (simp add: UpdateStudent_keeps SendPasswordReset_keeps ResetPassword_keeps UpdateUser_def ConvertUserToStudent_def
      RevertStudentToUser_def DeactivateUser_def ReactivateUser_def editUser_keeps)

section \<open>An account\<close>

definition demoUser :: User where
  "demoUser = zeroUser\<lparr>us_Id := demoId 1, us_CreateAt := 1, us_UpdateAt := 1, us_Username := ''ann'', us_Email := ''ann@x.com'',
     us_Password := ''old'', us_Locale := ''en'', us_NotifyProps := Some [(''email'', ''true'')], us_Timezone := Some [],
     us_Props := Some [(''reset_token'', ''tok''), (''reset_token_expiry'', ''2099-01-01T00:00:00Z'')]\<rparr>"

lemma demo_expiry: "parseRFC3339 ''2099-01-01T00:00:00Z'' = Some (86400 * civilDay (2099, 1, 1))"
proof -
  have e: "''2099-01-01T00:00:00Z'' = formatDate (2099, 1, 1) @ ''T'' @ clockText 0 0 0 @ ''Z''"
    by (simp add: formatDate_def clockText_def appendInt_def decStr.simps digit_chars)
  have "validDate (2099, 1, 1)" by (simp add: validDate_def daysIn_def)
  then show ?thesis unfolding e
    using parseDatePart_format[of 2099 1 1 "''T'' @ clockText 0 0 0 @ ''Z''"] parseClock_text[of 0 0 0 "''Z''"]
    by (simp add: parseRFC3339_def parseZone_def)
qed

lemma goToLower_fixed:
  assumes "list_all (\<lambda>c. of_char c < (128::nat) \<and> \<not> ((65::nat) \<le> of_char c \<and> of_char c \<le> (90::nat))) s"
  shows "goToLower U s = s"
proof -
  have ascii: "list_all (\<lambda>c. of_char c < (128::nat)) s" using assms by (auto simp: list_all_iff)
  have "List.map_filter (Some \<circ> lowerRune U) (map of_char s) = map of_char s"
    using assms by (auto simp: List.map_filter_def list_all_iff lowerRune_def)
  then show ?thesis by (simp add: goToLower_def strMap_def runes_ascii[OF ascii] ofRunes_ascii[OF ascii])
qed

lemma SanitizeUnicode_Nil [simp]: "SanitizeUnicode [] = []"
  by (rule username_fixed) simp

lemma demo_strings: "goToLower demoUserLib ''ann'' = ''ann''" "SanitizeUnicode ''ann'' = ''ann''" "goToLower demoUserLib ''ann@x.com'' = ''ann@x.com''"
  "IsValidUsername ''ann''" "runes [] = []"
  by (simp_all add: username_fixed usernameChar_def less_eq_char_def goToLower_fixed IsValidUsername_def restrictedUsernames_def runes_def runesOf.simps)

definition demoAfter :: User where
  "demoAfter = demoUser\<lparr>us_Password := ''new'', us_Props := Some []\<rparr>"

lemma demo_update:
  "\<exists>v w. UserStore_Update demoUserLib lmsDemo 1 demoAfter False [demoUser] = (Inr v, [w])"
proof -
  have pre: "User_PreUpdate demoUserLib lmsDemo 1 demoAfter = demoAfter\<lparr>us_UpdateAt := 1000\<rparr>"
    by (simp add: User_PreUpdate_def demoAfter_def demoUser_def zeroUser_def cleanMentionKeys_def saveCustomStatus_def propOf_def Let_def demo_strings)
  have valid: "User_IsValid demoUserLib lmsDemo 1 (demoAfter\<lparr>us_UpdateAt := 1000\<rparr>) = None"
    by (simp add: User_IsValid_def demoAfter_def demoUser_def zeroUser_def IsRemote_def IsValidEmail_def IsValidLocale_def ValidateCustomStatus_def
        propOf_def demo_strings)
  obtain w where w: "merged False demoUser (demoAfter\<lparr>us_UpdateAt := 1000\<rparr>) = Inr w"
    by (simp add: merged_def untrusted_def keepOld_def demoAfter_def demoUser_def zeroUser_def IsOAuthUser_def IsLDAPUser_def IsSSOUser_def Let_def)
  have "validateAutoResponderMessageSize demoUserLib (demoAfter\<lparr>us_UpdateAt := 1000\<rparr>)"
    by (simp add: validateAutoResponderMessageSize_def demoAfter_def demoUser_def zeroUser_def propOf_def demo_strings)
  moreover have "us_Id (demoAfter\<lparr>us_UpdateAt := 1000\<rparr>) = us_Id demoUser" by (simp add: demoAfter_def)
  ultimately show ?thesis unfolding UserStore_Update_def pre valid Let_def sql_one_def by (simp add: w taken_def sql_update_def)
qed

lemma demo_reset: "fst (ResetPassword demoUserLib lmsDemo 0 ''tok'' ''new'' [demoUser]) = None"
proof -
  obtain v w where u: "UserStore_Update demoUserLib lmsDemo 1 demoAfter False [demoUser] = (Inr v, [w])" using demo_update by blast
  have "demoUser\<lparr>us_Props := map_option (gm_del ''reset_token_expiry'' \<circ> gm_del ''reset_token'') (us_Props demoUser), us_Password := ''new''\<rparr> = demoAfter"
    by (simp add: demoAfter_def demoUser_def)
  moreover have "hasToken ''tok'' demoUser" "propOf (us_Props demoUser) ''reset_token_expiry'' = ''2099-01-01T00:00:00Z''"
    by (simp_all add: hasToken_def demoUser_def propOf_def)
  moreover have "\<not> vnNow 1000 > 86400 * civilDay (2099, 1, 1) * 1000"
    by (simp add: vnNow_def unixEpoch_def dayMs_def civilDay_def yearStart_def daysBefore_def)
  ultimately show ?thesis using u
    by (simp add: ResetPassword_def UserStore_GetAll_def demo_expiry Let_def comp_def)
qed

theorem edits_keep_credentials_witness:
  "\<exists>t1. ResetPassword demoUserLib lmsDemo 0 ''tok'' ''new'' [demoUser] = (None, t1) \<and> map us_Password t1 = [''old'']"
proof -
  obtain t1 where t1: "ResetPassword demoUserLib lmsDemo 0 ''tok'' ''new'' [demoUser] = (None, t1)"
    using demo_reset by (metis prod.collapse)
  have d: "distinct (map us_Id [demoUser])" by simp
  have "map credentials t1 = map credentials [demoUser]"
    using edits_keep_credentials[OF d, of demoUserLib lmsDemo 0 None None demoUser "[]" None "[]" "''tok''" "''new''"] t1 by simp
  then have "map (fst \<circ> snd) (map credentials t1) = [us_Password demoUser]" by (simp add: credentials_def)
  then have "map us_Password t1 = [us_Password demoUser]" by (simp add: credentials_def comp_def)
  then show ?thesis using t1 by (simp add: demoUser_def)
qed

end
