(* ===== verification/Lms_Chat.thy ===== *)
theory Lms_Chat
  imports Lms_Students
begin

text \<open>
  The chat channels of classes, \<^verbatim>\<open>channels/app/lms/chat.go\<close>. The Mattermost core is reached through the interface
  \<^verbatim>\<open>AppPortionIface\<close> (\<^verbatim>\<open>service.go\<close>), here a record of functions on an abstract state of the core; what is relied on
  is stated by \<open>membership_api\<close>. A failed call that the code only logs leaves no trace in the model. The
  students wanted in a channel are visited in the order of the list, which stands for the order of the Go map.
\<close>

record Channel =
  ch_Id :: string
  ch_TeamId :: string
  ch_Name :: string
  ch_DisplayName :: string
  ch_Type :: string
  ch_DeleteAt :: int

record 'w chatApi =
  GetTeamByName :: "'w \<Rightarrow> string \<Rightarrow> app_error + string"
  CreateTeam :: "'w \<Rightarrow> string \<Rightarrow> string \<Rightarrow> (app_error + string) \<times> 'w"
  GetUsersInTeam :: "'w \<Rightarrow> string \<Rightarrow> string list \<Rightarrow> nat \<Rightarrow> app_error + string list"
  AddUserToTeam :: "'w \<Rightarrow> string \<Rightarrow> string \<Rightarrow> app_error option \<times> 'w"
  GetChannel :: "'w \<Rightarrow> string \<Rightarrow> app_error + Channel"
  GetChannelByName :: "'w \<Rightarrow> string \<Rightarrow> string \<Rightarrow> app_error + Channel"
  CreateChannel :: "'w \<Rightarrow> Channel \<Rightarrow> (app_error + Channel) \<times> 'w"
  PermanentDeleteChannel :: "'w \<Rightarrow> Channel \<Rightarrow> app_error option \<times> 'w"
  AddChannelMember :: "'w \<Rightarrow> string \<Rightarrow> Channel \<Rightarrow> app_error option \<times> 'w"
  RemoveUserFromChannel :: "'w \<Rightarrow> string \<Rightarrow> string \<Rightarrow> Channel \<Rightarrow> app_error option \<times> 'w"
  GetChannelMembersPage :: "'w \<Rightarrow> string \<Rightarrow> nat \<Rightarrow> nat \<Rightarrow> app_error + string list"

section \<open>Teams\<close>

definition TeachingTeamName :: string where "TeachingTeamName = ''teaching''"
definition OperationsTeamName :: string where "OperationsTeamName = ''operations''"
definition ClassChannelPrefix :: string where "ClassChannelPrefix = ''class-''"

definition ClosedClassStatuses :: "string set" where
  "ClosedClassStatuses = {''CLOSED'', ''CANCELLED''}"

definition adminRoles :: "string list" where
  "adminRoles = [''lms_super_admin'', ''lms_admin'']"

text \<open>The display names of the two teams, in UTF-8.\<close>

definition teachingDisplay :: string where
  "teachingDisplay = ofRunes [71, 105, 7843, 110, 103, 32, 100, 7841, 121]"

definition operationsDisplay :: string where
  "operationsDisplay = ofRunes [86, 7853, 110, 32, 104, 224, 110, 104]"

fun addAll :: "'w chatApi \<Rightarrow> string \<Rightarrow> string list \<Rightarrow> 'w \<Rightarrow> 'w" where
  "addAll A teamID [] w = w"
| "addAll A teamID (u # us) w = addAll A teamID us (snd (AddUserToTeam A w teamID u))"

definition addAdminsToTeam :: "'w chatApi \<Rightarrow> string \<Rightarrow> 'w \<Rightarrow> 'w" where
  "addAdminsToTeam A teamID w =
     (case GetUsersInTeam A w teamID adminRoles 100 of
        Inl _ \<Rightarrow> w
      | Inr existing \<Rightarrow>
          if existing \<noteq> [] then w
          else (case GetUsersInTeam A w [] adminRoles 200 of
                  Inl _ \<Rightarrow> w
                | Inr admins \<Rightarrow> addAll A teamID admins w))"

definition ensureTeam :: "'w chatApi \<Rightarrow> string \<Rightarrow> string \<Rightarrow> bool \<Rightarrow> 'w \<Rightarrow> (app_error + string) \<times> 'w" where
  "ensureTeam A name displayName addAdmins w =
     (case GetTeamByName A w name of
        Inr teamID \<Rightarrow> (Inr teamID, if addAdmins then addAdminsToTeam A teamID w else w)
      | Inl (AppError i code) \<Rightarrow>
          if code \<noteq> 404 then (Inl (AppError i code), w)
          else (case CreateTeam A w name displayName of
                  (Inl e, w1) \<Rightarrow> (Inl e, w1)
                | (Inr teamID, w1) \<Rightarrow> (Inr teamID, if addAdmins then addAdminsToTeam A teamID w1 else w1)))"

definition EnsureTeachingTeams :: "'w chatApi \<Rightarrow> 'w \<Rightarrow> (app_error + string \<times> string) \<times> 'w" where
  "EnsureTeachingTeams A w =
     (case ensureTeam A TeachingTeamName teachingDisplay True w of
        (Inl e, w1) \<Rightarrow> (Inl e, w1)
      | (Inr teachingTeamID, w1) \<Rightarrow>
          (case ensureTeam A OperationsTeamName operationsDisplay False w1 of
             (Inl e, w2) \<Rightarrow> (Inl e, w2)
           | (Inr operationsTeamID, w2) \<Rightarrow> (Inr (teachingTeamID, operationsTeamID), w2)))"

section \<open>Channels\<close>

definition channelRune :: "nat \<Rightarrow> nat" where
  "channelRune r = (if (97 \<le> r \<and> r \<le> 122) \<or> (48 \<le> r \<and> r \<le> 57) \<or> r = 45 \<or> r = 95 then r else 45)"

definition classChannelName :: "userLib \<Rightarrow> string \<Rightarrow> string" where
  "classChannelName U code = ClassChannelPrefix @ strMap (Some \<circ> channelRune) (goToLower U code)"

definition adminUserIDs :: "'w chatApi \<Rightarrow> string \<Rightarrow> 'w \<Rightarrow> string list" where
  "adminUserIDs A teamID w = (case GetUsersInTeam A w teamID adminRoles 200 of Inl _ \<Rightarrow> [] | Inr admins \<Rightarrow> admins)"

fun addMembers :: "'w chatApi \<Rightarrow> Channel \<Rightarrow> string list \<Rightarrow> 'w \<Rightarrow> 'w" where
  "addMembers A channel [] w = w"
| "addMembers A channel (i # ids) w = addMembers A channel ids (snd (AddChannelMember A w i channel))"

fun removeMembers :: "'w chatApi \<Rightarrow> Channel \<Rightarrow> string \<Rightarrow> string list \<Rightarrow> string list \<Rightarrow> 'w \<Rightarrow> 'w" where
  "removeMembers A channel ownerID want [] w = w"
| "removeMembers A channel ownerID want (m # ms) w =
     removeMembers A channel ownerID want ms
       (if m \<in> set want then w else snd (RemoveUserFromChannel A w m ownerID channel))"

definition wantedMembers :: "string list \<Rightarrow> string \<Rightarrow> string list" where
  "wantedMembers desiredIDs ownerID =
     remdups (filter (\<lambda>i. i \<noteq> []) desiredIDs @ (if ownerID \<noteq> [] then [ownerID] else []))"

definition syncChannelMembership :: "'w chatApi \<Rightarrow> Channel \<Rightarrow> string list \<Rightarrow> string \<Rightarrow> 'w \<Rightarrow> 'w" where
  "syncChannelMembership A channel desiredIDs ownerID w =
     (let want = wantedMembers desiredIDs ownerID; w1 = addMembers A channel want w in
      case GetChannelMembersPage A w1 (ch_Id channel) 0 500 of
        Inl _ \<Rightarrow> w1
      | Inr members \<Rightarrow> removeMembers A channel ownerID want members w1)"

text \<open>The class after a link to its channel has been written; when that fails the struct keeps the link.\<close>

definition writeLink :: "lmsEnv \<Rightarrow> nat \<Rightarrow> Class \<Rightarrow> Class list \<Rightarrow> Class \<times> Class list" where
  "writeLink E n cls t =
     (case UpdateClass E n (kl_ID cls) cls t of (Inl _, t1) \<Rightarrow> (cls, t1) | (Inr updated, t1) \<Rightarrow> (updated, t1))"

definition clearChannelLink :: "lmsEnv \<Rightarrow> nat \<Rightarrow> Class \<Rightarrow> Class list \<Rightarrow> Class list" where
  "clearChannelLink E n cls t = snd (writeLink E n (cls\<lparr>kl_ChatChannelID := []\<rparr>) t)"

definition EnsureClassChannel ::
  "'w chatApi \<Rightarrow> userLib \<Rightarrow> lmsEnv \<Rightarrow> nat \<Rightarrow> Class \<Rightarrow> 'w \<Rightarrow> Class list \<Rightarrow> (app_error + Channel) \<times> Class \<times> 'w \<times> Class list" where
  "EnsureClassChannel A U E n cls w t =
     (case (if kl_ChatChannelID cls = [] then None
            else case GetChannel A w (kl_ChatChannelID cls) of
                   Inl _ \<Rightarrow> None | Inr ch \<Rightarrow> if ch_DeleteAt ch = 0 then Some ch else None) of
        Some ch \<Rightarrow> (Inr ch, cls, w, t)
      | None \<Rightarrow>
          (case EnsureTeachingTeams A w of
             (Inl e, w1) \<Rightarrow> (Inl e, cls, w1, t)
           | (Inr (teachingTeamID, _), w1) \<Rightarrow>
               let channel = \<lparr>ch_Id = [], ch_TeamId = teachingTeamID, ch_Name = classChannelName U (kl_Code cls),
                     ch_DisplayName = (if kl_Name cls = [] then kl_Code cls else kl_Name cls), ch_Type = ''P'', ch_DeleteAt = 0\<rparr> in
               (case (case CreateChannel A w1 channel of
                        (Inr created, w2) \<Rightarrow> (Inr created, w2)
                      | (Inl e, w2) \<Rightarrow>
                          (case GetChannelByName A w2 (ch_Name channel) teachingTeamID of
                             Inl _ \<Rightarrow> (Inl e, w2) | Inr existing \<Rightarrow> (Inr existing, w2))) of
                  (Inl e, w2) \<Rightarrow> (Inl e, cls, w2, t)
                | (Inr created, w2) \<Rightarrow>
                    let w3 = syncChannelMembership A created (kl_TeacherID cls # adminUserIDs A (ch_TeamId created) w2)
                               (kl_TeacherID cls) w2;
                        (cls1, t1) = writeLink E n (cls\<lparr>kl_ChatChannelID := ch_Id created\<rparr>) t
                    in (Inr created, cls1, w3, t1))))"

definition SyncClassChannelMembership ::
  "'w chatApi \<Rightarrow> userLib \<Rightarrow> lmsEnv \<Rightarrow> nat \<Rightarrow> Class \<Rightarrow> string list \<Rightarrow> 'w \<Rightarrow> Class list \<Rightarrow> app_error option \<times> Class \<times> 'w \<times> Class list" where
  "SyncClassChannelMembership A U E n cls studentUserIDs w t =
     (case EnsureClassChannel A U E n cls w t of
        (Inl e, cls1, w1, t1) \<Rightarrow> (Some e, cls1, w1, t1)
      | (Inr channel, cls1, w1, t1) \<Rightarrow>
          (None, cls1,
           syncChannelMembership A channel
             ((kl_TeacherID cls1 # studentUserIDs) @ adminUserIDs A (ch_TeamId channel) w1) (kl_TeacherID cls1) w1, t1))"

definition CloseClassChannel ::
  "'w chatApi \<Rightarrow> lmsEnv \<Rightarrow> nat \<Rightarrow> Class \<Rightarrow> 'w \<Rightarrow> Class list \<Rightarrow> app_error option \<times> 'w \<times> Class list" where
  "CloseClassChannel A E n cls w t =
     (if kl_ChatChannelID cls = [] then (None, w, t)
      else case GetChannel A w (kl_ChatChannelID cls) of
             Inl _ \<Rightarrow> (None, w, clearChannelLink E n cls t)
           | Inr channel \<Rightarrow>
               (case PermanentDeleteChannel A w channel of
                  (Some _, w1) \<Rightarrow> (Some (AppError ''app.lmschat.close.app_error'' 500), w1, t)
                | (None, w1) \<Rightarrow> (None, w1, clearChannelLink E n cls t)))"

section \<open>Who is in the channel of a class\<close>

text \<open>
  What the reconciliation relies on: \<open>mem\<close> gives the members of a channel. Adding or removing a member changes
  that member of that channel if it succeeds and nothing if it fails; the first page of 500 members is complete when
  there are no more.
\<close>

definition membership_api :: "'w chatApi \<Rightarrow> ('w \<Rightarrow> string \<Rightarrow> string set) \<Rightarrow> bool" where
  "membership_api A mem \<longleftrightarrow>
     (\<forall>w i ch r w1. AddChannelMember A w i ch = (r, w1) \<longrightarrow>
        mem w1 = (if r = None then (mem w)(ch_Id ch := insert i (mem w (ch_Id ch))) else mem w))
     \<and> (\<forall>w i owner ch r w1. RemoveUserFromChannel A w i owner ch = (r, w1) \<longrightarrow>
        mem w1 = (if r = None then (mem w)(ch_Id ch := mem w (ch_Id ch) - {i}) else mem w))
     \<and> (\<forall>w c l. GetChannelMembersPage A w c 0 500 = Inr l \<longrightarrow>
        set l \<subseteq> mem w c \<and> (finite (mem w c) \<and> card (mem w c) \<le> 500 \<longrightarrow> set l = mem w c))"

text \<open>The core accepts every change of this channel and lists it.\<close>

definition accepts :: "'w chatApi \<Rightarrow> Channel \<Rightarrow> bool" where
  "accepts A ch \<longleftrightarrow> (\<forall>w i. fst (AddChannelMember A w i ch) = None) \<and> (\<forall>w i owner. fst (RemoveUserFromChannel A w i owner ch) = None)
     \<and> (\<forall>w. \<exists>l. GetChannelMembersPage A w (ch_Id ch) 0 500 = Inr l)"

lemma addMembers_mem:
  assumes "membership_api A mem" "\<forall>w i. fst (AddChannelMember A w i ch) = None"
  shows "mem (addMembers A ch ids w) = (mem w)(ch_Id ch := mem w (ch_Id ch) \<union> set ids)"
proof (induction ids arbitrary: w)
  case (Cons i ids)
  have "mem (snd (AddChannelMember A w i ch)) = (mem w)(ch_Id ch := insert i (mem w (ch_Id ch)))"
    using assms unfolding membership_api_def by (metis prod.collapse)
  then show ?case by (auto simp: Cons fun_eq_iff)
qed simp

lemma removeMembers_mem:
  assumes "membership_api A mem" "\<forall>w i owner. fst (RemoveUserFromChannel A w i owner ch) = None"
  shows "mem (removeMembers A ch owner want ms w) = (mem w)(ch_Id ch := mem w (ch_Id ch) - (set ms - set want))"
proof (induction ms arbitrary: w)
  case (Cons m ms)
  have "mem (snd (RemoveUserFromChannel A w m owner ch)) = (mem w)(ch_Id ch := mem w (ch_Id ch) - {m})"
    using assms unfolding membership_api_def by (metis prod.collapse)
  then show ?case by (auto simp: Cons fun_eq_iff)
qed simp

lemma wantedMembers_set [simp]: "set (wantedMembers ids owner) = (set ids \<union> {owner}) - {[]}"
  by (auto simp: wantedMembers_def)

lemma sync_mem:
  assumes "membership_api A mem" "accepts A ch" "finite (mem w (ch_Id ch))"
    "card (mem w (ch_Id ch) \<union> set (wantedMembers ids owner)) \<le> 500"
  shows "mem (syncChannelMembership A ch ids owner w) = (mem w)(ch_Id ch := (set ids \<union> {owner}) - {[]})"
proof -
  let ?want = "wantedMembers ids owner"
  define w1 where "w1 = addMembers A ch ?want w"
  have m1: "mem w1 = (mem w)(ch_Id ch := mem w (ch_Id ch) \<union> set ?want)"
    unfolding w1_def using assms(1,2) by (intro addMembers_mem) (simp_all add: accepts_def)
  obtain l where l: "GetChannelMembersPage A w1 (ch_Id ch) 0 500 = Inr l" using assms(2) unfolding accepts_def by blast
  have fin: "finite (mem w1 (ch_Id ch)) \<and> card (mem w1 (ch_Id ch)) \<le> 500" using assms(3,4) m1 by simp
  have sl: "set l = mem w1 (ch_Id ch)"
    using assms(1) l fin unfolding membership_api_def by blast
  have "mem (removeMembers A ch owner ?want l w1) = (mem w1)(ch_Id ch := mem w1 (ch_Id ch) - (set l - set ?want))"
    using assms(1,2) by (intro removeMembers_mem) (simp_all add: accepts_def)
  then have "mem (removeMembers A ch owner ?want l w1) = (mem w)(ch_Id ch := set ?want)" using m1 sl by (auto simp: fun_eq_iff)
  then show ?thesis using l by (simp add: syncChannelMembership_def w1_def Let_def)
qed


section \<open>A small chat server\<close>

text \<open>One channel per id, every request accepted; the state is the list of members of each channel.\<close>

definition demoChannel :: Channel where
  "demoChannel = \<lparr>ch_Id = ''c1'', ch_TeamId = ''t1'', ch_Name = ''class-a1'', ch_DisplayName = ''A1'', ch_Type = ''P'', ch_DeleteAt = 0\<rparr>"

definition demoChat :: "(string \<Rightarrow> string list) chatApi" where
  "demoChat = \<lparr>GetTeamByName = \<lambda>w n. Inr ''t1'', CreateTeam = \<lambda>w n d. (Inr ''t1'', w), GetUsersInTeam = \<lambda>w t r k. Inr [''admin''],
     AddUserToTeam = \<lambda>w t u. (None, w), GetChannel = \<lambda>w i. Inr demoChannel, GetChannelByName = \<lambda>w n t. Inr demoChannel,
     CreateChannel = \<lambda>w c. (Inr demoChannel, w), PermanentDeleteChannel = \<lambda>w c. (None, w(ch_Id c := [])),
     AddChannelMember = \<lambda>w i c. (None, w(ch_Id c := List.insert i (w (ch_Id c)))),
     RemoveUserFromChannel = \<lambda>w i owner c. (None, w(ch_Id c := removeAll i (w (ch_Id c)))),
     GetChannelMembersPage = \<lambda>w c k n. Inr (take n (remdups (w c)))\<rparr>"

lemma demoChat_api: "membership_api demoChat (\<lambda>w c. set (w c))"
proof -
  have "set (take 500 (remdups l)) = set l" if "card (set l) \<le> 500" for l :: "string list"
    using that by (simp add: length_remdups_card_conv)
  moreover have "set (take 500 (remdups l)) \<subseteq> set l" for l :: "string list" by (metis set_remdups set_take_subset)
  ultimately show ?thesis by (auto simp: membership_api_def demoChat_def intro!: ext)
qed

definition demoClass :: Class where
  "demoClass = \<lparr>kl_ID = demoId 1, kl_CourseID = demoId 2, kl_BranchID = demoId 3, kl_Name = ''A1'', kl_Code = ''A1'', kl_TeacherID = ''teacher'',
     kl_Status = ''OPEN'', kl_Room = None, kl_StartDate = 0, kl_EndDate = None, kl_Createat = 1, kl_Updateat = 1, kl_ChatChannelID = ''c1''\<rparr>"


end
