(* ===== verification/Lms_Access.thy ===== *)
theory Lms_Access
  imports Lms_Chat
begin

text \<open>
  Who may do what: the LMS permissions (\<^verbatim>\<open>model/permission.go\<close>), the default roles of the LMS (\<^verbatim>\<open>model/role.go\<close>), the
  session of a request (\<^verbatim>\<open>model/session.go\<close>) and the permission check of the handlers (\<^verbatim>\<open>app/authorization.go\<close>).
  Permissions are their ids. \<^verbatim>\<open>GetRolesByNames\<close>, which reads the roles of the whole server and merges the channel
  schemes into those a scheme manages, belongs to the Mattermost core and is a parameter.
\<close>

section \<open>Permissions\<close>

definition PermissionLmsManageBranches :: string where "PermissionLmsManageBranches = ''lms_manage_branches''"
definition PermissionLmsManageCourses :: string where "PermissionLmsManageCourses = ''lms_manage_courses''"
definition PermissionLmsManageClasses :: string where "PermissionLmsManageClasses = ''lms_manage_classes''"
definition PermissionLmsManageSessions :: string where "PermissionLmsManageSessions = ''lms_manage_sessions''"
definition PermissionLmsManageAttendance :: string where "PermissionLmsManageAttendance = ''lms_manage_attendance''"
definition PermissionLmsManageLeads :: string where "PermissionLmsManageLeads = ''lms_manage_leads''"
definition PermissionLmsManageTuition :: string where "PermissionLmsManageTuition = ''lms_manage_tuition''"
definition PermissionLmsManagePosts :: string where "PermissionLmsManagePosts = ''lms_manage_posts''"
definition PermissionLmsManageHomework :: string where "PermissionLmsManageHomework = ''lms_manage_homework''"
definition PermissionLmsManageWeeklyReviews :: string where "PermissionLmsManageWeeklyReviews = ''lms_manage_weekly_reviews''"
definition PermissionLmsManageMaterials :: string where "PermissionLmsManageMaterials = ''lms_manage_materials''"
definition PermissionLmsManageTasks :: string where "PermissionLmsManageTasks = ''lms_manage_tasks''"
definition PermissionLmsManageBanners :: string where "PermissionLmsManageBanners = ''lms_manage_banners''"
definition PermissionLmsViewNotifications :: string where "PermissionLmsViewNotifications = ''lms_view_notifications''"
definition PermissionLmsManageClassMedia :: string where "PermissionLmsManageClassMedia = ''lms_manage_class_media''"
definition PermissionLmsManageDashboard :: string where "PermissionLmsManageDashboard = ''lms_manage_dashboard''"
definition PermissionLmsViewReports :: string where "PermissionLmsViewReports = ''lms_view_reports''"
definition PermissionLmsManageStudents :: string where "PermissionLmsManageStudents = ''lms_manage_students''"
definition PermissionLmsManageUsers :: string where "PermissionLmsManageUsers = ''lms_manage_users''"
definition PermissionLmsManageFeePackages :: string where "PermissionLmsManageFeePackages = ''lms_manage_fee_packages''"

definition LearningSystemScopedPermissions :: "string list" where
  "LearningSystemScopedPermissions =
     [PermissionLmsManageBranches, PermissionLmsManageCourses, PermissionLmsManageClasses, PermissionLmsManageSessions,
      PermissionLmsManageAttendance, PermissionLmsManageLeads, PermissionLmsManageTuition, PermissionLmsManagePosts,
      PermissionLmsManageHomework, PermissionLmsManageWeeklyReviews, PermissionLmsManageMaterials, PermissionLmsManageTasks,
      PermissionLmsManageBanners, PermissionLmsViewNotifications, PermissionLmsManageClassMedia, PermissionLmsManageDashboard,
      PermissionLmsViewReports, PermissionLmsManageStudents, PermissionLmsManageUsers, PermissionLmsManageFeePackages]"

lemmas permission_defs =
  PermissionLmsManageBranches_def PermissionLmsManageCourses_def PermissionLmsManageClasses_def PermissionLmsManageSessions_def
  PermissionLmsManageAttendance_def PermissionLmsManageLeads_def PermissionLmsManageTuition_def PermissionLmsManagePosts_def
  PermissionLmsManageHomework_def PermissionLmsManageWeeklyReviews_def PermissionLmsManageMaterials_def PermissionLmsManageTasks_def
  PermissionLmsManageBanners_def PermissionLmsViewNotifications_def PermissionLmsManageClassMedia_def PermissionLmsManageDashboard_def
  PermissionLmsViewReports_def PermissionLmsManageStudents_def PermissionLmsManageUsers_def PermissionLmsManageFeePackages_def

section \<open>Roles\<close>

text \<open>Of a role only the name, the permissions and the deletion time are used here.\<close>

record Role =
  ro_Name :: string
  ro_Permissions :: "string list"
  ro_DeleteAt :: int

definition lmsRole :: "string \<Rightarrow> string list \<Rightarrow> Role" where
  "lmsRole name permissions = \<lparr>ro_Name = name, ro_Permissions = permissions, ro_DeleteAt = 0\<rparr>"

definition RoleLmsSuperAdminRoleId :: string where "RoleLmsSuperAdminRoleId = ''lms_super_admin''"
definition RoleLmsAdminRoleId :: string where "RoleLmsAdminRoleId = ''lms_admin''"
definition RoleLmsCounselorRoleId :: string where "RoleLmsCounselorRoleId = ''lms_counselor''"
definition RoleLmsTeacherRoleId :: string where "RoleLmsTeacherRoleId = ''lms_teacher''"
definition RoleLmsAccountantRoleId :: string where "RoleLmsAccountantRoleId = ''lms_accountant''"
definition RoleLmsMarketingRoleId :: string where "RoleLmsMarketingRoleId = ''lms_marketing''"
definition RoleLmsParentRoleId :: string where "RoleLmsParentRoleId = ''lms_parent''"
definition RoleLmsStudentRoleId :: string where "RoleLmsStudentRoleId = ''lms_student''"

text \<open>The map of default roles, in the order in which it is filled.\<close>

definition MakeDefaultLMSRoles :: "Role list" where
  "MakeDefaultLMSRoles = [
     lmsRole RoleLmsSuperAdminRoleId LearningSystemScopedPermissions,
     lmsRole RoleLmsAdminRoleId LearningSystemScopedPermissions,
     lmsRole RoleLmsCounselorRoleId
       [PermissionLmsManageLeads, PermissionLmsManageStudents, PermissionLmsManageDashboard],
     lmsRole RoleLmsTeacherRoleId
       [PermissionLmsManageSessions, PermissionLmsManageAttendance, PermissionLmsManageStudents, PermissionLmsManageHomework,
        PermissionLmsManageWeeklyReviews, PermissionLmsManageMaterials, PermissionLmsManageClassMedia, PermissionLmsManageDashboard],
     lmsRole RoleLmsAccountantRoleId
       [PermissionLmsManageTuition, PermissionLmsManageDashboard, PermissionLmsViewReports],
     lmsRole RoleLmsMarketingRoleId
       [PermissionLmsManagePosts, PermissionLmsManageBanners, PermissionLmsManageLeads, PermissionLmsViewNotifications,
        PermissionLmsManageDashboard, PermissionLmsViewReports],
     lmsRole RoleLmsParentRoleId
       [PermissionLmsManageStudents, PermissionLmsManageSessions, PermissionLmsManageHomework, PermissionLmsManageWeeklyReviews,
        PermissionLmsManageClassMedia, PermissionLmsManageTuition, PermissionLmsManageDashboard],
     lmsRole RoleLmsStudentRoleId
       [PermissionLmsManageSessions, PermissionLmsManageMaterials, PermissionLmsManageHomework, PermissionLmsManageWeeklyReviews,
        PermissionLmsManageDashboard]]"

lemmas role_defs =
  RoleLmsSuperAdminRoleId_def RoleLmsAdminRoleId_def RoleLmsCounselorRoleId_def RoleLmsTeacherRoleId_def RoleLmsAccountantRoleId_def RoleLmsMarketingRoleId_def RoleLmsParentRoleId_def RoleLmsStudentRoleId_def

section \<open>Sessions\<close>

record Session =
  se_UserId :: string
  se_Roles :: string
  se_Local :: bool

definition IsUnrestricted :: "Session \<Rightarrow> bool" where
  "IsUnrestricted s = se_Local s"

text \<open>\<^verbatim>\<open>strings.Fields\<close>; \<open>cur\<close> is the reversed text of the field being read.\<close>

function fieldsFrom :: "string \<Rightarrow> string \<Rightarrow> string list" where
  "fieldsFrom cur s =
     (if s = [] then (if cur = [] then [] else [rev cur])
      else let k = matchPrefix space_runes s in
           if k = 0 then fieldsFrom (hd s # cur) (tl s)
           else (if cur = [] then [] else [rev cur]) @ fieldsFrom [] (drop k s))"
  by pat_completeness auto
termination by (relation "measure (length \<circ> snd)") auto

declare fieldsFrom.simps [simp del]

definition strFields :: "string \<Rightarrow> string list" where
  "strFields s = fieldsFrom [] s"

definition GetUserRoles :: "Session \<Rightarrow> string list" where
  "GetUserRoles s = strFields (se_Roles s)"

section \<open>The check\<close>

definition RolesGrantPermission :: "(string list \<Rightarrow> app_error + Role list) \<Rightarrow> string list \<Rightarrow> string \<Rightarrow> bool" where
  "RolesGrantPermission GetRolesByNames roleNames permissionId =
     (case GetRolesByNames roleNames of
        Inl _ \<Rightarrow> False
      | Inr roles \<Rightarrow> list_ex (\<lambda>r. ro_DeleteAt r = 0 \<and> permissionId \<in> set (ro_Permissions r)) roles)"

definition SessionHasPermissionTo :: "(string list \<Rightarrow> app_error + Role list) \<Rightarrow> Session \<Rightarrow> string \<Rightarrow> bool" where
  "SessionHasPermissionTo GetRolesByNames s permissionId \<longleftrightarrow>
     IsUnrestricted s \<or> RolesGrantPermission GetRolesByNames (GetUserRoles s) permissionId"

section \<open>A server with the default roles\<close>

text \<open>
  The default LMS roles are in force, beside roles of the core; of those, only the system administrator holds permissions of the LMS.
\<close>

definition default_roles :: "(string list \<Rightarrow> app_error + Role list) \<Rightarrow> bool" where
  "default_roles G \<longleftrightarrow>
     (\<exists>core. (\<forall>names. G names = Inr (filter (\<lambda>r. ro_Name r \<in> set names) (MakeDefaultLMSRoles @ core)))
        \<and> (\<forall>r \<in> set core. ro_Name r \<noteq> ''system_admin'' \<longrightarrow> set (ro_Permissions r) \<inter> set LearningSystemScopedPermissions = {}))"

definition holders :: "string \<Rightarrow> string list" where
  "holders p = map ro_Name (filter (\<lambda>r. p \<in> set (ro_Permissions r)) MakeDefaultLMSRoles)"

lemma default_not_deleted: "r \<in> set MakeDefaultLMSRoles \<Longrightarrow> ro_DeleteAt r = 0"
  by (auto simp: MakeDefaultLMSRoles_def lmsRole_def)

lemma default_roles_granted:
  assumes "default_roles G" and "r \<in> set (GetUserRoles s)" and "r \<in> set (holders p)"
  shows "SessionHasPermissionTo G s p"
proof -
  obtain core where g: "G (GetUserRoles s) = Inr (filter (\<lambda>r. ro_Name r \<in> set (GetUserRoles s)) (MakeDefaultLMSRoles @ core))"
    using assms(1) unfolding default_roles_def by blast
  then show ?thesis using assms(2,3) default_not_deleted
    by (auto simp: SessionHasPermissionTo_def RolesGrantPermission_def list_ex_iff holders_def)
qed

lemma default_roles_refused:
  assumes "default_roles G" and "p \<in> set LearningSystemScopedPermissions" and "\<not> se_Local s"
    and "\<forall>r \<in> set (GetUserRoles s). r \<noteq> ''system_admin'' \<and> r \<notin> set (holders p)"
  shows "\<not> SessionHasPermissionTo G s p"
proof -
  obtain core where g: "G (GetUserRoles s) = Inr (filter (\<lambda>r. ro_Name r \<in> set (GetUserRoles s)) (MakeDefaultLMSRoles @ core))"
    and c: "\<forall>r \<in> set core. ro_Name r \<noteq> ''system_admin'' \<longrightarrow> set (ro_Permissions r) \<inter> set LearningSystemScopedPermissions = {}"
    using assms(1) unfolding default_roles_def by blast
  have "p \<notin> set (ro_Permissions r)" if "r \<in> set core" "ro_Name r \<in> set (GetUserRoles s)" for r
    using c that assms(2,4) by blast
  moreover have "p \<notin> set (ro_Permissions r)" if "r \<in> set MakeDefaultLMSRoles" "ro_Name r \<in> set (GetUserRoles s)" for r
    using that assms(4) by (auto simp: holders_def)
  ultimately show ?thesis
    using assms(3) by (auto simp: SessionHasPermissionTo_def IsUnrestricted_def RolesGrantPermission_def g list_ex_iff)
qed

lemma holders_eq:
  "holders PermissionLmsManageBranches = [''lms_super_admin'', ''lms_admin'']"
  "holders PermissionLmsManageCourses = [''lms_super_admin'', ''lms_admin'']"
  "holders PermissionLmsManageClasses = [''lms_super_admin'', ''lms_admin'']"
  "holders PermissionLmsManageSessions = [''lms_super_admin'', ''lms_admin'', ''lms_teacher'', ''lms_parent'', ''lms_student'']"
  "holders PermissionLmsManageAttendance = [''lms_super_admin'', ''lms_admin'', ''lms_teacher'']"
  "holders PermissionLmsManageLeads = [''lms_super_admin'', ''lms_admin'', ''lms_counselor'', ''lms_marketing'']"
  "holders PermissionLmsManageTuition = [''lms_super_admin'', ''lms_admin'', ''lms_accountant'', ''lms_parent'']"
  "holders PermissionLmsManagePosts = [''lms_super_admin'', ''lms_admin'', ''lms_marketing'']"
  "holders PermissionLmsManageHomework = [''lms_super_admin'', ''lms_admin'', ''lms_teacher'', ''lms_parent'', ''lms_student'']"
  "holders PermissionLmsManageWeeklyReviews = [''lms_super_admin'', ''lms_admin'', ''lms_teacher'', ''lms_parent'', ''lms_student'']"
  "holders PermissionLmsManageMaterials = [''lms_super_admin'', ''lms_admin'', ''lms_teacher'', ''lms_student'']"
  "holders PermissionLmsManageTasks = [''lms_super_admin'', ''lms_admin'']"
  "holders PermissionLmsManageBanners = [''lms_super_admin'', ''lms_admin'', ''lms_marketing'']"
  "holders PermissionLmsViewNotifications = [''lms_super_admin'', ''lms_admin'', ''lms_marketing'']"
  "holders PermissionLmsManageClassMedia = [''lms_super_admin'', ''lms_admin'', ''lms_teacher'', ''lms_parent'']"
  "holders PermissionLmsManageDashboard = [''lms_super_admin'', ''lms_admin'', ''lms_counselor'', ''lms_teacher'', ''lms_accountant'', ''lms_marketing'', ''lms_parent'', ''lms_student'']"
  "holders PermissionLmsViewReports = [''lms_super_admin'', ''lms_admin'', ''lms_accountant'', ''lms_marketing'']"
  "holders PermissionLmsManageStudents = [''lms_super_admin'', ''lms_admin'', ''lms_counselor'', ''lms_teacher'', ''lms_parent'']"
  "holders PermissionLmsManageUsers = [''lms_super_admin'', ''lms_admin'']"
  "holders PermissionLmsManageFeePackages = [''lms_super_admin'', ''lms_admin'']"
  by code_simp+

end
