(* ===== verification/Lms_Sessions.thy ===== *)
theory Lms_Sessions
  imports Lms_Lookups Lms_Dates Users
begin

text \<open>
  Lessons and the timetable, \<^verbatim>\<open>channels/app/lms/session.go\<close>: weekly series, the check against the other
  lessons of the teacher, and the operations on single lessons. Each operation takes the tables it reads and
  returns the table of lessons it leaves; \<open>n\<close> is the tick of its first statement, and the conflict check takes at
  most the ticks up to \<open>n + 26\<close> (one query, one user, at most 25 classes). A date is a UTC midnight (that
  is what \<^verbatim>\<open>VnTime.UnmarshalJSON\<close> and \<^verbatim>\<open>Scan\<close> produce), so \<^verbatim>\<open>Sub(...).Hours()/24/7\<close> is a whole division.
\<close>

section \<open>Users and class names\<close>

definition teacherDisplayName :: "lmsEnv \<Rightarrow> nat \<Rightarrow> string \<Rightarrow> User list \<Rightarrow> string" where
  "teacherDisplayName E n teacherID users =
     (case UserStore_Get E n teacherID users of
        Inl _ \<Rightarrow> []
      | Inr u \<Rightarrow> if GetFullName u \<noteq> [] then GetFullName u else us_Username u)"

fun classNamesForSessions :: "lmsEnv \<Rightarrow> nat \<Rightarrow> Class list \<Rightarrow> LMSSession list \<Rightarrow> string gomap \<Rightarrow> string gomap" where
  "classNamesForSessions E n classes [] names = names"
| "classNamesForSessions E n classes (s # ss) names =
     (if ls_ClassID s = [] \<or> gm_get names (ls_ClassID s) \<noteq> None then classNamesForSessions E n classes ss names
      else classNamesForSessions E (n + 1) classes ss
             (gm_set (ls_ClassID s)
                (case ClassStore_Get E n (ls_ClassID s) classes of Inl _ \<Rightarrow> [] | Inr c \<Rightarrow> kl_Name c) names))"

section \<open>Weekly series\<close>

definition maxRepeatOccurrences :: int where
  "maxRepeatOccurrences = 104"

definition weekMs :: int where
  "weekMs = 7 * 24 * 3600 * 1000"

definition occurrence :: "LMSSession \<Rightarrow> int \<Rightarrow> LMSSession" where
  "occurrence s k =
     (if k = 0 then s
      else s\<lparr>ls_ID := [], ls_Date := ls_Date s + 7 * k * dayMs,
             ls_StartTime := wrap64 (ls_StartTime s + wrap64 (k * weekMs)),
             ls_EndTime := wrap64 (ls_EndTime s + wrap64 (k * weekMs)),
             ls_Createat := 0, ls_Updateat := 0\<rparr>)"

definition expandWeeklyOccurrences :: "LMSSession \<Rightarrow> string \<Rightarrow> app_error + LMSSession list" where
  "expandWeeklyOccurrences s repeatUntil =
     (if repeatUntil = [] then Inr [s]
      else case parseDate repeatUntil of
             None \<Rightarrow> Inl (AppError ''app.lms.session.repeat_until.app_error'' 400)
           | Some ymd \<Rightarrow>
               let untilDate = utcMidnight ymd; weeks = (untilDate - ls_Date s) div weekMs + 1 in
               if untilDate < ls_Date s then Inl (AppError ''app.lms.session.repeat_until_before.app_error'' 400)
               else if weeks > maxRepeatOccurrences then Inl (AppError ''app.lms.session.repeat_too_many.app_error'' 400)
               else Inr (map (occurrence s) [0 .. weeks - 1]))"

section \<open>Conflicts\<close>

record SessionConflict =
  sf_Date :: string
  sf_StartTimeMs :: int
  sf_EndTimeMs :: int
  sf_ClassID :: string
  sf_ClassName :: string
  sf_TeacherID :: string
  sf_TeacherName :: string

text \<open>Strict overlap of two half-open intervals.\<close>

definition overlaps :: "LMSSession \<Rightarrow> LMSSession \<Rightarrow> bool" where
  "overlaps occ existing \<longleftrightarrow> ls_StartTime occ < ls_EndTime existing \<and> ls_EndTime occ > ls_StartTime existing"

definition minStart :: "LMSSession list \<Rightarrow> int" where
  "minStart occs = fold (\<lambda>occ m. if ls_StartTime occ < m then ls_StartTime occ else m) occs (ls_StartTime (hd occs))"

definition maxEnd :: "LMSSession list \<Rightarrow> int" where
  "maxEnd occs = fold (\<lambda>occ m. if ls_EndTime occ > m then ls_EndTime occ else m) occs (ls_EndTime (hd occs))"

definition conflictOf :: "string \<Rightarrow> string \<Rightarrow> string gomap \<Rightarrow> LMSSession \<Rightarrow> SessionConflict" where
  "conflictOf teacherID teacherName names existing =
     \<lparr>sf_Date = formatDate (dateOfDay (ls_Date existing div dayMs)), sf_StartTimeMs = ls_StartTime existing,
      sf_EndTimeMs = ls_EndTime existing, sf_ClassID = ls_ClassID existing,
      sf_ClassName = (case gm_get names (ls_ClassID existing) of None \<Rightarrow> [] | Some x \<Rightarrow> x),
      sf_TeacherID = teacherID, sf_TeacherName = teacherName\<rparr>"

definition checkOccurrenceConflicts ::
  "lmsEnv \<Rightarrow> nat \<Rightarrow> User list \<Rightarrow> Class list \<Rightarrow> string \<Rightarrow> LMSSession list \<Rightarrow> string \<Rightarrow> LMSSession list
    \<Rightarrow> app_error + SessionConflict list" where
  "checkOccurrenceConflicts E n users classes teacherID occs excludeID t =
     (if teacherID = [] \<or> occs = [] then Inr []
      else case LMSSessionStore_FindTeacherConflicts E n teacherID (minStart occs) (maxEnd occs) excludeID t of
             Inl _ \<Rightarrow> Inl (AppError ''app.lms.session.conflict_check.app_error'' 500)
           | Inr rows \<Rightarrow>
               let teacherName = teacherDisplayName E (n + 1) teacherID users;
                   names = classNamesForSessions E (n + 2) classes rows []
               in Inr (map (conflictOf teacherID teacherName names)
                        (filter (\<lambda>existing. list_ex (\<lambda>occ. overlaps occ existing) occs) rows)))"

section \<open>Operations\<close>

definition GetSession :: "lmsEnv \<Rightarrow> nat \<Rightarrow> string \<Rightarrow> LMSSession list \<Rightarrow> app_error + LMSSession" where
  "GetSession E n i t =
     mapErr (storeErr ''app.lms.session.not_found'' ''app.lms.session.get.app_error'') (LMSSessionStore_Get E n i t)"

definition CreateSession ::
  "lmsEnv \<Rightarrow> nat \<Rightarrow> LMSSession \<Rightarrow> LMSSession list \<Rightarrow> (app_error + LMSSession) \<times> LMSSession list" where
  "CreateSession E n s t =
     (let (r, t1) = LMSSessionStore_Save E n s t
      in (mapErr (\<lambda>_. AppError ''app.lms.session.create.app_error'' 500) r, t1))"

fun saveOccurrences ::
  "lmsEnv \<Rightarrow> nat \<Rightarrow> LMSSession list \<Rightarrow> LMSSession list \<Rightarrow> (app_error + LMSSession list) \<times> LMSSession list" where
  "saveOccurrences E n [] t = (Inr [], t)"
| "saveOccurrences E n (occ # occs) t =
     (case LMSSessionStore_Save E n occ t of
        (Inl _, t1) \<Rightarrow> (Inl (AppError ''app.lms.session.create.app_error'' 500), t1)
      | (Inr saved, t1) \<Rightarrow>
          (case saveOccurrences E (n + 1) occs t1 of
             (Inl e, t2) \<Rightarrow> (Inl e, t2)
           | (Inr l, t2) \<Rightarrow> (Inr (saved # l), t2)))"

text \<open>The result is a pair: the lessons created and the conflicts found, one of them empty.\<close>

definition CreateSessionsWithRepeat ::
  "lmsEnv \<Rightarrow> nat \<Rightarrow> User list \<Rightarrow> Class list \<Rightarrow> LMSSession option \<Rightarrow> string \<Rightarrow> bool \<Rightarrow> LMSSession list
    \<Rightarrow> (app_error + LMSSession list \<times> SessionConflict list) \<times> LMSSession list" where
  "CreateSessionsWithRepeat E n users classes so repeatUntil force t =
     (case so of
        None \<Rightarrow> (Inl (AppError ''api.lms.session.create_body.app_error'' 400), t)
      | Some s \<Rightarrow>
          if ls_ClassID s = [] \<or> ls_TeacherID s = [] \<or> ls_Date s = zeroTime
            then (Inl (AppError ''model.lms.session.class_id.app_error'' 400), t)
          else if ls_EndTime s \<le> ls_StartTime s
            then (Inl (AppError ''app.lms.session.time_order.app_error'' 400), t)
          else case expandWeeklyOccurrences s repeatUntil of
            Inl e \<Rightarrow> (Inl e, t)
          | Inr occs \<Rightarrow>
              (case (if force then Inr [] else checkOccurrenceConflicts E n users classes (ls_TeacherID s) occs [] t) of
                 Inl e \<Rightarrow> (Inl e, t)
               | Inr conflicts \<Rightarrow>
                   if conflicts \<noteq> [] then (Inr ([], conflicts), t)
                   else case saveOccurrences E (n + 27) occs t of
                          (Inl e, t1) \<Rightarrow> (Inl e, t1)
                        | (Inr created, t1) \<Rightarrow> (Inr (created, []), t1)))"

definition UpdateSession ::
  "lmsEnv \<Rightarrow> nat \<Rightarrow> User list \<Rightarrow> Class list \<Rightarrow> string \<Rightarrow> LMSSession option \<Rightarrow> bool \<Rightarrow> LMSSession list
    \<Rightarrow> (app_error + LMSSession option \<times> SessionConflict list) \<times> LMSSession list" where
  "UpdateSession E n users classes i so force t =
     (case so of
        None \<Rightarrow> (Inl (AppError ''api.lms.session.update_body.app_error'' 400), t)
      | Some s0 \<Rightarrow>
          let s = s0\<lparr>ls_ID := i\<rparr> in
          if ls_EndTime s \<noteq> 0 \<and> ls_StartTime s \<noteq> 0 \<and> ls_EndTime s \<le> ls_StartTime s
            then (Inl (AppError ''app.lms.session.time_order.app_error'' 400), t)
          else case (if \<not> force \<and> ls_TeacherID s \<noteq> [] \<and> ls_StartTime s \<noteq> 0 \<and> ls_EndTime s \<noteq> 0
                     then checkOccurrenceConflicts E n users classes (ls_TeacherID s) [s] i t else Inr []) of
            Inl e \<Rightarrow> (Inl e, t)
          | Inr conflicts \<Rightarrow>
              if conflicts \<noteq> [] then (Inr (None, conflicts), t)
              else
                let s1 = (if ls_LessonID s = []
                          then case LMSSessionStore_Get E (n + 27) i t of
                                 Inr existing \<Rightarrow> s\<lparr>ls_LessonID := ls_LessonID existing\<rparr>
                               | Inl _ \<Rightarrow> s
                          else s);
                    (r, t1) = LMSSessionStore_Update E (n + 28) s1 t
                in (mapErr (storeErr ''app.lms.session.not_found'' ''app.lms.session.update.app_error'')
                      (map_sum id (\<lambda>u. (Some u, [])) r), t1))"

definition DeleteSession :: "lmsEnv \<Rightarrow> nat \<Rightarrow> string \<Rightarrow> LMSSession list \<Rightarrow> app_error option \<times> LMSSession list" where
  "DeleteSession E n i t =
     (let (r, t1) = LMSSessionStore_Delete E n i t
      in (map_option (storeErr ''app.lms.session.not_found'' ''app.lms.session.delete.app_error'') r, t1))"

text \<open>The first three conflicts by date and class, then how many more (the last word is UTF-8 text).\<close>

fun conflictList :: "nat \<Rightarrow> SessionConflict list \<Rightarrow> string" where
  "conflictList i [] = []"
| "conflictList i (cf # cfs) =
     (if i = 3
      then '' (+'' @ decStr (length (cf # cfs)) @ '' n'' @ [CHR 0xE1, CHR 0xBB, CHR 0xAF] @ ''a)''
      else (if i > 0 then ''; '' else [])
           @ sf_Date cf @ '' '' @ (if sf_ClassName cf = [] then sf_ClassID cf else sf_ClassName cf)
           @ conflictList (i + 1) cfs)"

definition SessionConflictSummary :: "SessionConflict list \<Rightarrow> string" where
  "SessionConflictSummary cfs = conflictList 0 cfs"

section \<open>Series\<close>

lemma wrap64_small: "\<bar>x\<bar> < 2 ^ 62 \<Longrightarrow> 0 \<le> k \<Longrightarrow> k < 104 \<Longrightarrow> wrap64 (x + wrap64 (k * weekMs)) = x + k * weekMs"
  by (subst wrap64_id wrap64_id; simp add: weekMs_def)+

lemma occurrence_slot:
  assumes "\<bar>ls_StartTime s\<bar> < 2 ^ 62" "\<bar>ls_EndTime s\<bar> < 2 ^ 62" "0 \<le> k" "k < 104"
  shows "ls_StartTime (occurrence s k) = ls_StartTime s + k * weekMs"
    "ls_EndTime (occurrence s k) = ls_EndTime s + k * weekMs"
  using assms by (auto simp: occurrence_def wrap64_small)

lemma occurrence_same [simp]:
  "ls_TeacherID (occurrence s k) = ls_TeacherID s" "ls_Status (occurrence s k) = ls_Status s"
  "ls_ClassID (occurrence s k) = ls_ClassID s"
  by (simp_all add: occurrence_def)

lemma occurrence_date: "ls_Date (occurrence s k) = ls_Date s + 7 * k * dayMs"
  by (simp add: occurrence_def)

text \<open>A series is never empty, has at most 104 lessons, and its \<open>k\<close>-th lesson is the \<open>k\<close>-th occurrence.\<close>

lemma expand_series:
  assumes "expandWeeklyOccurrences s u = Inr occs"
  obtains w where "1 \<le> w" "w \<le> 104" "occs = map (occurrence s) [0 .. w - 1]"
    "u \<noteq> [] \<longrightarrow> (\<exists>ymd. parseDate u = Some ymd \<and> w = (utcMidnight ymd - ls_Date s) div weekMs + 1 \<and> ls_Date s \<le> utcMidnight ymd)"
proof (cases "u = []")
  case True
  then show ?thesis using assms by (intro that[of 1]) (auto simp: expandWeeklyOccurrences_def occurrence_def)
next
  case False
  then obtain ymd where p: "parseDate u = Some ymd" "ls_Date s \<le> utcMidnight ymd"
      "(utcMidnight ymd - ls_Date s) div weekMs + 1 \<le> 104"
      "occs = map (occurrence s) [0 .. (utcMidnight ymd - ls_Date s) div weekMs + 1 - 1]"
    using assms by (auto simp: expandWeeklyOccurrences_def maxRepeatOccurrences_def Let_def split: option.splits if_splits)
  then have "0 \<le> (utcMidnight ymd - ls_Date s) div weekMs" by (simp add: weekMs_def pos_imp_zdiv_nonneg_iff)
  then show ?thesis using p by (intro that[of "(utcMidnight ymd - ls_Date s) div weekMs + 1"]) auto
qed

lemma fold_min_le:
  fixes l :: "LMSSession list"
  shows "fold (\<lambda>occ m. if ls_StartTime occ < m then ls_StartTime occ else m) l a \<le> a
    \<and> (\<forall>x \<in> set l. fold (\<lambda>occ m. if ls_StartTime occ < m then ls_StartTime occ else m) l a \<le> ls_StartTime x)"
  by (induction l arbitrary: a) (auto split: if_splits, (meson less_imp_le linorder_not_less order_trans)+)

lemma fold_max_ge:
  fixes l :: "LMSSession list"
  shows "a \<le> fold (\<lambda>occ m. if ls_EndTime occ > m then ls_EndTime occ else m) l a
    \<and> (\<forall>x \<in> set l. ls_EndTime x \<le> fold (\<lambda>occ m. if ls_EndTime occ > m then ls_EndTime occ else m) l a)"
  by (induction l arbitrary: a) (auto split: if_splits, (meson less_imp_le linorder_not_less order_trans)+)

lemma minStart_le: "x \<in> set occs \<Longrightarrow> minStart occs \<le> ls_StartTime x"
  using fold_min_le[of occs] by (simp add: minStart_def)

lemma maxEnd_ge: "x \<in> set occs \<Longrightarrow> ls_EndTime x \<le> maxEnd occs"
  using fold_max_ge[of _ occs] by (simp add: maxEnd_def)

section \<open>The conflict check\<close>

text \<open>The rows the query is about, before the limit of 25.\<close>

definition teacherSlots :: "string \<Rightarrow> LMSSession list \<Rightarrow> string \<Rightarrow> LMSSession list \<Rightarrow> LMSSession list" where
  "teacherSlots teacherID occs excludeID t =
     filter (\<lambda>r. ls_TeacherID r = teacherID \<and> ls_Status r \<noteq> ''CANCELLED'' \<and> ls_StartTime r < maxEnd occs
        \<and> ls_EndTime r > minStart occs \<and> (excludeID \<noteq> '''' \<longrightarrow> ls_ID r \<noteq> excludeID)) t"

definition clearOf :: "string \<Rightarrow> string \<Rightarrow> LMSSession list \<Rightarrow> LMSSession \<Rightarrow> bool" where
  "clearOf teacherID excludeID t occ \<longleftrightarrow>
     (\<forall>r \<in> set t. ls_TeacherID r = teacherID \<and> ls_Status r \<noteq> ''CANCELLED'' \<and> (excludeID \<noteq> '''' \<longrightarrow> ls_ID r \<noteq> excludeID)
        \<longrightarrow> \<not> overlaps occ r)"

lemma check_none_clear:
  assumes "checkOccurrenceConflicts E n users classes teacherID occs excludeID t = Inr []"
    and "teacherID \<noteq> []" and "length (teacherSlots teacherID occs excludeID t) \<le> 25" and occ: "occ \<in> set occs"
  shows "clearOf teacherID excludeID t occ"
proof -
  have "occs \<noteq> []" using occ by auto
  moreover have "take 25 (sort_key ls_StartTime (teacherSlots teacherID occs excludeID t))
      = sort_key ls_StartTime (teacherSlots teacherID occs excludeID t)"
    using assms(3) by simp
  ultimately have none: "\<forall>r \<in> set (teacherSlots teacherID occs excludeID t). \<not> overlaps occ r"
    using assms(1,2) occ
    by (auto simp: checkOccurrenceConflicts_def LMSSessionStore_FindTeacherConflicts_def teacherSlots_def[symmetric]
        Let_def filter_empty_conv list_ex_iff split: if_splits)
  show ?thesis unfolding clearOf_def
  proof (intro ballI impI notI)
    fix r
    assume r: "r \<in> set t" "ls_TeacherID r = teacherID \<and> ls_Status r \<noteq> ''CANCELLED'' \<and> (excludeID \<noteq> '''' \<longrightarrow> ls_ID r \<noteq> excludeID)"
      and o: "overlaps occ r"
    then have "r \<in> set (teacherSlots teacherID occs excludeID t)"
      using minStart_le[OF occ] maxEnd_ge[OF occ] by (auto simp: teacherSlots_def overlaps_def)
    then show False using none o by blast
  qed
qed

section \<open>Saving a series\<close>

text \<open>Two rows that take the same slot of the same teacher.\<close>

definition sameSlot :: "LMSSession \<Rightarrow> LMSSession \<Rightarrow> bool" where
  "sameSlot r occ \<longleftrightarrow> ls_StartTime r = ls_StartTime occ \<and> ls_EndTime r = ls_EndTime occ \<and> ls_TeacherID r = ls_TeacherID occ
     \<and> ls_Date r = dateCol (ls_Date occ)"

lemma sameSlot_saved: "sameSlot (LMSSession_columns (id (LMSSessionPreCreate E n occ))) occ"
  by (simp add: sameSlot_def LMSSession_columns_def LMSSessionPreCreate_def)

text \<open>A run of saves appends a row for every occurrence up to the first that is refused.\<close>

lemma saveOccurrences_rows:
  assumes "saveOccurrences E n occs t = (r, t1)"
  shows "\<exists>rows. t1 = t @ rows \<and> length rows \<le> length occs \<and> (\<forall>i < length rows. sameSlot (rows ! i) (occs ! i))
    \<and> (case r of Inr l \<Rightarrow> length rows = length occs \<and> rows = map LMSSession_columns l | Inl e \<Rightarrow> length rows < length occs)"
  using assms
proof (induction occs arbitrary: n t r)
  case Nil
  then show ?case by auto
next
  case (Cons occ occs)
  show ?case
  proof (cases rule: lmsSession_store.save_cases[of E n occ t])
    case (refused e)
    then show ?thesis using Cons.prems by auto
  next
    case saved
    let ?x = "id (LMSSessionPreCreate E n occ)"
    obtain r1 where r1: "saveOccurrences E (n + 1) occs (t @ [LMSSession_columns ?x]) = (r1, t1)"
      and r: "r = (case r1 of Inl e \<Rightarrow> Inl e | Inr l \<Rightarrow> Inr (?x # l))"
      using Cons.prems saved(1) by (auto split: prod.splits sum.splits)
    obtain rows where rows: "t1 = (t @ [LMSSession_columns ?x]) @ rows" "length rows \<le> length occs"
      "\<forall>i < length rows. sameSlot (rows ! i) (occs ! i)"
      "case r1 of Inr l \<Rightarrow> length rows = length occs \<and> rows = map LMSSession_columns l | Inl e \<Rightarrow> length rows < length occs"
      using Cons.IH[OF r1] by blast
    have "\<forall>i < length (LMSSession_columns ?x # rows). sameSlot ((LMSSession_columns ?x # rows) ! i) ((occ # occs) ! i)"
      using rows(3) sameSlot_saved[of E n occ] by (auto simp: nth_Cons split: nat.splits)
    then show ?thesis
      using rows(1,2,4) r by (intro exI[of _ "LMSSession_columns ?x # rows"]) (auto split: sum.splits)
  qed
qed

section \<open>A timetable without overlaps\<close>

definition timetable_ok :: "LMSSession list \<Rightarrow> bool" where
  "timetable_ok t \<longleftrightarrow>
     (\<forall>r \<in> set t. \<forall>r' \<in> set t. ls_ID r \<noteq> ls_ID r' \<and> ls_TeacherID r = ls_TeacherID r'
        \<and> ls_Status r \<noteq> ''CANCELLED'' \<and> ls_Status r' \<noteq> ''CANCELLED'' \<longrightarrow> \<not> overlaps r r')"

lemma overlaps_commute: "overlaps a b \<longleftrightarrow> overlaps b a"
  by (auto simp: overlaps_def)

lemma sameSlot_overlaps: "sameSlot r occ \<Longrightarrow> overlaps r x \<longleftrightarrow> overlaps occ x"
  by (simp add: sameSlot_def overlaps_def)

lemma occurrences_disjoint:
  assumes "\<bar>ls_StartTime s\<bar> < 2 ^ 62" "\<bar>ls_EndTime s\<bar> < 2 ^ 62" "ls_EndTime s - ls_StartTime s \<le> weekMs"
    and "0 \<le> j" "j < 104" "0 \<le> k" "k < 104" "j \<noteq> k"
  shows "\<not> overlaps (occurrence s j) (occurrence s k)"
proof -
  have "(j - k) * weekMs \<ge> weekMs \<or> (k - j) * weekMs \<ge> weekMs"
  proof (cases "j < k")
    case True
    then have "1 * weekMs \<le> (k - j) * weekMs" by (intro mult_right_mono) (auto simp: weekMs_def)
    then show ?thesis by simp
  next
    case False
    then have "1 * weekMs \<le> (j - k) * weekMs" using assms(8) by (intro mult_right_mono) (auto simp: weekMs_def)
    then show ?thesis by simp
  qed
  then show ?thesis
    using occurrence_slot[OF assms(1,2,4,5)] occurrence_slot[OF assms(1,2,6,7)] assms(3)
    by (auto simp: overlaps_def left_diff_distrib)
qed

lemma timetable_append:
  assumes "timetable_ok t"
    and slots: "\<forall>i < length rows. sameSlot (rows ! i) (occs ! i)" "length rows \<le> length occs"
    and teacher: "\<forall>occ \<in> set occs. ls_TeacherID occ = teacherID"
    and clear: "\<forall>occ \<in> set occs. clearOf teacherID [] t occ"
    and apart: "\<forall>i < length occs. \<forall>j < length occs. i \<noteq> j \<longrightarrow> \<not> overlaps (occs ! i) (occs ! j)"
  shows "timetable_ok (t @ rows)"
proof -
  have new: "\<not> overlaps r x"
    if r: "r \<in> set rows" and x: "x \<in> set (t @ rows)" "ls_ID r \<noteq> ls_ID x" "ls_TeacherID r = ls_TeacherID x" "ls_Status x \<noteq> ''CANCELLED''"
    for r x
  proof -
    obtain i where i: "i < length rows" "r = rows ! i" using r by (auto simp: in_set_conv_nth)
    then have occ: "occs ! i \<in> set occs" "sameSlot r (occs ! i)" using slots by auto
    then have t: "ls_TeacherID r = teacherID" using teacher by (auto simp: sameSlot_def)
    show ?thesis
    proof (cases "x \<in> set t")
      case True
      then show ?thesis using clear occ t x(3,4) sameSlot_overlaps[OF occ(2)] by (auto simp: clearOf_def)
    next
      case False
      then obtain j where j: "j < length rows" "x = rows ! j" using x(1) by (auto simp: in_set_conv_nth)
      then have "i \<noteq> j" using i x(2) by auto
      then have "\<not> overlaps (occs ! i) (occs ! j)" using apart i j slots(2) by auto
      then show ?thesis using slots(1) i j by (metis sameSlot_overlaps overlaps_commute)
    qed
  qed
  then show ?thesis
    using assms(1) overlaps_commute unfolding timetable_ok_def by (metis Un_iff set_append)
qed

lemma weekMs_days: "weekMs = 7 * dayMs"
  by (simp add: weekMs_def dayMs_def)

text \<open>
  C16: A weekly series is complete and bounded. An accepted request with a last day gives between 1 and 104
  lessons, the \<open>i\<close>-th exactly \<open>i\<close> weeks after the first in date, start and end, none of them after the last
  day, and one more week would be after it.
\<close>

theorem weekly_series_complete:
  assumes "expandWeeklyOccurrences s u = Inr occs" and "u \<noteq> []"
    and "\<bar>ls_StartTime s\<bar> < 2 ^ 62" and "\<bar>ls_EndTime s\<bar> < 2 ^ 62"
  shows "\<exists>ymd. parseDate u = Some ymd \<and> 1 \<le> length occs \<and> length occs \<le> 104
    \<and> (\<forall>i < length occs. ls_Date (occs ! i) = ls_Date s + 7 * int i * dayMs
         \<and> ls_StartTime (occs ! i) = ls_StartTime s + int i * weekMs \<and> ls_EndTime (occs ! i) = ls_EndTime s + int i * weekMs
         \<and> ls_Date (occs ! i) \<le> utcMidnight ymd)
    \<and> utcMidnight ymd < ls_Date s + 7 * int (length occs) * dayMs"
proof -
  obtain w ymd where w: "1 \<le> w" "w \<le> 104" "occs = map (occurrence s) [0 .. w - 1]" "parseDate u = Some ymd"
      "w = (utcMidnight ymd - ls_Date s) div weekMs + 1"
    using expand_series[OF assms(1)] assms(2) by metis
  have len: "length occs = nat w" using w(1,3) by simp
  define d where "d = utcMidnight ymd - ls_Date s"
  have d: "(w - 1) * weekMs \<le> d" "d < w * weekMs"
    using w(5) mult_div_mod_eq[of weekMs d] pos_mod_bound[of weekMs d] pos_mod_sign[of weekMs d]
    unfolding d_def[symmetric] by (auto simp: weekMs_def)
  have "ls_Date (occs ! i) = ls_Date s + 7 * int i * dayMs
      \<and> ls_StartTime (occs ! i) = ls_StartTime s + int i * weekMs \<and> ls_EndTime (occs ! i) = ls_EndTime s + int i * weekMs
      \<and> ls_Date (occs ! i) \<le> utcMidnight ymd" if i: "i < length occs" for i
  proof -
    have k: "0 \<le> int i" "int i < 104" "int i \<le> w - 1" using i w(1,2) len by auto
    have occ: "occs ! i = occurrence s (int i)" using i len w(3) by simp
    have "int i * weekMs \<le> (w - 1) * weekMs" using k(3) by (intro mult_right_mono) (auto simp: weekMs_def)
    then have "7 * int i * dayMs \<le> d" using d(1) by (simp add: weekMs_days)
    then show ?thesis using occurrence_slot[OF assms(3,4) k(1,2)] by (simp add: occ occurrence_date d_def)
  qed
  moreover have "utcMidnight ymd < ls_Date s + 7 * int (length occs) * dayMs"
    using d(2) len w(1) by (simp add: d_def weekMs_days algebra_simps)
  moreover have "1 \<le> length occs" "length occs \<le> 104" using w(1,2) len by auto
  ultimately show ?thesis using w(4) by blast
qed

section \<open>Creating lessons\<close>

lemma create_cases:
  assumes "CreateSessionsWithRepeat E n users classes (Some s) u force t = (r, t1)"
  obtains (refused) "t1 = t" "\<forall>l. r \<noteq> Inr (l, [])"
  | (saved) occs where "expandWeeklyOccurrences s u = Inr occs" "ls_TeacherID s \<noteq> []" "ls_StartTime s < ls_EndTime s"
      "force \<or> checkOccurrenceConflicts E n users classes (ls_TeacherID s) occs [] t = Inr []"
      "saveOccurrences E (n + 27) occs t = (map_sum id fst r, t1)" "\<forall>x. r = Inr x \<longrightarrow> snd x = []"
proof (cases "expandWeeklyOccurrences s u")
  case (Inl e)
  then show ?thesis using assms by (intro refused) (auto simp: CreateSessionsWithRepeat_def split: if_splits)
next
  case (Inr occs)
  define c where "c = (if force then Inr [] else checkOccurrenceConflicts E n users classes (ls_TeacherID s) occs [] t)"
  define bad where "bad \<longleftrightarrow> ls_ClassID s = [] \<or> ls_TeacherID s = [] \<or> ls_Date s = zeroTime"
  have eq: "CreateSessionsWithRepeat E n users classes (Some s) u force t =
      (if bad then (Inl (AppError ''model.lms.session.class_id.app_error'' 400), t)
       else if ls_EndTime s \<le> ls_StartTime s then (Inl (AppError ''app.lms.session.time_order.app_error'' 400), t)
       else case c of Inl e \<Rightarrow> (Inl e, t)
            | Inr conflicts \<Rightarrow> if conflicts \<noteq> [] then (Inr ([], conflicts), t)
                else case saveOccurrences E (n + 27) occs t of
                       (Inl e, t1) \<Rightarrow> (Inl e, t1) | (Inr created, t1) \<Rightarrow> (Inr (created, []), t1))"
    by (simp add: CreateSessionsWithRepeat_def Inr c_def bad_def)
  show ?thesis
  proof (cases "bad \<or> ls_EndTime s \<le> ls_StartTime s \<or> c \<noteq> Inr []")
    case True
    have "t1 = t \<and> (\<forall>l. r \<noteq> Inr (l, []))"
    proof (cases c)
      case (Inr cs)
      then show ?thesis using assms True unfolding eq by (cases cs) (auto split: if_splits)
    qed (use assms in \<open>auto simp: eq split: if_splits\<close>)
    then show ?thesis using refused by blast
  next
    case False
    obtain x y where xy: "saveOccurrences E (n + 27) occs t = (x, y)" by (cases "saveOccurrences E (n + 27) occs t") auto
    have r: "r = map_sum id (\<lambda>l. (l, [])) x" "t1 = y"
      using assms False unfolding eq xy by (cases x; auto)+
    have "map_sum id fst r = x" unfolding r(1) by (cases x) auto
    moreover have "force \<or> checkOccurrenceConflicts E n users classes (ls_TeacherID s) occs [] t = Inr []"
      using False by (auto simp: c_def split: if_splits)
    moreover have "\<forall>z. r = Inr z \<longrightarrow> snd z = []" unfolding r(1) by (cases x) auto
    moreover have "ls_TeacherID s \<noteq> []" "ls_StartTime s < ls_EndTime s" using False by (auto simp: bad_def)
    ultimately show ?thesis using saved[OF Inr] xy r(2) by blast
  qed
qed

lemma create_timetable:
  assumes ok: "timetable_ok t"
    and c: "CreateSessionsWithRepeat E n users classes (Some s) u False t = (r, t1)"
    and limit: "\<forall>occs. expandWeeklyOccurrences s u = Inr occs \<longrightarrow> length (teacherSlots (ls_TeacherID s) occs [] t) \<le> 25"
    and b: "\<bar>ls_StartTime s\<bar> < 2 ^ 62" "\<bar>ls_EndTime s\<bar> < 2 ^ 62" "ls_EndTime s - ls_StartTime s \<le> weekMs"
  shows "timetable_ok t1"
proof (cases rule: create_cases[OF c])
  case 1
  then show ?thesis using ok by simp
next
  case (2 occs)
  obtain w where w: "1 \<le> w" "w \<le> 104" "occs = map (occurrence s) [0 .. w - 1]"
    using expand_series[OF 2(1)] by metis
  have clear: "\<forall>occ \<in> set occs. clearOf (ls_TeacherID s) [] t occ"
    using check_none_clear[OF _ 2(2), of E n users classes occs "[]" t] 2(4) limit 2(1) by auto
  have apart: "\<not> overlaps (occs ! i) (occs ! j)" if "i < length occs" "j < length occs" "i \<noteq> j" for i j
    using occurrences_disjoint[OF b, of "int i" "int j"] that w by simp
  obtain rows where "t1 = t @ rows" "length rows \<le> length occs" "\<forall>i < length rows. sameSlot (rows ! i) (occs ! i)"
    using saveOccurrences_rows[OF 2(5)] by blast
  then show ?thesis
    using timetable_append[OF ok, of rows occs "ls_TeacherID s"] clear apart w(3) by auto
qed
section \<open>Moving lessons\<close>

lemma update_timetable:
  assumes ok: "timetable_ok t"
    and u: "UpdateSession E n users classes i (Some s) False t = (r, t1)"
    and s: "ls_TeacherID s \<noteq> []" "ls_StartTime s \<noteq> 0" "ls_EndTime s \<noteq> 0" and i: "i \<noteq> []"
    and limit: "length (teacherSlots (ls_TeacherID s) [s\<lparr>ls_ID := i\<rparr>] i t) \<le> 25"
  shows "timetable_ok t1"
proof -
  let ?s = "s\<lparr>ls_ID := i\<rparr>"
  define c where "c = checkOccurrenceConflicts E n users classes (ls_TeacherID s) [?s] i t"
  define s1 where "s1 = (if ls_LessonID s = []
      then case LMSSessionStore_Get E (n + 27) i t of Inr existing \<Rightarrow> ?s\<lparr>ls_LessonID := ls_LessonID existing\<rparr> | Inl _ \<Rightarrow> ?s
      else ?s)"
  have s1: "ls_ID s1 = i" "ls_TeacherID s1 = ls_TeacherID s" "ls_StartTime s1 = ls_StartTime s" "ls_EndTime s1 = ls_EndTime s"
    by (auto simp: s1_def split: sum.splits)
  consider "t1 = t" | "c = Inr []" "t1 = snd (LMSSessionStore_Update E (n + 28) s1 t)"
    using u s by (auto simp: UpdateSession_def Let_def c_def[symmetric] s1_def case_prod_beta split: if_splits sum.splits)
  then show ?thesis
  proof cases
    case 1
    then show ?thesis using ok by simp
  next
    case 2
    have clear: "clearOf (ls_TeacherID s) i t ?s"
      using check_none_clear[of E n users classes "ls_TeacherID s" "[?s]" i t ?s] 2(1) s(1) limit by (simp add: c_def)
    show ?thesis
    proof (cases rule: lmsSession_store.update_table[of E "n + 28" s1 t])
      case (same e)
      then show ?thesis using 2(2) ok by simp
    next
      case (written x)
      let ?u = "LMSSession_columns (LMSSessionPreUpdate E (n + 28) s1)"
      have t1: "set t1 \<subseteq> insert ?u {y \<in> set t. ls_ID y \<noteq> i}" using written(1) 2(2) s1(1) by auto
      have uf: "ls_ID ?u = i" "ls_TeacherID ?u = ls_TeacherID s" "overlaps ?u y = overlaps ?s y" for y
        using s1 by (simp_all add: LMSSession_columns_def LMSSessionPreUpdate_def overlaps_def)
      have new: "\<not> overlaps ?u y"
        if "y \<in> set t" "ls_ID y \<noteq> i" "ls_TeacherID y = ls_TeacherID s" "ls_Status y \<noteq> ''CANCELLED''" for y
        using that clear uf(3) by (simp add: clearOf_def)
      show ?thesis unfolding timetable_ok_def
      proof (intro ballI impI)
        fix a b
        assume "a \<in> set t1" "b \<in> set t1" and ab: "ls_ID a \<noteq> ls_ID b \<and> ls_TeacherID a = ls_TeacherID b
          \<and> ls_Status a \<noteq> ''CANCELLED'' \<and> ls_Status b \<noteq> ''CANCELLED''"
        then have "a = ?u \<or> a \<in> set t \<and> ls_ID a \<noteq> i" "b = ?u \<or> b \<in> set t \<and> ls_ID b \<noteq> i" using t1 by blast+
        then show "\<not> overlaps a b"
          using ab ok new uf(1,2) overlaps_commute[of a b] unfolding timetable_ok_def by (elim disjE) auto
      qed
    qed
  qed
qed

lemma timetable_subset: "timetable_ok t \<Longrightarrow> set t' \<subseteq> set t \<Longrightarrow> timetable_ok t'"
  by (auto simp: timetable_ok_def)

lemma delete_timetable: "timetable_ok t \<Longrightarrow> timetable_ok (snd (DeleteSession E n i t))"
  using lmsSession_store.delete_table[of E n i t]
  by (auto simp: DeleteSession_def case_prod_beta elim: timetable_subset)

section \<open>Runs of the timetable\<close>

text \<open>
  Requests that do not use \<^verbatim>\<open>force\<close>, in any order and against any users and classes: the teacher has at most 25
  lessons in the time span of the request, a lesson lasts at most a week, and a moved lesson has a start
  and an end.
\<close>

inductive timetable_step :: "lmsEnv \<Rightarrow> LMSSession list \<Rightarrow> LMSSession list \<Rightarrow> bool" for E where
  create: "\<forall>occs. expandWeeklyOccurrences s u = Inr occs \<longrightarrow> length (teacherSlots (ls_TeacherID s) occs [] t) \<le> 25 \<Longrightarrow>
     \<bar>ls_StartTime s\<bar> < 2 ^ 62 \<Longrightarrow> \<bar>ls_EndTime s\<bar> < 2 ^ 62 \<Longrightarrow> ls_EndTime s - ls_StartTime s \<le> weekMs \<Longrightarrow>
     timetable_step E t (snd (CreateSessionsWithRepeat E n users classes (Some s) u False t))"
| update: "length (teacherSlots (ls_TeacherID s) [s\<lparr>ls_ID := i\<rparr>] i t) \<le> 25 \<Longrightarrow> i \<noteq> [] \<Longrightarrow>
     ls_StartTime s \<noteq> 0 \<Longrightarrow> ls_EndTime s \<noteq> 0 \<Longrightarrow>
     timetable_step E t (snd (UpdateSession E n users classes i (Some s) False t))"
| delete: "timetable_step E t (snd (DeleteSession E n i t))"

lemma update_without_teacher:
  assumes "ls_TeacherID s = []"
  shows "snd (UpdateSession E n users classes i (Some s) force t) = t"
proof -
  have "snd (LMSSessionStore_Update E m x t) = t" if "ls_TeacherID x = []" for m x
  proof -
    have "LMSSessionIsValid (lv_letter E) (LMSSessionPreUpdate E m x) \<noteq> None"
      using that by (simp add: LMSSessionIsValid_def LMSSessionPreUpdate_def)
    then show ?thesis by (cases rule: lmsSession_store.update_table[of E m x t]) auto
  qed
  then show ?thesis
    using assms by (auto simp: UpdateSession_def Let_def case_prod_beta split: sum.splits)
qed

lemma timetable_step_ok: "timetable_step E t t' \<Longrightarrow> timetable_ok t \<Longrightarrow> timetable_ok t'"
proof (induction rule: timetable_step.induct)
  case (create s u t n users classes)
  then show ?case
    using create_timetable[OF create.prems, of E n users classes s u] by (metis prod.collapse)
next
  case (update s i t n users classes)
  then show ?case
    using update_timetable[OF update.prems, of E n users classes i s] update_without_teacher[of s E n users classes i False t]
    by (cases "ls_TeacherID s = []") (auto, metis prod.collapse)
qed (rule delete_timetable)

interpretation timetable: step_invariant "\<lambda>t. t = []" "timetable_step E" timetable_ok for E
  by unfold_locales (simp add: timetable_ok_def, rule timetable_step_ok)


definition demoLesson :: LMSSession where
  "demoLesson = \<lparr>ls_ID = [], ls_Title = None, ls_ClassID = ''class'', ls_StartTime = 1000, ls_EndTime = 2000, ls_Room = None,
     ls_TeacherID = ''tom'', ls_LessonID = [], ls_Status = [], ls_Date = utcMidnight (2026, 1, 5),
     ls_Createat = 0, ls_Updateat = 0\<rparr>"

lemma demo_series: "expandWeeklyOccurrences demoLesson ''2026-01-12'' = Inr [demoLesson, occurrence demoLesson 1]"
proof -
  have "parseDate ''2026-01-12'' = Some (2026, 1, 12)"
    by code_simp
  moreover have "utcMidnight (2026, 1, 12) = utcMidnight (2026, 1, 5) + weekMs"
    by (simp add: utcMidnight_def civilDay_def weekMs_def dayMs_def)
  moreover have "[0..1] = [0, 1::int]" by (simp add: upto_rec1)
  ultimately show ?thesis
    by (simp add: expandWeeklyOccurrences_def demoLesson_def maxRepeatOccurrences_def weekMs_def Let_def occurrence_def)
qed

lemma demo_save:
  assumes "demoId k \<notin> ls_ID ` set t" "ls_ID s = []" "ls_Title s = None" "ls_Room s = None" "ls_Status s = []"
    "ls_ClassID s \<noteq> []" "ls_TeacherID s \<noteq> []" "ls_Date s \<noteq> zeroTime"
  shows "LMSSessionStore_Save lmsDemo k s t =
    (Inr (LMSSessionPreCreate lmsDemo k s), t @ [LMSSession_columns (LMSSessionPreCreate lmsDemo k s)])"
  using assms
  by (simp add: LMSSessionStore_Save_def ent_save_def sql_insert_def LMSSessionPreCreate_def LMSSessionIsValid_def
      longerThan_def LMSSession_columns_def Let_def)

lemma demo_created:
  "snd (CreateSessionsWithRepeat lmsDemo 0 [] [] (Some demoLesson) ''2026-01-12'' False []) =
     map LMSSession_columns [LMSSessionPreCreate lmsDemo 27 demoLesson, LMSSessionPreCreate lmsDemo 28 (occurrence demoLesson 1)]"
proof -
  have d: "ls_Date demoLesson \<noteq> zeroTime" "ls_Date demoLesson + 7 * dayMs \<noteq> zeroTime"
    by (simp_all add: demoLesson_def zeroTime_def utcMidnight_def civilDay_def yearStart_def daysBefore_def dayMs_def)
  have check: "checkOccurrenceConflicts lmsDemo 0 [] [] ''tom'' occs [] [] = Inr []" for occs
    by (simp add: checkOccurrenceConflicts_def LMSSessionStore_FindTeacherConflicts_def)
  have 1: "LMSSessionStore_Save lmsDemo 27 demoLesson []
      = (Inr (LMSSessionPreCreate lmsDemo 27 demoLesson), [LMSSession_columns (LMSSessionPreCreate lmsDemo 27 demoLesson)])"
    by (subst demo_save) (use d in \<open>simp_all add: demoLesson_def\<close>)
  have 2: "LMSSessionStore_Save lmsDemo 28 (occurrence demoLesson 1) [LMSSession_columns (LMSSessionPreCreate lmsDemo 27 demoLesson)]
      = (Inr (LMSSessionPreCreate lmsDemo 28 (occurrence demoLesson 1)),
         [LMSSession_columns (LMSSessionPreCreate lmsDemo 27 demoLesson),
          LMSSession_columns (LMSSessionPreCreate lmsDemo 28 (occurrence demoLesson 1))])"
    by (subst demo_save)
      (use d in \<open>simp_all add: demoLesson_def occurrence_def LMSSessionPreCreate_def LMSSession_columns_def demoId_eq\<close>)
  have g: "ls_ClassID demoLesson \<noteq> []" "ls_TeacherID demoLesson = ''tom''" "\<not> ls_EndTime demoLesson \<le> ls_StartTime demoLesson"
    by (simp_all add: demoLesson_def)
  show ?thesis
    using d(1) g check[of "[demoLesson, occurrence demoLesson 1]"] 1 2
    by (simp add: CreateSessionsWithRepeat_def demo_series)
qed


text \<open>
  A creation that is refused leaves the timetable alone: a request that is malformed, whose series is out of
  range, whose conflict check fails or finds a conflict adds no lesson. Only a save that the database refuses can
  leave the lessons saved before it.
\<close>

theorem refused_creation_changes_nothing:
  assumes "CreateSessionsWithRepeat E n users classes so u force t = (r, t1)"
    and "(\<exists>cs. r = Inr ([], cs) \<and> cs \<noteq> []) \<or> (\<exists>e. r = Inl e \<and> e \<noteq> AppError ''app.lms.session.create.app_error'' 500)"
  shows "t1 = t"
proof (cases so)
  case None
  then show ?thesis using assms by (simp add: CreateSessionsWithRepeat_def)
next
  case (Some s)
  show ?thesis
  proof (cases rule: create_cases[OF assms(1)[unfolded Some]])
    case (2 occs)
    have "\<exists>l. r = Inr (l, []) \<or> r = Inl (AppError ''app.lms.session.create.app_error'' 500)"
    proof -
      have err: "x = AppError ''app.lms.session.create.app_error'' 500" if "saveOccurrences E k os t = (Inl x, y)" for x k os t y
        using that by (induction os arbitrary: k t) (auto split: prod.splits sum.splits)
      show ?thesis using 2(5,6) err by (cases r) auto
    qed
    then show ?thesis using assms(2) by auto
  qed simp
qed

theorem refused_creation_changes_nothing_witness:
  "CreateSessionsWithRepeat lmsDemo 0 [] [] (Some demoLesson) ''2026-1-12'' False [demoLesson]
     = (Inl (AppError ''app.lms.session.repeat_until.app_error'' 400), [demoLesson])"
proof -
  obtain r t1 where c: "CreateSessionsWithRepeat lmsDemo 0 [] [] (Some demoLesson) ''2026-1-12'' False [demoLesson] = (r, t1)"
    by (meson surj_pair)
  have "parseDate ''2026-1-12'' = None" by code_simp
  moreover have "ls_Date demoLesson \<noteq> zeroTime"
    by (simp add: demoLesson_def zeroTime_def utcMidnight_def civilDay_def yearStart_def daysBefore_def dayMs_def)
  ultimately have r: "r = Inl (AppError ''app.lms.session.repeat_until.app_error'' 400)"
    using c by (simp add: CreateSessionsWithRepeat_def expandWeeklyOccurrences_def demoLesson_def)
  then show ?thesis using c refused_creation_changes_nothing[OF c] by simp
qed

theorem weekly_series_complete_witness:
  "\<exists>occs ymd. expandWeeklyOccurrences demoLesson ''2026-01-12'' = Inr occs \<and> parseDate ''2026-01-12'' = Some ymd
     \<and> length occs = 2 \<and> ls_Date (occs ! 1) = utcMidnight (2026, 1, 5) + 7 * dayMs \<and> ls_Date (occs ! 1) \<le> utcMidnight ymd"
proof -
  have b: "\<bar>ls_StartTime demoLesson\<bar> < 2 ^ 62" "\<bar>ls_EndTime demoLesson\<bar> < 2 ^ 62" by (simp_all add: demoLesson_def)
  let ?l = "[demoLesson, occurrence demoLesson 1]"
  obtain ymd where ymd: "parseDate ''2026-01-12'' = Some ymd"
    "\<forall>i < length ?l. ls_Date (?l ! i) = ls_Date demoLesson + 7 * int i * dayMs
         \<and> ls_StartTime (?l ! i) = ls_StartTime demoLesson + int i * weekMs
         \<and> ls_EndTime (?l ! i) = ls_EndTime demoLesson + int i * weekMs \<and> ls_Date (?l ! i) \<le> utcMidnight ymd"
    using weekly_series_complete[OF demo_series _ b] by blast
  then have "ls_Date (?l ! 1) = utcMidnight (2026, 1, 5) + 7 * dayMs" "ls_Date (?l ! 1) \<le> utcMidnight ymd"
    by (auto simp: demoLesson_def)
  then show ?thesis using ymd(1) by (intro exI[of _ ?l] exI[of _ ymd]) (simp add: demo_series)
qed

section \<open>The limit of the conflict query\<close>

definition gapLesson :: "nat \<Rightarrow> LMSSession" where
  "gapLesson i = demoLesson\<lparr>ls_ID := replicate 26 (char_of (65 + i)), ls_Status := ''SCHEDULED'',
     ls_StartTime := 3000 + 10 * int i, ls_EndTime := 3010 + 10 * int i\<rparr>"

definition lateLesson :: LMSSession where
  "lateLesson = demoLesson\<lparr>ls_ID := replicate 26 (CHR ''Z''), ls_Status := ''SCHEDULED'',
     ls_StartTime := weekMs + 1500, ls_EndTime := weekMs + 1800\<rparr>"

definition busyTable :: "LMSSession list" where
  "busyTable = map gapLesson [0 ..< 25] @ [lateLesson]"

lemma busy_timetable: "timetable_ok busyTable"
proof -
  have "\<not> overlaps (gapLesson i) (gapLesson j)" if "ls_ID (gapLesson i) \<noteq> ls_ID (gapLesson j)" for i j
  proof -
    have "i \<noteq> j" using that by auto
    then show ?thesis by (auto simp: gapLesson_def overlaps_def)
  qed
  moreover have "\<not> overlaps (gapLesson i) lateLesson" if "i < 25" for i
    using that by (simp add: gapLesson_def lateLesson_def overlaps_def weekMs_def)
  ultimately show ?thesis unfolding timetable_ok_def busyTable_def
    using overlaps_commute by (auto simp del: upt_rec_numeral)
qed

lemma busy_check:
  "checkOccurrenceConflicts lmsDemo 0 [] [] ''tom'' [demoLesson, occurrence demoLesson 1] [] busyTable = Inr []"
proof -
  let ?occs = "[demoLesson, occurrence demoLesson 1]"
  have span: "minStart ?occs = 1000" "maxEnd ?occs = weekMs + 2000"
    using occurrence_slot[of demoLesson 1] by (simp_all add: minStart_def maxEnd_def demoLesson_def weekMs_def)
  have all: "filter (\<lambda>r. ls_TeacherID r = ''tom'' \<and> ls_Status r \<noteq> ''CANCELLED'' \<and> ls_StartTime r < weekMs + 2000
      \<and> ls_EndTime r > 1000 \<and> ([] \<noteq> '''' \<longrightarrow> ls_ID r \<noteq> [])) busyTable = busyTable"
    by (rule filter_True) (auto simp: busyTable_def gapLesson_def lateLesson_def demoLesson_def weekMs_def)
  have "sorted (map ls_StartTime busyTable)"
    by (simp add: busyTable_def gapLesson_def lateLesson_def weekMs_def comp_def upt_rec)
  then have "sort_key ls_StartTime busyTable = busyTable" by (rule sort_key_id_if_sorted)
  moreover have "take 25 busyTable = map gapLesson [0 ..< 25]" by (simp add: busyTable_def del: upt_rec_numeral)
  moreover have "\<not> list_ex (\<lambda>occ. overlaps occ (gapLesson i)) ?occs" if "i < 25" for i
    using that occurrence_slot[of demoLesson 1] by (simp add: overlaps_def gapLesson_def demoLesson_def weekMs_def)
  ultimately show ?thesis
    using all span
    by (simp add: checkOccurrenceConflicts_def LMSSessionStore_FindTeacherConflicts_def Let_def filter_empty_conv del: upt_rec_numeral)
qed
lemma busy_fresh: "demoId k \<notin> ls_ID ` set busyTable"
proof -
  define m where "m = k mod 26"
  have m: "m < 26" by (simp add: m_def)
  have ne: "char_of (97 + m) \<noteq> (char_of (65 + i) :: char)" if "i < 26" for i :: nat
  proof -
    have "(97 + m) mod 256 = 97 + m" "(65 + i) mod 256 = 65 + i" using m that by simp_all
    then show ?thesis using that by simp
  qed
  have "CHR ''Z'' = char_of (65 + 25 :: nat)" using char_of_char[of "CHR ''Z''", where 'a = nat] by simp
  then have "char_of (97 + m) \<noteq> CHR ''Z''" using ne[of 25] by simp
  moreover have "\<forall>i < (25::nat). char_of (97 + m) \<noteq> (char_of (65 + i) :: char)" using ne by simp
  ultimately show ?thesis
    by (auto simp: busyTable_def gapLesson_def lateLesson_def demoId_def m_def[symmetric] replicate_eq_replicate
        simp del: upt_rec_numeral)
qed

lemma busy_save:
  "saveOccurrences lmsDemo 27 [demoLesson, occurrence demoLesson 1] busyTable =
     (Inr [LMSSessionPreCreate lmsDemo 27 demoLesson, LMSSessionPreCreate lmsDemo 28 (occurrence demoLesson 1)],
      busyTable @ map LMSSession_columns
        [LMSSessionPreCreate lmsDemo 27 demoLesson, LMSSessionPreCreate lmsDemo 28 (occurrence demoLesson 1)])"
proof -
  have d: "ls_Date demoLesson \<noteq> zeroTime" "ls_Date demoLesson + 7 * dayMs \<noteq> zeroTime"
    by (simp_all add: demoLesson_def zeroTime_def utcMidnight_def civilDay_def yearStart_def daysBefore_def dayMs_def)
  have 1: "LMSSessionStore_Save lmsDemo 27 demoLesson busyTable = (Inr (LMSSessionPreCreate lmsDemo 27 demoLesson),
      busyTable @ [LMSSession_columns (LMSSessionPreCreate lmsDemo 27 demoLesson)])"
    by (rule demo_save) (use d busy_fresh in \<open>simp_all add: demoLesson_def\<close>)
  have 2: "LMSSessionStore_Save lmsDemo 28 (occurrence demoLesson 1)
        (busyTable @ [LMSSession_columns (LMSSessionPreCreate lmsDemo 27 demoLesson)])
      = (Inr (LMSSessionPreCreate lmsDemo 28 (occurrence demoLesson 1)),
         (busyTable @ [LMSSession_columns (LMSSessionPreCreate lmsDemo 27 demoLesson)])
           @ [LMSSession_columns (LMSSessionPreCreate lmsDemo 28 (occurrence demoLesson 1))])"
    by (rule demo_save)
      (use d busy_fresh in \<open>simp_all add: demoLesson_def occurrence_def LMSSessionPreCreate_def LMSSession_columns_def demoId_eq\<close>)
  show ?thesis by (simp add: 1 2)
qed

text \<open>
  The check can miss a double booking. The query returns at most 25 lessons of the whole time span of a
  series, so with 25 lessons in between, a lesson that overlaps the last occurrence is not seen: from a timetable without
  overlaps, a request without \<^verbatim>\<open>force\<close> is accepted without any conflict and double-books the teacher.
\<close>

theorem conflict_limit_misses_overlap:
  "\<exists>t s u created t1. timetable_ok t
     \<and> CreateSessionsWithRepeat lmsDemo 0 [] [] (Some s) u False t = (Inr (created, []), t1)
     \<and> \<not> timetable_ok t1"
proof -
  let ?new = "LMSSession_columns (LMSSessionPreCreate lmsDemo 28 (occurrence demoLesson 1))"
  have g: "ls_ClassID demoLesson \<noteq> []" "ls_TeacherID demoLesson = ''tom''" "\<not> ls_EndTime demoLesson \<le> ls_StartTime demoLesson"
      "ls_Date demoLesson \<noteq> zeroTime"
    by (simp_all add: demoLesson_def zeroTime_def utcMidnight_def civilDay_def yearStart_def daysBefore_def dayMs_def)
  have c: "\<exists>rows t1. CreateSessionsWithRepeat lmsDemo 0 [] [] (Some demoLesson) ''2026-01-12'' False busyTable = (Inr (rows, []), t1)
      \<and> ?new \<in> set t1 \<and> lateLesson \<in> set t1"
    using g busy_check busy_save by (simp add: CreateSessionsWithRepeat_def demo_series busyTable_def)
  have f: "ls_ID ?new = demoId 28" "ls_TeacherID ?new = ls_TeacherID lateLesson"
      "ls_Status ?new \<noteq> ''CANCELLED''" "ls_Status lateLesson \<noteq> ''CANCELLED''"
    by (simp_all add: LMSSession_columns_def LMSSessionPreCreate_def occurrence_def demoLesson_def lateLesson_def)
  have "demoId 28 \<noteq> ls_ID lateLesson" using busy_fresh[of 28] by (auto simp: busyTable_def)
  moreover have "overlaps ?new lateLesson"
    using occurrence_slot[of demoLesson 1]
    by (simp add: overlaps_def LMSSession_columns_def LMSSessionPreCreate_def lateLesson_def demoLesson_def)
  ultimately have "\<not> timetable_ok t1" if "?new \<in> set t1" "lateLesson \<in> set t1" for t1
    using that f unfolding timetable_ok_def f(1)[symmetric] by blast
  then show ?thesis using c busy_timetable by blast
qed

end
