(* ===== verification/Lms_Finance.thy ===== *)
theory Lms_Finance
  imports Lms_Lookups
begin

text \<open>
  Tuition, payments, refunds, additional fees and fee packages: \<^verbatim>\<open>tuition.go\<close>, \<^verbatim>\<open>payment.go\<close>, \<^verbatim>\<open>fee_refund.go\<close>,
  \<^verbatim>\<open>additional_fee.go\<close> and \<^verbatim>\<open>fee_package.go\<close> of \<^verbatim>\<open>channels/app/lms\<close>. The state is the five tables; \<open>n\<close> is the tick of the
  first statement of an operation. The foreign keys of migration 000153 cascade: deleting a tuition deletes its
  payments, refunds and additional fees, deleting a fee package deletes its tuitions. The counters that
  \<^verbatim>\<open>CreatePayment\<close> sends to the metrics are left out.
\<close>

record finance =
  fi_packages :: "FeePackage list"
  fi_tuitions :: "Tuition list"
  fi_payments :: "Payment list"
  fi_refunds :: "FeeRefund list"
  fi_fees :: "AdditionalFee list"

section \<open>Tuition\<close>

record TuitionWithDetails =
  td_Tuition :: Tuition
  td_Payments :: "Payment list"
  td_Refunds :: "FeeRefund list"
  td_AdditionalFees :: "AdditionalFee list"

definition GetTuition :: "lmsEnv \<Rightarrow> nat \<Rightarrow> string \<Rightarrow> finance \<Rightarrow> app_error + Tuition" where
  "GetTuition E n i s =
     mapErr (storeErr ''app.lms.tuition.not_found'' ''app.lms.tuition.get.app_error'') (TuitionStore_Get E n i (fi_tuitions s))"

definition GetTuitionWithDetails :: "lmsEnv \<Rightarrow> nat \<Rightarrow> string \<Rightarrow> finance \<Rightarrow> app_error + TuitionWithDetails" where
  "GetTuitionWithDetails E n i s =
     (case GetTuition E n i s of
        Inl e \<Rightarrow> Inl e
      | Inr t \<Rightarrow>
        (case PaymentStore_GetByTuition E (n + 1) i (fi_payments s) of
           Inl _ \<Rightarrow> Inl (AppError ''app.lms.tuition.get_payments.app_error'' 500)
         | Inr ps \<Rightarrow>
           (case FeeRefundStore_GetByTuition E (n + 2) i (fi_refunds s) of
              Inl _ \<Rightarrow> Inl (AppError ''app.lms.tuition.get_refunds.app_error'' 500)
            | Inr rs \<Rightarrow>
              (case AdditionalFeeStore_GetByTuition E (n + 3) i (fi_fees s) of
                 Inl _ \<Rightarrow> Inl (AppError ''app.lms.tuition.get_additional_fees.app_error'' 500)
               | Inr fs \<Rightarrow> Inr \<lparr>td_Tuition = t, td_Payments = ps, td_Refunds = rs, td_AdditionalFees = fs\<rparr>))))"

definition CreateTuition :: "lmsEnv \<Rightarrow> nat \<Rightarrow> Tuition \<Rightarrow> finance \<Rightarrow> (app_error + Tuition) \<times> finance" where
  "CreateTuition E n t s =
     (let (r, ts) = TuitionStore_Save E n t (fi_tuitions s)
      in (mapErr (\<lambda>_. AppError ''app.lms.tuition.create.app_error'' 500) r, s\<lparr>fi_tuitions := ts\<rparr>))"

definition UpdateTuition :: "lmsEnv \<Rightarrow> nat \<Rightarrow> string \<Rightarrow> Tuition \<Rightarrow> finance \<Rightarrow> (app_error + Tuition) \<times> finance" where
  "UpdateTuition E n i t s =
     (let (r, ts) = TuitionStore_Update E n (t\<lparr>tu_ID := i\<rparr>) (fi_tuitions s)
      in (mapErr (storeErr ''app.lms.tuition.not_found'' ''app.lms.tuition.update.app_error'') r, s\<lparr>fi_tuitions := ts\<rparr>))"

text \<open>The rows that refer to a tuition go with it.\<close>

definition cascadeTuitions :: "string set \<Rightarrow> finance \<Rightarrow> finance" where
  "cascadeTuitions gone s =
     s\<lparr>fi_payments := filter (\<lambda>r. pa_TuitionID r \<notin> gone) (fi_payments s),
       fi_refunds := filter (\<lambda>r. fr_TuitionID r \<notin> gone) (fi_refunds s),
       fi_fees := filter (\<lambda>r. af_TuitionID r \<notin> gone) (fi_fees s)\<rparr>"

definition DeleteTuition :: "lmsEnv \<Rightarrow> nat \<Rightarrow> string \<Rightarrow> finance \<Rightarrow> app_error option \<times> finance" where
  "DeleteTuition E n i s =
     (let (r, ts) = TuitionStore_Delete E n i (fi_tuitions s)
      in (map_option (storeErr ''app.lms.tuition.not_found'' ''app.lms.tuition.delete.app_error'') r,
          cascadeTuitions (tu_ID ` (set (fi_tuitions s) - set ts)) (s\<lparr>fi_tuitions := ts\<rparr>)))"

section \<open>Payments\<close>

definition GetTuitionPayments :: "lmsEnv \<Rightarrow> nat \<Rightarrow> string \<Rightarrow> finance \<Rightarrow> app_error + Payment list" where
  "GetTuitionPayments E n i s =
     mapErr (\<lambda>_. AppError ''app.lms.payment.get_by_tuition.app_error'' 500) (PaymentStore_GetByTuition E n i (fi_payments s))"

definition totalPaid :: "Payment list \<Rightarrow> rat" where
  "totalPaid ps = fold (\<lambda>p a. a + pa_Amount p) ps 0"

definition settled :: "rat \<Rightarrow> Tuition \<Rightarrow> Tuition" where
  "settled paid t =
     (let t1 = t\<lparr>tu_PaidAmount := paid, tu_RemainingAmount := tu_TotalAmount t - paid\<rparr> in
      if tu_RemainingAmount t1 \<le> 0 then t1\<lparr>tu_Status := ''PAID''\<rparr>
      else if tu_PaidAmount t1 > 0 then t1\<lparr>tu_Status := ''PARTIAL''\<rparr>
      else t1)"

definition updateTuitionAfterPayment :: "lmsEnv \<Rightarrow> nat \<Rightarrow> string \<Rightarrow> finance \<Rightarrow> app_error option \<times> finance" where
  "updateTuitionAfterPayment E n i s =
     (case TuitionStore_Get E n i (fi_tuitions s) of
        Inl e \<Rightarrow> (Some (storeErr ''app.lms.tuition.not_found'' ''app.lms.tuition.get.app_error'' e), s)
      | Inr t \<Rightarrow>
          (case PaymentStore_GetByTuition E (n + 1) i (fi_payments s) of
             Inl _ \<Rightarrow> (Some (AppError ''app.lms.payment.get_by_tuition.app_error'' 500), s)
           | Inr ps \<Rightarrow>
               (case TuitionStore_Update E (n + 2) (settled (totalPaid ps) t) (fi_tuitions s) of
                  (Inl _, ts) \<Rightarrow> (Some (AppError ''app.lms.tuition.update.app_error'' 500), s\<lparr>fi_tuitions := ts\<rparr>)
                | (Inr _, ts) \<Rightarrow> (None, s\<lparr>fi_tuitions := ts\<rparr>))))"

definition CreatePayment :: "lmsEnv \<Rightarrow> nat \<Rightarrow> Payment \<Rightarrow> finance \<Rightarrow> (app_error + Payment) \<times> finance" where
  "CreatePayment E n p s =
     (case PaymentStore_Save E n p (fi_payments s) of
        (Inl _, ps) \<Rightarrow> (Inl (AppError ''app.lms.payment.create.app_error'' 500), s\<lparr>fi_payments := ps\<rparr>)
      | (Inr saved, ps) \<Rightarrow>
          (case updateTuitionAfterPayment E (n + 1) (pa_TuitionID p) (s\<lparr>fi_payments := ps\<rparr>) of
             (Some e, s1) \<Rightarrow> (Inl e, s1)
           | (None, s1) \<Rightarrow> (Inr saved, s1)))"

section \<open>Refunds, additional fees, fee packages\<close>

definition GetFeeRefunds :: "lmsEnv \<Rightarrow> nat \<Rightarrow> string \<Rightarrow> finance \<Rightarrow> app_error + FeeRefund list" where
  "GetFeeRefunds E n i s =
     mapErr (\<lambda>_. AppError ''app.lms.fee_refund.get_by_tuition.app_error'' 500) (FeeRefundStore_GetByTuition E n i (fi_refunds s))"

definition CreateFeeRefund :: "lmsEnv \<Rightarrow> nat \<Rightarrow> FeeRefund \<Rightarrow> finance \<Rightarrow> (app_error + FeeRefund) \<times> finance" where
  "CreateFeeRefund E n r s =
     (let (x, rs) = FeeRefundStore_Save E n r (fi_refunds s)
      in (mapErr (\<lambda>_. AppError ''app.lms.fee_refund.create.app_error'' 500) x, s\<lparr>fi_refunds := rs\<rparr>))"

definition GetAdditionalFee :: "lmsEnv \<Rightarrow> nat \<Rightarrow> string \<Rightarrow> finance \<Rightarrow> app_error + AdditionalFee" where
  "GetAdditionalFee E n i s =
     mapErr (storeErr ''app.lms.additional_fee.not_found'' ''app.lms.additional_fee.get.app_error'')
       (AdditionalFeeStore_Get E n i (fi_fees s))"

definition GetTuitionAdditionalFees :: "lmsEnv \<Rightarrow> nat \<Rightarrow> string \<Rightarrow> finance \<Rightarrow> app_error + AdditionalFee list" where
  "GetTuitionAdditionalFees E n i s =
     mapErr (\<lambda>_. AppError ''app.lms.additional_fee.get_by_tuition.app_error'' 500) (AdditionalFeeStore_GetByTuition E n i (fi_fees s))"

definition CreateAdditionalFee :: "lmsEnv \<Rightarrow> nat \<Rightarrow> AdditionalFee \<Rightarrow> finance \<Rightarrow> (app_error + AdditionalFee) \<times> finance" where
  "CreateAdditionalFee E n a s =
     (let (x, fs) = AdditionalFeeStore_Save E n a (fi_fees s)
      in (mapErr (\<lambda>_. AppError ''app.lms.additional_fee.create.app_error'' 500) x, s\<lparr>fi_fees := fs\<rparr>))"

definition DeleteAdditionalFee :: "lmsEnv \<Rightarrow> nat \<Rightarrow> string \<Rightarrow> finance \<Rightarrow> app_error option \<times> finance" where
  "DeleteAdditionalFee E n i s =
     (let (x, fs) = AdditionalFeeStore_Delete E n i (fi_fees s)
      in (map_option (storeErr ''app.lms.additional_fee.not_found'' ''app.lms.additional_fee.delete.app_error'') x, s\<lparr>fi_fees := fs\<rparr>))"

definition CreateFeePackage :: "lmsEnv \<Rightarrow> nat \<Rightarrow> FeePackage \<Rightarrow> finance \<Rightarrow> (app_error + FeePackage) \<times> finance" where
  "CreateFeePackage E n f s =
     (let (x, fs) = FeePackageStore_Save E n f (fi_packages s)
      in (mapErr (\<lambda>_. AppError ''app.lms.fee_package.create.app_error'' 500) x, s\<lparr>fi_packages := fs\<rparr>))"

definition cascadePackages :: "string set \<Rightarrow> finance \<Rightarrow> finance" where
  "cascadePackages gone s =
     cascadeTuitions (tu_ID ` {t \<in> set (fi_tuitions s). tu_FeePackageID t \<in> gone})
       (s\<lparr>fi_tuitions := filter (\<lambda>t. tu_FeePackageID t \<notin> gone) (fi_tuitions s)\<rparr>)"

definition DeleteFeePackage :: "lmsEnv \<Rightarrow> nat \<Rightarrow> string \<Rightarrow> finance \<Rightarrow> app_error option \<times> finance" where
  "DeleteFeePackage E n i s =
     (let (x, fs) = FeePackageStore_Delete E n i (fi_packages s)
      in (map_option (storeErr ''app.lms.fee_package.not_found'' ''app.lms.fee_package.delete.app_error'') x,
          cascadePackages (fp_ID ` (set (fi_packages s) - set fs)) (s\<lparr>fi_packages := fs\<rparr>)))"

section \<open>The books\<close>

text \<open>What has been paid for a tuition, and what a tuition should show.\<close>

definition paidFor :: "string \<Rightarrow> Payment list \<Rightarrow> rat" where
  "paidFor i ps = sum_list (map pa_Amount (filter (\<lambda>p. pa_TuitionID p = i) ps))"

definition balanced :: "Payment list \<Rightarrow> Tuition \<Rightarrow> bool" where
  "balanced ps t \<longleftrightarrow> tu_PaidAmount t = paidFor (tu_ID t) ps
     \<and> tu_RemainingAmount t = tu_TotalAmount t - tu_PaidAmount t
     \<and> (tu_PaidAmount t > 0 \<longrightarrow> tu_Status t = (if tu_RemainingAmount t \<le> 0 then ''PAID'' else ''PARTIAL''))"

definition books_ok :: "finance \<Rightarrow> bool" where
  "books_ok s \<longleftrightarrow> distinct (map tu_ID (fi_tuitions s)) \<and> (\<forall>t \<in> set (fi_tuitions s). balanced (fi_payments s) t)
     \<and> pa_TuitionID ` set (fi_payments s) \<subseteq> tu_ID ` set (fi_tuitions s)"

lemma totalPaid_sum: "totalPaid ps = sum_list (map pa_Amount ps)"
proof -
  have "fold (\<lambda>p a. a + pa_Amount p) ps b = b + sum_list (map pa_Amount ps)" for b and ps :: "Payment list"
    by (induction ps arbitrary: b) simp_all
  then show ?thesis by (simp add: totalPaid_def)
qed

lemma totalPaid_sorted: "totalPaid (sort_key k (filter (\<lambda>p. pa_TuitionID p = i) ps)) = paidFor i ps"
proof -
  have "sum_mset (mset (map pa_Amount (sort_key k xs))) = sum_mset (mset (map pa_Amount xs))" for xs :: "Payment list"
    by simp
  then show ?thesis by (simp only: totalPaid_sum paidFor_def sum_mset_sum_list)
qed

lemma settled_simps [simp]:
  "tu_ID (settled x t) = tu_ID t" "tu_PaidAmount (settled x t) = x" "tu_TotalAmount (settled x t) = tu_TotalAmount t"
  "tu_RemainingAmount (settled x t) = tu_TotalAmount t - x"
  "tu_FeePackageID (settled x t) = tu_FeePackageID t"
  by (simp_all add: settled_def Let_def)

lemma settled_status:
  "tu_Status (settled x t) = (if tu_TotalAmount t - x \<le> 0 then ''PAID'' else if x > 0 then ''PARTIAL'' else tu_Status t)"
  by (simp add: settled_def Let_def)

lemma stored_tuition [simp]:
  "tu_ID (Tuition_columns t) = tu_ID t" "tu_PaidAmount (Tuition_columns t) = tu_PaidAmount t"
  "tu_TotalAmount (Tuition_columns t) = tu_TotalAmount t" "tu_RemainingAmount (Tuition_columns t) = tu_RemainingAmount t"
  "tu_Status (Tuition_columns t) = tu_Status t" "tu_ID (TuitionPreUpdate E n t) = tu_ID t"
  "tu_PaidAmount (TuitionPreUpdate E n t) = tu_PaidAmount t" "tu_TotalAmount (TuitionPreUpdate E n t) = tu_TotalAmount t"
  "tu_RemainingAmount (TuitionPreUpdate E n t) = tu_RemainingAmount t" "tu_Status (TuitionPreUpdate E n t) = tu_Status t"
  by (simp_all add: Tuition_columns_def TuitionPreUpdate_def)

text \<open>What a successful payment does to the two tables.\<close>

lemma CreatePayment_done:
  assumes "CreatePayment E n p s = (Inr saved, s1)"
  obtains t where "saved = PaymentPreCreate E n p"
    "fi_payments s1 = fi_payments s @ [Payment_columns saved]"
    "find (\<lambda>x. tu_ID x = pa_TuitionID p) (fi_tuitions s) = Some t"
    "fi_tuitions s1 = map (\<lambda>x. if tu_ID x = pa_TuitionID p
        then Tuition_columns (TuitionPreUpdate E (n + 3) (settled (paidFor (pa_TuitionID p) (fi_payments s1)) t)) else x) (fi_tuitions s)"
    "s1 = s\<lparr>fi_payments := fi_payments s1, fi_tuitions := fi_tuitions s1\<rparr>"
proof -
  let ?i = "pa_TuitionID p"
  obtain ps where sv: "PaymentStore_Save E n p (fi_payments s) = (Inr saved, ps)"
      and up: "updateTuitionAfterPayment E (n + 1) ?i (s\<lparr>fi_payments := ps\<rparr>) = (None, s1)"
    using assms by (auto simp: CreatePayment_def split: prod.splits sum.splits option.splits)
  have pay: "saved = PaymentPreCreate E n p" "ps = fi_payments s @ [Payment_columns saved]"
    using sv by (cases rule: payment_store.save_cases[of E n p "fi_payments s"]; simp)+
  obtain t l ts u where t: "TuitionStore_Get E (n + 1) ?i (fi_tuitions s) = Inr t"
      and l: "PaymentStore_GetByTuition E (n + 1 + 1) ?i ps = Inr l"
      and ts: "TuitionStore_Update E (n + 1 + 2) (settled (totalPaid l) t) (fi_tuitions s) = (Inr u, ts)"
      and s1: "s1 = s\<lparr>fi_payments := ps, fi_tuitions := ts\<rparr>"
    using up by (auto simp: updateTuitionAfterPayment_def split: prod.splits sum.splits)
  have fnd: "find (\<lambda>x. tu_ID x = ?i) (fi_tuitions s) = Some t"
    using t by (auto simp: TuitionStore_Get_def ent_get_def sql_one_def split: if_splits option.splits)
  then have ti: "tu_ID t = ?i" by (auto simp: find_Some_iff)
  have tot: "totalPaid l = paidFor ?i ps"
    using l by (auto simp: PaymentStore_GetByTuition_def sql_sorted_def totalPaid_sorted split: if_splits)
  have "ts = map (\<lambda>x. if tu_ID x = ?i
      then Tuition_columns (TuitionPreUpdate E (n + 3) (settled (paidFor ?i ps) t)) else x) (fi_tuitions s)"
    using ts tot ti by (cases rule: tuition_store.update_table[of E "n + 1 + 2" "settled (totalPaid l) t" "fi_tuitions s"])
      (auto simp: numeral_3_eq_3)
  then show ?thesis using that[of t] pay fnd s1 by simp
qed

lemma payment_books:
  assumes ok: "books_ok s" and p: "CreatePayment E n p s = (Inr saved, s1)"
  shows "books_ok s1"
proof -
  let ?i = "pa_TuitionID p"
  obtain t where pay: "saved = PaymentPreCreate E n p" "fi_payments s1 = fi_payments s @ [Payment_columns saved]"
    and t: "find (\<lambda>x. tu_ID x = ?i) (fi_tuitions s) = Some t"
    and ts: "fi_tuitions s1 = map (\<lambda>x. if tu_ID x = ?i
        then Tuition_columns (TuitionPreUpdate E (n + 3) (settled (paidFor ?i (fi_payments s1)) t)) else x) (fi_tuitions s)"
    by (rule CreatePayment_done[OF p])
  have ti: "tu_ID t = ?i" "t \<in> set (fi_tuitions s)" using t by (auto simp: find_Some_iff)
  have pi: "pa_TuitionID (Payment_columns saved) = ?i" by (simp add: pay(1) Payment_columns_def PaymentPreCreate_def)
  have ids: "map tu_ID (fi_tuitions s1) = map tu_ID (fi_tuitions s)" using ti by (simp add: ts)
  have "balanced (fi_payments s1) x" if "x \<in> set (fi_tuitions s1)" for x
  proof -
    obtain y where y: "y \<in> set (fi_tuitions s)" and x: "x = (if tu_ID y = ?i
        then Tuition_columns (TuitionPreUpdate E (n + 3) (settled (paidFor ?i (fi_payments s1)) t)) else y)"
      using \<open>x \<in> _\<close> by (auto simp: ts)
    show ?thesis
    proof (cases "tu_ID y = ?i")
      case True
      then show ?thesis using x ti by (auto simp: balanced_def settled_status)
    next
      case False
      then have "paidFor (tu_ID y) (fi_payments s1) = paidFor (tu_ID y) (fi_payments s)" using pay(2) pi by (simp add: paidFor_def)
      then show ?thesis using False x y ok by (simp add: books_ok_def balanced_def)
    qed
  qed
  moreover have "?i \<in> tu_ID ` set (fi_tuitions s)" using ti by (metis imageI)
  then have "pa_TuitionID ` set (fi_payments s1) \<subseteq> tu_ID ` set (fi_tuitions s1)"
    using ok pay(2) pi arg_cong[OF ids, of set] by (auto simp: books_ok_def)
  ultimately show ?thesis using ok ids by (simp add: books_ok_def)
qed
lemma payment_tuition: "books_ok s \<Longrightarrow> p \<in> set (fi_payments s) \<Longrightarrow> pa_TuitionID p \<in> tu_ID ` set (fi_tuitions s)"
  unfolding books_ok_def by blast

lemma tuition_books:
  assumes ok: "books_ok s" and t: "tu_PaidAmount t = 0" "tu_RemainingAmount t = tu_TotalAmount t"
  shows "books_ok (snd (CreateTuition E n t s))"
proof (cases rule: tuition_store.save_cases[of E n t "fi_tuitions s"])
  case (refused e)
  then show ?thesis using ok by (simp add: CreateTuition_def)
next
  case saved
  let ?t = "Tuition_columns (Tuition_defaults (TuitionPreCreate E n t))"
  have s1: "snd (CreateTuition E n t s) = s\<lparr>fi_tuitions := fi_tuitions s @ [?t]\<rparr>"
    using saved(1) by (simp add: CreateTuition_def)
  have new: "tu_ID ?t \<notin> set (map tu_ID (fi_tuitions s))" using saved(3) by simp
  then have "\<forall>p \<in> set (fi_payments s). pa_TuitionID p \<noteq> tu_ID ?t" using payment_tuition[OF ok] by (metis list.set_map)
  then have "paidFor (tu_ID ?t) (fi_payments s) = 0" by (simp add: paidFor_def cong: filter_cong)
  then have "balanced (fi_payments s) ?t"
    using t by (simp add: balanced_def Tuition_defaults_def TuitionPreCreate_def)
  then show ?thesis unfolding s1 using ok new by (auto simp: books_ok_def)
qed

lemma paidFor_filter:
  assumes "i \<notin> gone"
  shows "paidFor i (filter (\<lambda>r. pa_TuitionID r \<notin> gone) ps) = paidFor i ps"
proof -
  have "filter (\<lambda>p. pa_TuitionID p = i) (filter (\<lambda>r. pa_TuitionID r \<notin> gone) ps) = filter (\<lambda>p. pa_TuitionID p = i) ps"
    using assms by (induction ps) auto
  then show ?thesis by (simp only: paidFor_def)
qed

lemma remove_books:
  assumes ok: "books_ok s" and ts: "ts = filter p (fi_tuitions s)"
  shows "books_ok (cascadeTuitions (tu_ID ` (set (fi_tuitions s) - set ts)) (s\<lparr>fi_tuitions := ts\<rparr>))"
proof -
  let ?gone = "tu_ID ` (set (fi_tuitions s) - set ts)"
  have keep: "tu_ID x \<notin> ?gone" if "x \<in> set ts" for x
    using that ok ts by (auto simp: books_ok_def dest: inj_onD[OF distinct_map[THEN iffD1, THEN conjunct2]])
  have "pa_TuitionID r \<in> tu_ID ` set ts" if "r \<in> set (fi_payments s)" "pa_TuitionID r \<notin> ?gone" for r
    using payment_tuition[OF ok that(1)] that(2) by blast
  then show ?thesis
    using ok ts keep by (auto simp: books_ok_def cascadeTuitions_def balanced_def paidFor_filter distinct_map_filter)
qed

lemma delete_tuition_books: "books_ok s \<Longrightarrow> books_ok (snd (DeleteTuition E n i s))"
  using tuition_store.delete_table[of E n i "fi_tuitions s"] remove_books[of s _ "\<lambda>_. True"]
    remove_books[of s _ "\<lambda>r. tu_ID r \<noteq> i"]
  by (auto simp: DeleteTuition_def case_prod_beta)

lemma delete_package_books:
  assumes "books_ok s"
  shows "books_ok (snd (DeleteFeePackage E n i s))"
proof -
  define gone where "gone = fp_ID ` (set (fi_packages s) - set (snd (FeePackageStore_Delete E n i (fi_packages s))))"
  let ?ts = "filter (\<lambda>t. tu_FeePackageID t \<notin> gone) (fi_tuitions s)"
  have "{t \<in> set (fi_tuitions s). tu_FeePackageID t \<in> gone} = set (fi_tuitions s) - set ?ts" by auto
  moreover have "books_ok (cascadeTuitions (tu_ID ` (set (fi_tuitions s) - set ?ts)) (s\<lparr>fi_tuitions := ?ts\<rparr>))"
    by (rule remove_books[OF assms refl])
  ultimately show ?thesis
    by (simp add: DeleteFeePackage_def case_prod_beta gone_def[symmetric] cascadePackages_def books_ok_def cascadeTuitions_def)
qed

text \<open>
  The steps of the finance part: tuitions that start unpaid, payments that succeed, deletions, and everything
  that concerns refunds, additional fees and fee packages.
\<close>

inductive finance_step :: "lmsEnv \<Rightarrow> finance \<Rightarrow> finance \<Rightarrow> bool" for E where
  tuition: "tu_PaidAmount t = 0 \<Longrightarrow> tu_RemainingAmount t = tu_TotalAmount t \<Longrightarrow>
     finance_step E s (snd (CreateTuition E n t s))"
| payment: "CreatePayment E n p s = (Inr saved, s') \<Longrightarrow> finance_step E s s'"
| delete_tuition: "finance_step E s (snd (DeleteTuition E n i s))"
| delete_package: "finance_step E s (snd (DeleteFeePackage E n i s))"
| "package": "finance_step E s (snd (CreateFeePackage E n f s))"
| refund: "finance_step E s (snd (CreateFeeRefund E n r s))"
| fee: "finance_step E s (snd (CreateAdditionalFee E n a s))"
| delete_fee: "finance_step E s (snd (DeleteAdditionalFee E n i s))"

lemma finance_step_books: "finance_step E s s' \<Longrightarrow> books_ok s \<Longrightarrow> books_ok s'"
proof (induction rule: finance_step.induct)
  case (tuition t s n)
  then show ?case by (intro tuition_books)
next
  case (payment n p s saved s')
  show ?case by (rule payment_books[OF payment.prems payment.hyps])
next
  case (delete_tuition s n i)
  then show ?case by (rule delete_tuition_books)
next
  case (delete_package s n i)
  then show ?case by (rule delete_package_books)
qed (simp_all add: books_ok_def CreateFeePackage_def CreateFeeRefund_def CreateAdditionalFee_def DeleteAdditionalFee_def
    case_prod_beta Let_def)

definition emptyBooks :: finance where
  "emptyBooks = \<lparr>fi_packages = [], fi_tuitions = [], fi_payments = [], fi_refunds = [], fi_fees = []\<rparr>"

interpretation books: step_invariant "\<lambda>s. s = emptyBooks" "finance_step E" books_ok for E
  by unfold_locales (simp add: books_ok_def emptyBooks_def, rule finance_step_books)


section \<open>An example\<close>

definition demoTuition :: Tuition where
  "demoTuition = \<lparr>tu_ID = [], tu_StudentID = ''ann'', tu_ClassID = ''class'', tu_FeePackageID = ''pack'', tu_TotalAmount = 100,
     tu_DiscountAmount = 0, tu_PaidAmount = 0, tu_RemainingAmount = 100, tu_Status = [], tu_DueDate = 0, tu_Note = None,
     tu_PromotionalFee = None, tu_DiscountValue = None, tu_DiscountType = None, tu_Createat = 0, tu_Updateat = 0\<rparr>"

definition demoPayment :: "rat \<Rightarrow> Payment" where
  "demoPayment a = \<lparr>pa_ID = [], pa_TuitionID = demoId 0, pa_Amount = a, pa_PaymentDate = 0, pa_Method = [], pa_ReceiptNumber = None,
     pa_PaidByID = ''ann'', pa_Note = None, pa_Createat = 0, pa_Updateat = 0\<rparr>"

definition demoBooks :: finance where
  "demoBooks = snd (CreateTuition lmsDemo 0 demoTuition emptyBooks)"

lemmas finance_eval = CreateTuition_def TuitionStore_Save_def ent_save_def sql_insert_def TuitionPreCreate_def TuitionIsValid_def
  Tuition_defaults_def Tuition_columns_def longerThan_def Let_def emptyBooks_def demoTuition_def
  CreatePayment_def PaymentStore_Save_def PaymentPreCreate_def PaymentIsValid_def Payment_columns_def demoPayment_def
  updateTuitionAfterPayment_def TuitionStore_Get_def ent_get_def sql_one_def PaymentStore_GetByTuition_def sql_sorted_def
  TuitionStore_Update_def ent_update_def sql_update_def TuitionPreUpdate_def settled_def totalPaid_def zeroTime_def dateCol_def

lemma demoBooks_eq:
  "demoBooks = emptyBooks\<lparr>fi_tuitions := [demoTuition\<lparr>tu_ID := demoId 0, tu_Status := ''PENDING'', tu_PromotionalFee := Some 0,
     tu_DiscountValue := Some 0, tu_Createat := 1000, tu_Updateat := 1000\<rparr>]\<rparr>"
  unfolding demoBooks_def by (simp add: finance_eval)


text \<open>
  A payment can be kept although the request fails. The payment row and the tuition are written by separate
  statements: when the second is refused the client gets an error, but the payment stays in the table and the
  tuition does not show it.
\<close>

theorem failed_payment_is_kept:
  "\<exists>E p s e s1. books_ok s \<and> CreatePayment E 1 p s = (Inl e, s1)
     \<and> length (fi_payments s1) = Suc (length (fi_payments s)) \<and> fi_tuitions s1 = fi_tuitions s \<and> \<not> books_ok s1"
proof -
  let ?E = "lmsDemo\<lparr>lv_db := \<lambda>n i. n = 4\<rparr>"
  have "books_ok demoBooks" unfolding demoBooks_def
    by (rule tuition_books) (simp_all add: books_ok_def emptyBooks_def demoTuition_def)
  moreover obtain e s1 where s1: "CreatePayment ?E 1 (demoPayment 40) demoBooks = (Inl e, s1)"
      "length (fi_payments s1) = Suc (length (fi_payments demoBooks))" "fi_tuitions s1 = fi_tuitions demoBooks"
      "paidFor (demoId 0) (fi_payments s1) = 40"
    by (simp add: demoBooks_eq finance_eval paidFor_def lmsDemo_def)
  moreover have "\<not> books_ok s1"
    using s1(3,4) by (simp add: books_ok_def balanced_def demoBooks_eq demoTuition_def)
  ultimately show ?thesis by blast
qed

end
