(* ===== verification/Lms_Api.thy ===== *)
theory Lms_Api
  imports Lms_Access Lms_Sessions Lms_Finance
begin

text \<open>
  The HTTP handlers of the learning-management system, \<^verbatim>\<open>channels/api4/lms_api\<close>, on one state that holds every table, the
  accounts and the state of the chat core. A handler checks the permission, reads the id from the path, decodes the
  body, calls the application layer and answers; the combinators below are these steps.

  \<^item> A decoded JSON body is a parameter: \<open>BadBody\<close> for a body that does not decode, and a Go pointer is an option,
    \<^const>\<open>None\<close> for the JSON \<^verbatim>\<open>null\<close>; dereferencing it is a panic, the answer \<open>Crash\<close>.
  \<^item> \<open>n\<close> is the tick of the first statement of the request.
  \<^item> The list requests are in \<open>Lms_Search\<close>, dashboard and reports in \<open>Lms_Dashboard\<close>. The wrapper that authenticates the
    session and the encoding of the answer are not modelled.
\<close>

section \<open>State\<close>

record 'w lms =
  lm_branches :: "Branch list"
  lm_courses :: "Course list"
  lm_classes :: "Class list"
  lm_students :: "StudentClass list"
  lm_sessions :: "LMSSession list"
  lm_attendance :: "Attendance list"
  lm_leads :: "Lead list"
  lm_activities :: "LeadActivity list"
  lm_categories :: "PostCategory list"
  lm_posts :: "BlogPost list"
  lm_homeworks :: "Homework list"
  lm_submissions :: "Submission list"
  lm_reviews :: "WeeklyReview list"
  lm_tasks :: "Task list"
  lm_banners :: "Banner list"
  lm_notifications :: "Notification list"
  lm_materials :: "Material list"
  lm_media :: "ClassMedium list"
  lm_users :: "User list"
  lm_finance :: finance
  lm_chat :: 'w

text \<open>What the server is configured with: the environment of the stores, the libraries, the chat core, the roles, the random source.\<close>

record 'w lmsServer =
  sx_env :: lmsEnv
  sx_lib :: userLib
  sx_chat :: "'w chatApi"
  sx_roles :: "string list \<Rightarrow> app_error + Role list"
  sx_random :: "nat \<Rightarrow> string option"

text \<open>An operation on one table, as an operation on the state.\<close>

definition onBranches :: "(Branch list \<Rightarrow> 'r \<times> Branch list) \<Rightarrow> 'w lms \<Rightarrow> 'r \<times> 'w lms" where
  "onBranches f s = (let (x, t) = f (lm_branches s) in (x, s\<lparr>lm_branches := t\<rparr>))"

definition onCourses :: "(Course list \<Rightarrow> 'r \<times> Course list) \<Rightarrow> 'w lms \<Rightarrow> 'r \<times> 'w lms" where
  "onCourses f s = (let (x, t) = f (lm_courses s) in (x, s\<lparr>lm_courses := t\<rparr>))"

definition onClasses :: "(Class list \<Rightarrow> 'r \<times> Class list) \<Rightarrow> 'w lms \<Rightarrow> 'r \<times> 'w lms" where
  "onClasses f s = (let (x, t) = f (lm_classes s) in (x, s\<lparr>lm_classes := t\<rparr>))"

definition onStudents :: "(StudentClass list \<Rightarrow> 'r \<times> StudentClass list) \<Rightarrow> 'w lms \<Rightarrow> 'r \<times> 'w lms" where
  "onStudents f s = (let (x, t) = f (lm_students s) in (x, s\<lparr>lm_students := t\<rparr>))"

definition onSessions :: "(LMSSession list \<Rightarrow> 'r \<times> LMSSession list) \<Rightarrow> 'w lms \<Rightarrow> 'r \<times> 'w lms" where
  "onSessions f s = (let (x, t) = f (lm_sessions s) in (x, s\<lparr>lm_sessions := t\<rparr>))"

definition onAttendance :: "(Attendance list \<Rightarrow> 'r \<times> Attendance list) \<Rightarrow> 'w lms \<Rightarrow> 'r \<times> 'w lms" where
  "onAttendance f s = (let (x, t) = f (lm_attendance s) in (x, s\<lparr>lm_attendance := t\<rparr>))"

definition onLeads :: "(Lead list \<Rightarrow> 'r \<times> Lead list) \<Rightarrow> 'w lms \<Rightarrow> 'r \<times> 'w lms" where
  "onLeads f s = (let (x, t) = f (lm_leads s) in (x, s\<lparr>lm_leads := t\<rparr>))"

definition onActivities :: "(LeadActivity list \<Rightarrow> 'r \<times> LeadActivity list) \<Rightarrow> 'w lms \<Rightarrow> 'r \<times> 'w lms" where
  "onActivities f s = (let (x, t) = f (lm_activities s) in (x, s\<lparr>lm_activities := t\<rparr>))"

definition onCategories :: "(PostCategory list \<Rightarrow> 'r \<times> PostCategory list) \<Rightarrow> 'w lms \<Rightarrow> 'r \<times> 'w lms" where
  "onCategories f s = (let (x, t) = f (lm_categories s) in (x, s\<lparr>lm_categories := t\<rparr>))"

definition onPosts :: "(BlogPost list \<Rightarrow> 'r \<times> BlogPost list) \<Rightarrow> 'w lms \<Rightarrow> 'r \<times> 'w lms" where
  "onPosts f s = (let (x, t) = f (lm_posts s) in (x, s\<lparr>lm_posts := t\<rparr>))"

definition onHomeworks :: "(Homework list \<Rightarrow> 'r \<times> Homework list) \<Rightarrow> 'w lms \<Rightarrow> 'r \<times> 'w lms" where
  "onHomeworks f s = (let (x, t) = f (lm_homeworks s) in (x, s\<lparr>lm_homeworks := t\<rparr>))"

definition onSubmissions :: "(Submission list \<Rightarrow> 'r \<times> Submission list) \<Rightarrow> 'w lms \<Rightarrow> 'r \<times> 'w lms" where
  "onSubmissions f s = (let (x, t) = f (lm_submissions s) in (x, s\<lparr>lm_submissions := t\<rparr>))"

definition onReviews :: "(WeeklyReview list \<Rightarrow> 'r \<times> WeeklyReview list) \<Rightarrow> 'w lms \<Rightarrow> 'r \<times> 'w lms" where
  "onReviews f s = (let (x, t) = f (lm_reviews s) in (x, s\<lparr>lm_reviews := t\<rparr>))"

definition onTasks :: "(Task list \<Rightarrow> 'r \<times> Task list) \<Rightarrow> 'w lms \<Rightarrow> 'r \<times> 'w lms" where
  "onTasks f s = (let (x, t) = f (lm_tasks s) in (x, s\<lparr>lm_tasks := t\<rparr>))"

definition onBanners :: "(Banner list \<Rightarrow> 'r \<times> Banner list) \<Rightarrow> 'w lms \<Rightarrow> 'r \<times> 'w lms" where
  "onBanners f s = (let (x, t) = f (lm_banners s) in (x, s\<lparr>lm_banners := t\<rparr>))"

definition onNotifications :: "(Notification list \<Rightarrow> 'r \<times> Notification list) \<Rightarrow> 'w lms \<Rightarrow> 'r \<times> 'w lms" where
  "onNotifications f s = (let (x, t) = f (lm_notifications s) in (x, s\<lparr>lm_notifications := t\<rparr>))"

definition onMaterials :: "(Material list \<Rightarrow> 'r \<times> Material list) \<Rightarrow> 'w lms \<Rightarrow> 'r \<times> 'w lms" where
  "onMaterials f s = (let (x, t) = f (lm_materials s) in (x, s\<lparr>lm_materials := t\<rparr>))"

definition onMedia :: "(ClassMedium list \<Rightarrow> 'r \<times> ClassMedium list) \<Rightarrow> 'w lms \<Rightarrow> 'r \<times> 'w lms" where
  "onMedia f s = (let (x, t) = f (lm_media s) in (x, s\<lparr>lm_media := t\<rparr>))"

definition onUsers :: "(User list \<Rightarrow> 'r \<times> User list) \<Rightarrow> 'w lms \<Rightarrow> 'r \<times> 'w lms" where
  "onUsers f s = (let (x, t) = f (lm_users s) in (x, s\<lparr>lm_users := t\<rparr>))"

definition onFinance :: "(finance \<Rightarrow> 'r \<times> finance) \<Rightarrow> 'w lms \<Rightarrow> 'r \<times> 'w lms" where
  "onFinance f s = (let (x, t) = f (lm_finance s) in (x, s\<lparr>lm_finance := t\<rparr>))"

lemmas on_defs =
  onBranches_def onCourses_def onClasses_def onStudents_def onSessions_def onAttendance_def onLeads_def onActivities_def onCategories_def onPosts_def onHomeworks_def onSubmissions_def onReviews_def onTasks_def onBanners_def onNotifications_def onMaterials_def onMedia_def onUsers_def onFinance_def

section \<open>The steps of a handler\<close>

datatype 'a response = Answer int 'a | Failed app_error | Crash

datatype 'a body = BadBody | Body 'a

definition permissionError :: app_error where
  "permissionError = AppError ''api.context.permissions.app_error'' 403"

definition invalidUrlParam :: app_error where
  "invalidUrlParam = AppError ''api.context.invalid_url_param.app_error'' 400"

definition withPermission ::
  "'w lmsServer \<Rightarrow> Session \<Rightarrow> string \<Rightarrow> ('s \<Rightarrow> 'a response \<times> 's) \<Rightarrow> 's \<Rightarrow> 'a response \<times> 's" where
  "withPermission S se p h s = (if SessionHasPermissionTo (sx_roles S) se p then h s else (Failed permissionError, s))"

definition withId :: "'w lmsServer \<Rightarrow> string \<Rightarrow> ('s \<Rightarrow> 'a response \<times> 's) \<Rightarrow> 's \<Rightarrow> 'a response \<times> 's" where
  "withId S i h s = (if IsValidId (lv_letter (sx_env S)) i then h s else (Failed invalidUrlParam, s))"

definition withBody :: "string \<Rightarrow> 'b body \<Rightarrow> ('b \<Rightarrow> 's \<Rightarrow> 'a response \<times> 's) \<Rightarrow> 's \<Rightarrow> 'a response \<times> 's" where
  "withBody msg b h s = (case b of BadBody \<Rightarrow> (Failed (AppError msg 400), s) | Body x \<Rightarrow> h x s)"

definition deref :: "'b option \<Rightarrow> ('b \<Rightarrow> 's \<Rightarrow> 'a response \<times> 's) \<Rightarrow> 's \<Rightarrow> 'a response \<times> 's" where
  "deref p h s = (case p of None \<Rightarrow> (Crash, s) | Some x \<Rightarrow> h x s)"

definition respond :: "int \<Rightarrow> (app_error + 'a) \<times> 's \<Rightarrow> 'a response \<times> 's" where
  "respond code r = (case r of (Inl e, s) \<Rightarrow> (Failed e, s) | (Inr x, s) \<Rightarrow> (Answer code x, s))"

definition respondOK :: "app_error option \<times> 's \<Rightarrow> unit response \<times> 's" where
  "respondOK r = (case r of (Some e, s) \<Rightarrow> (Failed e, s) | (None, s) \<Rightarrow> (Answer 200 (), s))"

definition look :: "app_error + 'a \<Rightarrow> 's \<Rightarrow> 'a response \<times> 's" where
  "look r s = respond 200 (r, s)"

section \<open>Handlers of one table\<close>

text \<open>They all have one shape; those that read leave the state as it is.\<close>

definition createBanner :: "'w lmsServer \<Rightarrow> nat \<Rightarrow> Session \<Rightarrow> Banner body \<Rightarrow> 'w lms \<Rightarrow> Banner response \<times> 'w lms" where
  "createBanner S n se b =
     withPermission S se PermissionLmsManageBanners
       (withBody ''api.lms.banner.create_body.app_error'' b (\<lambda>x s. respond 200 (onBanners (CreateBanner (sx_env S) n x) s)))"

definition getBanner :: "'w lmsServer \<Rightarrow> nat \<Rightarrow> Session \<Rightarrow> string \<Rightarrow> 'w lms \<Rightarrow> Banner response \<times> 'w lms" where
  "getBanner S n se i =
     withPermission S se PermissionLmsManageBanners
       (withId S i (\<lambda>s. look (GetBanner (sx_env S) n i (lm_banners s)) s))"

definition updateBanner :: "'w lmsServer \<Rightarrow> nat \<Rightarrow> Session \<Rightarrow> string \<Rightarrow> Banner option body \<Rightarrow> 'w lms \<Rightarrow> Banner response \<times> 'w lms" where
  "updateBanner S n se i b =
     withPermission S se PermissionLmsManageBanners
       (withId S i (withBody ''api.lms.banner.update_body.app_error'' b (\<lambda>p. deref p (\<lambda>x s. respond 200 (onBanners (UpdateBanner (sx_env S) n i x) s)))))"

definition deleteBanner :: "'w lmsServer \<Rightarrow> nat \<Rightarrow> Session \<Rightarrow> string \<Rightarrow> 'w lms \<Rightarrow> unit response \<times> 'w lms" where
  "deleteBanner S n se i =
     withPermission S se PermissionLmsManageBanners
       (withId S i (\<lambda>s. respondOK (onBanners (DeleteBanner (sx_env S) n i) s)))"

definition createBranch :: "'w lmsServer \<Rightarrow> nat \<Rightarrow> Session \<Rightarrow> Branch option body \<Rightarrow> 'w lms \<Rightarrow> Branch response \<times> 'w lms" where
  "createBranch S n se b =
     withPermission S se PermissionLmsManageBranches
       (withBody ''api.lms.branch.create_body.app_error'' b (\<lambda>p. deref p (\<lambda>x s. respond 200 (onBranches (CreateBranch (sx_env S) n x) s))))"

definition getClass :: "'w lmsServer \<Rightarrow> nat \<Rightarrow> Session \<Rightarrow> string \<Rightarrow> 'w lms \<Rightarrow> Class response \<times> 'w lms" where
  "getClass S n se i =
     withId S i (withPermission S se PermissionLmsManageClasses (\<lambda>s. look (GetClass (sx_env S) n i (lm_classes s)) s))"

definition createClassMedia :: "'w lmsServer \<Rightarrow> nat \<Rightarrow> Session \<Rightarrow> ClassMedium option body \<Rightarrow> 'w lms \<Rightarrow> ClassMedium response \<times> 'w lms" where
  "createClassMedia S n se b =
     withPermission S se PermissionLmsManageClassMedia
       (withBody ''api.lms.create_class_media.bad_body.app_error'' b (\<lambda>p. deref p (\<lambda>x s. respond 200 (onMedia (CreateClassMedia (sx_env S) n x) s))))"

definition deleteClassMedia :: "'w lmsServer \<Rightarrow> nat \<Rightarrow> Session \<Rightarrow> string \<Rightarrow> 'w lms \<Rightarrow> unit response \<times> 'w lms" where
  "deleteClassMedia S n se i =
     withPermission S se PermissionLmsManageClassMedia
       (withId S i (\<lambda>s. respondOK (onMedia (DeleteClassMedia (sx_env S) n i) s)))"

definition createCourse :: "'w lmsServer \<Rightarrow> nat \<Rightarrow> Session \<Rightarrow> Course option body \<Rightarrow> 'w lms \<Rightarrow> Course response \<times> 'w lms" where
  "createCourse S n se b =
     withPermission S se PermissionLmsManageCourses
       (withBody ''api.lms.course.create_body.app_error'' b (\<lambda>p. deref p (\<lambda>x s. respond 200 (onCourses (CreateCourse (sx_env S) n x) s))))"

definition getCourse :: "'w lmsServer \<Rightarrow> nat \<Rightarrow> Session \<Rightarrow> string \<Rightarrow> 'w lms \<Rightarrow> Course response \<times> 'w lms" where
  "getCourse S n se i =
     withPermission S se PermissionLmsManageCourses
       (withId S i (\<lambda>s. look (GetCourse (sx_env S) n i (lm_courses s)) s))"

definition updateCourse :: "'w lmsServer \<Rightarrow> nat \<Rightarrow> Session \<Rightarrow> string \<Rightarrow> Course option body \<Rightarrow> 'w lms \<Rightarrow> Course response \<times> 'w lms" where
  "updateCourse S n se i b =
     withPermission S se PermissionLmsManageCourses
       (withId S i (withBody ''api.lms.course.update_body.app_error'' b (\<lambda>p. deref p (\<lambda>x s. respond 200 (onCourses (UpdateCourse (sx_env S) n i x) s)))))"

definition deleteCourse :: "'w lmsServer \<Rightarrow> nat \<Rightarrow> Session \<Rightarrow> string \<Rightarrow> 'w lms \<Rightarrow> unit response \<times> 'w lms" where
  "deleteCourse S n se i =
     withPermission S se PermissionLmsManageCourses
       (withId S i (\<lambda>s. respondOK (onCourses (DeleteCourse (sx_env S) n i) s)))"

definition createFeePackage :: "'w lmsServer \<Rightarrow> nat \<Rightarrow> Session \<Rightarrow> FeePackage option body \<Rightarrow> 'w lms \<Rightarrow> FeePackage response \<times> 'w lms" where
  "createFeePackage S n se b =
     withPermission S se PermissionLmsManageFeePackages
       (withBody ''api.lms.fee_package.create_body.app_error'' b (\<lambda>p. deref p (\<lambda>x s. respond 200 (onFinance (CreateFeePackage (sx_env S) n x) s))))"

definition createHomework :: "'w lmsServer \<Rightarrow> nat \<Rightarrow> Session \<Rightarrow> Homework option body \<Rightarrow> 'w lms \<Rightarrow> Homework response \<times> 'w lms" where
  "createHomework S n se b =
     withPermission S se PermissionLmsManageHomework
       (withBody ''api.lms.create_homework.bad_body.app_error'' b (\<lambda>p. deref p (\<lambda>x s. respond 201 (onHomeworks (CreateHomework (sx_env S) n x) s))))"

definition getHomework :: "'w lmsServer \<Rightarrow> nat \<Rightarrow> Session \<Rightarrow> string \<Rightarrow> 'w lms \<Rightarrow> Homework response \<times> 'w lms" where
  "getHomework S n se i =
     withPermission S se PermissionLmsManageHomework
       (withId S i (\<lambda>s. look (GetHomeworkByID (sx_env S) n i (lm_homeworks s)) s))"

definition updateHomework :: "'w lmsServer \<Rightarrow> nat \<Rightarrow> Session \<Rightarrow> string \<Rightarrow> Homework option body \<Rightarrow> 'w lms \<Rightarrow> Homework response \<times> 'w lms" where
  "updateHomework S n se i b =
     withPermission S se PermissionLmsManageHomework
       (withId S i (withBody ''api.lms.update_homework.bad_body.app_error'' b (\<lambda>p. deref p (\<lambda>x s. respond 200 (onHomeworks (UpdateHomework (sx_env S) n i x) s)))))"

definition deleteHomework :: "'w lmsServer \<Rightarrow> nat \<Rightarrow> Session \<Rightarrow> string \<Rightarrow> 'w lms \<Rightarrow> unit response \<times> 'w lms" where
  "deleteHomework S n se i =
     withPermission S se PermissionLmsManageHomework
       (withId S i (\<lambda>s. respondOK (onHomeworks (DeleteHomework (sx_env S) n i) s)))"

definition getHomeworkSubmissions :: "'w lmsServer \<Rightarrow> nat \<Rightarrow> Session \<Rightarrow> string \<Rightarrow> 'w lms \<Rightarrow> Submission list response \<times> 'w lms" where
  "getHomeworkSubmissions S n se i =
     withPermission S se PermissionLmsManageHomework
       (withId S i (\<lambda>s. look (GetHomeworkSubmissions (sx_env S) n i (lm_submissions s)) s))"

definition createLead :: "'w lmsServer \<Rightarrow> nat \<Rightarrow> Session \<Rightarrow> Lead option body \<Rightarrow> 'w lms \<Rightarrow> Lead response \<times> 'w lms" where
  "createLead S n se b =
     withPermission S se PermissionLmsManageLeads
       (withBody ''api.lms.lead.create_body.app_error'' b (\<lambda>p. deref p (\<lambda>x s. respond 201 (onLeads (CreateLead (sx_env S) n x) s))))"

definition getLead :: "'w lmsServer \<Rightarrow> nat \<Rightarrow> Session \<Rightarrow> string \<Rightarrow> 'w lms \<Rightarrow> Lead response \<times> 'w lms" where
  "getLead S n se i =
     withPermission S se PermissionLmsManageLeads
       (withId S i (\<lambda>s. look (GetLead (sx_env S) n i (lm_leads s)) s))"

definition updateLead :: "'w lmsServer \<Rightarrow> nat \<Rightarrow> Session \<Rightarrow> string \<Rightarrow> Lead option body \<Rightarrow> 'w lms \<Rightarrow> Lead response \<times> 'w lms" where
  "updateLead S n se i b =
     withPermission S se PermissionLmsManageLeads
       (withId S i (withBody ''api.lms.lead.update_body.app_error'' b (\<lambda>p. deref p (\<lambda>x s. respond 200 (onLeads (UpdateLead (sx_env S) n i x) s)))))"

definition deleteLead :: "'w lmsServer \<Rightarrow> nat \<Rightarrow> Session \<Rightarrow> string \<Rightarrow> 'w lms \<Rightarrow> unit response \<times> 'w lms" where
  "deleteLead S n se i =
     withPermission S se PermissionLmsManageLeads
       (withId S i (\<lambda>s. respondOK (onLeads (DeleteLead (sx_env S) n i) s)))"

definition getLeadActivities :: "'w lmsServer \<Rightarrow> nat \<Rightarrow> Session \<Rightarrow> string \<Rightarrow> 'w lms \<Rightarrow> LeadActivity list response \<times> 'w lms" where
  "getLeadActivities S n se i =
     withPermission S se PermissionLmsManageLeads
       (withId S i (\<lambda>s. look (GetLeadActivities (sx_env S) n i (lm_activities s)) s))"

definition createMaterial :: "'w lmsServer \<Rightarrow> nat \<Rightarrow> Session \<Rightarrow> Material option body \<Rightarrow> 'w lms \<Rightarrow> Material response \<times> 'w lms" where
  "createMaterial S n se b =
     withPermission S se PermissionLmsManageMaterials
       (withBody ''api.lms.create_material.bad_body.app_error'' b (\<lambda>p. deref p (\<lambda>x s. respond 201 (onMaterials (CreateMaterial (sx_env S) n x) s))))"

definition getMaterial :: "'w lmsServer \<Rightarrow> nat \<Rightarrow> Session \<Rightarrow> string \<Rightarrow> 'w lms \<Rightarrow> Material response \<times> 'w lms" where
  "getMaterial S n se i =
     withPermission S se PermissionLmsManageMaterials
       (withId S i (\<lambda>s. look (GetMaterial (sx_env S) n i (lm_materials s)) s))"

definition updateMaterial :: "'w lmsServer \<Rightarrow> nat \<Rightarrow> Session \<Rightarrow> string \<Rightarrow> Material option body \<Rightarrow> 'w lms \<Rightarrow> Material response \<times> 'w lms" where
  "updateMaterial S n se i b =
     withPermission S se PermissionLmsManageMaterials
       (withId S i (withBody ''api.lms.update_material.bad_body.app_error'' b (\<lambda>p. deref p (\<lambda>x s. respond 200 (onMaterials (UpdateMaterial (sx_env S) n i x) s)))))"

definition deleteMaterial :: "'w lmsServer \<Rightarrow> nat \<Rightarrow> Session \<Rightarrow> string \<Rightarrow> 'w lms \<Rightarrow> unit response \<times> 'w lms" where
  "deleteMaterial S n se i =
     withPermission S se PermissionLmsManageMaterials
       (withId S i (\<lambda>s. respondOK (onMaterials (DeleteMaterial (sx_env S) n i) s)))"

definition markNotificationAsRead :: "'w lmsServer \<Rightarrow> nat \<Rightarrow> Session \<Rightarrow> string \<Rightarrow> 'w lms \<Rightarrow> unit response \<times> 'w lms" where
  "markNotificationAsRead S n se i =
     withPermission S se PermissionLmsViewNotifications
       (withId S i (\<lambda>s. respondOK (onNotifications (MarkNotificationAsRead (sx_env S) n i) s)))"

definition createPostCategory :: "'w lmsServer \<Rightarrow> nat \<Rightarrow> Session \<Rightarrow> PostCategory option body \<Rightarrow> 'w lms \<Rightarrow> PostCategory response \<times> 'w lms" where
  "createPostCategory S n se b =
     withPermission S se PermissionLmsManagePosts
       (withBody ''api.lms.post.category_body.app_error'' b (\<lambda>p. deref p (\<lambda>x s. respond 201 (onCategories (CreatePostCategory (sx_env S) n x) s))))"

definition updatePostCategory :: "'w lmsServer \<Rightarrow> nat \<Rightarrow> Session \<Rightarrow> string \<Rightarrow> PostCategory option body \<Rightarrow> 'w lms \<Rightarrow> PostCategory response \<times> 'w lms" where
  "updatePostCategory S n se i b =
     withPermission S se PermissionLmsManagePosts
       (withId S i (withBody ''api.lms.post.category_body.app_error'' b (\<lambda>p. deref p (\<lambda>x s. respond 200 (onCategories (UpdatePostCategory (sx_env S) n i x) s)))))"

definition deletePostCategory :: "'w lmsServer \<Rightarrow> nat \<Rightarrow> Session \<Rightarrow> string \<Rightarrow> 'w lms \<Rightarrow> unit response \<times> 'w lms" where
  "deletePostCategory S n se i =
     withPermission S se PermissionLmsManagePosts
       (withId S i (\<lambda>s. respondOK (onCategories (DeletePostCategory (sx_env S) n i) s)))"

definition createPost :: "'w lmsServer \<Rightarrow> nat \<Rightarrow> Session \<Rightarrow> BlogPost option body \<Rightarrow> 'w lms \<Rightarrow> BlogPost response \<times> 'w lms" where
  "createPost S n se b =
     withPermission S se PermissionLmsManagePosts
       (withBody ''api.lms.post.create_body.app_error'' b (\<lambda>p. deref p (\<lambda>x s. respond 201 (onPosts (CreatePost (sx_env S) n x) s))))"

definition getPost :: "'w lmsServer \<Rightarrow> nat \<Rightarrow> Session \<Rightarrow> string \<Rightarrow> 'w lms \<Rightarrow> BlogPost response \<times> 'w lms" where
  "getPost S n se i =
     withPermission S se PermissionLmsManagePosts
       (withId S i (\<lambda>s. look (GetPost (sx_env S) n i (lm_posts s)) s))"

definition updatePost :: "'w lmsServer \<Rightarrow> nat \<Rightarrow> Session \<Rightarrow> string \<Rightarrow> BlogPost option body \<Rightarrow> 'w lms \<Rightarrow> BlogPost response \<times> 'w lms" where
  "updatePost S n se i b =
     withPermission S se PermissionLmsManagePosts
       (withId S i (withBody ''api.lms.post.update_body.app_error'' b (\<lambda>p. deref p (\<lambda>x s. respond 200 (onPosts (UpdatePost (sx_env S) n i x) s)))))"

definition deletePost :: "'w lmsServer \<Rightarrow> nat \<Rightarrow> Session \<Rightarrow> string \<Rightarrow> 'w lms \<Rightarrow> unit response \<times> 'w lms" where
  "deletePost S n se i =
     withPermission S se PermissionLmsManagePosts
       (withId S i (\<lambda>s. respondOK (onPosts (DeletePost (sx_env S) n i) s)))"

definition getSession :: "'w lmsServer \<Rightarrow> nat \<Rightarrow> Session \<Rightarrow> string \<Rightarrow> 'w lms \<Rightarrow> LMSSession response \<times> 'w lms" where
  "getSession S n se i =
     withPermission S se PermissionLmsManageSessions
       (withId S i (\<lambda>s. look (GetSession (sx_env S) n i (lm_sessions s)) s))"

definition deleteSession :: "'w lmsServer \<Rightarrow> nat \<Rightarrow> Session \<Rightarrow> string \<Rightarrow> 'w lms \<Rightarrow> unit response \<times> 'w lms" where
  "deleteSession S n se i =
     withPermission S se PermissionLmsManageSessions
       (withId S i (\<lambda>s. respondOK (onSessions (DeleteSession (sx_env S) n i) s)))"

definition getAttendance :: "'w lmsServer \<Rightarrow> nat \<Rightarrow> Session \<Rightarrow> string \<Rightarrow> 'w lms \<Rightarrow> Attendance list response \<times> 'w lms" where
  "getAttendance S n se i =
     withPermission S se PermissionLmsManageAttendance
       (withId S i (\<lambda>s. look (GetAttendance (sx_env S) n i (lm_attendance s)) s))"

definition getStudent :: "'w lmsServer \<Rightarrow> nat \<Rightarrow> Session \<Rightarrow> string \<Rightarrow> 'w lms \<Rightarrow> User response \<times> 'w lms" where
  "getStudent S n se i =
     withPermission S se PermissionLmsManageStudents
       (withId S i (\<lambda>s. look (GetStudent (sx_env S) n i (lm_users s)) s))"

definition convertUserToStudent :: "'w lmsServer \<Rightarrow> nat \<Rightarrow> Session \<Rightarrow> string \<Rightarrow> 'w lms \<Rightarrow> User response \<times> 'w lms" where
  "convertUserToStudent S n se i =
     withPermission S se PermissionLmsManageStudents
       (withId S i (\<lambda>s. respond 200 (onUsers (ConvertUserToStudent (sx_lib S) (sx_env S) n i) s)))"

definition revertStudentToUser :: "'w lmsServer \<Rightarrow> nat \<Rightarrow> Session \<Rightarrow> string \<Rightarrow> 'w lms \<Rightarrow> User response \<times> 'w lms" where
  "revertStudentToUser S n se i =
     withPermission S se PermissionLmsManageStudents
       (withId S i (\<lambda>s. respond 200 (onUsers (RevertStudentToUser (sx_lib S) (sx_env S) n i) s)))"

definition createTask :: "'w lmsServer \<Rightarrow> nat \<Rightarrow> Session \<Rightarrow> Task option body \<Rightarrow> 'w lms \<Rightarrow> Task response \<times> 'w lms" where
  "createTask S n se b =
     withPermission S se PermissionLmsManageTasks
       (withBody ''api.lms.create_task.bad_body.app_error'' b (\<lambda>p. deref p (\<lambda>x s. respond 201 (onTasks (CreateTask (sx_env S) n x) s))))"

definition getTask :: "'w lmsServer \<Rightarrow> nat \<Rightarrow> Session \<Rightarrow> string \<Rightarrow> 'w lms \<Rightarrow> Task response \<times> 'w lms" where
  "getTask S n se i =
     withPermission S se PermissionLmsManageTasks
       (withId S i (\<lambda>s. look (GetTask (sx_env S) n i (lm_tasks s)) s))"

definition updateTask :: "'w lmsServer \<Rightarrow> nat \<Rightarrow> Session \<Rightarrow> string \<Rightarrow> Task option body \<Rightarrow> 'w lms \<Rightarrow> Task response \<times> 'w lms" where
  "updateTask S n se i b =
     withPermission S se PermissionLmsManageTasks
       (withId S i (withBody ''api.lms.update_task.bad_body.app_error'' b (\<lambda>p. deref p (\<lambda>x s. respond 200 (onTasks (UpdateTask (sx_env S) n i x) s)))))"

definition deleteTask :: "'w lmsServer \<Rightarrow> nat \<Rightarrow> Session \<Rightarrow> string \<Rightarrow> 'w lms \<Rightarrow> unit response \<times> 'w lms" where
  "deleteTask S n se i =
     withPermission S se PermissionLmsManageTasks
       (withId S i (\<lambda>s. respondOK (onTasks (DeleteTask (sx_env S) n i) s)))"

definition createTuition :: "'w lmsServer \<Rightarrow> nat \<Rightarrow> Session \<Rightarrow> Tuition option body \<Rightarrow> 'w lms \<Rightarrow> Tuition response \<times> 'w lms" where
  "createTuition S n se b =
     withPermission S se PermissionLmsManageTuition
       (withBody ''api.lms.tuition.create_body.app_error'' b (\<lambda>p. deref p (\<lambda>x s. respond 201 (onFinance (CreateTuition (sx_env S) n x) s))))"

definition getTuition :: "'w lmsServer \<Rightarrow> nat \<Rightarrow> Session \<Rightarrow> string \<Rightarrow> 'w lms \<Rightarrow> Tuition response \<times> 'w lms" where
  "getTuition S n se i =
     withPermission S se PermissionLmsManageTuition
       (withId S i (\<lambda>s. look (GetTuition (sx_env S) n i (lm_finance s)) s))"

definition updateTuition :: "'w lmsServer \<Rightarrow> nat \<Rightarrow> Session \<Rightarrow> string \<Rightarrow> Tuition option body \<Rightarrow> 'w lms \<Rightarrow> Tuition response \<times> 'w lms" where
  "updateTuition S n se i b =
     withPermission S se PermissionLmsManageTuition
       (withId S i (withBody ''api.lms.tuition.update_body.app_error'' b (\<lambda>p. deref p (\<lambda>x s. respond 200 (onFinance (UpdateTuition (sx_env S) n i x) s)))))"

definition deleteTuition :: "'w lmsServer \<Rightarrow> nat \<Rightarrow> Session \<Rightarrow> string \<Rightarrow> 'w lms \<Rightarrow> unit response \<times> 'w lms" where
  "deleteTuition S n se i =
     withPermission S se PermissionLmsManageTuition
       (withId S i (\<lambda>s. respondOK (onFinance (DeleteTuition (sx_env S) n i) s)))"

definition getTuitionPayments :: "'w lmsServer \<Rightarrow> nat \<Rightarrow> Session \<Rightarrow> string \<Rightarrow> 'w lms \<Rightarrow> Payment list response \<times> 'w lms" where
  "getTuitionPayments S n se i =
     withPermission S se PermissionLmsManageTuition
       (withId S i (\<lambda>s. look (GetTuitionPayments (sx_env S) n i (lm_finance s)) s))"

definition deleteUser :: "'w lmsServer \<Rightarrow> nat \<Rightarrow> Session \<Rightarrow> string \<Rightarrow> 'w lms \<Rightarrow> unit response \<times> 'w lms" where
  "deleteUser S n se i =
     withPermission S se PermissionLmsManageUsers
       (withId S i (\<lambda>s. respondOK (onUsers (DeleteUser (sx_env S) n i) s)))"

definition deactivateUser :: "'w lmsServer \<Rightarrow> nat \<Rightarrow> Session \<Rightarrow> string \<Rightarrow> 'w lms \<Rightarrow> User response \<times> 'w lms" where
  "deactivateUser S n se i =
     withPermission S se PermissionLmsManageUsers
       (withId S i (\<lambda>s. respond 200 (onUsers (DeactivateUser (sx_lib S) (sx_env S) n i) s)))"

definition reactivateUser :: "'w lmsServer \<Rightarrow> nat \<Rightarrow> Session \<Rightarrow> string \<Rightarrow> 'w lms \<Rightarrow> User response \<times> 'w lms" where
  "reactivateUser S n se i =
     withPermission S se PermissionLmsManageUsers
       (withId S i (\<lambda>s. respond 200 (onUsers (ReactivateUser (sx_lib S) (sx_env S) n i) s)))"

definition createWeeklyReview :: "'w lmsServer \<Rightarrow> nat \<Rightarrow> Session \<Rightarrow> WeeklyReview option body \<Rightarrow> 'w lms \<Rightarrow> WeeklyReview response \<times> 'w lms" where
  "createWeeklyReview S n se b =
     withPermission S se PermissionLmsManageWeeklyReviews
       (withBody ''api.lms.create_weekly_review.bad_body.app_error'' b (\<lambda>p. deref p (\<lambda>x s. respond 201 (onReviews (CreateWeeklyReview (sx_env S) n x) s))))"

definition getWeeklyReview :: "'w lmsServer \<Rightarrow> nat \<Rightarrow> Session \<Rightarrow> string \<Rightarrow> 'w lms \<Rightarrow> WeeklyReview response \<times> 'w lms" where
  "getWeeklyReview S n se i =
     withPermission S se PermissionLmsManageWeeklyReviews
       (withId S i (\<lambda>s. look (GetWeeklyReview (sx_env S) n i (lm_reviews s)) s))"

definition updateWeeklyReview :: "'w lmsServer \<Rightarrow> nat \<Rightarrow> Session \<Rightarrow> string \<Rightarrow> WeeklyReview option body \<Rightarrow> 'w lms \<Rightarrow> WeeklyReview response \<times> 'w lms" where
  "updateWeeklyReview S n se i b =
     withPermission S se PermissionLmsManageWeeklyReviews
       (withId S i (withBody ''api.lms.update_weekly_review.bad_body.app_error'' b (\<lambda>p. deref p (\<lambda>x s. respond 200 (onReviews (UpdateWeeklyReview (sx_env S) n i x) s)))))"

definition deleteWeeklyReview :: "'w lmsServer \<Rightarrow> nat \<Rightarrow> Session \<Rightarrow> string \<Rightarrow> 'w lms \<Rightarrow> unit response \<times> 'w lms" where
  "deleteWeeklyReview S n se i =
     withPermission S se PermissionLmsManageWeeklyReviews
       (withId S i (\<lambda>s. respondOK (onReviews (DeleteWeeklyReview (sx_env S) n i) s)))"

section \<open>Handlers that read by other keys\<close>

definition getCourses :: "'w lmsServer \<Rightarrow> nat \<Rightarrow> Session \<Rightarrow> 'w lms \<Rightarrow> Course list response \<times> 'w lms" where
  "getCourses S n se s = look (GetCourses (sx_env S) n (lm_courses s)) s"

definition getBanners :: "'w lmsServer \<Rightarrow> nat \<Rightarrow> Session \<Rightarrow> 'w lms \<Rightarrow> Banner list response \<times> 'w lms" where
  "getBanners S n se = withPermission S se PermissionLmsManageBanners (\<lambda>s. look (GetBanners (sx_env S) n (lm_banners s)) s)"

definition getPostCategories :: "'w lmsServer \<Rightarrow> nat \<Rightarrow> Session \<Rightarrow> 'w lms \<Rightarrow> PostCategory list response \<times> 'w lms" where
  "getPostCategories S n se =
     withPermission S se PermissionLmsManagePosts (\<lambda>s. look (GetPostCategories (sx_env S) n (lm_categories s)) s)"

definition getConvertibleUsers :: "'w lmsServer \<Rightarrow> nat \<Rightarrow> Session \<Rightarrow> 'w lms \<Rightarrow> User list response \<times> 'w lms" where
  "getConvertibleUsers S n se =
     withPermission S se PermissionLmsManageStudents (\<lambda>s. look (GetConvertibleUsers (sx_env S) n (lm_users s)) s)"

definition getNotifications :: "'w lmsServer \<Rightarrow> nat \<Rightarrow> Session \<Rightarrow> 'w lms \<Rightarrow> (Notification list \<times> int) response \<times> 'w lms" where
  "getNotifications S n se =
     withPermission S se PermissionLmsViewNotifications
       (\<lambda>s. look (GetNotifications (sx_env S) n (se_UserId se) (lm_notifications s)) s)"

definition getPublicCourses :: "'w lmsServer \<Rightarrow> nat \<Rightarrow> 'w lms \<Rightarrow> Course list response \<times> 'w lms" where
  "getPublicCourses S n s = look (GetPublicCourses (sx_env S) n (lm_courses s)) s"

definition getPublicPosts :: "'w lmsServer \<Rightarrow> nat \<Rightarrow> 'w lms \<Rightarrow> BlogPost list response \<times> 'w lms" where
  "getPublicPosts S n s = look (GetPublicPosts (sx_env S) n (lm_posts s)) s"

definition verifyResetToken :: "'w lmsServer \<Rightarrow> nat \<Rightarrow> string \<Rightarrow> 'w lms \<Rightarrow> bool response \<times> 'w lms" where
  "verifyResetToken S n token s = look (VerifyResetToken (sx_env S) n token (lm_users s)) s"

section \<open>Classes and their channels\<close>

text \<open>What the chat functions leave of the class, the core and the table of classes.\<close>

definition classStudentUserIDs :: "'w lmsServer \<Rightarrow> nat \<Rightarrow> string \<Rightarrow> 'w lms \<Rightarrow> string list" where
  "classStudentUserIDs S n classID s =
     (case GetClassStudents (sx_env S) n classID (lm_students s) of
        Inl _ \<Rightarrow> []
      | Inr enrolled \<Rightarrow> filter (\<lambda>i. i \<noteq> []) (map sc_StudentID enrolled))"

definition syncClass :: "'w lmsServer \<Rightarrow> nat \<Rightarrow> Class \<Rightarrow> 'w lms \<Rightarrow> Class \<times> 'w lms" where
  "syncClass S n cls s =
     (case SyncClassChannelMembership (sx_chat S) (sx_lib S) (sx_env S) (n + 1) cls (classStudentUserIDs S n (kl_ID cls) s)
             (lm_chat s) (lm_classes s) of
        (_, cls1, w1, t1) \<Rightarrow> (cls1, s\<lparr>lm_chat := w1, lm_classes := t1\<rparr>))"

definition closeClass :: "'w lmsServer \<Rightarrow> nat \<Rightarrow> Class \<Rightarrow> 'w lms \<Rightarrow> Class \<times> 'w lms" where
  "closeClass S n cls s =
     (case CloseClassChannel (sx_chat S) (sx_env S) n cls (lm_chat s) (lm_classes s) of
        (r, w1, t1) \<Rightarrow>
          (if r \<noteq> None \<or> kl_ChatChannelID cls = [] then cls
           else fst (writeLink (sx_env S) n (cls\<lparr>kl_ChatChannelID := []\<rparr>) (lm_classes s)),
           s\<lparr>lm_chat := w1, lm_classes := t1\<rparr>))"

definition createClass :: "'w lmsServer \<Rightarrow> nat \<Rightarrow> Session \<Rightarrow> Class option body \<Rightarrow> 'w lms \<Rightarrow> Class response \<times> 'w lms" where
  "createClass S n se b =
     withPermission S se PermissionLmsManageClasses
       (withBody ''api.lms.class.create_body.app_error'' b (\<lambda>p. deref p (\<lambda>cls s.
          case onClasses (CreateClass (sx_env S) n cls) s of
            (Inl e, s1) \<Rightarrow> (Failed e, s1)
          | (Inr created, s1) \<Rightarrow>
              (case EnsureClassChannel (sx_chat S) (sx_lib S) (sx_env S) (n + 1) created (lm_chat s1) (lm_classes s1) of
                 (_, cls1, w1, t1) \<Rightarrow> (Answer 200 cls1, s1\<lparr>lm_chat := w1, lm_classes := t1\<rparr>)))))"

definition updateClass ::
  "'w lmsServer \<Rightarrow> nat \<Rightarrow> Session \<Rightarrow> string \<Rightarrow> Class option body \<Rightarrow> 'w lms \<Rightarrow> Class response \<times> 'w lms" where
  "updateClass S n se i b =
     withPermission S se PermissionLmsManageClasses
       (withId S i (withBody ''api.lms.class.update_body.app_error'' b (\<lambda>p. deref p (\<lambda>cls s.
          let priorStatus = (case GetClass (sx_env S) n i (lm_classes s) of Inl _ \<Rightarrow> [] | Inr prior \<Rightarrow> kl_Status prior) in
          case onClasses (UpdateClass (sx_env S) (n + 1) i cls) s of
            (Inl e, s1) \<Rightarrow> (Failed e, s1)
          | (Inr updated, s1) \<Rightarrow>
              let nowFinished = kl_Status updated \<in> ClosedClassStatuses; wasFinished = priorStatus \<in> ClosedClassStatuses in
              if nowFinished \<and> kl_ChatChannelID updated \<noteq> []
              then (let (cls1, s2) = closeClass S (n + 2) updated s1 in (Answer 200 cls1, s2))
              else if \<not> nowFinished \<and> \<not> wasFinished
              then (let (cls1, s2) = syncClass S (n + 2) updated s1 in (Answer 200 cls1, s2))
              else (Answer 200 updated, s1)))))"

definition deleteClass :: "'w lmsServer \<Rightarrow> nat \<Rightarrow> Session \<Rightarrow> string \<Rightarrow> 'w lms \<Rightarrow> unit response \<times> 'w lms" where
  "deleteClass S n se i =
     withPermission S se PermissionLmsManageClasses
       (withId S i (\<lambda>s.
          let s1 = (case GetClass (sx_env S) n i (lm_classes s) of Inl _ \<Rightarrow> s | Inr cls \<Rightarrow> snd (closeClass S (n + 1) cls s))
          in respondOK (onClasses (DeleteClass (sx_env S) (n + 2) i) s1)))"

text \<open>After a change of the enrolment the channel follows, if the class can be read.\<close>

definition followEnrolment :: "'w lmsServer \<Rightarrow> nat \<Rightarrow> string \<Rightarrow> 'w lms \<Rightarrow> 'w lms" where
  "followEnrolment S n i s =
     (case GetClass (sx_env S) n i (lm_classes s) of Inl _ \<Rightarrow> s | Inr cls \<Rightarrow> snd (syncClass S (n + 1) cls s))"

definition enrollStudents ::
  "'w lmsServer \<Rightarrow> nat \<Rightarrow> Session \<Rightarrow> string \<Rightarrow> string list body \<Rightarrow> 'w lms \<Rightarrow> StudentClass list response \<times> 'w lms" where
  "enrollStudents S n se i b =
     withPermission S se PermissionLmsManageClasses
       (withId S i (withBody ''api.lms.class.enroll_body.app_error'' b (\<lambda>studentIDs s.
          case onStudents (EnrollStudents (sx_env S) n i studentIDs) s of
            (Inl e, s1) \<Rightarrow> (Failed e, s1)
          | (Inr result, s1) \<Rightarrow> (Answer 200 result, followEnrolment S (n + 2 * length studentIDs) i s1))))"

definition unenrollStudent ::
  "'w lmsServer \<Rightarrow> nat \<Rightarrow> Session \<Rightarrow> string \<Rightarrow> string \<Rightarrow> 'w lms \<Rightarrow> unit response \<times> 'w lms" where
  "unenrollStudent S n se i studentID =
     withPermission S se PermissionLmsManageClasses
       (withId S i (withId S studentID (\<lambda>s.
          case onStudents (UnenrollStudent (sx_env S) n i studentID) s of
            (Inl e, s1) \<Rightarrow> (Failed e, s1)
          | (Inr _, s1) \<Rightarrow> (Answer 200 (), followEnrolment S (n + 2) i s1))))"

section \<open>Lessons and attendance\<close>

text \<open>The answer is the list of the lessons, or the conflicts with status 409.\<close>

definition sessionAnswer :: "int \<Rightarrow> LMSSession list \<Rightarrow> SessionConflict list \<Rightarrow> (LMSSession list + SessionConflict list) response" where
  "sessionAnswer code sessions conflicts = (if conflicts \<noteq> [] then Answer 409 (Inr conflicts) else Answer code (Inl sessions))"

definition createSession ::
  "'w lmsServer \<Rightarrow> nat \<Rightarrow> Session \<Rightarrow> (LMSSession option \<times> string \<times> bool) body \<Rightarrow> 'w lms
    \<Rightarrow> (LMSSession list + SessionConflict list) response \<times> 'w lms" where
  "createSession S n se b =
     withPermission S se PermissionLmsManageSessions
       (withBody ''api.lms.session.create_body.app_error'' b (\<lambda>(session, repeatUntil, force) s.
          if session = None then (Failed (AppError ''api.lms.session.create_body.app_error'' 400), s)
          else case onSessions (CreateSessionsWithRepeat (sx_env S) n (lm_users s) (lm_classes s) session repeatUntil force) s of
                 (Inl e, s1) \<Rightarrow> (Failed e, s1)
               | (Inr (created, conflicts), s1) \<Rightarrow> (sessionAnswer 201 created conflicts, s1)))"

definition updateSession ::
  "'w lmsServer \<Rightarrow> nat \<Rightarrow> Session \<Rightarrow> string \<Rightarrow> (LMSSession option \<times> bool) body \<Rightarrow> 'w lms
    \<Rightarrow> (LMSSession list + SessionConflict list) response \<times> 'w lms" where
  "updateSession S n se i b =
     withPermission S se PermissionLmsManageSessions
       (withId S i (withBody ''api.lms.session.update_body.app_error'' b (\<lambda>(session, force) s.
          if session = None then (Failed (AppError ''api.lms.session.update_body.app_error'' 400), s)
          else case onSessions (UpdateSession (sx_env S) n (lm_users s) (lm_classes s) i session force) s of
                 (Inl e, s1) \<Rightarrow> (Failed e, s1)
               | (Inr (updated, conflicts), s1) \<Rightarrow> (sessionAnswer 200 (case updated of None \<Rightarrow> [] | Some x \<Rightarrow> [x]) conflicts, s1))))"

text \<open>A \<^verbatim>\<open>null\<close> in the list is dereferenced when the loop reaches it: the old sheet and the records before it are then already written.\<close>

definition saveAttendance ::
  "'w lmsServer \<Rightarrow> nat \<Rightarrow> Session \<Rightarrow> string \<Rightarrow> Attendance option list body \<Rightarrow> 'w lms \<Rightarrow> Attendance list response \<times> 'w lms" where
  "saveAttendance S n se i b =
     withPermission S se PermissionLmsManageAttendance
       (withId S i (withBody ''api.lms.session.attendance_body.app_error'' b (\<lambda>records s.
          case onAttendance (SaveAttendance (sx_env S) n i (map the (takeWhile (\<lambda>r. r \<noteq> None) records))) s of
            (Inl e, s1) \<Rightarrow> (Failed e, s1)
          | (Inr saved, s1) \<Rightarrow> (if None \<in> set records then Crash else Answer 200 saved, s1))))"

section \<open>Homework, leads, payments\<close>

definition upsertHomeworkSubmission ::
  "'w lmsServer \<Rightarrow> nat \<Rightarrow> Session \<Rightarrow> string \<Rightarrow> Submission option body \<Rightarrow> 'w lms \<Rightarrow> Submission response \<times> 'w lms" where
  "upsertHomeworkSubmission S n se i b =
     withPermission S se PermissionLmsManageHomework
       (withId S i (withBody ''api.lms.upsert_homework_submission.bad_body.app_error'' b (\<lambda>p. deref p (\<lambda>x s.
          respond 200 (onSubmissions (UpsertHomeworkSubmission (sx_env S) n i (su_StudentID x) x) s)))))"

definition bulkAssignHomework ::
  "'w lmsServer \<Rightarrow> nat \<Rightarrow> Session \<Rightarrow> (Homework option \<times> string list) body \<Rightarrow> 'w lms \<Rightarrow> int response \<times> 'w lms" where
  "bulkAssignHomework S n se b =
     withPermission S se PermissionLmsManageHomework
       (withBody ''api.lms.bulk_assign_homework.bad_body.app_error'' b (\<lambda>(homework, studentIDs) s.
          if studentIDs = [] then (Answer 200 0, s)
          else deref homework (\<lambda>hw s.
            case onHomeworks (BulkAssignHomework (sx_env S) n hw studentIDs) s of
              ((_, Some e), s1) \<Rightarrow> (Failed e, s1)
            | ((made, None), s1) \<Rightarrow> (Answer 200 made, s1)) s))"

definition createLeadActivity ::
  "'w lmsServer \<Rightarrow> nat \<Rightarrow> Session \<Rightarrow> string \<Rightarrow> LeadActivity option body \<Rightarrow> 'w lms \<Rightarrow> LeadActivity response \<times> 'w lms" where
  "createLeadActivity S n se i b =
     withPermission S se PermissionLmsManageLeads
       (withId S i (withBody ''api.lms.lead.activity_body.app_error'' b (\<lambda>p. deref p (\<lambda>x s.
          respond 201 (onActivities (CreateLeadActivity (sx_env S) n i x) s)))))"

definition convertLead :: "'w lmsServer \<Rightarrow> nat \<Rightarrow> Session \<Rightarrow> string \<Rightarrow> 'w lms \<Rightarrow> (User \<times> Lead) response \<times> 'w lms" where
  "convertLead S n se i =
     withPermission S se PermissionLmsManageLeads
       (withId S i (\<lambda>s.
          case ConvertLeadToStudent (sx_lib S) (sx_env S) n i (lm_leads s) (lm_users s) of
            (r, leads, users) \<Rightarrow> respond 200 (r, s\<lparr>lm_leads := leads, lm_users := users\<rparr>)))"

definition createTuitionPayment ::
  "'w lmsServer \<Rightarrow> nat \<Rightarrow> Session \<Rightarrow> string \<Rightarrow> Payment option body \<Rightarrow> 'w lms \<Rightarrow> Payment response \<times> 'w lms" where
  "createTuitionPayment S n se i b =
     withPermission S se PermissionLmsManageTuition
       (withId S i (withBody ''api.lms.tuition.payment_body.app_error'' b (\<lambda>p. deref p (\<lambda>x s.
          respond 201 (onFinance (CreatePayment (sx_env S) n (x\<lparr>pa_TuitionID := i\<rparr>)) s)))))"

section \<open>Accounts\<close>

text \<open>The creation of a student always returns (\<open>student_creation_returns\<close>), so the branch without a result is never taken.\<close>

definition createStudent ::
  "'w lmsServer \<Rightarrow> nat \<Rightarrow> Session \<Rightarrow> (User option \<times> string gomap option) body \<Rightarrow> 'w lms \<Rightarrow> User response \<times> 'w lms" where
  "createStudent S n se b =
     withPermission S se PermissionLmsManageStudents
       (withBody ''api.lms.create_student.bad_body.app_error'' b (\<lambda>(user, props) s.
          if user = None then (Failed (AppError ''api.lms.create_student.bad_body.app_error'' 400), s)
          else case CreateStudent (sx_lib S) (sx_env S) n user props (lm_users s) of
                 None \<Rightarrow> (Crash, s)
               | Some (r, users, _) \<Rightarrow> respond 201 (r, s\<lparr>lm_users := users\<rparr>)))"

definition updateStudent ::
  "'w lmsServer \<Rightarrow> nat \<Rightarrow> Session \<Rightarrow> string \<Rightarrow> (User option \<times> string gomap option) body \<Rightarrow> 'w lms \<Rightarrow> User response \<times> 'w lms" where
  "updateStudent S n se i b =
     withPermission S se PermissionLmsManageStudents
       (withId S i (withBody ''api.lms.update_student.bad_body.app_error'' b (\<lambda>(user, props) s.
          case user of
            None \<Rightarrow> (Failed (AppError ''api.lms.update_student.bad_body.app_error'' 400), s)
          | Some u \<Rightarrow> respond 200 (onUsers (UpdateStudent (sx_lib S) (sx_env S) n (Some (u\<lparr>us_Id := i\<rparr>)) props) s))))"

definition deleteStudent :: "'w lmsServer \<Rightarrow> nat \<Rightarrow> Session \<Rightarrow> string \<Rightarrow> 'w lms \<Rightarrow> unit response \<times> 'w lms" where
  "deleteStudent S n se i =
     withPermission S se PermissionLmsManageStudents
       (withId S i (\<lambda>s.
          case DeleteStudent (sx_env S) n i (lm_students s) (lm_users s) of
            (r, scs, users) \<Rightarrow> respondOK (r, s\<lparr>lm_students := scs, lm_users := users\<rparr>)))"

definition updateUser ::
  "'w lmsServer \<Rightarrow> nat \<Rightarrow> Session \<Rightarrow> string \<Rightarrow> User option body \<Rightarrow> 'w lms \<Rightarrow> User response \<times> 'w lms" where
  "updateUser S n se i b =
     withPermission S se PermissionLmsManageUsers
       (withId S i (withBody ''api.lms.update_user.bad_body.app_error'' b (\<lambda>p. deref p (\<lambda>u s.
          if us_Roles u \<noteq> [] \<and> i = se_UserId se then (Failed (AppError ''api.lms.update_user.self_role.app_error'' 403), s)
          else respond 200 (onUsers (UpdateUser (sx_lib S) (sx_env S) n (u\<lparr>us_Id := i\<rparr>)) s)))))"

section \<open>Public pages\<close>

definition publicRegister :: "'w lmsServer \<Rightarrow> nat \<Rightarrow> Lead body \<Rightarrow> 'w lms \<Rightarrow> Lead response \<times> 'w lms" where
  "publicRegister S n b =
     withBody ''api.lms.public.register.bad_body.app_error'' b (\<lambda>lead s.
       respond 200 (onLeads (PublicRegister (sx_env S) n lead) s))"

definition publicContact :: "'w lmsServer \<Rightarrow> nat \<Rightarrow> (string \<times> string \<times> string \<times> string) body \<Rightarrow> 'w lms \<Rightarrow> Lead response \<times> 'w lms" where
  "publicContact S n b =
     withBody ''api.lms.public.contact.bad_body.app_error'' b (\<lambda>(name, email, phone, message) s.
       if name = [] \<or> message = [] then (Failed (AppError ''api.lms.public.contact.missing_fields.app_error'' 400), s)
       else respond 201 (onLeads (SubmitContact (sx_env S) n name email phone message) s))"

definition forgotPassword :: "'w lmsServer \<Rightarrow> nat \<Rightarrow> string body \<Rightarrow> 'w lms \<Rightarrow> unit response \<times> 'w lms" where
  "forgotPassword S n b =
     withBody ''api.lms.public.forgot_password.bad_body.app_error'' b (\<lambda>email s.
       if email = [] then (Failed (AppError ''api.lms.public.forgot_password.missing_email.app_error'' 400), s)
       else case onUsers (SendPasswordReset (sx_lib S) (sx_env S) n (sx_random S n) email) s of
              (Inl e, s1) \<Rightarrow> (Failed e, s1)
            | (Inr _, s1) \<Rightarrow> (Answer 200 (), s1))"

definition resetPassword :: "'w lmsServer \<Rightarrow> nat \<Rightarrow> (string \<times> string) body \<Rightarrow> 'w lms \<Rightarrow> unit response \<times> 'w lms" where
  "resetPassword S n b =
     withBody ''api.lms.public.reset_password.bad_body.app_error'' b (\<lambda>(token, password) s.
       respondOK (onUsers (ResetPassword (sx_lib S) (sx_env S) n token password) s))"

section \<open>Staff accounts and media files\<close>

text \<open>
  The creation of an account and the reading of a file belong to the Mattermost core and are parameters:
  \<open>CreateUser\<close> on the table of accounts, \<open>GetFileInfo\<close> and \<open>FileReader\<close>.
\<close>

definition employeeRole :: "string \<Rightarrow> bool" where
  "employeeRole r \<longleftrightarrow> r \<in> {RoleLmsAdminRoleId, RoleLmsTeacherRoleId, RoleLmsAccountantRoleId, RoleLmsSuperAdminRoleId, RoleLmsCounselorRoleId,
     RoleLmsMarketingRoleId}"

definition createUser ::
  "(nat \<Rightarrow> User \<Rightarrow> User list \<Rightarrow> (app_error + User) \<times> User list) \<Rightarrow> 'w lmsServer \<Rightarrow> nat \<Rightarrow> Session \<Rightarrow> User option body \<Rightarrow> 'w lms
    \<Rightarrow> User response \<times> 'w lms" where
  "createUser CreateUser S n se b =
     withPermission S se PermissionLmsManageUsers
       (withBody ''api.lms.create_user.bad_body.app_error'' b (\<lambda>p. deref p (\<lambda>u s.
          let u1 = u\<lparr>us_EmailVerified := True,
                us_Username := (if us_Username u = [] then takeWhile (\<lambda>c. c \<noteq> CHR ''@'') (us_Email u) else us_Username u)\<rparr>
          in case onUsers (CreateUser n u1) s of
               (Inl e, s1) \<Rightarrow> (Failed e, s1)
             | (Inr created, s1) \<Rightarrow>
                 let teamName = (if list_ex employeeRole (strFields (us_Roles created)) then ''team-employee'' else ''team-user'')
                 in case GetTeamByName (sx_chat S) (lm_chat s1) teamName of
                      Inl e \<Rightarrow> (Failed e, s1)
                    | Inr team \<Rightarrow>
                        (case AddUserToTeam (sx_chat S) (lm_chat s1) team (us_Id created) of
                           (Some e, w1) \<Rightarrow> (Failed e, s1\<lparr>lm_chat := w1\<rparr>)
                         | (None, w1) \<Rightarrow> (Answer 200 created, s1\<lparr>lm_chat := w1\<rparr>)))))"

record FileInfo =
  mf_Path :: string
  mf_Name :: string
  mf_DeleteAt :: int

definition getLmsMediaFile ::
  "(string \<Rightarrow> app_error + FileInfo) \<Rightarrow> (string \<Rightarrow> app_error + string) \<Rightarrow> 'w lmsServer \<Rightarrow> nat \<Rightarrow> Session \<Rightarrow> string \<Rightarrow> 'w lms
    \<Rightarrow> (FileInfo \<times> string) response \<times> 'w lms" where
  "getLmsMediaFile GetFileInfo FileReader S n se fileID =
     withPermission S se PermissionLmsManageClassMedia
       (withId S fileID (\<lambda>s.
          case GetClassMediaByFileID (sx_env S) n fileID (lm_media s) of
            Inl e \<Rightarrow> (Failed e, s)
          | Inr _ \<Rightarrow>
              (case GetFileInfo fileID of
                 Inl e \<Rightarrow> (Failed e, s)
               | Inr info \<Rightarrow>
                   if mf_DeleteAt info \<noteq> 0 then (Failed (AppError ''app.file_info.get.app_error'' 404), s)
                   else (case FileReader (mf_Path info) of
                           Inl (AppError msg _) \<Rightarrow> (Failed (AppError msg 404), s)
                         | Inr bytes \<Rightarrow> (Answer 200 (info, bytes), s)))))"

end
