(* ===== verification/Lms_Search.thy ===== *)
theory Lms_Search
  imports Sql_Query Lms_Api
begin

text \<open>
  The list requests: the \<^verbatim>\<open>Search\<close> methods of the stores, the list operations of \<^verbatim>\<open>channels/app/lms\<close>, and
  their handlers. A search builds one query for the page and, when the total is asked for, one for the count; running
  them is a parameter, \<open>sqlDb\<close>, of type: the database with the query answers the rows, or nothing when the statement
  fails. What the code relies on is named where it is used (\<open>pages_ok\<close>).
\<close>

section \<open>Searching a table\<close>

record ('d, 'r) sqlDb =
  db_all :: "nat \<Rightarrow> sqlQuery \<Rightarrow> 'd \<Rightarrow> 'r list option"
  db_count :: "nat \<Rightarrow> sqlQuery \<Rightarrow> 'd \<Rightarrow> int option"

definition searchTable ::
  "('d, 'r) sqlDb \<Rightarrow> nat \<Rightarrow> (sqlQuery \<Rightarrow> sqlQuery) \<Rightarrow> string \<Rightarrow> SearchOpts \<Rightarrow> 'd \<Rightarrow> ('r list \<times> int) option" where
  "searchTable D n mods table opts d =
     (case db_all D n (SearchOpts_Apply opts (mods (newQuery table))) d of
        None \<Rightarrow> None
      | Some rows \<Rightarrow>
          if so_CountTotal opts
          then (case db_count D (n + 1) (SearchOpts_Apply (ExludePaginationForCount opts) (mods (newQuery table))) d of
                  None \<Rightarrow> None
                | Some cnt \<Rightarrow> Some (rows, cnt))
          else Some (rows, int (length rows)))"

text \<open>\<^verbatim>\<open>%text%\<close>\<close>

definition contains :: "string \<Rightarrow> json" where
  "contains s = JStr (''%'' @ s @ ''%'')"

definition iLike :: "string \<Rightarrow> string \<Rightarrow> WhereCond" where
  "iLike column s = \<lparr>wc_Column = column, wc_Value = contains s, wc_Operator = OperatorILike\<rparr>"

definition classSearchMod :: "string \<Rightarrow> sqlQuery \<Rightarrow> sqlQuery" where
  "classSearchMod search q = (if search \<noteq> '''' then WhereOrs_Apply [iLike ''classes.name'' search] q else q)"

definition leadSearchMod :: "string \<Rightarrow> sqlQuery \<Rightarrow> sqlQuery" where
  "leadSearchMod search q =
     (if search \<noteq> '''' then WhereOrs_Apply [iLike ''leads.name'' search, iLike ''leads.phone'' search, iLike ''leads.email'' search] q else q)"

definition tuitionSearchMod :: "string \<Rightarrow> sqlQuery \<Rightarrow> sqlQuery" where
  "tuitionSearchMod search q =
     (if search \<noteq> ''''
      then q\<lparr>qy_where := qy_where q @ [\<lparr>qw_clause = ''(tuitions.student_id IN (SELECT id FROM users WHERE username ILIKE ?) OR '' @
               ''tuitions.student_id IN (SELECT id FROM users WHERE first_name ILIKE ?) OR '' @
               ''tuitions.student_id IN (SELECT id FROM users WHERE last_name ILIKE ?))'',
             qw_args = [contains search, contains search, contains search], qw_or = True\<rparr>]\<rparr>
      else q)"

text \<open>
  The conditions on \<^verbatim>\<open>payments.payment_date\<close> with a text are turned into milliseconds. A valid RFC 3339 text has a
  period or a comma only before its fraction of a second.
\<close>

definition fractionMillis :: "string \<Rightarrow> int" where
  "fractionMillis s = int (decVal (take 3 (takeWhile isDigit (tl (dropWhile (\<lambda>c. c \<notin> {CHR ''.'', CHR '',''}) s)) @ ''000'')))"

definition rfcMillis :: "string \<Rightarrow> int option" where
  "rfcMillis s = map_option (\<lambda>sec. sec * 1000 - unixEpoch + fractionMillis s) (parseRFC3339 s)"

fun paymentDates :: "WhereCond list \<Rightarrow> WhereCond list option" where
  "paymentDates [] = Some []"
| "paymentDates (w # ws) =
     (case (if wc_Column w = ''payments.payment_date''
            then (case wc_Value w of JStr s \<Rightarrow> map_option (\<lambda>ms. w\<lparr>wc_Value := JNum (of_int ms)\<rparr>) (rfcMillis s) | _ \<Rightarrow> Some w)
            else Some w) of
        None \<Rightarrow> None
      | Some w' \<Rightarrow> map_option (\<lambda>r. w' # r) (paymentDates ws))"

definition BranchStore_Search :: "('d, Branch) sqlDb \<Rightarrow> nat \<Rightarrow> SearchOpts \<Rightarrow> 'd \<Rightarrow> (Branch list \<times> int) option" where
  "BranchStore_Search D n opts = searchTable D n id ''branches'' opts"

definition ClassStore_Search :: "('d, Class) sqlDb \<Rightarrow> nat \<Rightarrow> SearchOpts \<Rightarrow> string \<Rightarrow> 'd \<Rightarrow> (Class list \<times> int) option" where
  "ClassStore_Search D n opts search = searchTable D n (classSearchMod search) ''classes'' opts"

definition ClassMediaStore_Search :: "('d, ClassMedium) sqlDb \<Rightarrow> nat \<Rightarrow> SearchOpts \<Rightarrow> 'd \<Rightarrow> (ClassMedium list \<times> int) option" where
  "ClassMediaStore_Search D n opts = searchTable D n id ''class_media'' opts"

definition FeePackageStore_Search :: "('d, FeePackage) sqlDb \<Rightarrow> nat \<Rightarrow> SearchOpts \<Rightarrow> 'd \<Rightarrow> (FeePackage list \<times> int) option" where
  "FeePackageStore_Search D n opts = searchTable D n id ''fee_packages'' opts"

definition HomeworkStore_Search :: "('d, Homework) sqlDb \<Rightarrow> nat \<Rightarrow> SearchOpts \<Rightarrow> 'd \<Rightarrow> (Homework list \<times> int) option" where
  "HomeworkStore_Search D n opts = searchTable D n id ''homeworks'' opts"

definition LeadStore_Search :: "('d, Lead) sqlDb \<Rightarrow> nat \<Rightarrow> SearchOpts \<Rightarrow> string \<Rightarrow> 'd \<Rightarrow> (Lead list \<times> int) option" where
  "LeadStore_Search D n opts search = searchTable D n (leadSearchMod search) ''leads'' opts"

definition MaterialStore_Search :: "('d, Material) sqlDb \<Rightarrow> nat \<Rightarrow> SearchOpts \<Rightarrow> 'd \<Rightarrow> (Material list \<times> int) option" where
  "MaterialStore_Search D n opts = searchTable D n id ''materials'' opts"

definition PaymentStore_Search :: "('d, Payment) sqlDb \<Rightarrow> nat \<Rightarrow> SearchOpts \<Rightarrow> 'd \<Rightarrow> (Payment list \<times> int) option" where
  "PaymentStore_Search D n opts d =
     (case (paymentDates (so_WhereAnds opts), paymentDates (so_WhereOrs opts)) of
        (Some ands, Some ors) \<Rightarrow>
          searchTable D n id ''payments'' (opts\<lparr>so_WhereAnds := ands, so_WhereOrs := ors\<rparr>) d
      | _ \<Rightarrow> None)"

definition BlogPostStore_Search :: "('d, BlogPost) sqlDb \<Rightarrow> nat \<Rightarrow> SearchOpts \<Rightarrow> 'd \<Rightarrow> (BlogPost list \<times> int) option" where
  "BlogPostStore_Search D n opts = searchTable D n id ''blog_posts'' opts"

definition LMSSessionStore_Search :: "('d, LMSSession) sqlDb \<Rightarrow> nat \<Rightarrow> SearchOpts \<Rightarrow> 'd \<Rightarrow> (LMSSession list \<times> int) option" where
  "LMSSessionStore_Search D n opts = searchTable D n id ''lms_sessions'' opts"

definition TaskStore_Search :: "('d, Task) sqlDb \<Rightarrow> nat \<Rightarrow> SearchOpts \<Rightarrow> 'd \<Rightarrow> (Task list \<times> int) option" where
  "TaskStore_Search D n opts = searchTable D n id ''tasks'' opts"

definition TuitionStore_Search :: "('d, Tuition) sqlDb \<Rightarrow> nat \<Rightarrow> SearchOpts \<Rightarrow> string \<Rightarrow> 'd \<Rightarrow> (Tuition list \<times> int) option" where
  "TuitionStore_Search D n opts search = searchTable D n (tuitionSearchMod search) ''tuitions'' opts"

definition WeeklyReviewStore_Search :: "('d, WeeklyReview) sqlDb \<Rightarrow> nat \<Rightarrow> SearchOpts \<Rightarrow> 'd \<Rightarrow> (WeeklyReview list \<times> int) option" where
  "WeeklyReviewStore_Search D n opts = searchTable D n id ''weekly_reviews'' opts"

text \<open>Students, with their parents on demand; \<open>qy_load\<close> names the relation to be loaded.\<close>

record StudentFilterOpts =
  sf_SearchOpts :: SearchOpts
  sf_SelectRelatedParent :: bool
  sf_ClassID :: string
  sf_Status :: string
  sf_Search :: string

definition studentMods :: "StudentFilterOpts \<Rightarrow> sqlQuery \<Rightarrow> sqlQuery" where
  "studentMods f q =
     (let q1 = WhereCond_Apply \<lparr>wc_Column = ''users.roles'', wc_Value = contains RoleLmsStudentRoleId, wc_Operator = OperatorLike\<rparr> q;
          q2 = (if sf_SelectRelatedParent f then q1\<lparr>qy_load := qy_load q1 @ [''Parent'']\<rparr> else q1);
          q3 = (if sf_ClassID f \<noteq> ''''
                then WhereCond_Apply \<lparr>wc_Column = ''student_classes.class_id'', wc_Value = JStr (sf_ClassID f), wc_Operator = OperatorEq\<rparr>
                       (q2\<lparr>qy_joins := qy_joins q2 @ [''student_classes on student_id = users.id'']\<rparr>)
                else q2);
          q4 = (if StudentStatus_IsValid (sf_Status f)
                then appendWhere (''users.props ->> '' @ [CHR 0x27] @ ''student_status'' @ [CHR 0x27] @ '' = ?'', [JStr (sf_Status f)]) q3
                else q3)
      in if sf_Search f \<noteq> ''''
         then WhereOrs_Apply [iLike ''users.firstname'' (sf_Search f), iLike ''users.lastname'' (sf_Search f), iLike ''users.email'' (sf_Search f)] q4
         else q4)"

definition StudentClassStore_SearchStudentUsers ::
  "('d, User) sqlDb \<Rightarrow> nat \<Rightarrow> StudentFilterOpts \<Rightarrow> 'd \<Rightarrow> (User list \<times> int) option" where
  "StudentClassStore_SearchStudentUsers D n f = searchTable D n (studentMods f) ''users'' (sf_SearchOpts f)"

text \<open>
  Accounts: here the condition on the employees comes after the options, and is missing from the count; without a
  count the total is 0.
\<close>

definition employeeRoles :: "string list" where
  "employeeRoles = [RoleLmsAdminRoleId, RoleLmsAccountantRoleId, RoleLmsSuperAdminRoleId, RoleLmsTeacherRoleId, RoleLmsCounselorRoleId, RoleLmsMarketingRoleId]"

definition UserStore_SearchUsers :: "('d, User) sqlDb \<Rightarrow> nat \<Rightarrow> SearchOpts \<Rightarrow> bool \<Rightarrow> 'd \<Rightarrow> (User list \<times> int) option" where
  "UserStore_SearchUsers D n opts employeeOnly d =
     (let q = SearchOpts_Apply opts (newQuery ''users'');
          q1 = (if employeeOnly then WhereOrs_Apply (map (iLike ''users.roles'') employeeRoles) q else q)
      in case db_all D n q1 d of
           None \<Rightarrow> None
         | Some users \<Rightarrow>
             if so_CountTotal opts
             then map_option (\<lambda>cnt. (users, cnt)) (db_count D (n + 1) (SearchOpts_Apply (ExludePaginationForCount opts) (newQuery ''users'')) d)
             else Some (users, 0))"

section \<open>Lists of the application\<close>

definition listed :: "string \<Rightarrow> 'a option \<Rightarrow> app_error + 'a" where
  "listed msg r = (case r of None \<Rightarrow> Inl (AppError msg 500) | Some x \<Rightarrow> Inr x)"

definition GetBranches :: "('d, Branch) sqlDb \<Rightarrow> nat \<Rightarrow> SearchOpts \<Rightarrow> 'd \<Rightarrow> app_error + Branch list \<times> int" where
  "GetBranches D n opts d = listed ''app.lms.branch.get_all.app_error'' (BranchStore_Search D n opts d)"

definition GetClasses :: "('d, Class) sqlDb \<Rightarrow> nat \<Rightarrow> SearchOpts \<Rightarrow> string \<Rightarrow> 'd \<Rightarrow> app_error + Class list \<times> int" where
  "GetClasses D n opts search d = listed ''app.lms.class.get_all.app_error'' (ClassStore_Search D n opts search d)"

definition GetClassMedia :: "('d, ClassMedium) sqlDb \<Rightarrow> nat \<Rightarrow> SearchOpts \<Rightarrow> 'd \<Rightarrow> app_error + ClassMedium list \<times> int" where
  "GetClassMedia D n opts d = listed ''app.lms.class_media.get_all.app_error'' (ClassMediaStore_Search D n opts d)"

definition GetFeePackages :: "('d, FeePackage) sqlDb \<Rightarrow> nat \<Rightarrow> SearchOpts \<Rightarrow> 'd \<Rightarrow> app_error + FeePackage list \<times> int" where
  "GetFeePackages D n opts d = listed ''app.lms.fee_package.get_all.app_error'' (FeePackageStore_Search D n opts d)"

definition GetHomework :: "('d, Homework) sqlDb \<Rightarrow> nat \<Rightarrow> SearchOpts \<Rightarrow> 'd \<Rightarrow> app_error + Homework list \<times> int" where
  "GetHomework D n opts d = listed ''app.lms.homework.get_all.app_error'' (HomeworkStore_Search D n opts d)"

definition GetLeads :: "('d, Lead) sqlDb \<Rightarrow> nat \<Rightarrow> SearchOpts \<Rightarrow> string \<Rightarrow> 'd \<Rightarrow> app_error + Lead list \<times> int" where
  "GetLeads D n opts search d = listed ''app.lms.lead.get_all.app_error'' (LeadStore_Search D n opts search d)"

definition GetMaterials :: "('d, Material) sqlDb \<Rightarrow> nat \<Rightarrow> SearchOpts \<Rightarrow> 'd \<Rightarrow> app_error + Material list \<times> int" where
  "GetMaterials D n opts d = listed ''app.lms.material.get_all.app_error'' (MaterialStore_Search D n opts d)"

definition GetPayments :: "('d, Payment) sqlDb \<Rightarrow> nat \<Rightarrow> SearchOpts \<Rightarrow> 'd \<Rightarrow> app_error + Payment list \<times> int" where
  "GetPayments D n opts d = listed ''app.lms.payment.get_all.app_error'' (PaymentStore_Search D n opts d)"

definition GetPosts :: "('d, BlogPost) sqlDb \<Rightarrow> nat \<Rightarrow> SearchOpts \<Rightarrow> 'd \<Rightarrow> app_error + BlogPost list \<times> int" where
  "GetPosts D n opts d = listed ''app.lms.blog_post.get_all.app_error'' (BlogPostStore_Search D n opts d)"

definition GetSessions :: "('d, LMSSession) sqlDb \<Rightarrow> nat \<Rightarrow> SearchOpts \<Rightarrow> 'd \<Rightarrow> app_error + LMSSession list \<times> int" where
  "GetSessions D n opts d = listed ''app.lms.session.get_all.app_error'' (LMSSessionStore_Search D n opts d)"

definition GetTasks :: "('d, Task) sqlDb \<Rightarrow> nat \<Rightarrow> SearchOpts \<Rightarrow> 'd \<Rightarrow> app_error + Task list \<times> int" where
  "GetTasks D n opts d = listed ''app.lms.task.get_all.app_error'' (TaskStore_Search D n opts d)"

definition GetTuitions :: "('d, Tuition) sqlDb \<Rightarrow> nat \<Rightarrow> SearchOpts \<Rightarrow> string \<Rightarrow> 'd \<Rightarrow> app_error + Tuition list \<times> int" where
  "GetTuitions D n opts search d = listed ''app.lms.tuition.get_all.app_error'' (TuitionStore_Search D n opts search d)"

definition GetWeeklyReviews :: "('d, WeeklyReview) sqlDb \<Rightarrow> nat \<Rightarrow> SearchOpts \<Rightarrow> 'd \<Rightarrow> app_error + WeeklyReview list \<times> int" where
  "GetWeeklyReviews D n opts d = listed ''app.lms.weekly_review.get_all.app_error'' (WeeklyReviewStore_Search D n opts d)"

definition GetStudents :: "('d, User) sqlDb \<Rightarrow> nat \<Rightarrow> StudentFilterOpts \<Rightarrow> 'd \<Rightarrow> app_error + User list \<times> int" where
  "GetStudents D n f d = listed ''app.lms.student.get_all.app_error'' (StudentClassStore_SearchStudentUsers D n f d)"

section \<open>Handlers\<close>

definition getBranches ::
  "'w lmsServer \<Rightarrow> ('w lms, Branch) sqlDb \<Rightarrow> nat \<Rightarrow> Session \<Rightarrow> SearchOpts body \<Rightarrow> 'w lms \<Rightarrow> (Branch list \<times> int) response \<times> 'w lms" where
  "getBranches S D n se b =
     withPermission S se PermissionLmsManageBranches
       (withBody ''api.lms.branch.get_body.app_error'' b (\<lambda>opts s. look (GetBranches D n opts s) s))"

definition getClasses ::
  "'w lmsServer \<Rightarrow> ('w lms, Class) sqlDb \<Rightarrow> nat \<Rightarrow> Session \<Rightarrow> (SearchOpts \<times> string) body \<Rightarrow> 'w lms \<Rightarrow> (Class list \<times> int) response \<times> 'w lms" where
  "getClasses S D n se b =
     withBody ''api.payload.parse.error'' b (\<lambda>(opts, search) s. look (GetClasses D n opts search s) s)"

definition getClassMedia ::
  "'w lmsServer \<Rightarrow> ('w lms, ClassMedium) sqlDb \<Rightarrow> nat \<Rightarrow> Session \<Rightarrow> SearchOpts body \<Rightarrow> 'w lms \<Rightarrow> (ClassMedium list \<times> int) response \<times> 'w lms" where
  "getClassMedia S D n se b =
     withPermission S se PermissionLmsManageClassMedia
       (withBody ''api.lms.get_class_media.bad_body.app_error'' b (\<lambda>opts s. look (GetClassMedia D n opts s) s))"

definition getFeePackages ::
  "'w lmsServer \<Rightarrow> ('w lms, FeePackage) sqlDb \<Rightarrow> nat \<Rightarrow> Session \<Rightarrow> SearchOpts body \<Rightarrow> 'w lms \<Rightarrow> (FeePackage list \<times> int) response \<times> 'w lms" where
  "getFeePackages S D n se b =
     withPermission S se PermissionLmsManageFeePackages
       (withBody ''api.payload.parse.error'' b (\<lambda>opts s. look (GetFeePackages D n opts s) s))"

definition getHomeworks ::
  "'w lmsServer \<Rightarrow> ('w lms, Homework) sqlDb \<Rightarrow> nat \<Rightarrow> Session \<Rightarrow> SearchOpts body \<Rightarrow> 'w lms \<Rightarrow> (Homework list \<times> int) response \<times> 'w lms" where
  "getHomeworks S D n se b =
     withPermission S se PermissionLmsManageHomework
       (withBody ''api.payload.parse.error'' b (\<lambda>opts s. look (GetHomework D n opts s) s))"

definition getLeads ::
  "'w lmsServer \<Rightarrow> ('w lms, Lead) sqlDb \<Rightarrow> nat \<Rightarrow> Session \<Rightarrow> (SearchOpts \<times> string) body \<Rightarrow> 'w lms \<Rightarrow> (Lead list \<times> int) response \<times> 'w lms" where
  "getLeads S D n se b =
     withPermission S se PermissionLmsManageLeads
       (withBody ''api.payload.parse.error'' b (\<lambda>(opts, search) s. look (GetLeads D n opts search s) s))"

definition getMaterials ::
  "'w lmsServer \<Rightarrow> ('w lms, Material) sqlDb \<Rightarrow> nat \<Rightarrow> Session \<Rightarrow> SearchOpts body \<Rightarrow> 'w lms \<Rightarrow> (Material list \<times> int) response \<times> 'w lms" where
  "getMaterials S D n se b =
     withPermission S se PermissionLmsManageMaterials
       (withBody ''api.payload.parse.error'' b (\<lambda>opts s. look (GetMaterials D n opts s) s))"

definition getPayments ::
  "'w lmsServer \<Rightarrow> ('w lms, Payment) sqlDb \<Rightarrow> nat \<Rightarrow> Session \<Rightarrow> SearchOpts body \<Rightarrow> 'w lms \<Rightarrow> (Payment list \<times> int) response \<times> 'w lms" where
  "getPayments S D n se b =
     withPermission S se PermissionLmsManageTuition
       (withBody ''api.payload.parse.error'' b (\<lambda>opts s. look (GetPayments D n opts s) s))"

definition getPosts ::
  "'w lmsServer \<Rightarrow> ('w lms, BlogPost) sqlDb \<Rightarrow> nat \<Rightarrow> Session \<Rightarrow> SearchOpts body \<Rightarrow> 'w lms \<Rightarrow> (BlogPost list \<times> int) response \<times> 'w lms" where
  "getPosts S D n se b =
     withPermission S se PermissionLmsManagePosts
       (withBody ''api.payload.parse.error'' b (\<lambda>opts s. look (GetPosts D n opts s) s))"

definition getSessions ::
  "'w lmsServer \<Rightarrow> ('w lms, LMSSession) sqlDb \<Rightarrow> nat \<Rightarrow> Session \<Rightarrow> SearchOpts body \<Rightarrow> 'w lms \<Rightarrow> (LMSSession list \<times> int) response \<times> 'w lms" where
  "getSessions S D n se b =
     withPermission S se PermissionLmsManageSessions
       (withBody ''api.payload.parse.error'' b (\<lambda>opts s. look (GetSessions D n opts s) s))"

definition getTasks ::
  "'w lmsServer \<Rightarrow> ('w lms, Task) sqlDb \<Rightarrow> nat \<Rightarrow> Session \<Rightarrow> SearchOpts body \<Rightarrow> 'w lms \<Rightarrow> (Task list \<times> int) response \<times> 'w lms" where
  "getTasks S D n se b =
     withPermission S se PermissionLmsManageTasks
       (withBody ''api.payload.parse.error'' b (\<lambda>opts s. look (GetTasks D n opts s) s))"

definition getTuitions ::
  "'w lmsServer \<Rightarrow> ('w lms, Tuition) sqlDb \<Rightarrow> nat \<Rightarrow> Session \<Rightarrow> (SearchOpts \<times> string) body \<Rightarrow> 'w lms \<Rightarrow> (Tuition list \<times> int) response \<times> 'w lms" where
  "getTuitions S D n se b =
     withPermission S se PermissionLmsManageTuition
       (withBody ''api.payload.parse.error'' b (\<lambda>(opts, search) s. look (GetTuitions D n opts search s) s))"

definition getWeeklyReviews ::
  "'w lmsServer \<Rightarrow> ('w lms, WeeklyReview) sqlDb \<Rightarrow> nat \<Rightarrow> Session \<Rightarrow> SearchOpts body \<Rightarrow> 'w lms \<Rightarrow> (WeeklyReview list \<times> int) response \<times> 'w lms" where
  "getWeeklyReviews S D n se b =
     withPermission S se PermissionLmsManageWeeklyReviews
       (withBody ''api.payload.parse.error'' b (\<lambda>opts s. look (GetWeeklyReviews D n opts s) s))"

definition getStudents ::
  "'w lmsServer \<Rightarrow> ('w lms, User) sqlDb \<Rightarrow> nat \<Rightarrow> Session \<Rightarrow> StudentFilterOpts body \<Rightarrow> 'w lms \<Rightarrow> (User list \<times> int) response \<times> 'w lms" where
  "getStudents S D n se b =
     withPermission S se PermissionLmsManageStudents
       (withBody ''api.payload.parse.error'' b (\<lambda>f s. look (GetStudents D n f s) s))"

section \<open>Pages\<close>

text \<open>
  What the code relies on: \<^verbatim>\<open>LIMIT\<close> and \<^verbatim>\<open>OFFSET\<close> cut a piece out of the rows the same query has without them, in the
  order the database delivers them, and the count of a query without them is the number of those rows.
\<close>

definition pages_ok :: "('d, 'r) sqlDb \<Rightarrow> 'd \<Rightarrow> (sqlQuery \<Rightarrow> 'r list) \<Rightarrow> bool" where
  "pages_ok D d rows \<longleftrightarrow>
     (\<forall>n q. db_all D n q d =
        Some (let l = drop (nat (qy_offset q)) (rows (q\<lparr>qy_limit := None, qy_offset := 0\<rparr>)) in case qy_limit q of None \<Rightarrow> l | Some k \<Rightarrow> take (nat k) l))
     \<and> (\<forall>n q. qy_limit q = None \<and> qy_offset q = 0 \<longrightarrow> db_count D n q d = Some (int (length (rows q))))"

definition unpaged :: "(sqlQuery \<Rightarrow> sqlQuery) \<Rightarrow> bool" where
  "unpaged mods \<longleftrightarrow> (\<forall>table. qy_limit (mods (newQuery table)) = None \<and> qy_offset (mods (newQuery table)) = 0)"

lemma Apply_pages:
  "qy_limit (SearchOpts_Apply s q) = (if so_Limit s > 0 then Some (so_Limit s) else qy_limit q)"
  "qy_offset (SearchOpts_Apply s q) = (if so_Offset s \<ge> 0 then so_Offset s else qy_offset q)"
  by (simp_all add: SearchOpts_Apply_def Let_def orders_append WhereOrs_Apply_def WhereAnds_Apply_def appendWhere_def)

lemma fold_order_pages:
  "(fold OrderBy_Apply bs q)\<lparr>qy_limit := l, qy_offset := k\<rparr> = fold OrderBy_Apply bs (q\<lparr>qy_limit := l, qy_offset := k\<rparr>)"
proof (induction bs arbitrary: q)
  case (Cons b bs)
  have "(OrderBy_Apply b q)\<lparr>qy_limit := l, qy_offset := k\<rparr> = OrderBy_Apply b (q\<lparr>qy_limit := l, qy_offset := k\<rparr>)" for q
    by (cases q) (simp add: OrderBy_Apply_def)
  then show ?case using Cons by simp
qed simp

lemma Apply_unpaged:
  assumes "qy_limit q = None" and "qy_offset q = 0"
  shows "(SearchOpts_Apply s q)\<lparr>qy_limit := None, qy_offset := 0\<rparr> = SearchOpts_Apply (ExludePaginationForCount s) q"
  using assms by (cases q)
    (simp add: SearchOpts_Apply_def ExludePaginationForCount_def OrderBys_Apply_def fold_order_pages Let_def WhereOrs_Apply_def WhereAnds_Apply_def appendWhere_def)

lemma searchTable_page:
  fixes s :: SearchOpts and table :: string
  assumes "pages_ok D d rows" and "unpaged mods"
  defines "r \<equiv> rows (SearchOpts_Apply (ExludePaginationForCount s) (mods (newQuery table)))"
  shows "searchTable D n mods table s d =
    (let l = drop (nat (max 0 (so_Offset s))) r; p = if so_Limit s > 0 then take (nat (so_Limit s)) l else l
     in Some (p, if so_CountTotal s then int (length r) else int (length p)))"
proof -
  let ?q = "mods (newQuery table)"
  have u: "qy_limit ?q = None" "qy_offset ?q = 0" using assms(2) by (auto simp: unpaged_def)
  have c: "db_count D m (SearchOpts_Apply (ExludePaginationForCount s) ?q) d = Some (int (length r))" for m
    using assms(1) u unfolding pages_ok_def r_def by (simp add: Apply_pages ExludePaginationForCount_def)
  have a: "db_all D n (SearchOpts_Apply s ?q) d =
     Some (let l = drop (nat (max 0 (so_Offset s))) r in if so_Limit s > 0 then take (nat (so_Limit s)) l else l)"
    using assms(1) u unfolding pages_ok_def r_def Apply_unpaged[OF u, symmetric] by (simp add: Apply_pages Let_def max_def)
  show ?thesis by (simp add: searchTable_def a c Let_def)
qed

text \<open>Consecutive pieces of a list.\<close>

lemma concat_pieces: "concat (map (\<lambda>k. take l (drop (k * l) xs)) [0..<m]) = take (m * l) xs"
proof (induction m)
  case (Suc m)
  then show ?case by (simp add: take_add[symmetric] add.commute)
qed simp


section \<open>Unchecked text\<close>

text \<open>A request with the column \<open>x\<close>, and the query it leads to.\<close>

definition chosenOpts :: "string \<Rightarrow> json \<Rightarrow> SearchOpts" where
  "chosenOpts x v = \<lparr>so_WhereAnds = [\<lparr>wc_Column = x, wc_Value = v, wc_Operator = ''=''\<rparr>], so_WhereOrs = [], so_Orderings = [],
     so_Limit = 0, so_Offset = 0, so_CountTotal = False\<rparr>"

definition chosenQuery :: "string \<Rightarrow> json \<Rightarrow> sqlQuery" where
  "chosenQuery x v = (newQuery ''classes'')\<lparr>qy_where := [\<lparr>qw_clause = ''('' @ x @ '' = ?)'', qw_args = [v], qw_or = False\<rparr>,
     \<lparr>qw_clause = ''TRUE'', qw_args = [], qw_or = False\<rparr>]\<rparr>"

text \<open>
  A list request chooses SQL text. No handler calls the validation of the options, so whatever text a request
  gives as a column becomes part of the condition that is sent to the database. The list of the classes does not
  even ask for a permission: every session, whatever its roles, has its text sent. And the validation, if it were
  called, would not look at the direction of an ordering.
\<close>

theorem list_request_chooses_sql:
  "getClasses S D n se (Body (chosenOpts x v, '''')) s =
      (case db_all D n (chosenQuery x v) s of
         None \<Rightarrow> (Failed (AppError ''app.lms.class.get_all.app_error'' 500), s)
       | Some rows \<Rightarrow> (Answer 200 (rows, int (length rows)), s))
    \<and> SearchOpts_IsValid ClassColumn_IsValid ((chosenOpts x v)\<lparr>so_WhereAnds := [], so_Orderings := [\<lparr>ob_Column = ''classes.id'', ob_Dir = y\<rparr>]\<rparr>) = None"
proof -
  have "SearchOpts_Apply (chosenOpts x v) (newQuery ''classes'') = chosenQuery x v"
    by (simp add: chosenOpts_def chosenQuery_def SearchOpts_Apply_def newQuery_def OrderBys_Apply_def WhereOrs_Apply_def WhereAnds_Apply_def
        appendWhere_def build_def cond_build_def operator_defs Let_def)
  then have "searchTable D n (classSearchMod '''') ''classes'' (chosenOpts x v) s =
      map_option (\<lambda>rows. (rows, int (length rows))) (db_all D n (chosenQuery x v) s)"
    by (simp add: searchTable_def classSearchMod_def chosenOpts_def split: option.split)
  then show ?thesis
    by (simp add: getClasses_def withBody_def GetClasses_def ClassStore_Search_def listed_def look_def respond_def SearchOpts_IsValid_def
        chosenOpts_def OrderBy_IsValid_def ClassColumn_IsValid_def ClassColumns_def split: option.split)
qed

text \<open>A database of rows without conditions and orderings.\<close>

definition demoDb :: "(Class list, Class) sqlDb" where
  "demoDb = \<lparr>db_all = \<lambda>_ q t. Some (let l = drop (nat (qy_offset q)) t in case qy_limit q of None \<Rightarrow> l | Some k \<Rightarrow> take (nat k) l),
     db_count = \<lambda>_ _ t. Some (int (length t))\<rparr>"

definition namedClass :: "string \<Rightarrow> Class" where
  "namedClass s = demoClass\<lparr>kl_Name := s\<rparr>"


end
