(* ===== verification/Lms_Typed.thy ===== *)
theory Lms_Typed
  imports Lms_Chat Lms_Sessions Lms_Finance "HOL-Library.Sublist"
begin

text \<open>
  The types of the tables. Every row of a table is what the columns make of a struct that passed the validation of its
  entity, and the keys of a table are distinct, valid ids; no operation of the application layer breaks this. The same
  for the accounts, whose ids, user names and addresses are distinct.
\<close>

section \<open>Typed tables\<close>

definition stored_ok ::
  "('r \<Rightarrow> string) \<Rightarrow> ((nat \<Rightarrow> bool) \<Rightarrow> 'r \<Rightarrow> string option) \<Rightarrow> ('r \<Rightarrow> 'r) \<Rightarrow> ('r \<Rightarrow> 'r) \<Rightarrow> lmsEnv \<Rightarrow> 'r list \<Rightarrow> bool" where
  "stored_ok key valid dflt col E t \<longleftrightarrow> table_ok key E t
     \<and> (\<forall>r \<in> set t. \<exists>x. valid (lv_letter E) x = None \<and> (r = col x \<or> r = col (dflt x)))"

text \<open>The ids the server makes are valid.\<close>

definition fresh_ids :: "lmsEnv \<Rightarrow> bool" where
  "fresh_ids E \<longleftrightarrow> (\<forall>n. IsValidId (lv_letter E) (lv_newId E n))"

lemma stored_ok_filter: "stored_ok key valid dflt col E t \<Longrightarrow> stored_ok key valid dflt col E (filter p t)"
  by (simp add: stored_ok_def table_ok_filter)

lemma stored_ok_Nil [simp]: "stored_ok key valid dflt col E []"
  by (simp add: stored_ok_def table_ok_def)

lemma stored_ok_ent_delete:
  "stored_ok key valid dflt col E t \<Longrightarrow> stored_ok key valid dflt col E (snd (ent_delete name msg msg2 key f f2 i t))"
  by (simp add: ent_delete_def sql_delete_def stored_ok_filter split: option.split)

lemma stored_ok_deleteAll:
  "stored_ok key valid dflt col E t \<Longrightarrow> stored_ok key valid dflt col E (snd (sql_deleteAll msg f p t))"
  by (simp add: sql_deleteAll_def sql_delete_def stored_ok_filter)

context entity_store
begin

lemma save_stored:
  assumes "stored_ok key valid dflt col E t" and "fresh_ids E"
  shows "stored_ok key valid dflt col E (snd (save E n r t))"
proof -
  have k: "table_ok key E (snd (save E n r t))" using assms by (intro save_ok) (simp_all add: stored_ok_def fresh_ids_def)
  show ?thesis
  proof (cases rule: save_cases[of E n r t])
    case (refused e)
    with assms(1) show ?thesis by simp
  next
    case saved
    with k assms(1) show ?thesis by (auto simp: stored_ok_def)
  qed
qed

lemma save_tail:
  obtains (refused) e where "save E n r t = (Inl e, t)" | (saved) r' x where "save E n r t = (Inr r', t @ [x])"
  using save_cases by blast

end

context updatable_store
begin

lemma update_stored:
  assumes "stored_ok key valid dflt col E t"
  shows "stored_ok key valid dflt col E (snd (update E n r t))"
proof -
  have k: "table_ok key E (snd (update E n r t))" using assms by (intro update_ok) (simp add: stored_ok_def)
  show ?thesis
  proof (cases rule: update_table[of E n r t])
    case (same e)
    with assms show ?thesis by simp
  next
    case (written x)
    with k assms show ?thesis by (auto simp: stored_ok_def)
  qed
qed

lemma delete_stored:
  assumes "stored_ok key valid dflt col E t"
  shows "stored_ok key valid dflt col E (snd (delete E n i t))"
  using assms delete_table[of E n i t] stored_ok_filter by (metis (no_types, lifting))

end

section \<open>The tables of the LMS\<close>

definition branches_ok :: "lmsEnv \<Rightarrow> Branch list \<Rightarrow> bool" where
  "branches_ok = stored_ok br_ID BranchIsValid id id"

definition courses_ok :: "lmsEnv \<Rightarrow> Course list \<Rightarrow> bool" where
  "courses_ok = stored_ok co_ID CourseIsValid id id"

definition classes_ok :: "lmsEnv \<Rightarrow> Class list \<Rightarrow> bool" where
  "classes_ok = stored_ok kl_ID ClassIsValid id Class_columns"

definition students_ok :: "lmsEnv \<Rightarrow> StudentClass list \<Rightarrow> bool" where
  "students_ok = stored_ok sc_ID StudentClassIsValid id id"

definition sessions_ok :: "lmsEnv \<Rightarrow> LMSSession list \<Rightarrow> bool" where
  "sessions_ok = stored_ok ls_ID LMSSessionIsValid id LMSSession_columns"

definition attendance_ok :: "lmsEnv \<Rightarrow> Attendance list \<Rightarrow> bool" where
  "attendance_ok = stored_ok at_ID AttendanceIsValid id id"

definition leads_ok :: "lmsEnv \<Rightarrow> Lead list \<Rightarrow> bool" where
  "leads_ok = stored_ok ld_ID LeadIsValid id Lead_columns"

definition activities_ok :: "lmsEnv \<Rightarrow> LeadActivity list \<Rightarrow> bool" where
  "activities_ok = stored_ok la_ID LeadActivityIsValid id LeadActivity_columns"

definition categories_ok :: "lmsEnv \<Rightarrow> PostCategory list \<Rightarrow> bool" where
  "categories_ok = stored_ok pc_ID PostCategoryIsValid id id"

definition posts_ok :: "lmsEnv \<Rightarrow> BlogPost list \<Rightarrow> bool" where
  "posts_ok = stored_ok bp_ID BlogPostIsValid id id"

definition homeworks_ok :: "lmsEnv \<Rightarrow> Homework list \<Rightarrow> bool" where
  "homeworks_ok = stored_ok hw_ID HomeworkIsValid id Homework_columns"

definition submissions_ok :: "lmsEnv \<Rightarrow> Submission list \<Rightarrow> bool" where
  "submissions_ok = stored_ok su_ID SubmissionIsValid id id"

definition reviews_ok :: "lmsEnv \<Rightarrow> WeeklyReview list \<Rightarrow> bool" where
  "reviews_ok = stored_ok wr_ID WeeklyReviewIsValid id id"

definition tasks_ok :: "lmsEnv \<Rightarrow> Task list \<Rightarrow> bool" where
  "tasks_ok = stored_ok ta_ID TaskIsValid id Task_columns"

definition banners_ok :: "lmsEnv \<Rightarrow> Banner list \<Rightarrow> bool" where
  "banners_ok = stored_ok ba_ID BannerIsValid Banner_defaults id"

definition notifications_ok :: "lmsEnv \<Rightarrow> Notification list \<Rightarrow> bool" where
  "notifications_ok = stored_ok no_ID NotificationIsValid id id"

definition materials_ok :: "lmsEnv \<Rightarrow> Material list \<Rightarrow> bool" where
  "materials_ok = stored_ok ma_ID MaterialIsValid Material_defaults id"

definition media_ok :: "lmsEnv \<Rightarrow> ClassMedium list \<Rightarrow> bool" where
  "media_ok = stored_ok cm_ID ClassMediaIsValid id id"

definition packages_ok :: "lmsEnv \<Rightarrow> FeePackage list \<Rightarrow> bool" where
  "packages_ok = stored_ok fp_ID FeePackageIsValid FeePackage_defaults id"

definition tuitions_ok :: "lmsEnv \<Rightarrow> Tuition list \<Rightarrow> bool" where
  "tuitions_ok = stored_ok tu_ID TuitionIsValid Tuition_defaults Tuition_columns"

definition payments_ok :: "lmsEnv \<Rightarrow> Payment list \<Rightarrow> bool" where
  "payments_ok = stored_ok pa_ID PaymentIsValid id Payment_columns"

definition refunds_ok :: "lmsEnv \<Rightarrow> FeeRefund list \<Rightarrow> bool" where
  "refunds_ok = stored_ok fr_ID FeeRefundIsValid id FeeRefund_columns"

definition fees_ok :: "lmsEnv \<Rightarrow> AdditionalFee list \<Rightarrow> bool" where
  "fees_ok = stored_ok af_ID AdditionalFeeIsValid id id"

lemmas tables_ok_defs =
  branches_ok_def courses_ok_def classes_ok_def students_ok_def sessions_ok_def attendance_ok_def leads_ok_def activities_ok_def categories_ok_def posts_ok_def homeworks_ok_def submissions_ok_def reviews_ok_def tasks_ok_def banners_ok_def notifications_ok_def materials_ok_def media_ok_def packages_ok_def tuitions_ok_def payments_ok_def refunds_ok_def fees_ok_def

text \<open>The operations of the application layer keep the types.\<close>

named_theorems typed

lemma CreateBranch_typed [typed]: "branches_ok E t \<Longrightarrow> fresh_ids E \<Longrightarrow> branches_ok E (snd (CreateBranch E n r t))"
  by (simp add: branches_ok_def CreateBranch_def split_def Let_def branch_store.save_stored)

lemma DeleteBranch_typed [typed]: "branches_ok E t \<Longrightarrow> branches_ok E (snd (DeleteBranch E n i t))"
  by (simp add: branches_ok_def DeleteBranch_def split_def Let_def stored_ok_ent_delete BranchStore_Delete_def split: sum.split)

lemma CreateCourse_typed [typed]: "courses_ok E t \<Longrightarrow> fresh_ids E \<Longrightarrow> courses_ok E (snd (CreateCourse E n r t))"
  by (simp add: courses_ok_def CreateCourse_def split_def Let_def course_store.save_stored)

lemma UpdateCourse_typed [typed]: "courses_ok E t \<Longrightarrow> courses_ok E (snd (UpdateCourse E n i r t))"
  by (simp add: courses_ok_def UpdateCourse_def split_def Let_def course_store.update_stored)

lemma DeleteCourse_typed [typed]: "courses_ok E t \<Longrightarrow> courses_ok E (snd (DeleteCourse E n i t))"
  by (simp add: courses_ok_def DeleteCourse_def split_def Let_def course_store.delete_stored split: sum.split)

lemma CreateClass_typed [typed]: "classes_ok E t \<Longrightarrow> fresh_ids E \<Longrightarrow> classes_ok E (snd (CreateClass E n r t))"
  by (simp add: classes_ok_def CreateClass_def split_def Let_def class_store.save_stored)

lemma UpdateClass_typed [typed]: "classes_ok E t \<Longrightarrow> classes_ok E (snd (UpdateClass E n i r t))"
  by (simp add: classes_ok_def UpdateClass_def split_def Let_def class_store.update_stored)

lemma DeleteClass_typed [typed]: "classes_ok E t \<Longrightarrow> classes_ok E (snd (DeleteClass E n i t))"
  by (simp add: classes_ok_def DeleteClass_def split_def Let_def class_store.delete_stored split: sum.split)

lemma DeleteSession_typed [typed]: "sessions_ok E t \<Longrightarrow> sessions_ok E (snd (DeleteSession E n i t))"
  by (simp add: sessions_ok_def DeleteSession_def split_def Let_def lmsSession_store.delete_stored split: sum.split)

lemma CreateLead_typed [typed]: "leads_ok E t \<Longrightarrow> fresh_ids E \<Longrightarrow> leads_ok E (snd (CreateLead E n r t))"
  by (simp add: leads_ok_def CreateLead_def split_def Let_def lead_store.save_stored)

lemma UpdateLead_typed [typed]: "leads_ok E t \<Longrightarrow> leads_ok E (snd (UpdateLead E n i r t))"
  by (simp add: leads_ok_def UpdateLead_def split_def Let_def lead_store.update_stored)

lemma DeleteLead_typed [typed]: "leads_ok E t \<Longrightarrow> leads_ok E (snd (DeleteLead E n i t))"
  by (simp add: leads_ok_def DeleteLead_def split_def Let_def lead_store.delete_stored split: sum.split)

lemma CreateLeadActivity_typed [typed]: "activities_ok E t \<Longrightarrow> fresh_ids E \<Longrightarrow> activities_ok E (snd (CreateLeadActivity E n leadID a t))"
  by (simp add: activities_ok_def CreateLeadActivity_def split_def Let_def leadActivity_store.save_stored)

lemma CreatePostCategory_typed [typed]: "categories_ok E t \<Longrightarrow> fresh_ids E \<Longrightarrow> categories_ok E (snd (CreatePostCategory E n r t))"
  by (simp add: categories_ok_def CreatePostCategory_def split_def Let_def postCategory_store.save_stored)

lemma UpdatePostCategory_typed [typed]: "categories_ok E t \<Longrightarrow> categories_ok E (snd (UpdatePostCategory E n i r t))"
  by (simp add: categories_ok_def UpdatePostCategory_def split_def Let_def postCategory_store.update_stored)

lemma DeletePostCategory_typed [typed]: "categories_ok E t \<Longrightarrow> categories_ok E (snd (DeletePostCategory E n i t))"
  by (simp add: categories_ok_def DeletePostCategory_def split_def Let_def postCategory_store.delete_stored split: sum.split)

lemma CreatePost_typed [typed]: "posts_ok E t \<Longrightarrow> fresh_ids E \<Longrightarrow> posts_ok E (snd (CreatePost E n p t))"
  by (simp add: posts_ok_def CreatePost_def split_def Let_def blogPost_store.save_stored)

lemma UpdatePost_typed [typed]: "posts_ok E t \<Longrightarrow> posts_ok E (snd (UpdatePost E n i p0 t))"
  by (simp add: posts_ok_def UpdatePost_def split_def Let_def blogPost_store.update_stored)

lemma DeletePost_typed [typed]: "posts_ok E t \<Longrightarrow> posts_ok E (snd (DeletePost E n i t))"
  by (simp add: posts_ok_def DeletePost_def split_def Let_def blogPost_store.delete_stored split: sum.split)

lemma CreateHomework_typed [typed]: "homeworks_ok E t \<Longrightarrow> fresh_ids E \<Longrightarrow> homeworks_ok E (snd (CreateHomework E n r t))"
  by (simp add: homeworks_ok_def CreateHomework_def split_def Let_def homework_store.save_stored)

lemma UpdateHomework_typed [typed]: "homeworks_ok E t \<Longrightarrow> homeworks_ok E (snd (UpdateHomework E n i r t))"
  by (simp add: homeworks_ok_def UpdateHomework_def split_def Let_def homework_store.update_stored)

lemma DeleteHomework_typed [typed]: "homeworks_ok E t \<Longrightarrow> homeworks_ok E (snd (DeleteHomework E n i t))"
  by (simp add: homeworks_ok_def DeleteHomework_def split_def Let_def homework_store.delete_stored split: sum.split)

lemma CreateWeeklyReview_typed [typed]: "reviews_ok E t \<Longrightarrow> fresh_ids E \<Longrightarrow> reviews_ok E (snd (CreateWeeklyReview E n r t))"
  by (simp add: reviews_ok_def CreateWeeklyReview_def split_def Let_def weeklyReview_store.save_stored)

lemma UpdateWeeklyReview_typed [typed]: "reviews_ok E t \<Longrightarrow> reviews_ok E (snd (UpdateWeeklyReview E n i r t))"
  by (simp add: reviews_ok_def UpdateWeeklyReview_def split_def Let_def weeklyReview_store.update_stored)

lemma DeleteWeeklyReview_typed [typed]: "reviews_ok E t \<Longrightarrow> reviews_ok E (snd (DeleteWeeklyReview E n i t))"
  by (simp add: reviews_ok_def DeleteWeeklyReview_def split_def Let_def weeklyReview_store.delete_stored split: sum.split)

lemma CreateTask_typed [typed]: "tasks_ok E t \<Longrightarrow> fresh_ids E \<Longrightarrow> tasks_ok E (snd (CreateTask E n r t))"
  by (simp add: tasks_ok_def CreateTask_def split_def Let_def task_store.save_stored)

lemma UpdateTask_typed [typed]: "tasks_ok E t \<Longrightarrow> tasks_ok E (snd (UpdateTask E n i r t))"
  by (simp add: tasks_ok_def UpdateTask_def split_def Let_def task_store.update_stored)

lemma DeleteTask_typed [typed]: "tasks_ok E t \<Longrightarrow> tasks_ok E (snd (DeleteTask E n i t))"
  by (simp add: tasks_ok_def DeleteTask_def split_def Let_def task_store.delete_stored split: sum.split)

lemma CreateBanner_typed [typed]: "banners_ok E t \<Longrightarrow> fresh_ids E \<Longrightarrow> banners_ok E (snd (CreateBanner E n r t))"
  by (simp add: banners_ok_def CreateBanner_def split_def Let_def banner_store.save_stored)

lemma UpdateBanner_typed [typed]: "banners_ok E t \<Longrightarrow> banners_ok E (snd (UpdateBanner E n i r t))"
  by (simp add: banners_ok_def UpdateBanner_def split_def Let_def banner_store.update_stored)

lemma DeleteBanner_typed [typed]: "banners_ok E t \<Longrightarrow> banners_ok E (snd (DeleteBanner E n i t))"
  by (simp add: banners_ok_def DeleteBanner_def split_def Let_def banner_store.delete_stored split: sum.split)

lemma CreateMaterial_typed [typed]: "materials_ok E t \<Longrightarrow> fresh_ids E \<Longrightarrow> materials_ok E (snd (CreateMaterial E n r t))"
  by (simp add: materials_ok_def CreateMaterial_def split_def Let_def material_store.save_stored)

lemma UpdateMaterial_typed [typed]: "materials_ok E t \<Longrightarrow> materials_ok E (snd (UpdateMaterial E n i r t))"
  by (simp add: materials_ok_def UpdateMaterial_def split_def Let_def material_store.update_stored)

lemma DeleteMaterial_typed [typed]: "materials_ok E t \<Longrightarrow> materials_ok E (snd (DeleteMaterial E n i t))"
  by (simp add: materials_ok_def DeleteMaterial_def split_def Let_def material_store.delete_stored split: sum.split)

lemma CreateClassMedia_typed [typed]: "media_ok E t \<Longrightarrow> fresh_ids E \<Longrightarrow> media_ok E (snd (CreateClassMedia E n cm t))"
  by (simp add: media_ok_def CreateClassMedia_def split_def Let_def classMedium_store.save_stored)

lemma DeleteClassMedia_typed [typed]: "media_ok E t \<Longrightarrow> media_ok E (snd (DeleteClassMedia E n i t))"
  by (simp add: media_ok_def DeleteClassMedia_def split_def Let_def stored_ok_ent_delete ClassMediumStore_Delete_def split: sum.split)

lemma public_typed [typed]:
  "leads_ok E t \<Longrightarrow> fresh_ids E \<Longrightarrow> leads_ok E (snd (PublicRegister E n l t))"
  "leads_ok E t \<Longrightarrow> fresh_ids E \<Longrightarrow> leads_ok E (snd (SubmitContact E n a b c d t))"
  by (simp_all add: leads_ok_def PublicRegister_def SubmitContact_def split_def Let_def lead_store.save_stored)

lemma NotificationIsValid_read: "NotificationIsValid U (x\<lparr>no_IsRead := b\<rparr>) = NotificationIsValid U x"
  by (simp add: NotificationIsValid_def)

lemma MarkNotificationAsRead_typed [typed]:
  assumes "notifications_ok E t"
  shows "notifications_ok E (snd (MarkNotificationAsRead E n i t))"
proof -
  let ?t = "map (\<lambda>r. if no_ID r = i then r\<lparr>no_IsRead := True\<rparr> else r) t"
  have k: "map no_ID ?t = map no_ID t" by simp
  then have "table_ok no_ID E ?t"
    using assms by (auto simp: notifications_ok_def stored_ok_def table_ok_def simp del: map_map)
  moreover have "\<exists>x. NotificationIsValid (lv_letter E) x = None \<and> r = x" if "r \<in> set ?t" for r
    using that assms NotificationIsValid_read by (fastforce simp: notifications_ok_def stored_ok_def split: if_splits)
  ultimately have "notifications_ok E ?t" by (simp add: notifications_ok_def stored_ok_def)
  then show ?thesis using assms
    by (simp add: MarkNotificationAsRead_def NotificationStore_MarkAsRead_def sql_update_def split_def Let_def split: option.split)
qed

section \<open>Enrolment, lessons, attendance, homework\<close>

lemma StudentClass_delete_typed: "students_ok E t \<Longrightarrow> students_ok E (snd (StudentClassStore_Delete E n i t))"
  by (simp add: students_ok_def StudentClassStore_Delete_def stored_ok_ent_delete)

lemma StudentClass_save_typed: "students_ok E t \<Longrightarrow> fresh_ids E \<Longrightarrow> students_ok E (snd (StudentClassStore_Save E n r t))"
  unfolding students_ok_def by (rule studentClass_store.save_stored)

lemma EnrollStudents_typed [typed]:
  assumes "fresh_ids E"
  shows "students_ok E t \<Longrightarrow> students_ok E (snd (EnrollStudents E n c ids t))"
proof (induction ids arbitrary: n t)
  case (Cons i ids)
  note s = StudentClass_save_typed[OF Cons(2) assms, of "n + 1" "newEnrolment c i []"]
  show ?case using Cons s by (auto split: sum.split option.split prod.split)
qed simp

lemma UnenrollStudent_typed [typed]:
  assumes "students_ok E t"
  shows "students_ok E (snd (UnenrollStudent E n c i t))"
proof -
  have "students_ok E t1" if "StudentClassStore_Delete E m k t = (x, t1)" for m k x t1
    using StudentClass_delete_typed[OF assms, of m k] that by simp
  then show ?thesis using assms by (auto simp: UnenrollStudent_def split: sum.split option.split prod.split)
qed

lemma deleteEnrolments_typed [typed]: "students_ok E t \<Longrightarrow> students_ok E (snd (deleteEnrolments E n l t))"
proof (induction E n l t rule: deleteEnrolments.induct)
  case (2 E n sc rest scs)
  have "students_ok E (snd (StudentClassStore_Delete E n (sc_ID sc) scs))"
    using 2(2) by (rule StudentClass_delete_typed)
  then show ?case using 2 by (auto split: option.split prod.split)
qed simp

lemma saveRecords_typed:
  assumes "fresh_ids E"
  shows "attendance_ok E t \<Longrightarrow> attendance_ok E (snd (saveRecords E n i rs t))"
proof (induction rs arbitrary: n t)
  case (Cons r rs)
  have "attendance_ok E (snd (AttendanceStore_Save E n (r\<lparr>at_SessionID := i\<rparr>) t))"
    using Cons(2) assms unfolding attendance_ok_def by (intro attendance_store.save_stored)
  then show ?case using Cons(1) by (auto split: sum.split prod.split)
qed simp

lemma SaveAttendance_typed [typed]:
  assumes "attendance_ok E t" "fresh_ids E"
  shows "attendance_ok E (snd (SaveAttendance E n i rs t))"
proof -
  have "attendance_ok E (snd (AttendanceStore_DeleteBySession E n i t))"
    using assms(1) stored_ok_deleteAll by (simp add: attendance_ok_def AttendanceStore_DeleteBySession_def)
  then show ?thesis using saveRecords_typed[OF assms(2)] by (auto simp: SaveAttendance_def split: option.split prod.split)
qed

lemma bulkAssign_typed [typed]:
  assumes "fresh_ids E"
  shows "homeworks_ok E t \<Longrightarrow> homeworks_ok E (snd (bulkAssign E n hw ids made t))"
proof (induction ids arbitrary: n made t)
  case (Cons i ids)
  have "homeworks_ok E (snd (HomeworkStore_Save E n (hw\<lparr>hw_ID := [], hw_Createat := 0, hw_Updateat := 0\<rparr>) t))"
    using Cons(2) assms unfolding homeworks_ok_def by (intro homework_store.save_stored)
  then show ?case using Cons(1) by (auto split: sum.split prod.split)
qed simp

lemma Upsert_typed [typed]:
  "submissions_ok E t \<Longrightarrow> fresh_ids E \<Longrightarrow> submissions_ok E (snd (UpsertHomeworkSubmission E n h st x t))"
  by (simp add: submissions_ok_def UpsertHomeworkSubmission_def Let_def split_def submission_store.save_stored
      submission_store.update_stored split: sum.split)

lemma saveOccurrences_typed:
  assumes "fresh_ids E"
  shows "sessions_ok E t \<Longrightarrow> sessions_ok E (snd (saveOccurrences E n l t))"
proof (induction l arbitrary: n t)
  case (Cons r l)
  have "sessions_ok E (snd (LMSSessionStore_Save E n r t))"
    using Cons(2) assms unfolding sessions_ok_def by (intro lmsSession_store.save_stored)
  then show ?case using Cons(1) by (auto split: sum.split prod.split)
qed simp

lemma CreateSessions_typed [typed]:
  "sessions_ok E t \<Longrightarrow> fresh_ids E \<Longrightarrow> sessions_ok E (snd (CreateSessionsWithRepeat E n users classes so rep force t))"
  using saveOccurrences_typed[of E t "n + 27"]
  by (auto simp: CreateSessionsWithRepeat_def split: option.split sum.split prod.split)

lemma UpdateSession_typed [typed]:
  assumes "sessions_ok E t"
  shows "sessions_ok E (snd (UpdateSession E n users classes i so force t))"
proof -
  have "sessions_ok E (snd (LMSSessionStore_Update E m r t))" for m r
    using assms unfolding sessions_ok_def by (rule lmsSession_store.update_stored)
  with assms show ?thesis by (simp add: UpdateSession_def Let_def split_def split: option.split sum.split)
qed

section \<open>Money\<close>

definition finance_ok :: "lmsEnv \<Rightarrow> finance \<Rightarrow> bool" where
  "finance_ok E f \<longleftrightarrow> packages_ok E (fi_packages f) \<and> tuitions_ok E (fi_tuitions f) \<and> payments_ok E (fi_payments f)
     \<and> refunds_ok E (fi_refunds f) \<and> fees_ok E (fi_fees f)"

lemma tuition_typed:
  "tuitions_ok E t \<Longrightarrow> fresh_ids E \<Longrightarrow> tuitions_ok E (snd (TuitionStore_Save E n r t))"
  "tuitions_ok E t \<Longrightarrow> tuitions_ok E (snd (TuitionStore_Update E n r t))"
  "tuitions_ok E t \<Longrightarrow> tuitions_ok E (snd (TuitionStore_Delete E n i t))"
  unfolding tuitions_ok_def by (rule tuition_store.save_stored tuition_store.update_stored tuition_store.delete_stored, assumption+)+

lemma Create_finance_typed [typed]:
  "finance_ok E f \<Longrightarrow> fresh_ids E \<Longrightarrow> finance_ok E (snd (CreateTuition E n r f))"
  "finance_ok E f \<Longrightarrow> finance_ok E (snd (UpdateTuition E n i r f))"
  "finance_ok E f \<Longrightarrow> fresh_ids E \<Longrightarrow> finance_ok E (snd (CreateFeePackage E n p f))"
  by (simp_all add: finance_ok_def CreateTuition_def UpdateTuition_def CreateFeePackage_def split_def Let_def tuition_typed
      packages_ok_def feePackage_store.save_stored)

lemma DeleteTuition_typed [typed]: "finance_ok E f \<Longrightarrow> finance_ok E (snd (DeleteTuition E n i f))"
  by (simp add: finance_ok_def DeleteTuition_def cascadeTuitions_def split_def Let_def tuition_typed)
    (simp add: payments_ok_def refunds_ok_def fees_ok_def stored_ok_filter)

lemma updateTuitionAfterPayment_typed: "finance_ok E f \<Longrightarrow> finance_ok E (snd (updateTuitionAfterPayment E n i f))"
  using tuition_typed(2)[of E "fi_tuitions f" "n + 2"]
  by (auto simp: updateTuitionAfterPayment_def finance_ok_def split: sum.split prod.split) (metis snd_conv)+

lemma CreatePayment_typed [typed]:
  assumes "finance_ok E f" "fresh_ids E"
  shows "finance_ok E (snd (CreatePayment E n p f))"
proof -
  have "payments_ok E (snd (PaymentStore_Save E n p (fi_payments f)))"
    using assms unfolding finance_ok_def payments_ok_def by (intro payment_store.save_stored) auto
  then have "finance_ok E (f\<lparr>fi_payments := ps\<rparr>)" if "PaymentStore_Save E n p (fi_payments f) = (x, ps)" for x ps
    using that assms(1) by (simp add: finance_ok_def)
  with updateTuitionAfterPayment_typed show ?thesis
    by (auto simp: CreatePayment_def split: sum.split prod.split option.split) (metis snd_conv)+
qed

section \<open>Channels of classes\<close>

lemma writeLink_typed: "classes_ok E t \<Longrightarrow> classes_ok E (snd (writeLink E n cls t))"
  using UpdateClass_typed[of E t n "kl_ID cls" cls] by (auto simp: writeLink_def split: sum.split prod.split)

lemma EnsureClassChannel_typed:
  assumes "classes_ok E t"
  shows "classes_ok E (snd (snd (snd (EnsureClassChannel A U E n cls w t))))"
  using assms writeLink_typed[OF assms, of n]
  by (auto simp: EnsureClassChannel_def Let_def split_def split: option.split sum.split prod.split)

lemma Sync_typed [typed]:
  assumes "classes_ok E t"
  shows "classes_ok E (snd (snd (snd (SyncClassChannelMembership A U E n cls ids w t))))"
  using EnsureClassChannel_typed[OF assms, of A U n cls w]
  by (auto simp: SyncClassChannelMembership_def split: sum.split prod.split)

lemma Close_typed [typed]: "classes_ok E t \<Longrightarrow> classes_ok E (snd (snd (CloseClassChannel A E n cls w t)))"
  by (auto simp: CloseClassChannel_def clearChannelLink_def writeLink_typed split: sum.split prod.split option.split)

section \<open>Accounts\<close>

definition users_ok :: "User list \<Rightarrow> bool" where
  "users_ok t \<longleftrightarrow> distinct (map us_Id t) \<and> distinct (map us_Username t) \<and> distinct (map us_Email t)"

lemma distinct_replace:
  assumes "distinct (map k t)" and "distinct (map f t)" and "f w \<notin> set (map f (filter (\<lambda>r. k r \<noteq> i) t))"
  shows "distinct (map f (map (\<lambda>r. if k r = i then w else r) t))"
  using assms
proof (induction t)
  case (Cons a t)
  have ne: "k x \<noteq> k a" if "x \<in> set t" for x using Cons(2) that by (metis distinct.simps(2) image_eqI list.set_map list.simps(9))
  have same: "map (\<lambda>r. if k r = i then w else r) t = t" if "k a = i"
    using ne that by (simp cong: map_cong)
  have "f a \<noteq> f w" if "k a \<noteq> i" using Cons(4) that by auto
  moreover have "f ` set (map (\<lambda>r. if k r = i then w else r) t) \<subseteq> f ` set t \<union> {f w}" by auto
  ultimately have "f a \<notin> f ` set (map (\<lambda>r. if k r = i then w else r) t)" if "k a \<noteq> i" using Cons(3) that by auto
  moreover have "filter (\<lambda>r. k r \<noteq> i) t = t" if "k a = i" using ne that by (simp add: filter_id_conv)
  ultimately show ?case using Cons same by (cases "k a = i") auto
qed simp

lemma UserStore_Save_ok:
  assumes "users_ok t" "UserStore_Save U E n u t = (e, u1, t1)"
  shows "users_ok t1"
proof (cases rule: UserStore_Save_cases[of U E n u t])
  case (refused e' u')
  with assms show ?thesis by simp
next
  case (saved u')
  then have "t1 = t @ [insertedRow u']" using assms(2) by simp
  moreover have "us_Id (insertedRow u') = us_Id u'" "us_Username (insertedRow u') = us_Username u'" "us_Email (insertedRow u') = us_Email u'"
    by (simp_all add: insertedRow_def)
  ultimately show ?thesis using assms(1) saved(4-6) by (simp add: users_ok_def taken_def)
qed

lemma UserStore_Update_table:
  obtains (same) e where "UserStore_Update U E n u tr t = (Inl e, t)"
  | (written) w old where "UserStore_Update U E n u tr t = (Inr (Sanitize w), map (\<lambda>r. if us_Id r = us_Id u then w else r) t)"
      "find (\<lambda>r. us_Id r = us_Id u) t = Some old" "merged tr old (User_PreUpdate U E n u) = Inr w"
      "\<not> taken us_Username (us_Username w) (filter (\<lambda>r. us_Id r \<noteq> us_Id u) t)"
      "\<not> taken us_Email (us_Email w) (filter (\<lambda>r. us_Id r \<noteq> us_Id u) t)"
proof -
  let ?u = "User_PreUpdate U E n u"
  note defs = UserStore_Update_def Let_def sql_one_def PreUpdate_same sql_update_def
  show ?thesis
  proof (cases "find (\<lambda>r. us_Id r = us_Id u) t")
    case None
    then have "\<exists>e. UserStore_Update U E n u tr t = (Inl e, t)" by (simp add: defs split: option.split)
    then show ?thesis using same by blast
  next
    case old: (Some old)
    show ?thesis
    proof (cases "merged tr old ?u")
      case (Inl e)
      with old have "\<exists>e. UserStore_Update U E n u tr t = (Inl e, t)" by (simp add: defs split: option.split)
      then show ?thesis using same by blast
    next
      case w: (Inr w)
      with old have "(\<exists>e. UserStore_Update U E n u tr t = (Inl e, t))
        \<or> UserStore_Update U E n u tr t = (Inr (Sanitize w), map (\<lambda>r. if us_Id r = us_Id u then w else r) t)
          \<and> \<not> taken us_Username (us_Username w) (filter (\<lambda>r. us_Id r \<noteq> us_Id u) t)
          \<and> \<not> taken us_Email (us_Email w) (filter (\<lambda>r. us_Id r \<noteq> us_Id u) t)"
        by (simp add: defs split: option.split)
      then show ?thesis using same written[OF _ old w] by blast
    qed
  qed
qed

lemma UserStore_Update_ok:
  assumes "users_ok t"
  shows "users_ok (snd (UserStore_Update U E n u tr t))"
proof (cases rule: UserStore_Update_table[of U E n u tr t])
  case (same e)
  with assms show ?thesis by simp
next
  case (written w old)
  have old: "us_Id old = us_Id (User_PreUpdate U E n u)" using written(2) by (auto simp: find_Some_iff PreUpdate_same)
  have "us_Id w = us_Id u" using merged_keeps[OF written(3) old] old by (simp add: credentials_def PreUpdate_same)
  then have "us_Id w \<notin> set (map us_Id (filter (\<lambda>r. us_Id r \<noteq> us_Id u) t))" by auto
  with written(4,5) assms show ?thesis unfolding written(1) users_ok_def taken_def snd_conv by (intro conjI distinct_replace) auto
qed

lemma edits_users_ok [typed]:
  assumes "users_ok t"
  shows "users_ok (snd (UpdateStudent U E n uo props t))" "users_ok (snd (UpdateUser U E n u t))"
    "users_ok (snd (ConvertUserToStudent U E n i t))" "users_ok (snd (RevertStudentToUser U E n i t))"
    "users_ok (snd (DeactivateUser U E n i t))" "users_ok (snd (ReactivateUser U E n i t))"
    "users_ok (snd (SendPasswordReset U E n rnd email t))" "users_ok (snd (ResetPassword U E n token pw t))"
  using assms
  by (simp_all add: UpdateStudent_def UpdateUser_def ConvertUserToStudent_def RevertStudentToUser_def DeactivateUser_def ReactivateUser_def
      editUser_def SendPasswordReset_def ResetPassword_def case_prod_beta Let_def UserStore_Update_ok split: sum.split option.split user_error.split)

lemma PermanentDelete_ok: "users_ok t \<Longrightarrow> users_ok (snd (UserStore_PermanentDelete E n i t))"
  by (simp add: UserStore_PermanentDelete_def users_ok_def sql_delete_def comp_def if_distrib[of us_Id] if_distrib[of us_Username]
      if_distrib[of us_Email] distinct_map_filter cong: if_cong)

lemma delete_users_ok [typed]:
  "users_ok t \<Longrightarrow> users_ok (snd (DeleteUser E n i t))"
  "users_ok t \<Longrightarrow> users_ok (snd (snd (DeleteStudent E n i scs t)))"
  using PermanentDelete_ok[of t E "n + 1" i] PermanentDelete_ok[of t E "n + 2" i]
  by (auto simp: DeleteUser_def DeleteStudent_def split: sum.split option.split prod.split)

lemma DeleteStudent_students [typed]: "students_ok E scs \<Longrightarrow> students_ok E (fst (snd (DeleteStudent E n i scs t)))"
  using deleteEnrolments_typed[of E scs "n + 3"]
  by (auto simp: DeleteStudent_def split: sum.split option.split prod.split) (metis snd_conv stored_ok_filter students_ok_def)+

lemma saveRetry_ok:
  assumes "attempt \<le> 20" "users_ok t" "saveRetry U E n base attempt err user t = Some (r, t1, n1)"
  shows "users_ok t1"
  using assms
proof (induction "20 - attempt" arbitrary: attempt n err user t)
  case 0
  then show ?case by (subst (asm) saveRetry.simps) (auto simp: maxUsernameAttempts_def split: option.splits)
next
  case (Suc k)
  show ?case
  proof (cases "err = None \<or> err \<noteq> Some (UErrInvalidInput ''username'') \<or> base = []")
    case True
    then show ?thesis using Suc.prems by (subst (asm) saveRetry.simps) (cases err; auto split: if_splits)
  next
    case False
    have a: "attempt < 20" "k = 20 - (attempt + 1)" "attempt + 1 \<le> 20" using Suc.hyps(2) by auto
    let ?u = "user\<lparr>us_Id := [], us_Username := base @ decStr attempt\<rparr>"
    obtain e u1 t' where s: "UserStore_Save U E n ?u t = (e, u1, t')" by (rule prod_cases3)
    have step: "saveRetry U E n base attempt err user t = saveRetry U E (n + 2) base (attempt + 1) e u1 t'"
      using False a(1) s by (subst saveRetry.simps) (auto simp: maxUsernameAttempts_def)
    show ?thesis using Suc.hyps(1)[OF a(2,3) UserStore_Save_ok[OF Suc.prems(2) s]] Suc.prems(3) step by simp
  qed
qed

lemma CreateStudent_users_ok [typed]:
  assumes "users_ok t" "CreateStudent U E n uo props t = Some (r, t1, n1)"
  shows "users_ok t1"
proof -
  have save: "users_ok t2" if "saveStudentWithUniqueUsername U E n u t = Some (r', t2, n2)" for u r' t2 n2
  proof -
    obtain e u1 t' where s: "UserStore_Save U E n u t = (e, u1, t')" by (rule prod_cases3)
    have "saveRetry U E (n + 2) (us_Username u) 1 e u1 t' = Some (r', t2, n2)"
      using that s by (simp add: saveStudentWithUniqueUsername_def)
    then show ?thesis by (intro saveRetry_ok[OF _ UserStore_Save_ok[OF assms(1) s]]) simp_all
  qed
  show ?thesis using assms save by (auto simp: CreateStudent_def Let_def split: option.splits if_splits)
qed

lemma ConvertLead_ok [typed]:
  "leads_ok E leads \<Longrightarrow> leads_ok E (fst (snd (ConvertLeadToStudent U E n i leads t)))"
  "users_ok t \<Longrightarrow> users_ok (snd (snd (ConvertLeadToStudent U E n i leads t)))"
proof -
  show "leads_ok E (fst (snd (ConvertLeadToStudent U E n i leads t)))" if "leads_ok E leads"
  proof -
    have "leads_ok E (snd (LeadStore_Update E (n + 4) r leads))" for r
      using that unfolding leads_ok_def by (rule lead_store.update_stored)
    then show ?thesis using that
      by (auto simp: ConvertLeadToStudent_def split: sum.split option.split prod.split) (metis snd_conv)+
  qed
  show "users_ok (snd (snd (ConvertLeadToStudent U E n i leads t)))" if "users_ok t"
    using UserStore_Save_ok[OF that, of U E "n + 2"] that
    by (auto simp: ConvertLeadToStudent_def split: sum.split option.split prod.split)
qed

end
