(* ===== verification/Lms_Routes.thy ===== *)
theory Lms_Routes
  imports Lms_Api Lms_Typed
begin

text \<open>
  The state-changing requests of the LMS as data and the server as one function of them: \<open>serve\<close> is the table of routes
  (the \<^verbatim>\<open>Init\<close> functions of \<^verbatim>\<open>lms_api\<close>) with the answers stripped of their bodies. Then what holds for all of them: who is
  refused, what the tables look like after any run, who can touch money, and what an edit of a student may change.
  Between two requests the database may carry out the actions of its foreign keys: rows disappear or lose an
  optional reference.
\<close>

section \<open>Requests\<close>

datatype contentRequest =
    RqCreateBanner "Banner body"
  | RqUpdateBanner "string" "Banner option body"
  | RqDeleteBanner "string"
  | RqCreateBranch "Branch option body"
  | RqCreateClassMedia "ClassMedium option body"
  | RqDeleteClassMedia "string"
  | RqCreateCourse "Course option body"
  | RqUpdateCourse "string" "Course option body"
  | RqDeleteCourse "string"
  | RqCreateMaterial "Material option body"
  | RqUpdateMaterial "string" "Material option body"
  | RqDeleteMaterial "string"
  | RqMarkNotificationAsRead "string"
  | RqCreatePostCategory "PostCategory option body"
  | RqUpdatePostCategory "string" "PostCategory option body"
  | RqDeletePostCategory "string"
  | RqCreatePost "BlogPost option body"
  | RqUpdatePost "string" "BlogPost option body"
  | RqDeletePost "string"
  | RqCreateTask "Task option body"
  | RqUpdateTask "string" "Task option body"
  | RqDeleteTask "string"
  | RqCreateWeeklyReview "WeeklyReview option body"
  | RqUpdateWeeklyReview "string" "WeeklyReview option body"
  | RqDeleteWeeklyReview "string"

datatype teachingRequest =
    RqCreateHomework "Homework option body"
  | RqUpdateHomework "string" "Homework option body"
  | RqDeleteHomework "string"
  | RqDeleteSession "string"
  | RqCreateClass "Class option body"
  | RqUpdateClass "string" "Class option body"
  | RqDeleteClass "string"
  | RqEnrollStudents "string" "string list body"
  | RqUnenrollStudent "string" "string"
  | RqCreateSession "(LMSSession option \<times> string \<times> bool) body"
  | RqUpdateSession "string" "(LMSSession option \<times> bool) body"
  | RqSaveAttendance "string" "Attendance option list body"
  | RqUpsertHomeworkSubmission "string" "Submission option body"
  | RqBulkAssignHomework "(Homework option \<times> string list) body"

datatype businessRequest =
    RqCreateFeePackage "FeePackage option body"
  | RqCreateLead "Lead option body"
  | RqUpdateLead "string" "Lead option body"
  | RqDeleteLead "string"
  | RqCreateTuition "Tuition option body"
  | RqUpdateTuition "string" "Tuition option body"
  | RqDeleteTuition "string"
  | RqCreateLeadActivity "string" "LeadActivity option body"
  | RqConvertLead "string"
  | RqCreateTuitionPayment "string" "Payment option body"

datatype accountRequest =
    RqConvertUserToStudent "string"
  | RqRevertStudentToUser "string"
  | RqDeleteUser "string"
  | RqDeactivateUser "string"
  | RqReactivateUser "string"
  | RqCreateStudent "(User option \<times> string gomap option) body"
  | RqUpdateStudent "string" "(User option \<times> string gomap option) body"
  | RqDeleteStudent "string"
  | RqUpdateUser "string" "User option body"

datatype publicRequest =
    RqPublicRegister "Lead body"
  | RqPublicContact "(string \<times> string \<times> string \<times> string) body"
  | RqForgotPassword "string body"
  | RqResetPassword "(string \<times> string) body"

datatype lmsRequest = Content contentRequest | Teaching teachingRequest | Business businessRequest | Account accountRequest | Public publicRequest

definition void :: "'a response \<times> 's \<Rightarrow> unit response \<times> 's" where
  "void r = (map_response (\<lambda>_. ()) (fst r), snd r)"

primrec serveContent :: "'w lmsServer \<Rightarrow> nat \<Rightarrow> Session \<Rightarrow> contentRequest \<Rightarrow> 'w lms \<Rightarrow> unit response \<times> 'w lms" where
  "serveContent S n se (RqCreateBanner b) s = void (createBanner S n se b s)"
| "serveContent S n se (RqUpdateBanner i b) s = void (updateBanner S n se i b s)"
| "serveContent S n se (RqDeleteBanner i) s = void (deleteBanner S n se i s)"
| "serveContent S n se (RqCreateBranch b) s = void (createBranch S n se b s)"
| "serveContent S n se (RqCreateClassMedia b) s = void (createClassMedia S n se b s)"
| "serveContent S n se (RqDeleteClassMedia i) s = void (deleteClassMedia S n se i s)"
| "serveContent S n se (RqCreateCourse b) s = void (createCourse S n se b s)"
| "serveContent S n se (RqUpdateCourse i b) s = void (updateCourse S n se i b s)"
| "serveContent S n se (RqDeleteCourse i) s = void (deleteCourse S n se i s)"
| "serveContent S n se (RqCreateMaterial b) s = void (createMaterial S n se b s)"
| "serveContent S n se (RqUpdateMaterial i b) s = void (updateMaterial S n se i b s)"
| "serveContent S n se (RqDeleteMaterial i) s = void (deleteMaterial S n se i s)"
| "serveContent S n se (RqMarkNotificationAsRead i) s = void (markNotificationAsRead S n se i s)"
| "serveContent S n se (RqCreatePostCategory b) s = void (createPostCategory S n se b s)"
| "serveContent S n se (RqUpdatePostCategory i b) s = void (updatePostCategory S n se i b s)"
| "serveContent S n se (RqDeletePostCategory i) s = void (deletePostCategory S n se i s)"
| "serveContent S n se (RqCreatePost b) s = void (createPost S n se b s)"
| "serveContent S n se (RqUpdatePost i b) s = void (updatePost S n se i b s)"
| "serveContent S n se (RqDeletePost i) s = void (deletePost S n se i s)"
| "serveContent S n se (RqCreateTask b) s = void (createTask S n se b s)"
| "serveContent S n se (RqUpdateTask i b) s = void (updateTask S n se i b s)"
| "serveContent S n se (RqDeleteTask i) s = void (deleteTask S n se i s)"
| "serveContent S n se (RqCreateWeeklyReview b) s = void (createWeeklyReview S n se b s)"
| "serveContent S n se (RqUpdateWeeklyReview i b) s = void (updateWeeklyReview S n se i b s)"
| "serveContent S n se (RqDeleteWeeklyReview i) s = void (deleteWeeklyReview S n se i s)"

primrec contentPermission :: "contentRequest \<Rightarrow> string" where
  "contentPermission (RqCreateBanner b) = PermissionLmsManageBanners"
| "contentPermission (RqUpdateBanner i b) = PermissionLmsManageBanners"
| "contentPermission (RqDeleteBanner i) = PermissionLmsManageBanners"
| "contentPermission (RqCreateBranch b) = PermissionLmsManageBranches"
| "contentPermission (RqCreateClassMedia b) = PermissionLmsManageClassMedia"
| "contentPermission (RqDeleteClassMedia i) = PermissionLmsManageClassMedia"
| "contentPermission (RqCreateCourse b) = PermissionLmsManageCourses"
| "contentPermission (RqUpdateCourse i b) = PermissionLmsManageCourses"
| "contentPermission (RqDeleteCourse i) = PermissionLmsManageCourses"
| "contentPermission (RqCreateMaterial b) = PermissionLmsManageMaterials"
| "contentPermission (RqUpdateMaterial i b) = PermissionLmsManageMaterials"
| "contentPermission (RqDeleteMaterial i) = PermissionLmsManageMaterials"
| "contentPermission (RqMarkNotificationAsRead i) = PermissionLmsViewNotifications"
| "contentPermission (RqCreatePostCategory b) = PermissionLmsManagePosts"
| "contentPermission (RqUpdatePostCategory i b) = PermissionLmsManagePosts"
| "contentPermission (RqDeletePostCategory i) = PermissionLmsManagePosts"
| "contentPermission (RqCreatePost b) = PermissionLmsManagePosts"
| "contentPermission (RqUpdatePost i b) = PermissionLmsManagePosts"
| "contentPermission (RqDeletePost i) = PermissionLmsManagePosts"
| "contentPermission (RqCreateTask b) = PermissionLmsManageTasks"
| "contentPermission (RqUpdateTask i b) = PermissionLmsManageTasks"
| "contentPermission (RqDeleteTask i) = PermissionLmsManageTasks"
| "contentPermission (RqCreateWeeklyReview b) = PermissionLmsManageWeeklyReviews"
| "contentPermission (RqUpdateWeeklyReview i b) = PermissionLmsManageWeeklyReviews"
| "contentPermission (RqDeleteWeeklyReview i) = PermissionLmsManageWeeklyReviews"

primrec serveTeaching :: "'w lmsServer \<Rightarrow> nat \<Rightarrow> Session \<Rightarrow> teachingRequest \<Rightarrow> 'w lms \<Rightarrow> unit response \<times> 'w lms" where
  "serveTeaching S n se (RqCreateHomework b) s = void (createHomework S n se b s)"
| "serveTeaching S n se (RqUpdateHomework i b) s = void (updateHomework S n se i b s)"
| "serveTeaching S n se (RqDeleteHomework i) s = void (deleteHomework S n se i s)"
| "serveTeaching S n se (RqDeleteSession i) s = void (deleteSession S n se i s)"
| "serveTeaching S n se (RqCreateClass b) s = void (createClass S n se b s)"
| "serveTeaching S n se (RqUpdateClass i b) s = void (updateClass S n se i b s)"
| "serveTeaching S n se (RqDeleteClass i) s = void (deleteClass S n se i s)"
| "serveTeaching S n se (RqEnrollStudents i b) s = void (enrollStudents S n se i b s)"
| "serveTeaching S n se (RqUnenrollStudent i j) s = void (unenrollStudent S n se i j s)"
| "serveTeaching S n se (RqCreateSession b) s = void (createSession S n se b s)"
| "serveTeaching S n se (RqUpdateSession i b) s = void (updateSession S n se i b s)"
| "serveTeaching S n se (RqSaveAttendance i b) s = void (saveAttendance S n se i b s)"
| "serveTeaching S n se (RqUpsertHomeworkSubmission i b) s = void (upsertHomeworkSubmission S n se i b s)"
| "serveTeaching S n se (RqBulkAssignHomework b) s = void (bulkAssignHomework S n se b s)"

primrec teachingPermission :: "teachingRequest \<Rightarrow> string" where
  "teachingPermission (RqCreateHomework b) = PermissionLmsManageHomework"
| "teachingPermission (RqUpdateHomework i b) = PermissionLmsManageHomework"
| "teachingPermission (RqDeleteHomework i) = PermissionLmsManageHomework"
| "teachingPermission (RqDeleteSession i) = PermissionLmsManageSessions"
| "teachingPermission (RqCreateClass b) = PermissionLmsManageClasses"
| "teachingPermission (RqUpdateClass i b) = PermissionLmsManageClasses"
| "teachingPermission (RqDeleteClass i) = PermissionLmsManageClasses"
| "teachingPermission (RqEnrollStudents i b) = PermissionLmsManageClasses"
| "teachingPermission (RqUnenrollStudent i j) = PermissionLmsManageClasses"
| "teachingPermission (RqCreateSession b) = PermissionLmsManageSessions"
| "teachingPermission (RqUpdateSession i b) = PermissionLmsManageSessions"
| "teachingPermission (RqSaveAttendance i b) = PermissionLmsManageAttendance"
| "teachingPermission (RqUpsertHomeworkSubmission i b) = PermissionLmsManageHomework"
| "teachingPermission (RqBulkAssignHomework b) = PermissionLmsManageHomework"

primrec serveBusiness :: "'w lmsServer \<Rightarrow> nat \<Rightarrow> Session \<Rightarrow> businessRequest \<Rightarrow> 'w lms \<Rightarrow> unit response \<times> 'w lms" where
  "serveBusiness S n se (RqCreateFeePackage b) s = void (createFeePackage S n se b s)"
| "serveBusiness S n se (RqCreateLead b) s = void (createLead S n se b s)"
| "serveBusiness S n se (RqUpdateLead i b) s = void (updateLead S n se i b s)"
| "serveBusiness S n se (RqDeleteLead i) s = void (deleteLead S n se i s)"
| "serveBusiness S n se (RqCreateTuition b) s = void (createTuition S n se b s)"
| "serveBusiness S n se (RqUpdateTuition i b) s = void (updateTuition S n se i b s)"
| "serveBusiness S n se (RqDeleteTuition i) s = void (deleteTuition S n se i s)"
| "serveBusiness S n se (RqCreateLeadActivity i b) s = void (createLeadActivity S n se i b s)"
| "serveBusiness S n se (RqConvertLead i) s = void (convertLead S n se i s)"
| "serveBusiness S n se (RqCreateTuitionPayment i b) s = void (createTuitionPayment S n se i b s)"

primrec businessPermission :: "businessRequest \<Rightarrow> string" where
  "businessPermission (RqCreateFeePackage b) = PermissionLmsManageFeePackages"
| "businessPermission (RqCreateLead b) = PermissionLmsManageLeads"
| "businessPermission (RqUpdateLead i b) = PermissionLmsManageLeads"
| "businessPermission (RqDeleteLead i) = PermissionLmsManageLeads"
| "businessPermission (RqCreateTuition b) = PermissionLmsManageTuition"
| "businessPermission (RqUpdateTuition i b) = PermissionLmsManageTuition"
| "businessPermission (RqDeleteTuition i) = PermissionLmsManageTuition"
| "businessPermission (RqCreateLeadActivity i b) = PermissionLmsManageLeads"
| "businessPermission (RqConvertLead i) = PermissionLmsManageLeads"
| "businessPermission (RqCreateTuitionPayment i b) = PermissionLmsManageTuition"

primrec serveAccount :: "'w lmsServer \<Rightarrow> nat \<Rightarrow> Session \<Rightarrow> accountRequest \<Rightarrow> 'w lms \<Rightarrow> unit response \<times> 'w lms" where
  "serveAccount S n se (RqConvertUserToStudent i) s = void (convertUserToStudent S n se i s)"
| "serveAccount S n se (RqRevertStudentToUser i) s = void (revertStudentToUser S n se i s)"
| "serveAccount S n se (RqDeleteUser i) s = void (deleteUser S n se i s)"
| "serveAccount S n se (RqDeactivateUser i) s = void (deactivateUser S n se i s)"
| "serveAccount S n se (RqReactivateUser i) s = void (reactivateUser S n se i s)"
| "serveAccount S n se (RqCreateStudent b) s = void (createStudent S n se b s)"
| "serveAccount S n se (RqUpdateStudent i b) s = void (updateStudent S n se i b s)"
| "serveAccount S n se (RqDeleteStudent i) s = void (deleteStudent S n se i s)"
| "serveAccount S n se (RqUpdateUser i b) s = void (updateUser S n se i b s)"

primrec accountPermission :: "accountRequest \<Rightarrow> string" where
  "accountPermission (RqConvertUserToStudent i) = PermissionLmsManageStudents"
| "accountPermission (RqRevertStudentToUser i) = PermissionLmsManageStudents"
| "accountPermission (RqDeleteUser i) = PermissionLmsManageUsers"
| "accountPermission (RqDeactivateUser i) = PermissionLmsManageUsers"
| "accountPermission (RqReactivateUser i) = PermissionLmsManageUsers"
| "accountPermission (RqCreateStudent b) = PermissionLmsManageStudents"
| "accountPermission (RqUpdateStudent i b) = PermissionLmsManageStudents"
| "accountPermission (RqDeleteStudent i) = PermissionLmsManageStudents"
| "accountPermission (RqUpdateUser i b) = PermissionLmsManageUsers"

primrec servePublic :: "'w lmsServer \<Rightarrow> nat \<Rightarrow> publicRequest \<Rightarrow> 'w lms \<Rightarrow> unit response \<times> 'w lms" where
  "servePublic S n (RqPublicRegister b) s = void (publicRegister S n b s)"
| "servePublic S n (RqPublicContact b) s = void (publicContact S n b s)"
| "servePublic S n (RqForgotPassword b) s = void (forgotPassword S n b s)"
| "servePublic S n (RqResetPassword b) s = void (resetPassword S n b s)"

primrec serve :: "'w lmsServer \<Rightarrow> nat \<Rightarrow> Session \<Rightarrow> lmsRequest \<Rightarrow> 'w lms \<Rightarrow> unit response \<times> 'w lms" where
  "serve S n se (Content r) s = serveContent S n se r s"
| "serve S n se (Teaching r) s = serveTeaching S n se r s"
| "serve S n se (Business r) s = serveBusiness S n se r s"
| "serve S n se (Account r) s = serveAccount S n se r s"
| "serve S n se (Public r) s = servePublic S n r s"

primrec permissionOf :: "lmsRequest \<Rightarrow> string option" where
  "permissionOf (Content r) = Some (contentPermission r)"
| "permissionOf (Teaching r) = Some (teachingPermission r)"
| "permissionOf (Business r) = Some (businessPermission r)"
| "permissionOf (Account r) = Some (accountPermission r)"
| "permissionOf (Public r) = None"

lemmas content_handlers =
  createBanner_def updateBanner_def deleteBanner_def createBranch_def createClassMedia_def deleteClassMedia_def
  createCourse_def updateCourse_def deleteCourse_def createMaterial_def updateMaterial_def deleteMaterial_def
  markNotificationAsRead_def createPostCategory_def updatePostCategory_def deletePostCategory_def createPost_def updatePost_def
  deletePost_def createTask_def updateTask_def deleteTask_def createWeeklyReview_def updateWeeklyReview_def
  deleteWeeklyReview_def

lemmas teaching_handlers =
  createHomework_def updateHomework_def deleteHomework_def deleteSession_def createClass_def updateClass_def
  deleteClass_def enrollStudents_def unenrollStudent_def createSession_def updateSession_def saveAttendance_def
  upsertHomeworkSubmission_def bulkAssignHomework_def

lemmas business_handlers =
  createFeePackage_def createLead_def updateLead_def deleteLead_def createTuition_def updateTuition_def
  deleteTuition_def createLeadActivity_def convertLead_def createTuitionPayment_def

lemmas account_handlers =
  convertUserToStudent_def revertStudentToUser_def deleteUser_def deactivateUser_def reactivateUser_def createStudent_def
  updateStudent_def deleteStudent_def updateUser_def

lemmas public_handlers =
  publicRegister_def publicContact_def forgotPassword_def resetPassword_def

section \<open>Without the permission\<close>

lemma void_simps [simp]: "void (Failed e, s) = (Failed e, s)" "snd (void r) = snd r"
  by (simp_all add: void_def)

lemma withPermission_refused [simp]:
  "\<not> SessionHasPermissionTo (sx_roles S) se p \<Longrightarrow> withPermission S se p h s = (Failed permissionError, s)"
  by (simp add: withPermission_def)

lemma serve_refused:
  assumes "permissionOf req = Some p" and "\<not> SessionHasPermissionTo (sx_roles S) se p"
  shows "serve S n se req s = (Failed permissionError, s)"
proof (cases req)
  case (Content r)
  then show ?thesis using assms by (cases r) (simp_all add: content_handlers)
next
  case (Teaching r)
  then show ?thesis using assms by (cases r) (simp_all add: teaching_handlers)
next
  case (Business r)
  then show ?thesis using assms by (cases r) (simp_all add: business_handlers)
next
  case (Account r)
  then show ?thesis using assms by (cases r) (simp_all add: account_handlers)
qed (use assms in simp)


section \<open>The types of the tables\<close>

definition lms_typed :: "lmsEnv \<Rightarrow> 'w lms \<Rightarrow> bool" where
  "lms_typed E s \<longleftrightarrow>
     branches_ok E (lm_branches s) \<and> courses_ok E (lm_courses s) \<and> classes_ok E (lm_classes s) \<and> students_ok E (lm_students s)
     \<and> sessions_ok E (lm_sessions s) \<and> attendance_ok E (lm_attendance s) \<and> leads_ok E (lm_leads s) \<and> activities_ok E (lm_activities s)
     \<and> categories_ok E (lm_categories s) \<and> posts_ok E (lm_posts s) \<and> homeworks_ok E (lm_homeworks s) \<and> submissions_ok E (lm_submissions s)
     \<and> reviews_ok E (lm_reviews s) \<and> tasks_ok E (lm_tasks s) \<and> banners_ok E (lm_banners s) \<and> notifications_ok E (lm_notifications s)
     \<and> materials_ok E (lm_materials s) \<and> media_ok E (lm_media s) \<and> users_ok (lm_users s) \<and> finance_ok E (lm_finance s)"

lemma respond_snd [simp]: "snd (respond c r) = snd r" "snd (respondOK q) = snd q" "snd (look x s) = s"
  by (auto simp: respond_def respondOK_def look_def split: prod.split sum.split option.split)

text \<open>What a handler leaves, when a property survives its last step.\<close>

definition keeps :: "('s \<Rightarrow> bool) \<Rightarrow> ('s \<Rightarrow> 'a response \<times> 's) \<Rightarrow> bool" where
  "keeps P h \<longleftrightarrow> (\<forall>s. P s \<longrightarrow> P (snd (h s)))"

lemma keeps_steps [intro!]:
  "keeps P h \<Longrightarrow> keeps P (withPermission S se p h)"
  "keeps P h \<Longrightarrow> keeps P (withId S i h)"
  "(\<And>x. keeps P (g x)) \<Longrightarrow> keeps P (withBody msg b g)"
  "(\<And>x. keeps P (g x)) \<Longrightarrow> keeps P (deref q g)"
  by (auto simp: keeps_def withPermission_def withId_def withBody_def deref_def split: body.split option.split)

lemma keepsD: "keeps P h \<Longrightarrow> P s \<Longrightarrow> P (snd (h s))"
  by (simp add: keeps_def)

lemma lms_typedD:
  assumes "lms_typed E s"
  shows "classes_ok E (lm_classes s)" "students_ok E (lm_students s)" "sessions_ok E (lm_sessions s)" "attendance_ok E (lm_attendance s)"
    "leads_ok E (lm_leads s)" "homeworks_ok E (lm_homeworks s)" "users_ok (lm_users s)"
  using assms by (simp_all add: lms_typed_def)

lemma lms_typed_upd [intro]:
  assumes "lms_typed E s"
  shows "classes_ok E t1 \<Longrightarrow> lms_typed E (s\<lparr>lm_classes := t1\<rparr>)" "students_ok E t2 \<Longrightarrow> lms_typed E (s\<lparr>lm_students := t2\<rparr>)"
    "sessions_ok E t3 \<Longrightarrow> lms_typed E (s\<lparr>lm_sessions := t3\<rparr>)" "attendance_ok E t4 \<Longrightarrow> lms_typed E (s\<lparr>lm_attendance := t4\<rparr>)"
    "leads_ok E t5 \<Longrightarrow> lms_typed E (s\<lparr>lm_leads := t5\<rparr>)" "homeworks_ok E t6 \<Longrightarrow> lms_typed E (s\<lparr>lm_homeworks := t6\<rparr>)"
    "users_ok t7 \<Longrightarrow> lms_typed E (s\<lparr>lm_users := t7\<rparr>)" "lms_typed E (s\<lparr>lm_chat := w\<rparr>)"
  using assms by (simp_all add: lms_typed_def)

lemma keeps_createStudent: "keeps (lms_typed (sx_env S)) (createStudent S n se b)"
  unfolding createStudent_def
  by (intro keeps_steps)
    (auto simp: keeps_def split: option.split prod.split intro!: lms_typed_upd dest: CreateStudent_users_ok[OF lms_typedD(7)])

lemma keeps_updateStudent: "keeps (lms_typed (sx_env S)) (updateStudent S n se i b)"
  unfolding updateStudent_def
  by (intro keeps_steps)
    (auto simp: keeps_def onUsers_def split_def Let_def split: option.split prod.split intro!: lms_typed_upd edits_users_ok lms_typedD)

lemma keeps_deleteStudent: "keeps (lms_typed (sx_env S)) (deleteStudent S n se i)"
  unfolding deleteStudent_def
  by (intro keeps_steps)
    (auto simp: keeps_def split_def intro!: lms_typed_upd delete_users_ok DeleteStudent_students dest: lms_typedD)

lemma keeps_updateUser: "keeps (lms_typed (sx_env S)) (updateUser S n se i b)"
  unfolding updateUser_def
  by (intro keeps_steps)
    (auto simp: keeps_def onUsers_def split_def Let_def intro!: lms_typed_upd edits_users_ok lms_typedD)

lemma syncClass_typed: "lms_typed (sx_env S) s \<Longrightarrow> lms_typed (sx_env S) (snd (syncClass S n cls s))"
  unfolding syncClass_def case_prod_beta snd_conv by (intro lms_typed_upd Sync_typed lms_typedD)

lemma closeClass_typed: "lms_typed (sx_env S) s \<Longrightarrow> lms_typed (sx_env S) (snd (closeClass S n cls s))"
  unfolding closeClass_def case_prod_beta snd_conv by (intro lms_typed_upd Close_typed lms_typedD)

lemma onClasses_typed:
  "lms_typed (sx_env S) s \<Longrightarrow> fresh_ids (sx_env S) \<Longrightarrow> lms_typed (sx_env S) (snd (onClasses (CreateClass (sx_env S) n c) s))"
  "lms_typed (sx_env S) s \<Longrightarrow> lms_typed (sx_env S) (snd (onClasses (UpdateClass (sx_env S) n i c) s))"
  "lms_typed (sx_env S) s \<Longrightarrow> lms_typed (sx_env S) (snd (onClasses (DeleteClass (sx_env S) n i) s))"
  unfolding onClasses_def Let_def case_prod_beta snd_conv
  by (intro lms_typed_upd CreateClass_typed UpdateClass_typed DeleteClass_typed lms_typedD, assumption+)+

lemma followEnrolment_typed: "lms_typed (sx_env S) s \<Longrightarrow> lms_typed (sx_env S) (followEnrolment S n i s)"
  by (auto simp: followEnrolment_def syncClass_typed split: sum.split)

lemma keeps_createClass:
  assumes "fresh_ids (sx_env S)"
  shows "keeps (lms_typed (sx_env S)) (createClass S n se b)"
  unfolding createClass_def
  by (intro keeps_steps)
    (auto simp: keeps_def case_prod_beta assms split: sum.split intro!: lms_typed_upd EnsureClassChannel_typed lms_typedD onClasses_typed)

lemma keeps_deleteClass: "keeps (lms_typed (sx_env S)) (deleteClass S n se i)"
  unfolding deleteClass_def
  by (intro keeps_steps) (simp add: keeps_def Let_def closeClass_typed onClasses_typed split: sum.split)

lemma keeps_updateClass: "keeps (lms_typed (sx_env S)) (updateClass S n se i b)"
  unfolding updateClass_def
  by (intro keeps_steps) (simp add: keeps_def Let_def case_prod_beta closeClass_typed syncClass_typed onClasses_typed split: sum.split)

lemma keeps_enrol:
  assumes "fresh_ids (sx_env S)"
  shows "keeps (lms_typed (sx_env S)) (enrollStudents S n se i ids)" "keeps (lms_typed (sx_env S)) (unenrollStudent S n se i j)"
proof -
  have "lms_typed (sx_env S) s1" if "lms_typed (sx_env S) s" "onStudents (EnrollStudents (sx_env S) n i c) s = (x, s1)" for c x s s1
    using that EnrollStudents_typed[OF assms lms_typedD(2)[OF that(1)], of n i c] by (auto simp: onStudents_def split_def Let_def)
  then show "keeps (lms_typed (sx_env S)) (enrollStudents S n se i ids)" unfolding enrollStudents_def
    by (intro keeps_steps) (auto simp: keeps_def followEnrolment_typed split: sum.split prod.split)
  have "lms_typed (sx_env S) s1" if "lms_typed (sx_env S) s" "onStudents (UnenrollStudent (sx_env S) n i j) s = (x, s1)" for x s s1
    using that UnenrollStudent_typed[OF lms_typedD(2)[OF that(1)], of n i j] by (auto simp: onStudents_def split_def Let_def)
  then show "keeps (lms_typed (sx_env S)) (unenrollStudent S n se i j)" unfolding unenrollStudent_def
    by (intro keeps_steps) (auto simp: keeps_def followEnrolment_typed split: sum.split prod.split)
qed


lemma keeps_lessons:
  assumes "fresh_ids (sx_env S)"
  shows "keeps (lms_typed (sx_env S)) (createSession S n se b)" "keeps (lms_typed (sx_env S)) (updateSession S n se i c)"
    "keeps (lms_typed (sx_env S)) (saveAttendance S n se i l)" "keeps (lms_typed (sx_env S)) (bulkAssignHomework S n se h)"
proof -
  have s: "lms_typed (sx_env S) (snd (onSessions f s))" if "lms_typed (sx_env S) s" "sessions_ok (sx_env S) (snd (f (lm_sessions s)))" for f s
    using that by (simp add: onSessions_def split_def Let_def lms_typed_upd)
  show "keeps (lms_typed (sx_env S)) (createSession S n se b)" unfolding createSession_def
    by (intro keeps_steps) (simp add: keeps_def case_prod_beta s CreateSessions_typed assms lms_typedD split: sum.split)
  show "keeps (lms_typed (sx_env S)) (updateSession S n se i c)" unfolding updateSession_def
    by (intro keeps_steps) (simp add: keeps_def case_prod_beta s UpdateSession_typed lms_typedD split: sum.split)
  show "keeps (lms_typed (sx_env S)) (saveAttendance S n se i l)" unfolding saveAttendance_def
    by (intro keeps_steps)
      (simp add: keeps_def case_prod_beta onAttendance_def Let_def lms_typed_upd SaveAttendance_typed assms lms_typedD split: sum.split)
  show "keeps (lms_typed (sx_env S)) (bulkAssignHomework S n se h)" unfolding bulkAssignHomework_def
    by (intro keeps_steps)
      (simp add: keeps_def deref_def case_prod_beta onHomeworks_def BulkAssignHomework_def Let_def lms_typed_upd bulkAssign_typed assms lms_typedD split: sum.split option.split)
qed

lemma keeps_convertLead: "keeps (lms_typed (sx_env S)) (convertLead S n se i)"
  unfolding convertLead_def
  by (intro keeps_steps) (simp add: keeps_def case_prod_beta lms_typed_upd ConvertLead_ok lms_typedD)

lemmas keeps_handlers = keeps_createStudent keeps_updateStudent keeps_deleteStudent keeps_updateUser keeps_createClass keeps_deleteClass
  keeps_updateClass keeps_enrol keeps_lessons keeps_convertLead


lemma keeps_accounts:
  assumes "fresh_ids (sx_env S)"
  shows "keeps (lms_typed (sx_env S)) (convertUserToStudent S n se i)"
    "keeps (lms_typed (sx_env S)) (revertStudentToUser S n se i)"
    "keeps (lms_typed (sx_env S)) (deleteUser S n se i)"
    "keeps (lms_typed (sx_env S)) (deactivateUser S n se i)"
    "keeps (lms_typed (sx_env S)) (reactivateUser S n se i)"
  unfolding convertUserToStudent_def revertStudentToUser_def deleteUser_def deactivateUser_def reactivateUser_def
  by (intro keeps_steps, simp add: keeps_def on_defs split_def Let_def lms_typed_def typed assms)+

lemma keeps_homework:
  assumes "fresh_ids (sx_env S)"
  shows "keeps (lms_typed (sx_env S)) (createHomework S n se b)"
    "keeps (lms_typed (sx_env S)) (updateHomework S n se i b1)"
    "keeps (lms_typed (sx_env S)) (deleteHomework S n se i)"
    "keeps (lms_typed (sx_env S)) (deleteSession S n se i)"
    "keeps (lms_typed (sx_env S)) (upsertHomeworkSubmission S n se i b2)"
  unfolding createHomework_def updateHomework_def deleteHomework_def deleteSession_def upsertHomeworkSubmission_def
  by (intro keeps_steps, simp add: keeps_def on_defs split_def Let_def lms_typed_def typed assms)+

lemma keeps_business:
  assumes "fresh_ids (sx_env S)"
  shows "keeps (lms_typed (sx_env S)) (createLead S n se b3)"
    "keeps (lms_typed (sx_env S)) (updateLead S n se i b4)"
    "keeps (lms_typed (sx_env S)) (deleteLead S n se i)"
    "keeps (lms_typed (sx_env S)) (createTuition S n se b5)"
    "keeps (lms_typed (sx_env S)) (updateTuition S n se i b6)"
    "keeps (lms_typed (sx_env S)) (deleteTuition S n se i)"
    "keeps (lms_typed (sx_env S)) (createFeePackage S n se b7)"
    "keeps (lms_typed (sx_env S)) (createLeadActivity S n se i b8)"
    "keeps (lms_typed (sx_env S)) (createTuitionPayment S n se i b9)"
  unfolding createLead_def updateLead_def deleteLead_def createTuition_def updateTuition_def deleteTuition_def createFeePackage_def createLeadActivity_def createTuitionPayment_def
  by (intro keeps_steps, simp add: keeps_def on_defs split_def Let_def lms_typed_def typed assms)+

lemma serveContent_typed:
  assumes "fresh_ids (sx_env S)" and "lms_typed (sx_env S) s"
  shows "lms_typed (sx_env S) (snd (serveContent S n se r s))"
  by (cases r; simp only: serveContent.simps void_simps content_handlers; rule keepsD[where P = "lms_typed (sx_env S)"])
    (use assms in \<open>(intro keeps_steps)?, simp add: keeps_def on_defs split_def Let_def lms_typed_def typed\<close>)+

lemma servePublic_typed:
  assumes "fresh_ids (sx_env S)" and "lms_typed (sx_env S) s"
  shows "lms_typed (sx_env S) (snd (servePublic S n r s))"
  by (cases r; simp only: servePublic.simps void_simps public_handlers; rule keepsD[where P = "lms_typed (sx_env S)"])
    (use assms in \<open>(intro keeps_steps)?, simp add: keeps_def on_defs split_def case_prod_beta Let_def lms_typed_def typed split: sum.split\<close>)+

lemma serve_typed:
  assumes "fresh_ids (sx_env S)" and "lms_typed (sx_env S) s"
  shows "lms_typed (sx_env S) (snd (serve S n se req s))"
proof -
  note k = keeps_handlers keeps_accounts keeps_homework keeps_business
  note d = keepsD[where P = "lms_typed (sx_env S)", OF _ assms(2)]
  have "lms_typed (sx_env S) (snd (serveTeaching S n se r s))" for r
    by (cases r; simp only: serveTeaching.simps void_simps; rule d; rule k; rule assms(1))
  moreover have "lms_typed (sx_env S) (snd (serveBusiness S n se r s))" for r
    by (cases r; simp only: serveBusiness.simps void_simps; rule d; rule k; rule assms(1))
  moreover have "lms_typed (sx_env S) (snd (serveAccount S n se r s))" for r
    by (cases r; simp only: serveAccount.simps void_simps; rule d; rule k; rule assms(1))
  ultimately show ?thesis using serveContent_typed[OF assms] servePublic_typed[OF assms] by (cases req) simp_all
qed


section \<open>Actions of the foreign keys\<close>

text \<open>
  \<open>shrunk\<close> compares a table before and after: rows may be gone, and a row may have lost an optional reference
  (\<open>clear\<close>). The columns are those of migration 000153 with \<^verbatim>\<open>ON DELETE SET NULL\<close> that may be null; those of the
  accounts are part of \<^const>\<open>UserStore_PermanentDelete\<close>.
\<close>

definition shrunk :: "('r \<Rightarrow> string) \<Rightarrow> ('r \<Rightarrow> 'r set) \<Rightarrow> 'r list \<Rightarrow> 'r list \<Rightarrow> bool" where
  "shrunk key clear t t' \<longleftrightarrow> subseq (map key t') (map key t) \<and> (\<forall>r' \<in> set t'. \<exists>r \<in> set t. r' = r \<or> r' \<in> clear r)"

abbreviation "dropped key \<equiv> shrunk key (\<lambda>_. {})"

definition clearLead :: "Lead \<Rightarrow> Lead set" where
  "clearLead r = {r\<lparr>ld_StudentID := None\<rparr>, r\<lparr>ld_CounselorID := None\<rparr>, r\<lparr>ld_StudentID := None, ld_CounselorID := None\<rparr>}"

definition clearMedia :: "ClassMedium \<Rightarrow> ClassMedium set" where
  "clearMedia r = {r\<lparr>cm_SessionID := None\<rparr>}"

definition clearRefund :: "FeeRefund \<Rightarrow> FeeRefund set" where
  "clearRefund r = {r\<lparr>fr_ApprovedByID := None\<rparr>}"

definition lms_cascaded :: "'w lms \<Rightarrow> 'w lms \<Rightarrow> bool" where
  "lms_cascaded s t \<longleftrightarrow>
     dropped br_ID (lm_branches s) (lm_branches t) \<and> dropped co_ID (lm_courses s) (lm_courses t)
     \<and> dropped kl_ID (lm_classes s) (lm_classes t) \<and> dropped sc_ID (lm_students s) (lm_students t)
     \<and> dropped ls_ID (lm_sessions s) (lm_sessions t) \<and> dropped at_ID (lm_attendance s) (lm_attendance t)
     \<and> shrunk ld_ID clearLead (lm_leads s) (lm_leads t) \<and> dropped la_ID (lm_activities s) (lm_activities t)
     \<and> dropped pc_ID (lm_categories s) (lm_categories t) \<and> dropped bp_ID (lm_posts s) (lm_posts t)
     \<and> dropped hw_ID (lm_homeworks s) (lm_homeworks t) \<and> dropped su_ID (lm_submissions s) (lm_submissions t)
     \<and> dropped wr_ID (lm_reviews s) (lm_reviews t) \<and> dropped ta_ID (lm_tasks s) (lm_tasks t)
     \<and> dropped ba_ID (lm_banners s) (lm_banners t) \<and> dropped no_ID (lm_notifications s) (lm_notifications t)
     \<and> dropped ma_ID (lm_materials s) (lm_materials t) \<and> shrunk cm_ID clearMedia (lm_media s) (lm_media t)
     \<and> dropped fp_ID (fi_packages (lm_finance s)) (fi_packages (lm_finance t))
     \<and> dropped tu_ID (fi_tuitions (lm_finance s)) (fi_tuitions (lm_finance t))
     \<and> dropped pa_ID (fi_payments (lm_finance s)) (fi_payments (lm_finance t))
     \<and> shrunk fr_ID clearRefund (fi_refunds (lm_finance s)) (fi_refunds (lm_finance t))
     \<and> dropped af_ID (fi_fees (lm_finance s)) (fi_fees (lm_finance t))
     \<and> lm_users t = lm_users s \<and> lm_chat t = lm_chat s"

lemma shrunk_table_ok:
  assumes "table_ok key E t" and "shrunk key clear t t'"
  shows "table_ok key E t'"
proof -
  have sub: "subseq (map key t') (map key t)" using assms(2) by (simp add: shrunk_def)
  then obtain N where N: "map key t' = nths (map key t) N" by (auto simp: subseq_conv_nths)
  then have "distinct (map key t')" using assms(1) by (simp add: table_ok_def)
  moreover have "set (map key t') \<subseteq> set (map key t)" unfolding N by (rule set_nths_subset)
  ultimately show ?thesis using assms(1) by (auto simp: table_ok_def)
qed

lemma shrunk_stored_ok:
  assumes "stored_ok key valid dflt col E t" and "shrunk key clear t t'"
    and "\<And>x r'. valid (lv_letter E) x = None \<Longrightarrow> r' \<in> clear (col x) \<union> clear (col (dflt x))
      \<Longrightarrow> \<exists>y. valid (lv_letter E) y = None \<and> (r' = col y \<or> r' = col (dflt y))"
  shows "stored_ok key valid dflt col E t'"
proof -
  have "\<exists>x. valid (lv_letter E) x = None \<and> (r' = col x \<or> r' = col (dflt x))" if r': "r' \<in> set t'" for r'
  proof -
    obtain r where r: "r \<in> set t" "r' = r \<or> r' \<in> clear r" using r' assms(2) by (auto simp: shrunk_def)
    obtain x where "valid (lv_letter E) x = None" "r = col x \<or> r = col (dflt x)" using r(1) assms(1) by (auto simp: stored_ok_def)
    then show ?thesis using r(2) assms(3)[of x r'] by blast
  qed
  then show ?thesis using shrunk_table_ok[OF _ assms(2)] assms(1) by (simp add: stored_ok_def)
qed

lemma dropped_stored_ok: "stored_ok key valid dflt col E t \<Longrightarrow> dropped key t t' \<Longrightarrow> stored_ok key valid dflt col E t'"
  by (rule shrunk_stored_ok) auto

lemma shrunk_id_ok:
  assumes "stored_ok key valid id col E t" and "shrunk key clear t t'"
    and "\<And>x. clear (col x) \<subseteq> col ` clear x" and "\<And>x y. y \<in> clear x \<Longrightarrow> valid (lv_letter E) y = valid (lv_letter E) x"
  shows "stored_ok key valid id col E t'"
  using assms(1,2)
proof (rule shrunk_stored_ok)
  fix x r' assume "valid (lv_letter E) x = None" "r' \<in> clear (col x) \<union> clear (col (id x))"
  moreover from this(2) obtain y where "y \<in> clear x" "r' = col y" using assms(3) by auto
  ultimately show "\<exists>y. valid (lv_letter E) y = None \<and> (r' = col y \<or> r' = col (id y))" using assms(4) by metis
qed

lemma clear_valid:
  "LeadIsValid U (x\<lparr>ld_StudentID := a\<rparr>) = LeadIsValid U x" "LeadIsValid U (x\<lparr>ld_CounselorID := a\<rparr>) = LeadIsValid U x"
  "ClassMediaIsValid U (m\<lparr>cm_SessionID := a\<rparr>) = ClassMediaIsValid U m"
  "FeeRefundIsValid U (f\<lparr>fr_ApprovedByID := a\<rparr>) = FeeRefundIsValid U f"
  by (simp_all add: LeadIsValid_def ClassMediaIsValid_def FeeRefundIsValid_def)

lemma shrunk_cleared:
  "leads_ok E t1 \<Longrightarrow> shrunk ld_ID clearLead t1 t1' \<Longrightarrow> leads_ok E t1'"
  "media_ok E t2 \<Longrightarrow> shrunk cm_ID clearMedia t2 t2' \<Longrightarrow> media_ok E t2'"
  "refunds_ok E t3 \<Longrightarrow> shrunk fr_ID clearRefund t3 t3' \<Longrightarrow> refunds_ok E t3'"
  unfolding leads_ok_def media_ok_def refunds_ok_def
  by (erule shrunk_id_ok, assumption; auto simp: clearLead_def clearMedia_def clearRefund_def Lead_columns_def FeeRefund_columns_def clear_valid)+

lemma lms_cascaded_typed:
  assumes "lms_typed E s" and "lms_cascaded s t"
  shows "lms_typed E t"
  using assms dropped_stored_ok shrunk_cleared
  unfolding lms_typed_def lms_cascaded_def finance_ok_def
  by (simp add: branches_ok_def courses_ok_def classes_ok_def students_ok_def sessions_ok_def attendance_ok_def activities_ok_def
      categories_ok_def posts_ok_def homeworks_ok_def submissions_ok_def reviews_ok_def tasks_ok_def banners_ok_def notifications_ok_def
      materials_ok_def packages_ok_def tuitions_ok_def payments_ok_def fees_ok_def) (intro conjI; blast intro: dropped_stored_ok shrunk_cleared)

definition lms_step :: "'w lmsServer \<Rightarrow> 'w lms \<Rightarrow> 'w lms \<Rightarrow> bool" where
  "lms_step S s t \<longleftrightarrow> (\<exists>n se req. lms_cascaded (snd (serve S n se req s)) t)"


section \<open>Who can touch money\<close>

lemmas handler_steps = withPermission_def withId_def withBody_def deref_def on_defs case_prod_beta Let_def

lemma class_finance [simp]:
  "lm_finance (snd (syncClass S n cls s)) = lm_finance s" "lm_finance (snd (closeClass S n cls s)) = lm_finance s"
  "lm_finance (followEnrolment S n i s) = lm_finance s"
  by (simp_all add: syncClass_def closeClass_def followEnrolment_def case_prod_beta split: sum.split)

lemma serve_finance:
  assumes "permissionOf req \<notin> {Some PermissionLmsManageTuition, Some PermissionLmsManageFeePackages}"
  shows "lm_finance (snd (serve S n se req s)) = lm_finance s"
proof (cases req)
  case (Content r)
  then show ?thesis by (cases r) (simp_all add: content_handlers handler_steps split: body.split option.split)
next
  case (Teaching r)
  then show ?thesis by (cases r) (simp_all add: teaching_handlers handler_steps split: body.split option.split sum.split)
next
  case (Business r)
  then show ?thesis using assms by (cases r) (simp_all add: business_handlers handler_steps split: body.split option.split)
next
  case (Account r)
  then show ?thesis by (cases r) (simp_all add: account_handlers handler_steps split: body.split option.split)
next
  case (Public r)
  then show ?thesis by (cases r) (simp_all add: public_handlers handler_steps split: body.split option.split sum.split)
qed
lemma cascaded_rows:
  assumes "lms_cascaded s t"
  shows "set (fi_packages (lm_finance t)) \<subseteq> set (fi_packages (lm_finance s))" "set (fi_tuitions (lm_finance t)) \<subseteq> set (fi_tuitions (lm_finance s))"
    "set (fi_payments (lm_finance t)) \<subseteq> set (fi_payments (lm_finance s))" "set (fi_fees (lm_finance t)) \<subseteq> set (fi_fees (lm_finance s))"
  using assms by (auto simp: lms_cascaded_def shrunk_def)

text \<open>
  C29: Who can write money. With the default roles, a request of a session whose roles are none of system
  administrator, super administrator, administrator, accountant or parent neither adds nor changes a fee package, a
  tuition, a payment or an additional fee. (Such rows can still disappear with the class or the student they belong to.)
\<close>

theorem money_needs_permission:
  assumes "default_roles (sx_roles S)" and "\<not> se_Local se"
    and "\<forall>r \<in> set (GetUserRoles se). r \<notin> {''system_admin'', ''lms_super_admin'', ''lms_admin'', ''lms_accountant'', ''lms_parent''}"
    and "lms_cascaded (snd (serve S n se req s)) t"
  shows "set (fi_packages (lm_finance t)) \<subseteq> set (fi_packages (lm_finance s)) \<and> set (fi_tuitions (lm_finance t)) \<subseteq> set (fi_tuitions (lm_finance s))
    \<and> set (fi_payments (lm_finance t)) \<subseteq> set (fi_payments (lm_finance s)) \<and> set (fi_fees (lm_finance t)) \<subseteq> set (fi_fees (lm_finance s))"
proof -
  have "\<not> SessionHasPermissionTo (sx_roles S) se PermissionLmsManageTuition"
    using assms(3) by (intro default_roles_refused[OF assms(1) _ assms(2)]) (auto simp: holders_eq LearningSystemScopedPermissions_def)
  moreover have "\<not> SessionHasPermissionTo (sx_roles S) se PermissionLmsManageFeePackages"
    using assms(3) by (intro default_roles_refused[OF assms(1) _ assms(2)]) (auto simp: holders_eq LearningSystemScopedPermissions_def)
  ultimately have "lm_finance (snd (serve S n se req s)) = lm_finance s"
    using serve_finance[of req S n se s] serve_refused[of req _ S se n s] by fastforce
  then show ?thesis using cascaded_rows[OF assms(4)] by simp
qed

section \<open>What an edit of a student may change\<close>

lemma merged_Roles: "merged True old u = Inr w \<Longrightarrow> us_Roles w = us_Roles u"
  by (auto simp: merged_def Let_def keepOld_def UpdateMentionKeysFromUsername_def split: if_splits)

lemma trusted_update_roles:
  assumes "UserStore_Update U E n u True t = (Inr x, t1)"
  shows "\<exists>r \<in> set t1. us_Id r = us_Id u \<and> us_Roles r = us_Roles u"
proof (cases rule: UserStore_Update_table[of U E n u True t])
  case (same e)
  with assms show ?thesis by simp
next
  case (written w old)
  have old: "old \<in> set t" "us_Id old = us_Id u" using written(2) by (auto simp: find_Some_iff)
  have "us_Id w = us_Id u" using merged_keeps[OF written(3)] old by (simp add: credentials_def PreUpdate_same)
  moreover have "w \<in> set t1" using assms written(1) old by (auto intro: rev_image_eqI)
  ultimately show ?thesis using merged_Roles[OF written(3)] by (auto simp: PreUpdate_same)
qed

lemma mergeProps_same: "mergeProps U m e = Some e' \<Longrightarrow> us_Id e' = us_Id e \<and> us_Roles e' = us_Roles e"
  by (auto simp: mergeProps_def withStudentProps_def Let_def)

lemma UpdateStudent_roles:
  assumes "UpdateStudent U E n (Some u) props t = (Inr x, t1)" and "us_Roles u \<noteq> []"
  shows "\<exists>r \<in> set t1. us_Id r = us_Id u \<and> us_Roles r = us_Roles u"
proof -
  obtain e where e: "UserStore_Get E n (us_Id u) t = Inr e"
    using assms(1) by (cases "UserStore_Get E n (us_Id u) t") (simp_all add: UpdateStudent_def)
  define m where "m = mergeStudent (lv_now E n 1) u e"
  have id: "us_Id e = us_Id u" using e by (auto simp: UserStore_Get_def sql_one_def find_Some_iff split: if_splits option.splits)
  have m: "us_Id m = us_Id u" "us_Roles m = us_Roles u" using assms(2) id by (simp_all add: m_def mergeStudent_def pick_def)
  obtain e2 where e2: "(case props of None \<Rightarrow> Some m | Some q \<Rightarrow> mergeProps U q m) = Some e2"
    using assms(1) e by (cases "case props of None \<Rightarrow> Some m | Some q \<Rightarrow> mergeProps U q m") (simp_all add: UpdateStudent_def Let_def m_def[symmetric] del: One_nat_def)
  have same: "us_Id e2 = us_Id m" "us_Roles e2 = us_Roles m" using e2 mergeProps_same by (auto split: option.splits)
  obtain r where "UserStore_Update U E (n + 1) e2 True t = (r, t1)" "mapErr (userErr ''app.lms.student.not_found.app_error'' ''app.lms.student.update.app_error'') r = Inr x"
    using assms(1) e e2 by (auto simp: UpdateStudent_def Let_def m_def[symmetric] split_def prod_eq_iff simp del: One_nat_def)
  moreover from this(2) obtain y where "r = Inr y" by (cases r) (simp_all add: mapErr_def)
  ultimately have "\<exists>r \<in> set t1. us_Id r = us_Id e2 \<and> us_Roles r = us_Roles e2" by (intro trusted_update_roles) simp
  then show ?thesis using same m by simp
qed

text \<open>
  C30: An accepted edit of a student sets the roles it asks for. The route checks the permission to manage students and
  nothing else: neither that the account is a student, nor that it is not the caller's own, nor which roles are given.
  The witness is a parent, who holds that permission by default and becomes super administrator.
\<close>

theorem student_edit_grants_any_role:
  assumes "updateStudent S n se i (Body (Some u, props)) s = (Answer c x, s1)" and "us_Roles u \<noteq> []"
  shows "SessionHasPermissionTo (sx_roles S) se PermissionLmsManageStudents
    \<and> (\<exists>r \<in> set (lm_users s1). us_Id r = i \<and> us_Roles r = us_Roles u)"
proof -
  have p: "SessionHasPermissionTo (sx_roles S) se PermissionLmsManageStudents" and v: "IsValidId (lv_letter (sx_env S)) i"
    using assms(1) by (auto simp: updateStudent_def withPermission_def withId_def split: if_splits)
  obtain r t1 where r: "UpdateStudent (sx_lib S) (sx_env S) n (Some (u\<lparr>us_Id := i\<rparr>)) props (lm_users s) = (r, t1)" by (rule prod.exhaust)
  have "respond 200 (r, s\<lparr>lm_users := t1\<rparr>) = (Answer c x, s1)"
    using assms(1) p v r by (simp add: updateStudent_def withPermission_def withId_def withBody_def onUsers_def)
  then obtain y where "r = Inr y" and t1: "lm_users s1 = t1" by (cases r) (auto simp: respond_def)
  then show ?thesis using p UpdateStudent_roles[OF r[unfolded \<open>r = Inr y\<close>]] assms(2) by simp
qed

section \<open>Closing a class\<close>

text \<open>
  Closing a class deletes the channel named in the request. When an update of a class that sets the status to
  closed is accepted, the channel whose id the request carries is deleted for good with its messages, whatever channel
  the class has had so far.
\<close>

theorem closing_deletes_named_channel:
  assumes "SessionHasPermissionTo (sx_roles S) se PermissionLmsManageClasses" and "IsValidId (lv_letter (sx_env S)) i"
    and "UpdateClass (sx_env S) (n + 1) i cls (lm_classes s) = (Inr updated, t1)" and "kl_Status cls = ''CLOSED''"
    and "kl_ChatChannelID cls \<noteq> []" and "GetChannel (sx_chat S) (lm_chat s) (kl_ChatChannelID cls) = Inr channel"
  shows "lm_chat (snd (updateClass S n se i (Body (Some cls)) s)) = snd (PermanentDeleteChannel (sx_chat S) (lm_chat s) channel)"
proof -
  obtain x where x: "ClassStore_Update (sx_env S) (n + 1) (cls\<lparr>kl_ID := i\<rparr>) (lm_classes s) = (Inr updated, t1)"
    using assms(3) by (cases "fst (ClassStore_Update (sx_env S) (n + 1) (cls\<lparr>kl_ID := i\<rparr>) (lm_classes s))")
      (auto simp: UpdateClass_def mapErr_def split_def Let_def prod_eq_iff)
  have "updated = Class_columns (ClassPreUpdate (sx_env S) (n + 1) (cls\<lparr>kl_ID := i\<rparr>))"
    using x by (cases rule: class_store.update_table[of "sx_env S" "n + 1" "cls\<lparr>kl_ID := i\<rparr>" "lm_classes s"]) auto
  then have u: "kl_Status updated = ''CLOSED''" "kl_ChatChannelID updated = kl_ChatChannelID cls"
    using assms(4) by (simp_all add: Class_columns_def ClassPreUpdate_def)
  have "lm_chat (snd (closeClass S (n + 2) updated (s\<lparr>lm_classes := t1\<rparr>))) = snd (PermanentDeleteChannel (sx_chat S) (lm_chat s) channel)"
    using assms(5,6) u by (simp add: closeClass_def CloseClassChannel_def case_prod_beta split: option.split prod.split)
  then show ?thesis
    using assms u by (simp add: updateClass_def withPermission_def withId_def withBody_def deref_def onClasses_def case_prod_beta Let_def
        ClosedClassStatuses_def)
qed

section \<open>A small server\<close>

definition demoServer :: "(string \<Rightarrow> string list) lmsServer" where
  "demoServer = \<lparr>sx_env = lmsDemo, sx_lib = demoUserLib, sx_chat = demoChat,
     sx_roles = \<lambda>names. Inr (filter (\<lambda>r. ro_Name r \<in> set names) MakeDefaultLMSRoles), sx_random = \<lambda>_. None\<rparr>"

definition emptyLms :: "(string \<Rightarrow> string list) lms" where
  "emptyLms = \<lparr>lm_branches = [], lm_courses = [], lm_classes = [], lm_students = [], lm_sessions = [], lm_attendance = [], lm_leads = [],
     lm_activities = [], lm_categories = [], lm_posts = [], lm_homeworks = [], lm_submissions = [], lm_reviews = [], lm_tasks = [],
     lm_banners = [], lm_notifications = [], lm_materials = [], lm_media = [], lm_users = [], lm_finance = emptyBooks, lm_chat = \<lambda>_. []\<rparr>"

definition sessionOf :: "string \<Rightarrow> Session" where
  "sessionOf role = \<lparr>se_UserId = demoId 1, se_Roles = role, se_Local = False\<rparr>"

lemma demoServer_simps [simp]:
  "sx_env demoServer = lmsDemo" "sx_lib demoServer = demoUserLib" "sx_chat demoServer = demoChat"
  "default_roles (sx_roles demoServer)"
proof -
  show "default_roles (sx_roles demoServer)" unfolding default_roles_def demoServer_def by (rule exI[of _ "[]"]) simp
qed (simp_all add: demoServer_def)

lemma demo_fresh: "fresh_ids lmsDemo"
  by (simp add: fresh_ids_def)

lemma matchPrefix_none: "s \<noteq> [] \<Longrightarrow> hd s \<notin> set (map hd ps) \<Longrightarrow> matchPrefix ps s = 0"
  by (induction ps) (auto, metis hd_take length_greater_0_conv list.size(3) neq0_conv)

lemma space_head:
  assumes "(33::nat) \<le> of_char c" and "of_char c < (128::nat)"
  shows "c \<notin> set (map hd space_runes)"
proof -
  have "of_char d < (33::nat) \<or> (128::nat) \<le> of_char d" if "d \<in> set (map hd space_runes)" for d
    using that by (auto simp: space_runes_def)
  then show ?thesis using assms by fastforce
qed

lemma fieldsFrom_plain:
  "\<forall>c \<in> set s. (33::nat) \<le> of_char c \<and> of_char c < (128::nat) \<Longrightarrow> cur @ s \<noteq> [] \<Longrightarrow> fieldsFrom cur s = [rev cur @ s]"
proof (induction s arbitrary: cur)
  case Nil
  then show ?case by (subst fieldsFrom.simps) simp
next
  case (Cons c s)
  have "matchPrefix space_runes (c # s) = 0" using Cons(2) by (intro matchPrefix_none) (simp_all add: space_head del: set_map)
  then show ?case using Cons(1)[of "c # cur"] Cons(2) by (subst fieldsFrom.simps) simp
qed

lemma demo_fields: "GetUserRoles (sessionOf ''lms_teacher'') = [''lms_teacher'']" "GetUserRoles (sessionOf ''lms_admin'') = [''lms_admin'']"
  "GetUserRoles (sessionOf ''lms_parent'') = [''lms_parent'']"
  by (simp_all add: GetUserRoles_def sessionOf_def strFields_def fieldsFrom_plain)

lemma sessionOf_Local [simp]: "\<not> se_Local (sessionOf role)"
  by (simp add: sessionOf_def)

lemma emptyLms_typed: "lms_typed E emptyLms"
  by (simp add: lms_typed_def emptyLms_def tables_ok_defs finance_ok_def emptyBooks_def users_ok_def)

lemma lms_cascaded_refl: "lms_cascaded s s"
  by (auto simp: lms_cascaded_def shrunk_def)


definition demoBranch :: Branch where
  "demoBranch = \<lparr>br_ID = [], br_Name = ''main'', br_Address = None, br_Phone = None, br_Createat = 0, br_Updateat = 0\<rparr>"


theorem money_needs_permission_witness:
  "fi_payments (lm_finance (snd (serve demoServer 0 (sessionOf ''lms_teacher'')
     (Business (RqCreateTuitionPayment (demoId 1) (Body (Some (demoPayment 5))))) emptyLms))) = []"
proof -
  have "\<forall>r \<in> set (GetUserRoles (sessionOf ''lms_teacher'')). r \<notin> {''system_admin'', ''lms_super_admin'', ''lms_admin'', ''lms_accountant'', ''lms_parent''}"
    by (simp add: demo_fields)
  from money_needs_permission[OF demoServer_simps(4) sessionOf_Local this lms_cascaded_refl]
  have "set (fi_payments (lm_finance (snd (serve demoServer 0 (sessionOf ''lms_teacher'')
     (Business (RqCreateTuitionPayment (demoId 1) (Body (Some (demoPayment 5))))) emptyLms)))) \<subseteq> set (fi_payments (lm_finance emptyLms))" by blast
  moreover have "fi_payments (lm_finance emptyLms) = []" by (simp add: emptyLms_def emptyBooks_def)
  ultimately show ?thesis by (simp del: serve.simps)
qed

definition demoParent :: User where
  "demoParent = demoUser\<lparr>us_Roles := ''lms_parent''\<rparr>"

definition demoRaised :: User where
  "demoRaised = demoUser\<lparr>us_Roles := ''lms_super_admin'', us_UpdateAt := 1000\<rparr>"

lemma demo_raise:
  "\<exists>v w. UserStore_Update demoUserLib lmsDemo 1 demoRaised True [demoParent] = (Inr v, [w])"
proof -
  have pre: "User_PreUpdate demoUserLib lmsDemo 1 demoRaised = demoRaised"
    by (simp add: User_PreUpdate_def demoRaised_def demoUser_def zeroUser_def cleanMentionKeys_def saveCustomStatus_def propOf_def Let_def demo_strings)
  have valid: "User_IsValid demoUserLib lmsDemo 1 demoRaised = None"
    by (simp add: User_IsValid_def demoRaised_def demoUser_def zeroUser_def IsRemote_def IsValidEmail_def IsValidLocale_def ValidateCustomStatus_def
        propOf_def demo_strings)
  obtain w where w: "merged True demoParent demoRaised = Inr w"
    by (simp add: merged_def keepOld_def demoRaised_def demoParent_def demoUser_def zeroUser_def IsOAuthUser_def IsLDAPUser_def IsSSOUser_def Let_def)
  have "validateAutoResponderMessageSize demoUserLib demoRaised"
    by (simp add: validateAutoResponderMessageSize_def demoRaised_def demoUser_def zeroUser_def propOf_def demo_strings)
  moreover have "us_Id demoRaised = us_Id demoParent" by (simp add: demoRaised_def demoParent_def)
  ultimately show ?thesis unfolding UserStore_Update_def pre valid Let_def sql_one_def by (simp add: w taken_def sql_update_def)
qed

lemma demo_raised:
  "\<exists>x s1. updateStudent demoServer 0 (sessionOf ''lms_parent'') (demoId 1) (Body (Some (zeroUser\<lparr>us_Roles := ''lms_super_admin''\<rparr>), None))
     (emptyLms\<lparr>lm_users := [demoParent]\<rparr>) = (Answer 200 x, s1)"
proof -
  obtain v w where u: "UserStore_Update demoUserLib lmsDemo 1 demoRaised True [demoParent] = (Inr v, [w])" using demo_raise by blast
  have g: "UserStore_Get lmsDemo 0 (demoId 1) [demoParent] = Inr demoParent"
    by (simp add: UserStore_Get_def sql_one_def demoParent_def demoUser_def)
  have m: "mergeStudent 1000 (zeroUser\<lparr>us_Roles := ''lms_super_admin'', us_Id := demoId 1\<rparr>) demoParent = demoRaised"
    by (simp add: mergeStudent_def demoParent_def demoRaised_def demoUser_def zeroUser_def pick_def pickOpt_def)
  have "SessionHasPermissionTo (sx_roles demoServer) (sessionOf ''lms_parent'') PermissionLmsManageStudents"
    by (rule default_roles_granted[of _ "''lms_parent''"]) (simp_all add: demo_fields holders_eq)
  then show ?thesis using u
    by (simp add: updateStudent_def withPermission_def withId_def withBody_def onUsers_def UpdateStudent_def g m respond_def mapErr_def Let_def del: One_nat_def)
qed

theorem student_edit_grants_any_role_witness:
  "\<exists>x s1. updateStudent demoServer 0 (sessionOf ''lms_parent'') (demoId 1) (Body (Some (zeroUser\<lparr>us_Roles := ''lms_super_admin''\<rparr>), None))
     (emptyLms\<lparr>lm_users := [demoParent]\<rparr>) = (Answer 200 x, s1)
     \<and> (\<exists>r \<in> set (lm_users s1). us_Id r = demoId 1 \<and> us_Roles r = ''lms_super_admin'')"
proof -
  obtain x s1 where u: "updateStudent demoServer 0 (sessionOf ''lms_parent'') (demoId 1) (Body (Some (zeroUser\<lparr>us_Roles := ''lms_super_admin''\<rparr>), None))
     (emptyLms\<lparr>lm_users := [demoParent]\<rparr>) = (Answer 200 x, s1)" using demo_raised by blast
  then show ?thesis using student_edit_grants_any_role[OF u] by simp
qed

definition demoClosing :: Class where
  "demoClosing = demoClass\<lparr>kl_Status := ''CLOSED'', kl_TeacherID := demoId 4, kl_ChatChannelID := ''c1''\<rparr>"

theorem closing_deletes_named_channel_witness:
  "lm_chat (snd (updateClass demoServer 0 (sessionOf ''lms_admin'') (demoId 1) (Body (Some demoClosing))
     (emptyLms\<lparr>lm_classes := [demoClass\<lparr>kl_ChatChannelID := ''c2''\<rparr>], lm_chat := \<lambda>_. [''ann'']\<rparr>))) = (\<lambda>_. [''ann''])(''c1'' := [])"
proof -
  let ?s = "emptyLms\<lparr>lm_classes := [demoClass\<lparr>kl_ChatChannelID := ''c2''\<rparr>], lm_chat := \<lambda>_. [''ann'']\<rparr>"
  have p: "SessionHasPermissionTo (sx_roles demoServer) (sessionOf ''lms_admin'') PermissionLmsManageClasses"
    by (rule default_roles_granted[of _ "''lms_admin''"]) (simp_all add: demo_fields holders_eq)
  obtain c t1 where u: "UpdateClass (sx_env demoServer) (0 + 1) (demoId 1) demoClosing (lm_classes ?s) = (Inr c, t1)"
    by (simp add: UpdateClass_def ClassStore_Update_def ent_update_def sql_update_def ClassPreUpdate_def ClassIsValid_def ClassStatus_IsValid_def
        demoClosing_def demoClass_def mapErr_def longerThan_def Let_def)
  have "GetChannel (sx_chat demoServer) (lm_chat ?s) (kl_ChatChannelID demoClosing) = Inr demoChannel" by (simp add: demoChat_def)
  from closing_deletes_named_channel[OF p _ u _ _ this] show ?thesis
    by (simp add: demoClosing_def demoChat_def demoChannel_def)
qed

end
