(* ===== verification/Lms_Dashboard.thy ===== *)
theory Lms_Dashboard
  imports Lms_Search Lms_Routes
begin

text \<open>
  The dashboards, \<^verbatim>\<open>app/lms/dashboard.go\<close> with \<^verbatim>\<open>dashboard_store.go\<close>, and the reports, \<^verbatim>\<open>app/lms/report.go\<close>. Their SQL
  statements are fixed texts and are modelled by what they select. The time zone of the database session is UTC, its
  clock that of the server; \<^verbatim>\<open>to_timestamp\<close> takes seconds. A sum of amounts is exact here and a float in the answer.
\<close>

section \<open>Statements\<close>

definition hasText :: "string \<Rightarrow> string \<Rightarrow> bool" where
  "hasText p s \<longleftrightarrow> list_ex (\<lambda>i. take (length p) (drop i s) = p) [0..<Suc (length s)]"

definition DashboardStore_CountStudents :: "lmsEnv \<Rightarrow> nat \<Rightarrow> User list \<Rightarrow> store_error + int" where
  "DashboardStore_CountStudents E n =
     sql_count ''failed to count students'' (lv_db E n 0) (\<lambda>u. hasText ''STUDENT'' (us_Roles u) \<and> us_DeleteAt u = 0)"

definition DashboardStore_GetChildrenByParentID :: "lmsEnv \<Rightarrow> nat \<Rightarrow> string \<Rightarrow> User list \<Rightarrow> store_error + User list" where
  "DashboardStore_GetChildrenByParentID E n parentID =
     sql_all ''failed to get children by parent id'' (lv_db E n 0)
       (\<lambda>u. us_DeleteAt u = 0 \<and> (case us_Props u of None \<Rightarrow> False | Some m \<Rightarrow> gm_get m ''parent_id'' = Some parentID))"

text \<open>Year and month of a number of seconds since 1970, \<^verbatim>\<open>EXTRACT(... FROM to_timestamp(...))\<close>.\<close>

definition yearMonth :: "int \<Rightarrow> int \<times> int" where
  "yearMonth sec = (case dateOfDay (719162 + sec div 86400) of (y, m, d) \<Rightarrow> (y, m))"

definition LeadStore_CountNewThisMonth :: "lmsEnv \<Rightarrow> nat \<Rightarrow> string \<Rightarrow> Lead list \<Rightarrow> store_error + int" where
  "LeadStore_CountNewThisMonth E n counselorId =
     sql_count ''failed to count new leads this month'' (lv_db E n 0)
       (\<lambda>l. ld_Status l = ''NEW'' \<and> yearMonth (ld_Createat l) = yearMonth (lv_now E n 0 div 1000)
          \<and> (IsValidId (lv_letter E) counselorId \<longrightarrow> ld_CounselorID l = Some counselorId))"

section \<open>Dashboards\<close>

record DashboardStats =
  ds_TotalStudents :: "int option"
  ds_TotalTeachers :: "int option"
  ds_TotalClasses :: "int option"
  ds_TotalCourses :: "int option"
  ds_TotalLeads :: "int option"
  ds_TotalRevenue :: "string option"
  ds_TotalNewLeadsThisMonth :: "int option"
  ds_TotalChildren :: "int option"
  ds_TotalUpcomingSessions :: "int option"

definition noStats :: DashboardStats where
  "noStats = \<lparr>ds_TotalStudents = None, ds_TotalTeachers = None, ds_TotalClasses = None, ds_TotalCourses = None, ds_TotalLeads = None,
     ds_TotalRevenue = None, ds_TotalNewLeadsThisMonth = None, ds_TotalChildren = None, ds_TotalUpcomingSessions = None\<rparr>"

text \<open>The options of a count with one condition.\<close>

definition countWhere :: "string \<Rightarrow> string \<Rightarrow> SearchOpts" where
  "countWhere column x = \<lparr>so_WhereAnds = [\<lparr>wc_Column = column, wc_Value = JStr x, wc_Operator = OperatorEq\<rparr>], so_WhereOrs = [], so_Orderings = [],
     so_Limit = 0, so_Offset = 0, so_CountTotal = True\<rparr>"

definition getAdminDashboard :: "lmsEnv \<Rightarrow> ('w lms, Class) sqlDb \<Rightarrow> nat \<Rightarrow> 'w lms \<Rightarrow> app_error + DashboardStats" where
  "getAdminDashboard E D n s =
     (case DashboardStore_CountStudents E n (lm_users s) of
        Inl _ \<Rightarrow> Inl (AppError ''app.lms.dashboard.total_students.app_error'' 500)
      | Inr totalStudents \<Rightarrow>
          (case ClassStore_Search D (n + 1) (countWhere ''classes.status'' ''OPEN'') '''' s of
             None \<Rightarrow> Inl (AppError ''app.lms.dashboard.active_classes.app_error'' 500)
           | Some (_, activeClasses) \<Rightarrow>
               (case LeadStore_CountNewThisMonth E (n + 3) '''' (lm_leads s) of
                  Inl _ \<Rightarrow> Inl (AppError ''app.lms.dashboard.new_leads.app_error'' 500)
                | Inr newLeads \<Rightarrow> Inr (noStats\<lparr>ds_TotalStudents := Some totalStudents, ds_TotalClasses := Some activeClasses,
                    ds_TotalNewLeadsThisMonth := Some newLeads\<rparr>))))"

definition getCounselorDashboard :: "lmsEnv \<Rightarrow> nat \<Rightarrow> string \<Rightarrow> 'w lms \<Rightarrow> app_error + DashboardStats" where
  "getCounselorDashboard E n i s =
     (case LeadStore_CountNewThisMonth E n i (lm_leads s) of
        Inl _ \<Rightarrow> Inl (AppError ''app.lms.dashboard.new_leads.app_error'' 500)
      | Inr newLeads \<Rightarrow> Inr (noStats\<lparr>ds_TotalNewLeadsThisMonth := Some newLeads\<rparr>))"

definition getTeacherDashboard :: "('w lms, Class) sqlDb \<Rightarrow> nat \<Rightarrow> string \<Rightarrow> 'w lms \<Rightarrow> app_error + DashboardStats" where
  "getTeacherDashboard D n userID s =
     (case ClassStore_Search D n (countWhere ''classes.teacher_id'' userID) '''' s of
        None \<Rightarrow> Inl (AppError ''app.lms.dashboard.my_classes.app_error'' 500)
      | Some (_, myClasses) \<Rightarrow> Inr (noStats\<lparr>ds_TotalClasses := Some myClasses\<rparr>))"

definition getParentDashboard :: "lmsEnv \<Rightarrow> nat \<Rightarrow> string \<Rightarrow> 'w lms \<Rightarrow> app_error + DashboardStats" where
  "getParentDashboard E n userID s =
     (case DashboardStore_GetChildrenByParentID E n userID (lm_users s) of
        Inl _ \<Rightarrow> Inl (AppError ''app.lms.dashboard.child_info.app_error'' 500)
      | Inr children \<Rightarrow> Inr (noStats\<lparr>ds_TotalChildren := Some (int (length children))\<rparr>))"

definition getStudentDashboard :: "lmsEnv \<Rightarrow> nat \<Rightarrow> string \<Rightarrow> 'w lms \<Rightarrow> app_error + DashboardStats" where
  "getStudentDashboard E n userID s =
     (case StudentClassStore_CountByStudent E n userID ''ACTIVE'' (lm_students s) of
        Inl _ \<Rightarrow> Inl (AppError ''app.lms.dashboard.student_classes.app_error'' 500)
      | Inr myClasses \<Rightarrow>
          (case LMSSessionStore_CountUpcomingByStudent E (n + 1) (vnNow (lv_now E (n + 1) 0) div dayMs * dayMs) userID (lm_students s) (lm_sessions s) of
             Inl _ \<Rightarrow> Inl (AppError ''app.lms.dashboard.upcoming_sessions.app_error'' 500)
           | Inr upcoming \<Rightarrow> Inr (noStats\<lparr>ds_TotalClasses := Some myClasses, ds_TotalUpcomingSessions := Some upcoming\<rparr>)))"

definition GetDashboard :: "lmsEnv \<Rightarrow> ('w lms, Class) sqlDb \<Rightarrow> nat \<Rightarrow> string \<Rightarrow> string \<Rightarrow> 'w lms \<Rightarrow> app_error + DashboardStats" where
  "GetDashboard E D n role userID s =
     (if role = RoleLmsSuperAdminRoleId \<or> role = RoleLmsAdminRoleId then getAdminDashboard E D n s
      else if role = RoleLmsTeacherRoleId then getTeacherDashboard D n userID s
      else if role = RoleLmsParentRoleId then getParentDashboard E n userID s
      else if role = RoleLmsStudentRoleId then getStudentDashboard E n userID s
      else if role = RoleLmsCounselorRoleId then getCounselorDashboard E n userID s
      else Inl (AppError ''app.lms.dashboard.invalid_role.app_error'' 400))"

text \<open>Role and user are parameters of the request; a missing role is refused.\<close>

definition getDashboard ::
  "'w lmsServer \<Rightarrow> ('w lms, Class) sqlDb \<Rightarrow> nat \<Rightarrow> Session \<Rightarrow> string option \<Rightarrow> string \<Rightarrow> 'w lms \<Rightarrow> DashboardStats response \<times> 'w lms" where
  "getDashboard S D n se role userId =
     withPermission S se PermissionLmsManageDashboard
       (\<lambda>s. case role of None \<Rightarrow> (Failed invalidUrlParam, s) | Some r \<Rightarrow> look (GetDashboard (sx_env S) D n r userId s) s)"

section \<open>Reports\<close>

text \<open>A report is its type and its numbers.\<close>

type_synonym report = "string \<times> (string \<times> rat) list"

definition countRow :: "lmsEnv \<Rightarrow> nat \<Rightarrow> string \<Rightarrow> ('r \<Rightarrow> bool) \<Rightarrow> 'r list \<Rightarrow> app_error + rat" where
  "countRow E n msg p t = (if lv_db E n 0 then Inl (AppError msg 500) else Inr (of_nat (length (filter p t))))"

definition GetReport :: "lmsEnv \<Rightarrow> nat \<Rightarrow> string \<Rightarrow> 'w lms \<Rightarrow> app_error + report" where
  "GetReport E n reportType s =
     (if reportType = ''enrollment'' then
        (case countRow E n ''app.lms.report.enrollment.app_error'' (\<lambda>sc. sc_Status sc = ''ACTIVE'') (lm_students s) of
           Inl e \<Rightarrow> Inl e
         | Inr k \<Rightarrow> Inr (reportType, [(''totalEnrollments'', k)]))
      else if reportType = ''revenue'' then
        (if lv_db E n 0 then Inl (AppError ''app.lms.report.revenue.app_error'' 500)
         else Inr (reportType, [(''totalRevenue'', sum_list (map pa_Amount (fi_payments (lm_finance s))))]))
      else if reportType = ''attendance'' then
        (case countRow E n ''app.lms.report.attendance.app_error'' (\<lambda>a. at_Status a = ''PRESENT'') (lm_attendance s) of
           Inl e \<Rightarrow> Inl e
         | Inr present \<Rightarrow>
             (case countRow E (n + 1) ''app.lms.report.attendance.app_error'' (\<lambda>a. at_Status a = ''ABSENT'') (lm_attendance s) of
                Inl e \<Rightarrow> Inl e
              | Inr absent \<Rightarrow> Inr (reportType, [(''present'', present), (''absent'', absent)])))
      else if reportType = ''course-progress'' then
        (case countRow E n ''app.lms.report.course_progress.app_error'' (\<lambda>_. True) (lm_submissions s) of
           Inl e \<Rightarrow> Inl e
         | Inr all \<Rightarrow>
             (case countRow E (n + 1) ''app.lms.report.course_progress.app_error'' (\<lambda>r. su_Feedback r \<noteq> None) (lm_submissions s) of
                Inl e \<Rightarrow> Inl e
              | Inr graded \<Rightarrow> Inr (reportType, [(''totalSubmissions'', all), (''gradedSubmissions'', graded)])))
      else Inl (AppError ''app.lms.report.invalid_type.app_error'' 400))"

definition getReport :: "'w lmsServer \<Rightarrow> nat \<Rightarrow> Session \<Rightarrow> string \<Rightarrow> 'w lms \<Rightarrow> report response \<times> 'w lms" where
  "getReport S n se reportType = withPermission S se PermissionLmsViewReports (\<lambda>s. look (GetReport (sx_env S) n reportType s) s)"

section \<open>What the administrators see\<close>

lemma dateOfDay_year:
  assumes "dateOfDay n = (y, m, d)"
  shows "yearStart y \<le> n" "n < yearStart y + 366"
proof -
  have v: "validDate (y, m, d)" "civilDay (y, m, d) = n" using dateOfDay_valid[of n] civilDay_dateOfDay[of n] assms by simp_all
  have "1 \<le> m" "m \<le> 12" "1 \<le> d" "d \<le> daysIn y m" using v(1) by (auto simp: validDate_def)
  moreover from this have "daysBefore y m + d \<le> yearLen y" by (intro daysBefore_len)
  moreover have "0 \<le> daysBefore y m" by (simp add: daysBefore_def sum_daysIn_nonneg)
  ultimately show "yearStart y \<le> n" "n < yearStart y + 366"
    using v(2) by (auto simp: civilDay_def yearLen_def split: if_splits)
qed

lemma far_seconds_other_year:
  assumes "a + 366 * 86400 \<le> b"
  shows "yearMonth a \<noteq> yearMonth b"
proof
  assume e: "yearMonth a = yearMonth b"
  obtain y m d where a: "dateOfDay (719162 + a div 86400) = (y, m, d)" by (rule prod_cases3)
  obtain y' m' d' where b: "dateOfDay (719162 + b div 86400) = (y', m', d')" by (rule prod_cases3)
  have "y = y'" using e a b by (simp add: yearMonth_def)
  then show False using dateOfDay_year[OF a] dateOfDay_year[OF b] assms by simp
qed

lemma hasText_set: "hasText p s \<Longrightarrow> set p \<subseteq> set s"
  by (auto simp: hasText_def list_ex_iff) (metis in_set_dropD in_set_takeD)


definition busyLms :: "(string \<Rightarrow> string list) lms" where
  "busyLms = emptyLms\<lparr>lm_users := [demoUser\<lparr>us_Roles := ''system_user lms_student''\<rparr>], lm_leads := [demoLead\<lparr>ld_Status := ''NEW'', ld_Createat := 1700000000000\<rparr>]\<rparr>"

definition fourClasses :: "((string \<Rightarrow> string list) lms, Class) sqlDb" where
  "fourClasses = \<lparr>db_all = \<lambda>_ _ _. Some [], db_count = \<lambda>_ _ _. Some 4\<rparr>"


end
