(* ===== verification/Spec2Isabelle.thy ===== *)
theory Spec2Isabelle
  imports Calls_Members Calls_Rtcd Sfu_Calls Lms_Dashboard
begin

text \<open>
  \<^bold>\<open>Verification of the class-management server.\<close>

  The program is a fork of the Mattermost server with two subsystems of its own: \<^emph>\<open>calls\<close>, audio and video
  conferences in a channel, and the \<^emph>\<open>LMS\<close>, the management of a school (classes, lessons, enrolment, attendance,
  homework, tuition, leads, accounts, class chat). This development models the code of these two subsystems with the
  parts of the Mattermost core they rest on, and the control part of the SFU that carries the media of calls
  (\<^verbatim>\<open>src/rtcd\<close>), and proves what makes them correct. Paths below are relative to \<^verbatim>\<open>src/server\<close> unless they start with
  \<^verbatim>\<open>rtcd\<close>.

  \<^bold>\<open>The calls subsystem\<close> (\<^verbatim>\<open>channels/calls\<close>). A browser talks to the service by websocket messages and REST requests; the
  media go through an SFU, an external process that the service steers over a control connection. The service keeps
  the live calls in memory, in a sharded registry with an index of sessions and an index of channels, and writes the
  calls, their sessions, jobs and statistics to the database.

  \<^item> \<open>Calls_State\<close> - \<^verbatim>\<open>session.go\<close>, \<^verbatim>\<open>state.go\<close>: sessions as a heap of records, the state of one call, election of the host.
  \<^item> \<open>Calls_Registry\<close> - \<^verbatim>\<open>shard.go\<close>, \<^verbatim>\<open>registry.go\<close>, \<^verbatim>\<open>channel_index.go\<close>: the registries. The locale \<open>kv_index\<close> is
    their contract, interpreted on the sharded registry and on the channel index.
  \<^item> \<open>Calls_Config\<close> - \<^verbatim>\<open>config.go\<close>, \<^verbatim>\<open>ice_servers.go\<close>, \<^verbatim>\<open>ws_protocol.go\<close>, the calls section of \<^verbatim>\<open>public/model/config.go\<close>.
  \<^item> \<open>Calls_Store\<close> - \<^verbatim>\<open>public/model/calls.go\<close> and the five call stores of \<^verbatim>\<open>store/sqlstore\<close>; the locale \<open>keyed_table\<close> of
    \<open>Sql_Tables\<close> is interpreted on each table.
  \<^item> \<open>Calls_Service\<close> - \<^verbatim>\<open>service.go\<close>, \<^verbatim>\<open>api.go\<close>, \<^verbatim>\<open>posts.go\<close>, \<^verbatim>\<open>channels.go\<close>: start and end of a call, views, settings.
  \<^item> \<open>Calls_Messages\<close> - \<^verbatim>\<open>client_messages.go\<close>, \<^verbatim>\<open>rtcd_relay.go\<close>, \<^verbatim>\<open>host_controls.go\<close>, \<^verbatim>\<open>lifecycle.go\<close>: every message of a
    participant and of the SFU, the host controls, disconnect timers and the idle reaper.
  \<^item> \<open>Calls_Invariant\<close>, \<open>Calls_Machine\<close> - the invariant \<open>svc_inv\<close>, kept by every entry point; the service as the step
    relation \<open>svc_step\<close> with \<open>reachable\<close>, an instance of the locale \<open>step_invariant\<close>.
  \<^item> \<open>Calls_Rooms\<close>, \<open>Calls_Members\<close> - the abstract specification, rooms with members, and the simulation; what joining,
    leaving, reconnecting and the host controls achieve. \<open>Calls_Demo\<close> is a run on which the hypotheses hold.
  \<^item> \<open>Calls_Rtcd\<close> - \<^verbatim>\<open>rtcd_client.go\<close>, \<^verbatim>\<open>rtcd_conn.go\<close>: discovery, choice and healing of the SFU hosts, and the retry
    loop of \<^verbatim>\<open>service.go\<close> that brings them up.

  \<^bold>\<open>The SFU\<close> (\<^verbatim>\<open>rtcd/service\<close>). The call service registers with it as a client, opens a websocket and sends join, leave,
  reconnect and RTC messages; the SFU keeps groups (one per client), calls and sessions.

  \<^item> \<open>Sfu_Auth\<close> - \<^verbatim>\<open>auth.go\<close>, \<^verbatim>\<open>auth/\<close>, \<^verbatim>\<open>store/bitcask.go\<close>: registration, login, bearer tokens and the handlers.
  \<^item> \<open>Sfu_Calls\<close> - \<^verbatim>\<open>service.go\<close>, \<^verbatim>\<open>session.go\<close> and of \<^verbatim>\<open>rtc/\<close> the tables of sessions, the screen and the control messages.
    Both have step relations whose invariant is an instance of \<open>step_invariant\<close>.

  \<^bold>\<open>The LMS.\<close> A request passes the router and the permission check (\<^verbatim>\<open>channels/api4/lms_api\<close>), the application layer
  (\<^verbatim>\<open>channels/app/lms\<close>), the validation and hooks (\<^verbatim>\<open>public/model_helper/lms.go\<close>) and the stores
  (\<^verbatim>\<open>channels/store/sqlstore/lms_store\<close>). Classes have a chat channel in the Mattermost core, which the LMS keeps in step
  with the enrolment.

  \<^item> \<open>Go_Strings\<close>, \<open>Go_Time\<close>, \<open>Lms_Dates\<close> - the string and time functions of Go that are used; the calendar dates of
    \<^verbatim>\<open>public/utils/types.go\<close> with their JSON and database forms.
  \<^item> \<open>Lms_Base\<close>, \<open>Lms_Rows\<close>, \<open>Lms_Stores\<close>, \<open>Lms_Lookups\<close> - rows, hooks, validation, and the methods of the stores. The locales
    \<open>entity_store\<close> and \<open>updatable_store\<close> are the contract of a table; they are interpreted on all of them.
  \<^item> \<open>Lms_Sessions\<close>, \<open>Lms_Finance\<close>, \<open>Lms_Catalog\<close>, \<open>Lms_Classes\<close> - \<^verbatim>\<open>session.go\<close>; \<^verbatim>\<open>tuition.go\<close>, \<^verbatim>\<open>payment.go\<close>,
    \<^verbatim>\<open>fee_refund.go\<close>, \<^verbatim>\<open>additional_fee.go\<close>, \<^verbatim>\<open>fee_package.go\<close>; the single-table entities; \<^verbatim>\<open>class.go\<close>, \<^verbatim>\<open>attendance.go\<close>,
    \<^verbatim>\<open>homework.go\<close>. Timetable, books and roster are step relations, instances of \<open>step_invariant\<close>.
  \<^item> \<open>Passwords\<close>, \<open>Users\<close>, \<open>Lms_Students\<close> - \<^verbatim>\<open>channels/app/password\<close>; the account, its hooks and its store; \<^verbatim>\<open>student.go\<close>,
    \<^verbatim>\<open>user.go\<close>, \<^verbatim>\<open>lead.go\<close>, \<^verbatim>\<open>public.go\<close>.
  \<^item> \<open>Lms_Chat\<close> - \<^verbatim>\<open>chat.go\<close>: teams, class channels and their members.
  \<^item> \<open>Lms_Access\<close>, \<open>Lms_Api\<close>, \<open>Lms_Routes\<close> - permissions, default roles and the permission check; every handler of
    \<^verbatim>\<open>lms_api\<close>; the server as one function \<open>serve\<close> of a request. \<open>Lms_Typed\<close> is the type of the tables.
  \<^item> \<open>Sql_Query\<close>, \<open>Lms_Search\<close>, \<open>Lms_Dashboard\<close> - \<^verbatim>\<open>public/utils/query.go\<close> and the column validators; the list requests from
    the handler to the query; dashboards and reports.

  \<^bold>\<open>How the code is modelled.\<close>

  \<^item> Structs are records, enumerations datatypes, Go maps association lists with distinct keys whose order is any order,
    tables lists of rows, errors a sum, a panic the answer \<open>Crash\<close>. Pointers shared by several maps (sessions, calls) are
    references into an explicit heap. An \<^verbatim>\<open>int64\<close> that may overflow is wrapped (\<open>wrap64\<close>), hashes are 32-bit words.
  \<^item> What a program cannot decide itself - clock, fresh ids, refusal of a statement by the database, failure of a send -
    is an oracle, read at an ever increasing tick: \<open>env\<close> for the calls, \<open>lmsEnv\<close> for the LMS, \<open>rtcdNet\<close> for the
    host manager, \<open>sfuEnv\<close> and \<open>rtcLib\<close> for the SFU. Theorems hold for all oracles; assumptions about them are named (\<open>env_ok\<close>, \<open>fresh_ids\<close>, \<open>world_ok\<close>, \<open>pages_ok\<close>).
  \<^item> Code outside the repository or in parts of the core that are not modelled is a parameter: \<open>userLib\<close> (Unicode tables,
    mail addresses, JSON), \<open>hashLib\<close> (PBKDF2, bcrypt, random salt), \<open>chatApi\<close> (channels of the core), the roles of a name,
    creation of an account with its welcome steps, file access, \<open>sqlDb\<close> (running a built query), \<open>rtcdNet\<close> (DNS, the SFU client).
  \<^item> A handler is one atomic step; inside it the order of effects is that of the code. The calls service holds a lock per
    channel while it starts a call, the LMS relies on single statements.
  \<^item> Reads go to the same tables as writes: the delay of a replica is not modelled. The server runs in UTC. Foreign keys
    act between requests: \<open>lms_cascaded\<close> lets rows disappear or lose an optional reference.
  \<^item> Loops: \<open>joinLoop\<close> has the three attempts of the code. \<open>saveRetry\<close> (new user names) and \<open>initLoop\<close> (start of the SFU
    manager) are partial functions, and it is proved that they return, with a bound on the attempts. No other fuel is used.

  \<^bold>\<open>What is shown.\<close>

  \<^item> Calls (this theory, \<open>Calls_State\<close>, \<open>Calls_Registry\<close>, \<open>Calls_Config\<close>): every step of the service refines a step of the
    room specification; one live call per channel, one host per call, one screen sharer, one end record per call; start,
    end, join, leave and reconnect do exactly what they say and a failed start leaves no trace; host controls refuse
    others; the reaper ends exactly the empty calls; sharding is invisible; secrets of ICE servers are not logged.
  \<^item> SFU hosts (\<open>Calls_Rtcd\<close>): a host chosen for a call is usable, the pool follows the DNS, the retry loop ends, a
    failed start leaves no connection behind.
  \<^item> SFU (\<open>Sfu_Auth\<close>, \<open>Sfu_Calls\<close>): a login is worth one token, a registration can be used until it is ended and by nobody
    afterwards, the tables of sessions agree while session ids are not shared between calls.
  \<^item> LMS: no teacher is double-booked, series are complete, the books balance, enrolment and attendance are exact, dates
    and passwords survive their encodings, class channels have exactly the right members.
  \<^item> LMS server: a request without permission changes nothing, all tables stay well typed under every sequence of
    requests and cascades, money needs a permission; pages of a list are the list, and checked searches are safe.
  \<^item> Where the code does not do what it means to, the theorem states what it does: taken user names are never resolved,
    leads cannot be converted, a password reset keeps the password, an edit of a student grants any role, a list request
    chooses SQL text, the dashboard counts nothing.

  \<^bold>\<open>Not modelled.\<close> The media part of the SFU (WebRTC peer connections, tracks, negotiation, voice detection)
  and its websocket transport and client library; the generated layers \<^verbatim>\<open>store/retrylayer\<close>, \<^verbatim>\<open>store/timerlayer\<close>,
  \<^verbatim>\<open>public/lms_models\<close>, the mocks and test helpers; the front end \<^verbatim>\<open>lms-fe\<close>; the parts of Mattermost that calls and LMS do
  not use (posts, search, plugins, imports, cluster), which are the bulk of the repository and are maintained upstream;
  the goroutines that only forward bytes between the SFU and the service, and interleavings inside a handler; the wrapper
  that authenticates a session; JSON encoding and decoding of bodies other than dates; metrics, audit and log output;
  the rounding of decimal columns.
\<close>

section \<open>The state of the call service\<close>



text \<open>
  C3: One live call per channel. In every reachable state two call ids whose calls belong to the same
  channel are the same call, the registry of calls and the channel index agree on it, and what
  the lookup returns has not ended.
\<close>

theorem one_live_call_per_channel:
  assumes "reachable E s" and "GetCallState k s = Inr v" and "GetCallState k' s = Inr v'"
    and "cv_ChannelID v = cv_ChannelID v'"
  shows "k = k' \<and> v = v' \<and> cv_CallID v = k \<and> \<not> 0 < cv_EndAt v
    \<and> GetCallStateByChannel (cv_ChannelID v) s = Inr v"
proof -
  note inv = reachable_inv[OF assms(1)]
  obtain c where c: "reg_get (sv_shards s) k = Some c" and v: "v = callStateView c s"
    using assms(2) by (auto simp: GetCallState_def split: option.splits)
  obtain d where d: "reg_get (sv_shards s) k' = Some d" and v': "v' = callStateView d s"
    using assms(3) by (auto simp: GetCallState_def split: option.splits)
  note C = inv_shardsD[OF inv c] and D = inv_shardsD[OF inv d]
  have "cs_channelID (sv_calls s c) = cs_channelID (sv_calls s d)"
    using assms(4) by (simp add: v v' callStateView_def split_def Let_def)
  with C(4) D(4) have cd: "c = d" by (metis option.inject)
  have "cv_CallID v = k" "\<not> 0 < cv_EndAt v" "cv_ChannelID v = cs_channelID (sv_calls s c)"
    using C(2,3) by (simp_all add: v callStateView_def split_def Let_def endedAt_def ended_def)
  moreover from this have "GetCallStateByChannel (cv_ChannelID v) s = Inr v"
    using C(4) by (simp add: GetCallStateByChannel_def v)
  moreover have "k = k'" using C(2) D(2) cd by blast
  ultimately show ?thesis unfolding v' v cd by blast
qed

theorem one_live_call_per_channel_witness:
  "\<exists>v. GetCallState ''kxxxx'' demo_s2 = Inr v \<and> GetCallStateByChannel ''ch'' demo_s2 = Inr v \<and> cv_Participants v = 2"
proof -
  obtain ev sfu where s2: "demo_s2 = demo_at2 ev sfu" by (rule demo_s2_at)
  obtain v where v: "GetCallState ''kxxxx'' demo_s2 = Inr v" "cv_ChannelID v = ''ch''" "cv_Participants v = 2"
    by (simp add: s2 demo_eval GetCallState_def reg_get_def shard_get_def shardFor_def callStateView_def snapshot_def Let_def)
  with one_live_call_per_channel[OF demo_reachable(3) v(1) v(1)] show ?thesis by auto
qed

text \<open>
  C4: What a client sees of a live call is coherent: as many participants as sessions, session ids
  without duplicates, nobody is host of an empty call, and otherwise exactly one session is marked
  as host, the one the call names.
\<close>

theorem live_call_has_one_host:
  assumes "reachable E s" and "GetCallState k s = Inr v"
  shows "cv_Participants v = length (cv_Sessions v) \<and> distinct (map sw_ID (cv_Sessions v))
    \<and> (cv_HostSessionID v = '''' \<longleftrightarrow> cv_Sessions v = [])
    \<and> map sw_ID (filter sw_IsHost (cv_Sessions v)) = (if cv_Sessions v = [] then [] else [cv_HostSessionID v])"
proof -
  note inv = reachable_inv[OF assms(1)]
  obtain c where c: "reg_get (sv_shards s) k = Some c" and v: "v = callStateView c s"
    using assms(2) by (auto simp: GetCallState_def split: option.splits)
  show ?thesis
    unfolding v by (rule callStateView_coherent[OF inv_callsD(1)[OF inv inv_shardsD(1)[OF inv c]]])
qed

theorem live_call_has_one_host_witness:
  "\<exists>v. GetCallState ''kxxxx'' demo_s2 = Inr v
     \<and> map sw_ID (filter sw_IsHost (cv_Sessions v)) = [''a''] \<and> map sw_ID (cv_Sessions v) = [''a'', ''b'']"
proof -
  obtain ev sfu where s2: "demo_s2 = demo_at2 ev sfu" by (rule demo_s2_at)
  obtain v where v: "GetCallState ''kxxxx'' demo_s2 = Inr v" "map sw_ID (cv_Sessions v) = [''a'', ''b'']"
      "cv_HostSessionID v = ''a''"
    by (simp add: s2 demo_eval GetCallState_def reg_get_def shard_get_def shardFor_def callStateView_def
        snapshot_def session_view_def Let_def)
  with live_call_has_one_host[OF demo_reachable(3) v(1)] show ?thesis by (auto split: if_splits)
qed



text \<open>
  C6: The end of a call is recorded once. In every reachable state the hub has seen at most one
  \<^verbatim>\<open>call_end\<close> event of each call and the database holds at most one statistics row of each call this
  server created; a call that is still live has neither.
\<close>

theorem call_end_recorded_once:
  assumes "reachable E s" and "c < sv_nextC s"
  defines "k \<equiv> cs_callID (sv_calls s c)"
  shows "length (filter (\<lambda>e. ev_name e = ''call_end'' \<and> map_of (ev_data e) ''call_id'' = Some (VStr k)) (sv_events s)) \<le> 1
    \<and> length (filter (\<lambda>r. st_CallID r = k) (sv_statRows s)) \<le> 1
    \<and> (\<forall>v. GetCallState k s = Inr v \<longrightarrow>
         (\<forall>e \<in> set (sv_events s). ev_name e = ''call_end'' \<longrightarrow> map_of (ev_data e) ''call_id'' \<noteq> Some (VStr k))
         \<and> k \<notin> st_CallID ` set (sv_statRows s))"
proof -
  note inv = reachable_inv[OF assms(1)]
  show ?thesis
    unfolding k_def using ends_at_most_once[OF inv] stats_at_most_once[OF inv assms(2)] live_not_recorded[OF inv]
    by blast
qed

theorem call_end_recorded_once_witness:
  "length (filter (\<lambda>e. ev_name e = ''call_end'' \<and> map_of (ev_data e) ''call_id'' = Some (VStr ''kxxxx'')) (sv_events demo_s2)) \<le> 1
    \<and> ''kxxxx'' \<notin> st_CallID ` set (sv_statRows demo_s2)"
proof -
  obtain ev sfu where s2: "demo_s2 = demo_at2 ev sfu" by (rule demo_s2_at)
  have k: "cs_callID (sv_calls demo_s2 0) = ''kxxxx''" "0 < sv_nextC demo_s2" by (simp_all add: s2 demo_eval)
  obtain v where "GetCallState ''kxxxx'' demo_s2 = Inr v"
    by (simp add: s2 demo_eval GetCallState_def reg_get_def shard_get_def shardFor_def)
  with call_end_recorded_once[OF demo_reachable(3) k(2), unfolded k] show ?thesis by blast
qed

text \<open>
  C7: Starting a call is idempotent per channel: once a start has succeeded, any further start on the
  channel returns the same call on the same SFU host and changes nothing at all.
\<close>

theorem StartCall_idempotent:
  assumes "env_ok E" and "reachable E s" and "StartCall E ch owner post s = (Inr r, t)" and "owner' \<noteq> ''''"
  shows "\<exists>ts. StartCall E ch owner' post' t = (Inr (r\<lparr>sr_StartAt := ts\<rparr>), t)"
  using StartCall_again[OF reachable_inv[OF assms(2)] assms(1,3,4)] by blast

theorem StartCall_idempotent_witness:
  "\<exists>r t ts. StartCall demo_env ''ch'' ''ann'' '''' demo_s0 = (Inr r, t) \<and> t \<noteq> demo_s0
     \<and> StartCall demo_env ''ch'' ''bob'' '''' t = (Inr (r\<lparr>sr_StartAt := ts\<rparr>), t)"
proof -
  obtain r t where t: "StartCall demo_env ''ch'' ''ann'' '''' demo_s0 = (Inr r, t)" "sv_nextC t \<noteq> sv_nextC demo_s0"
    by (simp add: demo_start_defs demo_join_defs)
  with StartCall_idempotent[OF demo_env_ok demo_reachable(1) t(1), of "''bob''"] show ?thesis by fastforce
qed

text \<open>
  C8: A start that fails leaves no trace. Whatever the reason (calls disabled, no SFU host, a row the
  database refuses) no lookup by call, channel or session changes, no call row is written and
  nothing is announced.
\<close>

theorem StartCall_failure_no_trace:
  assumes "env_ok E" and "reachable E s" and "StartCall E ch owner post s = (Inl e, t)"
  shows "(\<forall>k. GetCallState k t = GetCallState k s) \<and> rooms t = rooms s \<and> sv_chan t = sv_chan s
    \<and> sv_index t = sv_index s \<and> sv_callRows t = sv_callRows s \<and> sv_events t = sv_events s
    \<and> sv_posts t = sv_posts s \<and> sv_sfu t = sv_sfu s"
proof -
  note inv = reachable_inv[OF assms(2)]
  note st = StartCall_failure_state[OF inv assms(1,3)]
  have "GetCallState k t = GetCallState k s" for k
    using st by (intro GetCallState_cong[OF inv]) auto
  moreover have "rooms t = rooms s" using rooms_StartCall[OF inv assms(1), of ch owner post] assms(3) by simp
  ultimately show ?thesis using st StartCall_failure_output[OF assms(3)] by blast
qed

theorem StartCall_failure_no_trace_witness:
  "\<exists>e t. StartCall demo_env ''other'' '''' '''' demo_s2 = (Inl e, t) \<and> (\<forall>k. GetCallState k t = GetCallState k demo_s2)"
proof -
  obtain ev sfu where s2: "demo_s2 = demo_at2 ev sfu" by (rule demo_s2_at)
  obtain e t where t: "StartCall demo_env ''other'' '''' '''' demo_s2 = (Inl e, t)"
    by (simp add: s2 demo_eval StartCall_def enabled_def derefOr_def demo_cfg_def SetDefaults_def orDefault_def)
  with StartCall_failure_no_trace[OF demo_env_ok demo_reachable(3) t] show ?thesis by blast
qed



section \<open>Participants\<close>

text \<open>
  C10: Leaving undoes joining. A join by a new connection that succeeds adds exactly that member to the
  room; a join that is refused changes no room; and when the same connection then leaves, every
  room is as before the join, except that a call nobody was in is closed.
\<close>

theorem join_leave_roundtrip:
  assumes "env_ok E" and "reachable E s" and "connID \<noteq> ''''" and "ch \<noteq> ''''"
    and "\<forall>m. rooms s ch = Some m \<longrightarrow> m connID = None"
    and "handleJoin E connID user [(''channelID'', VStr ch)] s = (res, t)"
    and "handleLeave E connID user [(''channelID'', VStr ch)] t = (res', u)"
  shows "(case res of Some _ \<Rightarrow> rooms t = rooms s
     | None \<Rightarrow> rooms t = room_enter ch connID user (rooms s) \<and> res' = None
         \<and> rooms u = (if rooms s ch = Some Map.empty then (rooms s)(ch := None) else rooms s))"
proof (cases res)
  case (Some e)
  then show ?thesis
    using rooms_handleJoin[OF reachable_inv[OF assms(2)] assms(1,3), of user "[(''channelID'', VStr ch)]"] assms(6) by simp
next
  case None
  note inv = reachable_inv[OF assms(2)]
  have ch: "getString [(''channelID'', VStr ch)] ''channelID'' = ch" by (simp add: getString_def)
  have join: "handleJoin E connID user [(''channelID'', VStr ch)] s = (None, t)" using assms(6) None by simp
  have enter: "rooms t = room_enter ch connID user (rooms s)"
    using rooms_handleJoin[OF inv assms(1,3), of user "[(''channelID'', VStr ch)]"] join ch by simp
  have it: "svc_inv E t" using svc_inv_handleJoin[OF inv assms(1,3), of user "[(''channelID'', VStr ch)]"] join by simp
  obtain c r where b: "ci_get (sv_chan t) ch = Some c" "findByConn connID (sv_calls t c) = Some r"
      "cs_get connID (sv_calls t c) = Some r" "ss_sessionID (sv_heap t r) = connID"
    using handleJoin_bound[OF inv assms(1,3) join] ch by metis
  have "fst (handleLeave E connID user [(''channelID'', VStr ch)] t) = None"
    "rooms (snd (handleLeave E connID user [(''channelID'', VStr ch)] t)) = room_exit ch connID (rooms t)"
    using handleLeave_exits[OF it, of "[(''channelID'', VStr ch)]" c connID r, unfolded ch] assms(4) b by simp_all
  moreover have "room_exit ch connID (room_enter ch connID user (rooms s)) =
      (if rooms s ch = Some Map.empty then (rooms s)(ch := None) else rooms s)"
    using assms(5) by (intro room_exit_enter) blast
  ultimately show ?thesis using None enter assms(7) by simp
qed

theorem join_leave_roundtrip_witness:
  "\<exists>t u. handleJoin demo_env ''b'' ''bob'' [(''channelID'', VStr ''ch'')] demo_s1 = (None, t)
     \<and> handleLeave demo_env ''b'' ''bob'' [(''channelID'', VStr ''ch'')] t = (None, u)
     \<and> rooms t \<noteq> rooms demo_s1 \<and> rooms u = rooms demo_s1"
proof -
  let ?d = "[(''channelID'', VStr ''ch'')]"
  obtain ev sfu where s1: "demo_s1 = demo_at1 ev sfu" by (rule demo_s1_at)
  have r1: "rooms demo_s1 ''ch'' = Some [''a'' \<mapsto> ''ann'']"
    by (simp add: s1 demo_eval rooms_def members_def ci_get_def fun_eq_iff)
  obtain t where t: "handleJoin demo_env ''b'' ''bob'' ?d demo_s1 = (None, t)"
    by (simp add: s1 demo_eval demo_join_defs demo_cfg_def SetDefaults_def orDefault_def eval_nat_numeral cong: option.case_cong)
  obtain res u where u: "handleLeave demo_env ''b'' ''bob'' ?d t = (res, u)" by (cases "handleLeave demo_env ''b'' ''bob'' ?d t")
  have new: "\<forall>m. rooms demo_s1 ''ch'' = Some m \<longrightarrow> m ''b'' = None" using r1 by auto
  have e: "[''a'' \<mapsto> ''ann''] \<noteq> Map.empty" by simp
  have rt: "rooms t = room_enter ''ch'' ''b'' ''bob'' (rooms demo_s1)" "res = None" "rooms u = rooms demo_s1"
    using join_leave_roundtrip[OF demo_env_ok demo_reachable(2) _ _ new t u] r1 e by simp_all
  have "rooms t ''ch'' \<noteq> rooms demo_s1 ''ch''"
    unfolding rt r1 by (auto simp: room_enter_def r1 fun_eq_iff dest!: spec[of _ "''b''"])
  then show ?thesis using t u rt by metis
qed

text \<open>
  C11: A reconnect keeps the participant. When it succeeds the rooms do not change, the new connection
  is bound to the same session of the same user, and a disconnect timer armed for the
  connection that was replaced does nothing when it fires.
\<close>

theorem reconnect_rebinds:
  assumes "reachable E s" and "connID \<noteq> ''''" and "handleReconnect E connID user d s = (None, t)"
  shows "rooms t = rooms s \<and> (\<exists>r c. sessionByConn connID t = Some (r, c)
    \<and> ss_sessionID (sv_heap t r) = getString d ''originalConnID'' \<and> ss_userID (sv_heap t r) = user
    \<and> ss_connID (sv_heap t r) = connID
    \<and> (ss_connID (sv_heap s r) \<notin> {'''', connID} \<longrightarrow> disconnectTimeout E c (ss_connID (sv_heap s r)) r t = t))"
proof -
  note inv = reachable_inv[OF assms(1)]
  obtain c r where "ci_get (sv_chan s) (getString d ''channelID'') = Some c"
      "cs_get (getString d ''originalConnID'') (sv_calls s c) = Some r"
    and e: "ss_userID (sv_heap s r) = user" "sv_heap t = (sv_heap s)(r := (sv_heap s r)\<lparr>ss_connID := connID\<rparr>)"
      "sv_timers t = sv_timers s" "ss_sessionID (sv_heap s r) = getString d ''originalConnID''"
      "byConnID (sv_index t) connID = Some c" "findByConn connID (sv_calls t c) = Some r"
      "ss_connID (sv_heap s r) \<notin> {'''', connID} \<longrightarrow> findByConn (ss_connID (sv_heap s r)) (sv_calls t c) = None"
    by (rule reconnect_effect[OF inv assms(2,3)])
  have "sessionByConn connID t = Some (r, c)" using e by (simp add: sessionByConn_def)
  moreover have "ss_connID (sv_heap s r) \<notin> {'''', connID} \<longrightarrow> disconnectTimeout E c (ss_connID (sv_heap s r)) r t = t"
    using e(7) by (simp add: disconnectTimeout_def)
  moreover have "rooms t = rooms s" using rooms_handleReconnect[of E connID user d s] assms(3) by simp
  ultimately show ?thesis using e by auto
qed

theorem reconnect_rebinds_witness:
  "\<exists>t r c. handleReconnect demo_env ''a2'' ''ann'' [(''channelID'', VStr ''ch''), (''originalConnID'', VStr ''a'')] demo_s2 = (None, t)
     \<and> sessionByConn ''a2'' t = Some (r, c) \<and> ss_sessionID (sv_heap t r) = ''a'' \<and> rooms t = rooms demo_s2"
proof -
  obtain ev sfu where s2: "demo_s2 = demo_at2 ev sfu" by (rule demo_s2_at)
  obtain t where t: "handleReconnect demo_env ''a2'' ''ann'' [(''channelID'', VStr ''ch''), (''originalConnID'', VStr ''a'')] demo_s2 = (None, t)"
    by (simp add: s2 demo_eval handleReconnect_def getString_def ci_get_def cs_get_def setConn_def split_def Let_def)
  from reconnect_rebinds[OF demo_reachable(3) _ t] t show ?thesis by (auto simp: getString_def)
qed

text \<open>
  C12: Only the host controls a call. A user who is not the host of a live call is refused by each of the
  seven host controls, and the state does not change at all, not even the clock.
\<close>

theorem host_controls_refuse_others:
  assumes "reachable E s" and "GetCallState k s = Inr v" and "user \<noteq> ''''"
    and "\<forall>w \<in> set (cv_Sessions v). sw_IsHost w \<longrightarrow> sw_UserID w \<noteq> user"
  shows "MakeHost k user new s = (Some ErrNotCallHost, s) \<and> MuteSession E k user sid s = (Some ErrNotCallHost, s)
    \<and> MuteOthers E k user s = (Some ErrNotCallHost, s) \<and> ScreenOff E k user sid s = (Some ErrNotCallHost, s)
    \<and> LowerHand k user sid s = (Some ErrNotCallHost, s) \<and> RemoveSession E k user sid s = (Some ErrNotCallHost, s)
    \<and> EndCallByHost E k user s = (Some ErrNotCallHost, s)"
  using not_host_refused[OF reachable_inv[OF assms(1)] assms(2,3,4)]
  by (simp add: MakeHost_def MuteSession_def MuteOthers_def ScreenOff_def LowerHand_def RemoveSession_def EndCallByHost_def)

theorem host_controls_refuse_others_witness:
  "RemoveSession demo_env ''kxxxx'' ''bob'' ''a'' demo_s2 = (Some ErrNotCallHost, demo_s2)
     \<and> EndCallByHost demo_env ''kxxxx'' ''bob'' demo_s2 = (Some ErrNotCallHost, demo_s2)"
proof -
  obtain ev sfu where s2: "demo_s2 = demo_at2 ev sfu" by (rule demo_s2_at)
  obtain v where v: "GetCallState ''kxxxx'' demo_s2 = Inr v"
      "\<forall>w \<in> set (cv_Sessions v). sw_IsHost w \<longrightarrow> sw_UserID w \<noteq> ''bob''"
    by (simp add: s2 demo_eval GetCallState_def reg_get_def shard_get_def shardFor_def callStateView_def
        snapshot_def session_view_def Let_def)
  from host_controls_refuse_others[OF demo_reachable(3) v(1) _ v(2)] show ?thesis by simp
qed

text \<open>
  Mute-others does what it says: when the SFU accepts the messages, afterwards every session of the call
  that belongs to another user is muted, the host's own sessions keep their microphone, and nothing else
  of any session changes.
\<close>

theorem MuteOthers_mutes_exactly_others:
  assumes "reachable E s" and "callForHostAction k user s = Inr c" and "sv_rtcd s"
    and "cs_rtcdHost (sv_calls s c) \<noteq> ''''" and "\<forall>n. \<not> en_send E n" and "GetCallState k s = Inr v"
  shows "\<exists>t. MuteOthers E k user s = (None, t)
    \<and> GetCallState k t = Inr (v\<lparr>cv_Sessions := map (\<lambda>w. if sw_UserID w = user then w else w\<lparr>sw_Unmuted := False\<rparr>) (cv_Sessions v)\<rparr>)"
proof -
  note inv = reachable_inv[OF assms(1)]
  define t where "t = snd (MuteOthers E k user s)"
  note m = muteOthers_heap[OF inv assms(2-5) t_def]
  have c: "reg_get (sv_shards s) k = Some c" by (rule callForHostActionD(2)[OF inv assms(2)])
  have v: "v = callStateView c s" using assms(6) c by (simp add: GetCallState_def)
  have "fst (snapshot (sv_heap t) (sv_calls t c)) =
      map (\<lambda>w. if sw_UserID w = user then w else w\<lparr>sw_Unmuted := False\<rparr>) (fst (snapshot (sv_heap s) (sv_calls s c)))"
    unfolding snapshot_def m(2) using m(3) by (auto simp: session_view_def)
  then have "callStateView c t = v\<lparr>cv_Sessions := map (\<lambda>w. if sw_UserID w = user then w else w\<lparr>sw_Unmuted := False\<rparr>) (cv_Sessions v)\<rparr>"
    by (simp add: v callStateView_def split_def Let_def m(2) snapshot_def)
  moreover have "MuteOthers E k user s = (None, t)" using assms(2) by (simp add: t_def MuteOthers_def)
  ultimately show ?thesis using c m(1) by (simp add: GetCallState_def)
qed

theorem MuteOthers_mutes_exactly_others_witness:
  "\<exists>t v. MuteOthers demo_env ''kxxxx'' ''ann'' demo_s2 = (None, t) \<and> GetCallState ''kxxxx'' t = Inr v
     \<and> map (\<lambda>w. (sw_ID w, sw_Unmuted w)) (cv_Sessions v) = [(''a'', True), (''b'', False)]"
proof -
  obtain ev sfu where s2: "demo_s2 = demo_at2 ev sfu" by (rule demo_s2_at)
  obtain v where v: "GetCallState ''kxxxx'' demo_s2 = Inr v"
      "map (\<lambda>w. (sw_ID w, sw_UserID w, sw_Unmuted w)) (cv_Sessions v) = [(''a'', ''ann'', True), (''b'', ''bob'', True)]"
    by (simp add: s2 demo_eval GetCallState_def reg_get_def shard_get_def shardFor_def callStateView_def
        snapshot_def session_view_def Let_def)
  have h: "callForHostAction ''kxxxx'' ''ann'' demo_s2 = Inr 0" "sv_rtcd demo_s2" "cs_rtcdHost (sv_calls demo_s2 0) \<noteq> ''''"
    by (simp_all add: s2 demo_eval callForHostAction_def reg_get_def shard_get_def shardFor_def hostUserID_def)
  have send: "\<forall>n. \<not> en_send demo_env n" by (simp add: demo_env_def)
  from MuteOthers_mutes_exactly_others[OF demo_reachable(3) h send v(1)] v(2) show ?thesis
    by (auto simp: map_eq_Cons_conv)
qed

text \<open>
  C13: No call is left behind. A run of the idle reaper ends every call without participants and leaves every
  call with participants exactly as it was.
\<close>

theorem reaper_ends_exactly_empty_calls:
  assumes "env_ok E" and "reachable E s"
  shows "rooms (reapIdleCalls E s) ch = (if rooms s ch = Some Map.empty then None else rooms s ch)"
  using rooms_reapIdleCalls[OF reachable_inv[OF assms(2)] assms(1)] by (simp add: room_sweep_def)

theorem reaper_ends_exactly_empty_calls_witness:
  "rooms (reapIdleCalls demo_env demo_s2) ''ch'' = Some [''a'' \<mapsto> ''ann'', ''b'' \<mapsto> ''bob'']"
proof -
  obtain ev sfu where s2: "demo_s2 = demo_at2 ev sfu" by (rule demo_s2_at)
  have r2: "rooms demo_s2 ''ch'' = Some [''a'' \<mapsto> ''ann'', ''b'' \<mapsto> ''bob'']"
    by (auto simp add: s2 demo_eval rooms_def members_def ci_get_def fun_eq_iff)
  have "[''a'' \<mapsto> ''ann'', ''b'' \<mapsto> ''bob''] \<noteq> Map.empty" by simp
  with reaper_ends_exactly_empty_calls[OF demo_env_ok demo_reachable(3), of "''ch''"] r2 show ?thesis by simp
qed

section \<open>Limits of the session index\<close>

text \<open>
  A second reconnect leaves a stale entry in the session index. The session id stays the original
  connection, so the index entry of the connection used in between is not removed: after reconnecting to
  \<^verbatim>\<open>a2\<close> and then to \<^verbatim>\<open>a3\<close>, connection \<^verbatim>\<open>a2\<close> still resolves to the call although no session is bound
  to it, and it still does after the call has ended.
\<close>

theorem second_reconnect_leaks_index_entry:
  "\<exists>t1 t2 t3.
     handleReconnect demo_env ''a2'' ''ann'' [(''channelID'', VStr ''ch''), (''originalConnID'', VStr ''a'')] demo_s2 = (None, t1)
   \<and> handleReconnect demo_env ''a3'' ''ann'' [(''channelID'', VStr ''ch''), (''originalConnID'', VStr ''a'')] t1 = (None, t2)
   \<and> byConnID (sv_index t2) ''a2'' = Some 0 \<and> findByConn ''a2'' (sv_calls t2 0) = None
   \<and> EndCall demo_env ''kxxxx'' t2 = (None, t3) \<and> byConnID (sv_index t3) ''a2'' = Some 0"
proof -
  obtain ev sfu where s2: "demo_s2 = demo_at2 ev sfu" by (rule demo_s2_at)
  let ?d = "[(''channelID'', VStr ''ch''), (''originalConnID'', VStr ''a'')]"
  define t1 where "t1 = snd (handleReconnect demo_env ''a2'' ''ann'' ?d demo_s2)"
  define t2 where "t2 = snd (handleReconnect demo_env ''a3'' ''ann'' ?d t1)"
  define t3 where "t3 = snd (EndCall demo_env ''kxxxx'' t2)"
  note defs = demo_eval handleReconnect_def getString_def ci_get_def cs_get_def setConn_def split_def Let_def
    repoint_def sendToHost_def demo_env_def tick_def sendCallState_def publishTo_def broadcast_def snapshot_def
  have 1: "handleReconnect demo_env ''a2'' ''ann'' ?d demo_s2 = (None, t1)"
    by (simp add: t1_def s2 prod_eq_iff defs)
  have 2: "handleReconnect demo_env ''a3'' ''ann'' ?d t1 = (None, t2)"
    by (simp add: t2_def t1_def s2 prod_eq_iff defs)
  have i2: "byConnID (sv_index t2) ''a2'' = Some 0" "findByConn ''a2'' (sv_calls t2 0) = None"
    "reg_get (sv_shards t2) ''kxxxx'' = Some 0" "\<not> ended (sv_calls t2 0)"
    "sessionIDs (sv_calls t2 0) = [''a'', ''b'']" "connIDFor ''a'' (sv_heap t2) (sv_calls t2 0) = ''a3''"
    "connIDFor ''b'' (sv_heap t2) (sv_calls t2 0) = ''b''"
    by (simp_all add: t2_def t1_def s2 defs byConnID_def findByConn_def reg_get_def shard_get_def shardFor_def
        ended_def sessionIDs_def connIDFor_def)
  obtain st where st: "fst (EndCall demo_env ''kxxxx'' t2) = None"
      "quiet (endCore 0 (en_now demo_env (sv_tick t2)) st (tick t2)) t3"
    using endCallState_quiet[of "tick t2" 0 demo_env "en_now demo_env (sv_tick t2)"] i2(3,4)
    by (auto simp: EndCall_def GetMillis_def tick_def t3_def)
  have "byConnID (sv_index t3) ''a2'' = Some 0"
    using quietD(7)[OF st(2)] i2
    by (simp add: endCore_def Let_def byConnID_def unlinkAll_byConn tick_def sessionIDs_def connIDFor_def)
  with 1 2 i2 st show ?thesis by (metis prod.collapse t3_def)
qed

text \<open>
  One connection in two calls breaks the session index. The index keeps one call per connection, so when
  connection \<^verbatim>\<open>a\<close> joins a second channel and then leaves the first, the member is still in the second
  room, but its connection resolves to no session any more: mute, screen and relay messages are refused.
\<close>

theorem two_calls_one_connection:
  "\<exists>t u. handleJoin demo_env ''a'' ''ann'' [(''channelID'', VStr ''ch2'')] demo_s2 = (None, t)
   \<and> handleLeave demo_env ''a'' ''ann'' [(''channelID'', VStr ''ch'')] t = (None, u)
   \<and> rooms u ''ch2'' = Some [''a'' \<mapsto> ''ann''] \<and> sessionByConn ''a'' u = None
   \<and> handleMuteToggle demo_env ''a'' ''ann'' False u = (Some ErrSessionNotFound, u)"
proof -
  obtain ev sfu where s2: "demo_s2 = demo_at2 ev sfu" by (rule demo_s2_at)
  define t where "t = snd (handleJoin demo_env ''a'' ''ann'' [(''channelID'', VStr ''ch2'')] demo_s2)"
  define u where "u = snd (handleLeave demo_env ''a'' ''ann'' [(''channelID'', VStr ''ch'')] t)"
  note defs = demo_eval demo_join_defs demo_cfg_def SetDefaults_def orDefault_def eval_nat_numeral
  have 1: "handleJoin demo_env ''a'' ''ann'' [(''channelID'', VStr ''ch2'')] demo_s2 = (None, t)"
    by (simp add: t_def s2 prod_eq_iff defs cong: option.case_cong)
  note fields = t_def s2 defs
  have c: "ci_get (sv_chan t) ''ch'' = Some 0" "ci_get (sv_chan t) ''ch2'' = Some 1"
    "sv_calls t 0 = demo_live [(''a'', 0), (''b'', 1)] 2" "sv_heap t 0 = demo_member ''a'' ''ann'' 1001" "sv_heap t 1 = demo_member ''b'' ''bob'' 1013"
    "cs_sessions (sv_calls t 1) = [(''a'', 2)]" "ss_userID (sv_heap t 2) = ''ann''" "sv_rtcd t"
    by (simp_all add: fields cong: option.case_cong)
  have live: "sv_chan u = sv_chan t" "sv_heap u = sv_heap t" "sv_calls u 1 = sv_calls t 1" "byConnID (sv_index u) ''a'' = None"
    "fst (handleLeave demo_env ''a'' ''ann'' [(''channelID'', VStr ''ch'')] t) = None"
    by (simp_all add: u_def handleLeave_def removeSession_def getString_def c findByConn_def demo_live_def teardownSession_def
        demo_member_def Let_def split_def sendToHost_def demo_env_def tick_def GetMillis_def db_EndSession_def
        publishChannel_def broadcast_def participants_def byConnID_def unlink_def)
  have "rooms u ''ch2'' = Some [''a'' \<mapsto> ''ann'']"
    by (simp add: rooms_def live c members_def fun_eq_iff live(3)[simplified] c(6)[simplified])
  moreover have "sessionByConn ''a'' u = None" by (simp add: sessionByConn_def live)
  ultimately show ?thesis using 1 live by (auto simp: handleMuteToggle_def u_def prod_eq_iff)
qed

end
